(* ===== verification/Prelude.thy ===== *)
theory Prelude
  imports Main "HOL-Library.AList"
begin

text \<open>
  Shared vocabulary of the development: the names of the model's basic types, JavaScript's
  truthiness and \<open>||\<close> defaults on numbers and strings, the insertion-ordered
  \<^verbatim>\<open>Map\<close> of JavaScript as an association list, and the combinators of
  \<^verbatim>\<open>async\<close> code that may throw: a computation takes the state and returns either an
  error (a rejected promise) or a value, together with the state it leaves behind.
\<close>

named_theorems async_simps "unfolding of the sequencing combinators"
named_theorems jsmap_simps "lookup after an update of an insertion-ordered map"

section \<open>Basic types\<close>

type_synonym msec = int
  \<comment> \<open>\<^verbatim>\<open>Date.now()\<close>, milliseconds since the epoch\<close>

type_synonym ('k, 'v) jsmap = "('k \<times> 'v) list"
  \<comment> \<open>\<^verbatim>\<open>Map<K, V>\<close>: iteration follows insertion order, an update keeps the place\<close>

section \<open>JavaScript defaults and rounding\<close>

definition js_or_num :: "int option \<Rightarrow> int \<Rightarrow> int" where
  "js_or_num x d = (case x of None \<Rightarrow> d | Some n \<Rightarrow> if n = 0 then d else n)"
  \<comment> \<open>\<^verbatim>\<open>x || d\<close> on an optional number: both undefined and 0 give the default\<close>

definition js_or_str :: "string option \<Rightarrow> string \<Rightarrow> string" where
  "js_or_str x d = (case x of None \<Rightarrow> d | Some s \<Rightarrow> if s = '''' then d else s)"

definition js_nullish :: "'a option \<Rightarrow> 'a \<Rightarrow> 'a" where
  "js_nullish x d = (case x of None \<Rightarrow> d | Some v \<Rightarrow> v)"
  \<comment> \<open>\<^verbatim>\<open>x ?? d\<close>\<close>

definition ceil_div :: "int \<Rightarrow> int \<Rightarrow> int" where
  "ceil_div a b = - ((- a) div b)"
  \<comment> \<open>\<^verbatim>\<open>Math.ceil(a / b)\<close> for a positive \<open>b\<close>\<close>

lemma js_nullish_simps [simp]:
  "js_nullish None d = d" "js_nullish (Some v) d = v"
  by (simp_all add: js_nullish_def)

lemma ceil_div_bounds:
  assumes "0 < b"
  shows "a \<le> ceil_div a b * b" "ceil_div a b * b < a + b"
proof -
  have m: "(- a) = b * ((- a) div b) + (- a) mod b" by simp
  have "0 \<le> (- a) mod b" "(- a) mod b < b" using assms by simp_all
  with m have "- (b * ((- a) div b)) \<ge> a" "- (b * ((- a) div b)) < a + b"
    by linarith+
  then show "a \<le> ceil_div a b * b" "ceil_div a b * b < a + b"
    by (simp_all add: ceil_div_def mult.commute)
qed

lemma ceil_div_pos_iff:
  assumes "0 < b"
  shows "0 < ceil_div a b \<longleftrightarrow> 0 < a"
proof -
  have "0 < ceil_div a b \<longleftrightarrow> (- a) div b < 0"
    by (simp add: ceil_div_def)
  also have "\<dots> \<longleftrightarrow> - a < 0"
    using assms by (rule pos_imp_zdiv_neg_iff)
  finally show ?thesis by simp
qed

definition js_spread :: "'a option \<Rightarrow> 'a option \<Rightarrow> 'a option" where
  "js_spread a b = (case b of None \<Rightarrow> a | Some x \<Rightarrow> Some x)"
  \<comment> \<open>one field of \<^verbatim>\<open>{ ...a, ...b }\<close>: the later object wins where it has the field\<close>

text \<open>What the code inspects of a thrown value: its name, its class and its message.\<close>

record js_error =
  err_name :: string
  err_ctor :: string
  err_message :: string

definition new_Error :: "string \<Rightarrow> js_error" where
  "new_Error msg = \<lparr>err_name = ''Error'', err_ctor = ''Error'', err_message = msg\<rparr>"

text \<open>\<^verbatim>\<open>s.length\<close> counts UTF-16 units; a string here is a list of UTF-8 bytes.\<close>

definition js_length :: "string \<Rightarrow> nat" where
  "js_length s = sum_list (map (\<lambda>c. let n = of_char c :: nat in if n < 128 then 1 else if n < 192 then 0 else if n < 240 then 1 else 2) s)"

section \<open>Insertion-ordered maps\<close>

lemma map_of_jsmap_set [jsmap_simps]:
  "map_of (AList.update k v m) k' = (if k' = k then Some v else map_of m k')"
  by (simp add: update_conv')

lemma map_of_jsmap_delete [jsmap_simps]:
  "map_of (AList.delete k m) k' = (if k' = k then None else map_of m k')"
  by (simp add: delete_conv')

lemma length_jsmap_set:
  "length (AList.update k v m) = (if map_of m k = None then Suc (length m) else length m)"
proof (induction m)
  case Nil
  then show ?case by simp
next
  case (Cons p m)
  then show ?case by (cases p) auto
qed

lemma length_jsmap_delete: "length (AList.delete k m) \<le> length m"
  by (simp add: AList.delete_eq)

lemma length_jsmap_delete_present:
  "map_of m k \<noteq> None \<Longrightarrow> length (AList.delete k m) < length m"
proof (induction m)
  case Nil
  then show ?case by simp
next
  case (Cons p m)
  then show ?case
    by (cases p) (use length_jsmap_delete [of k m] in \<open>auto split: if_splits\<close>)
qed

lemma delete_absent: "map_of m k = None \<Longrightarrow> AList.delete k m = m"
  by (induction m) (auto simp: AList.delete_eq split: if_splits)

section \<open>Sequencing of asynchronous code that may throw\<close>

type_synonym ('s, 'e, 'a) async = "'s \<Rightarrow> ('e + 'a) \<times> 's"

definition ret :: "'a \<Rightarrow> ('s, 'e, 'a) async" where
  "ret x = (\<lambda>s. (Inr x, s))"

definition throw :: "'e \<Rightarrow> ('s, 'e, 'a) async" where
  "throw e = (\<lambda>s. (Inl e, s))"

definition bnd :: "('s, 'e, 'a) async \<Rightarrow> ('a \<Rightarrow> ('s, 'e, 'b) async) \<Rightarrow> ('s, 'e, 'b) async" where
  "bnd m f = (\<lambda>s. case m s of (Inl e, s') \<Rightarrow> (Inl e, s') | (Inr x, s') \<Rightarrow> f x s')"
  \<comment> \<open>\<^verbatim>\<open>const x = await m; ...\<close>\<close>

definition seq :: "('s, 'e, 'a) async \<Rightarrow> ('s, 'e, 'b) async \<Rightarrow> ('s, 'e, 'b) async" where
  "seq m n = bnd m (\<lambda>_. n)"

definition try_catch ::
  "('s, 'e, 'a) async \<Rightarrow> ('e \<Rightarrow> ('s, 'e, 'a) async) \<Rightarrow> ('s, 'e, 'a) async" where
  "try_catch m h = (\<lambda>s. case m s of (Inl e, s') \<Rightarrow> h e s' | (Inr x, s') \<Rightarrow> (Inr x, s'))"

definition reads :: "('s \<Rightarrow> 'a) \<Rightarrow> ('s, 'e, 'a) async" where
  "reads f = (\<lambda>s. (Inr (f s), s))"

definition writes :: "('s \<Rightarrow> 's) \<Rightarrow> ('s, 'e, unit) async" where
  "writes f = (\<lambda>s. (Inr (), f s))"

lemma ret_app [async_simps]: "ret x s = (Inr x, s)"
  by (simp add: ret_def)

lemma throw_app [async_simps]: "throw e s = (Inl e, s)"
  by (simp add: throw_def)

lemma bnd_app [async_simps]:
  "bnd m f s = (case m s of (Inl e, s') \<Rightarrow> (Inl e, s') | (Inr x, s') \<Rightarrow> f x s')"
  by (simp add: bnd_def)

lemma seq_app [async_simps]:
  "seq m n s = (case m s of (Inl e, s') \<Rightarrow> (Inl e, s') | (Inr x, s') \<Rightarrow> n s')"
  by (simp add: seq_def bnd_def)

lemma try_catch_app [async_simps]:
  "try_catch m h s = (case m s of (Inl e, s') \<Rightarrow> h e s' | (Inr x, s') \<Rightarrow> (Inr x, s'))"
  by (simp add: try_catch_def)

lemma reads_app [async_simps]: "reads f s = (Inr (f s), s)"
  by (simp add: reads_def)

lemma writes_app [async_simps]: "writes f s = (Inr (), f s)"
  by (simp add: writes_def)

text \<open>Sequencing is associative, so a handler may be split anywhere.\<close>

lemma bnd_assoc: "bnd (bnd m f) g = bnd m (\<lambda>x. bnd (f x) g)"
  by (rule ext) (simp add: bnd_def split: prod.splits sum.splits)

lemma bnd_ret [simp]: "bnd (ret x) f = f x" "bnd m ret = m"
  by (rule ext, simp add: bnd_def ret_def split: prod.splits sum.splits)+

section \<open>What a computation can throw\<close>

definition only_fails :: "'e set \<Rightarrow> ('s, 'e, 'a) async \<Rightarrow> bool" where
  "only_fails E m \<longleftrightarrow> (\<forall>s e s'. m s = (Inl e, s') \<longrightarrow> e \<in> E)"

lemma only_failsD: "only_fails E m \<Longrightarrow> m s = (Inl e, s') \<Longrightarrow> e \<in> E"
  unfolding only_fails_def by blast

lemma only_fails_pure: "only_fails E (ret x)" "only_fails E (reads f)" "only_fails E (writes g)"
  by (simp_all add: only_fails_def async_simps)

lemma only_fails_throw: "e \<in> E \<Longrightarrow> only_fails E (throw e)"
  by (simp add: only_fails_def async_simps)

lemma only_fails_bnd: "only_fails E m \<Longrightarrow> (\<And>x. only_fails E (f x)) \<Longrightarrow> only_fails E (bnd m f)"
  unfolding only_fails_def bnd_app by (auto split: prod.splits sum.splits)

lemma only_fails_seq: "only_fails E m \<Longrightarrow> only_fails E n \<Longrightarrow> only_fails E (seq m n)"
  unfolding seq_def by (rule only_fails_bnd)

lemma only_fails_if: "(b \<Longrightarrow> only_fails E m) \<Longrightarrow> (\<not> b \<Longrightarrow> only_fails E n) \<Longrightarrow> only_fails E (if b then m else n)"
  by simp

lemmas only_fails_rules = only_fails_pure only_fails_throw only_fails_bnd only_fails_seq only_fails_if

section \<open>What a computation does to the state\<close>

text \<open>
  A preorder on states that every step of a computation keeps is respected by the computation:
  the rules follow the sequencing combinators.
\<close>

locale evolution =
  fixes R :: "'s \<Rightarrow> 's \<Rightarrow> bool"
  assumes R_refl: "R s s" and R_trans: "R s s' \<Longrightarrow> R s' s'' \<Longrightarrow> R s s''"
begin

definition keeps :: "('s, 'e, 'a) async \<Rightarrow> bool" where
  "keeps m \<longleftrightarrow> (\<forall>s. R s (snd (m s)))"

lemma keepsD: "keeps m \<Longrightarrow> R s (snd (m s))"
  by (simp add: keeps_def)

lemma keeps_pure: "keeps (ret x)" "keeps (throw e)" "keeps (reads f)"
  by (simp_all add: keeps_def async_simps R_refl)

lemma keeps_writes: "(\<And>s. R s (f s)) \<Longrightarrow> keeps (writes f)"
  by (simp add: keeps_def async_simps)

lemma keeps_bnd: "keeps m \<Longrightarrow> (\<And>x. keeps (f x)) \<Longrightarrow> keeps (bnd m f)"
  unfolding keeps_def bnd_app
  by (auto split: prod.splits sum.splits intro: R_trans) (metis R_trans snd_conv)+

lemma keeps_seq: "keeps m \<Longrightarrow> keeps n \<Longrightarrow> keeps (seq m n)"
  unfolding seq_def by (rule keeps_bnd)

lemma keeps_try: "keeps m \<Longrightarrow> (\<And>e. keeps (h e)) \<Longrightarrow> keeps (try_catch m h)"
  unfolding keeps_def try_catch_app
  by (auto split: prod.splits sum.splits intro: R_trans) (metis R_trans snd_conv)+

lemma keeps_if: "(b \<Longrightarrow> keeps m) \<Longrightarrow> (\<not> b \<Longrightarrow> keeps n) \<Longrightarrow> keeps (if b then m else n)"
  by simp

lemma keeps_option:
  "(v = None \<Longrightarrow> keeps m) \<Longrightarrow> (\<And>x. v = Some x \<Longrightarrow> keeps (f x)) \<Longrightarrow>
   keeps (case v of None \<Rightarrow> m | Some x \<Rightarrow> f x)"
  by (simp split: option.splits)

lemmas keeps_rules = keeps_pure keeps_writes keeps_bnd keeps_seq keeps_try keeps_if keeps_option

end

section \<open>Strings\<close>

lemma append_sep_inject:
  assumes "x \<notin> set a" and "x \<notin> set c"
  shows "a @ x # b = c @ x # d \<longleftrightarrow> a = c \<and> b = d"
proof
  assume eq: "a @ x # b = c @ x # d"
  have tw: "takeWhile (\<lambda>y. y \<noteq> x) (a @ x # b) = a" if "x \<notin> set a" for a b
    using that by (induction a) auto
  from tw [OF assms(1), of b] tw [OF assms(2), of d] eq have "a = c" by simp
  with eq show "a = c \<and> b = d" by simp
qed simp

section \<open>Decimal numerals\<close>

definition digit_char :: "nat \<Rightarrow> char" where
  "digit_char n = char_of (48 + n)"

fun js_nat_str :: "nat \<Rightarrow> string" where
  "js_nat_str n = (if n < 10 then [digit_char n] else js_nat_str (n div 10) @ [digit_char (n mod 10)])"

declare js_nat_str.simps [simp del]

definition is_digit :: "char \<Rightarrow> bool" where
  "is_digit c \<longleftrightarrow> 48 \<le> (of_char c :: nat) \<and> (of_char c :: nat) \<le> 57"

definition js_int_str :: "int \<Rightarrow> string" where
  "js_int_str n = (if n < 0 then ''-'' @ js_nat_str (nat (- n)) else js_nat_str (nat n))"
  \<comment> \<open>\<^verbatim>\<open>String(n)\<close> and template interpolation of an integer\<close>

definition padStart :: "nat \<Rightarrow> char \<Rightarrow> string \<Rightarrow> string" where
  "padStart n c s = replicate (n - length s) c @ s"

definition parse_dec :: "string \<Rightarrow> nat" where
  "parse_dec s = foldl (\<lambda>acc c. acc * 10 + (of_char c - 48)) 0 s"

lemma digit_char_code [simp]: "n < 10 \<Longrightarrow> (of_char (digit_char n) :: nat) = 48 + n"
  by (simp add: digit_char_def)

lemma is_digit_digit_char [simp]: "n < 10 \<Longrightarrow> is_digit (digit_char n)"
  by (simp add: is_digit_def)

lemma js_nat_str_digits: "c \<in> set (js_nat_str n) \<Longrightarrow> is_digit c"
proof (induction n rule: js_nat_str.induct)
  case (1 n)
  then show ?case
    by (cases "n < 10") (auto simp: js_nat_str.simps [of n])
qed

lemma js_nat_str_nonempty [simp]: "js_nat_str n \<noteq> []"
  by (subst js_nat_str.simps) simp

lemma parse_dec_js_nat_str: "parse_dec (js_nat_str n) = n"
proof (induction n rule: js_nat_str.induct)
  case (1 n)
  then show ?case
    by (cases "n < 10") (simp_all add: js_nat_str.simps [of n] parse_dec_def)
qed

lemma parse_dec_zeros: "parse_dec (replicate k CHR ''0'' @ s) = parse_dec s"
  by (induction k) (simp_all add: parse_dec_def)

lemma parse_dec_padStart: "parse_dec (padStart k CHR ''0'' (js_nat_str n)) = n"
  by (simp add: padStart_def parse_dec_zeros parse_dec_js_nat_str)

lemma js_nat_str_inject [simp]: "js_nat_str m = js_nat_str n \<longleftrightarrow> m = n"
  by (metis parse_dec_js_nat_str)

lemma padStart_inject:
  "padStart k CHR ''0'' (js_nat_str m) = padStart k CHR ''0'' (js_nat_str n) \<longleftrightarrow> m = n"
  by (metis parse_dec_padStart)

lemma js_nat_str_length: "n < 10 ^ k \<Longrightarrow> 0 < k \<Longrightarrow> length (js_nat_str n) \<le> k"
proof (induction k arbitrary: n)
  case (Suc k)
  show ?case
  proof (cases "n < 10")
    case True
    then show ?thesis by (simp add: js_nat_str.simps [of n])
  next
    case False
    then have "0 < k" using Suc.prems by (cases k) auto
    moreover have "n div 10 < 10 ^ k" using Suc.prems by (simp add: div_less_iff_less_mult mult.commute)
    ultimately have "length (js_nat_str (n div 10)) \<le> k" using Suc.IH by simp
    with False show ?thesis by (simp add: js_nat_str.simps [of n])
  qed
qed simp

lemma padStart_length: "n < 10 ^ k \<Longrightarrow> 0 < k \<Longrightarrow> length (padStart k c (js_nat_str n)) = k"
  using js_nat_str_length [of n k] by (simp add: padStart_def)

lemma padStart_digits: "c \<in> set (padStart k CHR ''0'' (js_nat_str n)) \<Longrightarrow> is_digit c"
  by (auto simp: padStart_def is_digit_def [of "CHR ''0''"] dest: js_nat_str_digits split: if_splits)

lemma jsmap_set_absent: "map_of m k = None \<Longrightarrow> AList.update k v m = m @ [(k, v)]"
  by (induction m) (auto split: if_splits)

end
