(* ===== verification/Memory_Cache.thy ===== *)
theory Memory_Cache
  imports Prelude "HOL-Library.Sublist"
begin

text \<open>
  The cache port \<^verbatim>\<open>ICacheService\<close> (src/libs/core/infrastructure/caching and
  src/libs/shared/caching/cache.interface.ts) and its in-process implementation
  \<^verbatim>\<open>MemoryCacheService\<close> (src/libs/shared/caching/memory-cache.service.ts): entries with an
  optional expiry, eviction of the oldest key when the cache is full, set-if-absent, counters and
  deletion by glob pattern. The locale \<open>ttl_cache\<close> is the contract the clients of the port rely
  on; it is interpreted here on the in-process implementation.
\<close>

section \<open>The port\<close>

text \<open>
  The operations of the port that the clients of this development call. Of these only
  \<open>set\<close> and \<open>deleteByPattern\<close> can reject (the Redis implementation rethrows there and
  swallows errors everywhere else): \<open>set\<close> returns whether the promise resolved,
  \<open>deleteByPattern\<close> returns the number of keys or \<open>None\<close>.
\<close>

record ('c, 'v) ICacheService =
  ic_get :: "msec \<Rightarrow> string \<Rightarrow> 'c \<Rightarrow> 'v option \<times> 'c"
  ic_set :: "msec \<Rightarrow> string \<Rightarrow> 'v \<Rightarrow> int option \<Rightarrow> 'c \<Rightarrow> bool \<times> 'c"
  ic_setIfNotExist :: "msec \<Rightarrow> string \<Rightarrow> 'v \<Rightarrow> int option \<Rightarrow> 'c \<Rightarrow> bool \<times> 'c"
  ic_delete :: "string \<Rightarrow> 'c \<Rightarrow> 'c"
  ic_ttl :: "msec \<Rightarrow> string \<Rightarrow> 'c \<Rightarrow> int"
  ic_deleteByPattern :: "string \<Rightarrow> 'c \<Rightarrow> nat option \<times> 'c"

section \<open>The in-process implementation\<close>

record 'v cache_entry =
  ce_value :: 'v
  ce_expiry :: "msec option"

record cache_options =
  co_defaultTtl :: "int option"
  co_keyPrefix :: "string option"
  co_maxEntries :: "int option"

record 'v memory_cache =
  mc_cache :: "(string, 'v cache_entry) jsmap"
  mc_defaultTtl :: int
  mc_keyPrefix :: string
  mc_maxEntries :: int

definition mc_new :: "cache_options \<Rightarrow> 'v memory_cache" where
  "mc_new opts = \<lparr>mc_cache = [],
     mc_defaultTtl = js_or_num (co_defaultTtl opts) 300,
     mc_keyPrefix = js_or_str (co_keyPrefix opts) '''',
     mc_maxEntries = js_or_num (co_maxEntries opts) 1000\<rparr>"

definition mc_getFullKey :: "'v memory_cache \<Rightarrow> string \<Rightarrow> string" where
  "mc_getFullKey c key = (if mc_keyPrefix c \<noteq> '''' then mc_keyPrefix c @ '':'' @ key else key)"

text \<open>\<^verbatim>\<open>entry.expiry && Date.now() > entry.expiry\<close>: an expiry of 0 is falsy.\<close>

definition entry_expired :: "msec \<Rightarrow> 'v cache_entry \<Rightarrow> bool" where
  "entry_expired now e = (case ce_expiry e of None \<Rightarrow> False | Some x \<Rightarrow> x \<noteq> 0 \<and> now > x)"

definition mc_get :: "msec \<Rightarrow> string \<Rightarrow> 'v memory_cache \<Rightarrow> 'v option \<times> 'v memory_cache" where
  "mc_get now key c =
     (let fullKey = mc_getFullKey c key in
      case map_of (mc_cache c) fullKey of
        None \<Rightarrow> (None, c)
      | Some entry \<Rightarrow>
          if entry_expired now entry
          then (None, c\<lparr>mc_cache := AList.delete fullKey (mc_cache c)\<rparr>)
          else (Some (ce_value entry), c))"

text \<open>The oldest key is dropped when a new key meets a full cache; the empty key is falsy.\<close>

definition mc_evict :: "string \<Rightarrow> 'v memory_cache \<Rightarrow> (string, 'v cache_entry) jsmap" where
  "mc_evict fullKey c =
     (if int (length (mc_cache c)) \<ge> mc_maxEntries c \<and> map_of (mc_cache c) fullKey = None
      then (case mc_cache c of
              [] \<Rightarrow> []
            | (firstKey, _) # _ \<Rightarrow>
                if firstKey \<noteq> '''' then AList.delete firstKey (mc_cache c) else mc_cache c)
      else mc_cache c)"

definition mc_expiry :: "msec \<Rightarrow> int option \<Rightarrow> msec option" where
  "mc_expiry now ttl = (case ttl of None \<Rightarrow> None
     | Some t \<Rightarrow> if t = 0 then None else Some (now + t * 1000))"

definition mc_set ::
  "msec \<Rightarrow> string \<Rightarrow> 'v \<Rightarrow> int option \<Rightarrow> 'v memory_cache \<Rightarrow> 'v memory_cache" where
  "mc_set now key value ttl c =
     (let fullKey = mc_getFullKey c key in
      c\<lparr>mc_cache := AList.update fullKey \<lparr>ce_value = value, ce_expiry = mc_expiry now ttl\<rparr>
                      (mc_evict fullKey c)\<rparr>)"

definition mc_setIfNotExist ::
  "msec \<Rightarrow> string \<Rightarrow> 'v \<Rightarrow> int option \<Rightarrow> 'v memory_cache \<Rightarrow> bool \<times> 'v memory_cache" where
  "mc_setIfNotExist now key value ttl c =
     (case map_of (mc_cache c) (mc_getFullKey c key) of
        Some existing \<Rightarrow>
          if (case ce_expiry existing of None \<Rightarrow> True | Some x \<Rightarrow> x > now) then (False, c)
          else (True, mc_set now key value ttl c)
      | None \<Rightarrow> (True, mc_set now key value ttl c))"

definition mc_delete :: "string \<Rightarrow> 'v memory_cache \<Rightarrow> 'v memory_cache" where
  "mc_delete key c = c\<lparr>mc_cache := AList.delete (mc_getFullKey c key) (mc_cache c)\<rparr>"

definition mc_exists :: "msec \<Rightarrow> string \<Rightarrow> 'v memory_cache \<Rightarrow> bool \<times> 'v memory_cache" where
  "mc_exists now key c =
     (let fullKey = mc_getFullKey c key in
      case map_of (mc_cache c) fullKey of
        None \<Rightarrow> (False, c)
      | Some entry \<Rightarrow>
          if entry_expired now entry
          then (False, c\<lparr>mc_cache := AList.delete fullKey (mc_cache c)\<rparr>)
          else (True, c))"

definition mc_clear :: "'v memory_cache \<Rightarrow> 'v memory_cache" where
  "mc_clear c = c\<lparr>mc_cache := []\<rparr>"

fun mc_mget :: "msec \<Rightarrow> string list \<Rightarrow> 'v memory_cache \<Rightarrow> 'v option list \<times> 'v memory_cache" where
  "mc_mget now [] c = ([], c)"
| "mc_mget now (key # keys) c =
     (let (r, c1) = mc_get now key c; (rs, c2) = mc_mget now keys c1 in (r # rs, c2))"

fun mc_mset :: "msec \<Rightarrow> (string \<times> 'v \<times> int option) list \<Rightarrow> 'v memory_cache \<Rightarrow> 'v memory_cache" where
  "mc_mset now [] c = c"
| "mc_mset now ((key, value, ttl) # entries) c = mc_mset now entries (mc_set now key value ttl c)"

fun mc_mdelete :: "string list \<Rightarrow> 'v memory_cache \<Rightarrow> 'v memory_cache" where
  "mc_mdelete [] c = c"
| "mc_mdelete (key # keys) c = mc_mdelete keys (mc_delete key c)"

text \<open>\<^verbatim>\<open>incr\<close> and \<^verbatim>\<open>decr\<close> write back without a TTL argument, hence without expiry.\<close>

definition mc_incr :: "msec \<Rightarrow> string \<Rightarrow> int \<Rightarrow> int memory_cache \<Rightarrow> int \<times> int memory_cache" where
  "mc_incr now key by c =
     (let (current, c1) = mc_get now key c;
          newValue = js_or_num current 0 + by
      in (newValue, mc_set now key newValue None c1))"

definition mc_decr :: "msec \<Rightarrow> string \<Rightarrow> int \<Rightarrow> int memory_cache \<Rightarrow> int \<times> int memory_cache" where
  "mc_decr now key by c =
     (let (current, c1) = mc_get now key c;
          newValue = js_or_num current 0 - by
      in (newValue, mc_set now key newValue None c1))"

definition mc_ttl :: "msec \<Rightarrow> string \<Rightarrow> 'v memory_cache \<Rightarrow> int" where
  "mc_ttl now key c =
     (case map_of (mc_cache c) (mc_getFullKey c key) of
        None \<Rightarrow> -1
      | Some entry \<Rightarrow>
          (case ce_expiry entry of
             None \<Rightarrow> -1
           | Some x \<Rightarrow> if x = 0 then -1
               else let remaining = ceil_div (x - now) 1000
                    in if remaining > 0 then remaining else -2))"

text \<open>
  \<^verbatim>\<open>globToRegex\<close> escapes every regular-expression metacharacter, brackets included, and then
  turns \<open>*\<close> into \<open>.*\<close> and \<open>?\<close> into \<open>.\<close>; the dot of JavaScript matches no line
  terminator. Two of the four are single bytes; keys with the other two, U+2028 and U+2029, are outside the model.
\<close>

definition js_dot :: "char \<Rightarrow> bool" where
  "js_dot ch = (ch \<noteq> CHR 0x0A \<and> ch \<noteq> CHR 0x0D)"

fun glob_match :: "string \<Rightarrow> string \<Rightarrow> bool" where
  "glob_match [] s = (s = [])"
| "glob_match (p # ps) [] = (p = CHR ''*'' \<and> glob_match ps [])"
| "glob_match (p # ps) (x # xs) =
     (if p = CHR ''*'' then glob_match ps (x # xs) \<or> (js_dot x \<and> glob_match (p # ps) xs)
      else if p = CHR ''?'' then js_dot x \<and> glob_match ps xs
      else p = x \<and> glob_match ps xs)"

definition mc_deleteByPattern :: "string \<Rightarrow> 'v memory_cache \<Rightarrow> nat \<times> 'v memory_cache" where
  "mc_deleteByPattern pattern c =
     (let fullPattern = mc_getFullKey c pattern;
          hit = (\<lambda>(k, _). glob_match fullPattern k)
      in (length (filter hit (mc_cache c)),
          c\<lparr>mc_cache := filter (\<lambda>p. \<not> hit p) (mc_cache c)\<rparr>))"

definition mc_cleanup :: "msec \<Rightarrow> 'v memory_cache \<Rightarrow> 'v memory_cache" where
  "mc_cleanup now c = c\<lparr>mc_cache := filter (\<lambda>(k, e). \<not> entry_expired now e) (mc_cache c)\<rparr>"

definition mc_getStats :: "'v memory_cache \<Rightarrow> nat \<times> int \<times> int" where
  "mc_getStats c = (length (mc_cache c), mc_maxEntries c, 0)"

text \<open>The in-process implementation behind the port: nothing rejects.\<close>

definition memory_cache_service :: "('v memory_cache, 'v) ICacheService" where
  "memory_cache_service = \<lparr>
     ic_get = mc_get,
     ic_set = (\<lambda>now key v ttl c. (True, mc_set now key v ttl c)),
     ic_setIfNotExist = mc_setIfNotExist,
     ic_delete = mc_delete,
     ic_ttl = mc_ttl,
     ic_deleteByPattern = (\<lambda>pat c. (case mc_deleteByPattern pat c of (n, c') \<Rightarrow> (Some n, c')))\<rparr>"

section \<open>The contract of the port\<close>

text \<open>
  What a client may rely on: \<open>view t c k\<close> is what a read of \<open>k\<close> at time \<open>t\<close> shows,
  \<open>free c\<close> is how many new keys fit before an eviction. A read shows the view and changes no
  later view; a write that resolves makes its value visible for exactly its time to live and
  touches no other key while there is room; a deletion hides one key.
\<close>

locale ttl_cache =
  fixes ic :: "('c, 'v) ICacheService"
    and view :: "msec \<Rightarrow> 'c \<Rightarrow> string \<Rightarrow> 'v option"
    and free :: "'c \<Rightarrow> nat"
  assumes get_view: "fst (ic_get ic t k c) = view t c k"
    and get_keeps: "t \<le> t' \<Longrightarrow> view t' (snd (ic_get ic t k c)) k' = view t' c k'"
    and get_free: "free c \<le> free (snd (ic_get ic t k c))"
    and set_view: "fst (ic_set ic t k v (Some ttl) c) \<Longrightarrow> 0 \<le> t \<Longrightarrow> 0 < ttl \<Longrightarrow> 0 < free c \<Longrightarrow>
      view t' (snd (ic_set ic t k v (Some ttl) c)) k' =
        (if k' = k then (if t' \<le> t + ttl * 1000 then Some v else None) else view t' c k')"
    and set_free: "free c \<le> Suc (free (snd (ic_set ic t k v ttl' c)))"
    and delete_view: "view t (ic_delete ic k c) k' = (if k' = k then None else view t c k')"
    and delete_free: "free c \<le> free (ic_delete ic k c)"

text \<open>An implementation whose writes never reject.\<close>

locale reliable_cache = ttl_cache +
  assumes set_resolves: "fst (ic_set ic t k v ttl' c)"
begin

lemma set_view_ok:
  "0 \<le> t \<Longrightarrow> 0 < ttl \<Longrightarrow> 0 < free c \<Longrightarrow>
   view t' (snd (ic_set ic t k v (Some ttl) c)) k' =
     (if k' = k then (if t' \<le> t + ttl * 1000 then Some v else None) else view t' c k')"
  by (rule set_view [OF set_resolves])

lemma read_back:
  "0 \<le> t \<Longrightarrow> 0 < ttl \<Longrightarrow> 0 < free c \<Longrightarrow> t' \<le> t + ttl * 1000 \<Longrightarrow>
   fst (ic_get ic t' k (snd (ic_set ic t k v (Some ttl) c))) = Some v"
  by (simp add: get_view set_view_ok)

end

text \<open>
  Set-if-absent as a claim: the first claimant of a key wins, and \<open>taken\<close> says until when the
  key stays claimed.
\<close>

locale claim_cache = ttl_cache +
  fixes taken :: "msec \<Rightarrow> 'c \<Rightarrow> string \<Rightarrow> bool"
  assumes claim_wins: "fst (ic_setIfNotExist ic t k v ttl' c) \<longleftrightarrow> \<not> taken t c k"
    and claim_lost: "\<not> fst (ic_setIfNotExist ic t k v ttl' c) \<Longrightarrow> snd (ic_setIfNotExist ic t k v ttl' c) = c"
    and claim_takes: "fst (ic_setIfNotExist ic t k v (Some ttl) c) \<Longrightarrow> 0 < ttl \<Longrightarrow> 0 < free c \<Longrightarrow>
      taken t' (snd (ic_setIfNotExist ic t k v (Some ttl) c)) k' =
        (if k' = k then t' < t + ttl * 1000 else taken t' c k')"
    and claim_free: "free c \<le> Suc (free (snd (ic_setIfNotExist ic t k v ttl' c)))"
begin

lemma second_claim_loses:
  assumes "fst (ic_setIfNotExist ic t k v (Some ttl) c)" "0 < ttl" "0 < free c"
    and "t' < t + ttl * 1000"
  shows "\<not> fst (ic_setIfNotExist ic t' k v' ttl' (snd (ic_setIfNotExist ic t k v (Some ttl) c)))"
  using assms by (simp add: claim_wins claim_takes)

end

section \<open>The in-process implementation meets the contract\<close>

definition mc_view :: "msec \<Rightarrow> 'v memory_cache \<Rightarrow> string \<Rightarrow> 'v option" where
  "mc_view t c k = (case map_of (mc_cache c) (mc_getFullKey c k) of None \<Rightarrow> None
     | Some e \<Rightarrow> if entry_expired t e then None else Some (ce_value e))"

definition mc_free :: "'v memory_cache \<Rightarrow> nat" where
  "mc_free c = nat (mc_maxEntries c) - length (mc_cache c)"

definition mc_taken :: "msec \<Rightarrow> 'v memory_cache \<Rightarrow> string \<Rightarrow> bool" where
  "mc_taken t c k = (case map_of (mc_cache c) (mc_getFullKey c k) of None \<Rightarrow> False
     | Some e \<Rightarrow> (case ce_expiry e of None \<Rightarrow> True | Some x \<Rightarrow> x > t))"

lemma getFullKey_update [simp]: "mc_getFullKey (c\<lparr>mc_cache := m\<rparr>) k = mc_getFullKey c k"
  by (simp add: mc_getFullKey_def)

lemma getFullKey_inject [simp]: "mc_getFullKey c k = mc_getFullKey c k' \<longleftrightarrow> k = k'"
  by (simp add: mc_getFullKey_def)

lemma getFullKey_set [simp]: "mc_getFullKey (mc_set t k v ttl c) k' = mc_getFullKey c k'"
  by (simp add: mc_set_def Let_def)

lemma entry_expired_mono: "entry_expired t e \<Longrightarrow> t \<le> t' \<Longrightarrow> entry_expired t' e"
  by (auto simp: entry_expired_def split: option.splits)

lemma mc_evict_free: "0 < mc_free c \<Longrightarrow> mc_evict k c = mc_cache c"
  by (auto simp: mc_evict_def mc_free_def)

lemma mc_evict_length: "length (mc_evict k c) \<le> length (mc_cache c)"
  by (auto simp: mc_evict_def length_jsmap_delete le_SucI split: list.splits)

lemma mc_get_view: "fst (mc_get t k c) = mc_view t c k"
  by (auto simp: mc_get_def mc_view_def Let_def split: option.splits)

lemma mc_get_keeps:
  assumes "t \<le> t'"
  shows "mc_view t' (snd (mc_get t k c)) k' = mc_view t' c k'"
  using assms entry_expired_mono
  by (auto simp: mc_get_def mc_view_def Let_def jsmap_simps split: option.splits)

lemma mc_get_free: "mc_free c \<le> mc_free (snd (mc_get t k c))"
  using length_jsmap_delete [THEN diff_le_mono2]
  by (auto simp: mc_get_def mc_free_def Let_def split: option.splits)

lemma mc_set_lookup:
  "0 < mc_free c \<Longrightarrow> map_of (mc_cache (mc_set t k v ttl c)) (mc_getFullKey c k') =
     (if k' = k then Some \<lparr>ce_value = v, ce_expiry = mc_expiry t ttl\<rparr>
      else map_of (mc_cache c) (mc_getFullKey c k'))"
  by (simp add: mc_set_def Let_def mc_evict_free jsmap_simps)

lemma mc_set_view:
  assumes "0 \<le> t" "0 < ttl" "0 < mc_free c"
  shows "mc_view t' (mc_set t k v (Some ttl) c) k' =
    (if k' = k then (if t' \<le> t + ttl * 1000 then Some v else None) else mc_view t' c k')"
  using assms by (auto simp: mc_view_def mc_set_lookup mc_expiry_def entry_expired_def)

lemma mc_set_free: "mc_free c \<le> Suc (mc_free (mc_set t k v ttl c))"
proof -
  have "length (mc_cache (mc_set t k v ttl c)) \<le> Suc (length (mc_cache c))"
    using mc_evict_length [of "mc_getFullKey c k" c]
    by (simp add: mc_set_def Let_def length_jsmap_set)
  then show ?thesis by (simp add: mc_free_def mc_set_def Let_def)
qed

lemma mc_delete_view: "mc_view t (mc_delete k c) k' = (if k' = k then None else mc_view t c k')"
  by (simp add: mc_view_def mc_delete_def jsmap_simps)

lemma mc_delete_free: "mc_free c \<le> mc_free (mc_delete k c)"
  using length_jsmap_delete [THEN diff_le_mono2] by (auto simp: mc_free_def mc_delete_def)

lemma mc_setnx_wins: "fst (mc_setIfNotExist t k v ttl c) \<longleftrightarrow> \<not> mc_taken t c k"
  by (auto simp: mc_setIfNotExist_def mc_taken_def split: option.splits)

lemma mc_setnx_state:
  "snd (mc_setIfNotExist t k v ttl c) = (if mc_taken t c k then c else mc_set t k v ttl c)"
  by (auto simp: mc_setIfNotExist_def mc_taken_def split: option.splits)

lemma mc_set_taken:
  assumes "0 < ttl" "0 < mc_free c"
  shows "mc_taken t' (mc_set t k v (Some ttl) c) k' =
    (if k' = k then t' < t + ttl * 1000 else mc_taken t' c k')"
  using assms by (simp add: mc_taken_def mc_set_lookup mc_expiry_def)

lemmas memory_cache_facts =
  mc_get_view mc_get_keeps mc_get_free mc_set_view mc_set_free mc_delete_view mc_delete_free

interpretation mem: reliable_cache memory_cache_service mc_view mc_free
  by unfold_locales (simp_all add: memory_cache_service_def memory_cache_facts)

interpretation memclaim: claim_cache memory_cache_service mc_view mc_free mc_taken
  by unfold_locales
    (simp_all add: memory_cache_service_def mc_setnx_wins mc_setnx_state mc_set_taken mc_set_free)

section \<open>The cache stays within its bound\<close>

definition mc_wf :: "'v memory_cache \<Rightarrow> bool" where
  "mc_wf c \<longleftrightarrow> distinct (map fst (mc_cache c)) \<and> '''' \<notin> fst ` set (mc_cache c) \<and>
     int (length (mc_cache c)) \<le> max 1 (mc_maxEntries c)"

lemma mc_wf_shrink:
  assumes "mc_wf c" "distinct (map fst m)" "fst ` set m \<subseteq> fst ` set (mc_cache c)"
    "length m \<le> length (mc_cache c)"
  shows "mc_wf (c\<lparr>mc_cache := m\<rparr>)"
  using assms by (auto simp: mc_wf_def)

lemma mc_wf_delete: "mc_wf c \<Longrightarrow> mc_wf (c\<lparr>mc_cache := AList.delete k (mc_cache c)\<rparr>)"
  by (rule mc_wf_shrink)
    (auto simp: mc_wf_def distinct_map_filter length_jsmap_delete AList.delete_eq)

lemma mc_wf_filter: "mc_wf c \<Longrightarrow> mc_wf (c\<lparr>mc_cache := filter P (mc_cache c)\<rparr>)"
  by (rule mc_wf_shrink) (auto simp: mc_wf_def distinct_map_filter)

lemma map_of_None_keys: "map_of m k = None \<longleftrightarrow> k \<notin> fst ` set m"
  by (induction m) auto

lemma mc_evict_wf:
  assumes "mc_wf c"
  shows "distinct (map fst (mc_evict k c)) \<and> '''' \<notin> fst ` set (mc_evict k c) \<and>
    (map_of (mc_cache c) k = None \<longrightarrow> int (length (mc_evict k c)) < max 1 (mc_maxEntries c)) \<and>
    (map_of (mc_cache c) k \<noteq> None \<longrightarrow> mc_evict k c = mc_cache c)"
proof (cases "int (length (mc_cache c)) \<ge> mc_maxEntries c \<and> map_of (mc_cache c) k = None")
  case False
  with assms show ?thesis by (auto simp: mc_evict_def mc_wf_def)
next
  case full: True
  show ?thesis
  proof (cases "mc_cache c")
    case Nil
    with full show ?thesis by (simp add: mc_evict_def)
  next
    case (Cons p m)
    obtain k0 e0 where p: "p = (k0, e0)" by (cases p)
    from assms Cons p have k0: "k0 \<noteq> ''''" "k0 \<notin> fst ` set m" by (auto simp: mc_wf_def)
    then have "AList.delete k0 (mc_cache c) = m"
      using Cons p delete_absent [of m k0] by (simp add: map_of_None_keys)
    with k0 have "mc_evict k c = m"
      using full Cons p by (simp add: mc_evict_def)
    with assms full Cons p show ?thesis by (auto simp: mc_wf_def)
  qed
qed

lemma mc_set_wf:
  assumes "mc_wf c" "mc_getFullKey c k \<noteq> ''''"
  shows "mc_wf (mc_set t k v ttl c)"
proof -
  let ?fk = "mc_getFullKey c k"
  from mc_evict_wf [OF assms(1), of ?fk] have ev: "distinct (map fst (mc_evict ?fk c))"
    "'''' \<notin> fst ` set (mc_evict ?fk c)" by blast+
  have "int (length (AList.update ?fk x (mc_evict ?fk c))) \<le> max 1 (mc_maxEntries c)" for x
  proof (cases "map_of (mc_cache c) ?fk")
    case None
    with mc_evict_wf [OF assms(1), of ?fk] show ?thesis by (simp add: length_jsmap_set)
  next
    case (Some e)
    with mc_evict_wf [OF assms(1), of ?fk] assms(1) show ?thesis
      by (simp add: length_jsmap_set mc_wf_def)
  qed
  with ev assms(2) show ?thesis
    by (auto simp: mc_wf_def mc_set_def Let_def distinct_update dom_update)
qed

text \<open>Any sequence of operations on the cache, at any times.\<close>

inductive mc_step :: "'v memory_cache \<Rightarrow> 'v memory_cache \<Rightarrow> bool" where
  step_get: "mc_step c (snd (mc_get t k c))"
| step_exists: "mc_step c (snd (mc_exists t k c))"
| step_set: "mc_getFullKey c k \<noteq> '''' \<Longrightarrow> mc_step c (mc_set t k v ttl c)"
| step_setnx: "mc_getFullKey c k \<noteq> '''' \<Longrightarrow> mc_step c (snd (mc_setIfNotExist t k v ttl c))"
| step_delete: "mc_step c (mc_delete k c)"
| step_clear: "mc_step c (mc_clear c)"
| step_delpat: "mc_step c (snd (mc_deleteByPattern pat c))"
| step_cleanup: "mc_step c (mc_cleanup t c)"

lemma mc_step_wf: "mc_step c c' \<Longrightarrow> mc_wf c \<Longrightarrow> mc_wf c'"
proof (induction rule: mc_step.induct)
  case (step_get c t k)
  then show ?case by (auto simp: mc_get_def Let_def mc_wf_delete split: option.splits)
next
  case (step_exists c t k)
  then show ?case by (auto simp: mc_exists_def Let_def mc_wf_delete split: option.splits)
next
  case (step_set c k t v ttl)
  then show ?case by (simp add: mc_set_wf)
next
  case (step_setnx c k t v ttl)
  then show ?case by (simp add: mc_setnx_state mc_set_wf)
next
  case (step_delete c k)
  then show ?case by (simp add: mc_delete_def mc_wf_delete)
next
  case (step_clear c)
  then show ?case by (simp add: mc_clear_def mc_wf_def)
next
  case (step_delpat c pat)
  then show ?case by (simp add: mc_deleteByPattern_def Let_def mc_wf_filter)
next
  case (step_cleanup c t)
  then show ?case by (simp add: mc_cleanup_def mc_wf_filter)
qed

lemma mc_step_max: "mc_step c c' \<Longrightarrow> mc_maxEntries c' = mc_maxEntries c"
  by (induction rule: mc_step.induct)
    (auto simp: mc_get_def mc_exists_def mc_set_def mc_setnx_state mc_delete_def mc_clear_def
      mc_deleteByPattern_def mc_cleanup_def Let_def split: option.splits)

inductive mc_reachable :: "cache_options \<Rightarrow> 'v memory_cache \<Rightarrow> bool" for opts where
  reach_new: "mc_reachable opts (mc_new opts)"
| reach_step: "mc_reachable opts c \<Longrightarrow> mc_step c c' \<Longrightarrow> mc_reachable opts c'"

lemma mc_reachable_wf: "mc_reachable opts c \<Longrightarrow> mc_wf c"
proof (induction rule: mc_reachable.induct)
  case reach_new
  show ?case by (simp add: mc_new_def mc_wf_def)
next
  case (reach_step c c')
  then show ?case by (blast intro: mc_step_wf)
qed

lemma mc_reachable_max:
  "mc_reachable opts c \<Longrightarrow> mc_maxEntries c = js_or_num (co_maxEntries opts) 1000"
  by (induction rule: mc_reachable.induct) (auto simp: mc_new_def mc_step_max)

section \<open>Pattern deletion\<close>

text \<open>A pattern that ends in its only wildcard matches exactly the keys that extend its stem.\<close>

lemma glob_star: "glob_match ''*'' s \<longleftrightarrow> (\<forall>ch \<in> set s. js_dot ch)"
  by (induction s) auto

lemma glob_literal_star:
  assumes "CHR ''*'' \<notin> set lit" "CHR ''?'' \<notin> set lit"
  shows "glob_match (lit @ ''*'') s \<longleftrightarrow> (\<exists>r. s = lit @ r \<and> (\<forall>ch \<in> set r. js_dot ch))"
  using assms
proof (induction lit arbitrary: s)
  case Nil
  then show ?case by (simp add: glob_star)
next
  case (Cons p lit)
  then show ?case by (cases s) auto
qed

lemma map_of_filter_keys:
  "map_of (filter (\<lambda>p. \<not> (case p of (k, _) \<Rightarrow> P k)) m) k = (if P k then None else map_of m k)"
  by (induction m) auto

lemma mc_deleteByPattern_view:
  "mc_view t (snd (mc_deleteByPattern pat c)) k =
     (if glob_match (mc_getFullKey c pat) (mc_getFullKey c k) then None else mc_view t c k)"
  by (simp add: mc_deleteByPattern_def mc_view_def Let_def map_of_filter_keys)

section \<open>Properties\<close>

text \<open>
  However the cache is used, it never holds more entries than its configured maximum (one at
  least), and never two entries for one key.
\<close>

lemma mc_bounded:
  assumes "mc_reachable opts c"
  shows "int (length (mc_cache c)) \<le> max 1 (js_or_num (co_maxEntries opts) 1000) \<and>
    distinct (map fst (mc_cache c))"
  using mc_reachable_wf [OF assms] mc_reachable_max [OF assms] by (simp add: mc_wf_def)

abbreviation small_cache_options :: cache_options where
  "small_cache_options \<equiv> \<lparr>co_defaultTtl = None, co_keyPrefix = Some ''ioc'', co_maxEntries = Some 1\<rparr>"

text \<open>
  Deleting by a pattern that ends in its only wildcard hides exactly the keys that extend the
  pattern's stem, and reports how many entries it removed.
\<close>

lemma mc_invalidation:
  assumes "CHR ''*'' \<notin> set (mc_getFullKey c stem)" "CHR ''?'' \<notin> set (mc_getFullKey c stem)"
    and "CHR 0x0A \<notin> set key" "CHR 0x0D \<notin> set key"
  shows "mc_view t (snd (mc_deleteByPattern (stem @ ''*'') c)) key =
      (if prefix stem key then None else mc_view t c key) \<and>
    length (mc_cache c) =
      fst (mc_deleteByPattern (stem @ ''*'') c) + length (mc_cache (snd (mc_deleteByPattern (stem @ ''*'') c)))"
proof -
  have full: "mc_getFullKey c (stem @ ''*'') = mc_getFullKey c stem @ ''*''"
    by (simp add: mc_getFullKey_def)
  have "glob_match (mc_getFullKey c (stem @ ''*'')) (mc_getFullKey c key) \<longleftrightarrow> prefix stem key"
    using assms unfolding full glob_literal_star [OF assms(1,2)]
    by (auto simp: mc_getFullKey_def prefix_def js_dot_def)
  then show ?thesis
    by (simp add: mc_deleteByPattern_view)
      (simp add: mc_deleteByPattern_def Let_def sum_length_filter_compl)
qed

text \<open>
  The set-if-absent test and the read disagree on the millisecond an entry expires: the entry is
  still readable, and a second claimant wins all the same.
\<close>

lemma setIfNotExist_boundary:
  "let c = snd (mc_setIfNotExist 0 ''k'' (1::nat) (Some 1) (mc_new small_cache_options)) in
   fst (mc_get 1000 ''k'' c) = Some 1 \<and> fst (mc_setIfNotExist 1000 ''k'' 2 (Some 1) c)"
  by (simp add: mc_setIfNotExist_def mc_set_def mc_get_def mc_new_def mc_getFullKey_def mc_evict_def
      mc_expiry_def entry_expired_def js_or_str_def js_or_num_def Let_def)

text \<open>Counting up an entry that had an expiry leaves it without one.\<close>

lemma incr_drops_expiry:
  "let c = mc_set 0 ''n'' 1 (Some 60) (mc_new small_cache_options) in
   mc_ttl 0 ''n'' c = 60 \<and> mc_ttl 0 ''n'' (snd (mc_incr 0 ''n'' 1 c)) = -1"
  by (simp add: mc_incr_def mc_set_def mc_get_def mc_ttl_def mc_new_def mc_getFullKey_def mc_evict_def
      mc_expiry_def entry_expired_def js_or_str_def js_or_num_def ceil_div_def Let_def)

end
