(* ===== verification/Circuit_Breaker.thy ===== *)
theory Circuit_Breaker
  imports Prelude Complex_Main
begin

text \<open>
  The circuit breaker of src/libs/shared/resilience: the state machine
  \<^verbatim>\<open>CircuitBreakerState\<close> (circuit-breaker.state.ts) and the decorator service and health
  indicator built on it (circuit-breaker.decorator.ts). The port registry uses the state machine
  directly. The clock is an argument of every operation that reads it; percentages, doubles in
  the code, are exact rationals here.
\<close>

section \<open>The state machine\<close>

datatype circuit_state = CLOSED | OPEN | HALF_OPEN

record 'e circuit_options =
  cbo_timeout :: "int option"
  cbo_errorThreshold :: "int option"
  cbo_resetTimeout :: "int option"
  cbo_minRequests :: "int option"
  cbo_errorFilter :: "('e \<Rightarrow> bool) option"
  cbo_name :: "string option"

record 'e circuit =
  cb_options :: "'e circuit_options"
  cb_state :: circuit_state
  cb_stateChangedAt :: msec
  cb_requests :: nat
  cb_failures :: nat
  cb_lastFailureTime :: msec
  cb_successCount :: nat
  cb_failureCount :: nat

definition cb_new :: "'e circuit_options \<Rightarrow> msec \<Rightarrow> 'e circuit" where
  "cb_new opts now = \<lparr>cb_options = opts, cb_state = CLOSED, cb_stateChangedAt = now,
     cb_requests = 0, cb_failures = 0, cb_lastFailureTime = 0, cb_successCount = 0,
     cb_failureCount = 0\<rparr>"

definition cb_getFailureRate :: "'e circuit \<Rightarrow> rat" where
  "cb_getFailureRate cb = (if cb_requests cb = 0 then 0
     else of_nat (cb_failures cb) / of_nat (cb_requests cb) * 100)"

definition cb_getSuccessRate :: "'e circuit \<Rightarrow> rat" where
  "cb_getSuccessRate cb = (if cb_requests cb = 0 then 100
     else (of_nat (cb_requests cb) - of_nat (cb_failures cb)) / of_nat (cb_requests cb) * 100)"

definition cb_getMetrics :: "'e circuit \<Rightarrow> nat \<times> nat \<times> rat \<times> rat" where
  "cb_getMetrics cb =
     (cb_requests cb, cb_failures cb, cb_getSuccessRate cb, cb_getFailureRate cb)"

definition cb_resetMetrics :: "'e circuit \<Rightarrow> 'e circuit" where
  "cb_resetMetrics cb = cb\<lparr>cb_requests := 0, cb_failures := 0, cb_successCount := 0,
     cb_failureCount := 0, cb_lastFailureTime := 0\<rparr>"

definition cb_open :: "msec \<Rightarrow> 'e circuit \<Rightarrow> 'e circuit" where
  "cb_open now cb = cb\<lparr>cb_state := OPEN, cb_stateChangedAt := now\<rparr>"

definition cb_close :: "msec \<Rightarrow> 'e circuit \<Rightarrow> 'e circuit" where
  "cb_close now cb = cb_resetMetrics (cb\<lparr>cb_state := CLOSED, cb_stateChangedAt := now\<rparr>)"

definition cb_halfOpen :: "msec \<Rightarrow> 'e circuit \<Rightarrow> 'e circuit" where
  "cb_halfOpen now cb = cb_resetMetrics (cb\<lparr>cb_state := HALF_OPEN, cb_stateChangedAt := now\<rparr>)"

definition cb_reset :: "msec \<Rightarrow> 'e circuit \<Rightarrow> 'e circuit" where
  "cb_reset now cb = cb_resetMetrics (cb\<lparr>cb_state := CLOSED, cb_stateChangedAt := now\<rparr>)"

definition cb_window :: "'e circuit \<Rightarrow> int" where
  "cb_window cb = js_or_num (cbo_timeout (cb_options cb)) 60000"

definition cb_cleanupOldRequests :: "msec \<Rightarrow> 'e circuit \<Rightarrow> 'e circuit" where
  "cb_cleanupOldRequests now cb =
     (if now - cb_stateChangedAt cb > cb_window cb
      then cb\<lparr>cb_requests := cb_successCount cb, cb_failures := cb_failureCount cb,
              cb_stateChangedAt := now\<rparr>
      else cb)"

definition cb_recordSuccess :: "msec \<Rightarrow> 'e circuit \<Rightarrow> 'e circuit" where
  "cb_recordSuccess now cb =
     (let cb1 = cb\<lparr>cb_requests := Suc (cb_requests cb), cb_successCount := Suc (cb_successCount cb)\<rparr>;
          cb2 = (if cb_state cb1 = HALF_OPEN then cb_close now cb1 else cb1)
      in cb_cleanupOldRequests now cb2)"

definition cb_counts :: "'e circuit \<Rightarrow> 'e \<Rightarrow> bool" where
  "cb_counts cb err = (case cbo_errorFilter (cb_options cb) of None \<Rightarrow> True | Some f \<Rightarrow> f err)"

definition cb_recordFailure :: "msec \<Rightarrow> 'e \<Rightarrow> 'e circuit \<Rightarrow> 'e circuit" where
  "cb_recordFailure now err cb =
     (if \<not> cb_counts cb err then cb
      else
        let cb1 = cb\<lparr>cb_requests := Suc (cb_requests cb), cb_failures := Suc (cb_failures cb),
                     cb_failureCount := Suc (cb_failureCount cb), cb_lastFailureTime := now\<rparr>;
            cb2 = (if cb_state cb1 = HALF_OPEN then cb_open now cb1 else cb1)
        in cb_cleanupOldRequests now cb2)"

definition cb_shouldOpen :: "'e circuit \<Rightarrow> bool" where
  "cb_shouldOpen cb =
     (if cb_state cb = OPEN then False
      else if int (cb_requests cb) < js_or_num (cbo_minRequests (cb_options cb)) 10 then False
      else cb_getFailureRate cb \<ge> of_int (js_or_num (cbo_errorThreshold (cb_options cb)) 50))"

definition cb_resetAfter :: "'e circuit \<Rightarrow> int" where
  "cb_resetAfter cb = js_or_num (cbo_resetTimeout (cb_options cb)) 30000"

definition cb_shouldAttemptReset :: "msec \<Rightarrow> 'e circuit \<Rightarrow> bool" where
  "cb_shouldAttemptReset now cb =
     (if cb_state cb \<noteq> OPEN then False
      else now - cb_stateChangedAt cb \<ge> cb_resetAfter cb)"

lemmas cb_transition_defs =
  cb_open_def cb_close_def cb_halfOpen_def cb_reset_def cb_resetMetrics_def
lemmas cb_record_defs =
  cb_recordSuccess_def cb_recordFailure_def cb_cleanupOldRequests_def cb_transition_defs Let_def

section \<open>How a guarded call drives the machine\<close>

text \<open>
  The two halves of a guarded call, as the port registry makes them: before the call the breaker
  is consulted (an open breaker past its reset timeout moves to half open, an open breaker before
  it refuses), after the call the outcome is recorded and a failure may trip the breaker. The
  call itself is awaited in between, so halves of different calls interleave freely.
\<close>

definition cb_admit :: "msec \<Rightarrow> 'e circuit \<Rightarrow> bool \<times> 'e circuit" where
  "cb_admit now cb =
     (if cb_state cb = OPEN
      then (if cb_shouldAttemptReset now cb then (True, cb_halfOpen now cb) else (False, cb))
      else (True, cb))"

definition cb_settleFailure :: "msec \<Rightarrow> 'e \<Rightarrow> 'e circuit \<Rightarrow> 'e circuit" where
  "cb_settleFailure now err cb =
     (let cb1 = cb_recordFailure now err cb
      in if cb_shouldOpen cb1 then cb_open now cb1 else cb1)"

datatype 'e cb_event = Admit | Succeed | Fail 'e

inductive cb_step :: "msec \<Rightarrow> 'e cb_event \<Rightarrow> 'e circuit \<Rightarrow> 'e circuit \<Rightarrow> bool" where
  admit: "cb_step now Admit cb (snd (cb_admit now cb))"
| succeed: "cb_step now Succeed cb (cb_recordSuccess now cb)"
| fail: "cb_step now (Fail err) cb (cb_settleFailure now err cb)"

inductive_simps cb_step_simps:
  "cb_step now Admit cb cb'" "cb_step now Succeed cb cb'" "cb_step now (Fail err) cb cb'"

inductive cb_run :: "'e circuit \<Rightarrow> 'e circuit \<Rightarrow> bool" for cb0 where
  run_start: "cb_run cb0 cb0"
| run_step: "cb_run cb0 cb \<Longrightarrow> cb_step now ev cb cb' \<Longrightarrow> cb_run cb0 cb'"

section \<open>Facts about single steps\<close>

lemma cb_cleanup_fields [simp]:
  "cb_state (cb_cleanupOldRequests now cb) = cb_state cb"
  "cb_options (cb_cleanupOldRequests now cb) = cb_options cb"
  "cb_successCount (cb_cleanupOldRequests now cb) = cb_successCount cb"
  "cb_failureCount (cb_cleanupOldRequests now cb) = cb_failureCount cb"
  by (simp_all add: cb_cleanupOldRequests_def)

lemma cb_transition_state [simp]:
  "cb_state (cb_open now cb) = OPEN" "cb_state (cb_close now cb) = CLOSED"
  "cb_state (cb_halfOpen now cb) = HALF_OPEN" "cb_state (cb_reset now cb) = CLOSED"
  "cb_options (cb_open now cb) = cb_options cb" "cb_options (cb_close now cb) = cb_options cb"
  "cb_options (cb_halfOpen now cb) = cb_options cb"
  by (simp_all add: cb_transition_defs)

lemma cb_recordSuccess_state:
  "cb_state (cb_recordSuccess now cb) = (if cb_state cb = HALF_OPEN then CLOSED else cb_state cb)"
  by (simp add: cb_recordSuccess_def Let_def)

lemma cb_recordFailure_state:
  "cb_state (cb_recordFailure now err cb) =
     (if cb_state cb = HALF_OPEN \<and> cb_counts cb err then OPEN else cb_state cb)"
  by (simp add: cb_recordFailure_def Let_def)

lemma cb_settleFailure_state:
  "cb_state (cb_settleFailure now err cb) =
     (if cb_shouldOpen (cb_recordFailure now err cb) then OPEN
      else cb_state (cb_recordFailure now err cb))"
  by (simp add: cb_settleFailure_def Let_def)

lemma cb_admit_state:
  "cb_state (snd (cb_admit now cb)) =
     (if cb_state cb = OPEN \<and> cb_shouldAttemptReset now cb then HALF_OPEN else cb_state cb)"
  by (simp add: cb_admit_def)

lemma cb_step_options: "cb_step now ev cb cb' \<Longrightarrow> cb_options cb' = cb_options cb"
  by (induction rule: cb_step.induct)
    (simp_all add: cb_admit_def cb_recordSuccess_def cb_settleFailure_def cb_recordFailure_def Let_def)

text \<open>
  While half open the counters are zero, so a trial call alone decides: the breaker cannot trip on
  what it counted before.
\<close>

definition cb_trial_clean :: "'e circuit \<Rightarrow> bool" where
  "cb_trial_clean cb \<longleftrightarrow> (cb_state cb = HALF_OPEN \<longrightarrow> cb_requests cb = 0 \<and> cb_failures cb = 0 \<and>
     cb_successCount cb = 0 \<and> cb_failureCount cb = 0)"

lemma cb_new_trial_clean: "cb_trial_clean (cb_new opts now)"
  by (simp add: cb_trial_clean_def cb_new_def)

lemma cb_step_trial_clean: "cb_step now ev cb cb' \<Longrightarrow> cb_trial_clean cb \<Longrightarrow> cb_trial_clean cb'"
proof (induction rule: cb_step.induct)
  case (admit now cb)
  then show ?case by (simp add: cb_trial_clean_def cb_admit_def cb_transition_defs)
next
  case (succeed now cb)
  then show ?case by (simp add: cb_trial_clean_def cb_recordSuccess_state)
next
  case (fail now err cb)
  show ?case
  proof (cases "cb_state (cb_settleFailure now err cb) = HALF_OPEN")
    case True
    then have "\<not> cb_shouldOpen (cb_recordFailure now err cb)" "cb_state cb = HALF_OPEN"
      "\<not> cb_counts cb err"
      by (auto simp: cb_settleFailure_state cb_recordFailure_state split: if_splits)
    with fail show ?thesis by (simp add: cb_settleFailure_def cb_recordFailure_def)
  qed (simp add: cb_trial_clean_def)
qed

lemma cb_run_trial_clean: "cb_run cb0 cb \<Longrightarrow> cb_trial_clean cb0 \<Longrightarrow> cb_trial_clean cb"
  by (induction rule: cb_run.induct) (auto intro: cb_step_trial_clean)

section \<open>Counters and rates\<close>

text \<open>Within one monitoring window the counters agree with each other.\<close>

definition cb_consistent :: "'e circuit \<Rightarrow> bool" where
  "cb_consistent cb \<longleftrightarrow> cb_requests cb = cb_successCount cb + cb_failureCount cb \<and>
     cb_failures cb = cb_failureCount cb"

lemma cb_consistent_rates:
  assumes "cb_consistent cb"
  shows "0 \<le> cb_getFailureRate cb" "cb_getFailureRate cb \<le> 100"
    "cb_getSuccessRate cb = 100 - cb_getFailureRate cb"
proof -
  have le: "cb_failures cb \<le> cb_requests cb" using assms by (simp add: cb_consistent_def)
  then show "0 \<le> cb_getFailureRate cb" "cb_getFailureRate cb \<le> 100"
    by (simp_all add: cb_getFailureRate_def divide_le_eq)
  show "cb_getSuccessRate cb = 100 - cb_getFailureRate cb"
    by (simp add: cb_getFailureRate_def cb_getSuccessRate_def field_simps)
qed

lemma cb_step_consistent:
  assumes "cb_step now ev cb cb'" "cb_consistent cb" "now - cb_stateChangedAt cb \<le> cb_window cb"
    "0 \<le> cb_window cb"
  shows "cb_consistent cb'"
  using assms
proof (induction rule: cb_step.induct)
  case (admit now cb)
  then show ?case by (simp add: cb_consistent_def cb_admit_def cb_transition_defs)
next
  case (succeed now cb)
  then show ?case by (simp add: cb_consistent_def cb_record_defs cb_window_def)
next
  case (fail now err cb)
  then show ?case
    by (simp add: cb_consistent_def cb_settleFailure_def cb_record_defs cb_window_def)
qed

section \<open>Tripping\<close>

fun cb_fail_all :: "(msec \<times> 'e) list \<Rightarrow> 'e circuit \<Rightarrow> 'e circuit" where
  "cb_fail_all [] cb = cb"
| "cb_fail_all ((now, err) # fs) cb = cb_fail_all fs (cb_settleFailure now err cb)"

definition cb_minRequests :: "'e circuit_options \<Rightarrow> int" where
  "cb_minRequests opts = js_or_num (cbo_minRequests opts) 10"

definition cb_threshold :: "'e circuit_options \<Rightarrow> int" where
  "cb_threshold opts = js_or_num (cbo_errorThreshold opts) 50"

text \<open>A closed breaker that has seen \<open>k\<close> failures and nothing else since \<open>t0\<close>.\<close>

definition cb_failing :: "'e circuit_options \<Rightarrow> msec \<Rightarrow> nat \<Rightarrow> 'e circuit \<Rightarrow> bool" where
  "cb_failing opts t0 k cb \<longleftrightarrow> cb_options cb = opts \<and> cb_state cb = CLOSED \<and>
     cb_stateChangedAt cb = t0 \<and> cb_requests cb = k \<and> cb_failures cb = k"

lemma cb_failing_step:
  assumes f: "cb_failing opts t0 k cb" and c: "cb_counts cb err"
    and w: "now - t0 \<le> js_or_num (cbo_timeout opts) 60000"
    and thr: "cb_threshold opts \<le> 100"
  shows "int (Suc k) < cb_minRequests opts \<Longrightarrow> cb_failing opts t0 (Suc k) (cb_settleFailure now err cb)"
    and "int (Suc k) \<ge> cb_minRequests opts \<Longrightarrow> cb_state (cb_settleFailure now err cb) = OPEN"
proof -
  let ?cb1 = "cb_recordFailure now err cb"
  have cb1: "cb_failing opts t0 (Suc k) ?cb1"
    using f c w by (simp add: cb_failing_def cb_record_defs cb_window_def)
  then have rate: "cb_getFailureRate ?cb1 = 100"
    by (simp add: cb_failing_def cb_getFailureRate_def)
  show "cb_failing opts t0 (Suc k) (cb_settleFailure now err cb)"
    if "int (Suc k) < cb_minRequests opts"
    using cb1 that
    by (simp add: cb_settleFailure_def Let_def cb_shouldOpen_def cb_minRequests_def cb_failing_def)
  show "cb_state (cb_settleFailure now err cb) = OPEN" if "int (Suc k) \<ge> cb_minRequests opts"
  proof -
    from thr have "(of_int (cb_threshold opts) :: rat) \<le> of_int 100"
      by (simp only: of_int_le_iff)
    then have "(of_int (cb_threshold opts) :: rat) \<le> 100" by simp
    with that cb1 rate show ?thesis
      by (auto simp: cb_settleFailure_state cb_shouldOpen_def cb_minRequests_def cb_failing_def
          cb_threshold_def)
  qed
qed

lemma cb_failing_all:
  assumes "cb_failing opts t0 k cb"
    and "\<forall>(now, err) \<in> set fs. now - t0 \<le> js_or_num (cbo_timeout opts) 60000 \<and> cb_counts cb err"
    and "cb_threshold opts \<le> 100"
    and "int (k + length fs) < cb_minRequests opts"
  shows "cb_failing opts t0 (k + length fs) (cb_fail_all fs cb)"
  using assms
proof (induction fs arbitrary: k cb)
  case Nil
  then show ?case by simp
next
  case (Cons p fs)
  obtain now err where p: "p = (now, err)" by (cases p)
  have next': "cb_failing opts t0 (Suc k) (cb_settleFailure now err cb)"
    using Cons.prems p by (intro cb_failing_step(1)) auto
  then have "cb_counts (cb_settleFailure now err cb) = cb_counts cb"
    using Cons.prems(1) by (auto simp: cb_failing_def cb_counts_def fun_eq_iff)
  with Cons.IH [OF next'] Cons.prems p show ?case by auto
qed

section \<open>The decorator service\<close>

text \<open>
  \<^verbatim>\<open>CircuitBreakerService\<close> keeps one breaker per key. A fallback is called without
  \<^verbatim>\<open>await\<close> inside the \<^verbatim>\<open>try\<close>: a synchronous throw is caught and replaced by the
  original error, a rejected promise reaches the caller as it is.
\<close>

datatype 'r fallback_outcome = FbReturn 'r | FbThrow js_error | FbReject js_error

record ('a, 'r) service_options =
  so_circuit :: "js_error circuit_options"
  so_fallback :: "('a \<Rightarrow> 'r fallback_outcome) option"

record ('a, 'r) circuit_service =
  cs_breakers :: "(string, js_error circuit \<times> ('a \<Rightarrow> 'r fallback_outcome) option) jsmap"
  cs_globalConfig :: "('a, 'r) service_options"

definition cs_mergedOptions ::
  "string \<Rightarrow> ('a, 'r) service_options \<Rightarrow> ('a, 'r) service_options \<Rightarrow> ('a, 'r) service_options" where
  "cs_mergedOptions key g opts =
     (let over = (\<lambda>d f. js_spread (js_spread d (f (so_circuit g))) (f (so_circuit opts))) in
      \<lparr>so_circuit = \<lparr>
         cbo_timeout = over (Some 60000) cbo_timeout,
         cbo_errorThreshold = over (Some 50) cbo_errorThreshold,
         cbo_resetTimeout = over (Some 30000) cbo_resetTimeout,
         cbo_minRequests = over (Some 10) cbo_minRequests,
         cbo_errorFilter = js_spread (cbo_errorFilter (so_circuit g)) (cbo_errorFilter (so_circuit opts)),
         cbo_name = js_spread (js_spread (Some key) (cbo_name (so_circuit g))) (cbo_name (so_circuit opts))\<rparr>,
       so_fallback = js_spread (so_fallback g) (so_fallback opts)\<rparr>)"

definition cs_getCircuitBreakerKey ::
  "string option \<Rightarrow> string \<Rightarrow> ('a, 'r) service_options option \<Rightarrow> string" where
  "cs_getCircuitBreakerKey className propertyKey opts =
     (case opts of
        Some o' \<Rightarrow> (case cbo_name (so_circuit o') of
            Some n \<Rightarrow> if n \<noteq> '''' then n else js_or_str className ''Unknown'' @ ''.'' @ propertyKey
          | None \<Rightarrow> js_or_str className ''Unknown'' @ ''.'' @ propertyKey)
      | None \<Rightarrow> js_or_str className ''Unknown'' @ ''.'' @ propertyKey)"

definition no_service_options :: "('a, 'r) service_options" where
  "no_service_options = \<lparr>so_circuit = \<lparr>cbo_timeout = None, cbo_errorThreshold = None,
     cbo_resetTimeout = None, cbo_minRequests = None, cbo_errorFilter = None, cbo_name = None\<rparr>,
     so_fallback = None\<rparr>"

definition cs_getCircuitBreaker ::
  "msec \<Rightarrow> string \<Rightarrow> ('a, 'r) service_options option \<Rightarrow> ('a, 'r) circuit_service \<Rightarrow>
     (js_error circuit \<times> ('a \<Rightarrow> 'r fallback_outcome) option) \<times> ('a, 'r) circuit_service" where
  "cs_getCircuitBreaker now key opts svc =
     (case map_of (cs_breakers svc) key of
        Some b \<Rightarrow> (b, svc)
      | None \<Rightarrow>
          let m = cs_mergedOptions key (cs_globalConfig svc) (js_nullish opts no_service_options);
              b = (cb_new (so_circuit m) now, so_fallback m)
          in (b, svc\<lparr>cs_breakers := AList.update key b (cs_breakers svc)\<rparr>))"

definition cs_store ::
  "string \<Rightarrow> js_error circuit \<Rightarrow> ('a, 'r) circuit_service \<Rightarrow> ('a, 'r) circuit_service" where
  "cs_store key cb svc =
     (case map_of (cs_breakers svc) key of
        None \<Rightarrow> svc
      | Some (_, fb) \<Rightarrow> svc\<lparr>cs_breakers := AList.update key (cb, fb) (cs_breakers svc)\<rparr>)"
  \<comment> \<open>the breaker object is shared with the map: updating it updates the entry\<close>

definition circuit_open_error :: "string \<Rightarrow> js_error" where
  "circuit_open_error key = new_Error (''Circuit breaker is OPEN for '' @ key)"

definition cs_execute ::
  "msec \<Rightarrow> msec \<Rightarrow> string option \<Rightarrow> string \<Rightarrow> 'a \<Rightarrow> ('a, 'r) service_options option \<Rightarrow>
     ('a \<Rightarrow> js_error + 'r) \<Rightarrow> ('a, 'r) circuit_service \<Rightarrow>
     (js_error + 'r) \<times> ('a, 'r) circuit_service" where
  "cs_execute now0 now1 className propertyKey args opts method svc =
     (let key = cs_getCircuitBreakerKey className propertyKey opts;
          ((cb, fallback), svc1) = cs_getCircuitBreaker now0 key opts svc;
          outcome = (if cb_state cb = OPEN then Inl (circuit_open_error key) else method args)
      in case outcome of
           Inr result \<Rightarrow> (Inr result, cs_store key (cb_recordSuccess now1 cb) svc1)
         | Inl error \<Rightarrow>
             let cb1 = cb_recordFailure now1 error cb;
                 cb2 = (if cb_shouldOpen cb1 then cb_open now1 cb1 else cb1);
                 svc2 = cs_store key cb2 svc1
             in (case fallback of
                   None \<Rightarrow> (Inl error, svc2)
                 | Some fb \<Rightarrow>
                     (case fb args of
                        FbReturn r \<Rightarrow> (Inr r, svc2)
                      | FbThrow _ \<Rightarrow> (Inl error, svc2)
                      | FbReject e \<Rightarrow> (Inl e, svc2))))"

definition cs_getStatus ::
  "('a, 'r) circuit_service \<Rightarrow> (string \<times> circuit_state \<times> nat \<times> nat \<times> rat \<times> rat) list" where
  "cs_getStatus svc = map (\<lambda>(name, cb, _). (name, cb_state cb, cb_getMetrics cb)) (cs_breakers svc)"

definition cs_resetAll :: "('a, 'r) circuit_service \<Rightarrow> ('a, 'r) circuit_service" where
  "cs_resetAll svc = svc\<lparr>cs_breakers := []\<rparr>"

definition cs_reset ::
  "msec \<Rightarrow> string \<Rightarrow> ('a, 'r) circuit_service \<Rightarrow> bool \<times> ('a, 'r) circuit_service" where
  "cs_reset now key svc =
     (case map_of (cs_breakers svc) key of
        Some (cb, _) \<Rightarrow> (True, cs_store key (cb_reset now cb) svc)
      | None \<Rightarrow> (False, svc))"

section \<open>The health indicator\<close>

datatype circuit_health = Healthy | Degraded | Unhealthy

definition getHealthStatus :: "circuit_state \<Rightarrow> rat \<Rightarrow> circuit_health" where
  "getHealthStatus state failureRate =
     (if state = CLOSED \<and> failureRate < 10 then Healthy
      else if state = HALF_OPEN \<or> failureRate < 30 then Degraded
      else Unhealthy)"

record health_report =
  hr_up :: bool
  hr_total :: nat
  hr_healthy :: nat
  hr_unhealthy :: nat
  hr_circuits :: "(string \<times> circuit_state \<times> circuit_health) list"

definition checkHealth :: "('a, 'r) circuit_service \<Rightarrow> health_report" where
  "checkHealth svc =
     (let status = cs_getStatus svc;
          unhealthy = length (filter (\<lambda>(_, st, _). st = OPEN) status)
      in \<lparr>hr_up = (unhealthy = 0), hr_total = length status,
          hr_healthy = length (filter (\<lambda>(_, st, _). st = CLOSED) status),
          hr_unhealthy = unhealthy,
          hr_circuits = map (\<lambda>(name, st, _, _, _, failureRate).
                               (name, st, getHealthStatus st failureRate)) status\<rparr>)"

definition cs_stateOf :: "string \<Rightarrow> ('a, 'r) circuit_service \<Rightarrow> circuit_state option" where
  "cs_stateOf key svc = map_option (\<lambda>(cb, _). cb_state cb) (map_of (cs_breakers svc) key)"

lemma cs_store_other:
  "k \<noteq> key \<Longrightarrow> map_of (cs_breakers (cs_store key cb svc)) k = map_of (cs_breakers svc) k"
  by (auto simp: cs_store_def jsmap_simps split: option.splits)

lemma cs_store_same:
  "map_of (cs_breakers svc) key = Some (cb0, fb) \<Longrightarrow>
   map_of (cs_breakers (cs_store key cb svc)) key = Some (cb, fb)"
  by (simp add: cs_store_def jsmap_simps)

lemma open_stays_open:
  assumes "cb_state cb = OPEN"
  shows "cb_state (cb_recordFailure now err cb) = OPEN"
    "\<not> cb_shouldOpen (cb_recordFailure now err cb)"
  using assms by (simp_all add: cb_recordFailure_state cb_shouldOpen_def)

text \<open>
  An execution through the service leaves an open breaker open whatever the clock says: the
  service never asks whether the reset timeout has passed.
\<close>

lemma cs_execute_open_step:
  assumes "cs_stateOf k svc = Some OPEN"
  shows "cs_stateOf k (snd (cs_execute now0 now1 cn pk args opts method svc)) = Some OPEN"
proof -
  obtain cb fb where k: "map_of (cs_breakers svc) k = Some (cb, fb)" "cb_state cb = OPEN"
    using assms by (auto simp: cs_stateOf_def)
  let ?key = "cs_getCircuitBreakerKey cn pk opts"
  show ?thesis
  proof (cases "?key = k")
    case True
    then have "cs_getCircuitBreaker now0 ?key opts svc = ((cb, fb), svc)"
      using k by (simp add: cs_getCircuitBreaker_def)
    with True k open_stays_open [OF k(2)] show ?thesis
      by (auto simp: cs_execute_def cs_stateOf_def cs_store_same Let_def
          split: option.splits fallback_outcome.splits)
  next
    case False
    obtain b svc1 where b: "cs_getCircuitBreaker now0 ?key opts svc = (b, svc1)" by fastforce
    with False k have "map_of (cs_breakers svc1) k = Some (cb, fb)"
      by (auto simp: cs_getCircuitBreaker_def Let_def jsmap_simps split: option.splits)
    with False k b show ?thesis
      by (auto simp: cs_execute_def cs_stateOf_def cs_store_other Let_def
          split: option.splits fallback_outcome.splits sum.splits prod.splits)
  qed
qed

fun cs_execute_all ::
  "(msec \<times> msec \<times> string option \<times> string \<times> 'a \<times> ('a, 'r) service_options option \<times>
    ('a \<Rightarrow> js_error + 'r)) list \<Rightarrow> ('a, 'r) circuit_service \<Rightarrow> ('a, 'r) circuit_service" where
  "cs_execute_all [] svc = svc"
| "cs_execute_all ((now0, now1, cn, pk, args, opts, method) # calls) svc =
     cs_execute_all calls (snd (cs_execute now0 now1 cn pk args opts method svc))"

lemma cs_execute_all_open:
  "cs_stateOf k svc = Some OPEN \<Longrightarrow> cs_stateOf k (cs_execute_all calls svc) = Some OPEN"
  by (induction calls svc rule: cs_execute_all.induct) (simp_all add: cs_execute_open_step)

section \<open>Properties\<close>

text \<open>
  The breaker changes state only as its protocol says, whatever the interleaving of guarded
  calls: it leaves OPEN only for HALF_OPEN, when a call asks at least the reset timeout after the
  last change; it leaves HALF_OPEN only on the outcome of a trial call, closing on a success and
  opening on a counted failure; it leaves CLOSED only for OPEN, on a failed call after which the
  request count has reached the minimum and the failure rate the threshold.
\<close>

lemma cb_transitions:
  assumes run: "cb_run (cb_new opts t0) cb" and step: "cb_step now ev cb cb'"
    and change: "cb_state cb' \<noteq> cb_state cb" and pos: "0 < cb_threshold opts"
  shows "(cb_state cb = OPEN \<and> cb_state cb' = HALF_OPEN \<and> ev = Admit \<and>
            cb_resetAfter cb \<le> now - cb_stateChangedAt cb) \<or>
         (cb_state cb = HALF_OPEN \<and> cb_state cb' = CLOSED \<and> ev = Succeed) \<or>
         (cb_state cb = HALF_OPEN \<and> cb_state cb' = OPEN \<and> (\<exists>err. ev = Fail err \<and> cb_counts cb err)) \<or>
         (cb_state cb = CLOSED \<and> cb_state cb' = OPEN \<and>
            (\<exists>err. ev = Fail err \<and>
               cb_minRequests opts \<le> int (cb_requests (cb_recordFailure now err cb)) \<and>
               of_int (cb_threshold opts) \<le> cb_getFailureRate (cb_recordFailure now err cb)))"
proof -
  have opts: "cb_options cb = opts"
    using run by (induction rule: cb_run.induct) (auto simp: cb_new_def dest: cb_step_options)
  have clean: "cb_trial_clean cb"
    using cb_run_trial_clean [OF run] by (simp add: cb_new_trial_clean)
  from step change show ?thesis
  proof (cases rule: cb_step.cases)
    case admit
    with change show ?thesis by (auto simp: cb_admit_state cb_shouldAttemptReset_def split: if_splits)
  next
    case succeed
    with change show ?thesis by (auto simp: cb_recordSuccess_state split: if_splits)
  next
    case (fail err)
    let ?cb1 = "cb_recordFailure now err cb"
    have opts1: "cb_options ?cb1 = opts" using opts by (simp add: cb_recordFailure_def Let_def)
    have trial: "\<not> cb_shouldOpen ?cb1" if "cb_state cb = HALF_OPEN"
      using that clean opts1 opts pos
      by (auto simp: cb_trial_clean_def cb_shouldOpen_def cb_recordFailure_state cb_recordFailure_def
          cb_getFailureRate_def cb_threshold_def)
    have filt: "?cb1 = cb" if "\<not> cb_counts cb err" using that by (simp add: cb_recordFailure_def)
    show ?thesis
    proof (cases "cb_state cb")
      case CLOSED
      with fail change opts1 show ?thesis
        by (auto simp: cb_settleFailure_state cb_recordFailure_state cb_shouldOpen_def
            cb_minRequests_def cb_threshold_def split: if_splits)
    next
      case OPEN
      with fail change show ?thesis
        by (auto simp: cb_settleFailure_state cb_recordFailure_state split: if_splits)
    next
      case HALF_OPEN
      with fail change trial show ?thesis
        by (auto simp: cb_settleFailure_state cb_recordFailure_state split: if_splits)
    qed
  qed
qed

abbreviation demo_options :: "nat circuit_options" where
  "demo_options \<equiv> \<lparr>cbo_timeout = None, cbo_errorThreshold = Some 50, cbo_resetTimeout = Some 10000,
     cbo_minRequests = Some 2, cbo_errorFilter = Some (\<lambda>status. status \<ge> 500), cbo_name = None\<rparr>"

text \<open>
  A new breaker that sees only counted failures within its window stays closed up to one
  failure below the minimum number of requests and opens with the failure that reaches it.
\<close>

lemma cb_trips_at_minimum:
  assumes "cb_threshold opts \<le> 100" and "0 < cb_minRequests opts"
    and "int (Suc (length fs)) = cb_minRequests opts"
    and "\<forall>(now, err) \<in> set (fs @ [(t, e)]).
           now - t0 \<le> js_or_num (cbo_timeout opts) 60000 \<and> cb_counts (cb_new opts t0) err"
  shows "cb_state (cb_fail_all fs (cb_new opts t0)) = CLOSED \<and>
    cb_state (cb_settleFailure t e (cb_fail_all fs (cb_new opts t0))) = OPEN"
proof -
  have "cb_failing opts t0 0 (cb_new opts t0)" by (simp add: cb_failing_def cb_new_def)
  from cb_failing_all [OF this, of fs] assms
  have f: "cb_failing opts t0 (length fs) (cb_fail_all fs (cb_new opts t0))" by auto
  then have "cb_state (cb_fail_all fs (cb_new opts t0)) = CLOSED" by (simp add: cb_failing_def)
  moreover have "cb_counts (cb_fail_all fs (cb_new opts t0)) e"
    using f assms(4) by (auto simp: cb_failing_def cb_counts_def cb_new_def)
  ultimately show ?thesis
    using cb_failing_step(2) [OF f, of e t] assms by auto
qed

text \<open>
  An open breaker refuses every call until the reset timeout has passed since its last change
  of state and then admits one and moves to half open; nothing else is refused.
\<close>

lemma cb_admission:
  "(fst (cb_admit now cb) \<longleftrightarrow>
      cb_state cb = CLOSED \<or> cb_state cb = HALF_OPEN \<or> cb_resetAfter cb \<le> now - cb_stateChangedAt cb) \<and>
   (\<not> fst (cb_admit now cb) \<longrightarrow> snd (cb_admit now cb) = cb) \<and>
   (cb_state cb = OPEN \<and> fst (cb_admit now cb) \<longrightarrow>
      cb_state (snd (cb_admit now cb)) = HALF_OPEN \<and> cb_requests (snd (cb_admit now cb)) = 0)"
  by (cases "cb_state cb"; cases "cb_resetAfter cb \<le> now - cb_stateChangedAt cb")
    (simp_all add: cb_admit_def cb_shouldAttemptReset_def cb_transition_defs)

text \<open>
  C14. Behind the decorator service an open breaker never recovers: after any sequence of
  executions, at any times and with any outcomes, it is still open, so the protected method is
  never called again.
\<close>

theorem cs_open_forever:
  assumes "cs_stateOf (cs_getCircuitBreakerKey cn pk opts) svc = Some OPEN"
  shows "cs_stateOf (cs_getCircuitBreakerKey cn pk opts) (cs_execute_all calls svc) = Some OPEN \<and>
    cs_execute now0 now1 cn pk args opts method (cs_execute_all calls svc) =
    cs_execute now0 now1 cn pk args opts method' (cs_execute_all calls svc)"
proof -
  let ?key = "cs_getCircuitBreakerKey cn pk opts"
  have o: "cs_stateOf ?key (cs_execute_all calls svc) = Some OPEN"
    using assms by (rule cs_execute_all_open)
  then obtain cb fb where "map_of (cs_breakers (cs_execute_all calls svc)) ?key = Some (cb, fb)"
    "cb_state cb = OPEN" by (auto simp: cs_stateOf_def)
  with o show ?thesis
    by (simp add: cs_execute_def cs_getCircuitBreaker_def)
qed

abbreviation demo_service :: "(unit, unit) circuit_service" where
  "demo_service \<equiv> \<lparr>cs_breakers = [(''A.m'', cb_open 0 (cb_new
       (so_circuit (no_service_options :: (unit, unit) service_options)) 0), None)],
     cs_globalConfig = no_service_options\<rparr>"

theorem cs_open_forever_witness:
  "cs_stateOf ''A.m'' (cs_execute_all
     (replicate 3 (10 ^ 9, 10 ^ 9, Some ''A'', ''m'', (), None, \<lambda>_. Inr ())) demo_service) = Some OPEN"
proof -
  have key: "cs_getCircuitBreakerKey (Some ''A'') ''m'' (None :: (unit, unit) service_options option) = ''A.m''"
    by (simp add: cs_getCircuitBreakerKey_def js_or_str_def)
  have "cs_stateOf ''A.m'' demo_service = Some OPEN" by (simp add: cs_stateOf_def)
  with key cs_open_forever [of "Some ''A''" "''m''" "None :: (unit, unit) service_options option" demo_service]
  show ?thesis by simp
qed

text \<open>
  As long as the breaker is consulted and told within its monitoring window, the counters
  agree and both rates are percentages that add up to one hundred.
\<close>

lemma cb_rates_within_window:
  assumes "cb_consistent cb" and "cb_step now ev cb cb'"
    and "now - cb_stateChangedAt cb \<le> cb_window cb" and "0 \<le> cb_window cb"
  shows "cb_consistent cb' \<and> 0 \<le> cb_getFailureRate cb' \<and> cb_getFailureRate cb' \<le> 100 \<and>
    cb_getSuccessRate cb' = 100 - cb_getFailureRate cb'"
proof -
  have c: "cb_consistent cb'" using cb_step_consistent assms by blast
  with cb_consistent_rates [OF c] show ?thesis by simp
qed

text \<open>
  Past the window this fails: the clean-up copies the success count into the request count, and
  one success with three failures then reads as a failure rate of three hundred percent.
\<close>

lemma cb_cleanup_breaks_rates:
  "cb_getFailureRate (cb_settleFailure 60001 500 (cb_settleFailure 2 500 (cb_settleFailure 1 500
     (cb_recordSuccess 1 (cb_new (demo_options\<lparr>cbo_minRequests := Some 10\<rparr>) 0))))) = 300"
  by (simp add: cb_settleFailure_def cb_new_def cb_record_defs cb_counts_def cb_shouldOpen_def
      cb_window_def js_or_num_def cb_getFailureRate_def)

text \<open>
  An error that the filter excludes is not counted, and yet it can open a closed breaker, because
  the check after a failed call looks at the counters whether or not the failure was counted.
\<close>

lemma cb_filtered_error_opens:
  "cb_state (cb_recordSuccess 2 (cb_settleFailure 1 500 (cb_new demo_options 0))) = CLOSED \<and>
   \<not> cb_counts (cb_new demo_options 0) 404 \<and>
   cb_state (cb_settleFailure 3 404
     (cb_recordSuccess 2 (cb_settleFailure 1 500 (cb_new demo_options 0)))) = OPEN"
  by (simp add: cb_settleFailure_def cb_new_def cb_record_defs cb_counts_def cb_shouldOpen_def
      cb_window_def js_or_num_def cb_getFailureRate_def)

end
