(* ===== verification/Binding_Types.thy ===== *)
theory Binding_Types
  imports Prelude
begin

text \<open>
  The data of the customer-binding flow: what the customer service returns
  (src/modules/account/clients/customer-service.client.ts), the rows of the binding and audit
  tables (src/modules/binding/infrastructure), the entry the guard caches, the values the flow
  keeps in the cache and the errors it throws.
\<close>

section \<open>Customer service\<close>

datatype resolve_status = RsNone | RsOne | RsMany

datatype secret_type = LastInvoiceAmount | MaKh

datatype input_mode = NumericInput | TextInput

record challenge_descriptor =
  cd_type :: secret_type
  cd_label :: string
  cd_inputMode :: input_mode

record candidate =
  cand_customerRef :: string
  cand_maskedHint :: string
  cand_challenge :: challenge_descriptor

record resolve_result =
  rr_status :: resolve_status
  rr_customerRef :: "string option"
  rr_maskedHint :: "string option"
  rr_challenge :: "challenge_descriptor option"
  rr_candidates :: "candidate list option"
  rr_capped :: "bool option"

definition resolve_none :: resolve_result where
  "resolve_none = \<lparr>rr_status = RsNone, rr_customerRef = None, rr_maskedHint = None,
     rr_challenge = None, rr_candidates = None, rr_capped = None\<rparr>"

record verify_request =
  vq_customerRef :: string
  vq_secretType :: secret_type
  vq_secretValue :: string

datatype classification = SinhHoat | SanXuat | HanhChinh

record address_input =
  ad_street :: string
  ad_ward :: string
  ad_district :: string
  ad_city :: string

record create_customer_request =
  cr_fullName :: string
  cr_classification :: classification
  cr_address :: address_input
  cr_email :: "string option"

record create_customer_result =
  cc_customerId :: string
  cc_customerRef :: string

text \<open>
  A call of the customer service fails with a conflict or with another error; the flow tells the
  two apart by the class of the exception.
\<close>

datatype customer_error = CustomerConflict | CustomerFailure js_error

section \<open>Tables\<close>

datatype binding_status = Pending | Verified | Revoked

record binding_row =
  br_id :: string
  br_userId :: string
  br_customerRef :: string
  br_customerId :: "string option"
  br_status :: binding_status
  br_factorUsed :: "string option"
  br_verifiedAt :: "msec option"
  br_deviceInfo :: "string option"
  br_boundAt :: "msec option"
  br_revokedAt :: "msec option"
  br_revokedReason :: "string option"
  br_updatedAt :: msec

datatype audit_action = ChallengeAttempt | BindAction | Unbind | Reverify | Register | LockoutAction

record audit_entry =
  ae_userId :: string
  ae_customerRef :: "string option"
  ae_action :: audit_action
  ae_success :: bool
  ae_detail :: "string option"
  ae_ip :: "string option"
  ae_deviceInfo :: "string option"

section \<open>Cache values\<close>

text \<open>The entry of the guard's cache: the customer id stays ciphertext.\<close>

record binding_cache_entry =
  be_customerIdCipher :: "string option"
  be_customerRef :: string
  be_verifiedAt :: "msec option"
  be_deviceInfo :: "string option"

text \<open>
  One cache serves the whole flow, and a read is only a cast: a lock flag is a number, a failure
  counter an object with its count and the start of its window.
\<close>

datatype bind_val =
    BvNum int
  | BvWindow int msec
  | BvInit resolve_result
  | BvEntry binding_cache_entry

definition bv_truthy :: "bind_val \<Rightarrow> bool" where
  "bv_truthy v = (case v of BvNum n \<Rightarrow> n \<noteq> 0 | _ \<Rightarrow> True)"

section \<open>Lock reasons and errors\<close>

datatype lock_reason = UserRef | CustomerRef | SessionTotal

text \<open>The order of strength the limiter reports by: session over customer reference over user.\<close>

fun lock_rank :: "lock_reason \<Rightarrow> nat" where
  "lock_rank UserRef = 0"
| "lock_rank CustomerRef = 1"
| "lock_rank SessionTotal = 2"

lemma lock_rank_inject: "lock_rank a = lock_rank b \<Longrightarrow> a = b"
  by (cases a; cases b) simp_all

instantiation lock_reason :: linorder
begin

definition less_eq_lock_reason :: "lock_reason \<Rightarrow> lock_reason \<Rightarrow> bool" where
  "less_eq_lock_reason a b \<longleftrightarrow> lock_rank a \<le> lock_rank b"

definition less_lock_reason :: "lock_reason \<Rightarrow> lock_reason \<Rightarrow> bool" where
  "less_lock_reason a b \<longleftrightarrow> lock_rank a < lock_rank b"

instance
  by standard (auto simp: less_eq_lock_reason_def less_lock_reason_def intro: lock_rank_inject)

end

datatype validation_reason = InitExpired | ForeignRef | NoSessionPhone

datatype bind_error =
    CacheRejected
  | DatabaseError
  | ValidationError validation_reason
  | LockoutError lock_reason int
  | ConflictError "resolve_status option"  \<comment> \<open>\<^verbatim>\<open>CUSTOMER_EXISTS_USE_BIND\<close>, with the status of a second resolution\<close>
  | CustomerServiceError customer_error

end
