(* ===== verification/Binding_Limiter.thy ===== *)
theory Binding_Limiter
  imports Binding_Types Memory_Cache
begin

text \<open>
  The brute-force limiter of the binding challenge
  (src/modules/binding/binding-rate-limiter.service.ts): three failure counters with fixed windows
  and three locks, kept in the shared cache. The operations take the cache port as an argument, as
  the service takes it by injection; one call reads the clock once.
\<close>

section \<open>Limits and keys\<close>

definition USER_REF_LIMIT :: int where "USER_REF_LIMIT = 3"
definition USER_REF_WINDOW_SEC :: int where "USER_REF_WINDOW_SEC = 15 * 60"
definition CUSTOMER_REF_LIMIT :: int where "CUSTOMER_REF_LIMIT = 10"
definition CUSTOMER_REF_WINDOW_SEC :: int where "CUSTOMER_REF_WINDOW_SEC = 60 * 60"
definition CUSTOMER_REF_LOCK_SEC :: int where "CUSTOMER_REF_LOCK_SEC = 24 * 60 * 60"
definition USER_TOTAL_LIMIT :: int where "USER_TOTAL_LIMIT = 5"
definition USER_TOTAL_WINDOW_SEC :: int where "USER_TOTAL_WINDOW_SEC = 15 * 60"
definition USER_TOTAL_LOCK_SEC :: int where "USER_TOTAL_LOCK_SEC = 15 * 60"

lemmas limit_defs =
  USER_REF_LIMIT_def USER_REF_WINDOW_SEC_def CUSTOMER_REF_LIMIT_def CUSTOMER_REF_WINDOW_SEC_def
  CUSTOMER_REF_LOCK_SEC_def USER_TOTAL_LIMIT_def USER_TOTAL_WINDOW_SEC_def USER_TOTAL_LOCK_SEC_def

lemma limits_pos:
  "0 < USER_REF_WINDOW_SEC" "0 < CUSTOMER_REF_WINDOW_SEC" "0 < CUSTOMER_REF_LOCK_SEC"
  "0 < USER_TOTAL_WINDOW_SEC" "0 < USER_TOTAL_LOCK_SEC"
  by (simp_all add: limit_defs)

definition userFailKey :: "string \<Rightarrow> string \<Rightarrow> string" where
  "userFailKey userId customerRef = ''bind:fail:user:'' @ userId @ '':'' @ customerRef"
definition userLockKey :: "string \<Rightarrow> string \<Rightarrow> string" where
  "userLockKey userId customerRef = ''bind:lock:user:'' @ userId @ '':'' @ customerRef"
definition custFailKey :: "string \<Rightarrow> string" where
  "custFailKey customerRef = ''bind:fail:cust:'' @ customerRef"
definition custLockKey :: "string \<Rightarrow> string" where
  "custLockKey customerRef = ''bind:lock:cust:'' @ customerRef"
definition userTotalFailKey :: "string \<Rightarrow> string" where
  "userTotalFailKey userId = ''bind:fail:user_total:'' @ userId"
definition userTotalLockKey :: "string \<Rightarrow> string" where
  "userTotalLockKey userId = ''bind:lock:user_total:'' @ userId"

lemmas key_defs =
  userFailKey_def userLockKey_def custFailKey_def custLockKey_def userTotalFailKey_def
  userTotalLockKey_def

section \<open>Operations\<close>

record lock_state =
  ls_locked :: bool
  ls_reason :: "lock_reason option"
  ls_retryAfterSec :: "int option"

record failure_outcome =
  fo_lockedNow :: bool
  fo_reason :: "lock_reason option"
  fo_retryAfterSec :: "int option"

definition cache_get ::
  "('c, 'v) ICacheService \<Rightarrow> msec \<Rightarrow> string \<Rightarrow> ('c, 'e, 'v option) async" where
  "cache_get ic now key = (\<lambda>c. case ic_get ic now key c of (v, c') \<Rightarrow> (Inr v, c'))"

definition cache_set ::
  "('c, 'v) ICacheService \<Rightarrow> 'e \<Rightarrow> msec \<Rightarrow> string \<Rightarrow> 'v \<Rightarrow> int \<Rightarrow> ('c, 'e, unit) async" where
  "cache_set ic rejected now key v ttl =
     (\<lambda>c. case ic_set ic now key v (Some ttl) c of (ok, c') \<Rightarrow> (if ok then Inr () else Inl rejected, c'))"

definition cache_delete :: "('c, 'v) ICacheService \<Rightarrow> string \<Rightarrow> ('c, 'e, unit) async" where
  "cache_delete ic key = writes (ic_delete ic key)"

definition ttlSec :: "('c, 'v) ICacheService \<Rightarrow> msec \<Rightarrow> string \<Rightarrow> ('c, 'e, int) async" where
  "ttlSec ic now key = reads (\<lambda>c. max (ic_ttl ic now key c) 0)"

text \<open>\<^verbatim>\<open>if (await cache.get(lockKey)) return \{ locked: true, ... \}\<close>, else go on.\<close>

definition check_lock ::
  "('c, bind_val) ICacheService \<Rightarrow> msec \<Rightarrow> string \<Rightarrow> lock_reason \<Rightarrow>
     ('c, bind_error, lock_state) async \<Rightarrow> ('c, bind_error, lock_state) async" where
  "check_lock ic now lockKey reason continue =
     bnd (cache_get ic now lockKey) (\<lambda>v.
       if (case v of None \<Rightarrow> False | Some x \<Rightarrow> bv_truthy x)
       then bnd (ttlSec ic now lockKey) (\<lambda>s.
         ret \<lparr>ls_locked = True, ls_reason = Some reason, ls_retryAfterSec = Some s\<rparr>)
       else continue)"

definition checkLocked ::
  "('c, bind_val) ICacheService \<Rightarrow> msec \<Rightarrow> string \<Rightarrow> string \<Rightarrow> ('c, bind_error, lock_state) async" where
  "checkLocked ic now userId customerRef =
     check_lock ic now (userTotalLockKey userId) SessionTotal (
     check_lock ic now (userLockKey userId customerRef) UserRef (
     check_lock ic now (custLockKey customerRef) CustomerRef (
     ret \<lparr>ls_locked = False, ls_reason = None, ls_retryAfterSec = None\<rparr>)))"

text \<open>What \<^verbatim>\<open>bump\<close> does once its read has returned.\<close>

definition bump_write ::
  "('c, bind_val) ICacheService \<Rightarrow> msec \<Rightarrow> string \<Rightarrow> int \<Rightarrow> bind_val option \<Rightarrow> ('c, bind_error, int) async" where
  "bump_write ic now key windowSec entry =
     (let fresh = seq (cache_set ic CacheRejected now key (BvWindow 1 now) windowSec) (ret 1) in
      case entry of
        Some (BvWindow n since) \<Rightarrow>
          if now - since < windowSec * 1000
          then let count = n + 1 in
            seq (cache_set ic CacheRejected now key (BvWindow count since) windowSec) (ret count)
          else fresh
      | _ \<Rightarrow> fresh)"

definition bump ::
  "('c, bind_val) ICacheService \<Rightarrow> msec \<Rightarrow> string \<Rightarrow> int \<Rightarrow> ('c, bind_error, int) async" where
  "bump ic now key windowSec = bnd (cache_get ic now key) (bump_write ic now key windowSec)"

text \<open>One ceiling: count the failure and, when the limit is reached, arm the lock and restart.\<close>

definition ceiling ::
  "('c, bind_val) ICacheService \<Rightarrow> msec \<Rightarrow> string \<Rightarrow> string \<Rightarrow> int \<Rightarrow> int \<Rightarrow> int \<Rightarrow>
     ('c, bind_error, bool) async" where
  "ceiling ic now failKey lockKey windowSec limit lockSec =
     bnd (bump ic now failKey windowSec) (\<lambda>count.
       if count \<ge> limit
       then seq (cache_set ic CacheRejected now lockKey (BvNum 1) lockSec)
              (seq (cache_delete ic failKey) (ret True))
       else ret False)"

definition failure_report :: "bool \<Rightarrow> bool \<Rightarrow> bool \<Rightarrow> failure_outcome" where
  "failure_report userRefArmed customerArmed sessionArmed =
     (if sessionArmed then \<lparr>fo_lockedNow = True, fo_reason = Some SessionTotal,
                            fo_retryAfterSec = Some USER_TOTAL_LOCK_SEC\<rparr>
      else if customerArmed then \<lparr>fo_lockedNow = True, fo_reason = Some CustomerRef,
                            fo_retryAfterSec = Some CUSTOMER_REF_LOCK_SEC\<rparr>
      else if userRefArmed then \<lparr>fo_lockedNow = True, fo_reason = Some UserRef,
                            fo_retryAfterSec = Some USER_REF_WINDOW_SEC\<rparr>
      else \<lparr>fo_lockedNow = False, fo_reason = None, fo_retryAfterSec = None\<rparr>)"

definition recordFailure ::
  "('c, bind_val) ICacheService \<Rightarrow> msec \<Rightarrow> string \<Rightarrow> string \<Rightarrow>
     ('c, bind_error, failure_outcome) async" where
  "recordFailure ic now userId customerRef =
     bnd (ceiling ic now (userFailKey userId customerRef) (userLockKey userId customerRef)
            USER_REF_WINDOW_SEC USER_REF_LIMIT USER_REF_WINDOW_SEC) (\<lambda>userRefArmed.
     bnd (ceiling ic now (custFailKey customerRef) (custLockKey customerRef)
            CUSTOMER_REF_WINDOW_SEC CUSTOMER_REF_LIMIT CUSTOMER_REF_LOCK_SEC) (\<lambda>customerArmed.
     bnd (ceiling ic now (userTotalFailKey userId) (userTotalLockKey userId)
            USER_TOTAL_WINDOW_SEC USER_TOTAL_LIMIT USER_TOTAL_LOCK_SEC) (\<lambda>sessionArmed.
     ret (failure_report userRefArmed customerArmed sessionArmed))))"

definition clearFailures ::
  "('c, bind_val) ICacheService \<Rightarrow> string \<Rightarrow> string \<Rightarrow> ('c, bind_error, unit) async" where
  "clearFailures ic userId customerRef =
     seq (cache_delete ic (userFailKey userId customerRef)) (cache_delete ic (userTotalFailKey userId))"

section \<open>Keys do not collide\<close>

lemma key_kinds_distinct [simp]:
  "userFailKey u r \<noteq> userLockKey u' r'" "userFailKey u r \<noteq> custFailKey r'"
  "userFailKey u r \<noteq> custLockKey r'" "userFailKey u r \<noteq> userTotalFailKey u'"
  "userFailKey u r \<noteq> userTotalLockKey u'" "userLockKey u r \<noteq> custFailKey r'"
  "userLockKey u r \<noteq> custLockKey r'" "userLockKey u r \<noteq> userTotalFailKey u'"
  "userLockKey u r \<noteq> userTotalLockKey u'" "custFailKey r \<noteq> custLockKey r'"
  "custFailKey r \<noteq> userTotalFailKey u'" "custFailKey r \<noteq> userTotalLockKey u'"
  "custLockKey r \<noteq> userTotalFailKey u'" "custLockKey r \<noteq> userTotalLockKey u'"
  "userTotalFailKey u \<noteq> userTotalLockKey u'"
  by (simp_all add: key_defs)

lemmas key_kinds_distinct' [simp] = key_kinds_distinct [symmetric]

lemma key_inject [simp]:
  "custFailKey r = custFailKey r' \<longleftrightarrow> r = r'" "custLockKey r = custLockKey r' \<longleftrightarrow> r = r'"
  "userTotalFailKey u = userTotalFailKey u' \<longleftrightarrow> u = u'"
  "userTotalLockKey u = userTotalLockKey u' \<longleftrightarrow> u = u'"
  by (simp_all add: key_defs)

lemma user_key_inject:
  assumes "CHR '':'' \<notin> set u" "CHR '':'' \<notin> set u'"
  shows "userFailKey u r = userFailKey u' r' \<longleftrightarrow> u = u' \<and> r = r'"
    and "userLockKey u r = userLockKey u' r' \<longleftrightarrow> u = u' \<and> r = r'"
  using append_sep_inject [OF assms, of r r'] by (simp_all add: key_defs)

section \<open>Abstract specification\<close>

text \<open>
  The limiter seen through the cache: a view says what a read returns at each time. One ceiling
  advances the fixed window of its counter, and either stores it or, at the limit, replaces it by
  the lock.
\<close>

type_synonym cache_view = "msec \<Rightarrow> string \<Rightarrow> bind_val option"

definition next_window :: "msec \<Rightarrow> int \<Rightarrow> bind_val option \<Rightarrow> int \<times> msec" where
  "next_window now windowSec v = (case v of
       Some (BvWindow n since) \<Rightarrow> if now - since < windowSec * 1000 then (n + 1, since) else (1, now)
     | _ \<Rightarrow> (1, now))"

definition put_view :: "msec \<Rightarrow> string \<Rightarrow> bind_val \<Rightarrow> int \<Rightarrow> cache_view \<Rightarrow> cache_view" where
  "put_view now key v ttl V = (\<lambda>t k. if k = key then (if t \<le> now + ttl * 1000 then Some v else None) else V t k)"

definition drop_view :: "string \<Rightarrow> cache_view \<Rightarrow> cache_view" where
  "drop_view key V = (\<lambda>t k. if k = key then None else V t k)"

definition ceiling_armed :: "msec \<Rightarrow> string \<Rightarrow> int \<Rightarrow> int \<Rightarrow> cache_view \<Rightarrow> bool" where
  "ceiling_armed now failKey windowSec limit V \<longleftrightarrow> fst (next_window now windowSec (V now failKey)) \<ge> limit"

definition ceiling_view ::
  "msec \<Rightarrow> string \<Rightarrow> string \<Rightarrow> int \<Rightarrow> int \<Rightarrow> int \<Rightarrow> cache_view \<Rightarrow> cache_view" where
  "ceiling_view now failKey lockKey windowSec limit lockSec V =
     (if ceiling_armed now failKey windowSec limit V
      then drop_view failKey (put_view now lockKey (BvNum 1) lockSec V)
      else case next_window now windowSec (V now failKey) of
        (n, since) \<Rightarrow> put_view now failKey (BvWindow n since) windowSec V)"

text \<open>Two views agree from a time on.\<close>

definition agree :: "msec \<Rightarrow> cache_view \<Rightarrow> cache_view \<Rightarrow> bool" where
  "agree t V V' \<longleftrightarrow> (\<forall>t' \<ge> t. \<forall>k. V t' k = V' t' k)"

lemma agree_refl [simp]: "agree t V V"
  by (simp add: agree_def)

lemma agree_trans: "agree t V V' \<Longrightarrow> agree t V' V'' \<Longrightarrow> agree t V V''"
  by (simp add: agree_def)

lemma agree_at: "agree t V V' \<Longrightarrow> V t k = V' t k"
  by (simp add: agree_def)

lemma agree_put: "agree t V V' \<Longrightarrow> agree t (put_view now k v ttl V) (put_view now k v ttl V')"
  by (simp add: agree_def put_view_def)

lemma agree_drop: "agree t V V' \<Longrightarrow> agree t (drop_view k V) (drop_view k V')"
  by (simp add: agree_def drop_view_def)

lemma agree_armed: "agree now V V' \<Longrightarrow> ceiling_armed now fk w l V = ceiling_armed now fk w l V'"
  by (simp add: ceiling_armed_def agree_at)

lemma agree_ceiling:
  "agree now V V' \<Longrightarrow> agree now (ceiling_view now fk lk w l s V) (ceiling_view now fk lk w l s V')"
  by (simp add: ceiling_view_def agree_armed [of now V V'] agree_at [of now V V'] agree_put agree_drop
      split: prod.splits)

definition locked_by :: "cache_view \<Rightarrow> msec \<Rightarrow> string \<Rightarrow> bool" where
  "locked_by V t lockKey \<longleftrightarrow> (case V t lockKey of None \<Rightarrow> False | Some x \<Rightarrow> bv_truthy x)"

definition locked_view :: "cache_view \<Rightarrow> msec \<Rightarrow> string \<Rightarrow> string \<Rightarrow> bool" where
  "locked_view V t userId customerRef \<longleftrightarrow> locked_by V t (userTotalLockKey userId) \<or>
     locked_by V t (userLockKey userId customerRef) \<or> locked_by V t (custLockKey customerRef)"

text \<open>The three ceilings of a recorded failure, in the order the code takes them.\<close>

definition user_ceiling :: "msec \<Rightarrow> string \<Rightarrow> string \<Rightarrow> cache_view \<Rightarrow> cache_view" where
  "user_ceiling now u r = ceiling_view now (userFailKey u r) (userLockKey u r)
     USER_REF_WINDOW_SEC USER_REF_LIMIT USER_REF_WINDOW_SEC"

definition cust_ceiling :: "msec \<Rightarrow> string \<Rightarrow> cache_view \<Rightarrow> cache_view" where
  "cust_ceiling now r = ceiling_view now (custFailKey r) (custLockKey r)
     CUSTOMER_REF_WINDOW_SEC CUSTOMER_REF_LIMIT CUSTOMER_REF_LOCK_SEC"

definition total_ceiling :: "msec \<Rightarrow> string \<Rightarrow> cache_view \<Rightarrow> cache_view" where
  "total_ceiling now u = ceiling_view now (userTotalFailKey u) (userTotalLockKey u)
     USER_TOTAL_WINDOW_SEC USER_TOTAL_LIMIT USER_TOTAL_LOCK_SEC"

definition failure_view :: "msec \<Rightarrow> string \<Rightarrow> string \<Rightarrow> cache_view \<Rightarrow> cache_view" where
  "failure_view now u r V = total_ceiling now u (cust_ceiling now r (user_ceiling now u r V))"

lemmas ceiling_kinds = user_ceiling_def cust_ceiling_def total_ceiling_def

definition armed_reasons :: "msec \<Rightarrow> string \<Rightarrow> string \<Rightarrow> cache_view \<Rightarrow> lock_reason set" where
  "armed_reasons now u r V =
     (if ceiling_armed now (userFailKey u r) USER_REF_WINDOW_SEC USER_REF_LIMIT V then {UserRef} else {}) \<union>
     (if ceiling_armed now (custFailKey r) CUSTOMER_REF_WINDOW_SEC CUSTOMER_REF_LIMIT V then {CustomerRef} else {}) \<union>
     (if ceiling_armed now (userTotalFailKey u) USER_TOTAL_WINDOW_SEC USER_TOTAL_LIMIT V then {SessionTotal} else {})"

definition clear_view :: "string \<Rightarrow> string \<Rightarrow> cache_view \<Rightarrow> cache_view" where
  "clear_view u r V = drop_view (userTotalFailKey u) (drop_view (userFailKey u r) V)"

text \<open>A ceiling touches its own two keys only.\<close>

lemma ceiling_view_other:
  "k \<noteq> fk \<Longrightarrow> k \<noteq> lk \<Longrightarrow> ceiling_view now fk lk w l s V t k = V t k"
  by (simp add: ceiling_view_def drop_view_def put_view_def split: prod.splits)

lemma ceiling_armed_other:
  "k \<noteq> fk \<Longrightarrow> k \<noteq> lk \<Longrightarrow>
   ceiling_armed now k w' l' (ceiling_view now fk lk w l s V) = ceiling_armed now k w' l' V"
  by (simp add: ceiling_armed_def ceiling_view_other)

section \<open>The operations meet the specification\<close>

locale limiter_cache = reliable_cache ic view free
  for ic :: "('c, bind_val) ICacheService"
    and view :: "msec \<Rightarrow> 'c \<Rightarrow> string \<Rightarrow> bind_val option"
    and free :: "'c \<Rightarrow> nat"
begin

lemma get_agree: "agree t (\<lambda>t'. view t' (snd (ic_get ic t k c))) (\<lambda>t'. view t' c)"
  by (simp add: agree_def get_keeps)

lemma cache_get_spec:
  obtains c' where "cache_get ic t k c = (Inr (view t c k), c')"
    "agree t (\<lambda>t'. view t' c') (\<lambda>t'. view t' c)" "free c \<le> free c'"
  using get_view [of t k c] get_agree [of t k c] get_free [of c t k]
  by (cases "ic_get ic t k c") (simp add: cache_get_def)

lemma cache_set_spec:
  assumes "0 \<le> t" "0 < ttl" "0 < free c"
  obtains c' where "cache_set ic e t k v ttl c = (Inr (), c')"
    "(\<lambda>t'. view t' c') = put_view t k v ttl (\<lambda>t'. view t' c)" "free c \<le> Suc (free c')"
  using set_resolves [of t k v "Some ttl" c] set_view_ok [OF assms, of _ k v]
    set_free [of c t k v "Some ttl"]
  by (cases "ic_set ic t k v (Some ttl) c") (auto simp: cache_set_def put_view_def fun_eq_iff)

lemma cache_delete_spec:
  obtains c' where "cache_delete ic k c = (Inr (), c')"
    "(\<lambda>t'. view t' c') = drop_view k (\<lambda>t'. view t' c)" "free c \<le> free c'"
  using delete_view delete_free
  by (auto simp: cache_delete_def async_simps drop_view_def fun_eq_iff)

end

context limiter_cache
begin

lemma bump_spec:
  assumes "0 \<le> t" "0 < w" "0 < free c"
  obtains c' n s where "bump ic t k w c = (Inr n, c')" "next_window t w (view t c k) = (n, s)"
    "agree t (\<lambda>t'. view t' c') (put_view t k (BvWindow n s) w (\<lambda>t'. view t' c))"
    "free c \<le> Suc (free c')"
proof -
  obtain n s where ns: "next_window t w (view t c k) = (n, s)" by fastforce
  obtain c1 where c1: "cache_get ic t k c = (Inr (view t c k) :: bind_error + _, c1)"
    "agree t (\<lambda>t'. view t' c1) (\<lambda>t'. view t' c)" "free c \<le> free c1"
    by (rule cache_get_spec)
  obtain c2 where c2: "cache_set ic CacheRejected t k (BvWindow n s) w c1 = (Inr (), c2)"
    "(\<lambda>t'. view t' c2) = put_view t k (BvWindow n s) w (\<lambda>t'. view t' c1)" "free c1 \<le> Suc (free c2)"
    using cache_set_spec [of t w c1 CacheRejected k "BvWindow n s"] assms c1(3) by auto
  have "bump ic t k w c = (Inr n, c2)"
    using ns c1(1) c2(1)
    by (auto simp: bump_def bump_write_def async_simps next_window_def Let_def
        split: option.splits bind_val.splits if_splits)
  moreover have "agree t (\<lambda>t'. view t' c2) (put_view t k (BvWindow n s) w (\<lambda>t'. view t' c))"
    unfolding c2(2) by (rule agree_put [OF c1(2)])
  ultimately show ?thesis using that ns c1(3) c2(3) by force
qed

lemma ceiling_spec:
  assumes "0 \<le> t" "0 < w" "0 < ls" "2 \<le> free c" "fk \<noteq> lk"
  obtains c' where "ceiling ic t fk lk w l ls c = (Inr (ceiling_armed t fk w l (\<lambda>t'. view t' c)), c')"
    "agree t (\<lambda>t'. view t' c') (ceiling_view t fk lk w l ls (\<lambda>t'. view t' c))" "free c \<le> free c' + 2"
proof -
  obtain c1 n s where c1: "bump ic t fk w c = (Inr n, c1)" and ns: "next_window t w (view t c fk) = (n, s)"
    and a1: "agree t (\<lambda>t'. view t' c1) (put_view t fk (BvWindow n s) w (\<lambda>t'. view t' c))"
    and f1: "free c \<le> Suc (free c1)"
    by (rule bump_spec [of t w c fk]) (use assms in simp_all)
  show ?thesis
  proof (cases "n \<ge> l")
    case False
    with c1 ns a1 f1 that [of c1] show ?thesis
      by (simp add: ceiling_def async_simps ceiling_armed_def ceiling_view_def)
  next
    case True
    obtain c2 where c2: "cache_set ic CacheRejected t lk (BvNum 1) ls c1 = (Inr (), c2)"
      "(\<lambda>t'. view t' c2) = put_view t lk (BvNum 1) ls (\<lambda>t'. view t' c1)" "free c1 \<le> Suc (free c2)"
      using cache_set_spec [of t ls c1 CacheRejected lk "BvNum 1"] assms f1 by auto
    obtain c3 where c3: "cache_delete ic fk c2 = (Inr () :: bind_error + unit, c3)"
      "(\<lambda>t'. view t' c3) = drop_view fk (\<lambda>t'. view t' c2)" "free c2 \<le> free c3"
      by (rule cache_delete_spec)
    have "agree t (\<lambda>t'. view t' c3) (drop_view fk (put_view t lk (BvNum 1) ls (\<lambda>t'. view t' c)))"
      using a1 assms(5) unfolding c3(2) c2(2) by (simp add: agree_def drop_view_def put_view_def)
    with True c1 ns c2(1,3) c3(1,3) f1 that [of c3] show ?thesis
      by (simp add: ceiling_def async_simps ceiling_armed_def ceiling_view_def)
  qed
qed

lemma recordFailure_spec:
  assumes "0 \<le> t" "6 \<le> free c"
  obtains c' where "recordFailure ic t u r c = (Inr (failure_report
      (UserRef \<in> armed_reasons t u r (\<lambda>t'. view t' c)) (CustomerRef \<in> armed_reasons t u r (\<lambda>t'. view t' c))
      (SessionTotal \<in> armed_reasons t u r (\<lambda>t'. view t' c))), c')"
    "agree t (\<lambda>t'. view t' c') (failure_view t u r (\<lambda>t'. view t' c))" "free c \<le> free c' + 6"
proof -
  obtain c1 where c1: "ceiling ic t (userFailKey u r) (userLockKey u r) USER_REF_WINDOW_SEC USER_REF_LIMIT
      USER_REF_WINDOW_SEC c = (Inr (ceiling_armed t (userFailKey u r) USER_REF_WINDOW_SEC USER_REF_LIMIT
        (\<lambda>t'. view t' c)), c1)"
    and a1: "agree t (\<lambda>t'. view t' c1) (user_ceiling t u r (\<lambda>t'. view t' c))" and f1: "free c \<le> free c1 + 2"
    unfolding user_ceiling_def
    by (rule ceiling_spec [of t USER_REF_WINDOW_SEC USER_REF_WINDOW_SEC c "userFailKey u r" "userLockKey u r"])
      (use assms in \<open>simp_all add: limits_pos\<close>)
  obtain c2 where c2: "ceiling ic t (custFailKey r) (custLockKey r) CUSTOMER_REF_WINDOW_SEC CUSTOMER_REF_LIMIT
      CUSTOMER_REF_LOCK_SEC c1 = (Inr (ceiling_armed t (custFailKey r) CUSTOMER_REF_WINDOW_SEC CUSTOMER_REF_LIMIT
        (\<lambda>t'. view t' c1)), c2)"
    and a2: "agree t (\<lambda>t'. view t' c2) (cust_ceiling t r (\<lambda>t'. view t' c1))" and f2: "free c1 \<le> free c2 + 2"
    unfolding cust_ceiling_def
    by (rule ceiling_spec [of t CUSTOMER_REF_WINDOW_SEC CUSTOMER_REF_LOCK_SEC c1 "custFailKey r" "custLockKey r"])
      (use assms f1 in \<open>simp_all add: limits_pos\<close>)
  obtain c3 where c3: "ceiling ic t (userTotalFailKey u) (userTotalLockKey u) USER_TOTAL_WINDOW_SEC
      USER_TOTAL_LIMIT USER_TOTAL_LOCK_SEC c2 = (Inr (ceiling_armed t (userTotalFailKey u)
        USER_TOTAL_WINDOW_SEC USER_TOTAL_LIMIT (\<lambda>t'. view t' c2)), c3)"
    and a3: "agree t (\<lambda>t'. view t' c3) (total_ceiling t u (\<lambda>t'. view t' c2))" and f3: "free c2 \<le> free c3 + 2"
    unfolding total_ceiling_def
    by (rule ceiling_spec [of t USER_TOTAL_WINDOW_SEC USER_TOTAL_LOCK_SEC c2 "userTotalFailKey u" "userTotalLockKey u"])
      (use assms f1 f2 in \<open>simp_all add: limits_pos\<close>)
  from a2 have a12: "agree t (\<lambda>t'. view t' c2) (cust_ceiling t r (user_ceiling t u r (\<lambda>t'. view t' c)))"
    unfolding cust_ceiling_def by (rule agree_trans) (rule agree_ceiling [OF a1])
  from a3 have a123: "agree t (\<lambda>t'. view t' c3) (failure_view t u r (\<lambda>t'. view t' c))"
    unfolding failure_view_def total_ceiling_def by (rule agree_trans) (rule agree_ceiling [OF a12])
  show ?thesis
    by (rule that [OF _ a123])
      (use c1 c2 c3 f1 f2 f3 agree_armed [OF a1] agree_armed [OF a12] in
        \<open>auto simp: recordFailure_def async_simps armed_reasons_def ceiling_kinds ceiling_armed_other\<close>)
qed

lemma check_lock_rule:
  assumes "agree t (\<lambda>t'. view t' c) V" "f \<le> free c"
    and go: "\<And>c'. agree t (\<lambda>t'. view t' c') V \<Longrightarrow> f \<le> free c' \<Longrightarrow>
      \<exists>ls c''. continue c' = (Inr ls, c'') \<and> ls_locked ls = L \<and> agree t (\<lambda>t'. view t' c'') V \<and> f \<le> free c''"
  shows "\<exists>ls c''. check_lock ic t k reason continue c = (Inr ls, c'') \<and>
    ls_locked ls = (locked_by V t k \<or> L) \<and> agree t (\<lambda>t'. view t' c'') V \<and> f \<le> free c''"
proof -
  obtain c1 where c1: "cache_get ic t k c = (Inr (view t c k) :: bind_error + _, c1)"
    "agree t (\<lambda>t'. view t' c1) (\<lambda>t'. view t' c)" "free c \<le> free c1"
    by (rule cache_get_spec)
  have a1: "agree t (\<lambda>t'. view t' c1) V" and f1: "f \<le> free c1"
    using agree_trans [OF c1(2) assms(1)] c1(3) assms(2) by simp_all
  have v: "view t c k = V t k" using agree_at [OF assms(1)] .
  show ?thesis
  proof (cases "locked_by V t k")
    case True
    with c1(1) v a1 f1 show ?thesis by (simp add: check_lock_def async_simps locked_by_def ttlSec_def)
  next
    case False
    with c1(1) v go [OF a1 f1] show ?thesis by (simp add: check_lock_def async_simps locked_by_def)
  qed
qed

lemma checkLocked_spec:
  obtains ls c' where "checkLocked ic t u r c = (Inr ls, c')"
    "ls_locked ls = locked_view (\<lambda>t'. view t' c) t u r"
    "agree t (\<lambda>t'. view t' c') (\<lambda>t'. view t' c)" "free c \<le> free c'"
proof -
  have "\<exists>ls c'. checkLocked ic t u r c = (Inr ls, c') \<and>
    ls_locked ls = (locked_by (\<lambda>t'. view t' c) t (userTotalLockKey u) \<or>
      (locked_by (\<lambda>t'. view t' c) t (userLockKey u r) \<or>
      (locked_by (\<lambda>t'. view t' c) t (custLockKey r) \<or> False))) \<and>
    agree t (\<lambda>t'. view t' c') (\<lambda>t'. view t' c) \<and> free c \<le> free c'"
    unfolding checkLocked_def by (intro check_lock_rule) (simp_all add: async_simps)
  then show ?thesis using that by (auto simp: locked_view_def)
qed

lemma clearFailures_spec:
  obtains c' where "clearFailures ic u r c = (Inr (), c')"
    "(\<lambda>t'. view t' c') = clear_view u r (\<lambda>t'. view t' c)" "free c \<le> free c'"
proof -
  obtain c1 where c1: "cache_delete ic (userFailKey u r) c = (Inr () :: bind_error + _, c1)"
    "(\<lambda>t'. view t' c1) = drop_view (userFailKey u r) (\<lambda>t'. view t' c)" "free c \<le> free c1"
    by (rule cache_delete_spec)
  obtain c2 where c2: "cache_delete ic (userTotalFailKey u) c1 = (Inr () :: bind_error + _, c2)"
    "(\<lambda>t'. view t' c2) = drop_view (userTotalFailKey u) (\<lambda>t'. view t' c1)" "free c1 \<le> free c2"
    by (rule cache_delete_spec)
  show ?thesis
    using that [of c2] c1 c2 by (simp add: clearFailures_def async_simps clear_view_def)
qed

end

interpretation memlim: limiter_cache memory_cache_service mc_view mc_free
  by unfold_locales

section \<open>The budget of one ceiling\<close>

text \<open>
  The history of one ceiling since time \<open>t0\<close>, after \<open>A\<close> counted failures: windows start at
  least one window length apart, the window in progress holds \<open>n\<close> failures or has been turned
  into a lock that lasts at least until the window would have ended.
\<close>

definition ceil_inv ::
  "string \<Rightarrow> string \<Rightarrow> int \<Rightarrow> int \<Rightarrow> msec \<Rightarrow> msec \<Rightarrow> int \<Rightarrow> cache_view \<Rightarrow> bool" where
  "ceil_inv fk lk w limit t0 t A V \<longleftrightarrow> t0 \<le> t \<and>
     ((A \<le> 0 \<and> (\<forall>t' \<ge> t. V t' fk = None)) \<or>
      (\<exists>W s. 0 \<le> W \<and> t0 + W * (w * 1000) \<le> s \<and> s \<le> t \<and>
         ((\<exists>n < limit. A \<le> limit * W + n \<and>
             (\<forall>t' \<ge> t. V t' fk = Some (BvWindow n s) \<or> (V t' fk = None \<and> s + w * 1000 \<le> t'))) \<or>
          (A \<le> limit * (W + 1) \<and> (\<forall>t' \<ge> t. V t' fk = None) \<and>
             (\<forall>t' \<ge> t. t' < s + w * 1000 \<longrightarrow> locked_by V t' lk)))))"

lemma ceil_inv_frame:
  assumes "ceil_inv fk lk w limit t0 t A V" "t \<le> now"
    and "\<And>t'. now \<le> t' \<Longrightarrow> V' t' fk = V t' fk" "\<And>t'. now \<le> t' \<Longrightarrow> V' t' lk = V t' lk"
  shows "ceil_inv fk lk w limit t0 now A V'"
  using assms unfolding ceil_inv_def locked_by_def by (smt (verit, ccfv_threshold))

lemma ceil_inv_start:
  "t0 \<le> t \<Longrightarrow> (\<And>t'. t \<le> t' \<Longrightarrow> V t' fk = None) \<Longrightarrow> ceil_inv fk lk w limit t0 t 0 V"
  by (simp add: ceil_inv_def)

text \<open>A fresh window and a counted window, seen after the ceiling has run.\<close>

lemma ceil_inv_fresh:
  assumes "V now fk = None \<or> (\<exists>n s. V now fk = Some (BvWindow n s) \<and> s + w * 1000 \<le> now)"
    and "1 < limit" "0 < w" "0 \<le> W" "t0 + W * (w * 1000) \<le> now" "A \<le> limit * W"
  shows "ceil_inv fk lk w limit t0 now (A + 1) (ceiling_view now fk lk w limit ls V)"
proof -
  have nw: "next_window now w (V now fk) = (1, now)"
    using assms(1,3) by (auto simp: next_window_def)
  have "0 \<le> W * (w * 1000)" using assms(3,4) by simp
  then have "t0 \<le> now" using assms(5) by linarith
  have "ceiling_view now fk lk w limit ls V = put_view now fk (BvWindow 1 now) w V"
    using nw assms(2) by (simp add: ceiling_view_def ceiling_armed_def)
  then show ?thesis
    using assms(2-) \<open>t0 \<le> now\<close> unfolding ceil_inv_def
    by (intro conjI disjI2 exI [of _ W] exI [of _ now] disjI1 exI [of _ 1]) (auto simp: put_view_def)
qed

lemma ceil_inv_count:
  assumes "V now fk = Some (BvWindow n s)" "now < s + w * 1000" "s \<le> now" "n < limit"
    and "0 < w" "w \<le> ls" "0 \<le> W" "t0 + W * (w * 1000) \<le> s" "A \<le> limit * W + n" "fk \<noteq> lk"
  shows "ceil_inv fk lk w limit t0 now (A + 1) (ceiling_view now fk lk w limit ls V)"
proof -
  have nw: "next_window now w (V now fk) = (n + 1, s)"
    using assms(1,2) by (simp add: next_window_def)
  have "0 \<le> W * (w * 1000)" using assms(5,7) by simp
  then have t0: "t0 \<le> now" using assms(3,8) by linarith
  show ?thesis
  proof (cases "n + 1 \<ge> limit")
    case True
    then have cv: "ceiling_view now fk lk w limit ls V = drop_view fk (put_view now lk (BvNum 1) ls V)"
      using nw by (simp add: ceiling_view_def ceiling_armed_def)
    have "A + 1 \<le> limit * (W + 1)" using True assms(4,9) by (simp add: distrib_left)
    then show ?thesis
      using assms t0 unfolding ceil_inv_def cv
      by (intro conjI disjI2 exI [of _ W] exI [of _ s])
        (auto simp: drop_view_def put_view_def locked_by_def bv_truthy_def)
  next
    case False
    then have cv: "ceiling_view now fk lk w limit ls V = put_view now fk (BvWindow (n + 1) s) w V"
      using nw by (simp add: ceiling_view_def ceiling_armed_def)
    show ?thesis
      using False assms t0 unfolding ceil_inv_def cv
      by (intro conjI disjI2 exI [of _ W] exI [of _ s] disjI1 exI [of _ "n + 1"]) (auto simp: put_view_def)
  qed
qed

lemma ceil_inv_step:
  assumes inv: "ceil_inv fk lk w limit t0 t A V" and now: "t \<le> now"
    and "1 < limit" "0 < w" "w \<le> ls" "fk \<noteq> lk" and open_: "\<not> locked_by V now lk"
  shows "ceil_inv fk lk w limit t0 now (A + 1) (ceiling_view now fk lk w limit ls V)"
proof -
  have next_budget: "A + 1 \<le> limit * (W + 1) + 1" "t0 + (W + 1) * (w * 1000) \<le> now"
    if "A \<le> limit * (W + 1)" "t0 + W * (w * 1000) \<le> s" "s + w * 1000 \<le> now" for W s
    using that by (simp_all add: distrib_right)
  consider (start) "t0 \<le> t" "A \<le> 0" "V now fk = None"
    | (live) W s n where "0 \<le> W" "t0 + W * (w * 1000) \<le> s" "s \<le> t" "n < limit" "A \<le> limit * W + n"
        "V now fk = Some (BvWindow n s) \<or> (V now fk = None \<and> s + w * 1000 \<le> now)"
    | (held) W s where "0 \<le> W" "t0 + W * (w * 1000) \<le> s" "A \<le> limit * (W + 1)" "V now fk = None"
        "s + w * 1000 \<le> now"
    using inv now open_ unfolding ceil_inv_def by (metis linorder_not_le)
  then show ?thesis
  proof cases
    case start
    then show ?thesis using ceil_inv_fresh [of V now fk w limit 0 t0 A lk ls] assms by simp
  next
    case (live W s n)
    show ?thesis
    proof (cases "now < s + w * 1000")
      case True
      with live show ?thesis
        using ceil_inv_count [of V now fk n s w limit ls W t0 A lk] assms by simp
    next
      case False
      have "A \<le> limit * (W + 1)" using live by (simp add: distrib_left)
      with live False next_budget [of W s] show ?thesis
        using ceil_inv_fresh [of V now fk w limit "W + 1" t0 A lk ls] assms by auto
    qed
  next
    case (held W s)
    with next_budget [of W s] show ?thesis
      using ceil_inv_fresh [of V now fk w limit "W + 1" t0 A lk ls] assms by auto
  qed
qed

lemma ceil_inv_budget:
  assumes "ceil_inv fk lk w limit t0 t A V" "0 < limit" "0 < w"
  shows "A \<le> limit * ((t - t0) div (w * 1000) + 1)"
proof -
  consider "t0 \<le> t" "A \<le> 0" | W where "0 \<le> W" "W * (w * 1000) \<le> t - t0" "A \<le> limit * (W + 1)"
    using assms(1) unfolding ceil_inv_def by (smt (verit) distrib_left mult_cancel_left1)
  then show ?thesis
  proof cases
    case 1
    then have "0 \<le> limit * ((t - t0) div (w * 1000) + 1)"
      using assms(2,3) by (simp add: pos_imp_zdiv_nonneg_iff)
    with 1 show ?thesis by linarith
  next
    case (2 W)
    have "W = (W * (w * 1000)) div (w * 1000)" using assms(3) by simp
    also have "\<dots> \<le> (t - t0) div (w * 1000)" using 2(2) assms(3) by (intro zdiv_mono1) simp_all
    finally have "limit * (W + 1) \<le> limit * ((t - t0) div (w * 1000) + 1)"
      using assms(2) by simp
    with 2(3) show ?thesis by linarith
  qed
qed

text \<open>Clearing the counter gives back at most one window's budget.\<close>

lemma ceil_inv_reset:
  assumes inv: "ceil_inv fk lk w limit t0 t A V" and now: "t \<le> now" and "0 < limit" "0 < w"
    and none: "\<And>t'. now \<le> t' \<Longrightarrow> V' t' fk = None" and lk: "\<And>t'. now \<le> t' \<Longrightarrow> V' t' lk = V t' lk"
  shows "ceil_inv fk lk w limit t0 now (A - limit) V'"
proof -
  have t0: "t0 \<le> now" using inv now by (simp add: ceil_inv_def)
  consider (start) "A \<le> 0"
    | (live) W s n where "0 \<le> W" "t0 + W * (w * 1000) \<le> s" "s \<le> t" "n < limit" "A \<le> limit * W + n"
    | (held) W s where "0 \<le> W" "t0 + W * (w * 1000) \<le> s" "s \<le> t" "A \<le> limit * (W + 1)"
        "\<And>t'. t \<le> t' \<Longrightarrow> t' < s + w * 1000 \<Longrightarrow> locked_by V t' lk"
    using inv unfolding ceil_inv_def by metis
  then show ?thesis
  proof cases
    case start
    with none t0 assms(3) show ?thesis by (simp add: ceil_inv_def)
  next
    case (live W s n)
    show ?thesis
    proof (cases "W = 0")
      case True
      with live none t0 show ?thesis by (simp add: ceil_inv_def)
    next
      case False
      have "t0 + (W - 1) * (w * 1000) \<le> s - w * 1000" "A - limit \<le> limit * (W - 1) + n"
        using live by (simp_all add: left_diff_distrib right_diff_distrib)
      then show ?thesis
        using live False none t0 now assms(4) unfolding ceil_inv_def
        by (intro conjI disjI2 exI [of _ "W - 1"] exI [of _ "s - w * 1000"] disjI1 exI [of _ n]) auto
    qed
  next
    case (held W s)
    have "A - limit \<le> limit * (W + 1)" using held assms(3) by linarith
    then show ?thesis
      using held none lk t0 now unfolding ceil_inv_def locked_by_def
      by (intro conjI disjI2 exI [of _ W] exI [of _ s]) auto
  qed
qed

section \<open>The three ceilings do not interfere\<close>

lemma ceiling_view_cong:
  assumes "\<And>t. V t fk = V' t fk" "\<And>t. V t lk = V' t lk" "k = fk \<or> k = lk"
  shows "ceiling_view now fk lk w l s V t k = ceiling_view now fk lk w l s V' t k"
  using assms by (auto simp: ceiling_view_def ceiling_armed_def drop_view_def put_view_def split: prod.splits)

lemma total_of_failure:
  assumes "k = userTotalFailKey u' \<or> k = userTotalLockKey u'"
  shows "failure_view now u r V t k = (if u' = u then total_ceiling now u V t k else V t k)"
proof (cases "u' = u")
  case True
  with assms show ?thesis
    by (simp add: failure_view_def total_ceiling_def)
      (rule ceiling_view_cong; auto simp: ceiling_kinds ceiling_view_other)
next
  case False
  with assms show ?thesis by (auto simp: failure_view_def ceiling_kinds ceiling_view_other)
qed

lemma cust_of_failure:
  assumes "k = custFailKey r' \<or> k = custLockKey r'"
  shows "failure_view now u r V t k = (if r' = r then cust_ceiling now r V t k else V t k)"
proof -
  have "failure_view now u r V t k = cust_ceiling now r (user_ceiling now u r V) t k"
    using assms by (auto simp: failure_view_def total_ceiling_def ceiling_view_other)
  also have "\<dots> = (if r' = r then cust_ceiling now r V t k else V t k)"
  proof (cases "r' = r")
    case True
    with assms show ?thesis
      by (simp add: cust_ceiling_def) (rule ceiling_view_cong; auto simp: ceiling_kinds ceiling_view_other)
  next
    case False
    with assms show ?thesis by (auto simp: ceiling_kinds ceiling_view_other)
  qed
  finally show ?thesis .
qed

lemma user_of_failure:
  assumes "k = userFailKey u' r' \<or> k = userLockKey u' r'" "CHR '':'' \<notin> set u" "CHR '':'' \<notin> set u'"
  shows "failure_view now u r V t k = (if u' = u \<and> r' = r then user_ceiling now u r V t k else V t k)"
  using assms user_key_inject [OF assms(2,3), of r r']
  by (auto simp: failure_view_def ceiling_kinds ceiling_view_other)

section \<open>Properties\<close>

lemma failure_report_strongest:
  "fo_reason (failure_report a b c) =
     (let R = (if a then {UserRef} else {}) \<union> (if b then {CustomerRef} else {}) \<union> (if c then {SessionTotal} else {})
      in if R = {} then None else Some (Max R))"
proof -
  have "max UserRef CustomerRef = CustomerRef" "max CustomerRef SessionTotal = SessionTotal"
    "max UserRef SessionTotal = SessionTotal"
    by (simp_all add: max_def less_eq_lock_reason_def)
  then show ?thesis by (simp add: failure_report_def Let_def insert_commute max.commute)
qed

definition lock_seconds :: "lock_reason \<Rightarrow> int" where
  "lock_seconds reason = (case reason of UserRef \<Rightarrow> USER_REF_WINDOW_SEC
     | CustomerRef \<Rightarrow> CUSTOMER_REF_LOCK_SEC | SessionTotal \<Rightarrow> USER_TOTAL_LOCK_SEC)"

lemma armed_locks:
  assumes "reason \<in> armed_reasons now u r V" "t \<le> now + lock_seconds reason * 1000"
  shows "locked_view (failure_view now u r V) t u r"
proof (cases reason)
  case UserRef
  have "failure_view now u r V t (userLockKey u r) = user_ceiling now u r V t (userLockKey u r)"
    by (simp add: failure_view_def ceiling_kinds ceiling_view_other)
  also have "\<dots> = Some (BvNum 1)"
    using assms UserRef
    by (auto simp: user_ceiling_def armed_reasons_def lock_seconds_def
        ceiling_view_def drop_view_def put_view_def split: if_splits)
  finally have "failure_view now u r V t (userLockKey u r) = Some (BvNum 1)" .
  then show ?thesis by (simp add: locked_view_def locked_by_def bv_truthy_def)
next
  case CustomerRef
  then have "failure_view now u r V t (custLockKey r) = Some (BvNum 1)"
    using assms
    by (subst cust_of_failure [of _ r]) (auto simp: cust_ceiling_def armed_reasons_def lock_seconds_def
        ceiling_view_def drop_view_def put_view_def split: if_splits)
  then show ?thesis by (simp add: locked_view_def locked_by_def bv_truthy_def)
next
  case SessionTotal
  then have "failure_view now u r V t (userTotalLockKey u) = Some (BvNum 1)"
    using assms
    by (subst total_of_failure [of _ u]) (auto simp: total_ceiling_def armed_reasons_def lock_seconds_def
        ceiling_view_def drop_view_def put_view_def split: if_splits)
  then show ?thesis by (simp add: locked_view_def locked_by_def bv_truthy_def)
qed

text \<open>
  A recorded failure reports the strongest ceiling it reached (session over customer reference
  over user and reference) with that ceiling's lock time, and from then on until that time has
  passed every check of the same user and reference says locked. The cache must have room for the
  six entries a failure can write.
\<close>

lemma recorded_failure_locks:
  fixes c :: "bind_val memory_cache"
  assumes "0 \<le> now" "6 \<le> mc_free c"
  shows "\<exists>out c'. recordFailure memory_cache_service now u r c = (Inr out, c') \<and>
    (let R = armed_reasons now u r (\<lambda>t. mc_view t c) in
       fo_lockedNow out = (R \<noteq> {}) \<and>
       fo_reason out = (if R = {} then None else Some (Max R)) \<and>
       fo_retryAfterSec out = (if R = {} then None else Some (lock_seconds (Max R)))) \<and>
    (\<forall>sec t. fo_retryAfterSec out = Some sec \<and> now \<le> t \<and> t \<le> now + sec * 1000 \<longrightarrow>
       (\<exists>ls c''. checkLocked memory_cache_service t u r c' = (Inr ls, c'') \<and> ls_locked ls))"
proof -
  define V where "V = (\<lambda>t. mc_view t c)"
  define R where "R = armed_reasons now u r V"
  obtain c' where c': "recordFailure memory_cache_service now u r c = (Inr (failure_report
      (UserRef \<in> R) (CustomerRef \<in> R) (SessionTotal \<in> R)), c')"
    and a: "agree now (\<lambda>t'. mc_view t' c') (failure_view now u r V)"
    unfolding R_def V_def by (rule memlim.recordFailure_spec [OF assms, of u r])
  let ?out = "failure_report (UserRef \<in> R) (CustomerRef \<in> R) (SessionTotal \<in> R)"
  have Rset: "(if UserRef \<in> R then {UserRef} else {}) \<union> (if CustomerRef \<in> R then {CustomerRef} else {}) \<union>
      (if SessionTotal \<in> R then {SessionTotal} else {}) = R"
    by (rule set_eqI, case_tac x) simp_all
  have reason: "fo_reason ?out = (if R = {} then None else Some (Max R))"
    using failure_report_strongest [of "UserRef \<in> R" "CustomerRef \<in> R" "SessionTotal \<in> R"]
    unfolding Rset by (simp add: Let_def)
  have rest: "fo_lockedNow ?out = (fo_reason ?out \<noteq> None)"
    "fo_retryAfterSec ?out = map_option lock_seconds (fo_reason ?out)"
    by (simp_all add: failure_report_def lock_seconds_def)
  have "R \<subseteq> {UserRef, CustomerRef, SessionTotal}" by (rule subsetI, case_tac x) simp_all
  then have "finite R" by (rule finite_subset) simp
  then have max: "R \<noteq> {} \<Longrightarrow> Max R \<in> R" by simp
  have locks: "\<exists>ls c''. checkLocked memory_cache_service t u r c' = (Inr ls, c'') \<and> ls_locked ls"
    if "R \<noteq> {}" "now \<le> t" "t \<le> now + lock_seconds (Max R) * 1000" for t
  proof -
    have "locked_view (failure_view now u r V) t u r"
      using armed_locks max [OF that(1)] that(3) unfolding R_def by blast
    then have "locked_view (\<lambda>t'. mc_view t' c') t u r"
      using a that(2) by (simp add: locked_view_def locked_by_def agree_def)
    moreover obtain ls c'' where "checkLocked memory_cache_service t u r c' = (Inr ls, c'')"
      "ls_locked ls = locked_view (\<lambda>t'. mc_view t' c') t u r"
      by (rule memlim.checkLocked_spec)
    ultimately show ?thesis by simp
  qed
  show ?thesis
    unfolding V_def [symmetric] R_def [symmetric]
    using c' reason rest locks
    by (intro exI [of _ ?out] exI [of _ c'] conjI)
      (simp_all add: Let_def del: failure_report_def split: if_splits)
qed

definition empty_cache :: "int \<Rightarrow> bind_val memory_cache" where
  "empty_cache n = mc_new \<lparr>co_defaultTtl = None, co_keyPrefix = None, co_maxEntries = Some n\<rparr>"

lemma empty_cache_view [simp]: "mc_view t (empty_cache n) k = None"
  by (simp add: empty_cache_def mc_view_def mc_new_def)

lemma empty_cache_free: "0 < n \<Longrightarrow> mc_free (empty_cache n) = nat n"
  by (simp add: empty_cache_def mc_free_def mc_new_def js_or_num_def)

text \<open>
  The counter is read and written in two awaits: two concurrent failures that both read before
  either writes count as one.
\<close>

lemma bump_lost_update:
  assumes "0 \<le> now" "2 \<le> mc_free c" "mc_view now c k = None" "0 < w"
  shows "let entry = fst (ic_get memory_cache_service now k c);
             c1 = snd (bump_write memory_cache_service now k w entry c);
             c2 = snd (bump_write memory_cache_service now k w entry c1)
         in mc_view now c2 k = Some (BvWindow 1 now)"
proof -
  obtain c1 where c1: "cache_set memory_cache_service CacheRejected now k (BvWindow 1 now) w c = (Inr (), c1)"
    "mc_free c \<le> Suc (mc_free c1)"
    using memlim.cache_set_spec [OF assms(1,4), of c CacheRejected k "BvWindow 1 now"] assms(2) by auto
  obtain c2 where c2: "cache_set memory_cache_service CacheRejected now k (BvWindow 1 now) w c1 = (Inr (), c2)"
    "(\<lambda>t'. mc_view t' c2) = put_view now k (BvWindow 1 now) w (\<lambda>t'. mc_view t' c1)"
    using memlim.cache_set_spec [OF assms(1,4), of c1 CacheRejected k "BvWindow 1 now"] assms(2) c1(2) by auto
  have "mc_view now c2 k = put_view now k (BvWindow 1 now) w (\<lambda>t'. mc_view t' c1) now k"
    unfolding c2(2) [symmetric] ..
  also have "\<dots> = Some (BvWindow 1 now)" using assms(4) by (simp add: put_view_def)
  finally show ?thesis
    using c1(1) c2(1) assms(3) by (simp add: mem.get_view bump_write_def async_simps Let_def)
qed

end
