(* ===== verification/Customer_Service.thy ===== *)
theory Customer_Service
  imports Binding_Types "HOL-Library.List_Lexorder" "HOL-Library.Char_ord"
begin

text \<open>
  The customer-service client of the binding flow and its stateful mock
  (src/modules/account/clients/customer-service.client.ts, customer-service-mock.client.ts), and the
  mock of the customer-profile port (customer-profile.client.ts): both write the table
  \<^verbatim>\<open>mock_customer_store\<close>. Text is UTF-8. A statement on the table fails when the database
  refuses it (the predicate \<open>db_ok\<close> on the number of the statement) or, for an insert, when the
  primary key is taken.
\<close>

section \<open>The client interface\<close>

datatype profile_status = Active | Inactive | Suspended

record full_address =
  fa_street :: string
  fa_ward :: string
  fa_district :: string
  fa_city :: string
  fa_fullAddress :: string

record contact_info =
  ci_phone :: "string option"
  ci_email :: "string option"
  ci_contactAddress :: "string option"

record customer_profile =
  cp_customerId :: string
  cp_fullName :: string
  cp_classification :: classification
  cp_address :: full_address
  cp_contactInfo :: "contact_info option"
  cp_status :: profile_status

record 's CustomerServiceClient =
  svc_resolve :: "string \<Rightarrow> ('s, customer_error, resolve_result) async"
  svc_verify :: "verify_request \<Rightarrow> ('s, customer_error, bool) async"
  svc_create :: "string \<Rightarrow> create_customer_request \<Rightarrow> ('s, customer_error, create_customer_result) async"
  svc_profile :: "string \<Rightarrow> ('s, customer_error, customer_profile) async"

section \<open>The mock of the customer service\<close>

record seed_customer =
  sc_customerRef :: string
  sc_fullName :: string
  sc_phone :: string
  sc_customerId :: string
  sc_classification :: classification
  sc_lastInvoiceAmount :: string
  sc_addressPrefix :: string
  sc_fullAddress :: full_address

definition SEED_CUSTOMERS :: "seed_customer list" where
  "SEED_CUSTOMERS = [
     \<lparr>sc_customerRef = ''REF-001'', sc_fullName = ''Nguy'' @ [CHR 0xE1, CHR 0xBB, CHR 0x85] @ ''n V'' @ [CHR 0xC4, CHR 0x83] @ ''n Nam'',
      sc_phone = ''987654321'', sc_customerId = ''QN-0912345'', sc_classification = SinhHoat, sc_lastInvoiceAmount = ''247500'',
      sc_addressPrefix = ''12 L'' @ [CHR 0xC3, CHR 0xAA] @ '' L'' @ [CHR 0xE1, CHR 0xBB, CHR 0xA3] @ ''i, H'' @ [CHR 0xE1, CHR 0xBA, CHR 0xA3] @ ''i Ch'' @ [CHR 0xC3, CHR 0xA2] @ ''u'',
      sc_fullAddress = \<lparr>fa_street = ''12 L'' @ [CHR 0xC3, CHR 0xAA] @ '' L'' @ [CHR 0xE1, CHR 0xBB, CHR 0xA3] @ ''i'',
        fa_ward = ''H'' @ [CHR 0xE1, CHR 0xBA, CHR 0xA3] @ ''i Ch'' @ [CHR 0xC3, CHR 0xA2] @ ''u 1'',
        fa_district = ''H'' @ [CHR 0xE1, CHR 0xBA, CHR 0xA3] @ ''i Ch'' @ [CHR 0xC3, CHR 0xA2] @ ''u'',
        fa_city = [CHR 0xC4, CHR 0x90, CHR 0xC3, CHR 0xA0] @ '' N'' @ [CHR 0xE1, CHR 0xBA, CHR 0xB5] @ ''ng'',
        fa_fullAddress = ''12 L'' @ [CHR 0xC3, CHR 0xAA] @ '' L'' @ [CHR 0xE1, CHR 0xBB, CHR 0xA3] @ ''i, H'' @ [CHR 0xE1, CHR 0xBA, CHR 0xA3] @ ''i Ch'' @ [CHR 0xC3, CHR 0xA2] @ ''u 1, H'' @ [CHR 0xE1, CHR 0xBA, CHR 0xA3] @ ''i Ch'' @ [CHR 0xC3, CHR 0xA2] @ ''u, '' @ [CHR 0xC4, CHR 0x90, CHR 0xC3, CHR 0xA0] @ '' N'' @ [CHR 0xE1, CHR 0xBA, CHR 0xB5] @ ''ng''\<rparr>\<rparr>,
     \<lparr>sc_customerRef = ''REF-002'', sc_fullName = ''Tr'' @ [CHR 0xE1, CHR 0xBA, CHR 0xA7] @ ''n Th'' @ [CHR 0xE1, CHR 0xBB, CHR 0x8B] @ '' Hoa'',
      sc_phone = ''912345678'', sc_customerId = ''QN-0888891'', sc_classification = SanXuat, sc_lastInvoiceAmount = ''189000'',
      sc_addressPrefix = ''45 Tr'' @ [CHR 0xE1, CHR 0xBA, CHR 0xA7] @ ''n Ph'' @ [CHR 0xC3, CHR 0xBA] @ '', S'' @ [CHR 0xC6, CHR 0xA1] @ ''n Tr'' @ [CHR 0xC3, CHR 0xA0],
      sc_fullAddress = \<lparr>fa_street = ''45 Tr'' @ [CHR 0xE1, CHR 0xBA, CHR 0xA7] @ ''n Ph'' @ [CHR 0xC3, CHR 0xBA],
        fa_ward = ''An H'' @ [CHR 0xE1, CHR 0xBA, CHR 0xA3] @ ''i B'' @ [CHR 0xE1, CHR 0xBA, CHR 0xAF] @ ''c'',
        fa_district = ''S'' @ [CHR 0xC6, CHR 0xA1] @ ''n Tr'' @ [CHR 0xC3, CHR 0xA0],
        fa_city = [CHR 0xC4, CHR 0x90, CHR 0xC3, CHR 0xA0] @ '' N'' @ [CHR 0xE1, CHR 0xBA, CHR 0xB5] @ ''ng'',
        fa_fullAddress = ''45 Tr'' @ [CHR 0xE1, CHR 0xBA, CHR 0xA7] @ ''n Ph'' @ [CHR 0xC3, CHR 0xBA] @ '', An H'' @ [CHR 0xE1, CHR 0xBA, CHR 0xA3] @ ''i B'' @ [CHR 0xE1, CHR 0xBA, CHR 0xAF] @ ''c, S'' @ [CHR 0xC6, CHR 0xA1] @ ''n Tr'' @ [CHR 0xC3, CHR 0xA0] @ '', '' @ [CHR 0xC4, CHR 0x90, CHR 0xC3, CHR 0xA0] @ '' N'' @ [CHR 0xE1, CHR 0xBA, CHR 0xB5] @ ''ng''\<rparr>\<rparr>,
     \<lparr>sc_customerRef = ''REF-003'', sc_fullName = ''L'' @ [CHR 0xC3, CHR 0xAA] @ '' Minh'',
      sc_phone = ''9777666555'', sc_customerId = ''QN-0777123'', sc_classification = SinhHoat, sc_lastInvoiceAmount = ''312000'',
      sc_addressPrefix = ''L'' @ [CHR 0xC3, CHR 0xAA] @ '' L'' @ [CHR 0xE1, CHR 0xBB, CHR 0xA3] @ ''i, H'' @ [CHR 0xE1, CHR 0xBA, CHR 0xA3] @ ''i Ch'' @ [CHR 0xC3, CHR 0xA2] @ ''u'',
      sc_fullAddress = \<lparr>fa_street = ''L'' @ [CHR 0xC3, CHR 0xAA] @ '' L'' @ [CHR 0xE1, CHR 0xBB, CHR 0xA3] @ ''i'',
        fa_ward = ''H'' @ [CHR 0xE1, CHR 0xBA, CHR 0xA3] @ ''i Ch'' @ [CHR 0xC3, CHR 0xA2] @ ''u 1'',
        fa_district = ''H'' @ [CHR 0xE1, CHR 0xBA, CHR 0xA3] @ ''i Ch'' @ [CHR 0xC3, CHR 0xA2] @ ''u'',
        fa_city = [CHR 0xC4, CHR 0x90, CHR 0xC3, CHR 0xA0] @ '' N'' @ [CHR 0xE1, CHR 0xBA, CHR 0xB5] @ ''ng'',
        fa_fullAddress = ''L'' @ [CHR 0xC3, CHR 0xAA] @ '' L'' @ [CHR 0xE1, CHR 0xBB, CHR 0xA3] @ ''i, H'' @ [CHR 0xE1, CHR 0xBA, CHR 0xA3] @ ''i Ch'' @ [CHR 0xC3, CHR 0xA2] @ ''u 1, H'' @ [CHR 0xE1, CHR 0xBA, CHR 0xA3] @ ''i Ch'' @ [CHR 0xC3, CHR 0xA2] @ ''u, '' @ [CHR 0xC4, CHR 0x90, CHR 0xC3, CHR 0xA0] @ '' N'' @ [CHR 0xE1, CHR 0xBA, CHR 0xB5] @ ''ng''\<rparr>\<rparr>,
     \<lparr>sc_customerRef = ''REF-004'', sc_fullName = ''L'' @ [CHR 0xC3, CHR 0xAA] @ '' Minh Kh'' @ [CHR 0xC3, CHR 0xB4] @ ''i'',
      sc_phone = ''9777666555'', sc_customerId = ''QN-0666001'', sc_classification = HanhChinh, sc_lastInvoiceAmount = ''156000'',
      sc_addressPrefix = ''Tr'' @ [CHR 0xE1, CHR 0xBA, CHR 0xA7] @ ''n Ph'' @ [CHR 0xC3, CHR 0xBA] @ '', S'' @ [CHR 0xC6, CHR 0xA1] @ ''n Tr'' @ [CHR 0xC3, CHR 0xA0],
      sc_fullAddress = \<lparr>fa_street = ''Tr'' @ [CHR 0xE1, CHR 0xBA, CHR 0xA7] @ ''n Ph'' @ [CHR 0xC3, CHR 0xBA],
        fa_ward = ''An H'' @ [CHR 0xE1, CHR 0xBA, CHR 0xA3] @ ''i B'' @ [CHR 0xE1, CHR 0xBA, CHR 0xAF] @ ''c'',
        fa_district = ''S'' @ [CHR 0xC6, CHR 0xA1] @ ''n Tr'' @ [CHR 0xC3, CHR 0xA0],
        fa_city = [CHR 0xC4, CHR 0x90, CHR 0xC3, CHR 0xA0] @ '' N'' @ [CHR 0xE1, CHR 0xBA, CHR 0xB5] @ ''ng'',
        fa_fullAddress = ''Tr'' @ [CHR 0xE1, CHR 0xBA, CHR 0xA7] @ ''n Ph'' @ [CHR 0xC3, CHR 0xBA] @ '', An H'' @ [CHR 0xE1, CHR 0xBA, CHR 0xA3] @ ''i B'' @ [CHR 0xE1, CHR 0xBA, CHR 0xAF] @ ''c, S'' @ [CHR 0xC6, CHR 0xA1] @ ''n Tr'' @ [CHR 0xC3, CHR 0xA0] @ '', '' @ [CHR 0xC4, CHR 0x90, CHR 0xC3, CHR 0xA0] @ '' N'' @ [CHR 0xE1, CHR 0xBA, CHR 0xB5] @ ''ng''\<rparr>\<rparr>,
     \<lparr>sc_customerRef = ''REF-005'', sc_fullName = ''Ph'' @ [CHR 0xE1, CHR 0xBA, CHR 0xA1] @ ''m V'' @ [CHR 0xC4, CHR 0x83] @ ''n N'' @ [CHR 0xC4, CHR 0x83] @ ''m'',
      sc_phone = ''666555444'', sc_customerId = ''QN-0555001'', sc_classification = SinhHoat, sc_lastInvoiceAmount = ''100000'',
      sc_addressPrefix = ''H'' @ [CHR 0xC3, CHR 0xB9] @ ''ng V'' @ [CHR 0xC6, CHR 0xB0, CHR 0xC6, CHR 0xA1] @ ''ng, Li'' @ [CHR 0xC3, CHR 0xAA] @ ''n Chi'' @ [CHR 0xE1, CHR 0xBB, CHR 0x83] @ ''u'',
      sc_fullAddress = \<lparr>fa_street = ''H'' @ [CHR 0xC3, CHR 0xB9] @ ''ng V'' @ [CHR 0xC6, CHR 0xB0, CHR 0xC6, CHR 0xA1] @ ''ng'',
        fa_ward = ''H'' @ [CHR 0xC3, CHR 0xB2] @ ''a Kh'' @ [CHR 0xC3, CHR 0xAA],
        fa_district = ''Li'' @ [CHR 0xC3, CHR 0xAA] @ ''n Chi'' @ [CHR 0xE1, CHR 0xBB, CHR 0x83] @ ''u'',
        fa_city = [CHR 0xC4, CHR 0x90, CHR 0xC3, CHR 0xA0] @ '' N'' @ [CHR 0xE1, CHR 0xBA, CHR 0xB5] @ ''ng'',
        fa_fullAddress = ''H'' @ [CHR 0xC3, CHR 0xB9] @ ''ng V'' @ [CHR 0xC6, CHR 0xB0, CHR 0xC6, CHR 0xA1] @ ''ng, H'' @ [CHR 0xC3, CHR 0xB2] @ ''a Kh'' @ [CHR 0xC3, CHR 0xAA] @ '', Li'' @ [CHR 0xC3, CHR 0xAA] @ ''n Chi'' @ [CHR 0xE1, CHR 0xBB, CHR 0x83] @ ''u, '' @ [CHR 0xC4, CHR 0x90, CHR 0xC3, CHR 0xA0] @ '' N'' @ [CHR 0xE1, CHR 0xBA, CHR 0xB5] @ ''ng''\<rparr>\<rparr>,
     \<lparr>sc_customerRef = ''REF-006'', sc_fullName = ''Ph'' @ [CHR 0xE1, CHR 0xBA, CHR 0xA1] @ ''m Th'' @ [CHR 0xE1, CHR 0xBB, CHR 0x8B] @ '' S'' @ [CHR 0xC3, CHR 0xA1] @ ''u'',
      sc_phone = ''666555444'', sc_customerId = ''QN-0666002'', sc_classification = SinhHoat, sc_lastInvoiceAmount = ''110000'',
      sc_addressPrefix = [CHR 0xC4, CHR 0x90] @ ''i'' @ [CHR 0xE1, CHR 0xBB, CHR 0x87] @ ''n Bi'' @ [CHR 0xC3, CHR 0xAA] @ ''n Ph'' @ [CHR 0xE1, CHR 0xBB, CHR 0xA7] @ '', Thanh Kh'' @ [CHR 0xC3, CHR 0xAA],
      sc_fullAddress = \<lparr>fa_street = [CHR 0xC4, CHR 0x90] @ ''i'' @ [CHR 0xE1, CHR 0xBB, CHR 0x87] @ ''n Bi'' @ [CHR 0xC3, CHR 0xAA] @ ''n Ph'' @ [CHR 0xE1, CHR 0xBB, CHR 0xA7],
        fa_ward = ''Thanh Kh'' @ [CHR 0xC3, CHR 0xAA] @ '' '' @ [CHR 0xC4, CHR 0x90, CHR 0xC3, CHR 0xB4] @ ''ng'',
        fa_district = ''Thanh Kh'' @ [CHR 0xC3, CHR 0xAA],
        fa_city = [CHR 0xC4, CHR 0x90, CHR 0xC3, CHR 0xA0] @ '' N'' @ [CHR 0xE1, CHR 0xBA, CHR 0xB5] @ ''ng'',
        fa_fullAddress = [CHR 0xC4, CHR 0x90] @ ''i'' @ [CHR 0xE1, CHR 0xBB, CHR 0x87] @ ''n Bi'' @ [CHR 0xC3, CHR 0xAA] @ ''n Ph'' @ [CHR 0xE1, CHR 0xBB, CHR 0xA7] @ '', Thanh Kh'' @ [CHR 0xC3, CHR 0xAA] @ '' '' @ [CHR 0xC4, CHR 0x90, CHR 0xC3, CHR 0xB4] @ ''ng, Thanh Kh'' @ [CHR 0xC3, CHR 0xAA] @ '', '' @ [CHR 0xC4, CHR 0x90, CHR 0xC3, CHR 0xA0] @ '' N'' @ [CHR 0xE1, CHR 0xBA, CHR 0xB5] @ ''ng''\<rparr>\<rparr>,
     \<lparr>sc_customerRef = ''REF-007'', sc_fullName = ''Ph'' @ [CHR 0xE1, CHR 0xBA, CHR 0xA1] @ ''m V'' @ [CHR 0xC4, CHR 0x83] @ ''n B'' @ [CHR 0xE1, CHR 0xBA, CHR 0xA3] @ ''y'',
      sc_phone = ''666555444'', sc_customerId = ''QN-0777003'', sc_classification = SanXuat, sc_lastInvoiceAmount = ''120000'',
      sc_addressPrefix = ''Nguy'' @ [CHR 0xE1, CHR 0xBB, CHR 0x85] @ ''n Tri Ph'' @ [CHR 0xC6, CHR 0xB0, CHR 0xC6, CHR 0xA1] @ ''ng, Li'' @ [CHR 0xC3, CHR 0xAA] @ ''n Chi'' @ [CHR 0xE1, CHR 0xBB, CHR 0x83] @ ''u'',
      sc_fullAddress = \<lparr>fa_street = ''Nguy'' @ [CHR 0xE1, CHR 0xBB, CHR 0x85] @ ''n Tri Ph'' @ [CHR 0xC6, CHR 0xB0, CHR 0xC6, CHR 0xA1] @ ''ng'',
        fa_ward = ''H'' @ [CHR 0xC3, CHR 0xB2] @ ''a Kh'' @ [CHR 0xC3, CHR 0xAA] @ '' B'' @ [CHR 0xE1, CHR 0xBA, CHR 0xAF] @ ''c'',
        fa_district = ''Li'' @ [CHR 0xC3, CHR 0xAA] @ ''n Chi'' @ [CHR 0xE1, CHR 0xBB, CHR 0x83] @ ''u'',
        fa_city = [CHR 0xC4, CHR 0x90, CHR 0xC3, CHR 0xA0] @ '' N'' @ [CHR 0xE1, CHR 0xBA, CHR 0xB5] @ ''ng'',
        fa_fullAddress = ''Nguy'' @ [CHR 0xE1, CHR 0xBB, CHR 0x85] @ ''n Tri Ph'' @ [CHR 0xC6, CHR 0xB0, CHR 0xC6, CHR 0xA1] @ ''ng, H'' @ [CHR 0xC3, CHR 0xB2] @ ''a Kh'' @ [CHR 0xC3, CHR 0xAA] @ '' B'' @ [CHR 0xE1, CHR 0xBA, CHR 0xAF] @ ''c, Li'' @ [CHR 0xC3, CHR 0xAA] @ ''n Chi'' @ [CHR 0xE1, CHR 0xBB, CHR 0x83] @ ''u, '' @ [CHR 0xC4, CHR 0x90, CHR 0xC3, CHR 0xA0] @ '' N'' @ [CHR 0xE1, CHR 0xBA, CHR 0xB5] @ ''ng''\<rparr>\<rparr>,
     \<lparr>sc_customerRef = ''REF-008'', sc_fullName = ''Ph'' @ [CHR 0xE1, CHR 0xBA, CHR 0xA1] @ ''m Th'' @ [CHR 0xE1, CHR 0xBB, CHR 0x8B] @ '' T'' @ [CHR 0xC3, CHR 0xA1] @ ''m'',
      sc_phone = ''666555444'', sc_customerId = ''QN-0888004'', sc_classification = HanhChinh, sc_lastInvoiceAmount = ''130000'',
      sc_addressPrefix = ''H'' @ [CHR 0xE1, CHR 0xBA, CHR 0xA3] @ ''i Ph'' @ [CHR 0xC3, CHR 0xB2] @ ''ng, Thanh Kh'' @ [CHR 0xC3, CHR 0xAA],
      sc_fullAddress = \<lparr>fa_street = ''H'' @ [CHR 0xE1, CHR 0xBA, CHR 0xA3] @ ''i Ph'' @ [CHR 0xC3, CHR 0xB2] @ ''ng'',
        fa_ward = ''Xu'' @ [CHR 0xC3, CHR 0xA2] @ ''n H'' @ [CHR 0xC3, CHR 0xA0],
        fa_district = ''Thanh Kh'' @ [CHR 0xC3, CHR 0xAA],
        fa_city = [CHR 0xC4, CHR 0x90, CHR 0xC3, CHR 0xA0] @ '' N'' @ [CHR 0xE1, CHR 0xBA, CHR 0xB5] @ ''ng'',
        fa_fullAddress = ''H'' @ [CHR 0xE1, CHR 0xBA, CHR 0xA3] @ ''i Ph'' @ [CHR 0xC3, CHR 0xB2] @ ''ng, Xu'' @ [CHR 0xC3, CHR 0xA2] @ ''n H'' @ [CHR 0xC3, CHR 0xA0] @ '', Thanh Kh'' @ [CHR 0xC3, CHR 0xAA] @ '', '' @ [CHR 0xC4, CHR 0x90, CHR 0xC3, CHR 0xA0] @ '' N'' @ [CHR 0xE1, CHR 0xBA, CHR 0xB5] @ ''ng''\<rparr>\<rparr>]"

record mock_row =
  mr_customerId :: string
  mr_customerRef :: "string option"
  mr_phone :: "string option"
  mr_fullName :: string
  mr_classification :: classification
  mr_address :: full_address
  mr_contactInfo :: "contact_info option"
  mr_status :: profile_status
  mr_addressPrefix :: "string option"
  mr_lastInvoiceAmount :: "string option"

record mock_service =
  ms_createdCustomers :: "(string, seed_customer) jsmap"
  ms_hydrated :: bool
  ms_counter :: nat
  ms_store :: "mock_row list option"
  ms_statements :: nat

definition db_error :: customer_error where
  "db_error = CustomerFailure (new_Error ''database'')"

text \<open>A statement on the table: it may be refused, and it is counted.\<close>

definition store_statement ::
  "(nat \<Rightarrow> bool) \<Rightarrow> (mock_row list \<Rightarrow> (customer_error + 'a) \<times> mock_row list) \<Rightarrow>
     (mock_service, customer_error, 'a option) async" where
  "store_statement db_ok f = (\<lambda>s.
     case ms_store s of
       None \<Rightarrow> (Inr None, s)
     | Some rows \<Rightarrow>
         let n = ms_statements s; s1 = s\<lparr>ms_statements := Suc n\<rparr> in
         if \<not> db_ok n then (Inl db_error, s1)
         else case f rows of
           (Inl e, rows') \<Rightarrow> (Inl e, s1\<lparr>ms_store := Some rows'\<rparr>)
         | (Inr x, rows') \<Rightarrow> (Inr (Some x), s1\<lparr>ms_store := Some rows'\<rparr>))"

definition store_select :: "mock_row list \<Rightarrow> (customer_error + mock_row list) \<times> mock_row list" where
  "store_select rows = (Inr rows, rows)"

definition store_insert :: "mock_row \<Rightarrow> mock_row list \<Rightarrow> (customer_error + unit) \<times> mock_row list" where
  "store_insert r rows =
     (if mr_customerId r \<in> set (map mr_customerId rows) then (Inl db_error, rows)
      else (Inr (), rows @ [r]))"

text \<open>\<^verbatim>\<open>/^REF-NEW-(\d{6})$/\<close>\<close>

definition ref_number :: "string \<Rightarrow> nat option" where
  "ref_number r =
     (if take 8 r = ''REF-NEW-'' \<and> length r = 14 \<and> (\<forall>c \<in> set (drop 8 r). is_digit c)
      then Some (parse_dec (drop 8 r)) else None)"

definition row_customer :: "string \<Rightarrow> string \<Rightarrow> mock_row \<Rightarrow> seed_customer" where
  "row_customer ref phone row =
     \<lparr>sc_customerRef = ref, sc_fullName = mr_fullName row, sc_phone = phone,
      sc_customerId = mr_customerId row, sc_classification = mr_classification row,
      sc_lastInvoiceAmount = js_nullish (mr_lastInvoiceAmount row) '''',
      sc_addressPrefix = js_nullish (mr_addressPrefix row) '''',
      sc_fullAddress = mr_address row\<rparr>"

definition hydrate_row :: "mock_row \<Rightarrow> mock_service \<Rightarrow> mock_service" where
  "hydrate_row row s =
     (case (mr_customerRef row, mr_phone row) of
        (Some ref, Some phone) \<Rightarrow>
          if ref = '''' \<or> phone = '''' then s
          else s\<lparr>ms_createdCustomers := AList.update phone (row_customer ref phone row) (ms_createdCustomers s),
                 ms_counter := (case ref_number ref of
                     None \<Rightarrow> ms_counter s
                   | Some n \<Rightarrow> if n > ms_counter s then n else ms_counter s)\<rparr>
      | _ \<Rightarrow> s)"

definition ensureHydrated :: "(nat \<Rightarrow> bool) \<Rightarrow> (mock_service, customer_error, unit) async" where
  "ensureHydrated db_ok = (\<lambda>s.
     if ms_hydrated s \<or> ms_store s = None then (Inr (), s)
     else bnd (store_statement db_ok store_select) (\<lambda>r.
            case r of None \<Rightarrow> ret () | Some rows \<Rightarrow> writes (fold hydrate_row rows))
          (s\<lparr>ms_hydrated := True\<rparr>))"

text \<open>Canonical Vietnamese form: digits only, without country code and leading zeros.\<close>

definition normalizePhone :: "string \<Rightarrow> string" where
  "normalizePhone phone =
     (let digits = filter is_digit phone;
          digits = (if take 2 digits = ''84'' then drop 2 digits else digits)
      in dropWhile (\<lambda>c. c = CHR ''0'') digits)"

definition is_space :: "char \<Rightarrow> bool" where
  "is_space c \<longleftrightarrow> c \<in> {CHR '' '', CHR 0x09, CHR 0x0A, CHR 0x0B, CHR 0x0C, CHR 0x0D}"

definition trim :: "string \<Rightarrow> string" where
  "trim s = rev (dropWhile is_space (rev (dropWhile is_space s)))"

text \<open>\<^verbatim>\<open>split(/\s+/)\<close> of a trimmed string: maximal runs of other characters.\<close>

function words_of :: "string \<Rightarrow> string list" where
  "words_of s =
     (case dropWhile (\<lambda>c. \<not> is_space c) s of
        [] \<Rightarrow> [s]
      | rest \<Rightarrow> takeWhile (\<lambda>c. \<not> is_space c) s # words_of (dropWhile is_space rest))"
  by pat_completeness auto
termination
proof (relation "measure length", goal_cases)
  case (2 s c rest)
  have "length (dropWhile is_space (c # rest)) < length (c # rest)"
    using 2 by (metis dropWhile.simps(2) dropWhile_eq_Cons_conv le_imp_less_Suc length_Cons length_dropWhile_le)
  also have "\<dots> \<le> length s"
    using 2 by (metis length_dropWhile_le)
  finally show ?case by simp
qed simp

declare words_of.simps [simp del]

text \<open>The first character of a UTF-8 text.\<close>

definition first_char :: "string \<Rightarrow> string" where
  "first_char s = (case s of [] \<Rightarrow> ''undefined''
     | c # _ \<Rightarrow> let n = (of_char c :: nat) in take (if n < 192 then 1 else if n < 224 then 2 else if n < 240 then 3 else 4) s)"

definition maskedName :: "string \<Rightarrow> string" where
  "maskedName fullName = (case words_of (trim fullName) of
       [w] \<Rightarrow> w @ ''***''
     | w # v # _ \<Rightarrow> w @ '' '' @ first_char v @ ''***''
     | [] \<Rightarrow> ''***'')"

definition hint :: "seed_customer \<Rightarrow> string" where
  "hint c = maskedName (sc_fullName c) @ '' '' @ [CHR 0xE2, CHR 0x80, CHR 0xA2] @ '' '' @ sc_addressPrefix c"

definition challengeFor :: "seed_customer \<Rightarrow> challenge_descriptor" where
  "challengeFor c = \<lparr>cd_type = LastInvoiceAmount,
     cd_label = ''S'' @ [CHR 0xE1, CHR 0xBB, CHR 0x91] @ '' ti'' @ [CHR 0xE1, CHR 0xBB, CHR 0x81] @ ''n ho'' @
       [CHR 0xC3, CHR 0xA1] @ '' '' @ [CHR 0xC4, CHR 0x91, CHR 0xC6, CHR 0xA1] @ ''n g'' @
       [CHR 0xE1, CHR 0xBA, CHR 0xA7] @ ''n nh'' @ [CHR 0xE1, CHR 0xBA, CHR 0xA5] @ ''t'',
     cd_inputMode = NumericInput\<rparr>"

definition matches_for :: "string \<Rightarrow> mock_service \<Rightarrow> seed_customer list" where
  "matches_for norm s =
     filter (\<lambda>c. sc_phone c = norm) (map snd (ms_createdCustomers s)) @
     filter (\<lambda>c. sc_phone c = norm) SEED_CUSTOMERS"

definition resolve_matches :: "seed_customer list \<Rightarrow> resolve_result" where
  "resolve_matches matches =
     (case matches of
        [] \<Rightarrow> resolve_none
      | [c] \<Rightarrow> \<lparr>rr_status = RsOne, rr_customerRef = Some (sc_customerRef c), rr_maskedHint = Some (hint c),
               rr_challenge = Some (challengeFor c), rr_candidates = None, rr_capped = None\<rparr>
      | _ \<Rightarrow>
          if length matches > 3
          then \<lparr>rr_status = RsMany, rr_customerRef = None, rr_maskedHint = None, rr_challenge = None,
                rr_candidates = None, rr_capped = Some True\<rparr>
          else \<lparr>rr_status = RsMany, rr_customerRef = None, rr_maskedHint = None, rr_challenge = None,
                rr_candidates = Some (map (\<lambda>c. \<lparr>cand_customerRef = sc_customerRef c,
                   cand_maskedHint = hint c, cand_challenge = challengeFor c\<rparr>) matches),
                rr_capped = None\<rparr>)"

definition mock_resolve :: "(nat \<Rightarrow> bool) \<Rightarrow> string \<Rightarrow> (mock_service, customer_error, resolve_result) async" where
  "mock_resolve db_ok phone =
     seq (ensureHydrated db_ok) (reads (\<lambda>s. resolve_matches (matches_for (normalizePhone phone) s)))"

definition join_address :: "address_input \<Rightarrow> string" where
  "join_address a = ad_street a @ '', '' @ ad_ward a @ '', '' @ ad_district a @ '', '' @ ad_city a"

definition new_customer :: "nat \<Rightarrow> string \<Rightarrow> create_customer_request \<Rightarrow> seed_customer" where
  "new_customer counter norm p =
     (let n = padStart 6 CHR ''0'' (js_nat_str counter); a = cr_address p in
      \<lparr>sc_customerRef = ''REF-NEW-'' @ n, sc_fullName = cr_fullName p, sc_phone = norm,
       sc_customerId = ''APP-'' @ n, sc_classification = cr_classification p, sc_lastInvoiceAmount = '''',
       sc_addressPrefix = ad_street a @ '', '' @ ad_district a,
       sc_fullAddress = \<lparr>fa_street = ad_street a, fa_ward = ad_ward a, fa_district = ad_district a,
         fa_city = ad_city a, fa_fullAddress = join_address a\<rparr>\<rparr>)"

definition customer_row :: "seed_customer \<Rightarrow> mock_row" where
  "customer_row c =
     \<lparr>mr_customerId = sc_customerId c, mr_customerRef = Some (sc_customerRef c), mr_phone = Some (sc_phone c),
      mr_fullName = sc_fullName c, mr_classification = sc_classification c, mr_address = sc_fullAddress c,
      mr_contactInfo = None, mr_status = Active, mr_addressPrefix = Some (sc_addressPrefix c),
      mr_lastInvoiceAmount = Some ''''\<rparr>"

definition phone_known :: "string \<Rightarrow> mock_service \<Rightarrow> bool" where
  "phone_known norm s \<longleftrightarrow> map_of (ms_createdCustomers s) norm \<noteq> None \<or>
     (\<exists>c \<in> set SEED_CUSTOMERS. sc_phone c = norm)"

definition mock_create ::
  "(nat \<Rightarrow> bool) \<Rightarrow> string \<Rightarrow> create_customer_request \<Rightarrow>
     (mock_service, customer_error, create_customer_result) async" where
  "mock_create db_ok phone p =
     seq (ensureHydrated db_ok) (\<lambda>s.
       let norm = normalizePhone phone in
       if phone_known norm s then (Inl CustomerConflict, s)
       else
         let counter = Suc (ms_counter s); record = new_customer counter norm p;
             s1 = s\<lparr>ms_counter := counter,
                    ms_createdCustomers := AList.update norm record (ms_createdCustomers s)\<rparr>
         in seq (store_statement db_ok (store_insert (customer_row record)))
              (ret \<lparr>cc_customerId = sc_customerId record, cc_customerRef = sc_customerRef record\<rparr>) s1)"

definition mock_verify :: "verify_request \<Rightarrow> (mock_service, customer_error, bool) async" where
  "mock_verify req =
     (case find (\<lambda>x. sc_customerRef x = vq_customerRef req) SEED_CUSTOMERS of
        None \<Rightarrow> ret False
      | Some c \<Rightarrow>
          if vq_secretType req \<noteq> LastInvoiceAmount then ret False
          else ret (sc_lastInvoiceAmount c = vq_secretValue req))"

definition mock_profile :: "string \<Rightarrow> (mock_service, customer_error, customer_profile) async" where
  "mock_profile customerRef =
     (case find (\<lambda>x. sc_customerRef x = customerRef) SEED_CUSTOMERS of
        None \<Rightarrow> throw (CustomerFailure (new_Error (''Mock profile: unknown customerRef '' @ customerRef)))
      | Some c \<Rightarrow> ret
          \<lparr>cp_customerId = sc_customerId c, cp_fullName = sc_fullName c, cp_classification = sc_classification c,
           cp_address = sc_fullAddress c,
           cp_contactInfo = Some \<lparr>ci_phone = Some (''+84'' @ sc_phone c), ci_email = None,
             ci_contactAddress = Some (fa_fullAddress (sc_fullAddress c))\<rparr>,
           cp_status = Active\<rparr>)"

definition mock_resolveChannel ::
  "(nat \<Rightarrow> bool) \<Rightarrow> string \<Rightarrow> string \<Rightarrow> (mock_service, customer_error, resolve_result) async" where
  "mock_resolveChannel db_ok channel channelId =
     (if channel = ''APP'' then mock_resolve db_ok channelId else ret resolve_none)"

definition mock_customer_service :: "(nat \<Rightarrow> bool) \<Rightarrow> mock_service CustomerServiceClient" where
  "mock_customer_service db_ok = \<lparr>svc_resolve = mock_resolve db_ok, svc_verify = mock_verify,
     svc_create = mock_create db_ok, svc_profile = mock_profile\<rparr>"

definition mock_new :: "mock_row list option \<Rightarrow> nat \<Rightarrow> mock_service" where
  "mock_new store counter = \<lparr>ms_createdCustomers = [], ms_hydrated = False, ms_counter = counter,
     ms_store = store, ms_statements = 0\<rparr>"

section \<open>The mock of the customer-profile port\<close>

text \<open>
  \<^verbatim>\<open>MockCustomerProfileAdapter\<close>: the fixture that \<^verbatim>\<open>MockAdapterBase.execute\<close> loads from a JSON
  file is an argument.
\<close>

definition EXISTING_CUSTOMER_PHONES :: "string list" where
  "EXISTING_CUSTOMER_PHONES = [''987654321'', ''901234567'']"

definition FIXTURE_CUSTOMER_IDS :: "string list" where
  "FIXTURE_CUSTOMER_IDS = [''QN-0912345'', ''USR-20240101-0001'']"

definition rowToRecord :: "mock_row \<Rightarrow> customer_profile" where
  "rowToRecord row =
     \<lparr>cp_customerId = mr_customerId row, cp_fullName = mr_fullName row,
      cp_classification = mr_classification row, cp_address = mr_address row,
      cp_contactInfo = mr_contactInfo row, cp_status = mr_status row\<rparr>"

definition findByCustomerId :: "string \<Rightarrow> mock_row list \<Rightarrow> customer_profile option" where
  "findByCustomerId customerId rows =
     map_option rowToRecord (find (\<lambda>r. mr_customerId r = customerId) rows)"

definition findByPhone :: "string \<Rightarrow> mock_row list \<Rightarrow> customer_profile option" where
  "findByPhone phone rows =
     map_option rowToRecord (find (\<lambda>r. mr_phone r = Some (normalizePhone phone)) rows)"

definition get_profile ::
  "customer_profile \<Rightarrow> string option \<Rightarrow> mock_row list \<Rightarrow> customer_profile option" where
  "get_profile fixture customerId rows =
     (case customerId of
        None \<Rightarrow> None
      | Some byId \<Rightarrow>
          if byId = '''' then None
          else case findByCustomerId byId rows of
            Some stored \<Rightarrow> Some stored
          | None \<Rightarrow>
              if byId \<in> set FIXTURE_CUSTOMER_IDS then Some (fixture\<lparr>cp_customerId := byId\<rparr>) else None)"

definition find_by_phone ::
  "customer_profile \<Rightarrow> string option \<Rightarrow> mock_row list \<Rightarrow> customer_profile option" where
  "find_by_phone fixture phone rows =
     (case phone of
        None \<Rightarrow> None
      | Some p \<Rightarrow>
          if p = '''' then None
          else case findByPhone p rows of
            Some stored \<Rightarrow> Some stored
          | None \<Rightarrow> if normalizePhone p \<in> set EXISTING_CUSTOMER_PHONES then Some fixture else None)"

text \<open>\<^verbatim>\<open>orderBy(desc(customerId)).limit(1)\<close>: the greatest id in the order of the column.\<close>

definition max_id :: "mock_row list \<Rightarrow> string option" where
  "max_id rows = (if rows = [] then None else Some (Max (set (map mr_customerId rows))))"

definition app_number :: "string \<Rightarrow> nat option" where
  "app_number s =
     (if take 4 s = ''APP-'' \<and> length s = 10 \<and> (\<forall>c \<in> set (drop 4 s). is_digit c)
      then Some (parse_dec (drop 4 s)) else None)"

definition nextCustomerId :: "mock_row list \<Rightarrow> string" where
  "nextCustomerId rows =
     (let lastNum = (case max_id rows of None \<Rightarrow> 0 | Some lastId \<Rightarrow> js_nullish (app_number lastId) 0)
      in ''APP-'' @ padStart 6 CHR ''0'' (js_nat_str (lastNum + 1)))"

record create_profile_request =
  cq_fullName :: string
  cq_classification :: classification
  cq_address :: address_input
  cq_contactInfo :: contact_info
  cq_status :: profile_status

definition createCustomer ::
  "create_profile_request \<Rightarrow> mock_row list \<Rightarrow> (customer_error + customer_profile) \<times> mock_row list" where
  "createCustomer p rows =
     (let customerId = nextCustomerId rows; a = cq_address p;
          record = \<lparr>cp_customerId = customerId, cp_fullName = cq_fullName p,
            cp_classification = cq_classification p,
            cp_address = \<lparr>fa_street = ad_street a, fa_ward = ad_ward a, fa_district = ad_district a,
              fa_city = ad_city a, fa_fullAddress = join_address a\<rparr>,
            cp_contactInfo = Some (cq_contactInfo p), cp_status = cq_status p\<rparr>;
          phone = (case ci_phone (cq_contactInfo p) of None \<Rightarrow> None
            | Some ph \<Rightarrow> if ph = '''' then None else Some (normalizePhone ph))
      in case store_insert \<lparr>mr_customerId = customerId, mr_customerRef = None, mr_phone = phone,
             mr_fullName = cq_fullName p, mr_classification = cq_classification p,
             mr_address = cp_address record, mr_contactInfo = Some (cq_contactInfo p),
             mr_status = cq_status p, mr_addressPrefix = None, mr_lastInvoiceAmount = Some ''''\<rparr> rows of
           (Inl e, rows') \<Rightarrow> (Inl e, rows')
         | (Inr _, rows') \<Rightarrow> (Inr record, rows'))"

section \<open>Phone numbers\<close>

lemma filter_digits: "\<forall>c \<in> set s. is_digit c \<Longrightarrow> filter is_digit s = s"
  by simp

lemma dropWhile_hd: "s = [] \<or> \<not> P (hd s) \<Longrightarrow> dropWhile P s = s"
  by (cases s) auto

lemma normalizePhone_digits: "c \<in> set (normalizePhone p) \<Longrightarrow> is_digit c"
  by (auto simp: normalizePhone_def Let_def dest!: set_dropWhileD in_set_dropD split: if_splits)

text \<open>
  The local, the international and the bare form of a number have one canonical form, also when
  the number itself starts with the digits of the country code.
\<close>

lemma phone_forms_agree:
  assumes "\<forall>c \<in> set d. is_digit c" "d \<noteq> ''''" "hd d \<noteq> CHR ''0''"
  shows "normalizePhone (''0'' @ d) = d \<and> normalizePhone (''+84'' @ d) = d \<and>
    normalizePhone (''84'' @ d) = d \<and> normalizePhone (''+84 0'' @ d) = d"
proof -
  have "is_digit CHR ''0''" "is_digit CHR ''8''" "is_digit CHR ''4''" "\<not> is_digit CHR ''+''"
    "\<not> is_digit CHR '' ''"
    by (simp_all add: is_digit_def)
  with assms show ?thesis
    by (simp add: normalizePhone_def Let_def dropWhile_hd)
qed

section \<open>Invariant of the mock\<close>

definition created_ok :: "(string, seed_customer) jsmap \<Rightarrow> bool" where
  "created_ok m \<longleftrightarrow> distinct (map fst m) \<and> (\<forall>p \<in> set m. sc_phone (snd p) = fst p)"

definition settled :: "mock_service \<Rightarrow> bool" where
  "settled s \<longleftrightarrow> ms_hydrated s \<or> ms_store s = None"

lemma created_matches:
  assumes "created_ok m"
  shows "filter (\<lambda>c. sc_phone c = n) (map snd m) = (case map_of m n of None \<Rightarrow> [] | Some c \<Rightarrow> [c])"
  using assms
proof (induction m)
  case (Cons p m)
  then have "created_ok m" by (simp add: created_ok_def)
  moreover have "map_of m (fst p) = None" using Cons.prems by (auto simp: created_ok_def map_of_eq_None_iff)
  ultimately show ?case using Cons by (cases p) (auto simp: created_ok_def)
qed simp

lemma created_ok_update:
  "created_ok m \<Longrightarrow> sc_phone c = k \<Longrightarrow> created_ok (AList.update k c m)"
proof -
  assume m: "created_ok m" and c: "sc_phone c = k"
  have "set (AList.update k c m) \<subseteq> insert (k, c) (set m)" by (induction m) auto
  with m c show ?thesis by (auto simp: created_ok_def distinct_update)
qed

lemma hydrate_row_ok: "created_ok (ms_createdCustomers s) \<Longrightarrow> created_ok (ms_createdCustomers (hydrate_row r s))"
  by (auto simp: hydrate_row_def created_ok_update row_customer_def split: option.splits)

lemma hydrate_row_fixed [simp]:
  "ms_hydrated (hydrate_row r s) = ms_hydrated s" "ms_store (hydrate_row r s) = ms_store s"
  by (simp_all add: hydrate_row_def split: option.splits)

lemma hydrate_fold_fixed [simp]:
  "ms_hydrated (fold hydrate_row rows s) = ms_hydrated s" "ms_store (fold hydrate_row rows s) = ms_store s"
  by (induction rows arbitrary: s) simp_all

lemma hydrate_fold_ok:
  "created_ok (ms_createdCustomers s) \<Longrightarrow> created_ok (ms_createdCustomers (fold hydrate_row rows s))"
  by (induction rows arbitrary: s) (simp_all add: hydrate_row_ok)

lemma ensureHydrated_settled: "settled (snd (ensureHydrated db_ok s))"
  by (auto simp: ensureHydrated_def settled_def async_simps store_statement_def store_select_def Let_def
      split: option.splits)

lemma ensureHydrated_ok:
  "created_ok (ms_createdCustomers s) \<Longrightarrow> created_ok (ms_createdCustomers (snd (ensureHydrated db_ok s)))"
  by (auto simp: ensureHydrated_def async_simps store_statement_def store_select_def Let_def hydrate_fold_ok
      split: option.splits)

lemma ensureHydrated_id [simp]: "settled s \<Longrightarrow> ensureHydrated db_ok s = (Inr (), s)"
  by (auto simp: ensureHydrated_def settled_def)

lemma mock_resolve_settled:
  "settled s \<Longrightarrow> mock_resolve db_ok phone s = (Inr (resolve_matches (matches_for (normalizePhone phone) s)), s)"
  by (simp add: mock_resolve_def async_simps)

lemma mock_create_Inr:
  assumes "mock_create db_ok phone p s = (Inr res, s')"
  obtains s0 c where "ensureHydrated db_ok s = (Inr (), s0)" "\<not> phone_known (normalizePhone phone) s0"
    "c = new_customer (Suc (ms_counter s0)) (normalizePhone phone) p"
    "res = \<lparr>cc_customerId = sc_customerId c, cc_customerRef = sc_customerRef c\<rparr>"
    "ms_createdCustomers s' = AList.update (normalizePhone phone) c (ms_createdCustomers s0)"
    "ms_counter s' = Suc (ms_counter s0)" "ms_hydrated s' = ms_hydrated s0"
    "ms_store s' = map_option (\<lambda>rows. rows @ [customer_row c]) (ms_store s0)"
proof -
  obtain x s0 where s0: "ensureHydrated db_ok s = (x, s0)" by fastforce
  with assms have x: "x = Inr ()" by (auto simp: mock_create_def async_simps split: sum.splits)
  show ?thesis
    by (rule that [of s0 "new_customer (Suc (ms_counter s0)) (normalizePhone phone) p"])
      (use assms s0 x in \<open>auto simp: mock_create_def async_simps Let_def store_statement_def store_insert_def
        split: if_splits option.splits sum.splits prod.splits\<close>)
qed

lemma seed_phones: "sc_phone ` set SEED_CUSTOMERS =
  {''987654321'', ''912345678'', ''9777666555'', ''666555444''}"
  by (simp add: SEED_CUSTOMERS_def insert_commute)

lemma phone_known_seed:
  "phone_known norm s \<longleftrightarrow> map_of (ms_createdCustomers s) norm \<noteq> None \<or> norm \<in> sc_phone ` set SEED_CUSTOMERS"
  by (auto simp: phone_known_def)

lemma new_customer_phone [simp]: "sc_phone (new_customer n norm p) = norm"
  by (simp add: new_customer_def Let_def)

lemma create_claims:
  assumes "created_ok (ms_createdCustomers s)" "mock_create db_ok phone p s = (Inr res, s')"
    and "normalizePhone phone' = normalizePhone phone"
  shows "(\<exists>r. mock_resolve db_ok' phone' s' = (Inr r, s') \<and> rr_status r = RsOne \<and>
      rr_customerRef r = Some (cc_customerRef res)) \<and>
    mock_create db_ok' phone' p' s' = (Inl CustomerConflict, s')"
proof -
  from assms(2) obtain s0 c where *: "ensureHydrated db_ok s = (Inr (), s0)"
    "\<not> phone_known (normalizePhone phone) s0"
    "c = new_customer (Suc (ms_counter s0)) (normalizePhone phone) p"
    "res = \<lparr>cc_customerId = sc_customerId c, cc_customerRef = sc_customerRef c\<rparr>"
    "ms_createdCustomers s' = AList.update (normalizePhone phone) c (ms_createdCustomers s0)"
    "ms_hydrated s' = ms_hydrated s0"
    "ms_store s' = map_option (\<lambda>rows. rows @ [customer_row c]) (ms_store s0)"
    by (rule mock_create_Inr)
  have "settled s0" using ensureHydrated_settled [of db_ok s] *(1) by simp
  then have st: "settled s'" using *(6,7) by (auto simp: settled_def)
  have ok: "created_ok (ms_createdCustomers s0)" using ensureHydrated_ok [OF assms(1), of db_ok] *(1) by simp
  have "created_ok (ms_createdCustomers s')"
    unfolding *(5) by (rule created_ok_update [OF ok]) (simp add: *(3))
  moreover have known: "map_of (ms_createdCustomers s') (normalizePhone phone) = Some c"
    by (simp add: *(5) jsmap_simps)
  moreover have "filter (\<lambda>c. sc_phone c = normalizePhone phone) SEED_CUSTOMERS = []"
    using *(2) by (auto simp: phone_known_def filter_empty_conv)
  ultimately have "matches_for (normalizePhone phone) s' = [c]"
    by (simp add: matches_for_def created_matches)
  then show ?thesis
    using st known assms(3) *(4)
    by (simp add: mock_resolve_settled resolve_matches_def mock_create_def async_simps phone_known_def Let_def)
qed

text \<open>
  Creation claims the number: after a customer has been created, every form of the same number
  resolves to exactly that customer, and every further creation for it is refused as a conflict,
  whatever the database does.
\<close>

lemma create_claims_phone:
  assumes "created_ok (ms_createdCustomers s)" "mock_create db_ok phone p s = (Inr res, s')"
    and "normalizePhone phone' = normalizePhone phone"
  shows "(\<exists>r. mock_resolve db_ok' phone' s' = (Inr r, s') \<and> rr_status r = RsOne \<and>
      rr_customerRef r = Some (cc_customerRef res)) \<and>
    mock_create db_ok' phone' p' s' = (Inl CustomerConflict, s')"
  by (rule create_claims [OF assms])

abbreviation demo_request :: create_customer_request where
  "demo_request \<equiv> \<lparr>cr_fullName = ''An'', cr_classification = SinhHoat,
     cr_address = \<lparr>ad_street = ''1 A'', ad_ward = ''B'', ad_district = ''C'', ad_city = ''D''\<rparr>, cr_email = None\<rparr>"

section \<open>Restart\<close>

text \<open>Every history of calls while the database accepts its statements.\<close>

abbreviation db_up :: "nat \<Rightarrow> bool" where
  "db_up \<equiv> (\<lambda>_. True)"

inductive mock_reach :: "mock_service \<Rightarrow> bool" where
  mock_start: "mock_reach (mock_new (Some []) 0)"
| mock_resolved: "mock_reach s \<Longrightarrow> mock_reach (snd (mock_resolve db_up phone s))"
| mock_created: "mock_reach s \<Longrightarrow> normalizePhone phone \<noteq> '''' \<Longrightarrow>
    mock_reach (snd (mock_create db_up phone p s))"

text \<open>The memory and the table hold the same customers, numbered in the order of their creation.\<close>

definition numbered :: "seed_customer list \<Rightarrow> bool" where
  "numbered cs \<longleftrightarrow> distinct (map sc_phone cs) \<and>
     (\<forall>i < length cs. sc_phone (cs ! i) \<noteq> '''' \<and> (\<exists>norm p. cs ! i = new_customer (Suc i) norm p))"

definition mirrored :: "mock_service \<Rightarrow> seed_customer list \<Rightarrow> bool" where
  "mirrored s cs \<longleftrightarrow> numbered cs \<and> ms_store s = Some (map customer_row cs) \<and>
     ms_createdCustomers s = map (\<lambda>c. (sc_phone c, c)) cs \<and> ms_counter s = length cs \<and>
     (ms_hydrated s \<or> cs = [])"

lemma mirrored_hydrate:
  assumes "mirrored s cs"
  shows "\<exists>s'. ensureHydrated db_up s = (Inr (), s') \<and> mirrored s' cs \<and> ms_hydrated s'"
  using assms
  by (auto simp: ensureHydrated_def mirrored_def async_simps store_statement_def store_select_def Let_def)

lemma numbered_ids:
  assumes "numbered cs"
  shows "sc_customerId (new_customer (Suc (length cs)) norm p) \<notin> set (map sc_customerId cs)"
proof
  assume "sc_customerId (new_customer (Suc (length cs)) norm p) \<in> set (map sc_customerId cs)"
  then obtain i norm' p' where "i < length cs"
    "sc_customerId (new_customer (Suc (length cs)) norm p) = sc_customerId (new_customer (Suc i) norm' p')"
    using assms unfolding numbered_def by (metis in_set_conv_nth length_map nth_map)
  then show False by (simp add: new_customer_def Let_def padStart_inject)
qed

lemma numbered_snoc:
  assumes "numbered cs" "norm \<notin> set (map sc_phone cs)" "norm \<noteq> ''''"
  shows "numbered (cs @ [new_customer (Suc (length cs)) norm p])"
  using assms unfolding numbered_def
  by (auto simp: nth_append less_Suc_eq)

lemma mirrored_create:
  assumes "mirrored s cs" "normalizePhone phone \<noteq> ''''"
  shows "\<exists>cs'. mirrored (snd (mock_create db_up phone p s)) cs'"
proof -
  let ?norm = "normalizePhone phone"
  obtain s' where s': "ensureHydrated db_up s = (Inr (), s')" "mirrored s' cs" "ms_hydrated s'"
    using mirrored_hydrate [OF assms(1)] by blast
  show ?thesis
  proof (cases "phone_known ?norm s'")
    case True
    with s' show ?thesis by (auto simp: mock_create_def async_simps Let_def)
  next
    case False
    let ?c = "new_customer (Suc (length cs)) ?norm p"
    have new: "map_of (ms_createdCustomers s') ?norm = None" using False by (simp add: phone_known_def)
    then have fresh: "?norm \<notin> set (map sc_phone cs)"
      using s'(2) by (force simp: mirrored_def map_of_eq_None_iff)
    have upd: "AList.update ?norm ?c (map (\<lambda>c. (sc_phone c, c)) cs) = map (\<lambda>c. (sc_phone c, c)) cs @ [(?norm, ?c)]"
      using jsmap_set_absent [OF new] s'(2) by (simp add: mirrored_def)
    have "mirrored (snd (mock_create db_up phone p s)) (cs @ [?c])"
      using s' False numbered_ids [of cs ?norm p] numbered_snoc [OF _ fresh assms(2), of p]
      by (simp add: mirrored_def mock_create_def async_simps Let_def store_statement_def store_insert_def
          customer_row_def upd comp_def)
    then show ?thesis ..
  qed
qed

lemma mock_reach_mirrored: "mock_reach s \<Longrightarrow> \<exists>cs. mirrored s cs"
proof (induction rule: mock_reach.induct)
  case mock_start
  show ?case by (rule exI [of _ "[]"]) (simp add: mirrored_def mock_new_def numbered_def)
next
  case (mock_resolved s phone)
  then show ?case using mirrored_hydrate by (fastforce simp: mock_resolve_def async_simps)
next
  case (mock_created s phone p)
  then show ?case using mirrored_create by blast
qed

lemma ref_number_new: "n < 1000000 \<Longrightarrow> ref_number (sc_customerRef (new_customer n norm p)) = Some n"
  using padStart_length [of n 6 "CHR ''0''"] padStart_digits [of _ 6 n]
  by (auto simp: ref_number_def new_customer_def Let_def parse_dec_padStart)

lemma row_customer_back: "row_customer (sc_customerRef (new_customer n norm p)) norm (customer_row (new_customer n norm p)) =
  new_customer n norm p"
  by (simp add: row_customer_def customer_row_def new_customer_def Let_def)

lemma hydrate_new:
  assumes "norm \<noteq> ''''" "n < 1000000"
  shows "hydrate_row (customer_row (new_customer n norm p)) s =
    s\<lparr>ms_createdCustomers := AList.update norm (new_customer n norm p) (ms_createdCustomers s),
      ms_counter := max n (ms_counter s)\<rparr>"
proof -
  have "sc_customerRef (new_customer n norm p) \<noteq> ''''" by (simp add: new_customer_def Let_def)
  moreover have "mr_customerRef (customer_row (new_customer n norm p)) = Some (sc_customerRef (new_customer n norm p))"
    "mr_phone (customer_row (new_customer n norm p)) = Some norm"
    by (simp_all add: customer_row_def)
  ultimately show ?thesis
    using assms by (simp add: hydrate_row_def row_customer_back ref_number_new max_def)
qed

lemma hydrate_numbered:
  assumes "numbered cs" "length cs < 1000000" "ms_createdCustomers s = []" "ms_counter s = 0"
  shows "fold hydrate_row (map customer_row cs) s =
    s\<lparr>ms_createdCustomers := map (\<lambda>c. (sc_phone c, c)) cs, ms_counter := length cs\<rparr>"
  using assms
proof (induction cs rule: rev_induct)
  case (snoc c cs)
  have cs: "numbered cs" using snoc.prems(1) by (auto simp: numbered_def nth_append less_Suc_eq)
  obtain norm p where c: "c = new_customer (Suc (length cs)) norm p" "norm \<noteq> ''''"
    "norm \<notin> set (map sc_phone cs)"
    using snoc.prems(1) unfolding numbered_def by (auto dest!: spec [of _ "length cs"])
  then have "map_of (map (\<lambda>c. (sc_phone c, c)) cs) norm = None"
    by (force simp: map_of_eq_None_iff)
  from jsmap_set_absent [OF this]
  show ?case using snoc.IH [OF cs] snoc.prems c
    by (simp add: hydrate_new)
qed simp

text \<open>
  Customers survive a restart: a new process that reads the table knows the same customers and
  goes on counting where the old one stopped, so no reference is issued twice (up to the 999999
  references the pattern of the table can restore).
\<close>

lemma restart_keeps_customers:
  assumes "mock_reach s" "ms_counter s < 1000000"
  shows "\<exists>s'. ensureHydrated db_up (mock_new (ms_store s) 0) = (Inr (), s') \<and>
    ms_createdCustomers s' = ms_createdCustomers s \<and> ms_counter s' = ms_counter s"
proof -
  obtain cs where cs: "mirrored s cs" using mock_reach_mirrored [OF assms(1)] by blast
  let ?new = "(mock_new (ms_store s) 0)\<lparr>ms_hydrated := True, ms_statements := 1\<rparr>"
  have "fold hydrate_row (map customer_row cs) ?new =
    ?new\<lparr>ms_createdCustomers := map (\<lambda>c. (sc_phone c, c)) cs, ms_counter := length cs\<rparr>"
    by (rule hydrate_numbered) (use cs assms(2) in \<open>auto simp: mirrored_def mock_new_def\<close>)
  with cs show ?thesis
    by (simp add: mirrored_def ensureHydrated_def mock_new_def async_simps store_statement_def
        store_select_def Let_def)
qed

section \<open>Verification\<close>

lemma find_seed: "find (\<lambda>x. sc_customerRef x = r) SEED_CUSTOMERS = Some c \<Longrightarrow>
  c \<in> set SEED_CUSTOMERS \<and> sc_customerRef c = r"
  by (auto simp: find_Some_iff)

lemma seed_refs: "sc_customerRef ` set SEED_CUSTOMERS = {''REF-001'', ''REF-002'', ''REF-003'', ''REF-004'',
  ''REF-005'', ''REF-006'', ''REF-007'', ''REF-008''}"
  by (simp add: SEED_CUSTOMERS_def insert_commute)

text \<open>
  A customer created through the service can never be verified by a bill secret: every later
  verification of its reference answers false, for every secret, and so does its profile lookup.
\<close>

lemma created_never_verifies:
  assumes "mock_create db_ok phone p s = (Inr res, s')"
  shows "mock_verify \<lparr>vq_customerRef = cc_customerRef res, vq_secretType = st, vq_secretValue = v\<rparr> t = (Inr False, t) \<and>
    (\<exists>e. mock_profile (cc_customerRef res) t = (Inl e, t))"
proof -
  have "cc_customerRef res \<notin> sc_customerRef ` set SEED_CUSTOMERS"
    by (rule mock_create_Inr [OF assms]) (simp add: seed_refs new_customer_def Let_def)
  then have "find (\<lambda>x. sc_customerRef x = cc_customerRef res) SEED_CUSTOMERS = None"
    by (simp add: find_None_iff) (metis image_eqI)
  then show ?thesis by (simp add: mock_verify_def mock_profile_def async_simps)
qed

text \<open>
  The two mocks number their customers independently but share the primary key of the table: after
  the profile mock has created \<open>APP-000001\<close>, the first registration through the customer service
  fails, and the number it was meant for is refused as known from then on.
\<close>

lemma mocks_share_ids:
  assumes "ms_store s = Some [r]" "mr_customerId r = ''APP-000001''" "settled s" "ms_counter s = 0"
    and "\<not> phone_known (normalizePhone phone) s"
  shows "\<exists>s'. mock_create db_up phone p s = (Inl db_error, s') \<and>
    mock_create db_up phone p s' = (Inl CustomerConflict, s')"
proof -
  have "sc_customerId (new_customer (Suc 0) norm p) = ''APP-000001''" for norm
    by (simp add: new_customer_def padStart_def js_nat_str.simps digit_char_def numeral_eq_Suc Let_def) code_simp
  moreover have "settled (s\<lparr>ms_counter := n, ms_createdCustomers := m, ms_statements := k\<rparr>)" for n m k
    using assms(3) by (simp add: settled_def)
  ultimately show ?thesis
    using assms
    by (simp add: mock_create_def async_simps store_statement_def store_insert_def customer_row_def
        phone_known_def jsmap_simps Let_def settled_def)
qed

end
