(* ===== verification/Pii_Encryption.thy ===== *)
theory Pii_Encryption
  imports Prelude
begin

text \<open>
  \<^verbatim>\<open>PiiEncryptionService\<close>
  (src/modules/auth/infrastructure/persistence/encryption/pii-encryption.service.ts): the stored
  form \<open>iv:authTag:encrypted\<close> of an encrypted value, the blind index and the variants that pass
  empty values through. The ciphers of Node's crypto module are parameters: \<open>seal\<close> returns the
  ciphertext and the tag, \<open>unseal\<close> returns nothing when the tag does not verify (the module
  throws). A string is its sequence of UTF-8 bytes; the random IV of a call is an argument.
\<close>

section \<open>Hexadecimal text\<close>

type_synonym byte = nat

definition hex_digit :: "nat \<Rightarrow> char" where
  "hex_digit n = (''0123456789abcdef'' ! n)"

fun hex_value :: "char \<Rightarrow> nat option" where
  "hex_value c =
     (let n = (of_char c :: nat) in
      if 48 \<le> n \<and> n \<le> 57 then Some (n - 48)
      else if 97 \<le> n \<and> n \<le> 102 then Some (n - 87)
      else if 65 \<le> n \<and> n \<le> 70 then Some (n - 55)
      else None)"

fun toHex :: "byte list \<Rightarrow> string" where
  "toHex [] = []"
| "toHex (b # bs) = hex_digit (b div 16) # hex_digit (b mod 16) # toHex bs"

text \<open>\<^verbatim>\<open>Buffer.from(s, 'hex')\<close> stops at the first pair that is not hexadecimal.\<close>

fun fromHex :: "string \<Rightarrow> byte list" where
  "fromHex (a # b # s) = (case (hex_value a, hex_value b) of
     (Some x, Some y) \<Rightarrow> (x * 16 + y) # fromHex s
   | _ \<Rightarrow> [])"
| "fromHex _ = []"

definition utf8 :: "string \<Rightarrow> byte list" where
  "utf8 s = map of_char s"

definition fromUtf8 :: "byte list \<Rightarrow> string" where
  "fromUtf8 bs = map char_of bs"

text \<open>\<^verbatim>\<open>s.split(':')\<close>\<close>

fun split_on :: "char \<Rightarrow> string \<Rightarrow> string list" where
  "split_on d [] = [[]]"
| "split_on d (c # s) = (if c = d then [] # split_on d s
     else case split_on d s of [] \<Rightarrow> [[c]] | w # ws \<Rightarrow> (c # w) # ws)"

section \<open>The service\<close>

record crypto_module =
  seal :: "byte list \<Rightarrow> byte list \<Rightarrow> byte list \<Rightarrow> byte list \<times> byte list"
  unseal :: "byte list \<Rightarrow> byte list \<Rightarrow> byte list \<Rightarrow> byte list \<Rightarrow> byte list option"
  hmac_sha256 :: "byte list \<Rightarrow> byte list \<Rightarrow> byte list"

record pii_service =
  pii_crypto :: crypto_module
  pii_key :: "byte list"
  pii_hmacKey :: "byte list"

datatype pii_error = BadKeyLength nat | DecryptFailed | BadFormat

definition pii_new :: "crypto_module \<Rightarrow> string \<Rightarrow> pii_error + pii_service" where
  "pii_new cm secret =
     (let key = fromHex secret in
      if length key \<noteq> 32 then Inl (BadKeyLength (length key))
      else Inr \<lparr>pii_crypto = cm, pii_key = key,
                pii_hmacKey = hmac_sha256 cm key (utf8 ''blind-index-hmac-key-v1'')\<rparr>)"

definition pii_encrypt :: "pii_service \<Rightarrow> byte list \<Rightarrow> string \<Rightarrow> string" where
  "pii_encrypt p iv plaintext =
     (case seal (pii_crypto p) (pii_key p) iv (utf8 plaintext) of
        (ct, tag) \<Rightarrow> toHex iv @ '':'' @ toHex tag @ '':'' @ toHex ct)"

text \<open>A missing segment is \<^verbatim>\<open>undefined\<close>, which the buffer and cipher calls reject.\<close>

definition pii_decrypt :: "pii_service \<Rightarrow> string \<Rightarrow> pii_error + string" where
  "pii_decrypt p ciphertext =
     (case split_on CHR '':'' ciphertext of
        ivHex # authTagHex # encrypted # _ \<Rightarrow>
          (case unseal (pii_crypto p) (pii_key p) (fromHex ivHex) (fromHex authTagHex) (fromHex encrypted) of
             None \<Rightarrow> Inl DecryptFailed
           | Some bs \<Rightarrow> Inr (fromUtf8 bs))
      | _ \<Rightarrow> Inl BadFormat)"

definition hashForLookup :: "pii_service \<Rightarrow> string \<Rightarrow> string" where
  "hashForLookup p plaintext = toHex (hmac_sha256 (pii_crypto p) (pii_hmacKey p) (utf8 plaintext))"

definition hashForLog :: "pii_service \<Rightarrow> string \<Rightarrow> string" where
  "hashForLog p plaintext = take 8 (hashForLookup p plaintext)"

definition js_falsy :: "string option \<Rightarrow> bool" where
  "js_falsy v = (case v of None \<Rightarrow> True | Some s \<Rightarrow> s = '''')"

definition encryptIfNeeded :: "pii_service \<Rightarrow> byte list \<Rightarrow> string option \<Rightarrow> string option" where
  "encryptIfNeeded p iv value = (if js_falsy value then None else Some (pii_encrypt p iv (the value)))"

definition decryptIfNeeded :: "pii_service \<Rightarrow> string option \<Rightarrow> pii_error + string option" where
  "decryptIfNeeded p value =
     (if js_falsy value then Inr None
      else case pii_decrypt p (the value) of Inl e \<Rightarrow> Inl e | Inr s \<Rightarrow> Inr (Some s))"

definition hashIfNeeded :: "pii_service \<Rightarrow> string option \<Rightarrow> string option" where
  "hashIfNeeded p value = (if js_falsy value then None else Some (hashForLookup p (the value)))"

section \<open>Encoding lemmas\<close>

definition bytes :: "byte list \<Rightarrow> bool" where
  "bytes bs \<longleftrightarrow> (\<forall>b \<in> set bs. b < 256)"

lemma hex_digit_cases: "n < 16 \<Longrightarrow>
  hex_digit n \<in> set ''0123456789abcdef'' \<and> hex_value (hex_digit n) = Some n"
proof -
  assume "n < 16"
  then have "n \<in> {0, 1, 2, 3, 4, 5, 6, 7, 8, 9, 10, 11, 12, 13, 14, 15}" by (simp; presburger)
  then show ?thesis by (elim insertE emptyE) (simp_all add: hex_digit_def Let_def)
qed

lemma fromHex_toHex: "bytes bs \<Longrightarrow> fromHex (toHex bs) = bs"
proof (induction bs)
  case (Cons b bs)
  then have "b div 16 < 16" "b mod 16 < 16" by (auto simp: bytes_def)
  with Cons hex_digit_cases [of "b div 16"] hex_digit_cases [of "b mod 16"] show ?case
    by (simp add: bytes_def del: hex_value.simps)
qed simp

lemma char_colon_no_hex: "hex_value CHR '':'' = None"
  by (simp add: Let_def)

lemma hex_digit_no_colon: "n < 16 \<Longrightarrow> hex_digit n \<noteq> CHR '':''"
  using hex_digit_cases [of n] by (metis char_colon_no_hex option.distinct(1))

lemma toHex_no_colon: "bytes bs \<Longrightarrow> CHR '':'' \<notin> set (toHex bs)"
proof (induction bs)
  case (Cons b bs)
  then have "b div 16 < 16" "b mod 16 < 16" by (auto simp: bytes_def)
  with Cons hex_digit_no_colon [of "b div 16"] hex_digit_no_colon [of "b mod 16"] show ?case
    by (auto simp: bytes_def)
qed simp

lemma split_on_nonempty: "split_on d s \<noteq> []"
  by (induction s) (auto split: list.splits)

lemma split_on_absent: "d \<notin> set s \<Longrightarrow> split_on d s = [s]"
  by (induction s) auto

lemma split_on_segment: "d \<notin> set a \<Longrightarrow> split_on d (a @ d # s) = a # split_on d s"
  by (induction a) (auto split: list.splits)

lemma fromUtf8_utf8: "fromUtf8 (utf8 s) = s"
  by (simp add: fromUtf8_def utf8_def comp_def)

section \<open>Properties\<close>

text \<open>
  The documented behaviour of the cipher: opening what was sealed with the same key and IV gives
  the plaintext, and the module returns bytes.
\<close>

definition aead_correct :: "crypto_module \<Rightarrow> bool" where
  "aead_correct cm \<longleftrightarrow> (\<forall>k iv m. bytes m \<longrightarrow> (case seal cm k iv m of (ct, tag) \<Rightarrow>
     bytes ct \<and> bytes tag \<and> unseal cm k iv tag ct = Some m))"

lemma utf8_bytes: "bytes (utf8 s)"
  by (auto simp: bytes_def utf8_def)

lemma pii_roundtrip:
  assumes "aead_correct (pii_crypto p)" "bytes iv"
  shows "pii_decrypt p (pii_encrypt p iv s) = Inr s"
proof -
  obtain ct tag where s: "seal (pii_crypto p) (pii_key p) iv (utf8 s) = (ct, tag)" by fastforce
  from assms(1) [unfolded aead_correct_def, rule_format, OF utf8_bytes, of "pii_key p" iv s] s have "bytes ct" "bytes tag" "unseal (pii_crypto p) (pii_key p) iv tag ct = Some (utf8 s)"
    by simp_all
  with s assms(2) show ?thesis
    by (simp add: pii_decrypt_def pii_encrypt_def split_on_segment split_on_absent toHex_no_colon
        fromHex_toHex fromUtf8_utf8)
qed

lemma pii_encrypt_truthy: "pii_encrypt p iv s \<noteq> ''''"
  by (simp add: pii_encrypt_def split: prod.splits)

text \<open>
  What the service stores it can read back: decrypting the stored form of a value gives the
  value, absent and empty values are stored as null and read back as null, for every cipher that
  opens what it sealed.
\<close>

lemma pii_stored_roundtrip:
  assumes "aead_correct (pii_crypto p)" "bytes iv"
  shows "decryptIfNeeded p (encryptIfNeeded p iv v) = Inr (if js_falsy v then None else v)"
  using pii_roundtrip [OF assms] pii_encrypt_truthy
  by (auto simp: decryptIfNeeded_def encryptIfNeeded_def js_falsy_def split: option.splits)

text \<open>A module that meets the hypothesis: the message in the clear, the key as tag, checked on opening.\<close>

definition demo_crypto :: crypto_module where
  "demo_crypto = \<lparr>seal = (\<lambda>k iv m. (rev m, map (\<lambda>b. b mod 256) k)),
     unseal = (\<lambda>k iv tag ct. if tag = map (\<lambda>b. b mod 256) k then Some (rev ct) else None),
     hmac_sha256 = (\<lambda>k m. m)\<rparr>"

abbreviation demo_pii :: pii_service where
  "demo_pii \<equiv> \<lparr>pii_crypto = demo_crypto, pii_key = [1, 2], pii_hmacKey = []\<rparr>"

lemma demo_crypto_correct: "aead_correct demo_crypto"
  by (auto simp: aead_correct_def demo_crypto_def bytes_def)

end
