(* ===== verification/Binding.thy ===== *)
theory Binding
  imports Binding_Limiter Customer_Service Pii_Encryption
begin

text \<open>
  \<^verbatim>\<open>BindingService\<close> (src/modules/binding/binding.service.ts) and
  \<^verbatim>\<open>BindingVerifiedGuard\<close> (src/modules/binding/guards/binding-verified.guard.ts): the flow that
  ties an authenticated user to a customer by a bill secret, and the guard that admits a request to
  customer data only behind such a binding. The cache port, the customer service, the PII service
  and the database's willingness to execute its n-th statement are arguments, as the classes take
  them by injection. Requests are taken one at a time.
\<close>

section \<open>State and dependencies\<close>

record ('c, 's) bind_world =
  bw_cache :: 'c
  bw_service :: 's
  bw_users :: "(string \<times> string option) list"
  bw_bindings :: "binding_row list"
  bw_audit :: "audit_entry list"
  bw_statements :: nat

record ('c, 's) bind_deps =
  bd_cache :: "('c, bind_val) ICacheService"
  bd_service :: "'s CustomerServiceClient"
  bd_pii :: pii_service
  bd_iv :: "nat \<Rightarrow> byte list"
  bd_uuid :: "nat \<Rightarrow> string"
  bd_db_ok :: "nat \<Rightarrow> bool"

type_synonym ('c, 's, 'a) bind_op = "(('c, 's) bind_world, bind_error, 'a) async"

definition on_cache :: "('c, bind_error, 'a) async \<Rightarrow> ('c, 's, 'a) bind_op" where
  "on_cache m = (\<lambda>w. case m (bw_cache w) of (r, c) \<Rightarrow> (r, w\<lparr>bw_cache := c\<rparr>))"

definition on_service :: "('s, customer_error, 'a) async \<Rightarrow> ('c, 's, 'a) bind_op" where
  "on_service m = (\<lambda>w. case m (bw_service w) of
       (Inl e, s) \<Rightarrow> (Inl (CustomerServiceError e), w\<lparr>bw_service := s\<rparr>)
     | (Inr x, s) \<Rightarrow> (Inr x, w\<lparr>bw_service := s\<rparr>))"

text \<open>One statement: the database executes it or rejects.\<close>

definition on_db ::
  "('c, 's) bind_deps \<Rightarrow> ('c, 's, 'a) bind_op \<Rightarrow> ('c, 's, 'a) bind_op" where
  "on_db d m = (\<lambda>w. let n = bw_statements w; w1 = w\<lparr>bw_statements := Suc n\<rparr> in
     if bd_db_ok d n then m w1 else (Inl DatabaseError, w1))"

definition INIT_TTL_SEC :: int where "INIT_TTL_SEC = 5 * 60"
definition BINDING_CACHE_TTL_SEC :: int where "BINDING_CACHE_TTL_SEC = 60 * 60"

definition initKey :: "string \<Rightarrow> string" where
  "initKey sessionId = ''bind:init:'' @ sessionId"

definition bindKey :: "string \<Rightarrow> string" where
  "bindKey userId = ''bind:'' @ userId"

section \<open>Helpers of the service\<close>

definition allowedRefs :: "resolve_result \<Rightarrow> string list" where
  "allowedRefs init = (case rr_status init of
       RsOne \<Rightarrow> (case rr_customerRef init of None \<Rightarrow> [] | Some r \<Rightarrow> if r = '''' then [] else [r])
     | RsMany \<Rightarrow> map cand_customerRef (js_nullish (rr_candidates init) [])
     | RsNone \<Rightarrow> [])"

definition writeAudit :: "('c, 's) bind_deps \<Rightarrow> audit_entry \<Rightarrow> ('c, 's, unit) bind_op" where
  "writeAudit d entry =
     try_catch (on_db d (writes (\<lambda>w. w\<lparr>bw_audit := bw_audit w @ [entry]\<rparr>))) (\<lambda>_. ret ())"

definition getSessionPhone :: "('c, 's) bind_deps \<Rightarrow> string \<Rightarrow> ('c, 's, string option) bind_op" where
  "getSessionPhone d userId =
     on_db d (reads (\<lambda>w. case find (\<lambda>r. fst r = userId) (bw_users w) of
       None \<Rightarrow> None | Some r \<Rightarrow> snd r))"

definition update_binding ::
  "string \<Rightarrow> string option \<Rightarrow> string \<Rightarrow> string option \<Rightarrow> msec \<Rightarrow> binding_row \<Rightarrow> binding_row" where
  "update_binding rowId encCustomerId factorUsed deviceInfo now row =
     (if br_id row = rowId
      then row\<lparr>br_customerId := encCustomerId, br_status := Verified, br_factorUsed := Some factorUsed,
               br_verifiedAt := Some now, br_boundAt := Some now, br_deviceInfo := deviceInfo,
               br_revokedAt := None, br_revokedReason := None, br_updatedAt := now\<rparr>
      else row)"

text \<open>The partial unique index admits one verified row for a user and a reference.\<close>

definition insert_binding :: "binding_row \<Rightarrow> ('c, 's, unit) bind_op" where
  "insert_binding row = (\<lambda>w.
     if \<exists>r \<in> set (bw_bindings w). br_id r = br_id row \<or>
          (br_userId r = br_userId row \<and> br_customerRef r = br_customerRef row \<and>
           br_status r = Verified \<and> br_status row = Verified)
     then (Inl DatabaseError, w)
     else (Inr (), w\<lparr>bw_bindings := bw_bindings w @ [row]\<rparr>))"

definition upsertVerified ::
  "('c, 's) bind_deps \<Rightarrow> msec \<Rightarrow> string \<Rightarrow> string \<Rightarrow> string option \<Rightarrow> string \<Rightarrow> string option \<Rightarrow>
     ('c, 's, unit) bind_op" where
  "upsertVerified d now userId customerRef encCustomerId factorUsed deviceInfo =
     bnd (on_db d (reads (\<lambda>w.
            find (\<lambda>r. br_userId r = userId \<and> br_customerRef r = customerRef) (bw_bindings w))))
       (\<lambda>existing. case existing of
          Some row \<Rightarrow>
            on_db d (writes (\<lambda>w. w\<lparr>bw_bindings :=
              map (update_binding (br_id row) encCustomerId factorUsed deviceInfo now) (bw_bindings w)\<rparr>))
        | None \<Rightarrow>
            bnd (reads bw_statements) (\<lambda>n.
            on_db d (insert_binding
              \<lparr>br_id = bd_uuid d n, br_userId = userId, br_customerRef = customerRef,
               br_customerId = encCustomerId, br_status = Verified, br_factorUsed = Some factorUsed,
               br_verifiedAt = Some now, br_deviceInfo = deviceInfo, br_boundAt = Some now,
               br_revokedAt = None, br_revokedReason = None, br_updatedAt = now\<rparr>)))"

text \<open>A rejected write of the guard's cache entry is logged and dropped.\<close>

definition warm_cache ::
  "('c, 's) bind_deps \<Rightarrow> msec \<Rightarrow> string \<Rightarrow> binding_cache_entry \<Rightarrow> ('c, 's, unit) bind_op" where
  "warm_cache d now userId entry =
     try_catch (on_cache (cache_set (bd_cache d) CacheRejected now (bindKey userId) (BvEntry entry)
       BINDING_CACHE_TTL_SEC)) (\<lambda>_. ret ())"

section \<open>The endpoints\<close>

definition status_str :: "resolve_status \<Rightarrow> string" where
  "status_str s = (case s of RsNone \<Rightarrow> ''none'' | RsOne \<Rightarrow> ''one'' | RsMany \<Rightarrow> ''many'')"

definition reason_str :: "lock_reason \<Rightarrow> string" where
  "reason_str r = (case r of UserRef \<Rightarrow> ''user_ref'' | CustomerRef \<Rightarrow> ''customer_ref'' | SessionTotal \<Rightarrow> ''session'')"

definition factor_str :: "secret_type \<Rightarrow> string" where
  "factor_str t = (case t of LastInvoiceAmount \<Rightarrow> ''last_invoice_amount'' | MaKh \<Rightarrow> ''ma_kh'')"

definition resolve_detail :: "resolve_result \<Rightarrow> string" where
  "resolve_detail r = ''resolve:'' @ status_str (rr_status r) @
     (case rr_candidates r of None \<Rightarrow> '''' | Some cs \<Rightarrow> '' N='' @ js_nat_str (length cs)) @
     (if js_nullish (rr_capped r) False then '' capped'' else '''')"

definition bindInit ::
  "('c, 's) bind_deps \<Rightarrow> msec \<Rightarrow> string \<Rightarrow> string \<Rightarrow> string option \<Rightarrow> string option \<Rightarrow>
     ('c, 's, resolve_result) bind_op" where
  "bindInit d now userId sessionId deviceInfo ip =
     bnd (getSessionPhone d userId) (\<lambda>phone.
       if js_falsy phone then ret resolve_none
       else
         bnd (on_service (svc_resolve (bd_service d) (the phone))) (\<lambda>result.
         seq (writeAudit d \<lparr>ae_userId = userId,
                ae_customerRef = (if rr_status result = RsOne then rr_customerRef result else None),
                ae_action = ChallengeAttempt, ae_success = True, ae_detail = Some (resolve_detail result),
                ae_ip = ip, ae_deviceInfo = deviceInfo\<rparr>)
        (seq (on_cache (cache_set (bd_cache d) CacheRejected now (initKey sessionId) (BvInit result) INIT_TTL_SEC))
             (ret result))))"

record bind_body =
  bb_customerRef :: string
  bb_secretType :: secret_type
  bb_secretValue :: string

datatype bind_result = NotBound | Bound string

definition audit_row ::
  "string \<Rightarrow> string option \<Rightarrow> audit_action \<Rightarrow> bool \<Rightarrow> string \<Rightarrow> string option \<Rightarrow> string option \<Rightarrow> audit_entry" where
  "audit_row userId customerRef action success detail ip deviceInfo =
     \<lparr>ae_userId = userId, ae_customerRef = customerRef, ae_action = action, ae_success = success,
      ae_detail = Some detail, ae_ip = ip, ae_deviceInfo = deviceInfo\<rparr>"

text \<open>The branch of a wrong secret.\<close>

definition bind_failed ::
  "('c, 's) bind_deps \<Rightarrow> msec \<Rightarrow> string \<Rightarrow> bind_body \<Rightarrow> string option \<Rightarrow> string option \<Rightarrow>
     ('c, 's, bind_result) bind_op" where
  "bind_failed d now userId body deviceInfo ip =
     bnd (on_cache (recordFailure (bd_cache d) now userId (bb_customerRef body))) (\<lambda>fail.
     let reason = js_nullish (fo_reason fail) UserRef; retry = js_nullish (fo_retryAfterSec fail) 900 in
     seq (writeAudit d (audit_row userId (Some (bb_customerRef body))
            (if fo_lockedNow fail then LockoutAction else BindAction) False
            (if fo_lockedNow fail
             then ''lockout:'' @ reason_str reason @ '' retrySec:'' @ js_int_str retry
             else ''verify_failed'') ip deviceInfo))
       (if fo_lockedNow fail then throw (LockoutError reason retry) else ret NotBound))"

text \<open>The branch of a verified secret; \<open>encryptIfNeeded\<close> draws the IV of this call.\<close>

definition bind_verified ::
  "('c, 's) bind_deps \<Rightarrow> msec \<Rightarrow> string \<Rightarrow> string \<Rightarrow> bind_body \<Rightarrow> string option \<Rightarrow> string option \<Rightarrow>
     ('c, 's, bind_result) bind_op" where
  "bind_verified d now userId sessionId body deviceInfo ip =
     bnd (on_service (svc_profile (bd_service d) (bb_customerRef body))) (\<lambda>profile.
     bnd (reads bw_statements) (\<lambda>n.
     let encCustomerId = encryptIfNeeded (bd_pii d) (bd_iv d n) (Some (cp_customerId profile)) in
     seq (upsertVerified d now userId (bb_customerRef body) encCustomerId
            (factor_str (bb_secretType body)) deviceInfo)
    (seq (on_cache (clearFailures (bd_cache d) userId (bb_customerRef body)))
    (seq (on_cache (cache_delete (bd_cache d) (initKey sessionId)))
    (seq (writeAudit d (audit_row userId (Some (bb_customerRef body)) BindAction True
            (''factor:'' @ factor_str (bb_secretType body)) ip deviceInfo))
    (seq (warm_cache d now userId \<lparr>be_customerIdCipher = encCustomerId,
            be_customerRef = bb_customerRef body, be_verifiedAt = Some now, be_deviceInfo = deviceInfo\<rparr>)
         (ret (Bound (cp_customerId profile)))))))))"

text \<open>The references a cached value allows: a value of another kind has no status, hence none.\<close>

definition session_refs :: "bind_val option \<Rightarrow> string list option" where
  "session_refs init = (case init of None \<Rightarrow> None
     | Some v \<Rightarrow> if \<not> bv_truthy v then None
                 else Some (case v of BvInit result \<Rightarrow> allowedRefs result | _ \<Rightarrow> []))"

definition bind ::
  "('c, 's) bind_deps \<Rightarrow> msec \<Rightarrow> string \<Rightarrow> string \<Rightarrow> bind_body \<Rightarrow> string option \<Rightarrow> string option \<Rightarrow>
     ('c, 's, bind_result) bind_op" where
  "bind d now userId sessionId body deviceInfo ip =
     bnd (on_cache (cache_get (bd_cache d) now (initKey sessionId))) (\<lambda>init.
       let ref = bb_customerRef body;
           audit = (\<lambda>action detail. writeAudit d (audit_row userId (Some ref) action False detail ip deviceInfo))
       in case session_refs init of
         None \<Rightarrow> seq (audit BindAction ''init_expired'') (throw (ValidationError InitExpired))
       | Some refs \<Rightarrow>
           if ref \<notin> set refs
           then seq (audit BindAction ''foreign_ref_rejected'') (throw (ValidationError ForeignRef))
           else
             bnd (on_cache (checkLocked (bd_cache d) now userId ref)) (\<lambda>lock.
               if ls_locked lock
               then seq (audit LockoutAction (''lockout_hit:'' @ reason_str (js_nullish (ls_reason lock) UserRef)))
                      (throw (LockoutError (js_nullish (ls_reason lock) UserRef)
                         (js_nullish (ls_retryAfterSec lock) 900)))
               else
                 bnd (on_service (svc_verify (bd_service d) \<lparr>vq_customerRef = ref,
                        vq_secretType = bb_secretType body, vq_secretValue = bb_secretValue body\<rparr>)) (\<lambda>verified.
                   if \<not> verified then bind_failed d now userId body deviceInfo ip
                   else bind_verified d now userId sessionId body deviceInfo ip)))"

text \<open>The part of a registration that follows the creation of the customer.\<close>

definition register_created ::
  "('c, 's) bind_deps \<Rightarrow> msec \<Rightarrow> string \<Rightarrow> string \<Rightarrow> string option \<Rightarrow> string option \<Rightarrow>
     create_customer_result \<Rightarrow> ('c, 's, bind_result) bind_op" where
  "register_created d now userId sessionId deviceInfo ip created =
     bnd (reads bw_statements) (\<lambda>n.
     let encCustomerId = encryptIfNeeded (bd_pii d) (bd_iv d n) (Some (cc_customerId created)) in
     seq (upsertVerified d now userId (cc_customerRef created) encCustomerId ''self_registration'' deviceInfo)
    (seq (on_cache (cache_delete (bd_cache d) (initKey sessionId)))
    (seq (writeAudit d (audit_row userId (Some (cc_customerRef created)) Register True
            ''factor:self_registration'' ip deviceInfo))
    (seq (warm_cache d now userId \<lparr>be_customerIdCipher = encCustomerId,
            be_customerRef = cc_customerRef created, be_verifiedAt = Some now, be_deviceInfo = deviceInfo\<rparr>)
         (ret (Bound (cc_customerId created)))))))"

definition bindRegister ::
  "('c, 's) bind_deps \<Rightarrow> msec \<Rightarrow> string \<Rightarrow> string \<Rightarrow> create_customer_request \<Rightarrow> string option \<Rightarrow>
     string option \<Rightarrow> ('c, 's, bind_result) bind_op" where
  "bindRegister d now userId sessionId profile deviceInfo ip =
     bnd (getSessionPhone d userId) (\<lambda>phone.
       if js_falsy phone then throw (ValidationError NoSessionPhone)
       else
         bnd (on_service (svc_resolve (bd_service d) (the phone))) (\<lambda>resolved.
           if rr_status resolved \<noteq> RsNone
           then seq (writeAudit d (audit_row userId None Register False
                       (''re_resolve:'' @ status_str (rr_status resolved)) ip deviceInfo))
                  (throw (ConflictError (Some (rr_status resolved))))
           else
             bnd (try_catch (on_service (svc_create (bd_service d) (the phone) profile)) (\<lambda>err.
                    if err = CustomerServiceError CustomerConflict
                    then seq (writeAudit d (audit_row userId None Register False ''create_conflict'' ip deviceInfo))
                           (throw (ConflictError None))
                    else throw err))
               (register_created d now userId sessionId deviceInfo ip)))"

section \<open>The guard\<close>

record bound_customer =
  bc_id :: string
  bc_customerId :: string
  bc_customerRef :: string
  bc_verifiedAt :: "msec option"
  bc_deviceInfo :: "string option"

datatype guard_error = BINDING_REQUIRED | BINDING_INTEGRITY | GuardDecryptError pii_error | GuardDatabaseError

text \<open>A cached value of another kind has none of the fields of an entry: all read as undefined.\<close>

definition cast_entry :: "bind_val \<Rightarrow> binding_cache_entry" where
  "cast_entry v = (case v of BvEntry e \<Rightarrow> e
     | BvInit r \<Rightarrow> \<lparr>be_customerIdCipher = None, be_customerRef = js_nullish (rr_customerRef r) '''',
         be_verifiedAt = None, be_deviceInfo = None\<rparr>
     | _ \<Rightarrow> \<lparr>be_customerIdCipher = None, be_customerRef = '''', be_verifiedAt = None, be_deviceInfo = None\<rparr>)"

definition resolveBinding ::
  "('c, 's) bind_deps \<Rightarrow> msec \<Rightarrow> string \<Rightarrow> ('c, 's, binding_cache_entry option) bind_op" where
  "resolveBinding d now userId =
     bnd (on_cache (cache_get (bd_cache d) now (bindKey userId))) (\<lambda>cached.
       if (case cached of None \<Rightarrow> False | Some v \<Rightarrow> bv_truthy v)
       then ret (map_option cast_entry cached)
       else
         bnd (on_db d (reads (\<lambda>w.
                find (\<lambda>r. br_userId r = userId \<and> br_status r = Verified) (bw_bindings w)))) (\<lambda>rows.
           case rows of
             None \<Rightarrow> ret None
           | Some row \<Rightarrow>
               let entry = \<lparr>be_customerIdCipher = br_customerId row, be_customerRef = br_customerRef row,
                            be_verifiedAt = br_verifiedAt row, be_deviceInfo = br_deviceInfo row\<rparr>
               in seq (warm_cache d now userId entry) (ret (Some entry))))"

text \<open>
  The guard's verdict: it lets the request pass, with or without a customer attached, or throws.
  \<open>skip\<close> is the route's \<^verbatim>\<open>@SkipBindingVerified\<close> metadata.
\<close>

definition canActivate ::
  "('c, 's) bind_deps \<Rightarrow> msec \<Rightarrow> string option \<Rightarrow> bool \<Rightarrow> ('c, 's) bind_world \<Rightarrow>
     (guard_error + bound_customer option) \<times> ('c, 's) bind_world" where
  "canActivate d now user skip w =
     (if js_falsy user then (Inr None, w)
      else if skip then (Inr None, w)
      else let userId = the user in
        case resolveBinding d now userId w of
          (Inl _, w') \<Rightarrow> (Inl GuardDatabaseError, w')
        | (Inr None, w') \<Rightarrow> (Inl BINDING_REQUIRED, w')
        | (Inr (Some entry), w') \<Rightarrow>
            (case decryptIfNeeded (bd_pii d) (be_customerIdCipher entry) of
               Inl e \<Rightarrow> (Inl (GuardDecryptError e), w')
             | Inr customerId \<Rightarrow>
                 if js_falsy customerId then (Inl BINDING_INTEGRITY, w')
                 else (Inr (Some \<lparr>bc_id = userId, bc_customerId = the customerId,
                         bc_customerRef = be_customerRef entry, bc_verifiedAt = be_verifiedAt entry,
                         bc_deviceInfo = be_deviceInfo entry\<rparr>), w')))"

text \<open>\<^verbatim>\<open>@CustomerId()\<close>: the only way a handler learns the customer; a missing customer throws.\<close>

definition CustomerId :: "bound_customer option \<Rightarrow> string option" where
  "CustomerId customer = (case customer of None \<Rightarrow> None
     | Some c \<Rightarrow> if bc_customerId c = '''' then None else Some (bc_customerId c))"

section \<open>What each helper leaves alone\<close>

lemma writeAudit_app [async_simps]:
  "writeAudit d e w = (Inr (), w\<lparr>bw_statements := Suc (bw_statements w),
     bw_audit := (if bd_db_ok d (bw_statements w) then bw_audit w @ [e] else bw_audit w)\<rparr>)"
  by (simp add: writeAudit_def on_db_def async_simps Let_def)

lemma upsertVerified_frame:
  "bw_cache (snd (upsertVerified d now u r enc f dev w)) = bw_cache w"
  "bw_service (snd (upsertVerified d now u r enc f dev w)) = bw_service w"
  "bw_audit (snd (upsertVerified d now u r enc f dev w)) = bw_audit w"
  "bw_users (snd (upsertVerified d now u r enc f dev w)) = bw_users w"
  by (auto simp: upsertVerified_def insert_binding_def on_db_def async_simps Let_def split: option.splits)

lemma upsertVerified_fails:
  assumes "upsertVerified d now u r enc f dev w = (Inl e, w')"
  shows "bw_bindings w' = bw_bindings w"
  using assms
  by (auto simp: upsertVerified_def insert_binding_def on_db_def async_simps Let_def
      split: option.splits if_splits)

lemma getSessionPhone_frame:
  "snd (getSessionPhone d u w) = w\<lparr>bw_statements := Suc (bw_statements w)\<rparr>"
  by (simp add: getSessionPhone_def on_db_def async_simps Let_def)

lemma on_cache_app: "m (bw_cache w) = (r, c) \<Longrightarrow> on_cache m w = (r, w\<lparr>bw_cache := c\<rparr>)"
  by (simp add: on_cache_def)

lemma on_service_app:
  "m (bw_service w) = (Inl e, s) \<Longrightarrow> on_service m w = (Inl (CustomerServiceError e), w\<lparr>bw_service := s\<rparr>)"
  "m (bw_service w) = (Inr x, s) \<Longrightarrow> on_service m w = (Inr x, w\<lparr>bw_service := s\<rparr>)"
  by (simp_all add: on_service_def)

section \<open>A verified row\<close>

text \<open>The row a successful upsert leaves, and what it keeps of the others.\<close>

definition verified_row :: "string \<Rightarrow> string \<Rightarrow> string option \<Rightarrow> binding_row \<Rightarrow> bool" where
  "verified_row u r enc row \<longleftrightarrow> br_userId row = u \<and> br_customerRef row = r \<and>
     br_status row = Verified \<and> br_customerId row = enc"

definition ids_distinct :: "binding_row list \<Rightarrow> bool" where
  "ids_distinct rows \<longleftrightarrow> distinct (map br_id rows)"

lemma upsertVerified_writes:
  assumes "upsertVerified d now u r enc f dev w = (Inr (), w')" "ids_distinct (bw_bindings w)"
  shows "(\<exists>row \<in> set (bw_bindings w'). verified_row u r enc row) \<and> ids_distinct (bw_bindings w') \<and>
    filter (\<lambda>x. \<not> (br_userId x = u \<and> br_customerRef x = r)) (bw_bindings w') =
    filter (\<lambda>x. \<not> (br_userId x = u \<and> br_customerRef x = r)) (bw_bindings w)"
proof (cases "find (\<lambda>x. br_userId x = u \<and> br_customerRef x = r) (bw_bindings w)")
  case None
  then show ?thesis
    using assms
    by (auto simp: upsertVerified_def insert_binding_def on_db_def async_simps Let_def verified_row_def
        ids_distinct_def split: if_splits; blast)
next
  case (Some row)
  then have row: "row \<in> set (bw_bindings w)" "br_userId row = u" "br_customerRef row = r"
    by (auto simp: find_Some_iff)
  let ?upd = "update_binding (br_id row) enc f dev now"
  have w': "bw_bindings w' = map ?upd (bw_bindings w)"
    using assms(1) Some
    by (auto simp: upsertVerified_def on_db_def async_simps Let_def split: if_splits)
  have "verified_row u r enc (?upd row)" using row by (simp add: verified_row_def update_binding_def)
  moreover have "?upd x = x" if "x \<in> set (bw_bindings w)" "\<not> (br_userId x = u \<and> br_customerRef x = r)" for x
  proof -
    have "br_id x \<noteq> br_id row"
      using that row assms(2) unfolding ids_distinct_def by (auto simp: distinct_map dest: inj_onD)
    then show ?thesis by (simp add: update_binding_def)
  qed
  moreover have "br_userId (?upd x) = br_userId x" "br_customerRef (?upd x) = br_customerRef x"
    "br_id (?upd x) = br_id x" for x
    by (simp_all add: update_binding_def)
  ultimately show ?thesis
    using row(1) assms(2) unfolding w' ids_distinct_def
    by (auto simp: filter_map comp_def intro!: bexI [of _ row] map_idI)
qed

section \<open>The effect of a request on the cache\<close>

text \<open>A customer service that logs the secrets it was asked about and its answers.\<close>

type_synonym answers = "(verify_request \<times> bool) list"

definition keep_log :: "('s, 'e, 'a) async \<Rightarrow> ('s \<times> answers, 'e, 'a) async" where
  "keep_log m = (\<lambda>(s, l). case m s of (r, s') \<Rightarrow> (r, (s', l)))"

definition logged :: "'s CustomerServiceClient \<Rightarrow> ('s \<times> answers) CustomerServiceClient" where
  "logged svc = \<lparr>svc_resolve = (\<lambda>p. keep_log (svc_resolve svc p)),
     svc_verify = (\<lambda>q (s, l). case svc_verify svc q s of
         (Inl e, s') \<Rightarrow> (Inl e, (s', l))
       | (Inr b, s') \<Rightarrow> (Inr b, (s', l @ [(q, b)]))),
     svc_create = (\<lambda>p r. keep_log (svc_create svc p r)),
     svc_profile = (\<lambda>r. keep_log (svc_profile svc r))\<rparr>"

abbreviation qlog :: "('c, 's \<times> answers) bind_world \<Rightarrow> answers" where
  "qlog w \<equiv> snd (bw_service w)"

lemma keep_log_snd: "snd (snd (keep_log m s)) = snd s"
  by (simp add: keep_log_def split: prod.splits)

lemma on_service_keep_log [simp]: "qlog (snd (on_service (keep_log m) w)) = qlog w"
  using keep_log_snd [of m "bw_service w"]
  by (auto simp: on_service_def split: prod.splits sum.splits)

lemma on_service_frame [simp]:
  "bw_cache (snd (on_service m w)) = bw_cache w" "bw_bindings (snd (on_service m w)) = bw_bindings w"
  "bw_users (snd (on_service m w)) = bw_users w" "bw_audit (snd (on_service m w)) = bw_audit w"
  "bw_statements (snd (on_service m w)) = bw_statements w"
  by (auto simp: on_service_def split: prod.splits sum.splits)

definition bound_view :: "msec \<Rightarrow> string \<Rightarrow> string \<Rightarrow> string \<Rightarrow> bind_val \<Rightarrow> cache_view \<Rightarrow> cache_view" where
  "bound_view now u sid r v V =
     put_view now (bindKey u) v BINDING_CACHE_TTL_SEC (drop_view (initKey sid) (clear_view u r V))"

context limiter_cache
begin

abbreviation wview :: "('c, 's) bind_world \<Rightarrow> cache_view" where
  "wview w \<equiv> (\<lambda>t. view t (bw_cache w))"

lemma bind_failed_effect:
  assumes "bd_cache d = ic" "0 \<le> now" "6 \<le> free (bw_cache w)"
  shows "agree now (wview (snd (bind_failed d now u body dev ip w))) (failure_view now u (bb_customerRef body) (wview w)) \<and>
    free (bw_cache w) \<le> free (bw_cache (snd (bind_failed d now u body dev ip w))) + 6 \<and>
    bw_service (snd (bind_failed d now u body dev ip w)) = bw_service w \<and>
    bw_bindings (snd (bind_failed d now u body dev ip w)) = bw_bindings w"
proof -
  define out where "out = failure_report (UserRef \<in> armed_reasons now u (bb_customerRef body) (wview w))
    (CustomerRef \<in> armed_reasons now u (bb_customerRef body) (wview w))
    (SessionTotal \<in> armed_reasons now u (bb_customerRef body) (wview w))"
  obtain c' where "recordFailure ic now u (bb_customerRef body) (bw_cache w) = (Inr out, c')"
    "agree now (\<lambda>t'. view t' c') (failure_view now u (bb_customerRef body) (wview w))"
    "free (bw_cache w) \<le> free c' + 6"
    unfolding out_def by (rule recordFailure_spec [OF assms(2,3)])
  then show ?thesis
    by (simp add: bind_failed_def async_simps on_cache_def assms(1) Let_def)
qed

lemma warm_cache_effect:
  assumes "bd_cache d = ic" "0 \<le> now" "0 < free (bw_cache w)"
  obtains c' where "warm_cache d now u e w = (Inr (), w\<lparr>bw_cache := c'\<rparr>)"
    "(\<lambda>t. view t c') = put_view now (bindKey u) (BvEntry e) BINDING_CACHE_TTL_SEC (wview w)"
    "free (bw_cache w) \<le> Suc (free c')"
proof -
  have ttl: "0 < BINDING_CACHE_TTL_SEC" by (simp add: BINDING_CACHE_TTL_SEC_def)
  obtain c' where "cache_set ic CacheRejected now (bindKey u) (BvEntry e) BINDING_CACHE_TTL_SEC (bw_cache w) = (Inr (), c')"
    "(\<lambda>t. view t c') = put_view now (bindKey u) (BvEntry e) BINDING_CACHE_TTL_SEC (wview w)"
    "free (bw_cache w) \<le> Suc (free c')"
    by (rule cache_set_spec [OF assms(2) ttl assms(3)])
  with that show ?thesis by (simp add: warm_cache_def async_simps on_cache_def assms(1))
qed

text \<open>The steps of a successful bind after the row has been written.\<close>

lemma bind_finish_effect:
  assumes "bd_cache d = ic" "0 \<le> now" "1 \<le> free (bw_cache w)"
  obtains w' where "seq (on_cache (clearFailures (bd_cache d) u r))
      (seq (on_cache (cache_delete (bd_cache d) (initKey sid)))
      (seq (writeAudit d a) (seq (warm_cache d now u e) (ret x)))) w = (Inr x, w')"
    "wview w' = bound_view now u sid r (BvEntry e) (wview w)" "free (bw_cache w) \<le> Suc (free (bw_cache w'))"
    "bw_service w' = bw_service w" "bw_bindings w' = bw_bindings w"
proof -
  obtain c1 where c1: "clearFailures ic u r (bw_cache w) = (Inr (), c1)"
    "(\<lambda>t'. view t' c1) = clear_view u r (wview w)" "free (bw_cache w) \<le> free c1"
    by (rule clearFailures_spec)
  obtain c2 where c2: "cache_delete ic (initKey sid) c1 = (Inr () :: bind_error + unit, c2)"
    "(\<lambda>t'. view t' c2) = drop_view (initKey sid) (\<lambda>t'. view t' c1)" "free c1 \<le> free c2"
    by (rule cache_delete_spec)
  define A where "A = (if bd_db_ok d (bw_statements w) then bw_audit w @ [a] else bw_audit w)"
  let ?w = "w\<lparr>bw_cache := c2, bw_statements := Suc (bw_statements w), bw_audit := A\<rparr>"
  have wa: "writeAudit d a (w\<lparr>bw_cache := c2\<rparr>) = (Inr (), ?w)"
    by (simp add: writeAudit_app A_def)
  obtain c3 where c3: "warm_cache d now u e ?w = (Inr (), ?w\<lparr>bw_cache := c3\<rparr>)"
    "(\<lambda>t. view t c3) = put_view now (bindKey u) (BvEntry e) BINDING_CACHE_TTL_SEC (wview ?w)"
    "free (bw_cache ?w) \<le> Suc (free c3)"
    by (rule warm_cache_effect [of d now ?w u e]) (use assms c1(3) c2(3) in simp_all)
  show ?thesis
    by (rule that [of "?w\<lparr>bw_cache := c3\<rparr>"])
      (use c1 c2 c3 wa assms(1) in \<open>simp_all add: seq_app ret_app on_cache_def bound_view_def\<close>)
qed

end

lemma logged_simps [simp]:
  "svc_resolve (logged svc) p = keep_log (svc_resolve svc p)"
  "svc_create (logged svc) p r = keep_log (svc_create svc p r)"
  "svc_profile (logged svc) r0 = keep_log (svc_profile svc r0)"
  by (simp_all add: logged_def)

lemma logged_verify:
  "svc_verify (logged svc) q s = (case svc_verify svc q (fst s) of
      (Inl e, s') \<Rightarrow> (Inl e, (s', snd s)) | (Inr b, s') \<Rightarrow> (Inr b, (s', snd s @ [(q, b)])))"
  by (cases s) (auto simp: logged_def split: prod.splits sum.splits)

context limiter_cache
begin

lemma bind_verified_effect:
  fixes w :: "('c, 's \<times> answers) bind_world"
  assumes "bd_cache d = ic" "bd_service d = logged svc" "0 \<le> now" "1 \<le> free (bw_cache w)"
  shows "qlog (snd (bind_verified d now u sid body dev ip w)) = qlog w \<and>
    free (bw_cache w) \<le> free (bw_cache (snd (bind_verified d now u sid body dev ip w))) + 1 \<and>
    (bw_cache (snd (bind_verified d now u sid body dev ip w)) = bw_cache w \<or>
     (\<exists>e. wview (snd (bind_verified d now u sid body dev ip w)) =
        bound_view now u sid (bb_customerRef body) (BvEntry e) (wview w)))"
proof -
  obtain r1 w1 where w1: "on_service (svc_profile (bd_service d) (bb_customerRef body)) w = (r1, w1)" by fastforce
  then have f1: "bw_cache w1 = bw_cache w" "qlog w1 = qlog w"
    using on_service_frame(1) [of "svc_profile (bd_service d) (bb_customerRef body)" w]
      on_service_keep_log [of "svc_profile svc (bb_customerRef body)" w] by (simp_all add: assms(2))
  show ?thesis
  proof (cases r1)
    case (Inl e)
    with w1 f1 show ?thesis by (simp add: bind_verified_def async_simps)
  next
    case (Inr profile)
    define enc where "enc = encryptIfNeeded (bd_pii d) (bd_iv d (bw_statements w1)) (Some (cp_customerId profile))"
    obtain r2 w2 where w2: "upsertVerified d now u (bb_customerRef body) enc (factor_str (bb_secretType body)) dev w1 = (r2, w2)"
      by fastforce
    then have f2: "bw_cache w2 = bw_cache w" "qlog w2 = qlog w"
      using upsertVerified_frame(1,2) [of d now u "bb_customerRef body" enc "factor_str (bb_secretType body)" dev w1] f1
      by simp_all
    show ?thesis
    proof (cases r2)
      case (Inl e)
      with w1 Inr w2 f2 show ?thesis by (simp add: bind_verified_def async_simps enc_def Let_def)
    next
      case Inr2: (Inr x)
      obtain w' where "seq (on_cache (clearFailures (bd_cache d) u (bb_customerRef body)))
        (seq (on_cache (cache_delete (bd_cache d) (initKey sid)))
        (seq (writeAudit d (audit_row u (Some (bb_customerRef body)) BindAction True
            (''factor:'' @ factor_str (bb_secretType body)) ip dev))
        (seq (warm_cache d now u \<lparr>be_customerIdCipher = enc,
            be_customerRef = bb_customerRef body, be_verifiedAt = Some now, be_deviceInfo = dev\<rparr>)
         (ret (Bound (cp_customerId profile)))))) w2 = (Inr (Bound (cp_customerId profile)), w')"
        "wview w' = bound_view now u sid (bb_customerRef body) (BvEntry \<lparr>be_customerIdCipher = enc,
            be_customerRef = bb_customerRef body, be_verifiedAt = Some now, be_deviceInfo = dev\<rparr>) (wview w2)"
        "free (bw_cache w2) \<le> Suc (free (bw_cache w'))" "bw_service w' = bw_service w2"
        by (rule bind_finish_effect [OF assms(1,3), of w2]) (use assms(4) f2 in simp_all)
      with w1 Inr w2 Inr2 f2 have "snd (bind_verified d now u sid body dev ip w) = w'"
        by (simp add: bind_verified_def bnd_app reads_app seq_app [of "upsertVerified _ _ _ _ _ _ _"] enc_def Let_def)
      with \<open>wview w' = _\<close> \<open>free (bw_cache w2) \<le> _\<close> \<open>bw_service w' = _\<close> f2 show ?thesis by auto
    qed
  qed
qed

end

text \<open>
  The four ways a bind can go for the limiter: no secret was examined, a wrong one was counted, a
  right one changed nothing (a later step failed) or completed.
\<close>

definition asked :: "bind_body \<Rightarrow> verify_request" where
  "asked body = \<lparr>vq_customerRef = bb_customerRef body, vq_secretType = bb_secretType body,
     vq_secretValue = bb_secretValue body\<rparr>"

definition bind_outcome ::
  "msec \<Rightarrow> string \<Rightarrow> string \<Rightarrow> bind_body \<Rightarrow> cache_view \<Rightarrow> cache_view \<Rightarrow> answers \<Rightarrow> answers \<Rightarrow> bool" where
  "bind_outcome now u sid body V V' l l' \<longleftrightarrow>
     (l' = l \<and> agree now V' V) \<or>
     (l' = l @ [(asked body, False)] \<and> \<not> locked_view V now u (bb_customerRef body) \<and>
        agree now V' (failure_view now u (bb_customerRef body) V)) \<or>
     (l' = l @ [(asked body, True)] \<and>
        (agree now V' V \<or> (\<exists>e. agree now V' (bound_view now u sid (bb_customerRef body) (BvEntry e) V))))"

lemma agree_locked_view: "agree t V V' \<Longrightarrow> locked_view V t u r = locked_view V' t u r"
  by (simp add: locked_view_def locked_by_def agree_at)

lemma agree_failure: "agree now V V' \<Longrightarrow> agree now (failure_view now u r V) (failure_view now u r V')"
  by (simp add: failure_view_def ceiling_kinds agree_ceiling)

lemma agree_bound: "agree now V V' \<Longrightarrow> agree now (bound_view now u sid r v V) (bound_view now u sid r v V')"
  by (simp add: bound_view_def clear_view_def agree_put agree_drop)

context limiter_cache
begin

lemma bind_effect:
  fixes w :: "('c, 's \<times> answers) bind_world"
  assumes d: "bd_cache d = ic" "bd_service d = logged svc" and now: "0 \<le> now" and room: "6 \<le> free (bw_cache w)"
  shows "bind_outcome now u sid body (wview w) (wview (snd (bind d now u sid body dev ip w)))
      (qlog w) (qlog (snd (bind d now u sid body dev ip w))) \<and>
    free (bw_cache w) \<le> free (bw_cache (snd (bind d now u sid body dev ip w))) + 6"
proof -
  let ?r = "bb_customerRef body"
  obtain c1 where c1: "cache_get ic now (initKey sid) (bw_cache w) =
      (Inr (view now (bw_cache w) (initKey sid)) :: bind_error + _, c1)"
    "agree now (\<lambda>t. view t c1) (wview w)" "free (bw_cache w) \<le> free c1"
    by (rule cache_get_spec)
  obtain ls c2 where c2: "checkLocked ic now u ?r c1 = (Inr ls, c2)"
    "ls_locked ls = locked_view (\<lambda>t. view t c1) now u ?r"
    "agree now (\<lambda>t. view t c2) (\<lambda>t. view t c1)" "free c1 \<le> free c2"
    by (rule checkLocked_spec)
  have a2: "agree now (\<lambda>t. view t c2) (wview w)" by (rule agree_trans [OF c2(3) c1(2)])
  let ?w2 = "w\<lparr>bw_cache := c2\<rparr>"
  note start = bind_def bnd_app on_cache_def d(1) c1(1) c2(1) Let_def
  show ?thesis
  proof (cases "session_refs (view now (bw_cache w) (initKey sid))")
    case None
    with c1 show ?thesis by (simp add: start async_simps bind_outcome_def)
  next
    case (Some refs)
    show ?thesis
    proof (cases "?r \<in> set refs \<and> \<not> ls_locked ls")
      case False
      with Some c1 c2 a2 show ?thesis by (auto simp: start async_simps bind_outcome_def)
    next
      case True
      then have unlocked: "\<not> locked_view (wview w) now u ?r"
        using c2(2) agree_locked_view [OF c1(2)] by simp
      obtain r3 s3 where s3: "svc_verify svc (asked body) (fst (bw_service w)) = (r3, s3)" by fastforce
      show ?thesis
      proof (cases r3)
        case (Inl e)
        with True Some s3 c1 c2 a2 show ?thesis
          by (simp add: start on_service_def d(2) logged_verify asked_def [symmetric] bind_outcome_def)
      next
        case (Inr verified)
        let ?w3 = "?w2\<lparr>bw_service := (s3, qlog w @ [(asked body, verified)])\<rparr>"
        have b: "bind d now u sid body dev ip w =
          (if \<not> verified then bind_failed d now u body dev ip ?w3 else bind_verified d now u sid body dev ip ?w3)"
          using True Some s3 Inr
          by (simp add: start on_service_def d(2) logged_verify asked_def [symmetric])
        show ?thesis
        proof (cases verified)
          case False
          have "agree now (wview (snd (bind_failed d now u body dev ip ?w3))) (failure_view now u ?r (wview w))"
            using bind_failed_effect [OF d(1) now, of ?w3 u body dev ip] agree_trans [OF _ agree_failure [OF a2]]
              c1(3) c2(4) room by simp
          with False b unlocked bind_failed_effect [OF d(1) now, of ?w3 u body dev ip] c1(3) c2(4) room
          show ?thesis by (simp add: bind_outcome_def)
        next
          case True
          let ?v = "snd (bind_verified d now u sid body dev ip ?w3)"
          have v: "qlog ?v = qlog w @ [(asked body, True)]" "free c2 \<le> Suc (free (bw_cache ?v))"
            "bw_cache ?v = c2 \<or> (\<exists>e. wview ?v = bound_view now u sid ?r (BvEntry e) (\<lambda>t. view t c2))"
            using bind_verified_effect [OF d now, of ?w3 u sid body dev ip] c1(3) c2(4) room True by simp_all
          from v(3) have "agree now (wview ?v) (wview w) \<or>
            (\<exists>e. agree now (wview ?v) (bound_view now u sid ?r (BvEntry e) (wview w)))"
            using a2 agree_bound [OF a2] by metis
          with b True v(1,2) c1(3) c2(4) show ?thesis by (simp add: bind_outcome_def)
        qed
      qed
    qed
  qed
qed

end

text \<open>A step that touches session tokens and the user's cached binding only.\<close>

definition benign :: "msec \<Rightarrow> string \<Rightarrow> cache_view \<Rightarrow> cache_view \<Rightarrow> bool" where
  "benign now u V V' \<longleftrightarrow> (\<forall>t \<ge> now. \<forall>k. (\<forall>sid. k \<noteq> initKey sid) \<longrightarrow> k \<noteq> bindKey u \<longrightarrow> V' t k = V t k)"

lemma benign_agree: "agree now V' V \<Longrightarrow> benign now u V V'"
  by (simp add: benign_def agree_def)

context limiter_cache
begin

lemma bindInit_effect:
  fixes w :: "('c, 's \<times> answers) bind_world"
  assumes d: "bd_cache d = ic" "bd_service d = logged svc" and now: "0 \<le> now" and room: "0 < free (bw_cache w)"
  shows "benign now u (wview w) (wview (snd (bindInit d now u sid dev ip w))) \<and>
    qlog (snd (bindInit d now u sid dev ip w)) = qlog w \<and>
    free (bw_cache w) \<le> free (bw_cache (snd (bindInit d now u sid dev ip w))) + 1"
proof -
  obtain r1 w1 where w1: "getSessionPhone d u w = (r1, w1)" by fastforce
  then have f1: "w1 = w\<lparr>bw_statements := Suc (bw_statements w)\<rparr>" using getSessionPhone_frame [of d u w] by simp
  show ?thesis
  proof (cases "\<exists>phone. r1 = Inr phone \<and> \<not> js_falsy phone")
    case False
    with w1 f1 show ?thesis by (cases r1) (auto simp: bindInit_def async_simps benign_def)
  next
    case True
    then obtain phone where p: "r1 = Inr phone" "\<not> js_falsy phone" by blast
    obtain r2 w2 where w2: "on_service (keep_log (svc_resolve svc (the phone))) w1 = (r2, w2)" by fastforce
    then have f2: "bw_cache w2 = bw_cache w" "qlog w2 = qlog w"
      using on_service_frame(1) [of "keep_log (svc_resolve svc (the phone))" w1]
        on_service_keep_log [of "svc_resolve svc (the phone)" w1] f1 by simp_all
    show ?thesis
    proof (cases r2)
      case (Inl e)
      with w1 p w2 f2 show ?thesis by (simp add: bindInit_def async_simps d benign_def)
    next
      case (Inr result)
      obtain c3 where c3: "cache_set ic CacheRejected now (initKey sid) (BvInit result) INIT_TTL_SEC (bw_cache w2) = (Inr (), c3)"
        "(\<lambda>t. view t c3) = put_view now (initKey sid) (BvInit result) INIT_TTL_SEC (wview w2)"
        "free (bw_cache w2) \<le> Suc (free c3)"
        by (rule cache_set_spec [OF now, of INIT_TTL_SEC "bw_cache w2"])
          (use room f2 in \<open>simp_all add: INIT_TTL_SEC_def\<close>)
      have "view t c3 k = view t (bw_cache w) k" if "k \<noteq> initKey sid" for t k
        using c3(2) that f2 by (metis put_view_def)
      with w1 p w2 Inr c3(1,3) f2 show ?thesis
        by (simp add: bindInit_def async_simps on_cache_def d benign_def)
    qed
  qed
qed

lemma register_finish_effect:
  assumes "bd_cache d = ic" "0 \<le> now" "1 \<le> free (bw_cache w)"
  obtains w' where "seq (on_cache (cache_delete (bd_cache d) (initKey sid)))
      (seq (writeAudit d a) (seq (warm_cache d now u e) (ret x))) w = (Inr x, w')"
    "wview w' = put_view now (bindKey u) (BvEntry e) BINDING_CACHE_TTL_SEC (drop_view (initKey sid) (wview w))"
    "free (bw_cache w) \<le> Suc (free (bw_cache w'))" "bw_service w' = bw_service w" "bw_bindings w' = bw_bindings w"
proof -
  obtain c2 where c2: "cache_delete ic (initKey sid) (bw_cache w) = (Inr () :: bind_error + unit, c2)"
    "(\<lambda>t'. view t' c2) = drop_view (initKey sid) (wview w)" "free (bw_cache w) \<le> free c2"
    by (rule cache_delete_spec)
  define A where "A = (if bd_db_ok d (bw_statements w) then bw_audit w @ [a] else bw_audit w)"
  let ?w = "w\<lparr>bw_cache := c2, bw_statements := Suc (bw_statements w), bw_audit := A\<rparr>"
  have wa: "writeAudit d a (w\<lparr>bw_cache := c2\<rparr>) = (Inr (), ?w)"
    by (simp add: writeAudit_app A_def)
  obtain c3 where c3: "warm_cache d now u e ?w = (Inr (), ?w\<lparr>bw_cache := c3\<rparr>)"
    "(\<lambda>t. view t c3) = put_view now (bindKey u) (BvEntry e) BINDING_CACHE_TTL_SEC (wview ?w)"
    "free (bw_cache ?w) \<le> Suc (free c3)"
    by (rule warm_cache_effect [of d now ?w u e]) (use assms c2(3) in simp_all)
  show ?thesis
    by (rule that [of "?w\<lparr>bw_cache := c3\<rparr>"])
      (use c2 c3 wa assms(1) in \<open>simp_all add: seq_app ret_app on_cache_def\<close>)
qed

end

text \<open>
  A registration stops before a customer was created, touching nothing but the audit log and the
  service, or it goes on with the created customer.
\<close>

lemma bindRegister_cases:
  obtains (stopped) e w' where "bindRegister d now u sid profile dev ip w = (Inl e, w')"
      "bw_cache w' = bw_cache w" "bw_bindings w' = bw_bindings w"
      "bw_service w' = bw_service w \<or> (\<exists>ph. let s1 = snd (svc_resolve (bd_service d) ph (bw_service w)) in
         bw_service w' = s1 \<or> bw_service w' = snd (svc_create (bd_service d) ph profile s1))"
  | (created) phone created w2 s1 resolved where
      "bindRegister d now u sid profile dev ip w = register_created d now u sid dev ip created w2"
      "fst (getSessionPhone d u w) = Inr (Some phone)"
      "svc_resolve (bd_service d) phone (bw_service w) = (Inr resolved, s1)" "rr_status resolved = RsNone"
      "svc_create (bd_service d) phone profile s1 = (Inr created, bw_service w2)"
      "bw_cache w2 = bw_cache w" "bw_bindings w2 = bw_bindings w"
proof -
  let ?w1 = "w\<lparr>bw_statements := Suc (bw_statements w)\<rparr>"
  obtain r1 where w1: "getSessionPhone d u w = (r1, ?w1)"
    using getSessionPhone_frame [of d u w] by (metis prod.collapse)
  show ?thesis
  proof (cases "\<exists>phone. r1 = Inr (Some phone) \<and> \<not> js_falsy (Some phone)")
    case False
    then have "(\<exists>e. r1 = Inl e) \<or> (\<exists>ph. r1 = Inr ph \<and> js_falsy ph)"
      by (cases r1) (auto simp: js_falsy_def split: option.splits)
    then show ?thesis using w1 stopped [of _ ?w1] by (auto simp: bindRegister_def async_simps)
  next
    case True
    then obtain phone where p: "r1 = Inr (Some phone)" "\<not> js_falsy (Some phone)" by blast
    obtain r2 s2 where s2: "svc_resolve (bd_service d) phone (bw_service w) = (r2, s2)" by fastforce
    show ?thesis
    proof (cases "\<exists>resolved. r2 = Inr resolved \<and> rr_status resolved = RsNone")
      case False
      then have "\<exists>e w'. bindRegister d now u sid profile dev ip w = (Inl e, w') \<and>
          bw_cache w' = bw_cache w \<and> bw_bindings w' = bw_bindings w \<and> bw_service w' = s2"
        using w1 p s2 by (cases r2) (auto simp: bindRegister_def async_simps on_service_def)
      then show ?thesis using s2 stopped by (metis snd_conv)
    next
      case True
      then obtain resolved where r: "r2 = Inr resolved" "rr_status resolved = RsNone" by blast
      obtain r3 s3 where s3: "svc_create (bd_service d) phone profile s2 = (r3, s3)" by fastforce
      show ?thesis
      proof (cases r3)
        case (Inl e)
        then have "\<exists>e w'. bindRegister d now u sid profile dev ip w = (Inl e, w') \<and>
            bw_cache w' = bw_cache w \<and> bw_bindings w' = bw_bindings w \<and> bw_service w' = s3"
          using w1 p s2 r s3
          by (cases "e = CustomerConflict") (auto simp: bindRegister_def async_simps on_service_def)
        then show ?thesis using s2 s3 stopped by (metis snd_conv)
      next
        case (Inr c)
        then show ?thesis using w1 p s2 r s3 created [of c "?w1\<lparr>bw_service := s3\<rparr>"]
          by (force simp: bindRegister_def async_simps on_service_def)
      qed
    qed
  qed
qed

context limiter_cache
begin

lemma register_created_effect:
  assumes "bd_cache d = ic" "0 \<le> now" "1 \<le> free (bw_cache w)"
  shows "benign now u (wview w) (wview (snd (register_created d now u sid dev ip created w))) \<and>
    bw_service (snd (register_created d now u sid dev ip created w)) = bw_service w \<and>
    free (bw_cache w) \<le> free (bw_cache (snd (register_created d now u sid dev ip created w))) + 1"
proof -
  define enc where "enc = encryptIfNeeded (bd_pii d) (bd_iv d (bw_statements w)) (Some (cc_customerId created))"
  define e where "e = \<lparr>be_customerIdCipher = enc, be_customerRef = cc_customerRef created,
    be_verifiedAt = Some now, be_deviceInfo = dev\<rparr>"
  obtain r2 w2 where w2: "upsertVerified d now u (cc_customerRef created) enc ''self_registration'' dev w = (r2, w2)"
    by fastforce
  then have f2: "bw_cache w2 = bw_cache w" "bw_service w2 = bw_service w"
    using upsertVerified_frame(1,2) [of d now u "cc_customerRef created" enc "''self_registration''" dev w]
    by simp_all
  show ?thesis
  proof (cases r2)
    case (Inl err)
    with w2 f2 show ?thesis by (simp add: register_created_def async_simps enc_def Let_def benign_def)
  next
    case (Inr x)
    obtain w' where w': "seq (on_cache (cache_delete (bd_cache d) (initKey sid)))
      (seq (writeAudit d (audit_row u (Some (cc_customerRef created)) Register True
            ''factor:self_registration'' ip dev)) (seq (warm_cache d now u e) (ret (Bound (cc_customerId created))))) w2 =
        (Inr (Bound (cc_customerId created)), w')"
      "wview w' = put_view now (bindKey u) (BvEntry e) BINDING_CACHE_TTL_SEC (drop_view (initKey sid) (wview w2))"
      "free (bw_cache w2) \<le> Suc (free (bw_cache w'))" "bw_service w' = bw_service w2"
      by (rule register_finish_effect [OF assms(1,2), of w2]) (use assms(3) f2 in simp_all)
    have "snd (register_created d now u sid dev ip created w) = w'"
      using w2 Inr w'(1)
      by (simp add: register_created_def bnd_app reads_app seq_app [of "upsertVerified _ _ _ _ _ _ _"]
          enc_def [symmetric] e_def [symmetric] Let_def)
    moreover have "view t (bw_cache w') k = view t (bw_cache w) k" if "k \<noteq> bindKey u" "k \<noteq> initKey sid" for t k
      using fun_cong [OF fun_cong [OF w'(2)], of t k] that f2 by (simp add: put_view_def drop_view_def)
    ultimately show ?thesis using w'(3,4) f2 by (simp add: benign_def)
  qed
qed

lemma bindRegister_effect:
  fixes w :: "('c, 's \<times> answers) bind_world"
  assumes d: "bd_cache d = ic" "bd_service d = logged svc" and now: "0 \<le> now" and room: "1 \<le> free (bw_cache w)"
  shows "benign now u (wview w) (wview (snd (bindRegister d now u sid profile dev ip w))) \<and>
    qlog (snd (bindRegister d now u sid profile dev ip w)) = qlog w \<and>
    free (bw_cache w) \<le> free (bw_cache (snd (bindRegister d now u sid profile dev ip w))) + 1"
proof (cases rule: bindRegister_cases [of d now u sid profile dev ip w])
  case (stopped e w')
  then show ?thesis by (auto simp: benign_def d(2) keep_log_snd Let_def)
next
  case (created phone created w2 s1 resolved)
  have "qlog w2 = qlog w"
    using created(3,5) keep_log_snd [of "svc_create svc phone profile" s1]
      keep_log_snd [of "svc_resolve svc phone" "bw_service w"] by (simp add: d(2))
  with created register_created_effect [OF d(1) now, of w2 u sid dev ip created] room show ?thesis by simp
qed

end

end
