(* ===== verification/Binding_Histories.thy ===== *)
theory Binding_Histories
  imports Binding
begin

text \<open>
  Histories of requests to the binding flow: the requests, the order of their times, what the
  customer service was asked meanwhile, and the effect of one request as the limiter sees it.
\<close>

section \<open>Histories\<close>

datatype request =
    InitReq msec string string "string option" "string option"
  | BindReq msec string string bind_body "string option" "string option"
  | RegisterReq msec string string create_customer_request "string option" "string option"

fun serve :: "('c, 's) bind_deps \<Rightarrow> request \<Rightarrow> ('c, 's) bind_world \<Rightarrow> ('c, 's) bind_world" where
  "serve d (InitReq t u sid dev ip) w = snd (bindInit d t u sid dev ip w)"
| "serve d (BindReq t u sid body dev ip) w = snd (bind d t u sid body dev ip w)"
| "serve d (RegisterReq t u sid profile dev ip) w = snd (bindRegister d t u sid profile dev ip w)"

fun req_time :: "request \<Rightarrow> msec" where
  "req_time (InitReq t u sid dev ip) = t"
| "req_time (BindReq t u sid body dev ip) = t"
| "req_time (RegisterReq t u sid profile dev ip) = t"

fun req_user :: "request \<Rightarrow> string" where
  "req_user (InitReq t u sid dev ip) = u"
| "req_user (BindReq t u sid body dev ip) = u"
| "req_user (RegisterReq t u sid profile dev ip) = u"

text \<open>Requests in the order of their times, by users whose ids hold no colon, until \<open>T\<close>.\<close>

fun history :: "msec \<Rightarrow> msec \<Rightarrow> request list \<Rightarrow> bool" where
  "history t T [] \<longleftrightarrow> t \<le> T"
| "history t T (q # qs) \<longleftrightarrow> t \<le> req_time q \<and> CHR '':'' \<notin> set (req_user q) \<and> history (req_time q) T qs"

definition wrong_for :: "string \<Rightarrow> answers \<Rightarrow> nat" where
  "wrong_for r l = length (filter (\<lambda>(q, ok). vq_customerRef q = r \<and> \<not> ok) l)"

definition count_answers :: "bool \<Rightarrow> answers \<Rightarrow> nat" where
  "count_answers b l = length (filter (\<lambda>(q, ok). ok = b) l)"

text \<open>How many secrets a user's own requests had answered right or wrong.\<close>

fun user_answers ::
  "('c, 's \<times> answers) bind_deps \<Rightarrow> string \<Rightarrow> bool \<Rightarrow> request list \<Rightarrow> ('c, 's \<times> answers) bind_world \<Rightarrow> nat" where
  "user_answers d u b [] w = 0"
| "user_answers d u b (q # qs) w =
     (if req_user q = u then count_answers b (qlog (serve d q w)) - count_answers b (qlog w) else 0) +
     user_answers d u b qs (serve d q w)"

text \<open>The mock customer service behind the flow, with one user whose phone is that of \<open>REF-001\<close>.\<close>

definition demo_deps :: "(bind_val memory_cache, mock_service \<times> answers) bind_deps" where
  "demo_deps = \<lparr>bd_cache = memory_cache_service, bd_service = logged (mock_customer_service db_up),
     bd_pii = demo_pii, bd_iv = (\<lambda>n. [n mod 256]), bd_uuid = js_nat_str, bd_db_ok = (\<lambda>_. True)\<rparr>"

definition demo_world :: "(bind_val memory_cache, mock_service \<times> answers) bind_world" where
  "demo_world = \<lparr>bw_cache = empty_cache 100, bw_service = (mock_new None 0, []),
     bw_users = [(''u1'', Some ''0987654321'')], bw_bindings = [], bw_audit = [], bw_statements = 0\<rparr>"

definition demo_body :: "string \<Rightarrow> bind_body" where
  "demo_body secret = \<lparr>bb_customerRef = ''REF-001'', bb_secretType = LastInvoiceAmount, bb_secretValue = secret\<rparr>"

section \<open>One request\<close>

lemma init_key_other [simp]:
  "initKey sid \<noteq> custFailKey r" "initKey sid \<noteq> custLockKey r" "initKey sid \<noteq> userTotalFailKey u"
  "initKey sid \<noteq> userTotalLockKey u"
  by (simp_all add: initKey_def key_defs)

lemmas init_key_other' [simp] = init_key_other [symmetric]

lemma bind_key_other:
  assumes "CHR '':'' \<notin> set u"
  shows "custFailKey r \<noteq> bindKey u" "custLockKey r \<noteq> bindKey u" "userTotalFailKey v \<noteq> bindKey u"
    "userTotalLockKey v \<noteq> bindKey u" "initKey sid \<noteq> bindKey u"
  using assms by (auto simp: bindKey_def initKey_def key_defs)

text \<open>The limiter's view of one request: the outcome of a bind, or a step that is none of its business.\<close>

definition request_outcome :: "request \<Rightarrow> cache_view \<Rightarrow> cache_view \<Rightarrow> answers \<Rightarrow> answers \<Rightarrow> bool" where
  "request_outcome q V V' l l' \<longleftrightarrow> (case q of
       BindReq t u sid body dev ip \<Rightarrow> bind_outcome t u sid body V V' l l'
     | _ \<Rightarrow> benign (req_time q) (req_user q) V V' \<and> l' = l)"

context limiter_cache
begin

lemma serve_effect:
  fixes w :: "('c, 's \<times> answers) bind_world"
  assumes "bd_cache d = ic" "bd_service d = logged svc" "0 \<le> req_time q" "6 \<le> free (bw_cache w)"
  shows "request_outcome q (wview w) (wview (serve d q w)) (qlog w) (qlog (serve d q w)) \<and>
    free (bw_cache w) \<le> free (bw_cache (serve d q w)) + 6"
proof (cases q)
  case (InitReq t u sid dev ip)
  with assms bindInit_effect [of d svc t w u sid dev ip] show ?thesis
    by (simp add: request_outcome_def)
next
  case (BindReq t u sid body dev ip)
  with assms bind_effect [of d svc t w u sid body dev ip] show ?thesis
    by (simp add: request_outcome_def)
next
  case (RegisterReq t u sid profile dev ip)
  with assms bindRegister_effect [of d svc t w u sid profile dev ip] show ?thesis
    by (simp add: request_outcome_def)
qed

end

end
