(* ===== verification/Binding_Rates.thy ===== *)
theory Binding_Rates
  imports Binding_Histories
begin

text \<open>
  How often a secret can be guessed: the ceilings of a customer reference and of a user over whole
  histories of requests.
\<close>

section \<open>The two ceilings along a history\<close>

text \<open>The ceiling of a customer reference counts every wrong answer for it and nothing else.\<close>

abbreviation cust_inv :: "string \<Rightarrow> msec \<Rightarrow> msec \<Rightarrow> int \<Rightarrow> cache_view \<Rightarrow> bool" where
  "cust_inv r \<equiv> ceil_inv (custFailKey r) (custLockKey r) CUSTOMER_REF_WINDOW_SEC CUSTOMER_REF_LIMIT"

lemma cust_inv_request:
  assumes inv: "cust_inv r t0 t (int (wrong_for r l)) V" and "t \<le> req_time q" "CHR '':'' \<notin> set (req_user q)"
    and out: "request_outcome q V V' l l'"
  shows "cust_inv r t0 (req_time q) (int (wrong_for r l')) V'"
proof (cases "\<exists>t u sid body dev ip. q = BindReq t u sid body dev ip")
  case False
  with out have b: "benign (req_time q) (req_user q) V V'" "l' = l"
    by (cases q; simp add: request_outcome_def)+
  show ?thesis
    by (rule ceil_inv_frame [OF inv [folded b(2)] assms(2)])
      (use b(1) bind_key_other [OF assms(3)] in \<open>auto simp: benign_def\<close>)
next
  case True
  then obtain now u sid body dev ip where q: "q = BindReq now u sid body dev ip" by blast
  let ?ref = "bb_customerRef body"
  from out q have "bind_outcome now u sid body V V' l l'" by (simp add: request_outcome_def)
  then consider (same) "wrong_for r l' = wrong_for r l" "agree now V' V"
    | (wrong) "l' = l @ [(asked body, False)]" "\<not> locked_view V now u ?ref" "agree now V' (failure_view now u ?ref V)"
    | (right) e where "wrong_for r l' = wrong_for r l" "agree now V' (bound_view now u sid ?ref (BvEntry e) V)"
    unfolding bind_outcome_def by (elim disjE conjE exE) (simp_all add: wrong_for_def)
  then show ?thesis
  proof cases
    case same
    show ?thesis unfolding same(1)
      by (rule ceil_inv_frame [OF inv assms(2)]) (use same(2) q in \<open>auto simp: agree_def\<close>)
  next
    case wrong
    show ?thesis
    proof (cases "?ref = r")
      case True
      have "cust_inv r t0 now (int (wrong_for r l) + 1) (cust_ceiling now r V)"
        unfolding cust_ceiling_def
        by (rule ceil_inv_step [OF inv]) (use assms(2) q wrong(2) True in \<open>auto simp: limit_defs locked_view_def\<close>)
      moreover have "wrong_for r l' = Suc (wrong_for r l)" using wrong(1) True by (simp add: wrong_for_def asked_def)
      ultimately have "cust_inv r t0 now (int (wrong_for r l')) (cust_ceiling now r V)" by (simp add: add.commute)
      then show ?thesis
        unfolding q req_time.simps
        by (rule ceil_inv_frame [OF _ order_refl]) (use wrong(3) True in \<open>simp_all add: agree_def cust_of_failure\<close>)
    next
      case False
      then have l': "wrong_for r l' = wrong_for r l" using wrong(1) by (simp add: wrong_for_def asked_def)
      show ?thesis unfolding l'
        by (rule ceil_inv_frame [OF inv assms(2)]) (use wrong(3) False q in \<open>auto simp: agree_def cust_of_failure\<close>)
    qed
  next
    case right
    show ?thesis unfolding right(1)
      by (rule ceil_inv_frame [OF inv assms(2)])
        (use right(2) q assms(3) bind_key_other [of u] in
          \<open>auto simp: agree_def bound_view_def clear_view_def put_view_def drop_view_def\<close>)
  qed
qed

context limiter_cache
begin

lemma cust_inv_run:
  fixes w :: "('c, 's \<times> answers) bind_world"
  assumes "bd_cache d = ic" "bd_service d = logged svc"
  shows "history t T qs \<Longrightarrow> 0 \<le> t \<Longrightarrow> 6 * length qs \<le> free (bw_cache w) \<Longrightarrow>
    cust_inv r t0 t (int (wrong_for r (qlog w))) (wview w) \<Longrightarrow>
    cust_inv r t0 T (int (wrong_for r (qlog (fold (serve d) qs w)))) (wview (fold (serve d) qs w))"
proof (induction qs arbitrary: t w)
  case Nil
  then show ?case by (auto intro: ceil_inv_frame)
next
  case (Cons q qs)
  have e: "request_outcome q (wview w) (wview (serve d q w)) (qlog w) (qlog (serve d q w))"
    "free (bw_cache w) \<le> free (bw_cache (serve d q w)) + 6"
    using serve_effect [OF assms, of q w] Cons.prems by simp_all
  show ?case
    using Cons.IH [of "req_time q" "serve d q w"] cust_inv_request [OF Cons.prems(4) _ _ e(1)] e(2) Cons.prems
    by simp
qed

end

text \<open>The ceiling of a user counts the wrong answers of the user's own requests; a success resets it.\<close>

abbreviation total_inv :: "string \<Rightarrow> msec \<Rightarrow> msec \<Rightarrow> int \<Rightarrow> cache_view \<Rightarrow> bool" where
  "total_inv u \<equiv> ceil_inv (userTotalFailKey u) (userTotalLockKey u) USER_TOTAL_WINDOW_SEC USER_TOTAL_LIMIT"

definition spent :: "answers \<Rightarrow> int" where
  "spent l = int (count_answers False l) - USER_TOTAL_LIMIT * int (count_answers True l)"

lemma spent_snoc: "spent (l @ [(q, ok)]) = spent l + (if ok then - USER_TOTAL_LIMIT else 1)"
  by (simp add: spent_def count_answers_def distrib_left)

lemma total_inv_mono: "total_inv u t0 t A V \<Longrightarrow> A' \<le> A \<Longrightarrow> total_inv u t0 t A' V"
  unfolding ceil_inv_def by (smt (verit, ccfv_SIG))

lemma total_inv_request:
  assumes inv: "total_inv v t0 t A V" and "t \<le> req_time q" "CHR '':'' \<notin> set (req_user q)"
    and out: "request_outcome q V V' l l'"
  shows "total_inv v t0 (req_time q) (A + (if req_user q = v then spent l' - spent l else 0)) V'"
proof (cases "\<exists>t u sid body dev ip. q = BindReq t u sid body dev ip")
  case False
  with out have b: "benign (req_time q) (req_user q) V V'" "l' = l"
    by (cases q; simp add: request_outcome_def)+
  have "total_inv v t0 (req_time q) A V'"
    by (rule ceil_inv_frame [OF inv assms(2)])
      (use b(1) bind_key_other [OF assms(3)] in \<open>auto simp: benign_def\<close>)
  with b(2) show ?thesis by simp
next
  case True
  then obtain now u sid body dev ip where q: "q = BindReq now u sid body dev ip" by blast
  let ?ref = "bb_customerRef body"
  from out q have "bind_outcome now u sid body V V' l l'" by (simp add: request_outcome_def)
  then consider (same) "agree now V' V" "spent l' \<le> spent l"
    | (wrong) "l' = l @ [(asked body, False)]" "\<not> locked_view V now u ?ref" "agree now V' (failure_view now u ?ref V)"
    | (right) e where "l' = l @ [(asked body, True)]" "agree now V' (bound_view now u sid ?ref (BvEntry e) V)"
    unfolding bind_outcome_def by (elim disjE conjE exE) (simp_all add: spent_snoc USER_TOTAL_LIMIT_def)
  then show ?thesis
  proof cases
    case same
    have "total_inv v t0 now A V'"
      by (rule ceil_inv_frame [OF inv]) (use assms(2) same(1) q in \<open>auto simp: agree_def\<close>)
    then show ?thesis unfolding q req_time.simps by (rule total_inv_mono) (use same(2) in simp)
  next
    case wrong
    show ?thesis
    proof (cases "u = v")
      case True
      have "total_inv v t0 now (A + 1) (total_ceiling now v V)"
        unfolding total_ceiling_def
        by (rule ceil_inv_step [OF inv]) (use assms(2) q wrong(2) True in \<open>auto simp: limit_defs locked_view_def\<close>)
      then have "total_inv v t0 now (A + 1) V'"
        by (rule ceil_inv_frame [OF _ order_refl]) (use wrong(3) True in \<open>simp_all add: agree_def total_of_failure\<close>)
      then show ?thesis using q True wrong(1) by (simp add: spent_snoc)
    next
      case False
      have "total_inv v t0 now A V'"
        by (rule ceil_inv_frame [OF inv]) (use assms(2) wrong(3) False q in \<open>auto simp: agree_def total_of_failure\<close>)
      then show ?thesis using q False by simp
    qed
  next
    case right
    have bk: "CHR '':'' \<notin> set u" using assms(3) q by simp
    show ?thesis
    proof (cases "u = v")
      case True
      have "total_inv v t0 now (A - USER_TOTAL_LIMIT) V'"
        by (rule ceil_inv_reset [OF inv])
          (use assms(2) right(2) True q bind_key_other [OF bk] in
            \<open>auto simp: limit_defs agree_def bound_view_def clear_view_def put_view_def drop_view_def\<close>)
      then show ?thesis using q True right(1) by (simp add: spent_snoc)
    next
      case False
      have "total_inv v t0 now A V'"
        by (rule ceil_inv_frame [OF inv])
          (use assms(2) right(2) False q bind_key_other [OF bk] in
            \<open>auto simp: agree_def bound_view_def clear_view_def put_view_def drop_view_def\<close>)
      then show ?thesis using q False by simp
    qed
  qed
qed

lemma answers_grow:
  assumes "request_outcome q V V' l l'"
  shows "count_answers b l \<le> count_answers b l'"
  using assms by (cases q) (auto simp: request_outcome_def bind_outcome_def count_answers_def)

context limiter_cache
begin

lemma total_inv_run:
  fixes w :: "('c, 's \<times> answers) bind_world"
  assumes "bd_cache d = ic" "bd_service d = logged svc"
  shows "history t T qs \<Longrightarrow> 0 \<le> t \<Longrightarrow> 6 * length qs \<le> free (bw_cache w) \<Longrightarrow>
    total_inv v t0 t A (wview w) \<Longrightarrow>
    total_inv v t0 T (A + int (user_answers d v False qs w) - USER_TOTAL_LIMIT * int (user_answers d v True qs w))
      (wview (fold (serve d) qs w))"
proof (induction qs arbitrary: t w A)
  case Nil
  then show ?case by (auto intro: ceil_inv_frame)
next
  case (Cons q qs)
  have e: "request_outcome q (wview w) (wview (serve d q w)) (qlog w) (qlog (serve d q w))"
    "free (bw_cache w) \<le> free (bw_cache (serve d q w)) + 6"
    using serve_effect [OF assms, of q w] Cons.prems by simp_all
  let ?A = "A + (if req_user q = v then spent (qlog (serve d q w)) - spent (qlog w) else 0)"
  have "total_inv v t0 (req_time q) ?A (wview (serve d q w))"
    using total_inv_request [OF Cons.prems(4) _ _ e(1)] Cons.prems(1) by simp
  then have "total_inv v t0 T (?A + int (user_answers d v False qs (serve d q w)) -
      USER_TOTAL_LIMIT * int (user_answers d v True qs (serve d q w))) (wview (fold (serve d) qs (serve d q w)))"
    using Cons.IH [of "req_time q" "serve d q w" ?A] e(2) Cons.prems by simp
  moreover have "?A + int (user_answers d v False qs (serve d q w)) -
      USER_TOTAL_LIMIT * int (user_answers d v True qs (serve d q w)) =
    A + int (user_answers d v False (q # qs) w) - USER_TOTAL_LIMIT * int (user_answers d v True (q # qs) w)"
    using answers_grow [OF e(1), of False] answers_grow [OF e(1), of True]
    by (simp add: spent_def of_nat_diff algebra_simps)
  ultimately show ?case by simp
qed

end

section \<open>How often a secret can be guessed\<close>

text \<open>
  C2. However many accounts and sessions take part, and whatever the customer service and the
  database do, a customer's secret is answered wrong at most ten times per started hour: between
  the first request and any later time \<open>T\<close>, starting from an empty cache that has room for the
  entries of the history.
\<close>

theorem customer_guess_rate:
  fixes w :: "(bind_val memory_cache, 's \<times> answers) bind_world"
  assumes "bd_cache d = memory_cache_service" "bd_service d = logged svc"
    and "bw_cache w = empty_cache n" "qlog w = []" "6 * int (length qs) < n"
    and "0 \<le> t0" "history t0 T qs"
  shows "int (wrong_for r (qlog (fold (serve d) qs w))) \<le> 10 * ((T - t0) div 3600000 + 1)"
proof -
  have room: "6 * length qs \<le> mc_free (bw_cache w)" using assms(3,5) by (simp add: empty_cache_free)
  have "cust_inv r t0 t0 (int (wrong_for r (qlog w))) (\<lambda>t. mc_view t (bw_cache w))"
    using ceil_inv_start [of t0 t0] assms(3,4) by (simp add: wrong_for_def)
  from memlim.cust_inv_run [OF assms(1,2,7,6) room this]
  have "cust_inv r t0 T (int (wrong_for r (qlog (fold (serve d) qs w)))) (\<lambda>t. mc_view t (bw_cache (fold (serve d) qs w)))" .
  from ceil_inv_budget [OF this] show ?thesis by (simp add: limit_defs)
qed

text \<open>
  C3. A user gets at most five wrong answers per started quarter of an hour, over all references
  together, and five more for each time the user proves a secret: whatever the references, the
  sessions and the other users are.
\<close>

theorem user_guess_rate:
  fixes w :: "(bind_val memory_cache, 's \<times> answers) bind_world"
  assumes "bd_cache d = memory_cache_service" "bd_service d = logged svc"
    and "bw_cache w = empty_cache n" "6 * int (length qs) < n"
    and "0 \<le> t0" "history t0 T qs"
  shows "int (user_answers d u False qs w) \<le>
    5 * ((T - t0) div 900000 + 1 + int (user_answers d u True qs w))"
proof -
  have room: "6 * length qs \<le> mc_free (bw_cache w)" using assms(3,4) by (simp add: empty_cache_free)
  have "total_inv u t0 t0 0 (\<lambda>t. mc_view t (bw_cache w))"
    using ceil_inv_start [of t0 t0] assms(3) by simp
  from memlim.total_inv_run [OF assms(1,2,6,5) room this]
  have "total_inv u t0 T (0 + int (user_answers d u False qs w) - USER_TOTAL_LIMIT * int (user_answers d u True qs w))
    (\<lambda>t. mc_view t (bw_cache (fold (serve d) qs w)))" .
  from ceil_inv_budget [OF this] show ?thesis by (simp add: limit_defs)
qed

definition demo_history :: "request list" where
  "demo_history = [InitReq 0 ''u1'' ''s1'' None None, BindReq 1 ''u1'' ''s1'' (demo_body ''1'') None None,
     BindReq 2 ''u1'' ''s1'' (demo_body ''2'') None None, BindReq 3 ''u1'' ''s1'' (demo_body ''3'') None None,
     BindReq 4 ''u1'' ''s1'' (demo_body ''4'') None None]"

lemma demo_premises:
  "bd_cache demo_deps = memory_cache_service" "bd_service demo_deps = logged (mock_customer_service db_up)"
  "bw_cache demo_world = empty_cache 100" "qlog demo_world = []" "6 * int (length demo_history) < 100"
  "history 0 4 demo_history"
  by (simp_all add: demo_deps_def demo_world_def demo_history_def)

theorem customer_guess_rate_witness:
  "wrong_for ''REF-001'' (qlog (fold (serve demo_deps) demo_history demo_world)) = 3 \<and>
   int (wrong_for ''REF-001'' (qlog (fold (serve demo_deps) demo_history demo_world))) \<le> 10"
proof -
  have "wrong_for ''REF-001'' (qlog (fold (serve demo_deps) demo_history demo_world)) = 3" by code_simp
  with customer_guess_rate [OF demo_premises(1-5) _ demo_premises(6), of "''REF-001''"] show ?thesis by simp
qed

theorem user_guess_rate_witness:
  "user_answers demo_deps ''u1'' False (take 2 demo_history) demo_world = 1 \<and>
   int (user_answers demo_deps ''u1'' False (take 2 demo_history) demo_world) \<le>
     5 * (1 + int (user_answers demo_deps ''u1'' True (take 2 demo_history) demo_world))"
proof -
  have "user_answers demo_deps ''u1'' False (take 2 demo_history) demo_world = 1" by code_simp
  moreover have "history 0 4 (take 2 demo_history)" "6 * int (length (take 2 demo_history)) < 100"
    by (simp_all add: demo_history_def)
  ultimately show ?thesis
    using user_guess_rate [OF demo_premises(1-3), of "take 2 demo_history" 0 4 "''u1''"] by simp
qed

end
