(* ===== verification/Binding_Scope.thy ===== *)
theory Binding_Scope
  imports Binding_Histories
begin

text \<open>
  Which customers a session can reach: the references a bind asks about come from what the customer
  service offered for the user's own phone, what a bind or a registration writes, and what the
  guard admits afterwards.
\<close>

section \<open>Which references a session can ask about\<close>

text \<open>A customer service that logs the numbers it resolved and what it offered for them.\<close>

type_synonym offers = "(string \<times> resolve_result) list"

definition offering :: "'s CustomerServiceClient \<Rightarrow> ('s \<times> offers) CustomerServiceClient" where
  "offering svc = \<lparr>
     svc_resolve = (\<lambda>p (s, l). case svc_resolve svc p s of
         (Inl e, s') \<Rightarrow> (Inl e, (s', l))
       | (Inr r, s') \<Rightarrow> (Inr r, (s', l @ [(p, r)]))),
     svc_verify = (\<lambda>q (s, l). case svc_verify svc q s of (a, s') \<Rightarrow> (a, (s', l))),
     svc_create = (\<lambda>p r (s, l). case svc_create svc p r s of (a, s') \<Rightarrow> (a, (s', l))),
     svc_profile = (\<lambda>r (s, l). case svc_profile svc r s of (a, s') \<Rightarrow> (a, (s', l)))\<rparr>"

abbreviation offered :: "('c, ('s \<times> offers) \<times> answers) bind_world \<Rightarrow> offers" where
  "offered w \<equiv> snd (fst (bw_service w))"

definition phone_of :: "('c, 's) bind_world \<Rightarrow> string \<Rightarrow> string option" where
  "phone_of w u = (case find (\<lambda>r. fst r = u) (bw_users w) of None \<Rightarrow> None | Some r \<Rightarrow> snd r)"

text \<open>The users do not change and the offers only grow.\<close>

definition offers_grow ::
  "('c, ('s \<times> offers) \<times> answers) bind_world \<Rightarrow> ('c, ('s \<times> offers) \<times> answers) bind_world \<Rightarrow> bool" where
  "offers_grow w w' \<longleftrightarrow> bw_users w' = bw_users w \<and> set (offered w) \<subseteq> set (offered w')"

interpretation growth: evolution offers_grow
  by unfold_locales (auto simp: offers_grow_def)

lemma grow_cache: "growth.keeps (on_cache m)"
  by (simp add: growth.keeps_def on_cache_def offers_grow_def split: prod.splits)

lemma grow_audit: "growth.keeps (writeAudit d e)"
  by (simp add: growth.keeps_def writeAudit_app offers_grow_def)

lemma grow_phone: "growth.keeps (getSessionPhone d u)"
  by (simp add: growth.keeps_def getSessionPhone_frame offers_grow_def)

lemma grow_upsert: "growth.keeps (upsertVerified d now u r enc f dev)"
  by (simp add: growth.keeps_def upsertVerified_frame offers_grow_def)

lemma grow_warm: "growth.keeps (warm_cache d now u e)"
  unfolding warm_cache_def by (intro growth.keeps_rules grow_cache)

lemma grow_service:
  assumes "\<And>s. set (snd (fst s)) \<subseteq> set (snd (fst (snd (m s))))"
  shows "growth.keeps (on_service m)"
  unfolding growth.keeps_def
proof
  fix w
  show "offers_grow w (snd (on_service m w))"
    using assms [of "bw_service w"]
    by (cases "m (bw_service w)"; cases "fst (m (bw_service w))") (auto simp: on_service_def offers_grow_def)
qed

lemma grow_svc:
  "growth.keeps (on_service (svc_resolve (logged (offering svc)) p))"
  "growth.keeps (on_service (svc_verify (logged (offering svc)) q))"
  "growth.keeps (on_service (svc_create (logged (offering svc)) p profile))"
  "growth.keeps (on_service (svc_profile (logged (offering svc)) r))"
  by (rule grow_service, auto simp: logged_def keep_log_def offering_def split: prod.splits sum.splits)+

lemmas grow_rules = growth.keeps_rules grow_cache grow_audit grow_phone grow_upsert grow_warm grow_svc

lemma grow_bindInit: "bd_service d = logged (offering svc) \<Longrightarrow> growth.keeps (bindInit d now u sid dev ip)"
  unfolding bindInit_def by (simp only:, intro grow_rules)

lemma grow_bind: "bd_service d = logged (offering svc) \<Longrightarrow> growth.keeps (bind d now u sid body dev ip)"
  unfolding bind_def bind_failed_def bind_verified_def Let_def
  by (simp only:, intro grow_rules)

lemma grow_bindRegister:
  "bd_service d = logged (offering svc) \<Longrightarrow> growth.keeps (bindRegister d now u sid profile dev ip)"
  unfolding bindRegister_def register_created_def Let_def by (simp only:, intro grow_rules)

lemma grow_serve: "bd_service d = logged (offering svc) \<Longrightarrow> offers_grow w (serve d q w)"
  by (cases q)
    (simp_all add: growth.keepsD [OF grow_bindInit] growth.keepsD [OF grow_bind] growth.keepsD [OF grow_bindRegister])

lemma grow_run: "bd_service d = logged (offering svc) \<Longrightarrow> offers_grow w (fold (serve d) qs w)"
proof (induction qs arbitrary: w)
  case (Cons q qs)
  show ?case
    using growth.R_trans [OF grow_serve [OF Cons.prems, of w q] Cons.IH [OF Cons.prems, of "serve d q w"]] by simp
qed (simp add: growth.R_refl)

text \<open>What a request can put under a key.\<close>

lemma failure_view_other:
  assumes "k \<notin> {userFailKey u r, userLockKey u r, custFailKey r, custLockKey r, userTotalFailKey u, userTotalLockKey u}"
  shows "failure_view now u r V t k = V t k"
  using assms by (simp add: failure_view_def ceiling_kinds ceiling_view_other)

lemma init_key_user [simp]: "initKey sid \<noteq> userFailKey u r" "initKey sid \<noteq> userLockKey u r"
  by (simp_all add: initKey_def key_defs)

lemma bind_token:
  assumes "bind_outcome now u sid body V V' l l'" "now \<le> t"
  shows "V' t (initKey s) = V t (initKey s) \<or> V' t (initKey s) = None \<or> (\<exists>e. V' t (initKey s) = Some (BvEntry e))"
  using assms unfolding bind_outcome_def
  by (elim disjE conjE exE)
    (auto simp: agree_def failure_view_other bound_view_def clear_view_def put_view_def drop_view_def)

context limiter_cache
begin

lemma register_token:
  assumes "bd_cache d = ic" "0 \<le> now" "1 \<le> free (bw_cache w)" and k: "k = initKey s"
  shows "let V' = wview (snd (bindRegister d now u sid profile dev ip w)) in
    V' t k = view t (bw_cache w) k \<or> V' t k = None \<or> (\<exists>e. V' t k = Some (BvEntry e))"
proof (cases rule: bindRegister_cases [of d now u sid profile dev ip w])
  case (stopped e w')
  then show ?thesis by (simp add: Let_def)
next
  case (created phone created w2 s1 resolved)
  let ?enc = "encryptIfNeeded (bd_pii d) (bd_iv d (bw_statements w2)) (Some (cc_customerId created))"
  let ?e = "\<lparr>be_customerIdCipher = ?enc, be_customerRef = cc_customerRef created,
    be_verifiedAt = Some now, be_deviceInfo = dev\<rparr>"
  obtain r3 w3 where w3: "upsertVerified d now u (cc_customerRef created) ?enc ''self_registration'' dev w2 = (r3, w3)"
    by fastforce
  then have f3: "bw_cache w3 = bw_cache w"
    using upsertVerified_frame(1) [of d now u "cc_customerRef created" ?enc "''self_registration''" dev w2] created(6)
    by simp
  show ?thesis
  proof (cases r3)
    case (Inl err)
    with created(1) w3 f3 show ?thesis by (simp add: register_created_def async_simps Let_def)
  next
    case (Inr x)
    obtain w' where w': "seq (on_cache (cache_delete (bd_cache d) (initKey sid)))
      (seq (writeAudit d (audit_row u (Some (cc_customerRef created)) Register True
            ''factor:self_registration'' ip dev)) (seq (warm_cache d now u ?e) (ret (Bound (cc_customerId created))))) w3 =
        (Inr (Bound (cc_customerId created)), w')"
      "wview w' = put_view now (bindKey u) (BvEntry ?e) BINDING_CACHE_TTL_SEC (drop_view (initKey sid) (wview w3))"
      by (rule register_finish_effect [OF assms(1,2), of w3]) (use assms(3) f3 in simp_all)
    have "snd (bindRegister d now u sid profile dev ip w) = w'"
      using created(1) w3 Inr w'(1)
      by (simp add: register_created_def bnd_app reads_app seq_app [of "upsertVerified _ _ _ _ _ _ _"] Let_def)
    with fun_cong [OF fun_cong [OF w'(2)], of t k] f3 show ?thesis
      by (auto simp: put_view_def drop_view_def Let_def)
  qed
qed

lemma init_token:
  fixes w :: "('c, ('s \<times> offers) \<times> answers) bind_world"
  assumes d: "bd_cache d = ic" "bd_service d = logged (offering svc)" and now: "0 \<le> now" and room: "0 < free (bw_cache w)"
  shows "let w' = snd (bindInit d now u sid dev ip w) in
    view t (bw_cache w') k = view t (bw_cache w) k \<or> view t (bw_cache w') k = None \<or>
    (k = initKey sid \<and> (\<exists>p r. phone_of w u = Some p \<and> (p, r) \<in> set (offered w') \<and>
      view t (bw_cache w') k = Some (BvInit r)))"
proof -
  let ?w1 = "w\<lparr>bw_statements := Suc (bw_statements w)\<rparr>"
  obtain r1 where w1: "getSessionPhone d u w = (r1, ?w1)"
    using getSessionPhone_frame [of d u w] by (metis prod.collapse)
  show ?thesis
  proof (cases "\<exists>phone. r1 = Inr phone \<and> \<not> js_falsy phone")
    case False
    with w1 show ?thesis by (cases r1) (auto simp: bindInit_def async_simps Let_def)
  next
    case True
    then obtain phone where p: "r1 = Inr (Some phone)" "\<not> js_falsy (Some phone)"
      by (auto simp: js_falsy_def split: option.splits)
    with w1 have ph: "phone_of w u = Some phone"
      by (auto simp: getSessionPhone_def on_db_def phone_of_def async_simps Let_def split: if_splits)
    obtain s0 rl al where s: "bw_service w = ((s0, rl), al)" by (metis prod.exhaust)
    obtain r2 s2 where s2: "svc_resolve svc phone s0 = (r2, s2)" by fastforce
    show ?thesis
    proof (cases r2)
      case (Inl e)
      with w1 p s s2 show ?thesis
        by (simp add: bindInit_def async_simps d on_service_def offering_def keep_log_def Let_def)
    next
      case (Inr result)
      obtain c3 where c3: "cache_set ic CacheRejected now (initKey sid) (BvInit result) INIT_TTL_SEC (bw_cache w) = (Inr (), c3)"
        "(\<lambda>t. view t c3) = put_view now (initKey sid) (BvInit result) INIT_TTL_SEC (wview w)"
        by (rule cache_set_spec [OF now, of INIT_TTL_SEC "bw_cache w"])
          (use room in \<open>simp_all add: INIT_TTL_SEC_def\<close>)
      from fun_cong [OF fun_cong [OF c3(2)], of t k] show ?thesis
        using w1 p s s2 Inr c3(1) ph
        by (simp add: bindInit_def async_simps d on_cache_def on_service_def offering_def keep_log_def
            put_view_def Let_def)
    qed
  qed
qed

end

lemma session_refs_mem:
  "session_refs v = Some rs \<Longrightarrow> x \<in> set rs \<Longrightarrow> \<exists>r. v = Some (BvInit r) \<and> rs = allowedRefs r"
  by (auto simp: session_refs_def split: option.splits if_splits bind_val.splits)

text \<open>A bind for a reference that the session's token does not offer stops at once.\<close>

lemma bind_unoffered:
  assumes "\<And>r. fst (ic_get (bd_cache d) now (initKey sid) (bw_cache w)) = Some (BvInit r) \<Longrightarrow>
    bb_customerRef body \<notin> set (allowedRefs r)"
  shows "\<exists>e w'. bind d now u sid body dev ip w = (Inl (ValidationError e), w') \<and>
    bw_service w' = bw_service w \<and> bw_bindings w' = bw_bindings w"
proof -
  obtain v c1 where g: "ic_get (bd_cache d) now (initKey sid) (bw_cache w) = (v, c1)" by fastforce
  have "session_refs v = None \<or> (\<exists>rs. session_refs v = Some rs \<and> bb_customerRef body \<notin> set rs)"
    using session_refs_mem [of v _ "bb_customerRef body"] assms g by (cases "session_refs v") auto
  then show ?thesis
    using g by (auto simp: bind_def bnd_app on_cache_def cache_get_def seq_app throw_app writeAudit_app Let_def)
qed

fun req_session :: "request \<Rightarrow> string" where
  "req_session (InitReq t u sid dev ip) = sid"
| "req_session (BindReq t u sid body dev ip) = sid"
| "req_session (RegisterReq t u sid profile dev ip) = sid"

text \<open>The references a user's own requests asked the customer service about.\<close>

fun asked_by ::
  "('c, 's \<times> answers) bind_deps \<Rightarrow> string \<Rightarrow> request list \<Rightarrow> ('c, 's \<times> answers) bind_world \<Rightarrow> string list" where
  "asked_by d u [] w = []"
| "asked_by d u (q # qs) w =
     (if req_user q = u then map (\<lambda>(x, ok). vq_customerRef x) (drop (length (qlog w)) (qlog (serve d q w))) else []) @
     asked_by d u qs (serve d q w)"

definition scope_inv ::
  "(string \<Rightarrow> string) \<Rightarrow> msec \<Rightarrow> cache_view \<Rightarrow> ('c, ('s \<times> offers) \<times> answers) bind_world \<Rightarrow> bool" where
  "scope_inv owner t V w \<longleftrightarrow> (\<forall>sid t' r. t \<le> t' \<longrightarrow> V t' (initKey sid) = Some (BvInit r) \<longrightarrow>
     (\<exists>p. phone_of w (owner sid) = Some p \<and> (p, r) \<in> set (offered w)))"

lemma phone_of_grow: "offers_grow w w' \<Longrightarrow> phone_of w' u = phone_of w u"
  by (simp add: offers_grow_def phone_of_def)

lemma scope_inv_grow:
  assumes "scope_inv owner t V w" "offers_grow w w'" "t \<le> now"
    and "\<And>sid t'. now \<le> t' \<Longrightarrow> V' t' (initKey sid) = V t' (initKey sid) \<or> V' t' (initKey sid) = None \<or>
      (\<exists>e. V' t' (initKey sid) = Some (BvEntry e)) \<or>
      (\<exists>p r. phone_of w' (owner sid) = Some p \<and> (p, r) \<in> set (offered w') \<and> V' t' (initKey sid) = Some (BvInit r))"
  shows "scope_inv owner now V' w'"
  unfolding scope_inv_def
proof (intro allI impI)
  fix sid t' r
  assume t': "now \<le> t'" and v: "V' t' (initKey sid) = Some (BvInit r)"
  from assms(4) [OF t', of sid] v
  consider "V t' (initKey sid) = Some (BvInit r)"
    | "\<exists>p. phone_of w' (owner sid) = Some p \<and> (p, r) \<in> set (offered w')" by auto
  then show "\<exists>p. phone_of w' (owner sid) = Some p \<and> (p, r) \<in> set (offered w')"
  proof cases
    case 1
    with assms(1,3) t' obtain p where "phone_of w (owner sid) = Some p" "(p, r) \<in> set (offered w)"
      unfolding scope_inv_def by (meson order_trans)
    with assms(2) show ?thesis by (auto simp: phone_of_grow) (auto simp: offers_grow_def)
  qed
qed

context limiter_cache
begin

lemma scope_inv_serve:
  fixes w :: "('c, ('s \<times> offers) \<times> answers) bind_world"
  assumes d: "bd_cache d = ic" "bd_service d = logged (offering svc)" and "0 \<le> t" "t \<le> req_time q"
    and room: "6 \<le> free (bw_cache w)" and own: "req_user q = owner (req_session q)"
    and inv: "scope_inv owner t (wview w) w"
  shows "scope_inv owner (req_time q) (wview (serve d q w)) (serve d q w)"
proof (rule scope_inv_grow [OF inv grow_serve [OF d(2)] assms(4)], goal_cases)
  case (1 s t')
  show ?case
  proof (cases q)
    case (InitReq now u sid dev ip)
    then have "offers_grow w (snd (bindInit d now u sid dev ip w))" using grow_serve [OF d(2), of w q] by simp
    with InitReq init_token [OF d, of now w u sid dev ip t' "initKey s"] room assms(3,4) own show ?thesis
      by (auto simp: Let_def phone_of_grow initKey_def)
  next
    case (BindReq now u sid body dev ip)
    with bind_token [of now u sid body "wview w" "wview (serve d q w)" "qlog w" "qlog (serve d q w)" t' s]
      serve_effect [OF d, of q w] 1 room assms(3,4) show ?thesis
      by (auto simp: request_outcome_def)
  next
    case (RegisterReq now u sid profile dev ip)
    with register_token [OF d(1), of now w "initKey s" s u sid profile dev ip t'] room assms(3,4) show ?thesis
      by (auto simp: Let_def)
  qed
qed

lemma asked_serve:
  fixes w :: "('c, ('s \<times> offers) \<times> answers) bind_world"
  assumes d: "bd_cache d = ic" "bd_service d = logged (offering svc)" and "0 \<le> t" "t \<le> req_time q"
    and room: "6 \<le> free (bw_cache w)" and own: "req_user q = owner (req_session q)"
    and inv: "scope_inv owner t (wview w) w"
    and x: "x \<in> set (map (\<lambda>(x, ok). vq_customerRef x) (drop (length (qlog w)) (qlog (serve d q w))))"
  shows "\<exists>p r. phone_of w (req_user q) = Some p \<and> (p, r) \<in> set (offered w) \<and> x \<in> set (allowedRefs r)"
proof -
  have out: "request_outcome q (wview w) (wview (serve d q w)) (qlog w) (qlog (serve d q w))"
    using serve_effect [OF d, of q w] assms(3,4) room by simp
  then obtain now u sid body dev ip where q: "q = BindReq now u sid body dev ip"
    using x by (cases q) (auto simp: request_outcome_def)
  have ref: "x = bb_customerRef body" and changed: "qlog (serve d q w) \<noteq> qlog w"
    using out x unfolding q request_outcome_def bind_outcome_def by (auto simp: asked_def)
  have "\<exists>r. view now (bw_cache w) (initKey sid) = Some (BvInit r) \<and> bb_customerRef body \<in> set (allowedRefs r)"
  proof (rule ccontr)
    assume "\<not> ?thesis"
    then obtain e w' where "bind d now u sid body dev ip w = (Inl (ValidationError e), w')" "bw_service w' = bw_service w"
      using bind_unoffered [of d now sid w body u dev ip] d(1) get_view by metis
    with q changed show False by simp
  qed
  then obtain r where r: "view now (bw_cache w) (initKey sid) = Some (BvInit r)" "x \<in> set (allowedRefs r)"
    using ref by blast
  moreover have "t \<le> now" using assms(4) q by simp
  ultimately obtain p where "phone_of w (owner sid) = Some p" "(p, r) \<in> set (offered w)"
    using inv unfolding scope_inv_def by blast
  with r(2) own q show ?thesis by auto
qed

lemma asked_run:
  fixes w :: "('c, ('s \<times> offers) \<times> answers) bind_world"
  assumes "bd_cache d = ic" "bd_service d = logged (offering svc)"
  shows "history t T qs \<Longrightarrow> 0 \<le> t \<Longrightarrow> 6 * length qs \<le> free (bw_cache w) \<Longrightarrow>
    \<forall>q \<in> set qs. req_user q = owner (req_session q) \<Longrightarrow> scope_inv owner t (wview w) w \<Longrightarrow>
    x \<in> set (asked_by d u qs w) \<Longrightarrow>
    \<exists>p r. phone_of w u = Some p \<and> (p, r) \<in> set (offered (fold (serve d) qs w)) \<and> x \<in> set (allowedRefs r)"
proof (induction qs arbitrary: t w)
  case (Cons q qs)
  have room: "6 \<le> free (bw_cache w)" "6 * length qs \<le> free (bw_cache (serve d q w))"
    using serve_effect [OF assms, of q w] Cons.prems(1-3) by simp_all
  have inv': "scope_inv owner (req_time q) (wview (serve d q w)) (serve d q w)"
    using scope_inv_serve [OF assms, of t q w owner] Cons.prems room by simp
  have grow: "offers_grow w (serve d q w)" by (rule grow_serve [OF assms(2)])
  have later: "offers_grow (serve d q w) (fold (serve d) qs (serve d q w))"
    by (rule grow_run [OF assms(2)])
  show ?case
  proof (cases "x \<in> set (asked_by d u qs (serve d q w))")
    case True
    with Cons.IH [of "req_time q" "serve d q w"] inv' room Cons.prems show ?thesis
      by (auto simp: phone_of_grow [OF grow])
  next
    case False
    then have "req_user q = u"
      "x \<in> set (map (\<lambda>(x, ok). vq_customerRef x) (drop (length (qlog w)) (qlog (serve d q w))))"
      using Cons.prems(6) by (auto split: if_splits)
    with asked_serve [OF assms, of t q w owner x] Cons.prems room
    obtain p r where "phone_of w u = Some p" "(p, r) \<in> set (offered w)" "x \<in> set (allowedRefs r)" by auto
    moreover have "set (offered w) \<subseteq> set (offered (fold (serve d) (q # qs) w))"
      using grow later by (auto simp: offers_grow_def)
    ultimately show ?thesis by blast
  qed
qed simp

end

text \<open>
  C1. A user can only try secrets of customers that the customer service itself offered for the
  user's own verified phone: whatever references the requests name, and whatever happens in other
  sessions, every reference that a user's requests got examined is one of those offered for the
  phone in that user's identity row. (Each session belongs to one user.)
\<close>

theorem bind_scope:
  fixes w :: "(bind_val memory_cache, ('s \<times> offers) \<times> answers) bind_world"
  assumes "bd_cache d = memory_cache_service" "bd_service d = logged (offering svc)"
    and "bw_cache w = empty_cache n" "6 * int (length qs) < n" "0 \<le> t" "history t T qs"
    and "\<forall>q \<in> set qs. req_user q = owner (req_session q)"
  shows "\<forall>x \<in> set (asked_by d u qs w). \<exists>p r. phone_of w u = Some p \<and>
    (p, r) \<in> set (offered (fold (serve d) qs w)) \<and> x \<in> set (allowedRefs r)"
proof
  fix x
  assume x: "x \<in> set (asked_by d u qs w)"
  have room: "6 * length qs \<le> mc_free (bw_cache w)" using assms(3,4) by (simp add: empty_cache_free)
  have inv: "scope_inv owner t (\<lambda>t. mc_view t (bw_cache w)) w" by (simp add: scope_inv_def assms(3))
  show "\<exists>p r. phone_of w u = Some p \<and> (p, r) \<in> set (offered (fold (serve d) qs w)) \<and> x \<in> set (allowedRefs r)"
    by (rule memlim.asked_run [OF assms(1,2,6,5) room assms(7) inv x])
qed

definition scope_deps :: "(bind_val memory_cache, (mock_service \<times> offers) \<times> answers) bind_deps" where
  "scope_deps = \<lparr>bd_cache = memory_cache_service, bd_service = logged (offering (mock_customer_service db_up)),
     bd_pii = demo_pii, bd_iv = (\<lambda>n. [n mod 256]), bd_uuid = js_nat_str, bd_db_ok = (\<lambda>_. True)\<rparr>"

definition scope_world :: "(bind_val memory_cache, (mock_service \<times> offers) \<times> answers) bind_world" where
  "scope_world = \<lparr>bw_cache = empty_cache 100, bw_service = ((mock_new None 0, []), []),
     bw_users = [(''u1'', Some ''0987654321''), (''u2'', Some ''0912345678'')], bw_bindings = [], bw_audit = [],
     bw_statements = 0\<rparr>"

text \<open>The second user has its own session and names the reference of the first: it is not examined.\<close>

definition scope_history :: "request list" where
  "scope_history = [InitReq 0 ''u1'' ''s1'' None None, InitReq 1 ''u2'' ''s2'' None None,
     BindReq 2 ''u2'' ''s2'' (demo_body ''247500'') None None, BindReq 3 ''u1'' ''s1'' (demo_body ''1'') None None]"

theorem bind_scope_witness:
  "asked_by scope_deps ''u1'' scope_history scope_world = [''REF-001''] \<and>
   asked_by scope_deps ''u2'' scope_history scope_world = [] \<and>
   (\<exists>r. (''0987654321'', r) \<in> set (offered (fold (serve scope_deps) scope_history scope_world)) \<and>
      ''REF-001'' \<in> set (allowedRefs r))"
proof -
  have a: "asked_by scope_deps ''u1'' scope_history scope_world = [''REF-001'']"
    "asked_by scope_deps ''u2'' scope_history scope_world = []" by code_simp+
  have "\<forall>x \<in> set (asked_by scope_deps ''u1'' scope_history scope_world). \<exists>p r. phone_of scope_world ''u1'' = Some p \<and>
    (p, r) \<in> set (offered (fold (serve scope_deps) scope_history scope_world)) \<and> x \<in> set (allowedRefs r)"
    by (rule bind_scope [of scope_deps "mock_customer_service db_up" scope_world 100 scope_history 0 3
          "\<lambda>sid. if sid = ''s1'' then ''u1'' else ''u2''"])
      (simp_all add: scope_deps_def scope_world_def scope_history_def)
  with a show ?thesis by (simp add: phone_of_def scope_world_def)
qed

end
