(* ===== verification/Binding_Guard.thy ===== *)
theory Binding_Guard
  imports Binding_Histories
begin

text \<open>
  What the flow writes and what the guard admits: a completed bind or registration leaves a
  verified row and a cached entry with the same ciphertext, every cached entry is backed by a
  verified row along every history, and so is every request the guard admits.
\<close>

section \<open>What a request writes\<close>

text \<open>
  A request leaves the rows alone and caches no entry, or it writes one verified row of its user
  and caches the entry of that row.
\<close>

definition wrote ::
  "msec \<Rightarrow> string \<Rightarrow> string \<Rightarrow> binding_cache_entry \<Rightarrow> cache_view \<Rightarrow> ('c, 's) bind_world \<Rightarrow>
     cache_view \<Rightarrow> ('c, 's) bind_world \<Rightarrow> bool" where
  "wrote now u ref e V w V' w' \<longleftrightarrow> be_customerRef e = ref \<and>
     (\<exists>row \<in> set (bw_bindings w'). verified_row u ref (be_customerIdCipher e) row) \<and>
     ids_distinct (bw_bindings w') \<and>
     filter (\<lambda>x. \<not> (br_userId x = u \<and> br_customerRef x = ref)) (bw_bindings w') =
     filter (\<lambda>x. \<not> (br_userId x = u \<and> br_customerRef x = ref)) (bw_bindings w) \<and>
     (\<forall>t \<ge> now. V' t (bindKey u) = (if t \<le> now + BINDING_CACHE_TTL_SEC * 1000 then Some (BvEntry e) else None)) \<and>
     (\<forall>t \<ge> now. \<forall>v. v \<noteq> u \<longrightarrow> V' t (bindKey v) = V t (bindKey v) \<or> V' t (bindKey v) = None)"

definition wrote_nothing ::
  "msec \<Rightarrow> cache_view \<Rightarrow> ('c, 's) bind_world \<Rightarrow> cache_view \<Rightarrow> ('c, 's) bind_world \<Rightarrow> bool" where
  "wrote_nothing now V w V' w' \<longleftrightarrow> bw_bindings w' = bw_bindings w \<and>
     (\<forall>t \<ge> now. \<forall>v. CHR '':'' \<notin> set v \<longrightarrow> V' t (bindKey v) = V t (bindKey v))"

lemma bindKey_inject [simp]: "bindKey u = bindKey v \<longleftrightarrow> u = v"
  by (simp add: bindKey_def)

lemma limiter_keys_not_bind:
  assumes "CHR '':'' \<notin> set v"
  shows "bindKey v \<noteq> userFailKey u r" "bindKey v \<noteq> userLockKey u r" "bindKey v \<noteq> custFailKey r"
    "bindKey v \<noteq> custLockKey r" "bindKey v \<noteq> userTotalFailKey u" "bindKey v \<noteq> userTotalLockKey u"
    "bindKey v \<noteq> initKey sid"
  using assms by (auto simp: bindKey_def initKey_def key_defs)

lemma failure_view_bind: "CHR '':'' \<notin> set v \<Longrightarrow> failure_view now u r V t (bindKey v) = V t (bindKey v)"
  by (simp add: failure_view_def ceiling_kinds ceiling_view_other limiter_keys_not_bind)

lemma agree_nothing:
  "agree now V' V \<Longrightarrow> bw_bindings w' = bw_bindings w \<Longrightarrow> wrote_nothing now V w V' w'"
  by (simp add: wrote_nothing_def agree_def)

text \<open>The entry of a completed bind.\<close>

definition bound_entry :: "('c, 's) bind_deps \<Rightarrow> nat \<Rightarrow> msec \<Rightarrow> string \<Rightarrow> string \<Rightarrow> string option \<Rightarrow> binding_cache_entry" where
  "bound_entry d n now ref customerId dev =
     \<lparr>be_customerIdCipher = encryptIfNeeded (bd_pii d) (bd_iv d n) (Some customerId), be_customerRef = ref,
      be_verifiedAt = Some now, be_deviceInfo = dev\<rparr>"

context limiter_cache
begin

lemma bind_verified_writes:
  assumes d: "bd_cache d = ic" and now: "0 \<le> now" and room: "1 \<le> free (bw_cache w)"
    and ids: "ids_distinct (bw_bindings w)"
  obtains (unchanged) err w' where "bind_verified d now u sid body dev ip w = (Inl err, w')"
      "bw_bindings w' = bw_bindings w" "bw_cache w' = bw_cache w"
  | (completed) n cid w' where "bind_verified d now u sid body dev ip w = (Inr (Bound cid), w')"
      "wrote now u (bb_customerRef body) (bound_entry d n now (bb_customerRef body) cid dev) (wview w) w (wview w') w'"
      "\<And>t. initKey sid \<noteq> bindKey u \<Longrightarrow> wview w' t (initKey sid) = None"
proof -
  let ?r = "bb_customerRef body"
  obtain r1 w1 where w1: "on_service (svc_profile (bd_service d) ?r) w = (r1, w1)" by fastforce
  then have f1: "bw_cache w1 = bw_cache w" "bw_bindings w1 = bw_bindings w"
    using on_service_frame(1,2) [of "svc_profile (bd_service d) ?r" w] by simp_all
  show ?thesis
  proof (cases r1)
    case (Inl e)
    then have b: "bind_verified d now u sid body dev ip w = (Inl e, w1)"
      using w1 by (simp add: bind_verified_def async_simps)
    show ?thesis by (rule unchanged [OF b]) (simp_all add: f1)
  next
    case (Inr profile)
    let ?id = "cp_customerId profile" and ?n = "bw_statements w1"
    let ?e = "bound_entry d ?n now ?r ?id dev"
    obtain r2 w2 where w2: "upsertVerified d now u ?r (be_customerIdCipher ?e) (factor_str (bb_secretType body)) dev w1 = (r2, w2)"
      by fastforce
    then have f2: "bw_cache w2 = bw_cache w"
      using upsertVerified_frame(1) [of d now u ?r "be_customerIdCipher ?e" "factor_str (bb_secretType body)" dev w1] f1
      by simp
    show ?thesis
    proof (cases r2)
      case (Inl err)
      then have b: "bind_verified d now u sid body dev ip w = (Inl err, w2)"
        using w1 Inr w2 by (simp add: bind_verified_def bound_entry_def async_simps Let_def)
      show ?thesis
        by (rule unchanged [OF b]) (use upsertVerified_fails [OF w2 [unfolded Inl]] f1 f2 in simp_all)
    next
      case Inr2: (Inr x)
      obtain w' where w': "seq (on_cache (clearFailures (bd_cache d) u ?r))
        (seq (on_cache (cache_delete (bd_cache d) (initKey sid)))
        (seq (writeAudit d (audit_row u (Some ?r) BindAction True (''factor:'' @ factor_str (bb_secretType body)) ip dev))
        (seq (warm_cache d now u ?e) (ret (Bound ?id))))) w2 = (Inr (Bound ?id), w')"
        "wview w' = bound_view now u sid ?r (BvEntry ?e) (wview w2)" "bw_bindings w' = bw_bindings w2"
        by (rule bind_finish_effect [OF d now, of w2]) (use room f2 in simp_all)
      have b: "bind_verified d now u sid body dev ip w = (Inr (Bound ?id), w')"
        using w1 Inr w2 Inr2 w'(1)
        by (simp add: bind_verified_def bnd_app reads_app seq_app [of "upsertVerified _ _ _ _ _ _ _"]
            bound_entry_def Let_def)
      have v: "wview w' t k = bound_view now u sid ?r (BvEntry ?e) (wview w) t k" for t k
        using fun_cong [OF fun_cong [OF w'(2)], of t k] f2 by simp
      have "wrote now u ?r ?e (wview w) w (wview w') w'"
        using upsertVerified_writes [of d now u ?r "be_customerIdCipher ?e" "factor_str (bb_secretType body)" dev w1 w2]
          w2 Inr2 f1 ids w'(3)
        unfolding wrote_def v
        by (auto simp: bound_view_def clear_view_def put_view_def drop_view_def bound_entry_def)
      with b show ?thesis
        by (rule completed) (simp add: v bound_view_def put_view_def drop_view_def)
    qed
  qed
qed

end

definition request_writes ::
  "msec \<Rightarrow> string \<Rightarrow> cache_view \<Rightarrow> ('c, 's) bind_world \<Rightarrow> cache_view \<Rightarrow> ('c, 's) bind_world \<Rightarrow> bool" where
  "request_writes now u V w V' w' \<longleftrightarrow> wrote_nothing now V w V' w' \<or> (\<exists>ref e. wrote now u ref e V w V' w')"

lemma wrote_agree:
  assumes "agree now V0 V" "bw_bindings w0 = bw_bindings w" "wrote now u r e V0 w0 V' w'"
  shows "wrote now u r e V w V' w'"
  using assms by (simp add: wrote_def agree_def)

context limiter_cache
begin

lemma bind_writes:
  assumes d: "bd_cache d = ic" and now: "0 \<le> now" and room: "6 \<le> free (bw_cache w)"
    and ids: "ids_distinct (bw_bindings w)"
  shows "(wrote_nothing now (wview w) w (wview (snd (bind d now u sid body dev ip w))) (snd (bind d now u sid body dev ip w)) \<and>
      (\<nexists>cid. fst (bind d now u sid body dev ip w) = Inr (Bound cid))) \<or>
    (\<exists>n cid. fst (bind d now u sid body dev ip w) = Inr (Bound cid) \<and>
      wrote now u (bb_customerRef body) (bound_entry d n now (bb_customerRef body) cid dev) (wview w) w
        (wview (snd (bind d now u sid body dev ip w))) (snd (bind d now u sid body dev ip w)) \<and>
      (initKey sid \<noteq> bindKey u \<longrightarrow> (\<forall>t. wview (snd (bind d now u sid body dev ip w)) t (initKey sid) = None)))"
proof -
  let ?r = "bb_customerRef body"
  obtain c1 where c1: "cache_get ic now (initKey sid) (bw_cache w) =
      (Inr (view now (bw_cache w) (initKey sid)) :: bind_error + _, c1)"
    "agree now (\<lambda>t. view t c1) (wview w)" "free (bw_cache w) \<le> free c1"
    by (rule cache_get_spec)
  obtain ls c2 where c2: "checkLocked ic now u ?r c1 = (Inr ls, c2)"
    "agree now (\<lambda>t. view t c2) (\<lambda>t. view t c1)" "free c1 \<le> free c2"
    by (rule checkLocked_spec)
  have a2: "agree now (\<lambda>t. view t c2) (wview w)" by (rule agree_trans [OF c2(2) c1(2)])
  note start = bind_def bnd_app on_cache_def d c1(1) c2(1) Let_def
  show ?thesis
  proof (cases "\<exists>refs. session_refs (view now (bw_cache w) (initKey sid)) = Some refs \<and> ?r \<in> set refs \<and> \<not> ls_locked ls")
    case False
    with c1 a2 show ?thesis
      by (cases "session_refs (view now (bw_cache w) (initKey sid))")
        (auto simp: start async_simps intro!: agree_nothing)
  next
    case True
    obtain r3 s3 where s3: "svc_verify (bd_service d) (asked body) (bw_service w) = (r3, s3)" by fastforce
    let ?w3 = "w\<lparr>bw_cache := c2, bw_service := s3\<rparr>"
    show ?thesis
    proof (cases r3)
      case (Inl e)
      with True s3 a2 show ?thesis
        by (auto simp: start on_service_def asked_def [symmetric] intro!: agree_nothing)
    next
      case (Inr verified)
      then have b: "bind d now u sid body dev ip w =
        (if \<not> verified then bind_failed d now u body dev ip ?w3 else bind_verified d now u sid body dev ip ?w3)"
        using True s3 by (auto simp: start on_service_def asked_def [symmetric])
      show ?thesis
      proof (cases verified)
        case False
        let ?w' = "snd (bind_failed d now u body dev ip ?w3)"
        have e: "agree now (wview ?w') (failure_view now u ?r (wview ?w3))" "bw_bindings ?w' = bw_bindings w"
          using bind_failed_effect [OF d now, of ?w3 u body dev ip] room c1(3) c2(3) by simp_all
        have "wrote_nothing now (wview w) w (wview ?w') ?w'"
          using e a2 by (simp add: wrote_nothing_def agree_def failure_view_bind)
        moreover have "fst (bind_failed d now u body dev ip ?w3) \<noteq> Inr (Bound cid)" for cid
          by (auto simp: bind_failed_def bnd_app seq_app writeAudit_app throw_app ret_app Let_def
              split: prod.splits sum.splits if_splits)
        ultimately show ?thesis using b False by simp
      next
        case True
        have pre: "1 \<le> free (bw_cache ?w3)" "ids_distinct (bw_bindings ?w3)"
          using room c1(3) c2(3) ids by simp_all
        show ?thesis
        proof (rule bind_verified_writes [OF d now pre, of u sid body dev ip])
          fix err w'
          assume "bind_verified d now u sid body dev ip ?w3 = (Inl err, w')" "bw_bindings w' = bw_bindings ?w3"
            "bw_cache w' = bw_cache ?w3"
          with b True a2 show ?thesis by (auto intro!: agree_nothing)
        next
          fix n cid w'
          assume "bind_verified d now u sid body dev ip ?w3 = (Inr (Bound cid), w')"
            "\<And>t. initKey sid \<noteq> bindKey u \<Longrightarrow> wview w' t (initKey sid) = None"
            and wr: "wrote now u ?r (bound_entry d n now ?r cid dev) (wview ?w3) ?w3 (wview w') w'"
          moreover have "wrote now u ?r (bound_entry d n now ?r cid dev) (wview w) w (wview w') w'"
            by (rule wrote_agree [OF _ _ wr]) (use a2 in simp_all)
          ultimately show ?thesis using b True by auto
        qed
      qed
    qed
  qed
qed

lemma register_writes:
  assumes d: "bd_cache d = ic" and now: "0 \<le> now" and room: "1 \<le> free (bw_cache w)"
    and ids: "ids_distinct (bw_bindings w)"
  shows "request_writes now u (wview w) w (wview (snd (bindRegister d now u sid profile dev ip w)))
    (snd (bindRegister d now u sid profile dev ip w))"
proof (cases rule: bindRegister_cases [of d now u sid profile dev ip w])
  case (stopped e w')
  then show ?thesis by (auto simp: request_writes_def intro!: agree_nothing)
next
  case (created phone created w2 s1 resolved)
  let ?r = "cc_customerRef created"
  let ?e = "bound_entry d (bw_statements w2) now ?r (cc_customerId created) dev"
  obtain r3 w3 where w3: "upsertVerified d now u ?r (be_customerIdCipher ?e) ''self_registration'' dev w2 = (r3, w3)"
    by fastforce
  then have f3: "bw_cache w3 = bw_cache w"
    using upsertVerified_frame(1) [of d now u ?r "be_customerIdCipher ?e" "''self_registration''" dev w2] created(6)
    by simp
  show ?thesis
  proof (cases r3)
    case (Inl err)
    then have "snd (bindRegister d now u sid profile dev ip w) = w3"
      using created(1) w3 by (simp add: register_created_def bound_entry_def async_simps Let_def)
    with upsertVerified_fails [OF w3 [unfolded Inl]] f3 created(7) show ?thesis
      by (auto simp: request_writes_def intro!: agree_nothing)
  next
    case (Inr x)
    obtain w' where w': "seq (on_cache (cache_delete (bd_cache d) (initKey sid)))
      (seq (writeAudit d (audit_row u (Some ?r) Register True ''factor:self_registration'' ip dev))
      (seq (warm_cache d now u ?e) (ret (Bound (cc_customerId created))))) w3 =
        (Inr (Bound (cc_customerId created)), w')"
      "wview w' = put_view now (bindKey u) (BvEntry ?e) BINDING_CACHE_TTL_SEC (drop_view (initKey sid) (wview w3))"
      "bw_bindings w' = bw_bindings w3"
      by (rule register_finish_effect [OF d now, of w3]) (use room f3 in simp_all)
    have r: "snd (bindRegister d now u sid profile dev ip w) = w'"
      using created(1) w3 Inr w'(1)
      by (simp add: register_created_def bnd_app reads_app seq_app [of "upsertVerified _ _ _ _ _ _ _"]
          bound_entry_def Let_def)
    have v: "wview w' t k = put_view now (bindKey u) (BvEntry ?e) BINDING_CACHE_TTL_SEC
        (drop_view (initKey sid) (wview w)) t k" for t k
      using fun_cong [OF fun_cong [OF w'(2)], of t k] f3 by simp
    have "wrote now u ?r ?e (wview w) w (wview w') w'"
      using upsertVerified_writes [of d now u ?r "be_customerIdCipher ?e" "''self_registration''" dev w2 w3]
        w3 Inr created(7) ids w'(3)
      unfolding wrote_def v
      by (auto simp: put_view_def drop_view_def bound_entry_def)
    with r show ?thesis by (auto simp: request_writes_def)
  qed
qed

end

section \<open>Cached entries are backed by verified rows\<close>

definition backed :: "('c, 's) bind_world \<Rightarrow> string \<Rightarrow> binding_cache_entry \<Rightarrow> bool" where
  "backed w u e \<longleftrightarrow> (\<exists>row \<in> set (bw_bindings w). verified_row u (be_customerRef e) (be_customerIdCipher e) row)"

definition guard_inv :: "msec \<Rightarrow> cache_view \<Rightarrow> ('c, 's) bind_world \<Rightarrow> bool" where
  "guard_inv t V w \<longleftrightarrow> ids_distinct (bw_bindings w) \<and>
     (\<forall>u t' v. CHR '':'' \<notin> set u \<longrightarrow> t \<le> t' \<longrightarrow> V t' (bindKey u) = Some v \<longrightarrow> (\<exists>e. v = BvEntry e \<and> backed w u e))"

lemma wroteD:
  assumes "wrote now u ref e V w V' w'"
  shows "backed w' u e" "ids_distinct (bw_bindings w')"
    "filter (\<lambda>x. \<not> (br_userId x = u \<and> br_customerRef x = ref)) (bw_bindings w') =
     filter (\<lambda>x. \<not> (br_userId x = u \<and> br_customerRef x = ref)) (bw_bindings w)"
    "now \<le> t \<Longrightarrow> V' t (bindKey u) = (if t \<le> now + BINDING_CACHE_TTL_SEC * 1000 then Some (BvEntry e) else None)"
    "now \<le> t \<Longrightarrow> v \<noteq> u \<Longrightarrow> V' t (bindKey v) = V t (bindKey v) \<or> V' t (bindKey v) = None"
proof -
  from assms have ref: "be_customerRef e = ref"
    and row: "\<exists>row \<in> set (bw_bindings w'). verified_row u ref (be_customerIdCipher e) row"
    and own: "\<forall>t \<ge> now. V' t (bindKey u) = (if t \<le> now + BINDING_CACHE_TTL_SEC * 1000 then Some (BvEntry e) else None)"
    and others: "\<forall>t \<ge> now. \<forall>v. v \<noteq> u \<longrightarrow> V' t (bindKey v) = V t (bindKey v) \<or> V' t (bindKey v) = None"
    and rows: "ids_distinct (bw_bindings w')"
      "filter (\<lambda>x. \<not> (br_userId x = u \<and> br_customerRef x = ref)) (bw_bindings w') =
       filter (\<lambda>x. \<not> (br_userId x = u \<and> br_customerRef x = ref)) (bw_bindings w)"
    unfolding wrote_def by - (elim conjE, assumption)+
  show "backed w' u e" unfolding backed_def ref by (rule row)
  show "now \<le> t \<Longrightarrow> V' t (bindKey u) = (if t \<le> now + BINDING_CACHE_TTL_SEC * 1000 then Some (BvEntry e) else None)"
    by (rule own [rule_format])
  show "now \<le> t \<Longrightarrow> v \<noteq> u \<Longrightarrow> V' t (bindKey v) = V t (bindKey v) \<or> V' t (bindKey v) = None"
    by (rule others [rule_format])
  show "ids_distinct (bw_bindings w')"
    "filter (\<lambda>x. \<not> (br_userId x = u \<and> br_customerRef x = ref)) (bw_bindings w') =
     filter (\<lambda>x. \<not> (br_userId x = u \<and> br_customerRef x = ref)) (bw_bindings w)"
    by (rule rows)+
qed

lemma guard_inv_writes:
  assumes inv: "guard_inv t V w" and "t \<le> now" and wr: "request_writes now u V w V' w'"
  shows "guard_inv now V' w'"
  using wr unfolding request_writes_def
proof (elim disjE exE)
  assume w: "wrote_nothing now V w V' w'"
  have "\<exists>e. x = BvEntry e \<and> backed w v e"
    if "CHR '':'' \<notin> set v" "now \<le> t'" "V' t' (bindKey v) = Some x" for v t' x
  proof -
    have "V t' (bindKey v) = Some x" "t \<le> t'" using w that \<open>t \<le> now\<close> by (simp_all add: wrote_nothing_def)
    with inv that(1) show ?thesis unfolding guard_inv_def by blast
  qed
  moreover have "bw_bindings w' = bw_bindings w" using w by (simp add: wrote_nothing_def)
  ultimately show ?thesis using inv unfolding guard_inv_def backed_def by simp
next
  fix ref e
  assume w: "wrote now u ref e V w V' w'"
  have "\<exists>e'. x = BvEntry e' \<and> backed w' v e'"
    if "CHR '':'' \<notin> set v" "now \<le> t'" "V' t' (bindKey v) = Some x" for v t' x
  proof (cases "v = u")
    case True
    have "V' t' (bindKey u) = (if t' \<le> now + BINDING_CACHE_TTL_SEC * 1000 then Some (BvEntry e) else None)"
      "backed w' u e"
      by (rule wroteD [OF w] that)+
    with True that(3) show ?thesis by (auto split: if_splits)
  next
    case False
    have "V' t' (bindKey v) = V t' (bindKey v) \<or> V' t' (bindKey v) = None"
      by (rule wroteD(5) [OF w that(2) False])
    with that(3) have "V t' (bindKey v) = Some x" by simp
    moreover have "t \<le> t'" using that \<open>t \<le> now\<close> by simp
    ultimately have "\<exists>e'. x = BvEntry e' \<and> backed w v e'"
      using inv that(1) unfolding guard_inv_def by blast
    then obtain e' where e': "x = BvEntry e'" "backed w v e'" by blast
    then obtain row where row: "row \<in> set (bw_bindings w)" "verified_row v (be_customerRef e') (be_customerIdCipher e') row"
      by (auto simp: backed_def)
    then have "row \<in> set (filter (\<lambda>x. \<not> (br_userId x = u \<and> br_customerRef x = ref)) (bw_bindings w))"
      using False by (auto simp: verified_row_def)
    moreover have "filter (\<lambda>x. \<not> (br_userId x = u \<and> br_customerRef x = ref)) (bw_bindings w') =
        filter (\<lambda>x. \<not> (br_userId x = u \<and> br_customerRef x = ref)) (bw_bindings w)"
      by (rule wroteD(3) [OF w])
    ultimately have "row \<in> set (filter (\<lambda>x. \<not> (br_userId x = u \<and> br_customerRef x = ref)) (bw_bindings w'))"
      by (simp only:)
    then have "row \<in> set (bw_bindings w')" by simp
    with row e'(1) show ?thesis by (auto simp: backed_def)
  qed
  moreover have "ids_distinct (bw_bindings w')" by (rule wroteD(2) [OF w])
  ultimately show ?thesis unfolding guard_inv_def by blast
qed

context limiter_cache
begin

lemma init_writes:
  assumes d: "bd_cache d = ic" and now: "0 \<le> now" and room: "0 < free (bw_cache w)"
  shows "wrote_nothing now (wview w) w (wview (snd (bindInit d now u sid dev ip w))) (snd (bindInit d now u sid dev ip w))"
proof -
  let ?w1 = "w\<lparr>bw_statements := Suc (bw_statements w)\<rparr>"
  obtain r1 where w1: "getSessionPhone d u w = (r1, ?w1)"
    using getSessionPhone_frame [of d u w] by (metis prod.collapse)
  show ?thesis
  proof (cases "\<exists>phone. r1 = Inr phone \<and> \<not> js_falsy phone")
    case False
    with w1 show ?thesis by (cases r1) (auto simp: bindInit_def async_simps wrote_nothing_def)
  next
    case True
    then obtain phone where p: "r1 = Inr phone" "\<not> js_falsy phone" by blast
    obtain r2 w2 where w2: "on_service (svc_resolve (bd_service d) (the phone)) ?w1 = (r2, w2)" by fastforce
    then have f2: "bw_cache w2 = bw_cache w" "bw_bindings w2 = bw_bindings w"
      using on_service_frame(1,2) [of "svc_resolve (bd_service d) (the phone)" ?w1] by simp_all
    show ?thesis
    proof (cases r2)
      case (Inl e)
      with w1 p w2 f2 show ?thesis by (simp add: bindInit_def async_simps wrote_nothing_def)
    next
      case (Inr result)
      obtain c3 where c3: "cache_set ic CacheRejected now (initKey sid) (BvInit result) INIT_TTL_SEC (bw_cache w) = (Inr (), c3)"
        "(\<lambda>t. view t c3) = put_view now (initKey sid) (BvInit result) INIT_TTL_SEC (wview w)"
        by (rule cache_set_spec [OF now, of INIT_TTL_SEC "bw_cache w"])
          (use room in \<open>simp_all add: INIT_TTL_SEC_def\<close>)
      have "view t c3 (bindKey v) = view t (bw_cache w) (bindKey v)" if "CHR '':'' \<notin> set v" for t v
        using fun_cong [OF fun_cong [OF c3(2)], of t "bindKey v"] limiter_keys_not_bind(7) [OF that]
        by (simp add: put_view_def)
      with w1 p w2 Inr c3(1) f2 show ?thesis
        by (simp add: bindInit_def async_simps on_cache_def d wrote_nothing_def)
    qed
  qed
qed

lemma guard_inv_serve:
  fixes w :: "('c, 's) bind_world"
  assumes d: "bd_cache d = ic" and "0 \<le> t" "t \<le> req_time q" and room: "6 \<le> free (bw_cache w)"
    and inv: "guard_inv t (wview w) w"
  shows "guard_inv (req_time q) (wview (serve d q w)) (serve d q w)"
proof -
  have ids: "ids_distinct (bw_bindings w)" using inv by (simp add: guard_inv_def)
  have "request_writes (req_time q) (req_user q) (wview w) w (wview (serve d q w)) (serve d q w)"
  proof (cases q)
    case (InitReq now u sid dev ip)
    with init_writes [OF d, of now w u sid dev ip] room assms(2,3) show ?thesis by (simp add: request_writes_def)
  next
    case (BindReq now u sid body dev ip)
    with bind_writes [OF d _ room ids, of now u sid body dev ip] assms(2,3) show ?thesis
      by (auto simp: request_writes_def)
  next
    case (RegisterReq now u sid profile dev ip)
    with register_writes [OF d _ _ ids, of now u sid profile dev ip] room assms(2,3) show ?thesis by simp
  qed
  with guard_inv_writes [OF inv assms(3)] show ?thesis by blast
qed

end

section \<open>The guard\<close>

definition row_entry :: "binding_row \<Rightarrow> binding_cache_entry" where
  "row_entry row = \<lparr>be_customerIdCipher = br_customerId row, be_customerRef = br_customerRef row,
     be_verifiedAt = br_verifiedAt row, be_deviceInfo = br_deviceInfo row\<rparr>"

lemma row_entry_backed:
  "row \<in> set (bw_bindings w) \<Longrightarrow> br_userId row = u \<Longrightarrow> br_status row = Verified \<Longrightarrow> backed w u (row_entry row)"
  by (auto simp: backed_def verified_row_def row_entry_def)

lemma guard_inv_frame:
  assumes "guard_inv t V w" "t \<le> now" "bw_bindings w' = bw_bindings w"
    and "\<And>u t' v. CHR '':'' \<notin> set u \<Longrightarrow> now \<le> t' \<Longrightarrow> V' t' (bindKey u) = Some v \<Longrightarrow>
      V t' (bindKey u) = Some v \<or> (\<exists>e. v = BvEntry e \<and> backed w u e)"
  shows "guard_inv now V' w'"
  unfolding guard_inv_def
proof (intro conjI allI impI)
  show "ids_distinct (bw_bindings w')" using assms(1,3) by (simp add: guard_inv_def)
next
  fix u t' v
  assume a: "CHR '':'' \<notin> set u" "now \<le> t'" "V' t' (bindKey u) = Some v"
  have b: "backed w' u e = backed w u e" for e using assms(3) by (simp add: backed_def)
  from a(2) assms(2) have "t \<le> t'" by simp
  with assms(4) [OF a] assms(1) a(1) show "\<exists>e. v = BvEntry e \<and> backed w' u e"
    unfolding b guard_inv_def by metis
qed

context limiter_cache
begin

lemma resolveBinding_spec:
  assumes d: "bd_cache d = ic" and now: "0 \<le> now" and room: "1 \<le> free (bw_cache w)"
    and inv: "guard_inv t (wview w) w" and t: "t \<le> now" and u: "CHR '':'' \<notin> set u"
  shows "guard_inv now (wview (snd (resolveBinding d now u w))) (snd (resolveBinding d now u w)) \<and>
    bw_bindings (snd (resolveBinding d now u w)) = bw_bindings w \<and>
    (\<forall>e. fst (resolveBinding d now u w) = Inr (Some e) \<longrightarrow> backed w u e) \<and>
    (\<forall>e. view now (bw_cache w) (bindKey u) = Some (BvEntry e) \<longrightarrow> fst (resolveBinding d now u w) = Inr (Some e))"
proof -
  obtain c1 where c1: "cache_get ic now (bindKey u) (bw_cache w) =
      (Inr (view now (bw_cache w) (bindKey u)) :: bind_error + _, c1)"
    "agree now (\<lambda>t. view t c1) (wview w)" "free (bw_cache w) \<le> free c1"
    by (rule cache_get_spec)
  have kept: "guard_inv now (wview w') w'" if "bw_cache w' = c1" "bw_bindings w' = bw_bindings w" for w' :: "('c, 'b) bind_world"
    by (rule guard_inv_frame [OF inv t that(2)]) (use c1(2) that(1) in \<open>auto simp: agree_def\<close>)
  note start = resolveBinding_def bnd_app on_cache_def d c1(1)
  show ?thesis
  proof (cases "view now (bw_cache w) (bindKey u)")
    case (Some v)
    then obtain e where e: "v = BvEntry e" "backed w u e"
      using inv t u unfolding guard_inv_def by blast
    with Some kept [of "w\<lparr>bw_cache := c1\<rparr>"] show ?thesis
      by (simp add: start ret_app bv_truthy_def cast_entry_def)
  next
    case None
    let ?w2 = "w\<lparr>bw_cache := c1, bw_statements := Suc (bw_statements w)\<rparr>"
    let ?row = "find (\<lambda>r. br_userId r = u \<and> br_status r = Verified) (bw_bindings w)"
    show ?thesis
    proof (cases "bd_db_ok d (bw_statements w) \<and> ?row \<noteq> None")
      case False
      with None kept [of ?w2] show ?thesis
        by (auto simp: start on_db_def reads_app ret_app Let_def)
    next
      case True
      then obtain row where row: "?row = Some row" by blast
      then have b: "backed w u (row_entry row)"
        by (intro row_entry_backed) (auto simp: find_Some_iff)
      obtain c3 where c3: "warm_cache d now u (row_entry row) ?w2 = (Inr (), ?w2\<lparr>bw_cache := c3\<rparr>)"
        "(\<lambda>t. view t c3) = put_view now (bindKey u) (BvEntry (row_entry row)) BINDING_CACHE_TTL_SEC (wview ?w2)"
        by (rule warm_cache_effect [OF d now, of ?w2 u "row_entry row"]) (use room c1(3) in simp_all)
      have r: "resolveBinding d now u w = (Inr (Some (row_entry row)), ?w2\<lparr>bw_cache := c3\<rparr>)"
        using None True row c3(1)
        by (simp add: start on_db_def reads_app ret_app seq_app row_entry_def Let_def)
      have v: "view t c3 k = put_view now (bindKey u) (BvEntry (row_entry row)) BINDING_CACHE_TTL_SEC (\<lambda>t. view t c1) t k" for t k
        using fun_cong [OF fun_cong [OF c3(2)], of t k] by simp
      have "guard_inv now (\<lambda>t. view t c3) (?w2\<lparr>bw_cache := c3\<rparr>)"
      proof (rule guard_inv_frame [OF inv t])
        fix u' t' x
        assume "now \<le> t'" "view t' c3 (bindKey u') = Some x"
        then show "view t' (bw_cache w) (bindKey u') = Some x \<or> (\<exists>e. x = BvEntry e \<and> backed w u' e)"
          using v [of t' "bindKey u'"] b c1(2) by (auto simp: put_view_def agree_def split: if_splits)
      qed simp
      with r b None show ?thesis by simp
    qed
  qed
qed

end

lemma canActivate_world:
  "snd (canActivate d now user skip w) =
     (if js_falsy user \<or> skip then w else snd (resolveBinding d now (the user) w))"
  by (auto simp: canActivate_def Let_def split: prod.splits sum.splits option.splits)

text \<open>Histories of requests and guarded requests over the in-process cache.\<close>

inductive bind_reach ::
  "(bind_val memory_cache, 's) bind_deps \<Rightarrow> msec \<Rightarrow> (bind_val memory_cache, 's) bind_world \<Rightarrow> bool" for d where
  reach_start: "bw_cache w = empty_cache n \<Longrightarrow> ids_distinct (bw_bindings w) \<Longrightarrow> 0 \<le> t \<Longrightarrow> bind_reach d t w"
| reach_request: "bind_reach d t w \<Longrightarrow> t \<le> req_time q \<Longrightarrow> 6 \<le> mc_free (bw_cache w) \<Longrightarrow>
    bind_reach d (req_time q) (serve d q w)"
| reach_guard: "bind_reach d t w \<Longrightarrow> t \<le> now \<Longrightarrow> CHR '':'' \<notin> set u \<Longrightarrow> 1 \<le> mc_free (bw_cache w) \<Longrightarrow>
    bind_reach d now (snd (canActivate d now (Some u) skip w))"

lemma reach_inv:
  assumes "bind_reach d t w" "bd_cache d = memory_cache_service"
  shows "0 \<le> t \<and> guard_inv t (\<lambda>t. mc_view t (bw_cache w)) w"
  using assms
proof (induction rule: bind_reach.induct)
  case (reach_start w n t)
  then show ?case by (simp add: guard_inv_def)
next
  case (reach_request t w q)
  then show ?case using memlim.guard_inv_serve [of d t q w] by simp
next
  case (reach_guard t w now u skip)
  then have inv: "0 \<le> t" "guard_inv t (\<lambda>t. mc_view t (bw_cache w)) w" by simp_all
  have "guard_inv now (\<lambda>t. mc_view t (bw_cache w)) w"
    by (rule guard_inv_frame [OF inv(2) reach_guard.hyps(2)]) simp_all
  with inv reach_guard memlim.resolveBinding_spec [of d now w t u] show ?case
    by (simp add: canActivate_world)
qed

lemma guard_admits:
  fixes w :: "(bind_val memory_cache, 's) bind_world"
  assumes "bind_reach d t w" "bd_cache d = memory_cache_service" "t \<le> now" "1 \<le> mc_free (bw_cache w)"
    and "u \<noteq> ''''" "CHR '':'' \<notin> set u"
  shows "(\<exists>e. fst (canActivate d now (Some u) False w) = Inl e) \<or>
    (\<exists>bc. fst (canActivate d now (Some u) False w) = Inr (Some bc) \<and> bc_id bc = u \<and>
      (\<exists>row \<in> set (bw_bindings w). br_userId row = u \<and> br_status row = Verified \<and>
         br_customerRef row = bc_customerRef bc \<and>
         decryptIfNeeded (bd_pii d) (br_customerId row) = Inr (Some (bc_customerId bc))))"
proof -
  have inv: "0 \<le> now" "guard_inv t (\<lambda>t. mc_view t (bw_cache w)) w"
    using reach_inv [OF assms(1,2)] assms(3) by simp_all
  obtain r w' where r: "resolveBinding d now u w = (r, w')" by fastforce
  have b: "backed w u e" if "r = Inr (Some e)" for e
    using memlim.resolveBinding_spec [OF assms(2) inv(1) assms(4) inv(2) assms(3,6)] r that by simp
  note guard = canActivate_def r js_falsy_def Let_def
  consider (denied) x where "fst (canActivate d now (Some u) False w) = Inl x"
    | (admitted) e cid where "r = Inr (Some e)" "decryptIfNeeded (bd_pii d) (be_customerIdCipher e) = Inr (Some cid)"
        "fst (canActivate d now (Some u) False w) = Inr (Some \<lparr>bc_id = u, bc_customerId = cid,
           bc_customerRef = be_customerRef e, bc_verifiedAt = be_verifiedAt e, bc_deviceInfo = be_deviceInfo e\<rparr>)"
    using assms(5) by (fastforce simp: guard split: sum.splits option.splits if_splits)
  then show ?thesis
  proof cases
    case (denied x)
    then show ?thesis by blast
  next
    case (admitted e cid)
    from b [OF admitted(1)] obtain row where "row \<in> set (bw_bindings w)"
      "verified_row u (be_customerRef e) (be_customerIdCipher e) row" by (auto simp: backed_def)
    with admitted(2,3) show ?thesis by (auto simp: verified_row_def)
  qed
qed

text \<open>
  C4. The guard is default-deny: along every history of requests, a request of a user to a route
  that is not exempted is refused, or it carries the customer of a verified binding row of that
  very user, whose stored ciphertext decrypts to exactly the customer id that is attached.
\<close>

theorem guard_sound:
  fixes w :: "(bind_val memory_cache, 's) bind_world"
  assumes "bind_reach d t w" "bd_cache d = memory_cache_service" "t \<le> now" "1 \<le> mc_free (bw_cache w)"
    and "u \<noteq> ''''" "CHR '':'' \<notin> set u"
  shows "(\<exists>e. fst (canActivate d now (Some u) False w) = Inl e) \<or>
    (\<exists>bc. fst (canActivate d now (Some u) False w) = Inr (Some bc) \<and> bc_id bc = u \<and>
      (\<exists>row \<in> set (bw_bindings w). br_userId row = u \<and> br_status row = Verified \<and>
         br_customerRef row = bc_customerRef bc \<and>
         decryptIfNeeded (bd_pii d) (br_customerId row) = Inr (Some (bc_customerId bc))))"
  using assms by (rule guard_admits)

text \<open>
  C5. A completed bind opens the customer's data: for the next hour every guarded request of the
  user is admitted with the customer id and reference of the bind, through the encrypted entry
  only.
\<close>

theorem bind_opens_guard:
  fixes w :: "(bind_val memory_cache, 's) bind_world"
  assumes "bind_reach d t w" "bd_cache d = memory_cache_service" "t \<le> now" "7 \<le> mc_free (bw_cache w)"
    and "bind d now u sid body dev ip w = (Inr (Bound cid), w')" "u \<noteq> ''''" "CHR '':'' \<notin> set u" "cid \<noteq> ''''"
    and "aead_correct (pii_crypto (bd_pii d))" "\<And>n. bytes (bd_iv d n)"
    and "now \<le> t'" "t' \<le> now + 3600000"
  shows "fst (canActivate d t' (Some u) False w') = Inr (Some \<lparr>bc_id = u, bc_customerId = cid,
    bc_customerRef = bb_customerRef body, bc_verifiedAt = Some now, bc_deviceInfo = dev\<rparr>)"
proof -
  have inv: "0 \<le> now" "guard_inv t (\<lambda>t. mc_view t (bw_cache w)) w"
    using reach_inv [OF assms(1,2)] assms(3) by simp_all
  have ids: "ids_distinct (bw_bindings w)" using inv(2) by (simp add: guard_inv_def)
  obtain n where wr: "wrote now u (bb_customerRef body) (bound_entry d n now (bb_customerRef body) cid dev)
      (\<lambda>t. mc_view t (bw_cache w)) w (\<lambda>t. mc_view t (bw_cache w')) w'"
    using memlim.bind_writes [OF assms(2) inv(1) _ ids, of u sid body dev ip] assms(4,5) by auto
  let ?e = "bound_entry d n now (bb_customerRef body) cid dev"
  obtain c1 where c1: "cache_get memory_cache_service t' (bindKey u) (bw_cache w') =
      (Inr (mc_view t' (bw_cache w') (bindKey u)) :: bind_error + _, c1)"
    by (rule memlim.cache_get_spec)
  have "mc_view t' (bw_cache w') (bindKey u) = Some (BvEntry ?e)"
    using wroteD(4) [OF wr assms(11)] assms(12) by (simp add: BINDING_CACHE_TTL_SEC_def)
  then have "resolveBinding d t' u w' = (Inr (Some ?e), w'\<lparr>bw_cache := c1\<rparr>)"
    using c1 by (simp add: resolveBinding_def bnd_app on_cache_def assms(2) ret_app bv_truthy_def cast_entry_def)
  moreover have "decryptIfNeeded (bd_pii d) (be_customerIdCipher ?e) = Inr (Some cid)"
    using pii_roundtrip [OF assms(9,10)] pii_encrypt_truthy assms(8)
    by (simp add: bound_entry_def encryptIfNeeded_def decryptIfNeeded_def js_falsy_def)
  ultimately show ?thesis
    using assms(6,8) by (simp add: canActivate_def js_falsy_def bound_entry_def Let_def)
qed

text \<open>
  C6. The session's token is single-use: after a completed bind the same session can neither bind
  again nor have another secret examined; every further attempt is refused as expired until the
  session starts over, and changes no binding.
\<close>

theorem token_single_use:
  fixes w :: "(bind_val memory_cache, 's) bind_world"
  assumes "bind_reach d t w" "bd_cache d = memory_cache_service" "t \<le> now" "6 \<le> mc_free (bw_cache w)"
    and "bind d now u sid body dev ip w = (Inr (Bound cid), w')" "CHR '':'' \<notin> set u"
  shows "\<exists>w''. bind d t' v sid body' dev' ip' w' = (Inl (ValidationError InitExpired), w'') \<and>
    bw_service w'' = bw_service w' \<and> bw_bindings w'' = bw_bindings w'"
proof -
  have inv: "0 \<le> now" "guard_inv t (\<lambda>t. mc_view t (bw_cache w)) w"
    using reach_inv [OF assms(1,2)] assms(3) by simp_all
  have ids: "ids_distinct (bw_bindings w)" using inv(2) by (simp add: guard_inv_def)
  have "initKey sid \<noteq> bindKey u" using bind_key_other(5) [OF assms(6)] .
  then have none: "mc_view t' (bw_cache w') (initKey sid) = None"
    using memlim.bind_writes [OF assms(2) inv(1) assms(4) ids, of u sid body dev ip] assms(5) by auto
  obtain c1 where "cache_get memory_cache_service t' (initKey sid) (bw_cache w') =
      (Inr (mc_view t' (bw_cache w') (initKey sid)) :: bind_error + _, c1)"
    by (rule memlim.cache_get_spec)
  with none show ?thesis
    by (simp add: bind_def bnd_app on_cache_def assms(2) session_refs_def seq_app writeAudit_app throw_app Let_def)
qed

definition after_init :: "(bind_val memory_cache, mock_service \<times> answers) bind_world" where
  "after_init = serve demo_deps (InitReq 0 ''u1'' ''s1'' None None) demo_world"

definition after_bind :: "(bind_val memory_cache, mock_service \<times> answers) bind_world" where
  "after_bind = serve demo_deps (BindReq 1 ''u1'' ''s1'' (demo_body ''247500'') None None) after_init"

lemma demo_room: "7 \<le> mc_free (bw_cache demo_world)" "7 \<le> mc_free (bw_cache after_init)"
  "7 \<le> mc_free (bw_cache after_bind)"
  by code_simp+

lemma demo_bind_result:
  "fst (bind demo_deps 1 ''u1'' ''s1'' (demo_body ''247500'') None None after_init) = Inr (Bound ''QN-0912345'')"
  by code_simp

lemma demo_reach: "bind_reach demo_deps 0 after_init" "bind_reach demo_deps 1 after_bind"
proof -
  have s: "bind_reach demo_deps 0 demo_world"
    by (rule reach_start [of _ 100]) (simp_all add: demo_world_def ids_distinct_def)
  show i: "bind_reach demo_deps 0 after_init"
    using reach_request [OF s, of "InitReq 0 ''u1'' ''s1'' None None"] demo_room(1)
    by (simp add: after_init_def del: serve.simps)
  show "bind_reach demo_deps 1 after_bind"
    using reach_request [OF i, of "BindReq 1 ''u1'' ''s1'' (demo_body ''247500'') None None"] demo_room(2)
    by (simp add: after_bind_def del: serve.simps)
qed

lemma demo_deps_simps: "bd_cache demo_deps = memory_cache_service" "pii_crypto (bd_pii demo_deps) = demo_crypto"
  "bytes (bd_iv demo_deps n)"
  by (simp_all add: demo_deps_def bytes_def)

theorem bind_opens_guard_witness:
  "fst (canActivate demo_deps 3600001 (Some ''u1'') False after_bind) = Inr (Some \<lparr>bc_id = ''u1'',
     bc_customerId = ''QN-0912345'', bc_customerRef = ''REF-001'', bc_verifiedAt = Some 1, bc_deviceInfo = None\<rparr>)"
proof -
  have b: "bind demo_deps 1 ''u1'' ''s1'' (demo_body ''247500'') None None after_init =
      (Inr (Bound ''QN-0912345''), after_bind)"
    using demo_bind_result by (simp add: prod_eq_iff after_bind_def)
  show ?thesis
    using bind_opens_guard [OF demo_reach(1) demo_deps_simps(1) _ demo_room(2) b] demo_crypto_correct demo_deps_simps
    by (simp add: demo_body_def)
qed

theorem guard_sound_witness:
  "\<exists>row \<in> set (bw_bindings after_bind). br_userId row = ''u1'' \<and> br_status row = Verified \<and>
     br_customerRef row = ''REF-001'' \<and> decryptIfNeeded demo_pii (br_customerId row) = Inr (Some ''QN-0912345'')"
proof -
  have g: "fst (canActivate demo_deps 2 (Some ''u1'') False after_bind) = Inr (Some \<lparr>bc_id = ''u1'',
     bc_customerId = ''QN-0912345'', bc_customerRef = ''REF-001'', bc_verifiedAt = Some 1, bc_deviceInfo = None\<rparr>)"
    by code_simp
  have "bd_pii demo_deps = demo_pii" by (simp add: demo_deps_def)
  with guard_sound [OF demo_reach(2) demo_deps_simps(1), of 2 "''u1''"] demo_room(3) show ?thesis
    by (simp add: g)
qed

theorem token_single_use_witness:
  "\<exists>w''. bind demo_deps 2 ''u1'' ''s1'' (demo_body ''247500'') None None after_bind =
    (Inl (ValidationError InitExpired), w'') \<and> bw_bindings w'' = bw_bindings after_bind"
proof -
  have b: "bind demo_deps 1 ''u1'' ''s1'' (demo_body ''247500'') None None after_init =
      (Inr (Bound ''QN-0912345''), after_bind)"
    using demo_bind_result by (simp add: prod_eq_iff after_bind_def)
  show ?thesis
    using token_single_use [OF demo_reach(1) demo_deps_simps(1) _ _ b, of 2 "''u1''" "demo_body ''247500''" None None]
      demo_room(2) by auto
qed

end
