(* ===== verification/Binding_Audit.thy ===== *)
theory Binding_Audit
  imports Binding_Histories
begin

text \<open>
  The audit trail of the binding flow, the reject points of a registration and the single use of a
  session's token.
\<close>

section \<open>One audit row per attempt\<close>

definition infrastructure_error :: "bind_error + 'a \<Rightarrow> bool" where
  "infrastructure_error r \<longleftrightarrow> (case r of
       Inl CacheRejected \<Rightarrow> True | Inl DatabaseError \<Rightarrow> True | Inl (CustomerServiceError _) \<Rightarrow> True | _ \<Rightarrow> False)"

definition audited ::
  "string \<Rightarrow> string \<Rightarrow> (bind_error + bind_result) \<times> ('c, 's) bind_world \<Rightarrow> audit_entry list \<Rightarrow> bool" where
  "audited u ref res l \<longleftrightarrow> (case res of (r, w') \<Rightarrow> infrastructure_error r \<or>
     (\<exists>a. bw_audit w' = l @ [a] \<and> ae_userId a = u \<and> ae_customerRef a = Some ref \<and>
        ae_success a = (\<exists>cid. r = Inr (Bound cid)) \<and>
        (ae_action a = LockoutAction) = (\<exists>reason sec. r = Inl (LockoutError reason sec))))"

lemma on_cache_audit: "on_cache m w = (r, w') \<Longrightarrow> bw_audit w' = bw_audit w \<and> bw_statements w' = bw_statements w"
  by (auto simp: on_cache_def split: prod.splits)

lemma cache_get_fails: "only_fails E (cache_get ic now k)"
  by (simp add: only_fails_def cache_get_def split: prod.splits)

lemma cache_set_fails: "e \<in> E \<Longrightarrow> only_fails E (cache_set ic e now k v ttl)"
  by (auto simp: only_fails_def cache_set_def split: prod.splits)

lemma cache_delete_fails: "only_fails E (cache_delete ic k)"
  by (simp add: cache_delete_def only_fails_pure)

lemma bump_write_fails: "only_fails {CacheRejected} (bump_write ic now k w entry)"
proof -
  have "only_fails {CacheRejected} (seq (cache_set ic CacheRejected now k v w) (ret x))" for v and x :: int
    by (intro only_fails_rules cache_set_fails) simp
  then show ?thesis by (simp add: bump_write_def Let_def split: option.splits bind_val.splits)
qed

lemma recordFailure_fails: "only_fails {CacheRejected} (recordFailure ic now u r)"
  unfolding recordFailure_def ceiling_def bump_def
  by (intro only_fails_rules cache_get_fails cache_set_fails cache_delete_fails bump_write_fails) simp_all

lemma checkLocked_fails: "only_fails {} (checkLocked ic now u r)"
  unfolding checkLocked_def check_lock_def ttlSec_def
  by (intro only_fails_rules cache_get_fails)

lemma clearFailures_fails: "only_fails {} (clearFailures ic u r)"
  unfolding clearFailures_def by (intro only_fails_rules cache_delete_fails)

lemma warm_cache_app:
  "warm_cache d now u e w = (Inr (), w\<lparr>bw_cache := snd (ic_set (bd_cache d) now (bindKey u) (BvEntry e)
     (Some BINDING_CACHE_TTL_SEC) (bw_cache w))\<rparr>)"
  by (cases "ic_set (bd_cache d) now (bindKey u) (BvEntry e) (Some BINDING_CACHE_TTL_SEC) (bw_cache w)")
    (simp add: warm_cache_def try_catch_app on_cache_def cache_set_def ret_app)

lemma bind_failed_audited:
  assumes "bd_db_ok d (bw_statements w)"
  shows "audited u (bb_customerRef body) (bind_failed d now u body dev ip w) (bw_audit w)"
proof -
  obtain r c' where r: "recordFailure (bd_cache d) now u (bb_customerRef body) (bw_cache w) = (r, c')" by fastforce
  show ?thesis
  proof (cases r)
    case (Inl e)
    with r only_failsD [OF recordFailure_fails] have "e = CacheRejected" by fastforce
    with r Inl show ?thesis by (simp add: bind_failed_def bnd_app on_cache_def audited_def infrastructure_error_def)
  next
    case (Inr out)
    with r assms show ?thesis
      by (simp add: bind_failed_def bnd_app on_cache_def seq_app writeAudit_app throw_app ret_app audited_def
          audit_row_def Let_def)
  qed
qed

lemma upsertVerified_error: "upsertVerified d now u r enc f dev w = (Inl e, w') \<Longrightarrow> e = DatabaseError"
  by (auto simp: upsertVerified_def insert_binding_def on_db_def async_simps Let_def split: option.splits if_splits)

lemma bind_verified_audited:
  assumes ok: "\<And>n. bd_db_ok d n"
  shows "audited u (bb_customerRef body) (bind_verified d now u sid body dev ip w) (bw_audit w)"
proof -
  let ?r = "bb_customerRef body"
  obtain r1 w1 where w1: "on_service (svc_profile (bd_service d) ?r) w = (r1, w1)" by fastforce
  then have a1: "bw_audit w1 = bw_audit w" using on_service_frame(4) [of "svc_profile (bd_service d) ?r" w] by simp
  show ?thesis
  proof (cases r1)
    case (Inl e)
    then have "\<exists>x. e = CustomerServiceError x" using w1 by (auto simp: on_service_def split: prod.splits sum.splits)
    with w1 Inl show ?thesis by (auto simp: bind_verified_def bnd_app audited_def infrastructure_error_def)
  next
    case (Inr profile)
    let ?enc = "encryptIfNeeded (bd_pii d) (bd_iv d (bw_statements w1)) (Some (cp_customerId profile))"
    obtain r2 w2 where w2: "upsertVerified d now u ?r ?enc (factor_str (bb_secretType body)) dev w1 = (r2, w2)" by fastforce
    then have a2: "bw_audit w2 = bw_audit w"
      using upsertVerified_frame(3) [of d now u ?r ?enc "factor_str (bb_secretType body)" dev w1] a1 by simp
    show ?thesis
    proof (cases r2)
      case (Inl e)
      with upsertVerified_error w2 have "e = DatabaseError" by blast
      with w1 Inr w2 Inl show ?thesis
        by (simp add: bind_verified_def bnd_app reads_app seq_app audited_def infrastructure_error_def Let_def)
    next
      case Inr2: (Inr x)
      obtain rc c1 where c1: "clearFailures (bd_cache d) u ?r (bw_cache w2) = (rc, c1)" by fastforce
      then obtain y where "rc = Inr y" using only_failsD [OF clearFailures_fails] by (cases rc) fastforce+
      obtain c2 where c2: "cache_delete (bd_cache d) (initKey sid) c1 = (Inr () :: bind_error + unit, c2)"
        by (simp add: cache_delete_def writes_app)
      from w1 Inr w2 Inr2 c1 \<open>rc = Inr y\<close> c2 a2 ok show ?thesis
        by (simp add: bind_verified_def bnd_app reads_app seq_app on_cache_def writeAudit_app warm_cache_app ret_app
            audited_def audit_row_def Let_def)
    qed
  qed
qed

text \<open>
  C7. Every bind attempt leaves exactly one audit row while the database accepts its statements: the
  row names the user and the reference, says success exactly when the bind completed, and is a
  lockout row exactly when the caller was told about a lockout. The only attempts without a row are
  those that an infrastructure error (cache, database, customer service) cut off.
\<close>

theorem bind_audit_complete:
  assumes "\<And>n. bd_db_ok d n"
  shows "audited u (bb_customerRef body) (bind d now u sid body dev ip w) (bw_audit w)"
proof -
  let ?r = "bb_customerRef body"
  obtain v c1 where c1: "cache_get (bd_cache d) now (initKey sid) (bw_cache w) = (Inr v :: bind_error + _, c1)"
    by (cases "ic_get (bd_cache d) now (initKey sid) (bw_cache w)") (simp add: cache_get_def)
  obtain rl c2 where c2: "checkLocked (bd_cache d) now u ?r c1 = (rl, c2)" by fastforce
  then obtain ls where ls: "rl = Inr ls" using only_failsD [OF checkLocked_fails] by (cases rl) fastforce+
  note start = bind_def bnd_app on_cache_def c1 c2 ls Let_def
  note row = audited_def audit_row_def seq_app writeAudit_app throw_app assms
  show ?thesis
  proof (cases "session_refs v")
    case None
    then show ?thesis by (simp add: start row)
  next
    case (Some refs)
    show ?thesis
    proof (cases "?r \<in> set refs \<and> \<not> ls_locked ls")
      case False
      with Some show ?thesis by (auto simp: start row)
    next
      case True
      obtain r3 s3 where s3: "svc_verify (bd_service d) (asked body) (bw_service w) = (r3, s3)" by fastforce
      show ?thesis
      proof (cases r3)
        case (Inl e)
        with True Some s3 show ?thesis
          by (simp add: start on_service_def asked_def [symmetric] audited_def infrastructure_error_def)
      next
        case (Inr verified)
        let ?w3 = "w\<lparr>bw_cache := c2, bw_service := s3\<rparr>"
        have "bind d now u sid body dev ip w =
          (if \<not> verified then bind_failed d now u body dev ip ?w3 else bind_verified d now u sid body dev ip ?w3)"
          using True Some s3 Inr by (simp add: start on_service_def asked_def [symmetric])
        then show ?thesis
          using bind_failed_audited [of d ?w3 u body now dev ip] bind_verified_audited [of d u body now sid dev ip ?w3] assms
          by simp
      qed
    qed
  qed
qed

theorem bind_audit_complete_witness:
  "\<exists>a. bw_audit (snd (bind demo_deps 1 ''u1'' ''s1'' (demo_body ''247500'') None None demo_world)) = [a] \<and>
    ae_userId a = ''u1'' \<and> ae_customerRef a = Some ''REF-001'' \<and> \<not> ae_success a \<and> ae_action a \<noteq> LockoutAction"
proof -
  have r: "fst (bind demo_deps 1 ''u1'' ''s1'' (demo_body ''247500'') None None demo_world) = Inl (ValidationError InitExpired)"
    by code_simp
  have "audited ''u1'' (bb_customerRef (demo_body ''247500''))
      (bind demo_deps 1 ''u1'' ''s1'' (demo_body ''247500'') None None demo_world) (bw_audit demo_world)"
    by (rule bind_audit_complete) (simp add: demo_deps_def)
  with r show ?thesis
    by (cases "bind demo_deps 1 ''u1'' ''s1'' (demo_body ''247500'') None None demo_world")
      (simp add: audited_def infrastructure_error_def demo_world_def demo_body_def)
qed

section \<open>Registration\<close>

lemma register_created_result:
  "register_created d now u sid dev ip created w = (Inr res, w') \<Longrightarrow>
   res = Bound (cc_customerId created) \<and> bw_service w' = bw_service w \<and> bw_users w' = bw_users w"
  by (auto simp: register_created_def bnd_app seq_app reads_app on_cache_def cache_delete_def writes_app
      writeAudit_app warm_cache_app ret_app Let_def split: prod.splits sum.splits)
    (metis upsertVerified_frame(2,4) snd_conv)+

lemma register_Inr:
  assumes "bindRegister d now u sid profile dev ip w = (Inr res, w')"
  obtains phone resolved s1 created where "fst (getSessionPhone d u w) = Inr (Some phone)"
    "svc_resolve (bd_service d) phone (bw_service w) = (Inr resolved, s1)" "rr_status resolved = RsNone"
    "svc_create (bd_service d) phone profile s1 = (Inr created, bw_service w')"
    "res = Bound (cc_customerId created)"
proof (cases rule: bindRegister_cases [of d now u sid profile dev ip w])
  case (stopped e w')
  with assms show ?thesis by simp
next
  case (created phone created w2 s1 resolved)
  with assms register_created_result [of d now u sid dev ip created w2 res w'] that show ?thesis by simp
qed

lemma register_rejects:
  assumes "fst (getSessionPhone d v w) = Inr (Some phone)" "phone \<noteq> ''''"
    and "svc_resolve (bd_service d) phone (bw_service w) = (Inr r, s1)" "rr_status r \<noteq> RsNone"
  shows "\<exists>w'. bindRegister d now v sid profile dev ip w = (Inl (ConflictError (Some (rr_status r))), w') \<and>
    bw_bindings w' = bw_bindings w"
proof -
  have "getSessionPhone d v w = (Inr (Some phone), w\<lparr>bw_statements := Suc (bw_statements w)\<rparr>)"
    using assms(1) getSessionPhone_frame [of d v w] by (simp add: prod_eq_iff)
  with assms show ?thesis
    by (simp add: bindRegister_def bnd_app seq_app on_service_def js_falsy_def writeAudit_app throw_app)
qed

text \<open>
  C8. A phone number registers one customer: once a registration has completed, every registration
  by a user whose phone is the same number in any form is turned away with the conflict that sends
  the caller to the bind flow, and writes no binding.
\<close>

theorem register_once:
  fixes w :: "('c, mock_service) bind_world"
  assumes svc: "bd_service d = mock_customer_service db_ok"
    and ok: "created_ok (ms_createdCustomers (bw_service w))"
    and reg: "bindRegister d now u sid profile dev ip w = (Inr res, w1)"
    and phone: "fst (getSessionPhone d u w) = Inr (Some p)"
    and other: "fst (getSessionPhone d v w1) = Inr (Some q)" "q \<noteq> ''''" "normalizePhone q = normalizePhone p"
  shows "\<exists>w2. bindRegister d now' v sid' profile' dev' ip' w1 = (Inl (ConflictError (Some RsOne)), w2) \<and>
    bw_bindings w2 = bw_bindings w1"
proof -
  obtain p' r s1 created where c: "fst (getSessionPhone d u w) = Inr (Some p')"
    "svc_resolve (bd_service d) p' (bw_service w) = (Inr r, s1)"
    "svc_create (bd_service d) p' profile s1 = (Inr created, bw_service w1)"
    by (rule register_Inr [OF reg])
  with phone have p': "p' = p" by simp
  have "s1 = snd (ensureHydrated db_ok (bw_service w))"
    using c(2) by (auto simp: svc mock_customer_service_def mock_resolve_def async_simps split: prod.splits sum.splits)
  then have "created_ok (ms_createdCustomers s1)" using ensureHydrated_ok [OF ok] by simp
  moreover have "mock_create db_ok p profile s1 = (Inr created, bw_service w1)"
    using c(3) by (simp add: svc mock_customer_service_def p')
  ultimately obtain r' where "mock_resolve db_ok q (bw_service w1) = (Inr r', bw_service w1)" "rr_status r' = RsOne"
    using create_claims [OF _ _ other(3)] by blast
  then have "svc_resolve (bd_service d) q (bw_service w1) = (Inr r', bw_service w1)" "rr_status r' \<noteq> RsNone" "rr_status r' = RsOne"
    by (simp_all add: svc mock_customer_service_def)
  with register_rejects [OF other(1,2), of r'] show ?thesis by auto
qed

definition register_deps :: "(bind_val memory_cache, mock_service) bind_deps" where
  "register_deps = \<lparr>bd_cache = memory_cache_service, bd_service = mock_customer_service db_up,
     bd_pii = demo_pii, bd_iv = (\<lambda>n. [n mod 256]), bd_uuid = js_nat_str, bd_db_ok = (\<lambda>_. True)\<rparr>"

definition register_world :: "(bind_val memory_cache, mock_service) bind_world" where
  "register_world = \<lparr>bw_cache = empty_cache 100, bw_service = mock_new None 0,
     bw_users = [(''u1'', Some ''0900000001''), (''u2'', Some ''+84900000001'')], bw_bindings = [], bw_audit = [],
     bw_statements = 0\<rparr>"

definition registered_world :: "(bind_val memory_cache, mock_service) bind_world" where
  "registered_world = snd (bindRegister register_deps 0 ''u1'' ''s1'' demo_request None None register_world)"

theorem register_once_witness:
  "fst (bindRegister register_deps 0 ''u1'' ''s1'' demo_request None None register_world) = Inr (Bound ''APP-000001'') \<and>
   (\<exists>w2. bindRegister register_deps 1 ''u2'' ''s2'' demo_request None None registered_world =
      (Inl (ConflictError (Some RsOne)), w2) \<and> bw_bindings w2 = bw_bindings registered_world)"
proof -
  have r: "fst (bindRegister register_deps 0 ''u1'' ''s1'' demo_request None None register_world) = Inr (Bound ''APP-000001'')"
    by code_simp
  then have reg: "bindRegister register_deps 0 ''u1'' ''s1'' demo_request None None register_world =
      (Inr (Bound ''APP-000001''), registered_world)" by (simp add: prod_eq_iff registered_world_def)
  have p: "fst (getSessionPhone register_deps ''u1'' register_world) = Inr (Some ''0900000001'')"
    "fst (getSessionPhone register_deps ''u2'' registered_world) = Inr (Some ''+84900000001'')"
    "normalizePhone ''+84900000001'' = normalizePhone ''0900000001''" by code_simp+
  show ?thesis
    using r register_once [OF _ _ reg p(1,2) _ p(3)]
    by (simp add: register_deps_def register_world_def mock_new_def created_ok_def)
qed

end
