(* ===== verification/Json.thy ===== *)
theory Json
  imports Prelude
begin

text \<open>
  JSON values and the parts of the JavaScript standard library that the components share:
  \<^verbatim>\<open>JSON.stringify\<close>, property access, truthiness, and \<^verbatim>\<open>Date.prototype.toISOString\<close>.
  Numbers are integers, strings are their UTF-8 bytes, an object is the list of its properties in
  insertion order; a property whose value is undefined is absent. The main fact is that
  \<^verbatim>\<open>JSON.stringify\<close> is injective, so that keys built from a serialisation identify what
  they were built from.
\<close>

section \<open>Values\<close>

datatype json =
  JNull
| JBool bool
| JNum int
| JStr string
| JArr "json list"
| JObj "(string \<times> json) list"

fun json_get :: "string \<Rightarrow> json \<Rightarrow> json option" where
  "json_get k (JObj ps) = map_of ps k"
| "json_get k _ = None"
  \<comment> \<open>\<^verbatim>\<open>v.k\<close> on an object value; undefined is \<open>None\<close>\<close>

fun json_truthy :: "json \<Rightarrow> bool" where
  "json_truthy JNull = False"
| "json_truthy (JBool b) = b"
| "json_truthy (JNum n) = (n \<noteq> 0)"
| "json_truthy (JStr s) = (s \<noteq> [])"
| "json_truthy (JArr _) = True"
| "json_truthy (JObj _) = True"

definition json_present :: "json option \<Rightarrow> bool" where
  "json_present v = (v \<noteq> None \<and> v \<noteq> Some JNull)"
  \<comment> \<open>\<^verbatim>\<open>v !== null && v !== undefined\<close>\<close>

section \<open>Serialisation\<close>

definition hex_lower :: "nat \<Rightarrow> char" where
  "hex_lower n = char_of (if n < 10 then 48 + n else 87 + n)"

definition json_escape :: "char \<Rightarrow> string" where
  "json_escape c =
     (if c = CHR 0x22 then [CHR 0x5C, CHR 0x22]
      else if c = CHR 0x5C then [CHR 0x5C, CHR 0x5C]
      else if c = CHR 0x08 then [CHR 0x5C, CHR ''b'']
      else if c = CHR 0x09 then [CHR 0x5C, CHR ''t'']
      else if c = CHR 0x0A then [CHR 0x5C, CHR ''n'']
      else if c = CHR 0x0C then [CHR 0x5C, CHR ''f'']
      else if c = CHR 0x0D then [CHR 0x5C, CHR ''r'']
      else if (of_char c :: nat) < 32
      then [CHR 0x5C, CHR ''u'', CHR ''0'', CHR ''0'', hex_lower (of_char c div 16), hex_lower (of_char c mod 16)]
      else [c])"

definition json_quote :: "string \<Rightarrow> string" where
  "json_quote s = CHR 0x22 # concat (map json_escape s) @ [CHR 0x22]"

fun join :: "string \<Rightarrow> string list \<Rightarrow> string" where
  "join sep [] = ''''"
| "join sep [x] = x"
| "join sep (x # y # xs) = x @ sep @ join sep (y # xs)"
  \<comment> \<open>\<^verbatim>\<open>xs.join(sep)\<close>\<close>

fun stringify :: "json \<Rightarrow> string" where
  "stringify JNull = ''null''"
| "stringify (JBool b) = (if b then ''true'' else ''false'')"
| "stringify (JNum n) = js_int_str n"
| "stringify (JStr s) = json_quote s"
| "stringify (JArr xs) = ''['' @ join '','' (map stringify xs) @ '']''"
| "stringify (JObj ps) = ''{'' @ join '','' (map (\<lambda>p. json_quote (fst p) @ '':'' @ stringify (snd p)) ps) @ ''}''"

text \<open>
  \<^verbatim>\<open>String(v)\<close> and template interpolation. An array joins its elements with commas, null
  elements being empty; an object prints its default tag.
\<close>

fun js_string :: "json \<Rightarrow> string" where
  "js_string JNull = ''null''"
| "js_string (JBool b) = (if b then ''true'' else ''false'')"
| "js_string (JNum n) = js_int_str n"
| "js_string (JStr s) = s"
| "js_string (JArr xs) = join '','' (map (\<lambda>x. if x = JNull then '''' else js_string x) xs)"
| "js_string (JObj ps) = ''[object Object]''"

definition json_nullish :: "json option \<Rightarrow> json \<Rightarrow> json" where
  "json_nullish v d = (case v of None \<Rightarrow> d | Some w \<Rightarrow> if w = JNull then d else w)"

definition truthy_str :: "string option \<Rightarrow> bool" where
  "truthy_str s = (case s of None \<Rightarrow> False | Some t \<Rightarrow> t \<noteq> [])"

definition jopt :: "string \<Rightarrow> json option \<Rightarrow> (string \<times> json) list" where
  "jopt k v = (case v of None \<Rightarrow> [] | Some w \<Rightarrow> [(k, w)])"
  \<comment> \<open>a property that is absent when its value is undefined\<close>

section \<open>Serialisation is injective\<close>

lemma of_char_less: "(of_char c :: nat) < 256"
  using of_char_mod_256 [of c, where 'a = nat] by simp

lemma hex_lower_inject: "m < 16 \<Longrightarrow> n < 16 \<Longrightarrow> hex_lower m = hex_lower n \<longleftrightarrow> m = n"
  by (auto simp: hex_lower_def char_of_eq_iff of_char_of take_bit_eq_mod split: if_splits)

lemma escape_no_quote: "hd (json_escape c) \<noteq> CHR 0x22" "json_escape c \<noteq> []"
  by (auto simp: json_escape_def)

lemma escape_prefix: "json_escape c @ u = json_escape d @ v \<Longrightarrow> c = d \<and> u = v"
proof -
  assume eq: "json_escape c @ u = json_escape d @ v"
  have hex: "c = d" if "hex_lower (of_char c div 16) = hex_lower (of_char d div 16)"
    "hex_lower (of_char c mod 16) = hex_lower (of_char d mod 16)"
  proof -
    have "(of_char c :: nat) div 16 < 16" "(of_char d :: nat) div 16 < 16"
      using of_char_less [of c] of_char_less [of d] by (simp_all add: less_mult_imp_div_less)
    with that have "(of_char c :: nat) div 16 = of_char d div 16" "(of_char c :: nat) mod 16 = of_char d mod 16"
      by (simp_all add: hex_lower_inject)
    then have "(of_char c :: nat) = of_char d" by (metis div_mult_mod_eq)
    then show ?thesis by simp
  qed
  from eq show ?thesis
    unfolding json_escape_def
    by (simp split: if_splits; (blast intro: hex)?)
qed

lemma quote_prefix: "json_quote s @ u = json_quote t @ v \<Longrightarrow> s = t \<and> u = v"
proof (induction s arbitrary: t)
  case Nil
  show ?case
  proof (cases t)
    case (Cons d t')
    with Nil escape_no_quote [of d] show ?thesis
      by (cases "json_escape d") (auto simp: json_quote_def)
  qed (use Nil in \<open>simp add: json_quote_def\<close>)
next
  case (Cons c s)
  show ?case
  proof (cases t)
    case Nil
    with Cons.prems escape_no_quote [of c] show ?thesis
      by (cases "json_escape c") (auto simp: json_quote_def)
  next
    case (Cons d t')
    with Cons.prems have "json_escape c @ (concat (map json_escape s) @ CHR 0x22 # u) =
      json_escape d @ (concat (map json_escape t') @ CHR 0x22 # v)"
      by (simp add: json_quote_def)
    from escape_prefix [OF this] have "c = d" "json_quote s @ u = json_quote t' @ v"
      by (simp_all add: json_quote_def)
    with Cons.IH Cons show ?thesis by blast
  qed
qed

text \<open>A number ends where a character follows that belongs to no number.\<close>

definition json_delim :: "string \<Rightarrow> bool" where
  "json_delim r \<longleftrightarrow> r = [] \<or> hd r \<in> {CHR '','', CHR '']'', CHR ''}''}"

definition num_char :: "char \<Rightarrow> bool" where
  "num_char c \<longleftrightarrow> is_digit c \<or> c = CHR ''-''"

lemma js_int_str_chars: "c \<in> set (js_int_str n) \<Longrightarrow> num_char c"
  by (auto simp: js_int_str_def num_char_def dest: js_nat_str_digits split: if_splits)

lemma js_int_str_inject: "js_int_str m = js_int_str n \<longleftrightarrow> m = n"
proof -
  have no_minus: "js_nat_str k \<noteq> CHR ''-'' # s" for k s
    using js_nat_str_digits [of "CHR ''-''" k] by (auto simp: is_digit_def)
  show ?thesis
    using no_minus no_minus [symmetric] by (auto simp: js_int_str_def split: if_splits)
qed

lemma delim_not_num: "json_delim r \<Longrightarrow> r \<noteq> [] \<Longrightarrow> \<not> num_char (hd r)"
  by (auto simp: json_delim_def num_char_def is_digit_def)

lemma takeWhile_delim:
  "(\<And>c. c \<in> set s \<Longrightarrow> num_char c) \<Longrightarrow> json_delim r \<Longrightarrow> takeWhile num_char (s @ r) = s"
  using delim_not_num [of r] by (cases r) (auto simp: takeWhile_append2)

lemma num_prefix:
  assumes "js_int_str m @ u = js_int_str n @ v" "json_delim u" "json_delim v"
  shows "m = n \<and> u = v"
proof -
  have "js_int_str m = js_int_str n"
    using assms takeWhile_delim js_int_str_chars by metis
  with assms(1) show ?thesis by (simp add: js_int_str_inject)
qed

text \<open>The first character tells the kinds of value apart.\<close>

lemma stringify_hd:
  "stringify j \<noteq> []"
  "hd (stringify j) = (case j of JNull \<Rightarrow> CHR ''n'' | JBool b \<Rightarrow> if b then CHR ''t'' else CHR ''f''
     | JNum n \<Rightarrow> hd (js_int_str n) | JStr s \<Rightarrow> CHR 0x22 | JArr xs \<Rightarrow> CHR ''['' | JObj ps \<Rightarrow> CHR ''{'')"
  by (cases j; simp add: json_quote_def js_int_str_def)+

lemma num_hd: "num_char (hd (js_int_str n))"
  by (rule js_int_str_chars [of _ n]) (simp add: js_int_str_def)

lemma join_prefix:
  assumes "\<And>x y u v. x \<in> set xs \<Longrightarrow> f x @ u = f y @ v \<Longrightarrow> json_delim u \<Longrightarrow> json_delim v \<Longrightarrow> x = y \<and> u = v"
    and "\<And>x. f x \<noteq> [] \<and> hd (f x) \<noteq> e" and "e = CHR '']'' \<or> e = CHR ''}''"
    and "join '','' (map f xs) @ e # u = join '','' (map f ys) @ e # v"
  shows "xs = ys \<and> u = v"
  using assms
proof (induction xs arbitrary: ys)
  case Nil
  then show ?case
  proof (cases ys)
    case (Cons y ys')
    then have "hd (join '','' (map f ys) @ e # v) = hd (f y)"
      using Nil.prems(2) by (cases ys') auto
    with Nil.prems(2) [of y] Nil.prems(4) show ?thesis by (metis append_Nil join.simps(1) list.sel(1) list.simps(8))
  qed simp
next
  case (Cons x xs)
  define tl_of where "tl_of zs w = (if zs = [] then e # w else CHR '','' # join '','' (map f zs) @ e # w)" for zs w
  have split: "join '','' (map f (z # zs)) @ e # w = f z @ tl_of zs w" for z zs w
    by (cases zs) (simp_all add: tl_of_def)
  have delim: "json_delim (tl_of zs w)" for zs w
    using Cons.prems(3) by (auto simp: tl_of_def json_delim_def)
  show ?case
  proof (cases ys)
    case Nil
    then have "hd (f x) = e"
      using Cons.prems(2) [of x] Cons.prems(4) split [of x xs u] by (cases "f x") auto
    with Cons.prems(2) show ?thesis by blast
  next
    case (Cons y ys')
    from Cons.prems(4) [unfolded Cons split] delim Cons.prems(1) [of x "tl_of xs u" y "tl_of ys' v"]
    have eq: "x = y" "tl_of xs u = tl_of ys' v" by simp_all
    from eq(2) Cons.prems(3) have "(xs = [] \<longleftrightarrow> ys' = [])"
      and "join '','' (map f xs) @ e # u = join '','' (map f ys') @ e # v"
      by (auto simp: tl_of_def split: if_splits)
    then have "xs = ys' \<and> u = v"
      using Cons.IH [of ys'] Cons.prems(1,2,3) by (metis list.set_intros(2))
    with eq Cons show ?thesis by simp
  qed
qed

lemma num_hd_neq: "\<not> num_char c \<Longrightarrow> hd (js_int_str n) \<noteq> c"
  using num_hd [of n] by auto

definition json_kind :: "char \<Rightarrow> nat" where
  "json_kind c = (if c = CHR ''n'' then 0 else if c = CHR ''t'' then 1 else if c = CHR ''f'' then 2
     else if c = CHR 0x22 then 3 else if c = CHR ''['' then 4 else if c = CHR ''{'' then 5 else 6)"

lemma stringify_kind:
  "json_kind (hd (stringify j)) = (case j of JNull \<Rightarrow> 0 | JBool b \<Rightarrow> if b then 1 else 2
     | JNum n \<Rightarrow> 6 | JStr s \<Rightarrow> 3 | JArr xs \<Rightarrow> 4 | JObj ps \<Rightarrow> 5)"
  by (auto simp: stringify_hd json_kind_def num_hd_neq num_char_def is_digit_def split: json.splits)

lemma stringify_same_kind:
  assumes "stringify j @ u = stringify k @ v"
  shows "json_kind (hd (stringify j)) = json_kind (hd (stringify k))"
  using arg_cong [OF assms, of hd] by (simp add: stringify_hd(1))

lemma stringify_open: "stringify j \<noteq> [] \<and> hd (stringify j) \<noteq> CHR '']'' \<and> hd (stringify j) \<noteq> CHR ''}''"
  by (auto simp: stringify_hd num_hd_neq num_char_def is_digit_def split: json.splits)

lemma stringify_prefix:
  "stringify j @ u = stringify k @ v \<Longrightarrow> json_delim u \<Longrightarrow> json_delim v \<Longrightarrow> j = k \<and> u = v"
proof (induction j arbitrary: k u v rule: stringify.induct)
  case (5 xs)
  then obtain ys where k: "k = JArr ys"
    using stringify_same_kind [OF 5(2), unfolded stringify_kind] by (cases k) (auto split: if_splits)
  have "xs = ys \<and> u = v"
  proof (rule join_prefix [of xs stringify "CHR '']''"])
    show "x = y \<and> u = v" if "x \<in> set xs" "stringify x @ u = stringify y @ v" "json_delim u" "json_delim v" for x y u v
      using that by (rule 5(1))
  qed (use 5(2) k stringify_open in simp_all)
  with k show ?case by simp
next
  case (6 ps)
  then obtain qs where k: "k = JObj qs"
    using stringify_same_kind [OF 6(2), unfolded stringify_kind] by (cases k) (auto split: if_splits)
  have item: "p = q \<and> u = v"
    if "p \<in> set ps" "(json_quote (fst p) @ '':'' @ stringify (snd p)) @ u = (json_quote (fst q) @ '':'' @ stringify (snd q)) @ v"
      "json_delim u" "json_delim v" for p q u v
  proof -
    have "fst p = fst q" "stringify (snd p) @ u = stringify (snd q) @ v"
      using quote_prefix [of "fst p" "'':'' @ stringify (snd p) @ u" "fst q" "'':'' @ stringify (snd q) @ v"] that(2)
      by simp_all
    with 6(1) [OF that(1) _ that(3,4)] show ?thesis by (metis prod_eqI)
  qed
  have "ps = qs \<and> u = v"
  proof (rule join_prefix [of ps "\<lambda>p. json_quote (fst p) @ '':'' @ stringify (snd p)" "CHR ''}''"])
    show "x = y \<and> u = v" if "x \<in> set ps"
      "(json_quote (fst x) @ '':'' @ stringify (snd x)) @ u = (json_quote (fst y) @ '':'' @ stringify (snd y)) @ v"
      "json_delim u" "json_delim v" for x y u v
      using that by (rule item)
  qed (use 6(2) k in \<open>simp_all add: json_quote_def\<close>)
  with k show ?case by simp
next
  case 1
  then show ?case using stringify_same_kind [OF 1(1), unfolded stringify_kind] by (cases k) (auto split: if_splits)
next
  case (2 b)
  then show ?case using stringify_same_kind [OF 2(1), unfolded stringify_kind] by (cases k) (auto split: if_splits)
next
  case (3 n)
  then show ?case using stringify_same_kind [OF 3(1), unfolded stringify_kind]
    by (cases k) (auto split: if_splits dest: num_prefix)
next
  case (4 s)
  then show ?case using stringify_same_kind [OF 4(1), unfolded stringify_kind]
    by (cases k) (auto split: if_splits dest: quote_prefix)
qed

lemma stringify_inject: "stringify j = stringify k \<longleftrightarrow> j = k"
  using stringify_prefix [of j "[]" k "[]"] by (auto simp: json_delim_def)

section \<open>Time stamps\<close>

text \<open>\<^verbatim>\<open>Date.prototype.toISOString\<close>: the proleptic Gregorian calendar, in UTC.\<close>

definition civil_from_days :: "int \<Rightarrow> int \<times> int \<times> int" where
  "civil_from_days days =
     (let z = days + 719468;
          era = z div 146097;
          doe = z mod 146097;
          yoe = (doe - doe div 1460 + doe div 36524 - doe div 146096) div 365;
          doy = doe - (365 * yoe + yoe div 4 - yoe div 100);
          mp = (5 * doy + 2) div 153;
          d = doy - (153 * mp + 2) div 5 + 1;
          m = (if mp < 10 then mp + 3 else mp - 9)
      in (yoe + era * 400 + (if m \<le> 2 then 1 else 0), m, d))"

definition pad_num :: "nat \<Rightarrow> int \<Rightarrow> string" where
  "pad_num w n = padStart w CHR ''0'' (js_nat_str (nat n))"

definition iso_year :: "int \<Rightarrow> string" where
  "iso_year y = (if 0 \<le> y \<and> y \<le> 9999 then pad_num 4 y
     else if y < 0 then ''-'' @ pad_num 6 (- y) else ''+'' @ pad_num 6 y)"

definition toISOString :: "msec \<Rightarrow> string" where
  "toISOString t =
     (case civil_from_days (t div 86400000) of (y, m, d) \<Rightarrow>
        let r = t mod 86400000 in
        iso_year y @ ''-'' @ pad_num 2 m @ ''-'' @ pad_num 2 d @ ''T'' @ pad_num 2 (r div 3600000)
        @ '':'' @ pad_num 2 (r div 60000 mod 60) @ '':'' @ pad_num 2 (r div 1000 mod 60)
        @ ''.'' @ pad_num 3 (r mod 1000) @ ''Z'')"

lemma toISOString_samples:
  "toISOString 0 = ''1970-01-01T00:00:00.000Z''"
  "toISOString 951826154321 = ''2000-02-29T12:09:14.321Z''"
  by code_simp+

end
