(* ===== verification/Fallback.thy ===== *)
theory Fallback
  imports Json
begin

text \<open>
  The typed exceptions of the downstream ports (src/libs/shared/port/port-exceptions.ts) and the
  fallback provider (src/libs/shared/resilience/fallback.provider.ts): registered fallback
  functions, the fallback cache with its deletion timers, the ready-made fallbacks and the
  decorator. A fallback function sees the error, the context and the fallback cache.
\<close>

section \<open>Port exceptions\<close>

datatype port_error =
  PortDownstreamException string int string string
| PortTimeoutException string int
| PortNotRegisteredException string
| PortFallbackException string "port_error option"
| PortQueuedException string string
| OtherError js_error

fun port_message :: "port_error \<Rightarrow> string" where
  "port_message (PortDownstreamException p code txt url) =
     ''Downstream call failed ['' @ p @ '']: '' @ js_int_str code @ '' '' @ txt"
| "port_message (PortTimeoutException p ms) =
     ''Request timeout ['' @ p @ ''] after '' @ js_int_str ms @ ''ms''"
| "port_message (PortNotRegisteredException p) = ''Port not registered: '' @ p"
| "port_message (PortFallbackException p cause) =
     (case cause of
        Some e \<Rightarrow> ''Port call and fallback both failed ['' @ p @ '']: '' @ port_message e
      | None \<Rightarrow> ''Port fallback failed ['' @ p @ '']: no cached fallback available'')"
| "port_message (PortQueuedException p jobId) =
     ''Request queued for retry ['' @ p @ '']: jobId='' @ jobId"
| "port_message (OtherError e) = err_message e"

fun port_code :: "port_error \<Rightarrow> string option" where
  "port_code (PortDownstreamException p code txt url) = Some ''PORT_DOWNSTREAM_ERROR''"
| "port_code (PortTimeoutException p ms) = Some ''PORT_TIMEOUT''"
| "port_code (PortNotRegisteredException p) = Some ''PORT_NOT_REGISTERED''"
| "port_code (PortFallbackException p cause) = Some ''PORT_FALLBACK_FAILED''"
| "port_code (PortQueuedException p jobId) = Some ''PORT_QUEUED''"
| "port_code (OtherError e) = None"

fun port_details :: "port_error \<Rightarrow> json option" where
  "port_details (PortDownstreamException p code txt url) =
     Some (JObj [(''portName'', JStr p), (''statusCode'', JNum code), (''statusText'', JStr txt), (''url'', JStr url)])"
| "port_details (PortTimeoutException p ms) = Some (JObj [(''portName'', JStr p), (''timeout'', JNum ms)])"
| "port_details (PortNotRegisteredException p) = Some (JObj [(''portName'', JStr p)])"
| "port_details (PortFallbackException p cause) =
     Some (JObj ((''portName'', JStr p) #
       (case cause of None \<Rightarrow> [] | Some e \<Rightarrow> [(''originalError'', JStr (port_message e))])))"
| "port_details (PortQueuedException p jobId) =
     Some (JObj [(''portName'', JStr p), (''jobId'', JStr jobId), (''status'', JStr ''queued'')])"
| "port_details (OtherError e) = None"

definition plain_error :: "string \<Rightarrow> port_error" where
  "plain_error msg = OtherError (new_Error msg)"

section \<open>The provider\<close>

datatype failure_type = FTimeout | FCircuitBreaker | FRetryExhausted | FError

record fallback_context =
  fc_operation :: string
  fc_args :: "json list"
  fc_attempt :: int
  fc_duration :: int
  fc_failureType :: failure_type

type_synonym fallback_cache = "(string, json) jsmap option"
  \<comment> \<open>\<open>None\<close> when no cache is injected\<close>

type_synonym fallback_fn = "port_error \<Rightarrow> fallback_context \<Rightarrow> fallback_cache \<Rightarrow> port_error + json"

record fallback_provider =
  fp_fallbacks :: "(string, fallback_fn) jsmap"
  fp_cache :: fallback_cache
  fp_timers :: "(msec \<times> string) list"
  \<comment> \<open>pending \<^verbatim>\<open>setTimeout\<close> callbacks: when they are due and which key they delete\<close>

definition fp_new :: "fallback_cache \<Rightarrow> fallback_provider" where
  "fp_new cache = \<lparr>fp_fallbacks = [], fp_cache = cache, fp_timers = []\<rparr>"

definition fp_register :: "string \<Rightarrow> fallback_fn \<Rightarrow> fallback_provider \<Rightarrow> fallback_provider" where
  "fp_register key fb p = p\<lparr>fp_fallbacks := AList.update key fb (fp_fallbacks p)\<rparr>"

text \<open>
  Whatever goes wrong inside, a missing registration included, the caller gets the original
  error back.
\<close>

definition fp_execute ::
  "string \<Rightarrow> port_error \<Rightarrow> fallback_context \<Rightarrow> fallback_provider \<Rightarrow> port_error + json" where
  "fp_execute key err ctx p =
     (case (case map_of (fp_fallbacks p) key of
              None \<Rightarrow> Inl (plain_error (''No fallback registered for '' @ key))
            | Some fb \<Rightarrow> fb err ctx (fp_cache p)) of
        Inl fallbackError \<Rightarrow> Inl err
      | Inr result \<Rightarrow> Inr result)"

definition cache_lookup :: "string \<Rightarrow> fallback_cache \<Rightarrow> json option" where
  "cache_lookup key cache = (case cache of None \<Rightarrow> Some JNull | Some m \<Rightarrow> map_of m key)"

definition fp_getCached :: "string \<Rightarrow> fallback_provider \<Rightarrow> json option" where
  "fp_getCached key p = cache_lookup key (fp_cache p)"

definition fp_setCached ::
  "msec \<Rightarrow> string \<Rightarrow> json \<Rightarrow> int option \<Rightarrow> fallback_provider \<Rightarrow> fallback_provider" where
  "fp_setCached now key v ttlMs p =
     (case fp_cache p of
        None \<Rightarrow> p
      | Some m \<Rightarrow>
          let p1 = p\<lparr>fp_cache := Some (AList.update key v m)\<rparr>
          in (case ttlMs of
                None \<Rightarrow> p1
              | Some ms \<Rightarrow> if ms = 0 then p1 else p1\<lparr>fp_timers := fp_timers p1 @ [(now + ms, key)]\<rparr>))"

text \<open>The timers that are due at \<open>now\<close> run; each deletes its key, whatever is stored there.\<close>

definition fp_fire :: "msec \<Rightarrow> fallback_provider \<Rightarrow> fallback_provider" where
  "fp_fire now p =
     p\<lparr>fp_cache := map_option (\<lambda>m. foldl (\<lambda>m (due, key). AList.delete key m) m
                      (filter (\<lambda>(due, key). due \<le> now) (fp_timers p))) (fp_cache p),
       fp_timers := filter (\<lambda>(due, key). \<not> due \<le> now) (fp_timers p)\<rparr>"

definition fp_clearCached :: "string \<Rightarrow> fallback_provider \<Rightarrow> bool \<times> fallback_provider" where
  "fp_clearCached key p =
     (case fp_cache p of
        None \<Rightarrow> (False, p)
      | Some m \<Rightarrow> (map_of m key \<noteq> None, p\<lparr>fp_cache := Some (AList.delete key m)\<rparr>))"

definition fp_has :: "string \<Rightarrow> fallback_provider \<Rightarrow> bool" where
  "fp_has key p = (map_of (fp_fallbacks p) key \<noteq> None)"

definition fp_unregister :: "string \<Rightarrow> fallback_provider \<Rightarrow> bool \<times> fallback_provider" where
  "fp_unregister key p = (fp_has key p, p\<lparr>fp_fallbacks := AList.delete key (fp_fallbacks p)\<rparr>)"

definition fp_clear :: "fallback_provider \<Rightarrow> fallback_provider" where
  "fp_clear p = p\<lparr>fp_fallbacks := [], fp_cache := map_option (\<lambda>_. []) (fp_cache p)\<rparr>"

definition fp_getStatus :: "fallback_provider \<Rightarrow> (string \<times> bool \<times> nat) list" where
  "fp_getStatus p = map (\<lambda>(key, _).
     (key,
      (case fp_cache p of None \<Rightarrow> False | Some m \<Rightarrow> map_of m key \<noteq> None),
      (case fp_cache p of None \<Rightarrow> 0 | Some m \<Rightarrow> length m))) (fp_fallbacks p)"

section \<open>Ready-made fallbacks\<close>

definition staticValue :: "json \<Rightarrow> fallback_fn" where
  "staticValue v = (\<lambda>err ctx cache. Inr v)"

definition degradedResponse :: "msec \<Rightarrow> json \<Rightarrow> string option \<Rightarrow> fallback_fn" where
  "degradedResponse now v msg = (\<lambda>err ctx cache. Inr (JObj [(''value'', v), (''degraded'', JBool True),
     (''message'', JStr (js_nullish msg ''Service unavailable, showing degraded response'')),
     (''metadata'', JObj [(''timestamp'', JStr (toISOString now))])]))"

definition cachedValue :: "string \<Rightarrow> fallback_fn" where
  "cachedValue cacheKey = (\<lambda>err ctx cache.
     case cache_lookup cacheKey cache of
       None \<Rightarrow> Inl (plain_error ''No cached value available'')
     | Some v \<Rightarrow> if json_truthy v then Inr v else Inl (plain_error ''No cached value available''))"

definition emptyCollection :: "bool \<Rightarrow> fallback_fn" where
  "emptyCollection is_array = (\<lambda>err ctx cache. Inr (if is_array then JArr [] else JObj []))"

definition defaultValue :: "json \<Rightarrow> fallback_fn" where
  "defaultValue v = (\<lambda>err ctx cache. Inr v)"

definition throwError :: "port_error + string \<Rightarrow> fallback_fn" where
  "throwError e = (\<lambda>err ctx cache. Inl (case e of Inl ex \<Rightarrow> ex | Inr msg \<Rightarrow> plain_error msg))"

definition alternativeOperation :: "port_error + json \<Rightarrow> fallback_fn" where
  "alternativeOperation r = (\<lambda>err ctx cache. r)"

definition emptyPaginatedResponse :: "int option \<Rightarrow> int option \<Rightarrow> fallback_fn" where
  "emptyPaginatedResponse page limit = (\<lambda>err ctx cache. Inr (JObj [(''data'', JArr []),
     (''pagination'', JObj [(''page'', JNum (js_nullish page 1)), (''limit'', JNum (js_nullish limit 10)),
        (''total'', JNum 0), (''totalPages'', JNum 0), (''hasNext'', JBool False), (''hasPrev'', JBool False)])]))"

definition healthCheck :: "msec \<Rightarrow> string \<Rightarrow> json option \<Rightarrow> fallback_fn" where
  "healthCheck now status details = (\<lambda>err ctx cache. Inr (JObj ([(''status'', JStr status),
     (''timestamp'', JStr (toISOString now))] @
     (case details of None \<Rightarrow> [] | Some d \<Rightarrow> [(''details'', d)]))))"

datatype api_response = RMock | RError | RCached

definition externalAPIFallback :: "string \<Rightarrow> api_response \<Rightarrow> json option \<Rightarrow> fallback_fn" where
  "externalAPIFallback serviceName responseType mockData = (\<lambda>err ctx cache.
     case responseType of
       RMock \<Rightarrow> Inr (case mockData of
                      Some v \<Rightarrow> if json_truthy v then v
                                else JObj [(''mock'', JBool True), (''service'', JStr serviceName)]
                    | None \<Rightarrow> JObj [(''mock'', JBool True), (''service'', JStr serviceName)])
     | _ \<Rightarrow> Inl (plain_error (''Service '' @ serviceName @ '' unavailable: '' @ port_message err)))"

section \<open>The decorator\<close>

text \<open>
  \<^verbatim>\<open>@Fallback(fn, options)\<close> or \<^verbatim>\<open>@Fallback('key', options)\<close> around a method that ended
  with \<open>outcome\<close>. With a key the fallback is the cached value, undefined when there is none.
\<close>

record fallback_options =
  fo_cacheKey :: "string option"
  fo_cacheTTL :: "int option"

definition FallbackDecorator ::
  "msec \<Rightarrow> fallback_fn + string \<Rightarrow> fallback_options option \<Rightarrow> string \<Rightarrow> json list \<Rightarrow> port_error + json \<Rightarrow>
   fallback_provider \<Rightarrow> (port_error + json option) \<times> fallback_provider" where
  "FallbackDecorator now fallback options methodName args outcome p =
     (case outcome of
        Inr result \<Rightarrow>
          (Inr (Some result),
           if truthy_str (Option.bind options fo_cacheKey)
           then fp_setCached now (the (Option.bind options fo_cacheKey)) result (Option.bind options fo_cacheTTL) p
           else p)
      | Inl err \<Rightarrow>
          ((case fallback of
              Inr key \<Rightarrow> Inr (fp_getCached key p)
            | Inl fb \<Rightarrow>
                map_sum id Some (fb err \<lparr>fc_operation = methodName, fc_args = args, fc_attempt = 1,
                    fc_duration = 0, fc_failureType = FError\<rparr> (fp_cache p))),
           p))"

section \<open>Facts\<close>

lemma setCached_lookup:
  "fp_cache p \<noteq> None \<Longrightarrow> fp_getCached k (fp_setCached now key v ttl p) =
     (if k = key then Some v else fp_getCached k p)"
  by (auto simp: fp_getCached_def cache_lookup_def fp_setCached_def Let_def jsmap_simps split: option.splits)

lemma setCached_fields [simp]:
  "fp_fallbacks (fp_setCached now key v ttl p) = fp_fallbacks p"
  "(fp_cache (fp_setCached now key v ttl p) = None) = (fp_cache p = None)"
  by (auto simp: fp_setCached_def Let_def split: option.splits)

text \<open>
  The timers are never cancelled: a value stored afresh is deleted by the timer of an earlier one,
  before its own time to live has passed.
\<close>

lemma stale_timer_deletes_fresh_value:
  "fp_getCached ''k'' (fp_fire 100 (fp_setCached 60 ''k'' (JNum 2) (Some 100)
     (fp_setCached 0 ''k'' (JNum 1) (Some 100) (fp_new (Some []))))) = None"
  by code_simp

end
