(* ===== verification/Request_Context.thy ===== *)
theory Request_Context
  imports Fallback
begin

text \<open>
  The identity that travels with a request: the request context
  (src/libs/shared/context/request-context.provider.ts), the middleware that gives every request a
  correlation id (correlation-id.middleware.ts), the middleware that adds the signed-in user
  (src/libs/shared/auth-propagation/auth-propagation.middleware.ts) and the signer of the tokens
  sent downstream (jwt-signer.service.ts). \<^verbatim>\<open>AsyncLocalStorage\<close> is modelled by passing the
  current context as an argument; random identifiers and the \<^verbatim>\<open>jose\<close> library are arguments.
\<close>

section \<open>The context\<close>

record request_context =
  rc_correlationId :: string
  rc_causationId :: "string option"
  rc_userId :: "string option"
  rc_tenantId :: "string option"
  rc_timestamp :: msec
  rc_metadata :: "(string \<times> json) list option"

definition rc_createChild :: "msec \<Rightarrow> string \<Rightarrow> request_context \<Rightarrow> request_context" where
  "rc_createChild now causationId ctx =
     \<lparr>rc_correlationId = rc_correlationId ctx, rc_causationId = Some causationId,
      rc_userId = rc_userId ctx, rc_tenantId = rc_tenantId ctx, rc_timestamp = now,
      rc_metadata = rc_metadata ctx\<rparr>"

definition rc_create :: "msec \<Rightarrow> string \<Rightarrow> string option \<Rightarrow> string option \<Rightarrow> request_context" where
  "rc_create now uuid correlationId userId =
     \<lparr>rc_correlationId = js_or_str correlationId uuid, rc_causationId = None, rc_userId = userId,
      rc_tenantId = None, rc_timestamp = now, rc_metadata = None\<rparr>"

record context_options =
  xo_correlationId :: "string option"
  xo_causationId :: "string option"
  xo_userId :: "string option"
  xo_tenantId :: "string option"
  xo_metadata :: "(string \<times> json) list option"

definition rc_createFull :: "msec \<Rightarrow> string \<Rightarrow> context_options \<Rightarrow> request_context" where
  "rc_createFull now uuid opts =
     \<lparr>rc_correlationId = js_or_str (xo_correlationId opts) uuid,
      rc_causationId = xo_causationId opts, rc_userId = xo_userId opts,
      rc_tenantId = xo_tenantId opts, rc_timestamp = now, rc_metadata = xo_metadata opts\<rparr>"

definition rc_meta :: "string \<Rightarrow> request_context \<Rightarrow> json option" where
  "rc_meta key ctx = (case rc_metadata ctx of None \<Rightarrow> None | Some m \<Rightarrow> map_of m key)"
  \<comment> \<open>\<^verbatim>\<open>context.metadata?.key\<close>\<close>

section \<open>Correlation ids\<close>

type_synonym headers = "(string, string list) jsmap"
  \<comment> \<open>a header repeated in the request has several values\<close>

definition extractCorrelationId :: "headers \<Rightarrow> string option" where
  "extractCorrelationId hs = (case map_of hs ''x-correlation-id'' of
     None \<Rightarrow> None | Some [] \<Rightarrow> None | Some (v # _) \<Rightarrow> Some v)"

definition extractUserId :: "headers \<Rightarrow> string option" where
  "extractUserId hs = None"

text \<open>The header set on the response, and the context in which the request continues.\<close>

definition correlation_use :: "msec \<Rightarrow> string \<Rightarrow> string \<Rightarrow> headers \<Rightarrow> (string \<times> string) \<times> request_context" where
  "correlation_use now uuid uuid' hs =
     (let correlationId = js_or_str (extractCorrelationId hs) uuid
      in ((''x-correlation-id'', correlationId),
          rc_create now uuid' (Some correlationId) (extractUserId hs)))"

section \<open>Tokens for the downstream services\<close>

record jwt_payload =
  jp_sub :: "json option"
  jp_roles :: json
  jp_provider :: json
  jp_sessionId :: json
  jp_xiNghiep :: "json option"

datatype jwt_error = JWTExpired | JWTOther string

record jwt_signer =
  js_secret :: string
  js_oldSecret :: "string option"
  js_ttl :: string
  js_issuer :: string

definition jwt_new :: "string \<Rightarrow> string option \<Rightarrow> string option \<Rightarrow> string option \<Rightarrow> jwt_signer" where
  "jwt_new secretStr oldSecretStr ttl issuer =
     \<lparr>js_secret = secretStr,
      js_oldSecret = (if truthy_str oldSecretStr then oldSecretStr else None),
      js_ttl = js_nullish ttl ''15m'', js_issuer = js_nullish issuer ''cskh-bff''\<rparr>"

text \<open>
  The library: \<open>jose_sign\<close> takes the claims, the time to live, the issuer, the time of issue and
  the secret; \<open>jose_verify\<close> takes the token, the secret, the expected issuer and the time.
\<close>

record jose =
  jose_sign :: "json \<Rightarrow> string \<Rightarrow> string \<Rightarrow> msec \<Rightarrow> string \<Rightarrow> string"
  jose_verify :: "string \<Rightarrow> string \<Rightarrow> string \<Rightarrow> msec \<Rightarrow> jwt_error + json"

definition jwt_claims :: "jwt_payload \<Rightarrow> json" where
  "jwt_claims p = JObj (jopt ''sub'' (jp_sub p) @ [(''roles'', jp_roles p), (''provider'', jp_provider p),
     (''session_id'', jp_sessionId p)] @ jopt ''xi_nghiep'' (jp_xiNghiep p))"

definition jwt_sign :: "jose \<Rightarrow> jwt_signer \<Rightarrow> msec \<Rightarrow> jwt_payload \<Rightarrow> string" where
  "jwt_sign lib sg now p = jose_sign lib (jwt_claims p) (js_ttl sg) (js_issuer sg) now (js_secret sg)"

definition mapPayload :: "json \<Rightarrow> jwt_payload" where
  "mapPayload claims =
     \<lparr>jp_sub = json_get ''sub'' claims,
      jp_roles = json_nullish (json_get ''roles'' claims) (JArr [JStr ''customer'']),
      jp_provider = json_nullish (json_get ''provider'' claims) (JStr ''app''),
      jp_sessionId = json_nullish (json_get ''session_id'' claims) (JStr ''''),
      jp_xiNghiep = json_get ''xi_nghiep'' claims\<rparr>"

definition jwt_verify :: "jose \<Rightarrow> jwt_signer \<Rightarrow> msec \<Rightarrow> string \<Rightarrow> jwt_error + jwt_payload" where
  "jwt_verify lib sg now token =
     (case jose_verify lib token (js_secret sg) (js_issuer sg) now of
        Inr claims \<Rightarrow> Inr (mapPayload claims)
      | Inl err \<Rightarrow>
          if err = JWTExpired then Inl err
          else (case js_oldSecret sg of
                  None \<Rightarrow> Inl err
                | Some old \<Rightarrow>
                    (case jose_verify lib token old (js_issuer sg) now of
                       Inr claims \<Rightarrow> Inr (mapPayload claims)
                     | Inl _ \<Rightarrow> Inl err)))"

section \<open>Adding the signed-in user\<close>

record session_user =
  su_id :: "string option"
  su_role :: "string option"
  su_provider :: "string option"

record auth_session =
  as_id :: "string option"
  as_user :: "session_user option"

definition extractRoles :: "session_user \<Rightarrow> string list" where
  "extractRoles u = (if truthy_str (su_role u) then [the (su_role u)] else [''customer''])"

definition extractProvider :: "session_user \<Rightarrow> (string, string) jsmap \<Rightarrow> string" where
  "extractProvider u hs =
     (if truthy_str (su_provider u) then the (su_provider u)
      else js_nullish (map_of hs ''x-auth-provider'') ''app'')"

definition extractSessionId :: "auth_session \<Rightarrow> (string, string) jsmap \<Rightarrow> string" where
  "extractSessionId s hs =
     (if truthy_str (as_id s) then the (as_id s) else js_nullish (map_of hs ''x-session-id'') '''')"

text \<open>
  The context in which the request continues. Without a context, a session or a user it is
  unchanged; otherwise a fresh context carries the identity and one signed token.
\<close>

definition auth_use ::
  "jose \<Rightarrow> jwt_signer \<Rightarrow> msec \<Rightarrow> string \<Rightarrow> auth_session option \<Rightarrow> (string, string) jsmap \<Rightarrow>
   request_context option \<Rightarrow> request_context option" where
  "auth_use lib sg now uuid session hs current =
     (case current of
        None \<Rightarrow> None
      | Some ctx \<Rightarrow>
          (case Option.bind session as_user of
             None \<Rightarrow> current
           | Some u \<Rightarrow>
               if \<not> truthy_str (su_id u) then current
               else
                 let roles = extractRoles u;
                     provider = extractProvider u hs;
                     sessionId = extractSessionId (the session) hs;
                     signedJwt = jwt_sign lib sg now
                       \<lparr>jp_sub = map_option JStr (su_id u), jp_roles = JArr (map JStr roles),
                        jp_provider = JStr provider, jp_sessionId = JStr sessionId,
                        jp_xiNghiep = map_option JStr (rc_tenantId ctx)\<rparr>
                 in Some (rc_createFull now uuid
                      \<lparr>xo_correlationId = Some (rc_correlationId ctx), xo_causationId = None,
                       xo_userId = su_id u, xo_tenantId = rc_tenantId ctx,
                       xo_metadata = Some
                         (AList.update ''signedJwt'' (JStr signedJwt)
                           (AList.update ''sessionId'' (JStr sessionId)
                             (AList.update ''provider'' (JStr provider)
                               (AList.update ''roles'' (JArr (map JStr roles))
                                 (js_nullish (rc_metadata ctx) [])))))\<rparr>)))"

section \<open>Facts\<close>

text \<open>A token whose library check returns its claims is mapped back to the payload it was signed for.\<close>

lemma mapPayload_claims:
  assumes "jp_roles p \<noteq> JNull" "jp_provider p \<noteq> JNull" "jp_sessionId p \<noteq> JNull"
  shows "mapPayload (jwt_claims p) = p"
  using assms by (cases p) (simp add: mapPayload_def jwt_claims_def json_nullish_def jopt_def split: option.splits)

end
