(* ===== verification/Port_Http.thy ===== *)
theory Port_Http
  imports Request_Context
begin

text \<open>
  The calls that leave the process: the HTTP client of the ports
  (src/libs/shared/port/port-http-client.service.ts) with token injection, idempotency keys,
  timeouts and the single retry after a 401, and the two base classes of the adapters
  (internal-adapter.base.ts, mock-adapter.base.ts). \<^verbatim>\<open>fetch\<close>, the file system and the
  \<^verbatim>\<open>zod\<close> schemas are arguments; the state \<open>'s\<close> is whatever they act on.
\<close>

section \<open>URL encoding\<close>

definition uri_unreserved :: "char \<Rightarrow> bool" where
  "uri_unreserved c = (is_digit c
     \<or> 65 \<le> (of_char c :: nat) \<and> (of_char c :: nat) \<le> 90 \<or> 97 \<le> (of_char c :: nat) \<and> (of_char c :: nat) \<le> 122
     \<or> c \<in> set ''-_.!~*()'' \<or> c = CHR 0x27)"

definition hex_upper :: "nat \<Rightarrow> char" where
  "hex_upper n = char_of (if n < 10 then 48 + n else 55 + n)"

definition uri_escape :: "char \<Rightarrow> string" where
  "uri_escape c = (if uri_unreserved c then [c]
     else [CHR ''%'', hex_upper (of_char c div 16), hex_upper (of_char c mod 16)])"

definition encodeURIComponent :: "string \<Rightarrow> string" where
  "encodeURIComponent s = concat (map uri_escape s)"

section \<open>The client\<close>

datatype http_method = GET | POST | PUT | DELETE

fun method_name :: "http_method \<Rightarrow> string" where
  "method_name GET = ''GET''" | "method_name POST = ''POST''"
| "method_name PUT = ''PUT''" | "method_name DELETE = ''DELETE''"

record port_http_request =
  hr_url :: string
  hr_method :: http_method
  hr_portName :: string
  hr_timeout :: "int option"
  hr_body :: "(string \<times> json) list option"
  hr_params :: "(string \<times> json) list option"

record fetch_call =
  fe_url :: string
  fe_method :: http_method
  fe_headers :: "(string, string) jsmap"
  fe_body :: "string option"
  fe_timeout :: int
  \<comment> \<open>the abort signal: the call is aborted after so many milliseconds\<close>

record fetch_response =
  fr_status :: int
  fr_statusText :: string
  fr_json :: "js_error + json"

definition fr_ok :: "fetch_response \<Rightarrow> bool" where
  "fr_ok r = (200 \<le> fr_status r \<and> fr_status r \<le> 299)"

record 's http_deps =
  hd_fetch :: "fetch_call \<Rightarrow> ('s, js_error, fetch_response) async"
  hd_sign :: "jwt_payload \<Rightarrow> ('s, js_error, string) async"
  hd_sha256 :: "string \<Rightarrow> string"

definition lift_error :: "('s, js_error, 'a) async \<Rightarrow> ('s, port_error, 'a) async" where
  "lift_error m = (\<lambda>s. case m s of (r, s') \<Rightarrow> (map_sum OtherError id r, s'))"

definition generateShortHash :: "(string \<Rightarrow> string) \<Rightarrow> string \<Rightarrow> string" where
  "generateShortHash sha256hex payload = take 16 (sha256hex payload)"

definition context_payload :: "request_context \<Rightarrow> jwt_payload" where
  "context_payload ctx =
     \<lparr>jp_sub = map_option JStr (rc_userId ctx),
      jp_roles = json_nullish (rc_meta ''roles'' ctx) (JArr [JStr ''customer'']),
      jp_provider = json_nullish (rc_meta ''provider'' ctx) (JStr ''app''),
      jp_sessionId = json_nullish (rc_meta ''sessionId'' ctx) (JStr ''''),
      jp_xiNghiep = map_option JStr (rc_tenantId ctx)\<rparr>"

definition correlation_of :: "request_context option \<Rightarrow> string" where
  "correlation_of ctx = (case ctx of None \<Rightarrow> ''no-correlation-id'' | Some c \<Rightarrow> rc_correlationId c)"

definition signed_in :: "request_context option \<Rightarrow> bool" where
  "signed_in ctx = (case ctx of None \<Rightarrow> False | Some c \<Rightarrow> truthy_str (rc_userId c))"

text \<open>A token already in the context is used as it is; only without one is a new one signed.\<close>

definition auth_header ::
  "'s http_deps \<Rightarrow> request_context option \<Rightarrow> ('s, port_error, (string, string) jsmap) async" where
  "auth_header d ctx =
     (if \<not> signed_in ctx then ret []
      else
        bnd (case rc_meta ''signedJwt'' (the ctx) of
               None \<Rightarrow> lift_error (hd_sign d (context_payload (the ctx)))
             | Some v \<Rightarrow> if v = JNull then lift_error (hd_sign d (context_payload (the ctx)))
                         else ret (js_string v))
          (\<lambda>jwt. ret [(''Authorization'', ''Bearer '' @ jwt)]))"

definition idempotency_header ::
  "'s http_deps \<Rightarrow> request_context option \<Rightarrow> port_http_request \<Rightarrow> (string, string) jsmap" where
  "idempotency_header d ctx req =
     (if hr_method req = POST \<or> hr_method req = PUT
      then [(''x-idempotency-key'', correlation_of ctx @ '':'' @
              generateShortHash (hd_sha256 d) (stringify (JObj [(''portName'', JStr (hr_portName req)),
                (''method'', JStr (method_name (hr_method req))),
                (''body'', JObj (js_nullish (hr_body req) []))])))]
      else [])"

definition query_string :: "(string \<times> json) list \<Rightarrow> string" where
  "query_string ps = join ''&'' (map (\<lambda>(k, v). encodeURIComponent k @ ''='' @ encodeURIComponent (js_string v))
     (filter (\<lambda>(k, v). v \<noteq> JNull) ps))"

definition finalUrl :: "port_http_request \<Rightarrow> string" where
  "finalUrl req =
     (case hr_params req of
        Some ps \<Rightarrow>
          if hr_method req = GET \<and> query_string ps \<noteq> ''''
          then hr_url req @ (if CHR ''?'' \<in> set (hr_url req) then ''&'' else ''?'') @ query_string ps
          else hr_url req
      | None \<Rightarrow> hr_url req)"

definition fetch_of :: "port_http_request \<Rightarrow> (string, string) jsmap \<Rightarrow> fetch_call" where
  "fetch_of req hs =
     \<lparr>fe_url = finalUrl req, fe_method = hr_method req, fe_headers = hs,
      fe_body = (if hr_method req \<noteq> GET then map_option (\<lambda>b. stringify (JObj b)) (hr_body req) else None),
      fe_timeout = js_nullish (hr_timeout req) 3000\<rparr>"

text \<open>
  The error handlers: an aborted call becomes a timeout, everything else is rethrown. The handler
  leaves its own results alone, so it does not matter that the promise of the retry is returned
  from the \<^verbatim>\<open>try\<close> block without being awaited there.
\<close>

definition timeout_of :: "port_http_request \<Rightarrow> port_error \<Rightarrow> port_error" where
  "timeout_of req e = (case e of
     OtherError je \<Rightarrow> if err_name je = ''AbortError''
       then PortTimeoutException (hr_portName req) (js_nullish (hr_timeout req) 3000) else e
   | _ \<Rightarrow> e)"

definition session_expired :: "port_http_request \<Rightarrow> port_error" where
  "session_expired req = PortDownstreamException (hr_portName req) 401
     (''Session expired '' @ [CHR 0xE2, CHR 0x80, CHR 0x94] @ '' please re-authenticate'') (finalUrl req)"

definition read_body :: "port_http_request \<Rightarrow> fetch_response \<Rightarrow> ('s, port_error, json) async" where
  "read_body req r =
     (if \<not> fr_ok r
      then throw (PortDownstreamException (hr_portName req) (fr_status r) (fr_statusText r) (finalUrl req))
      else (case fr_json r of
              Inl _ \<Rightarrow> throw (PortDownstreamException (hr_portName req) 502 ''Invalid JSON response body'' (finalUrl req))
            | Inr v \<Rightarrow> ret v))"

definition retryRequest ::
  "'s http_deps \<Rightarrow> port_http_request \<Rightarrow> (string, string) jsmap \<Rightarrow> ('s, port_error, json) async" where
  "retryRequest d req hs =
     try_catch
       (bnd (lift_error (hd_fetch d (fetch_of req hs))) (\<lambda>r.
          if fr_status r = 401 then throw (session_expired req) else read_body req r))
       (\<lambda>e. throw (timeout_of req e))"

definition requestInternal ::
  "'s http_deps \<Rightarrow> request_context option \<Rightarrow> bool \<Rightarrow> port_http_request \<Rightarrow> ('s, port_error, json) async" where
  "requestInternal d ctx isRetry req =
     bnd (auth_header d ctx) (\<lambda>auth.
       let hs = [(''Content-Type'', ''application/json''), (''x-correlation-id'', correlation_of ctx)]
                @ auth @ idempotency_header d ctx req
       in try_catch
            (bnd (lift_error (hd_fetch d (fetch_of req hs))) (\<lambda>r.
               if fr_status r = 401 \<and> \<not> isRetry \<and> signed_in ctx
               then bnd (lift_error (hd_sign d (context_payload (the ctx)))) (\<lambda>newJwt.
                      retryRequest d req (AList.update ''Authorization'' (''Bearer '' @ newJwt) hs))
               else if fr_status r = 401 \<and> isRetry then throw (session_expired req)
               else read_body req r))
            (\<lambda>e. throw (timeout_of req e)))"

definition http_request :: "'s http_deps \<Rightarrow> request_context option \<Rightarrow> port_http_request \<Rightarrow> ('s, port_error, json) async" where
  "http_request d ctx req = requestInternal d ctx False req"

section \<open>The live adapters\<close>

record adapter_config =
  ac_portName :: string
  ac_baseUrl :: string
  ac_timeout :: int
  ac_methodMap :: "(string \<rightharpoonup> http_method) option"

definition is_word :: "char \<Rightarrow> bool" where
  "is_word c = (is_digit c \<or> 65 \<le> (of_char c :: nat) \<and> (of_char c :: nat) \<le> 90
     \<or> 97 \<le> (of_char c :: nat) \<and> (of_char c :: nat) \<le> 122 \<or> c = CHR ''_'')"

definition param_value :: "(string \<times> json) list \<Rightarrow> string \<Rightarrow> string \<Rightarrow> string" where
  "param_value params key matched =
     (case map_of params key of
        None \<Rightarrow> matched
      | Some v \<Rightarrow> if v = JNull then matched else encodeURIComponent (js_string v))"

text \<open>
  The replacement of the pattern \<^verbatim>\<open>/\{(\w+)\}|:(\w+)/g\<close>, scanning from the left; a placeholder
  without a parameter stays as it is.
\<close>

function replace_params :: "(string \<times> json) list \<Rightarrow> string \<Rightarrow> string" where
  "replace_params params [] = []"
| "replace_params params (c # rest) =
     (let key = takeWhile is_word rest; after = dropWhile is_word rest in
      if c = CHR ''{'' \<and> key \<noteq> [] \<and> after \<noteq> [] \<and> hd after = CHR ''}''
      then param_value params key (''{'' @ key @ ''}'') @ replace_params params (tl after)
      else if c = CHR '':'' \<and> key \<noteq> []
      then param_value params key ('':'' @ key) @ replace_params params after
      else c # replace_params params rest)"
  by pat_completeness auto
termination
proof (relation "measure (length \<circ> snd)", goal_cases)
  case (2 params c rest)
  then show ?case using length_dropWhile_le [of is_word rest] by simp
next
  case (3 params c rest)
  then show ?case using length_dropWhile_le [of is_word rest] by simp
qed auto

definition buildUrl :: "adapter_config \<Rightarrow> string \<Rightarrow> (string \<times> json) list \<Rightarrow> string" where
  "buildUrl cfg method params = replace_params params (ac_baseUrl cfg @ ''/'' @ method)"

definition starts_with :: "string \<Rightarrow> string \<Rightarrow> bool" where
  "starts_with p s = (take (length p) s = p)"

definition resolveHttpMethod :: "adapter_config \<Rightarrow> string \<Rightarrow> http_method" where
  "resolveHttpMethod cfg method =
     (case Option.bind (ac_methodMap cfg) (\<lambda>m. m method) of
        Some m \<Rightarrow> m
      | None \<Rightarrow>
          if starts_with ''get-'' method \<or> starts_with ''search'' method \<or> starts_with ''list'' method then GET
          else if starts_with ''update'' method \<or> starts_with ''edit'' method then PUT
          else if starts_with ''delete'' method \<or> starts_with ''remove'' method \<or> starts_with ''cancel'' method
          then DELETE
          else POST)"

definition internal_execute ::
  "'s http_deps \<Rightarrow> adapter_config \<Rightarrow> request_context option \<Rightarrow> string \<Rightarrow> (string \<times> json) list \<Rightarrow>
   ('s, port_error, json) async" where
  "internal_execute d cfg ctx method params =
     (let httpMethod = resolveHttpMethod cfg method in
      http_request d ctx
        \<lparr>hr_url = buildUrl cfg method params, hr_method = httpMethod, hr_portName = ac_portName cfg,
         hr_timeout = Some (ac_timeout cfg),
         hr_body = (if httpMethod \<noteq> GET then Some params else None),
         hr_params = (if httpMethod = GET then Some params else None)\<rparr>)"

section \<open>The mock adapters\<close>

text \<open>
  \<open>readJson\<close> reads and parses the file at a path under the working directory; \<open>schemas\<close>
  are the contract checks of the adapter, which return an error message or the parsed data.
\<close>

definition not_found_error :: "string \<Rightarrow> port_error" where
  "not_found_error msg = OtherError \<lparr>err_name = ''NotFoundException'', err_ctor = ''NotFoundException'', err_message = msg\<rparr>"

definition validation_error :: "string \<Rightarrow> port_error" where
  "validation_error msg = OtherError \<lparr>err_name = ''ValidationException'', err_ctor = ''ValidationException'', err_message = msg\<rparr>"

definition mock_execute ::
  "(string list \<Rightarrow> js_error + json) \<Rightarrow> bool \<Rightarrow> string \<Rightarrow> (string \<rightharpoonup> json \<Rightarrow> string + json) \<Rightarrow> string \<Rightarrow>
   (string \<times> json) list \<Rightarrow> ('s, port_error, json) async" where
  "mock_execute readJson production portName schemas method params =
     (case readJson [''mocks'', portName, method @ ''.json''] of
        Inl e \<Rightarrow> throw (not_found_error (''Mock file not found or invalid JSON ['' @ portName @ ''/'' @ method
                   @ '']: '' @ err_message e))
      | Inr rawData \<Rightarrow>
          (case schemas method of
             None \<Rightarrow> ret rawData
           | Some safeParse \<Rightarrow>
               (case safeParse rawData of
                  Inr v \<Rightarrow> ret v
                | Inl msg \<Rightarrow>
                    if \<not> production
                    then throw (validation_error (''Mock contract violation ['' @ portName @ ''/'' @ method @ '']: '' @ msg))
                    else ret rawData)))"

section \<open>Facts\<close>

lemma hex_upper_code: "n < 16 \<Longrightarrow> (of_char (hex_upper n) :: nat) = (if n < 10 then 48 + n else 55 + n)"
  by (simp add: hex_upper_def of_char_of take_bit_eq_mod)

lemma hex_upper_inject: "m < 16 \<Longrightarrow> n < 16 \<Longrightarrow> hex_upper m = hex_upper n \<longleftrightarrow> m = n"
  by (auto simp: hex_upper_def char_of_eq_iff of_char_of take_bit_eq_mod split: if_splits)

lemma uri_escape_prefix: "uri_escape c @ u = uri_escape d @ v \<Longrightarrow> c = d \<and> u = v"
proof -
  assume eq: "uri_escape c @ u = uri_escape d @ v"
  have percent: "\<not> uri_unreserved CHR ''%''" by code_simp
  have lt: "(of_char x :: nat) div 16 < 16" for x
    using of_char_less [of x] by (simp add: less_mult_imp_div_less)
  have hex: "c = d" if "hex_upper (of_char c div 16) = hex_upper (of_char d div 16)"
    "hex_upper (of_char c mod 16) = hex_upper (of_char d mod 16)"
  proof -
    from that have "(of_char c :: nat) div 16 = of_char d div 16" "(of_char c :: nat) mod 16 = of_char d mod 16"
      by (simp_all add: hex_upper_inject lt)
    then have "(of_char c :: nat) = of_char d" by (metis div_mult_mod_eq)
    then show ?thesis by simp
  qed
  show ?thesis
  proof (cases "uri_unreserved c")
    case True
    with eq percent show ?thesis by (cases "uri_unreserved d") (auto simp: uri_escape_def)
  next
    case False
    with eq percent have "\<not> uri_unreserved d" by (auto simp: uri_escape_def)
    with False eq have "hex_upper (of_char c div 16) = hex_upper (of_char d div 16)"
      "hex_upper (of_char c mod 16) = hex_upper (of_char d mod 16)" "u = v"
      by (simp_all add: uri_escape_def)
    with hex show ?thesis by blast
  qed
qed

lemma uri_escape_nonempty: "uri_escape c \<noteq> []"
  by (simp add: uri_escape_def)

lemma encodeURIComponent_inject: "encodeURIComponent s = encodeURIComponent t \<longleftrightarrow> s = t"
proof
  show "encodeURIComponent s = encodeURIComponent t \<Longrightarrow> s = t"
  proof (induction s arbitrary: t)
    case Nil
    then show ?case by (cases t) (simp_all add: encodeURIComponent_def uri_escape_nonempty)
  next
    case (Cons c s)
    then obtain d t' where t: "t = d # t'"
      by (cases t) (simp_all add: encodeURIComponent_def uri_escape_nonempty)
    from Cons.prems uri_escape_prefix have "c = d" "encodeURIComponent s = encodeURIComponent t'"
      by (simp_all add: t encodeURIComponent_def)
    with Cons.IH t show ?case by simp
  qed
qed simp

text \<open>Encoding leaves no character that could end a path segment or a query parameter.\<close>

lemma encodeURIComponent_safe:
  assumes "c \<in> set (encodeURIComponent s)"
  shows "uri_unreserved c \<or> c = CHR ''%''"
proof -
  have digit: "uri_unreserved (hex_upper n)" if "n < 16" for n
    using that by (auto simp: uri_unreserved_def is_digit_def hex_upper_code)
  have "(of_char x :: nat) div 16 < 16" for x
    using of_char_less [of x] by (simp add: less_mult_imp_div_less)
  with assms digit show ?thesis
    by (auto simp: encodeURIComponent_def uri_escape_def split: if_splits)
qed

lemma timeout_of_idem [simp]: "timeout_of req (timeout_of req e) = timeout_of req e"
  by (cases e) (simp_all add: timeout_of_def)

text \<open>The key does not depend on the URL, hence not on the operation.\<close>

lemma idempotency_key_shared:
  assumes "resolveHttpMethod cfg m1 = POST" "resolveHttpMethod cfg m2 = POST"
  shows "idempotency_header d ctx \<lparr>hr_url = buildUrl cfg m1 ps, hr_method = resolveHttpMethod cfg m1,
           hr_portName = ac_portName cfg, hr_timeout = t, hr_body = Some ps, hr_params = None\<rparr> =
         idempotency_header d ctx \<lparr>hr_url = buildUrl cfg m2 ps, hr_method = resolveHttpMethod cfg m2,
           hr_portName = ac_portName cfg, hr_timeout = t, hr_body = Some ps, hr_params = None\<rparr>"
  using assms by (simp add: idempotency_header_def)

section \<open>What the client throws\<close>

definition http_failures :: "port_http_request \<Rightarrow> port_error set" where
  "http_failures req = {PortDownstreamException (hr_portName req) code txt (finalUrl req) | code txt.
       \<not> (200 \<le> code \<and> code \<le> 299)}
     \<union> {PortTimeoutException (hr_portName req) (js_nullish (hr_timeout req) 3000)} \<union> range OtherError"

lemma lift_error_Inl: "lift_error m s = (Inl e, s') \<Longrightarrow> e \<in> range OtherError"
  by (cases "fst (m s)") (auto simp: lift_error_def split: prod.splits)

lemma http_fails_lift: "only_fails (http_failures req) (lift_error m)"
  by (auto simp: only_fails_def http_failures_def dest!: lift_error_Inl)

lemma http_fails_read: "only_fails (http_failures req) (read_body req r)"
  by (auto simp: read_body_def http_failures_def fr_ok_def intro!: only_fails_rules split: sum.splits)

lemma http_fails_expired: "only_fails (http_failures req) (throw (session_expired req))"
  by (rule only_fails_throw) (simp add: http_failures_def session_expired_def)

lemma http_fails_handler:
  "only_fails (http_failures req) m \<Longrightarrow> only_fails (http_failures req) (try_catch m (\<lambda>e. throw (timeout_of req e)))"
  by (auto simp: only_fails_def async_simps timeout_of_def http_failures_def split: prod.splits sum.splits port_error.splits if_splits)

lemmas http_fails = http_fails_lift http_fails_read http_fails_expired http_fails_handler only_fails_rules

text \<open>
  Error behaviour of the HTTP client: whatever the downstream service, the token signer and the
  network do, a request fails only with the typed downstream exception of its own port and URL,
  never for a status in the 200 range, with the timeout exception of its port and configured
  timeout, or with an error that the network or the signer raised itself.
\<close>

lemma http_errors:
  assumes "http_request d ctx req s = (Inl e, s')"
  shows "(\<exists>code txt. e = PortDownstreamException (hr_portName req) code txt (finalUrl req)
            \<and> \<not> (200 \<le> code \<and> code \<le> 299))
         \<or> e = PortTimeoutException (hr_portName req) (js_nullish (hr_timeout req) 3000)
         \<or> (\<exists>je. e = OtherError je)"
proof -
  have auth: "only_fails (http_failures req) (auth_header d ctx)"
    unfolding auth_header_def by (auto intro!: http_fails split: option.splits)
  have retry: "only_fails (http_failures req) (retryRequest d req hs)" for hs
    unfolding retryRequest_def by (intro http_fails)
  have "only_fails (http_failures req) (http_request d ctx req)"
    unfolding http_request_def requestInternal_def Let_def by (intro http_fails auth retry)
  from only_failsD [OF this assms] show ?thesis by (auto simp: http_failures_def)
qed

section \<open>A request is sent at most twice\<close>

text \<open>
  The calls that were sent are read off a log. Any client environment can be given one: the
  recording environment behaves as the original and notes every call.
\<close>

definition same_request :: "'s http_deps \<Rightarrow> request_context option \<Rightarrow> port_http_request \<Rightarrow> fetch_call \<Rightarrow> bool" where
  "same_request d ctx req c \<longleftrightarrow> fe_url c = finalUrl req \<and> fe_method c = hr_method req \<and>
     fe_body c = fe_body (fetch_of req []) \<and>
     map_of (fe_headers c) ''x-idempotency-key'' = map_of (idempotency_header d ctx req) ''x-idempotency-key''"

locale http_log =
  fixes d :: "'s http_deps" and log :: "'s \<Rightarrow> fetch_call list"
  assumes fetch_logs: "log (snd (hd_fetch d c s)) = log s @ [c]"
    and sign_silent: "log (snd (hd_sign d p s)) = log s"
begin

lemma lift_state: "snd (lift_error m s) = snd (m s)"
  by (simp add: lift_error_def split: prod.splits)

lemma auth_silent: "auth_header d ctx s = (r, s') \<Longrightarrow> log s' = log s"
  using lift_state [of "hd_sign d (context_payload (the ctx))" s] sign_silent [of "context_payload (the ctx)" s]
  by (auto simp: auth_header_def async_simps split: if_splits option.splits prod.splits sum.splits)

lemma read_silent: "read_body req r s = (x, s') \<Longrightarrow> s' = s"
  by (auto simp: read_body_def async_simps split: if_splits sum.splits)

lemma retry_once: "log (snd (retryRequest d req hs s)) = log s @ [fetch_of req hs]"
proof -
  have "log (snd (lift_error (hd_fetch d (fetch_of req hs)) s)) = log s @ [fetch_of req hs]"
    by (simp add: lift_state fetch_logs)
  then show ?thesis
    by (auto simp: retryRequest_def async_simps split: prod.splits sum.splits if_splits dest!: read_silent)
qed

lemma auth_result:
  "auth_header d ctx s = (Inr auth, s') \<Longrightarrow> map_of auth ''x-idempotency-key'' = None"
  by (auto simp: auth_header_def async_simps split: if_splits option.splits prod.splits sum.splits)

lemma request_calls:
  "\<exists>calls. log (snd (http_request d ctx req s)) = log s @ calls \<and> length calls \<le> (if signed_in ctx then 2 else 1) \<and>
     list_all (same_request d ctx req) calls"
proof (cases "auth_header d ctx s")
  case (Pair r s1)
  note s1 = auth_silent [OF Pair]
  show ?thesis
  proof (cases r)
    case (Inl e)
    with Pair s1 show ?thesis
      by (intro exI [of _ "[]"]) (simp add: http_request_def requestInternal_def async_simps)
  next
    case (Inr auth)
    define hs where "hs = [(''Content-Type'', ''application/json''), (''x-correlation-id'', correlation_of ctx)]
                @ auth @ idempotency_header d ctx req"
    have key: "map_of auth ''x-idempotency-key'' = None"
      using Pair Inr by (intro auth_result) simp
    have same: "same_request d ctx req (fetch_of req hs)"
      "same_request d ctx req (fetch_of req (AList.update ''Authorization'' v hs))" for v
      using key by (simp_all add: same_request_def fetch_of_def hs_def map_of_jsmap_set map_add_def split: option.splits)
    obtain r2 s2 where f: "lift_error (hd_fetch d (fetch_of req hs)) s1 = (r2, s2)" by fastforce
    then have s2: "log s2 = log s @ [fetch_of req hs]"
      using fetch_logs [of "fetch_of req hs" s1] lift_state [of "hd_fetch d (fetch_of req hs)" s1] s1 by simp
    obtain r3 s3 where g: "lift_error (hd_sign d (context_payload (the ctx))) s2 = (r3, s3)" by fastforce
    then have s3: "log s3 = log s2"
      using sign_silent [of "context_payload (the ctx)" s2] lift_state [of "hd_sign d (context_payload (the ctx))" s2] by simp
    show ?thesis
    proof (cases "\<exists>resp jwt. r2 = Inr resp \<and> fr_status resp = 401 \<and> signed_in ctx \<and> r3 = Inr jwt")
      case True
      then obtain resp jwt where t: "r2 = Inr resp" "fr_status resp = 401" "signed_in ctx" "r3 = Inr jwt" by blast
      let ?again = "fetch_of req (AList.update ''Authorization'' (''Bearer '' @ jwt) hs)"
      have "log (snd (http_request d ctx req s)) = log (snd (retryRequest d req (AList.update ''Authorization'' (''Bearer '' @ jwt) hs) s3))"
        using Pair Inr f g t by (auto simp: http_request_def requestInternal_def async_simps Let_def hs_def split: prod.splits sum.splits)
      then have "log (snd (http_request d ctx req s)) = log s @ [fetch_of req hs, ?again]"
        using retry_once s3 s2 by simp
      with t same show ?thesis by (intro exI [of _ "[fetch_of req hs, ?again]"]) simp
    next
      case False
      have "log (snd (http_request d ctx req s)) = log s2"
        using Pair Inr f g False s3
        by (auto simp: http_request_def requestInternal_def async_simps Let_def hs_def dest!: read_silent
            split: prod.splits sum.splits if_splits)
      with s2 same show ?thesis by (intro exI [of _ "[fetch_of req hs]"]) simp
    qed
  qed
qed

end

definition recording :: "'s http_deps \<Rightarrow> ('s \<times> fetch_call list) http_deps" where
  "recording d = \<lparr>
     hd_fetch = (\<lambda>c (s, cs). case hd_fetch d c s of (r, s') \<Rightarrow> (r, s', cs @ [c])),
     hd_sign = (\<lambda>p (s, cs). case hd_sign d p s of (r, s') \<Rightarrow> (r, s', cs)),
     hd_sha256 = hd_sha256 d\<rparr>"

interpretation rec: http_log "recording d" snd for d
  by unfold_locales (auto simp: recording_def split: prod.splits)

lemma same_request_recording: "same_request (recording d) ctx req = same_request d ctx req"
  by (rule ext) (simp add: same_request_def idempotency_header_def recording_def)

text \<open>
  A request to a downstream service is sent at most twice, and at most once when nobody is signed
  in; every time it is sent to the same URL with the same method, the same body and the same
  idempotency key, so that the downstream service can recognise the second attempt as a repetition
  of the first.
\<close>

lemma http_sent_at_most_twice:
  "length (snd (snd (http_request (recording d) ctx req (s, [])))) \<le> (if signed_in ctx then 2 else 1) \<and>
   list_all (same_request d ctx req) (snd (snd (http_request (recording d) ctx req (s, []))))"
  using rec.request_calls [of d ctx req "(s, [])"] by (auto simp: same_request_recording)

text \<open>A downstream service that rejects every token, and a signer that returns a fixed one.\<close>

definition rejecting_deps :: "unit http_deps" where
  "rejecting_deps = \<lparr>
     hd_fetch = (\<lambda>c. ret \<lparr>fr_status = 401, fr_statusText = ''Unauthorized'', fr_json = Inr JNull\<rparr>),
     hd_sign = (\<lambda>p. ret ''token''),
     hd_sha256 = id\<rparr>"

definition demo_context :: request_context where
  "demo_context = \<lparr>rc_correlationId = ''c1'', rc_causationId = None, rc_userId = Some ''u1'',
     rc_tenantId = None, rc_timestamp = 0, rc_metadata = None\<rparr>"

definition demo_post :: port_http_request where
  "demo_post = \<lparr>hr_url = ''http://payment/submit'', hr_method = POST, hr_portName = ''payment'',
     hr_timeout = Some 3000, hr_body = Some [], hr_params = None\<rparr>"

end
