(* ===== verification/Port_Services.thy ===== *)
theory Port_Services
  imports Port_Http Memory_Cache
begin

text \<open>
  The services the port registry is built from: the endpoint configuration
  (src/libs/shared/endpoint-config), the replay queue (src/libs/shared/queue/queue.service.ts) and
  the deduplication of inbound messages (src/libs/shared/port/inbound-idempotency.service.ts). The
  file system, the YAML parser, the \<^verbatim>\<open>zod\<close> check and BullMQ are arguments.
\<close>

section \<open>Endpoint configuration\<close>

datatype cache_tier = Static | Dynamic | Transaction
datatype queue_policy = QNever | QOnCacheMiss | QAlways
datatype adapter_kind = Mock | Live

record port_cb_config =
  pcb_errorThreshold :: int
  pcb_resetTimeout :: int
  pcb_minRequests :: int

record port_endpoint_config =
  ep_adapter :: adapter_kind
  ep_baseUrl :: "string option"
  ep_timeout :: int
  ep_cacheTier :: cache_tier
  ep_cacheTtl :: "int option"
  ep_queuePolicy :: "queue_policy option"
  ep_circuitBreaker :: "port_cb_config option"

type_synonym endpoint_configs = "(string, port_endpoint_config) jsmap"

definition getEndpointConfig :: "string \<Rightarrow> endpoint_configs \<Rightarrow> port_error + port_endpoint_config" where
  "getEndpointConfig portName cfg =
     (case map_of cfg portName of
        None \<Rightarrow> Inl (not_found_error (''Endpoint config not found for port: '' @ portName))
      | Some c \<Rightarrow> Inr c)"

definition hasEndpointConfig :: "string \<Rightarrow> endpoint_configs \<Rightarrow> bool" where
  "hasEndpointConfig portName cfg = (map_of cfg portName \<noteq> None)"

text \<open>
  \<^verbatim>\<open>content.replace(/\$\{([^}]+)\}/g, ...)\<close>: a placeholder is a dollar, an opening brace, at
  least one character that is no closing brace, and a closing brace.
\<close>

definition missing_variable :: "string \<Rightarrow> js_error" where
  "missing_variable v = new_Error (''Required environment variable not set: '' @ v @ ''. ''
     @ ''Check your .env file or container environment configuration.'')"

function resolveEnvVars :: "(string \<rightharpoonup> string) \<Rightarrow> string \<Rightarrow> js_error + string" where
  "resolveEnvVars env [] = Inr []"
| "resolveEnvVars env (c # rest) =
     (let body = tl rest;
          varName = takeWhile (\<lambda>x. x \<noteq> CHR ''}'') body;
          after = dropWhile (\<lambda>x. x \<noteq> CHR ''}'') body
      in if c = CHR ''$'' \<and> rest \<noteq> [] \<and> hd rest = CHR ''{'' \<and> varName \<noteq> [] \<and> after \<noteq> []
         then (case env varName of
                 None \<Rightarrow> Inl (missing_variable varName)
               | Some v \<Rightarrow> map_sum id (\<lambda>r. v @ r) (resolveEnvVars env (tl after)))
         else map_sum id (\<lambda>r. c # r) (resolveEnvVars env rest))"
  by pat_completeness auto
termination
proof (relation "measure (length \<circ> snd)", goal_cases)
  case (2 env c rest)
  then show ?case
    using length_dropWhile_le [of "\<lambda>x. x \<noteq> CHR ''}''" "tl rest"] by simp
qed auto

text \<open>
  A reload replaces the whole map or leaves it alone. An invalid file is fatal outside production
  and ignored in production; every other failure is rethrown.
\<close>

definition loadConfig ::
  "(string \<rightharpoonup> string) \<Rightarrow> bool \<Rightarrow> js_error + string \<Rightarrow> (string \<Rightarrow> js_error + 'y) \<Rightarrow>
   ('y \<Rightarrow> string + (string \<times> port_endpoint_config) list) \<Rightarrow> (endpoint_configs, js_error, unit) async" where
  "loadConfig env production file parseYaml safeParse cfg =
     (case file of
        Inl e \<Rightarrow> (Inl e, cfg)
      | Inr rawContent \<Rightarrow>
          (case resolveEnvVars env rawContent of
             Inl e \<Rightarrow> (Inl e, cfg)
           | Inr resolvedContent \<Rightarrow>
               (case parseYaml resolvedContent of
                  Inl e \<Rightarrow> (Inl e, cfg)
                | Inr rawConfig \<Rightarrow>
                    (case safeParse rawConfig of
                       Inl msg \<Rightarrow>
                         if \<not> production
                         then (Inl (new_Error (''Invalid api-endpoints.yaml config: '' @ msg)), cfg)
                         else (Inr (), cfg)
                     | Inr services \<Rightarrow> (Inr (), foldl (\<lambda>m (k, v). AList.update k v m) [] services)))))"

text \<open>The watcher reloads on a change of the file and swallows the error.\<close>

definition watcher_change ::
  "(string \<rightharpoonup> string) \<Rightarrow> bool \<Rightarrow> js_error + string \<Rightarrow> (string \<Rightarrow> js_error + 'y) \<Rightarrow>
   ('y \<Rightarrow> string + (string \<times> port_endpoint_config) list) \<Rightarrow> endpoint_configs \<Rightarrow> endpoint_configs" where
  "watcher_change env production file parseYaml safeParse cfg =
     snd (try_catch (loadConfig env production file parseYaml safeParse) (\<lambda>e. ret ()) cfg)"

lemma map_of_services:
  "map_of (foldl (\<lambda>m (k, v). AList.update k v m) m0 services) k =
     (case map_of (rev services) k of None \<Rightarrow> map_of m0 k | Some v \<Rightarrow> Some v)"
  by (induction services arbitrary: m0)
    (auto simp: map_of_jsmap_set map_add_def split: option.splits)

section \<open>Templates resolve segment by segment\<close>

fun template :: "(string \<times> string) list \<Rightarrow> string \<Rightarrow> string" where
  "template [] end_text = end_text"
| "template ((lit, var) # segs) end_text = lit @ ''${'' @ var @ ''}'' @ template segs end_text"

lemma resolve_literal:
  "CHR ''$'' \<notin> set lit \<Longrightarrow>
   resolveEnvVars env (lit @ r) = map_sum id (\<lambda>x. lit @ x) (resolveEnvVars env r)"
proof (induction lit)
  case Nil
  then show ?case by (cases "resolveEnvVars env r") simp_all
next
  case (Cons c lit)
  then show ?case by (cases "resolveEnvVars env r") auto
qed

lemma resolve_variable:
  assumes "var \<noteq> []" "CHR ''}'' \<notin> set var"
  shows "resolveEnvVars env (''${'' @ var @ ''}'' @ r) =
    (case env var of None \<Rightarrow> Inl (missing_variable var)
     | Some v \<Rightarrow> map_sum id (\<lambda>x. v @ x) (resolveEnvVars env r))"
proof -
  have "takeWhile (\<lambda>x. x \<noteq> CHR ''}'') (var @ CHR ''}'' # r) = var"
    "dropWhile (\<lambda>x. x \<noteq> CHR ''}'') (var @ CHR ''}'' # r) = CHR ''}'' # r"
    using assms by (simp_all add: takeWhile_append dropWhile_append)
  with assms(1) show ?thesis by (simp add: Let_def split: option.splits)
qed

lemma resolve_template:
  "list_all (\<lambda>(lit, var). CHR ''$'' \<notin> set lit \<and> var \<noteq> [] \<and> CHR ''}'' \<notin> set var) segs \<Longrightarrow>
   CHR ''$'' \<notin> set end_text \<Longrightarrow>
   resolveEnvVars env (template segs end_text) =
     (case find (\<lambda>(lit, var). env var = None) segs of
        Some (lit, var) \<Rightarrow> Inl (missing_variable var)
      | None \<Rightarrow> Inr (concat (map (\<lambda>(lit, var). lit @ the (env var)) segs) @ end_text))"
proof (induction segs)
  case Nil
  then show ?case using resolve_literal [of end_text env "[]"] by simp
next
  case (Cons seg segs)
  obtain lit var where seg: "seg = (lit, var)" by (cases seg)
  with Cons.prems have "resolveEnvVars env (template (seg # segs) end_text) =
    map_sum id (\<lambda>x. lit @ x) (case env var of None \<Rightarrow> Inl (missing_variable var)
     | Some v \<Rightarrow> map_sum id (\<lambda>x. v @ x) (resolveEnvVars env (template segs end_text)))"
    using resolve_literal [of lit env "''${'' @ var @ ''}'' @ template segs end_text"]
      resolve_variable [of var env "template segs end_text"] by simp
  with Cons seg show ?case by (auto split: option.splits)
qed

section \<open>The replay queue\<close>

record replay_payload =
  rp_portName :: string
  rp_method :: string
  rp_params :: "(string \<times> json) list"
  rp_idempotencyKey :: "string option"
  rp_correlationId :: string
  rp_userId :: "string option"
  rp_tenantId :: "string option"
  rp_metadata :: "(string \<times> json) list option"

record job_options =
  jo_attempts :: int
  jo_backoffDelay :: int
  jo_removeOnComplete :: bool
  jo_removeOnFail :: bool

record 's queue_service =
  qs_enabled :: bool
  qs_queue :: "(replay_payload \<Rightarrow> job_options \<Rightarrow> ('s, port_error, string option) async) option"
  \<comment> \<open>\<^verbatim>\<open>queue.add\<close> of BullMQ, absent until the module is initialised\<close>
  qs_concurrency :: int
  qs_maxAttempts :: int
  qs_backoffDelay :: int

record queue_env =
  qe_REDIS_HOST :: "string option"
  qe_QUEUE_CONCURRENCY :: "int option"
  qe_QUEUE_MAX_ATTEMPTS :: "int option"
  qe_QUEUE_BACKOFF_MS :: "int option"

definition qs_new :: "queue_env \<Rightarrow> 's queue_service" where
  "qs_new env = \<lparr>qs_enabled = truthy_str (qe_REDIS_HOST env), qs_queue = None,
     qs_concurrency = js_nullish (qe_QUEUE_CONCURRENCY env) 4,
     qs_maxAttempts = js_nullish (qe_QUEUE_MAX_ATTEMPTS env) 5,
     qs_backoffDelay = js_nullish (qe_QUEUE_BACKOFF_MS env) 2000\<rparr>"

definition qs_onModuleInit ::
  "(replay_payload \<Rightarrow> job_options \<Rightarrow> ('s, port_error, string option) async) \<Rightarrow> 's queue_service \<Rightarrow> 's queue_service" where
  "qs_onModuleInit add q = (if \<not> qs_enabled q then q else q\<lparr>qs_queue := Some add\<rparr>)"

definition qs_enqueue :: "'s queue_service \<Rightarrow> replay_payload \<Rightarrow> ('s, port_error, string) async" where
  "qs_enqueue q payload =
     (if \<not> qs_enabled q then throw (plain_error ''Queue tier disabled (no Redis)'')
      else (case qs_queue q of
              None \<Rightarrow> throw (plain_error ''Queue tier disabled (no Redis)'')
            | Some add \<Rightarrow>
                bnd (add payload \<lparr>jo_attempts = qs_maxAttempts q, jo_backoffDelay = qs_backoffDelay q,
                       jo_removeOnComplete = True, jo_removeOnFail = False\<rparr>)
                  (\<lambda>jobId. ret (js_nullish jobId ''unknown''))))"

definition qs_worker ::
  "(replay_payload \<Rightarrow> ('w, port_error, 'a) async) option \<Rightarrow> replay_payload \<Rightarrow> ('w, port_error, 'a) async" where
  "qs_worker executor payload = (case executor of
     None \<Rightarrow> throw (plain_error ''Replay executor not registered'') | Some f \<Rightarrow> f payload)"

definition qs_dead_letter :: "'s queue_service \<Rightarrow> int option \<Rightarrow> int \<Rightarrow> bool" where
  "qs_dead_letter q jobAttempts attemptsMade = (attemptsMade \<ge> js_nullish jobAttempts (qs_maxAttempts q))"

section \<open>Deduplication of inbound messages\<close>

definition idem_TTL :: int where
  "idem_TTL = 86400"

definition idem_key :: "(string \<Rightarrow> string) \<Rightarrow> string \<Rightarrow> string" where
  "idem_key sha256 rawKey = ''idempotency:'' @ generateShortHash sha256 rawKey"

text \<open>A hit carries the data; the service may have no cache.\<close>

definition idem_check ::
  "('c, json) ICacheService option \<Rightarrow> (string \<Rightarrow> string) \<Rightarrow> msec \<Rightarrow> string \<Rightarrow> 'c \<Rightarrow> json option \<times> 'c" where
  "idem_check svc sha256 now rawKey c =
     (case svc of
        None \<Rightarrow> (None, c)
      | Some ic \<Rightarrow> (case ic_get ic now (idem_key sha256 rawKey) c of (cached, c') \<Rightarrow>
          (if json_present cached then cached else None, c')))"

definition idem_claim ::
  "('c, json) ICacheService option \<Rightarrow> (string \<Rightarrow> string) \<Rightarrow> msec \<Rightarrow> string \<Rightarrow> 'c \<Rightarrow> bool \<times> 'c" where
  "idem_claim svc sha256 now rawKey c =
     (case svc of
        None \<Rightarrow> (True, c)
      | Some ic \<Rightarrow> ic_setIfNotExist ic now (idem_key sha256 rawKey) (JStr ''claimed'') (Some idem_TTL) c)"

definition idem_store ::
  "('c, json) ICacheService option \<Rightarrow> (string \<Rightarrow> string) \<Rightarrow> msec \<Rightarrow> string \<Rightarrow> json \<Rightarrow> 'c \<Rightarrow> 'c" where
  "idem_store svc sha256 now rawKey result c =
     (case svc of
        None \<Rightarrow> c
      | Some ic \<Rightarrow> snd (ic_set ic now (idem_key sha256 rawKey) result (Some idem_TTL) c))"

end
