(* ===== verification/Port_Registry.thy ===== *)
theory Port_Registry
  imports Port_Services Circuit_Breaker
begin

text \<open>
  The port registry (src/libs/shared/port/port-registry.service.ts), through which every call to a
  downstream service goes: choice of the adapter, inbound idempotency, read cache, circuit breaker,
  the call, invalidation after writes, fallback and queueing; and its two clients, the aggregation
  service (aggregation.service.ts) and the health indicator (port-health-indicator.ts).

  The world holds the registry's own maps, the fallback provider, the endpoint configuration, the
  cache and the outside \<open>'s\<close> (downstream services and queue). The request context is an
  argument, \<open>t0\<close> is the time when the call starts and \<open>t1\<close> the time when the adapter has
  answered.
\<close>

section \<open>Data\<close>

type_synonym 's port_adapter =
  "request_context option \<Rightarrow> string \<Rightarrow> (string \<times> json) list \<Rightarrow> ('s, port_error, json) async"

record port_config =
  pc_name :: string
  pc_cacheTier :: cache_tier
  pc_cacheTtl :: int
  pc_timeout :: int
  pc_queuePolicy :: queue_policy
  pc_circuitBreaker :: "port_error circuit_options"
  pc_active :: bool

record port_config_override =
  po_name :: "string option"
  po_cacheTier :: "cache_tier option"
  po_cacheTtl :: "int option"
  po_timeout :: "int option"
  po_queuePolicy :: "queue_policy option"
  po_circuitBreaker :: "port_error circuit_options option"
  po_active :: "bool option"

record 's port_entry =
  pe_name :: string
  pe_mockAdapter :: "'s port_adapter"
  pe_liveAdapter :: "'s port_adapter"
  pe_config :: port_config

record port_result_metadata =
  md_cachedAt :: "json option"
  md_degraded :: "bool option"
  md_message :: "string option"
  md_fromIdempotency :: "bool option"

record port_result =
  pr_data :: "json option"
  pr_adapterUsed :: adapter_kind
  pr_fromCache :: bool
  pr_duration :: int
  pr_metadata :: "port_result_metadata option"

record ('c, 's) port_deps =
  pd_cache :: "('c, json) ICacheService"
  pd_sha256 :: "string \<Rightarrow> string"
  pd_idempotency :: "('c, json) ICacheService option option"
  \<comment> \<open>the optional idempotency service, itself with an optional cache\<close>
  pd_queue :: "'s queue_service option"
  pd_mockMode :: bool

record ('c, 's) port_world =
  pw_ports :: "(string, 's port_entry) jsmap"
  pw_breakers :: "(string, port_error circuit) jsmap"
  pw_fallback :: fallback_provider
  pw_config :: endpoint_configs
  pw_cache :: 'c
  pw_env :: 's

section \<open>Defaults\<close>

fun DEFAULT_TTL_BY_TIER :: "cache_tier \<Rightarrow> int" where
  "DEFAULT_TTL_BY_TIER Static = 43200"
| "DEFAULT_TTL_BY_TIER Dynamic = 900"
| "DEFAULT_TTL_BY_TIER Transaction = 0"

definition defaultQueuePolicy :: "cache_tier \<Rightarrow> queue_policy" where
  "defaultQueuePolicy tier = (if tier = Transaction then QAlways else QOnCacheMiss)"

definition isInfrastructureError :: "port_error \<Rightarrow> bool" where
  "isInfrastructureError e = (case e of
     PortDownstreamException p statusCode txt url \<Rightarrow> statusCode \<ge> 500 | _ \<Rightarrow> True)"

definition mutation_verbs :: "string list" where
  "mutation_verbs = [''create'', ''update'', ''delete'', ''remove'', ''add'', ''insert'', ''save'',
     ''send'', ''submit'', ''dispatch'', ''pay'', ''setup'', ''initiate'', ''retry'', ''cancel'',
     ''confirm'', ''generate'', ''register'', ''verify'', ''login'', ''logout'', ''refresh'', ''link'',
     ''unlink'', ''close'', ''archive'', ''assign'', ''sign'', ''post'', ''put'']"

definition isMutationMethod :: "string \<Rightarrow> bool" where
  "isMutationMethod method = list_ex (\<lambda>verb. starts_with verb method) mutation_verbs"

definition buildCacheKey :: "(string \<Rightarrow> string) \<Rightarrow> string \<Rightarrow> string \<Rightarrow> (string \<times> json) list \<Rightarrow> string" where
  "buildCacheKey sha256 portName method params =
     ''cache:v2:port:'' @ portName @ '':'' @
       generateShortHash sha256 (stringify (JObj [(''method'', JStr method), (''params'', JObj params)]))"

section \<open>Registration\<close>

definition port_breaker_options :: "string \<Rightarrow> port_cb_config option \<Rightarrow> port_error circuit_options" where
  "port_breaker_options name cb =
     \<lparr>cbo_timeout = None,
      cbo_errorThreshold = Some (case cb of None \<Rightarrow> 50 | Some c \<Rightarrow> pcb_errorThreshold c),
      cbo_resetTimeout = Some (case cb of None \<Rightarrow> 10000 | Some c \<Rightarrow> pcb_resetTimeout c),
      cbo_minRequests = Some (case cb of None \<Rightarrow> 5 | Some c \<Rightarrow> pcb_minRequests c),
      cbo_errorFilter = Some isInfrastructureError, cbo_name = Some name\<rparr>"

definition spread_config :: "port_config \<Rightarrow> port_config_override option \<Rightarrow> port_config" where
  "spread_config base config =
     (case config of
        None \<Rightarrow> base
      | Some o' \<Rightarrow>
          \<lparr>pc_name = js_nullish (po_name o') (pc_name base),
           pc_cacheTier = js_nullish (po_cacheTier o') (pc_cacheTier base),
           pc_cacheTtl = js_nullish (po_cacheTtl o') (pc_cacheTtl base),
           pc_timeout = js_nullish (po_timeout o') (pc_timeout base),
           pc_queuePolicy = js_nullish (po_queuePolicy o') (pc_queuePolicy base),
           pc_circuitBreaker = js_nullish (po_circuitBreaker o') (pc_circuitBreaker base),
           pc_active = js_nullish (po_active o') (pc_active base)\<rparr>)"

definition resolved_config ::
  "string \<Rightarrow> endpoint_configs \<Rightarrow> port_config_override option \<Rightarrow> port_config" where
  "resolved_config name cfg config =
     (case map_of cfg name of
        Some ep \<Rightarrow> spread_config
          \<lparr>pc_name = name, pc_cacheTier = ep_cacheTier ep,
           pc_cacheTtl = js_nullish (ep_cacheTtl ep) (DEFAULT_TTL_BY_TIER (ep_cacheTier ep)),
           pc_timeout = ep_timeout ep,
           pc_queuePolicy = js_nullish (ep_queuePolicy ep) (defaultQueuePolicy (ep_cacheTier ep)),
           pc_circuitBreaker = port_breaker_options name (ep_circuitBreaker ep),
           pc_active = True\<rparr> config
      | None \<Rightarrow> spread_config
          \<lparr>pc_name = name, pc_cacheTier = Dynamic, pc_cacheTtl = DEFAULT_TTL_BY_TIER Dynamic,
           pc_timeout = 3000, pc_queuePolicy = QNever,
           pc_circuitBreaker = port_breaker_options name None, pc_active = True\<rparr> config)"

definition port_fallback :: "string \<Rightarrow> fallback_fn" where
  "port_fallback name = (\<lambda>err ctx cache.
     let cached = cache_lookup name cache
     in if json_present cached then Inr (the cached) else Inl (PortFallbackException name None))"

definition port_register ::
  "msec \<Rightarrow> string \<Rightarrow> 's port_adapter \<Rightarrow> 's port_adapter \<Rightarrow> port_config_override option \<Rightarrow>
   ('c, 's) port_world \<Rightarrow> ('c, 's) port_world" where
  "port_register now name mockAdapter liveAdapter config w =
     (let resolvedConfig = resolved_config name (pw_config w) config
      in w\<lparr>pw_breakers := AList.update name (cb_new (pc_circuitBreaker resolvedConfig) now) (pw_breakers w),
           pw_fallback := fp_register name (port_fallback name) (pw_fallback w),
           pw_ports := AList.update name \<lparr>pe_name = name, pe_mockAdapter = mockAdapter,
             pe_liveAdapter = liveAdapter, pe_config = resolvedConfig\<rparr> (pw_ports w)\<rparr>)"

section \<open>Access to the parts of the world\<close>

definition on_pcache :: "('c \<Rightarrow> 'a \<times> 'c) \<Rightarrow> (('c, 's) port_world, port_error, 'a) async" where
  "on_pcache f = (\<lambda>w. case f (pw_cache w) of (a, c') \<Rightarrow> (Inr a, w\<lparr>pw_cache := c'\<rparr>))"

definition on_env :: "('s, port_error, 'a) async \<Rightarrow> (('c, 's) port_world, port_error, 'a) async" where
  "on_env m = (\<lambda>w. case m (pw_env w) of (r, s') \<Rightarrow> (r, w\<lparr>pw_env := s'\<rparr>))"

definition attempt :: "('w, 'e, 'a) async \<Rightarrow> ('w, 'e, 'e + 'a) async" where
  "attempt m = (\<lambda>w. case m w of (r, w') \<Rightarrow> (Inr r, w'))"
  \<comment> \<open>the outcome of a \<^verbatim>\<open>try\<close> block, to be inspected after it\<close>

definition breaker_update ::
  "string \<Rightarrow> (port_error circuit \<Rightarrow> port_error circuit) \<Rightarrow> ('c, 's) port_world \<Rightarrow> ('c, 's) port_world" where
  "breaker_update portName f w = (case map_of (pw_breakers w) portName of
     None \<Rightarrow> w
   | Some cb \<Rightarrow> w\<lparr>pw_breakers := AList.update portName (f cb) (pw_breakers w)\<rparr>)"
  \<comment> \<open>\<^verbatim>\<open>cb?.method()\<close> on the breaker object of the port\<close>

definition setCached_world :: "msec \<Rightarrow> string \<Rightarrow> json \<Rightarrow> ('c, 's) port_world \<Rightarrow> ('c, 's) port_world" where
  "setCached_world now portName v w = w\<lparr>pw_fallback := fp_setCached now portName v None (pw_fallback w)\<rparr>"

section \<open>Fallback and queue\<close>

definition executeFallback ::
  "msec \<Rightarrow> msec \<Rightarrow> string \<Rightarrow> adapter_kind \<Rightarrow> port_error option \<Rightarrow> (('c, 's) port_world, port_error, port_result) async" where
  "executeFallback t0 t portName adapterUsed originalError =
     bnd (reads (\<lambda>w. fp_execute portName
            (js_nullish originalError (plain_error (''Circuit breaker open for '' @ portName)))
            \<lparr>fc_operation = portName, fc_args = [], fc_attempt = 1, fc_duration = t - t0,
             fc_failureType = FCircuitBreaker\<rparr> (pw_fallback w)))
       (\<lambda>r. case r of
          Inr fallbackData \<Rightarrow> ret
            \<lparr>pr_data = Some fallbackData, pr_adapterUsed = adapterUsed, pr_fromCache = True,
             pr_duration = t - t0,
             pr_metadata = Some \<lparr>md_cachedAt = Some (JStr (toISOString t)), md_degraded = Some True,
               md_message = Some ''Service temporarily unavailable, serving cached data'',
               md_fromIdempotency = None\<rparr>\<rparr>
        | Inl fallbackError \<Rightarrow>
            throw (PortFallbackException portName (Some (js_nullish originalError fallbackError))))"

definition replay_of ::
  "request_context option \<Rightarrow> string \<Rightarrow> string \<Rightarrow> (string \<times> json) list \<Rightarrow> string option \<Rightarrow> replay_payload" where
  "replay_of ctx portName method params idempotencyKey =
     \<lparr>rp_portName = portName, rp_method = method, rp_params = params,
      rp_idempotencyKey = idempotencyKey, rp_correlationId = correlation_of ctx,
      rp_userId = Option.bind ctx rc_userId, rp_tenantId = Option.bind ctx rc_tenantId,
      rp_metadata = Option.bind ctx rc_metadata\<rparr>"

definition enqueue ::
  "'s queue_service \<Rightarrow> request_context option \<Rightarrow> string \<Rightarrow> string \<Rightarrow> (string \<times> json) list \<Rightarrow> string option \<Rightarrow>
   (('c, 's) port_world, port_error, string) async" where
  "enqueue q ctx portName method params idempotencyKey =
     on_env (qs_enqueue q (replay_of ctx portName method params idempotencyKey))"

definition queue_stale ::
  "'s queue_service \<Rightarrow> request_context option \<Rightarrow> msec \<Rightarrow> msec \<Rightarrow> string \<Rightarrow> adapter_kind \<Rightarrow> string \<Rightarrow>
   (string \<times> json) list \<Rightarrow> string option \<Rightarrow> json \<Rightarrow> (('c, 's) port_world, port_error, port_result) async" where
  "queue_stale q ctx t0 t portName adapterUsed method params idempotencyKey cached =
     seq (attempt (enqueue q ctx portName method params idempotencyKey))
       (ret \<lparr>pr_data = Some cached, pr_adapterUsed = adapterUsed, pr_fromCache = True,
             pr_duration = t - t0,
             pr_metadata = Some \<lparr>md_cachedAt = Some (JStr (toISOString t)), md_degraded = Some True,
               md_message = Some ''Service temporarily unavailable, serving cached data (refresh queued)'',
               md_fromIdempotency = None\<rparr>\<rparr>)"

definition executeWithQueue ::
  "('c, 's) port_deps \<Rightarrow> request_context option \<Rightarrow> msec \<Rightarrow> msec \<Rightarrow> string \<Rightarrow> 's port_entry \<Rightarrow> adapter_kind \<Rightarrow>
   port_error option \<Rightarrow> string \<Rightarrow> (string \<times> json) list \<Rightarrow> string option \<Rightarrow>
   (('c, 's) port_world, port_error, port_result) async" where
  "executeWithQueue d ctx t0 t portName entry adapterUsed originalError method params idempotencyKey =
     (case pd_queue d of
        None \<Rightarrow> executeFallback t0 t portName adapterUsed originalError
      | Some q \<Rightarrow>
          if pc_queuePolicy (pe_config entry) = QNever
          then executeFallback t0 t portName adapterUsed originalError
          else
            bnd (reads (\<lambda>w. fp_getCached portName (pw_fallback w))) (\<lambda>cached.
              if pc_queuePolicy (pe_config entry) = QOnCacheMiss \<and> json_present cached
              then queue_stale q ctx t0 t portName adapterUsed method params idempotencyKey (the cached)
              else bnd (enqueue q ctx portName method params idempotencyKey)
                     (\<lambda>jobId. throw (PortQueuedException portName jobId))))"

section \<open>A call\<close>

definition choose_adapter ::
  "('c, 's) port_deps \<Rightarrow> string \<Rightarrow> 's port_entry \<Rightarrow> endpoint_configs \<Rightarrow> adapter_kind" where
  "choose_adapter d portName entry cfg =
     (if pd_mockMode d then Mock
      else case map_of cfg portName of
             Some ep \<Rightarrow> if ep_adapter ep = Mock then Mock else Live
           | None \<Rightarrow> Live)"

definition adapter_of :: "'s port_entry \<Rightarrow> adapter_kind \<Rightarrow> 's port_adapter" where
  "adapter_of entry used = (case used of Mock \<Rightarrow> pe_mockAdapter entry | Live \<Rightarrow> pe_liveAdapter entry)"

definition with_idempotency ::
  "('c, 's) port_deps \<Rightarrow> string option \<Rightarrow> (('c, json) ICacheService option \<Rightarrow> string \<Rightarrow> 'a) \<Rightarrow> 'a \<Rightarrow> 'a" where
  "with_idempotency d key f dflt =
     (if truthy_str key then (case pd_idempotency d of None \<Rightarrow> dflt | Some svc \<Rightarrow> f svc (the key)) else dflt)"

definition idempotency_lookup ::
  "('c, 's) port_deps \<Rightarrow> msec \<Rightarrow> string option \<Rightarrow> (('c, 's) port_world, port_error, json option) async" where
  "idempotency_lookup d t key =
     with_idempotency d key (\<lambda>svc k. on_pcache (idem_check svc (pd_sha256 d) t k)) (ret None)"

definition should_cache :: "string \<Rightarrow> 's port_entry \<Rightarrow> bool" where
  "should_cache method entry =
     (\<not> isMutationMethod method \<and> pc_cacheTier (pe_config entry) \<noteq> Transaction \<and>
      pc_cacheTtl (pe_config entry) > 0)"

definition read_cached ::
  "('c, 's) port_deps \<Rightarrow> msec \<Rightarrow> bool \<Rightarrow> string \<Rightarrow> (('c, 's) port_world, port_error, json option) async" where
  "read_cached d t shouldCache cacheKey =
     (if shouldCache then on_pcache (ic_get (pd_cache d) t cacheKey) else ret None)"

definition breaker_admit :: "msec \<Rightarrow> string \<Rightarrow> (('c, 's) port_world, port_error, bool) async" where
  "breaker_admit t portName = (\<lambda>w.
     (Inr (case map_of (pw_breakers w) portName of None \<Rightarrow> True | Some cb \<Rightarrow> fst (cb_admit t cb)),
      breaker_update portName (\<lambda>cb. snd (cb_admit t cb)) w))"

definition post_process ::
  "('c, 's) port_deps \<Rightarrow> msec \<Rightarrow> string \<Rightarrow> 's port_entry \<Rightarrow> string \<Rightarrow> bool \<Rightarrow> string \<Rightarrow> string option \<Rightarrow> json \<Rightarrow>
   (('c, 's) port_world, port_error, unit) async" where
  "post_process d t1 portName entry method shouldCache cacheKey idempotencyKey data =
     seq (if isMutationMethod method
          then seq (on_pcache (ic_deleteByPattern (pd_cache d) (''cache:v2:port:'' @ portName @ '':*''))) (ret ())
          else ret ())
    (seq (if shouldCache
          then seq (on_pcache (ic_set (pd_cache d) t1 cacheKey
                 (JObj [(''data'', data), (''cachedAt'', JStr (toISOString t1))])
                 (Some (pc_cacheTtl (pe_config entry))))) (ret ())
          else ret ())
    (seq (writes (setCached_world t1 portName data))
         (with_idempotency d idempotencyKey
            (\<lambda>svc k. on_pcache (\<lambda>c. ((), idem_store svc (pd_sha256 d) t1 k data c))) (ret ()))))"

definition port_call ::
  "('c, 's) port_deps \<Rightarrow> request_context option \<Rightarrow> msec \<Rightarrow> msec \<Rightarrow> string \<Rightarrow> 's port_entry \<Rightarrow> adapter_kind \<Rightarrow>
   string \<Rightarrow> (string \<times> json) list \<Rightarrow> bool \<Rightarrow> string \<Rightarrow> string option \<Rightarrow>
   (('c, 's) port_world, port_error, port_result) async" where
  "port_call d ctx t0 t1 portName entry adapterUsed method params shouldCache cacheKey idempotencyKey =
     bnd (attempt (on_env (adapter_of entry adapterUsed ctx method params))) (\<lambda>outcome.
       case outcome of
         Inr data \<Rightarrow>
           seq (writes (breaker_update portName (cb_recordSuccess t1)))
          (seq (post_process d t1 portName entry method shouldCache cacheKey idempotencyKey data)
               (ret \<lparr>pr_data = Some data, pr_adapterUsed = adapterUsed, pr_fromCache = False,
                     pr_duration = t1 - t0, pr_metadata = None\<rparr>))
       | Inl originalError \<Rightarrow>
           seq (writes (breaker_update portName (cb_settleFailure t1 originalError)))
               (executeWithQueue d ctx t0 t1 portName entry adapterUsed (Some originalError) method params
                  idempotencyKey))"

definition execute_entry ::
  "('c, 's) port_deps \<Rightarrow> request_context option \<Rightarrow> msec \<Rightarrow> msec \<Rightarrow> string \<Rightarrow> 's port_entry \<Rightarrow> string \<Rightarrow>
   (string \<times> json) list \<Rightarrow> string option \<Rightarrow> (('c, 's) port_world, port_error, port_result) async" where
  "execute_entry d ctx t0 t1 portName entry method params idempotencyKey =
     bnd (reads (\<lambda>w. choose_adapter d portName entry (pw_config w))) (\<lambda>adapterUsed.
     bnd (idempotency_lookup d t0 idempotencyKey) (\<lambda>repeated.
       case repeated of
         Some data \<Rightarrow> ret \<lparr>pr_data = Some data, pr_adapterUsed = adapterUsed, pr_fromCache = True,
           pr_duration = 0,
           pr_metadata = Some \<lparr>md_cachedAt = None, md_degraded = None, md_message = None,
             md_fromIdempotency = Some True\<rparr>\<rparr>
       | None \<Rightarrow>
           let shouldCache = should_cache method entry;
               cacheKey = buildCacheKey (pd_sha256 d) portName method params in
           bnd (read_cached d t0 shouldCache cacheKey) (\<lambda>cached.
             if json_present cached
             then ret \<lparr>pr_data = json_get ''data'' (the cached), pr_adapterUsed = adapterUsed,
               pr_fromCache = True, pr_duration = 0,
               pr_metadata = Some \<lparr>md_cachedAt = json_get ''cachedAt'' (the cached), md_degraded = None,
                 md_message = None, md_fromIdempotency = None\<rparr>\<rparr>
             else
               bnd (breaker_admit t0 portName) (\<lambda>admitted.
                 if \<not> admitted
                 then executeWithQueue d ctx t0 t0 portName entry adapterUsed None method params idempotencyKey
                 else port_call d ctx t0 t1 portName entry adapterUsed method params shouldCache cacheKey
                        idempotencyKey))))"

definition execute ::
  "('c, 's) port_deps \<Rightarrow> request_context option \<Rightarrow> msec \<Rightarrow> msec \<Rightarrow> string \<Rightarrow> string \<Rightarrow> (string \<times> json) list \<Rightarrow>
   string option \<Rightarrow> (('c, 's) port_world, port_error, port_result) async" where
  "execute d ctx t0 t1 portName method params idempotencyKey =
     bnd (reads (\<lambda>w. map_of (pw_ports w) portName)) (\<lambda>found.
       case found of
         None \<Rightarrow> throw (PortNotRegisteredException portName)
       | Some entry \<Rightarrow> execute_entry d ctx t0 t1 portName entry method params idempotencyKey)"

section \<open>Replay\<close>

definition executeReplay ::
  "msec \<Rightarrow> string \<Rightarrow> replay_payload \<Rightarrow> (('c, 's) port_world, port_error, json) async" where
  "executeReplay now uuid payload =
     bnd (reads (\<lambda>w. map_of (pw_ports w) (rp_portName payload))) (\<lambda>found.
       case found of
         None \<Rightarrow> throw (PortNotRegisteredException (rp_portName payload))
       | Some entry \<Rightarrow>
           bnd (on_env (pe_liveAdapter entry
                  (Some (rc_createFull now uuid \<lparr>xo_correlationId = Some (rp_correlationId payload),
                     xo_causationId = None, xo_userId = rp_userId payload, xo_tenantId = rp_tenantId payload,
                     xo_metadata = rp_metadata payload\<rparr>))
                  (rp_method payload) (rp_params payload)))
             (\<lambda>data. seq (writes (setCached_world now (rp_portName payload) data)) (ret data)))"

section \<open>Inspection\<close>

definition getPort :: "string \<Rightarrow> ('c, 's) port_world \<Rightarrow> 's port_entry option" where
  "getPort name w = map_of (pw_ports w) name"

definition hasPort :: "string \<Rightarrow> ('c, 's) port_world \<Rightarrow> bool" where
  "hasPort name w = (map_of (pw_ports w) name \<noteq> None)"

definition getPortNames :: "('c, 's) port_world \<Rightarrow> string list" where
  "getPortNames w = map fst (pw_ports w)"

definition getCircuitBreakerState :: "string \<Rightarrow> ('c, 's) port_world \<Rightarrow> circuit_state option" where
  "getCircuitBreakerState portName w = map_option cb_state (map_of (pw_breakers w) portName)"

definition getAllCircuitBreakerStates ::
  "('c, 's) port_world \<Rightarrow> (string \<times> circuit_state \<times> nat \<times> nat \<times> rat \<times> rat) list" where
  "getAllCircuitBreakerStates w = map (\<lambda>(portName, cb). (portName, cb_state cb, cb_getMetrics cb)) (pw_breakers w)"

end
