(* ===== verification/Breaker_Protocol.thy ===== *)
theory Breaker_Protocol
  imports Circuit_Breaker
begin

text \<open>
  An abstract circuit breaker, written down without the code's state machine: its phase holds only what matters in it,
  and each call that gets past the caches moves it by one rule. The breaker of the code
  (src/libs/shared/resilience/circuit-breaker.state.ts) refines it: \<open>phase_of\<close> reads the phase off its state.
\<close>

section \<open>The abstract breaker\<close>

text \<open>
  While counting, the phase knows when its window began, how many calls it counts, how many of them succeeded since the
  breaker closed and how many failed; while refusing, since when.
\<close>

datatype breaker_phase = Counting msec nat nat nat | Refusing msec | Trying

record breaker_limits =
  bl_window :: int
  bl_least :: int  \<comment> \<open>calls before the breaker can trip\<close>
  bl_percent :: int
  bl_reset :: int

text \<open>A call that reached the breaker: when it began, when it was answered, and the error if it failed.\<close>

datatype 'e asked = Asked msec msec "'e option"

definition trips :: "breaker_limits \<Rightarrow> nat \<Rightarrow> nat \<Rightarrow> bool" where
  "trips L calls failures \<longleftrightarrow> bl_least L \<le> int calls \<and> bl_percent L * int calls \<le> 100 * int failures"

text \<open>When the window is over, the count of calls starts again from the successes.\<close>

definition count_on :: "breaker_limits \<Rightarrow> msec \<Rightarrow> msec \<Rightarrow> nat \<Rightarrow> nat \<Rightarrow> nat \<Rightarrow> breaker_phase" where
  "count_on L now since calls successes failures =
     (if now - since > bl_window L then Counting now successes successes failures
      else Counting since calls successes failures)"

fun tripped :: "breaker_limits \<Rightarrow> msec \<Rightarrow> breaker_phase \<Rightarrow> breaker_phase" where
  "tripped L now (Counting since calls successes failures) =
     (if trips L calls failures then Refusing now else Counting since calls successes failures)"
| "tripped L now p = p"

fun succeeded :: "breaker_limits \<Rightarrow> msec \<Rightarrow> breaker_phase \<Rightarrow> breaker_phase" where
  "succeeded L now (Counting since calls successes failures) =
     count_on L now since (Suc calls) (Suc successes) failures"
| "succeeded L now Trying = Counting now 0 0 0"
| "succeeded L now (Refusing since) = Refusing since"

fun failed :: "breaker_limits \<Rightarrow> bool \<Rightarrow> msec \<Rightarrow> breaker_phase \<Rightarrow> breaker_phase" where
  "failed L counted now (Counting since calls successes failures) = tripped L now
     (if counted then count_on L now since (Suc calls) successes (Suc failures)
      else Counting since calls successes failures)"
| "failed L counted now Trying = (if counted then Refusing now else Trying)"
| "failed L counted now (Refusing since) = Refusing since"

text \<open>A refusing breaker refuses until its reset time has passed; then one call tries.\<close>

fun refuses_at :: "breaker_limits \<Rightarrow> msec \<Rightarrow> breaker_phase \<Rightarrow> bool" where
  "refuses_at L now (Refusing since) \<longleftrightarrow> now - since < bl_reset L"
| "refuses_at L now p \<longleftrightarrow> False"

fun let_in :: "breaker_phase \<Rightarrow> breaker_phase" where
  "let_in (Refusing since) = Trying"
| "let_in p = p"

fun phase_step :: "breaker_limits \<Rightarrow> ('e \<Rightarrow> bool) \<Rightarrow> 'e asked \<Rightarrow> breaker_phase \<Rightarrow> breaker_phase" where
  "phase_step L counts (Asked t0 t1 outcome) p =
     (if refuses_at L t0 p then p
      else case outcome of None \<Rightarrow> succeeded L t1 (let_in p) | Some e \<Rightarrow> failed L (counts e) t1 (let_in p))"

section \<open>The code's breaker as an abstract one\<close>

definition phase_of :: "'e circuit \<Rightarrow> breaker_phase" where
  "phase_of cb = (case cb_state cb of
     CLOSED \<Rightarrow> Counting (cb_stateChangedAt cb) (cb_requests cb) (cb_successCount cb) (cb_failures cb)
   | OPEN \<Rightarrow> Refusing (cb_stateChangedAt cb)
   | HALF_OPEN \<Rightarrow> Trying)"

definition limits_of :: "'e circuit_options \<Rightarrow> breaker_limits" where
  "limits_of opts = \<lparr>bl_window = js_or_num (cbo_timeout opts) 60000, bl_least = js_or_num (cbo_minRequests opts) 10,
     bl_percent = js_or_num (cbo_errorThreshold opts) 50, bl_reset = js_or_num (cbo_resetTimeout opts) 30000\<rparr>"

definition counts_of :: "'e circuit_options \<Rightarrow> 'e \<Rightarrow> bool" where
  "counts_of opts e = (\<forall>f. cbo_errorFilter opts = Some f \<longrightarrow> f e)"

text \<open>The two counts of failures agree, and a breaker that tries has counted nothing yet.\<close>

definition breaker_sound :: "'e circuit \<Rightarrow> bool" where
  "breaker_sound cb \<longleftrightarrow> cb_trial_clean cb \<and> cb_failures cb = cb_failureCount cb"

lemma cb_new_sound: "breaker_sound (cb_new opts now)"
  by (simp add: breaker_sound_def cb_new_trial_clean) (simp add: cb_new_def)

lemma step_sound: "cb_step now ev cb cb' \<Longrightarrow> breaker_sound cb \<Longrightarrow> breaker_sound cb'"
proof -
  assume step: "cb_step now ev cb cb'" and s: "breaker_sound cb"
  have "cb_failures cb' = cb_failureCount cb'"
    using step s by (induction rule: cb_step.induct)
      (auto simp: breaker_sound_def cb_admit_def cb_settleFailure_def cb_record_defs)
  with cb_step_trial_clean [OF step] s show ?thesis by (simp add: breaker_sound_def)
qed

lemma counts_of_cb: "cb_counts cb e = counts_of (cb_options cb) e"
  by (simp add: cb_counts_def counts_of_def split: option.split)

lemma admit_phase:
  "fst (cb_admit t cb) \<longleftrightarrow> \<not> refuses_at (limits_of (cb_options cb)) t (phase_of cb)"
  "phase_of (snd (cb_admit t cb)) =
     (if refuses_at (limits_of (cb_options cb)) t (phase_of cb) then phase_of cb else let_in (phase_of cb))"
  by (auto simp: cb_admit_def phase_of_def limits_of_def cb_shouldAttemptReset_def cb_resetAfter_def
      split: circuit_state.splits)

lemma success_phase:
  assumes "cb_state cb \<noteq> OPEN" "breaker_sound cb"
  shows "phase_of (cb_recordSuccess t cb) = succeeded (limits_of (cb_options cb)) t (phase_of cb)"
  using assms by (cases "cb_state cb")
    (auto simp: phase_of_def cb_record_defs limits_of_def count_on_def cb_window_def breaker_sound_def)

lemma trips_iff:
  assumes "0 < bl_least (limits_of (cb_options cb))" "cb_state cb \<noteq> OPEN"
  shows "cb_shouldOpen cb \<longleftrightarrow> trips (limits_of (cb_options cb)) (cb_requests cb) (cb_failures cb)"
proof (cases "cb_requests cb = 0")
  case True
  with assms show ?thesis by (simp add: cb_shouldOpen_def trips_def limits_of_def)
next
  case False
  let ?p = "js_or_num (cbo_errorThreshold (cb_options cb)) 50"
  have "(of_int ?p :: rat) \<le> of_nat (cb_failures cb) / of_nat (cb_requests cb) * 100 \<longleftrightarrow>
      (of_int ?p :: rat) * of_nat (cb_requests cb) \<le> 100 * of_nat (cb_failures cb)"
    using False by (simp add: field_simps)
  also have "\<dots> \<longleftrightarrow> (of_int (?p * int (cb_requests cb)) :: rat) \<le> of_int (100 * int (cb_failures cb))"
    by simp
  also have "\<dots> \<longleftrightarrow> ?p * int (cb_requests cb) \<le> 100 * int (cb_failures cb)"
    by (rule of_int_le_iff)
  finally show ?thesis
    using assms False by (auto simp: cb_shouldOpen_def trips_def limits_of_def cb_getFailureRate_def)
qed

lemma failure_options [simp]: "cb_options (cb_recordFailure t e cb) = cb_options cb"
  by (simp add: cb_recordFailure_def Let_def)

lemma record_failure_phase:
  assumes "cb_state cb = CLOSED" "breaker_sound cb"
  shows "phase_of (cb_recordFailure t e cb) =
    (if counts_of (cb_options cb) e
     then count_on (limits_of (cb_options cb)) t (cb_stateChangedAt cb) (Suc (cb_requests cb)) (cb_successCount cb) (Suc (cb_failures cb))
     else phase_of cb)"
  using assms by (auto simp: phase_of_def cb_record_defs limits_of_def count_on_def cb_window_def breaker_sound_def counts_of_cb)

lemma settled_phase:
  assumes "0 < bl_least (limits_of (cb_options cb))" "cb_state cb = CLOSED"
  shows "phase_of (if cb_shouldOpen cb then cb_open t cb else cb) = tripped (limits_of (cb_options cb)) t (phase_of cb)"
  using assms trips_iff [OF assms(1)] by (simp add: phase_of_def cb_open_def)

lemma failure_phase:
  assumes "cb_state cb \<noteq> OPEN" "breaker_sound cb" "0 < bl_least (limits_of (cb_options cb))"
  shows "phase_of (cb_settleFailure t e cb) =
    failed (limits_of (cb_options cb)) (counts_of (cb_options cb) e) t (phase_of cb)"
proof (cases "cb_state cb")
  case CLOSED
  then have "cb_state (cb_recordFailure t e cb) = CLOSED" by (simp add: cb_recordFailure_state)
  with settled_phase [of "cb_recordFailure t e cb" t] assms(3)
  have "phase_of (cb_settleFailure t e cb) = tripped (limits_of (cb_options cb)) t (phase_of (cb_recordFailure t e cb))"
    by (simp add: cb_settleFailure_def Let_def)
  then show ?thesis
    using CLOSED unfolding record_failure_phase [OF CLOSED assms(2)] by (simp add: phase_of_def)
next
  case HALF_OPEN
  with assms have "cb_requests cb = 0" by (simp add: breaker_sound_def cb_trial_clean_def)
  with HALF_OPEN assms(3) show ?thesis
    by (auto simp: phase_of_def cb_settleFailure_def cb_record_defs cb_shouldOpen_def counts_of_cb limits_of_def)
qed (use assms in simp)

text \<open>A call as the registry drives the breaker: consulted before, told the outcome after, if it was let in.\<close>

definition guarded_call :: "msec \<Rightarrow> msec \<Rightarrow> 'e option \<Rightarrow> 'e circuit \<Rightarrow> 'e circuit" where
  "guarded_call t0 t1 outcome cb = (case cb_admit t0 cb of (admitted, cb1) \<Rightarrow>
     if \<not> admitted then cb1 else (case outcome of None \<Rightarrow> cb_recordSuccess t1 cb1 | Some e \<Rightarrow> cb_settleFailure t1 e cb1))"

lemma guarded_call_refines:
  assumes "breaker_sound cb" "0 < bl_least (limits_of (cb_options cb))"
  shows "phase_of (guarded_call t0 t1 outcome cb) =
      phase_step (limits_of (cb_options cb)) (counts_of (cb_options cb)) (Asked t0 t1 outcome) (phase_of cb)"
    and "breaker_sound (guarded_call t0 t1 outcome cb)" "cb_options (guarded_call t0 t1 outcome cb) = cb_options cb"
proof -
  obtain adm cb1 where adm: "cb_admit t0 cb = (adm, cb1)" by fastforce
  have step: "cb_step t0 Admit cb cb1" using adm cb_step.admit [of t0 cb] by simp
  note cb1 = step_sound [OF step assms(1)] cb_step_options [OF step]
  have closed: "adm \<Longrightarrow> cb_state cb1 \<noteq> OPEN" using adm by (auto simp: cb_admit_def split: if_splits)
  have least: "0 < bl_least (limits_of (cb_options cb1))" using cb1(2) assms(2) by simp
  show "phase_of (guarded_call t0 t1 outcome cb) =
      phase_step (limits_of (cb_options cb)) (counts_of (cb_options cb)) (Asked t0 t1 outcome) (phase_of cb)"
    using admit_phase [of t0 cb] success_phase [OF closed cb1(1), of t1] failure_phase [OF closed cb1(1) least, of t1] cb1(2)
    by (auto simp: guarded_call_def adm split: option.split)
  show "breaker_sound (guarded_call t0 t1 outcome cb)"
    using step_sound [OF cb_step.succeed cb1(1), of t1] step_sound [OF cb_step.fail cb1(1), of t1] cb1(1)
    by (auto simp: guarded_call_def adm split: option.split)
  show "cb_options (guarded_call t0 t1 outcome cb) = cb_options cb"
    using cb_step_options [OF cb_step.succeed, of t1 cb1] cb_step_options [OF cb_step.fail, of t1 _ cb1] cb1(2)
    by (auto simp: guarded_call_def adm split: option.split)
qed

end
