(* ===== verification/Port_Safety.thy ===== *)
theory Port_Safety
  imports Port_Registry Breaker_Protocol
begin

text \<open>
  Properties of single calls and of histories of calls through the port registry: what a call can
  throw, how the breakers of the ports evolve, what an open breaker lets through, and what is
  served after a failure.
\<close>

section \<open>The combinators of the registry\<close>

lemma on_pcache_app [async_simps]:
  "on_pcache f w = (Inr (fst (f (pw_cache w))), w\<lparr>pw_cache := snd (f (pw_cache w))\<rparr>)"
  by (simp add: on_pcache_def split: prod.splits)

lemma on_env_app [async_simps]:
  "on_env m w = (fst (m (pw_env w)), w\<lparr>pw_env := snd (m (pw_env w))\<rparr>)"
  by (simp add: on_env_def split: prod.splits)

lemma attempt_app [async_simps]: "attempt m w = (Inr (fst (m w)), snd (m w))"
  by (simp add: attempt_def split: prod.splits)

lemma breaker_update_fields [simp]:
  "pw_ports (breaker_update p f w) = pw_ports w" "pw_fallback (breaker_update p f w) = pw_fallback w"
  "pw_config (breaker_update p f w) = pw_config w" "pw_cache (breaker_update p f w) = pw_cache w"
  "pw_env (breaker_update p f w) = pw_env w"
  by (simp_all add: breaker_update_def split: option.splits)

lemma breaker_update_lookup:
  "map_of (pw_breakers (breaker_update p f w)) q =
     (if q = p then map_option f (map_of (pw_breakers w) q) else map_of (pw_breakers w) q)"
  by (auto simp: breaker_update_def jsmap_simps split: option.splits)

lemma setCached_world_fields [simp]:
  "pw_ports (setCached_world t p v w) = pw_ports w" "pw_breakers (setCached_world t p v w) = pw_breakers w"
  "pw_config (setCached_world t p v w) = pw_config w" "pw_cache (setCached_world t p v w) = pw_cache w"
  "pw_env (setCached_world t p v w) = pw_env w"
  by (simp_all add: setCached_world_def)

section \<open>What a call throws\<close>

definition queue_ready :: "('c, 's) port_deps \<Rightarrow> bool" where
  "queue_ready d \<longleftrightarrow> (case pd_queue d of None \<Rightarrow> True | Some q \<Rightarrow> qs_enabled q \<and>
     (\<exists>add. qs_queue q = Some add \<and> (\<forall>payload opts. only_fails {} (add payload opts))))"

definition port_failures :: "string \<Rightarrow> port_error set" where
  "port_failures p = {PortFallbackException p (Some cause) | cause. True}
     \<union> {PortQueuedException p jobId | jobId. True}"

lemma only_fails_subset: "only_fails E m \<Longrightarrow> E \<subseteq> F \<Longrightarrow> only_fails F m"
  by (auto simp: only_fails_def)

lemma only_fails_total:
  "only_fails E (on_pcache f)" "only_fails E (attempt m)" "only_fails E (breaker_admit t p)"
  by (simp_all add: only_fails_def async_simps breaker_admit_def)

lemma only_fails_on_env: "only_fails E m \<Longrightarrow> only_fails E (on_env m)"
  by (auto simp: only_fails_def async_simps) (metis prod.collapse)

lemma fallback_fails: "only_fails (port_failures p) (executeFallback t0 t p used err)"
  unfolding executeFallback_def
  by (auto intro!: only_fails_rules simp: port_failures_def split: sum.splits)

lemma enqueue_fails:
  assumes "queue_ready d" "pd_queue d = Some q"
  shows "only_fails E (enqueue q ctx p m ps key)"
proof -
  from assms obtain add where q: "qs_enabled q" "qs_queue q = Some add"
    and add: "\<And>payload opts. only_fails {} (add payload opts)"
    by (auto simp: queue_ready_def)
  have "only_fails E (add payload opts)" for payload opts
    by (rule only_fails_subset [OF add]) simp
  with q show ?thesis
    unfolding enqueue_def qs_enqueue_def by (simp add: only_fails_on_env only_fails_rules)
qed

lemma queue_fails:
  assumes "queue_ready d"
  shows "only_fails (port_failures p) (executeWithQueue d ctx t0 t p entry used err m ps key)"
proof -
  have "PortQueuedException p jobId \<in> port_failures p" for jobId
    by (simp add: port_failures_def)
  then show ?thesis
    unfolding executeWithQueue_def queue_stale_def
    by (auto intro!: only_fails_rules fallback_fails enqueue_fails [OF assms] only_fails_total split: option.splits)
qed

lemma post_process_fails: "only_fails E (post_process d t p entry m sc k key v)"
  unfolding post_process_def with_idempotency_def
  by (auto intro!: only_fails_rules only_fails_total split: option.splits)

lemma call_fails:
  assumes "queue_ready d"
  shows "only_fails (port_failures p) (port_call d ctx t0 t1 p entry used m ps sc k key)"
  unfolding port_call_def
  by (auto intro!: only_fails_rules only_fails_total queue_fails [OF assms] post_process_fails split: sum.splits)

lemma entry_fails:
  assumes "queue_ready d"
  shows "only_fails (port_failures p) (execute_entry d ctx t0 t1 p entry m ps key)"
  unfolding execute_entry_def idempotency_lookup_def read_cached_def with_idempotency_def Let_def
  by (auto intro!: only_fails_rules only_fails_total queue_fails [OF assms] call_fails [OF assms]
      split: option.splits)

text \<open>
  C11. Error behaviour of the registry. Provided the queue, where one is configured, accepts jobs, a
  call fails in three ways only, each with the typed exception of its own port: the port is not
  registered (and nothing happened), both the call and the fallback failed (and the exception
  carries the cause), or the call was queued. No error of a downstream service, of the cache or of
  the breaker escapes as such.
\<close>

theorem port_errors:
  assumes "queue_ready d" and "execute d ctx t0 t1 p m ps key w = (Inl e, w')"
  shows "if map_of (pw_ports w) p = None then e = PortNotRegisteredException p \<and> w' = w
         else (\<exists>cause. e = PortFallbackException p (Some cause)) \<or> (\<exists>jobId. e = PortQueuedException p jobId)"
proof (cases "map_of (pw_ports w) p")
  case None
  with assms(2) show ?thesis by (simp add: execute_def async_simps)
next
  case (Some entry)
  with assms(2) have "execute_entry d ctx t0 t1 p entry m ps key w = (Inl e, w')"
    by (simp add: execute_def async_simps)
  from only_failsD [OF entry_fails [OF assms(1)] this] Some show ?thesis by (auto simp: port_failures_def)
qed

section \<open>The breakers of the ports\<close>

datatype port_op =
  Execute "request_context option" msec msec string string "(string \<times> json) list" "string option"
| Replay msec string replay_payload

fun op_port :: "port_op \<Rightarrow> string" where
  "op_port (Execute ctx t0 t1 p m ps key) = p"
| "op_port (Replay now uuid payload) = rp_portName payload"

fun port_step :: "('c, 's) port_deps \<Rightarrow> port_op \<Rightarrow> ('c, 's) port_world \<Rightarrow> ('c, 's) port_world" where
  "port_step d (Execute ctx t0 t1 p m ps key) w = snd (execute d ctx t0 t1 p m ps key w)"
| "port_step d (Replay now uuid payload) w = snd (executeReplay now uuid payload w)"

fun port_history :: "('c, 's) port_deps \<Rightarrow> port_op list \<Rightarrow> ('c, 's) port_world \<Rightarrow> ('c, 's) port_world" where
  "port_history d [] w = w"
| "port_history d (op # ops) w = port_history d ops (port_step d op w)"

lemma cb_run_trans: "cb_run b c \<Longrightarrow> cb_run a b \<Longrightarrow> cb_run a c"
  by (induction rule: cb_run.induct) (auto intro: cb_run.intros)

lemma cb_run_single: "cb_step now ev a b \<Longrightarrow> cb_run a b"
  by (rule run_step [OF run_start])

lemma cb_run_steps:
  "cb_run cb (snd (cb_admit t cb))" "cb_run cb (cb_recordSuccess t cb)" "cb_run cb (cb_settleFailure t e cb)"
  by (rule cb_run_single, rule cb_step.intros)+

definition port_rel :: "string \<Rightarrow> ('c, 's) port_world \<Rightarrow> ('c, 's) port_world \<Rightarrow> bool" where
  "port_rel p w w' \<longleftrightarrow> pw_ports w' = pw_ports w \<and>
     rel_option cb_run (map_of (pw_breakers w) p) (map_of (pw_breakers w') p) \<and>
     (\<forall>q. q \<noteq> p \<longrightarrow> map_of (pw_breakers w') q = map_of (pw_breakers w) q \<and>
       fp_getCached q (pw_fallback w') = fp_getCached q (pw_fallback w))"

interpretation pr: evolution "port_rel p" for p
proof
  show "port_rel p w w" for w :: "('c, 's) port_world"
    by (simp add: port_rel_def option.rel_refl run_start)
next
  fix w w' w'' :: "('c, 's) port_world"
  assume a: "port_rel p w w'" and b: "port_rel p w' w''"
  then have "rel_option cb_run (map_of (pw_breakers w) p) (map_of (pw_breakers w'') p)"
    by (auto simp: port_rel_def rel_option_iff cb_run_trans split: option.splits)
  with a b show "port_rel p w w''" by (simp add: port_rel_def)
qed

lemma breaker_update_rel:
  assumes "\<And>cb. cb_run cb (f cb)"
  shows "port_rel p w (breaker_update p f w)"
proof -
  have "rel_option cb_run x (map_option f x)" for x
    using assms by (cases x) simp_all
  then show ?thesis by (simp add: port_rel_def breaker_update_lookup)
qed

lemma getCached_other: "q \<noteq> p \<Longrightarrow> fp_getCached q (fp_setCached t p v ttl fb) = fp_getCached q fb"
  by (auto simp: fp_getCached_def cache_lookup_def fp_setCached_def Let_def jsmap_simps split: option.splits)

lemma keeps_on_pcache: "pr.keeps p (on_pcache f)"
  by (simp add: pr.keeps_def async_simps port_rel_def option.rel_refl run_start)

lemma keeps_on_env: "pr.keeps p (on_env m)"
  by (simp add: pr.keeps_def async_simps port_rel_def option.rel_refl run_start)

lemma keeps_attempt: "pr.keeps p m \<Longrightarrow> pr.keeps p (attempt m)"
  by (simp add: pr.keeps_def async_simps)

lemma keeps_setCached: "pr.keeps p (writes (setCached_world t p v))"
  by (rule pr.keeps_writes)
    (simp add: port_rel_def option.rel_refl run_start setCached_world_def getCached_other)

lemma keeps_admit: "pr.keeps p (breaker_admit t p)"
  unfolding pr.keeps_def breaker_admit_def snd_conv
  by (intro allI breaker_update_rel cb_run_steps)

lemma keeps_success: "pr.keeps p (writes (breaker_update p (cb_recordSuccess t)))"
  by (intro pr.keeps_writes breaker_update_rel cb_run_steps)

lemma keeps_failure: "pr.keeps p (writes (breaker_update p (cb_settleFailure t e)))"
  by (intro pr.keeps_writes breaker_update_rel cb_run_steps)

lemmas port_keeps = keeps_on_pcache keeps_on_env keeps_attempt keeps_setCached keeps_admit
  keeps_success keeps_failure pr.keeps_rules

lemma keeps_queue: "pr.keeps p (executeWithQueue d ctx t0 t p entry used err m ps key)"
  unfolding executeWithQueue_def executeFallback_def queue_stale_def enqueue_def
  by (auto intro!: port_keeps split: option.splits sum.splits)

lemma keeps_post: "pr.keeps p (post_process d t p entry m sc k key v)"
  unfolding post_process_def with_idempotency_def by (auto intro!: port_keeps split: option.splits)

lemma keeps_call: "pr.keeps p (port_call d ctx t0 t1 p entry used m ps sc k key)"
  unfolding port_call_def by (auto intro!: port_keeps keeps_queue keeps_post split: sum.splits)

lemma keeps_execute: "pr.keeps p (execute d ctx t0 t1 p m ps key)"
  unfolding execute_def execute_entry_def idempotency_lookup_def read_cached_def with_idempotency_def Let_def
  by (auto intro!: port_keeps keeps_queue keeps_call split: option.splits)

lemma keeps_replay: "pr.keeps (rp_portName payload) (executeReplay now uuid payload)"
  unfolding executeReplay_def by (auto intro!: port_keeps split: option.splits)

lemma port_step_rel: "port_rel (op_port op) w (port_step d op w)"
  using pr.keepsD [OF keeps_execute] pr.keepsD [OF keeps_replay] by (cases op) simp_all

section \<open>An open breaker\<close>

definition idem_read ::
  "('c, 's) port_deps \<Rightarrow> msec \<Rightarrow> string option \<Rightarrow> 'c \<Rightarrow> json option \<times> 'c" where
  "idem_read d t key c = with_idempotency d key (\<lambda>svc k. idem_check svc (pd_sha256 d) t k c) (None, c)"

definition port_read :: "('c, 's) port_deps \<Rightarrow> msec \<Rightarrow> bool \<Rightarrow> string \<Rightarrow> 'c \<Rightarrow> json option \<times> 'c" where
  "port_read d t sc k c = (if sc then ic_get (pd_cache d) t k c else (None, c))"

definition admits :: "msec \<Rightarrow> string \<Rightarrow> ('c, 's) port_world \<Rightarrow> bool" where
  "admits t p w = (case map_of (pw_breakers w) p of None \<Rightarrow> True | Some cb \<Rightarrow> fst (cb_admit t cb))"

text \<open>The whole of a call in one equation: its reads of the cache, then the breaker.\<close>

lemma execute_entry_eq:
  "execute_entry d ctx t0 t1 p entry m ps key w =
     (let used = choose_adapter d p entry (pw_config w);
          sc = should_cache m entry;
          k = buildCacheKey (pd_sha256 d) p m ps;
          (v, c) = idem_read d t0 key (pw_cache w);
          (u, c') = port_read d t0 sc k c;
          w2 = breaker_update p (\<lambda>cb. snd (cb_admit t0 cb)) (w\<lparr>pw_cache := c'\<rparr>)
      in case v of
           Some data \<Rightarrow> (Inr \<lparr>pr_data = Some data, pr_adapterUsed = used, pr_fromCache = True, pr_duration = 0,
             pr_metadata = Some \<lparr>md_cachedAt = None, md_degraded = None, md_message = None,
               md_fromIdempotency = Some True\<rparr>\<rparr>, w\<lparr>pw_cache := c\<rparr>)
         | None \<Rightarrow>
             if json_present u
             then (Inr \<lparr>pr_data = json_get ''data'' (the u), pr_adapterUsed = used, pr_fromCache = True,
               pr_duration = 0, pr_metadata = Some \<lparr>md_cachedAt = json_get ''cachedAt'' (the u), md_degraded = None,
                 md_message = None, md_fromIdempotency = None\<rparr>\<rparr>, w\<lparr>pw_cache := c'\<rparr>)
             else if \<not> admits t0 p w
             then executeWithQueue d ctx t0 t0 p entry used None m ps key w2
             else port_call d ctx t0 t1 p entry used m ps sc k key w2)"
  unfolding execute_entry_def idempotency_lookup_def read_cached_def idem_read_def port_read_def
    with_idempotency_def Let_def breaker_admit_def admits_def
  by (auto simp: async_simps split: option.splits prod.splits)

lemma port_call_eq:
  "port_call d ctx t0 t1 p entry used m ps sc k key w =
     (case adapter_of entry used ctx m ps (pw_env w) of
        (Inr v, s) \<Rightarrow>
          (Inr \<lparr>pr_data = Some v, pr_adapterUsed = used, pr_fromCache = False, pr_duration = t1 - t0,
                pr_metadata = None\<rparr>,
           snd (post_process d t1 p entry m sc k key v (breaker_update p (cb_recordSuccess t1) (w\<lparr>pw_env := s\<rparr>))))
      | (Inl e, s) \<Rightarrow>
          executeWithQueue d ctx t0 t1 p entry used (Some e) m ps key
            (breaker_update p (cb_settleFailure t1 e) (w\<lparr>pw_env := s\<rparr>)))"
  unfolding port_call_def
  by (auto simp: async_simps post_process_def with_idempotency_def split: option.splits prod.splits sum.splits)

lemma queue_env:
  "executeWithQueue d ctx t0 t p entry used err m ps key w = (r, w') \<Longrightarrow>
   pw_breakers w' = pw_breakers w \<and> (pw_env w' = pw_env w \<or>
     (\<exists>q. pd_queue d = Some q \<and> pw_env w' = snd (qs_enqueue q (replay_of ctx p m ps key) (pw_env w))))"
  unfolding executeWithQueue_def executeFallback_def queue_stale_def enqueue_def
  by (auto simp: async_simps split: option.splits if_splits sum.splits prod.splits)

lemma entry_open:
  assumes cb: "map_of (pw_breakers w) p = Some cb" and o: "cb_state cb = OPEN"
    and early: "t0 - cb_stateChangedAt cb < cb_resetAfter cb"
    and run: "execute_entry d ctx t0 t1 p entry m ps key w = (r, w')"
  shows "map_of (pw_breakers w') p = Some cb \<and> (pw_env w' = pw_env w \<or>
     (\<exists>q. pd_queue d = Some q \<and> pw_env w' = snd (qs_enqueue q (replay_of ctx p m ps key) (pw_env w))))"
proof -
  have adm: "cb_admit t0 cb = (False, cb)"
    using o early by (simp add: cb_admit_def cb_shouldAttemptReset_def)
  then have "map_of (pw_breakers (breaker_update p (\<lambda>cb. snd (cb_admit t0 cb)) (w\<lparr>pw_cache := c\<rparr>))) p = Some cb" for c
    using cb by (simp add: breaker_update_lookup)
  with run cb adm show ?thesis
    by (auto simp: execute_entry_eq admits_def Let_def dest!: queue_env split: prod.splits option.splits if_splits)
qed

text \<open>
  C12. While the breaker of a port is open and its reset timeout has not passed, a call to the port
  does not reach the downstream service: the outside world changes at most by the one job that
  the call puts on the queue, and the breaker stays exactly as it is.
\<close>

theorem open_port_makes_no_call:
  assumes "map_of (pw_breakers w) p = Some cb" "cb_state cb = OPEN"
    and "t0 - cb_stateChangedAt cb < cb_resetAfter cb"
  shows "map_of (pw_breakers (snd (execute d ctx t0 t1 p m ps key w))) p = Some cb \<and>
    (pw_env (snd (execute d ctx t0 t1 p m ps key w)) = pw_env w \<or>
     (\<exists>q. pd_queue d = Some q \<and> pw_env (snd (execute d ctx t0 t1 p m ps key w)) =
        snd (qs_enqueue q (replay_of ctx p m ps key) (pw_env w))))"
proof (cases "map_of (pw_ports w) p")
  case None
  with assms(1) show ?thesis by (simp add: execute_def async_simps)
next
  case (Some entry)
  then have "execute d ctx t0 t1 p m ps key w = execute_entry d ctx t0 t1 p entry m ps key w"
    by (simp add: execute_def async_simps)
  with entry_open [OF assms, of d ctx t1 entry m ps key "fst (execute_entry d ctx t0 t1 p entry m ps key w)"
      "snd (execute_entry d ctx t0 t1 p entry m ps key w)"]
  show ?thesis by simp
qed

section \<open>The breaker protocol\<close>

text \<open>
  What a call shows of itself to an observer of the breaker: nothing when the port is not registered or a cache
  answers; otherwise when it began, when it was answered, and what the adapter makes of it in the present environment.
  A replay goes past the breaker.
\<close>

definition asked_entry ::
  "('c, 's) port_deps \<Rightarrow> request_context option \<Rightarrow> msec \<Rightarrow> msec \<Rightarrow> string \<Rightarrow> 's port_entry \<Rightarrow> string \<Rightarrow> (string \<times> json) list \<Rightarrow>
   string option \<Rightarrow> ('c, 's) port_world \<Rightarrow> port_error asked list" where
  "asked_entry d ctx t0 t1 p entry m ps key w =
     (case idem_read d t0 key (pw_cache w) of (v, c) \<Rightarrow>
      case port_read d t0 (should_cache m entry) (buildCacheKey (pd_sha256 d) p m ps) c of (u, c') \<Rightarrow>
        if v = None \<and> \<not> json_present u
        then [Asked t0 t1 (case fst (adapter_of entry (choose_adapter d p entry (pw_config w)) ctx m ps (pw_env w)) of
                Inl e \<Rightarrow> Some e | Inr _ \<Rightarrow> None)]
        else [])"

fun asked_op :: "('c, 's) port_deps \<Rightarrow> port_op \<Rightarrow> ('c, 's) port_world \<Rightarrow> port_error asked list" where
  "asked_op d (Execute ctx t0 t1 p m ps key) w =
     (case map_of (pw_ports w) p of None \<Rightarrow> [] | Some entry \<Rightarrow> asked_entry d ctx t0 t1 p entry m ps key w)"
| "asked_op d (Replay now uuid payload) w = []"

fun asked_of :: "('c, 's) port_deps \<Rightarrow> string \<Rightarrow> port_op list \<Rightarrow> ('c, 's) port_world \<Rightarrow> port_error asked list" where
  "asked_of d q [] w = []"
| "asked_of d q (op # ops) w = (if op_port op = q then asked_op d op w else []) @ asked_of d q ops (port_step d op w)"

fun guard_asked :: "'e asked \<Rightarrow> 'e circuit \<Rightarrow> 'e circuit" where
  "guard_asked (Asked t0 t1 outcome) cb = guarded_call t0 t1 outcome cb"

lemma post_process_breakers: "pw_breakers (snd (post_process d t p entry m sc k key v w)) = pw_breakers w"
  by (simp add: post_process_def with_idempotency_def async_simps split: option.splits)

lemma entry_breaker:
  assumes cb: "map_of (pw_breakers w) p = Some cb"
    and run: "execute_entry d ctx t0 t1 p entry m ps key w = (r, w')"
  shows "map_of (pw_breakers w') p = Some (fold guard_asked (asked_entry d ctx t0 t1 p entry m ps key w) cb)"
  using run cb
  by (auto simp: execute_entry_eq asked_entry_def port_call_eq admits_def Let_def guarded_call_def breaker_update_lookup
      post_process_breakers
      dest!: queue_env split: prod.splits option.splits if_splits sum.splits)

lemma replay_breaker: "map_of (pw_breakers (snd (executeReplay now uuid payload w))) q = map_of (pw_breakers w) q"
  by (simp add: executeReplay_def async_simps split: option.splits prod.splits sum.splits)

lemma step_breaker:
  assumes "map_of (pw_breakers w) q = Some cb"
  shows "map_of (pw_breakers (port_step d op w)) q =
    Some (fold guard_asked (if op_port op = q then asked_op d op w else []) cb)"
proof (cases "op_port op = q")
  case False
  with port_step_rel [of op w d] assms show ?thesis by (simp add: port_rel_def)
next
  case True
  show ?thesis
  proof (cases op)
    case (Execute ctx t0 t1 p m ps key)
    show ?thesis
    proof (cases "map_of (pw_ports w) p")
      case None
      with Execute True assms show ?thesis by (simp add: execute_def async_simps)
    next
      case (Some entry)
      then have "execute d ctx t0 t1 p m ps key w = execute_entry d ctx t0 t1 p entry m ps key w"
        by (simp add: execute_def async_simps)
      moreover have "map_of (pw_breakers (snd (execute_entry d ctx t0 t1 p entry m ps key w))) p =
          Some (fold guard_asked (asked_entry d ctx t0 t1 p entry m ps key w) cb)"
        by (rule entry_breaker [where r = "fst (execute_entry d ctx t0 t1 p entry m ps key w)"])
          (use Execute True assms in simp_all)
      ultimately show ?thesis using Execute True Some by simp
    qed
  qed (use True assms in \<open>simp add: replay_breaker\<close>)
qed

lemma asked_refines:
  "breaker_sound cb \<Longrightarrow> 0 < bl_least (limits_of (cb_options cb)) \<Longrightarrow>
   phase_of (fold guard_asked es cb) =
      fold (phase_step (limits_of (cb_options cb)) (counts_of (cb_options cb))) es (phase_of cb) \<and>
   cb_options (fold guard_asked es cb) = cb_options cb"
proof (induction es arbitrary: cb)
  case (Cons e es)
  obtain t0 t1 out where e: "e = Asked t0 t1 out" by (cases e)
  note g = guarded_call_refines [OF Cons.prems, where ?t0.0 = t0 and ?t1.0 = t1 and outcome = out]
  have "0 < bl_least (limits_of (cb_options (guarded_call t0 t1 out cb)))" using g(3) Cons.prems(2) by simp
  with Cons.IH [OF g(2)] g e show ?case by (simp del: phase_step.simps)
qed simp

lemma history_breaker:
  "map_of (pw_breakers w) q = Some cb \<Longrightarrow>
   map_of (pw_breakers (port_history d ops w)) q = Some (fold guard_asked (asked_of d q ops w) cb)"
proof (induction ops arbitrary: w cb)
  case (Cons op ops)
  from Cons.IH [OF step_breaker [OF Cons.prems, of d op]] show ?case by simp
qed simp

lemma refusing_makes_no_call:
  assumes "map_of (pw_breakers w) q = Some cb" "refuses_at (limits_of (cb_options cb)) t0 (phase_of cb)"
  shows "pw_env (snd (execute d ctx t0 t1 q m ps key w)) = pw_env w \<or>
    (\<exists>qs. pd_queue d = Some qs \<and> pw_env (snd (execute d ctx t0 t1 q m ps key w)) =
       snd (qs_enqueue qs (replay_of ctx q m ps key) (pw_env w)))"
proof (cases "map_of (pw_ports w) q")
  case None
  then show ?thesis by (simp add: execute_def async_simps)
next
  case (Some entry)
  have o: "cb_state cb = OPEN" "t0 - cb_stateChangedAt cb < cb_resetAfter cb"
    using assms(2) by (auto simp: phase_of_def limits_of_def cb_resetAfter_def split: circuit_state.splits)
  from Some have "execute d ctx t0 t1 q m ps key w = execute_entry d ctx t0 t1 q entry m ps key w"
    by (simp add: execute_def async_simps)
  with entry_open [OF assms(1) o, of d ctx t1 entry m ps key "fst (execute_entry d ctx t0 t1 q entry m ps key w)"
      "snd (execute_entry d ctx t0 t1 q entry m ps key w)"]
  show ?thesis by simp
qed

text \<open>
  C10. The breaker of every port refines the abstract one. Whatever calls and replays are made, of whatever ports, in
  whatever order and at whatever times, the breaker of a port is afterwards in the phase that the rules of the abstract
  breaker compute from the calls of that port alone, in their order: those that no cache answered, with what the adapter
  made of each. And when that phase refuses, the next call does not reach the adapter: the outside world changes at most by
  the job the call puts on the queue.
\<close>

theorem breakers_follow_protocol:
  assumes "map_of (pw_breakers w) q = Some cb" "breaker_sound cb" "0 < bl_least (limits_of (cb_options cb))"
  shows "let w' = port_history d ops w; L = limits_of (cb_options cb);
      phase = fold (phase_step L (counts_of (cb_options cb))) (asked_of d q ops w) (phase_of cb) in
    map_option phase_of (map_of (pw_breakers w') q) = Some phase \<and>
    (refuses_at L t0 phase \<longrightarrow>
       pw_env (snd (execute d ctx t0 t1 q m ps key w')) = pw_env w' \<or>
       (\<exists>qs. pd_queue d = Some qs \<and> pw_env (snd (execute d ctx t0 t1 q m ps key w')) =
          snd (qs_enqueue qs (replay_of ctx q m ps key) (pw_env w'))))"
proof -
  note cb = history_breaker [OF assms(1), of d ops]
  note ref = asked_refines [OF assms(2,3), of "asked_of d q ops w"]
  from refusing_makes_no_call [OF cb, of t0 d ctx t1 m ps key] ref cb show ?thesis by (simp add: Let_def)
qed

section \<open>What is served after a failure\<close>

lemma post_process_fallback:
  "snd (post_process d t p entry m sc k key v w) =
     (setCached_world t p v w)\<lparr>pw_cache := pw_cache (snd (post_process d t p entry m sc k key v w))\<rparr>"
  by (simp add: post_process_def with_idempotency_def async_simps setCached_world_def split: option.splits)

lemma post_process_done: "fst (post_process d t p entry m sc k key v w) = Inr ()"
  by (simp add: post_process_def with_idempotency_def async_simps split: option.splits)

lemma queue_result_degraded:
  "executeWithQueue d ctx t0 t p entry used err m ps key w = (Inr r, w') \<Longrightarrow>
   \<exists>md. pr_metadata r = Some md \<and> md_degraded md = Some True"
  unfolding executeWithQueue_def executeFallback_def queue_stale_def enqueue_def
  by (auto simp: async_simps split: option.splits if_splits sum.splits prod.splits)

text \<open>
  A call that the adapter answered is the one whose result carries no metadata; it leaves its
  answer in the fallback cache.
\<close>

lemma entry_answered:
  assumes "execute_entry d ctx t0 t1 p entry m ps key w = (Inr r, w')" "pr_metadata r = None"
  obtains v c s where "pr_data r = Some v" "\<not> pr_fromCache r"
    "adapter_of entry (choose_adapter d p entry (pw_config w)) ctx m ps (pw_env w) = (Inr v, s)"
    "c = snd (port_read d t0 (should_cache m entry) (buildCacheKey (pd_sha256 d) p m ps) (snd (idem_read d t0 key (pw_cache w))))"
    "w' = snd (post_process d t1 p entry m (should_cache m entry) (buildCacheKey (pd_sha256 d) p m ps) key v
      (breaker_update p (cb_recordSuccess t1)
        ((breaker_update p (\<lambda>cb. snd (cb_admit t0 cb)) (w\<lparr>pw_cache := c\<rparr>))\<lparr>pw_env := s\<rparr>)))"
  using assms
  by (auto simp: execute_entry_eq port_call_eq Let_def dest: queue_result_degraded
      split: prod.splits option.splits if_splits sum.splits)

lemma queue_serves:
  assumes "map_of (fp_fallbacks (pw_fallback w)) p = Some (port_fallback p)"
    and "fp_getCached p (pw_fallback w) = Some v" "v \<noteq> JNull"
    and "pc_queuePolicy (pe_config entry) \<noteq> QAlways"
  shows "\<exists>r md. fst (executeWithQueue d ctx t0 t p entry used err m ps key w) = Inr r \<and>
     pr_data r = Some v \<and> pr_metadata r = Some md \<and> md_degraded md = Some True"
proof -
  have "pc_queuePolicy (pe_config entry) \<noteq> QNever \<longrightarrow> pc_queuePolicy (pe_config entry) = QOnCacheMiss"
    using assms(4) by (cases "pc_queuePolicy (pe_config entry)") auto
  with assms show ?thesis
    by (auto simp: executeWithQueue_def executeFallback_def queue_stale_def async_simps fp_execute_def
        port_fallback_def fp_getCached_def json_present_def Let_def split: option.splits)
qed

lemma answered_fallback:
  assumes "execute_entry d ctx t0 t1 p entry m ps key w = (Inr r, w')" "pr_metadata r = None"
    and "fp_cache (pw_fallback w) \<noteq> None"
  shows "fp_getCached p (pw_fallback w') = pr_data r" "fp_fallbacks (pw_fallback w') = fp_fallbacks (pw_fallback w)"
    "pw_ports w' = pw_ports w" "pw_config w' = pw_config w"
proof -
  obtain v wb where v: "pr_data r = Some v" and w': "w' = snd (post_process d t1 p entry m (should_cache m entry)
      (buildCacheKey (pd_sha256 d) p m ps) key v wb)"
    and wb: "pw_fallback wb = pw_fallback w" "pw_ports wb = pw_ports w" "pw_config wb = pw_config w"
    using assms(1,2) by (rule entry_answered) (auto intro: that)
  from w' have w'': "w' = (setCached_world t1 p v wb)\<lparr>pw_cache := pw_cache w'\<rparr>"
    using post_process_fallback by metis
  show "fp_getCached p (pw_fallback w') = pr_data r"
    by (subst w'') (use assms(3) v wb in \<open>simp add: setCached_world_def setCached_lookup\<close>)
  show "fp_fallbacks (pw_fallback w') = fp_fallbacks (pw_fallback w)"
    "pw_ports w' = pw_ports w" "pw_config w' = pw_config w"
    by (subst w'', simp add: setCached_world_def wb)+
qed

lemma failing_served:
  assumes "map_of (fp_fallbacks (pw_fallback w)) p = Some (port_fallback p)"
    and "fp_getCached p (pw_fallback w) = Some v" "v \<noteq> JNull"
    and "pc_queuePolicy (pe_config entry) \<noteq> QAlways"
    and miss: "\<not> json_present (fst (port_read d t0 (should_cache m entry) (buildCacheKey (pd_sha256 d) p m ps) (pw_cache w)))"
    and down: "adapter_of entry (choose_adapter d p entry (pw_config w)) ctx m ps (pw_env w) = (Inl e, s)"
  shows "\<exists>r md. fst (execute_entry d ctx t0 t1 p entry m ps None w) = Inr r \<and>
     pr_data r = Some v \<and> pr_metadata r = Some md \<and> md_degraded md = Some True"
proof -
  let ?w2 = "breaker_update p (\<lambda>cb. snd (cb_admit t0 cb))
    (w\<lparr>pw_cache := snd (port_read d t0 (should_cache m entry) (buildCacheKey (pd_sha256 d) p m ps) (pw_cache w))\<rparr>)"
  let ?w3 = "breaker_update p (cb_settleFailure t1 e) (?w2\<lparr>pw_env := s\<rparr>)"
  let ?used = "choose_adapter d p entry (pw_config w)"
  have "execute_entry d ctx t0 t1 p entry m ps None w =
     (if admits t0 p w then executeWithQueue d ctx t0 t1 p entry ?used (Some e) m ps None ?w3
      else executeWithQueue d ctx t0 t0 p entry ?used None m ps None ?w2)"
    using miss down
    by (auto simp: execute_entry_eq port_call_eq idem_read_def with_idempotency_def truthy_str_def Let_def split: prod.splits)
  then show ?thesis
    using queue_serves [of ?w3 p v entry] queue_serves [of ?w2 p v entry] assms(1-4)
    by (cases "admits t0 p w") simp_all
qed

text \<open>
  What a degraded answer contains. After any call to a port that the adapter answered, a call to
  the same port whose adapter fails and whose own answer is not cached is answered with the data of
  that earlier call, marked as degraded, whatever the method, the parameters and the user of the
  two calls are.
\<close>

lemma fallback_serves_last_answer:
  assumes "map_of (pw_ports w) p = Some entry"
    and "map_of (fp_fallbacks (pw_fallback w)) p = Some (port_fallback p)" "fp_cache (pw_fallback w) \<noteq> None"
    and "pc_queuePolicy (pe_config entry) \<noteq> QAlways"
    and "execute d ctx1 t0 t1 p m1 ps1 key1 w = (Inr r1, w1)" "pr_metadata r1 = None" "pr_data r1 \<noteq> Some JNull"
    and "\<not> json_present (fst (port_read d u0 (should_cache m2 entry) (buildCacheKey (pd_sha256 d) p m2 ps2) (pw_cache w1)))"
    and "adapter_of entry (choose_adapter d p entry (pw_config w)) ctx2 m2 ps2 (pw_env w1) = (Inl e, s)"
  shows "\<exists>r2 md. fst (execute d ctx2 u0 u1 p m2 ps2 None w1) = Inr r2 \<and> pr_data r2 = pr_data r1 \<and>
     pr_metadata r2 = Some md \<and> md_degraded md = Some True"
proof -
  from assms(1,5) have first: "execute_entry d ctx1 t0 t1 p entry m1 ps1 key1 w = (Inr r1, w1)"
    by (simp add: execute_def async_simps)
  note after = answered_fallback [OF first assms(6,3)]
  obtain v where v: "pr_data r1 = Some v" using first assms(6) by (rule entry_answered)
  have "\<exists>r md. fst (execute_entry d ctx2 u0 u1 p entry m2 ps2 None w1) = Inr r \<and>
     pr_data r = Some v \<and> pr_metadata r = Some md \<and> md_degraded md = Some True"
    using assms(2,4,7,8,9) after v by (intro failing_served) simp_all
  with assms(1) after(3) v show ?thesis by (simp add: execute_def async_simps)
qed

section \<open>A concrete registry\<close>

text \<open>
  One port for invoices. Its downstream service answers \<open>get-detail\<close> and
  \<open>update-address\<close> with the user who asks and fails on everything else; no queue and no idempotency service are configured.
\<close>

definition demo_adapter :: "unit port_adapter" where
  "demo_adapter ctx m ps =
     (if m = ''get-detail'' \<or> m = ''update-address'' then ret (JObj (jopt ''owner'' (map_option JStr (Option.bind ctx rc_userId))))
      else throw (PortTimeoutException ''invoice'' 3000))"

definition demo_port_deps :: "(json memory_cache, unit) port_deps" where
  "demo_port_deps = \<lparr>pd_cache = memory_cache_service, pd_sha256 = id, pd_idempotency = None,
     pd_queue = None, pd_mockMode = False\<rparr>"

definition demo_port_world :: "(json memory_cache, unit) port_world" where
  "demo_port_world = port_register 0 ''invoice'' demo_adapter demo_adapter None
     \<lparr>pw_ports = [], pw_breakers = [], pw_fallback = fp_new (Some []), pw_config = [],
      pw_cache = mc_new \<lparr>co_defaultTtl = None, co_keyPrefix = None, co_maxEntries = None\<rparr>, pw_env = ()\<rparr>"

definition user_context :: "string \<Rightarrow> request_context option" where
  "user_context u = Some \<lparr>rc_correlationId = ''c'' @ u, rc_causationId = None, rc_userId = Some u,
     rc_tenantId = None, rc_timestamp = 0, rc_metadata = None\<rparr>"

definition demo_entry :: "unit port_entry" where
  "demo_entry = \<lparr>pe_name = ''invoice'', pe_mockAdapter = demo_adapter, pe_liveAdapter = demo_adapter,
     pe_config = resolved_config ''invoice'' [] None\<rparr>"

lemma demo_entry_registered: "map_of (pw_ports demo_port_world) ''invoice'' = Some demo_entry"
  by (simp add: demo_port_world_def port_register_def demo_entry_def Let_def)

abbreviation demo_alice_call where
  "demo_alice_call \<equiv> execute demo_port_deps (user_context ''alice'') 0 10 ''invoice'' ''get-detail'' [] None demo_port_world"

theorem port_errors_witness:
  "\<exists>e w'. execute demo_port_deps None 0 10 ''invoice'' ''download'' [] None demo_port_world = (Inl e, w') \<and>
     (if map_of (pw_ports demo_port_world) ''invoice'' = None
      then e = PortNotRegisteredException ''invoice'' \<and> w' = demo_port_world
      else (\<exists>cause. e = PortFallbackException ''invoice'' (Some cause)) \<or> (\<exists>jobId. e = PortQueuedException ''invoice'' jobId))"
proof -
  have "isl (fst (execute demo_port_deps None 0 10 ''invoice'' ''download'' [] None demo_port_world))"
    by code_simp
  then obtain e w' where run: "execute demo_port_deps None 0 10 ''invoice'' ''download'' [] None demo_port_world = (Inl e, w')"
    by (cases "execute demo_port_deps None 0 10 ''invoice'' ''download'' [] None demo_port_world"; cases "fst (execute demo_port_deps None 0 10 ''invoice'' ''download'' [] None demo_port_world)") auto
  have "queue_ready demo_port_deps" by (simp add: queue_ready_def demo_port_deps_def)
  from run port_errors [OF this run] show ?thesis by blast
qed

text \<open>A service that counts the calls it gets and answers none, behind a breaker that trips at the first failure.\<close>

definition down_adapter :: "nat port_adapter" where
  "down_adapter ctx m ps = (\<lambda>n. (Inl (PortTimeoutException ''invoice'' 3000), Suc n))"

definition down_deps :: "(json memory_cache, nat) port_deps" where
  "down_deps = \<lparr>pd_cache = memory_cache_service, pd_sha256 = id, pd_idempotency = None,
     pd_queue = None, pd_mockMode = False\<rparr>"

definition down_options :: "port_error circuit_options" where
  "down_options = (port_breaker_options ''invoice'' None)\<lparr>cbo_minRequests := Some 1\<rparr>"

definition down_world :: "(json memory_cache, nat) port_world" where
  "down_world = port_register 0 ''invoice'' down_adapter down_adapter
     (Some \<lparr>po_name = None, po_cacheTier = None, po_cacheTtl = None, po_timeout = None, po_queuePolicy = None,
        po_circuitBreaker = Some down_options, po_active = None\<rparr>)
     \<lparr>pw_ports = [], pw_breakers = [], pw_fallback = fp_new (Some []), pw_config = [],
      pw_cache = mc_new \<lparr>co_defaultTtl = None, co_keyPrefix = None, co_maxEntries = None\<rparr>, pw_env = 0\<rparr>"

definition down_calls :: "port_op list" where
  "down_calls = [Execute None 0 10 ''invoice'' ''download'' [] None]"

definition down_breaker :: "port_error circuit" where
  "down_breaker = cb_new down_options 0"

lemma down_breaker_registered: "map_of (pw_breakers down_world) ''invoice'' = Some down_breaker"
  by (simp add: down_world_def port_register_def Let_def down_breaker_def resolved_config_def spread_config_def js_nullish_def)

lemma down_limits: "limits_of (cb_options down_breaker) = \<lparr>bl_window = 60000, bl_least = 1, bl_percent = 50, bl_reset = 10000\<rparr>"
  by (simp add: down_breaker_def cb_new_def down_options_def port_breaker_options_def limits_of_def js_or_num_def)

lemma down_run:
  "pw_env (port_history down_deps down_calls down_world) = 1"
  "map_option phase_of (map_of (pw_breakers (port_history down_deps down_calls down_world)) ''invoice'') = Some (Refusing 10)"
  by code_simp+

text \<open>The first call reaches the service and fails; the breaker then refuses, and the second does not reach it.\<close>

theorem breakers_follow_protocol_witness:
  "map_option phase_of (map_of (pw_breakers (port_history down_deps down_calls down_world)) ''invoice'') = Some (Refusing 10) \<and>
   fold (phase_step (limits_of (cb_options down_breaker)) (counts_of (cb_options down_breaker)))
     (asked_of down_deps ''invoice'' down_calls down_world) (phase_of down_breaker) = Refusing 10 \<and>
   pw_env (snd (execute down_deps None 100 110 ''invoice'' ''download'' [] None (port_history down_deps down_calls down_world))) = 1"
proof -
  have sound: "breaker_sound down_breaker" by (simp add: down_breaker_def cb_new_sound)
  have least: "0 < bl_least (limits_of (cb_options down_breaker))" by (simp add: down_limits)
  have refuses: "refuses_at (limits_of (cb_options down_breaker)) 100 (Refusing 10)" by (simp add: down_limits)
  have no_queue: "pd_queue down_deps = None" by (simp add: down_deps_def)
  from breakers_follow_protocol [OF down_breaker_registered sound least, of down_deps down_calls 100 None 110 "''download''" "[]" None]
  have p: "fold (phase_step (limits_of (cb_options down_breaker)) (counts_of (cb_options down_breaker)))
      (asked_of down_deps ''invoice'' down_calls down_world) (phase_of down_breaker) = Refusing 10"
    and env: "pw_env (snd (execute down_deps None 100 110 ''invoice'' ''download'' [] None (port_history down_deps down_calls down_world)))
      = pw_env (port_history down_deps down_calls down_world)"
    unfolding Let_def down_run(2) using refuses no_queue by auto
  show ?thesis using p env down_run by simp
qed

text \<open>A breaker that opened at 0 refuses at 100: the counting service is not called, as it is through a closed breaker.\<close>

definition down_open_world :: "(json memory_cache, nat) port_world" where
  "down_open_world = breaker_update ''invoice'' (cb_open 0) down_world"

theorem open_port_makes_no_call_witness:
  "pw_env (snd (execute down_deps None 100 110 ''invoice'' ''download'' [] None down_world)) = 1 \<and>
   pw_env (snd (execute down_deps None 100 110 ''invoice'' ''download'' [] None down_open_world)) = 0 \<and>
   map_of (pw_breakers (snd (execute down_deps None 100 110 ''invoice'' ''download'' [] None down_open_world))) ''invoice'' =
     Some (cb_open 0 down_breaker)"
proof -
  have cb: "map_of (pw_breakers down_open_world) ''invoice'' = Some (cb_open 0 down_breaker)"
    by (simp add: down_open_world_def breaker_update_lookup down_breaker_registered)
  have early: "100 - cb_stateChangedAt (cb_open 0 down_breaker) < cb_resetAfter (cb_open 0 down_breaker)"
    by (simp add: cb_open_def cb_resetAfter_def down_breaker_def cb_new_def down_options_def port_breaker_options_def js_or_num_def)
  have "pw_env down_open_world = 0" by (simp add: down_open_world_def down_world_def port_register_def Let_def)
  moreover have "pw_env (snd (execute down_deps None 100 110 ''invoice'' ''download'' [] None down_world)) = 1"
    by code_simp
  ultimately show ?thesis
    using open_port_makes_no_call [OF cb cb_transition_state(1) early, of down_deps None 110 "''download''" "[]" None]
    by (simp add: down_deps_def)
qed

end
