(* ===== verification/Port_Caching.thy ===== *)
theory Port_Caching
  imports Port_Safety
begin

text \<open>
  Properties of the read cache of the port registry: a read that succeeded is served from the cache
  for its time to live, a write invalidates the reads of its port, and a cached answer is always the
  answer the adapter gave for the same port, method and parameters.
\<close>

section \<open>The cache around one call\<close>

lemma no_key_read: "idem_read d t None c = (None, c)"
  by (simp add: idem_read_def with_idempotency_def truthy_str_def)

lemma post_process_read_cache:
  assumes "should_cache m entry"
  shows "pw_cache (snd (post_process d t p entry m True k None v w)) =
    snd (ic_set (pd_cache d) t k (JObj [(''data'', v), (''cachedAt'', JStr (toISOString t))])
      (Some (pc_cacheTtl (pe_config entry))) (pw_cache w))"
  using assms by (simp add: post_process_def with_idempotency_def truthy_str_def async_simps should_cache_def)

lemma post_process_write_cache:
  assumes "isMutationMethod m"
  shows "pw_cache (snd (post_process d t p entry m False k None v w)) =
    snd (ic_deleteByPattern (pd_cache d) (''cache:v2:port:'' @ p @ '':*'') (pw_cache w))"
  using assms by (simp add: post_process_def with_idempotency_def truthy_str_def async_simps)

lemma execute_is_entry:
  "map_of (pw_ports w) p = Some entry \<Longrightarrow>
   execute d ctx t0 t1 p m ps key w = execute_entry d ctx t0 t1 p entry m ps key w"
  by (simp add: execute_def async_simps)

lemma entry_ports:
  assumes "execute_entry d ctx t0 t1 p entry m ps key w = (r, w')" "map_of (pw_ports w) p = Some entry"
  shows "pw_ports w' = pw_ports w"
  using pr.keepsD [OF keeps_execute, of p w d ctx t0 t1 m ps key] assms
  by (simp add: execute_is_entry port_rel_def)

text \<open>A call whose read of the cache hits returns the entry and touches nothing but the cache.\<close>

lemma entry_hit:
  assumes "should_cache m entry"
    and "fst (ic_get (pd_cache d) t0 (buildCacheKey (pd_sha256 d) p m ps) (pw_cache w)) =
      Some (JObj [(''data'', v), (''cachedAt'', a)])"
  shows "execute_entry d ctx t0 t1 p entry m ps None w =
    (Inr \<lparr>pr_data = Some v, pr_adapterUsed = choose_adapter d p entry (pw_config w), pr_fromCache = True,
       pr_duration = 0, pr_metadata = Some \<lparr>md_cachedAt = Some a, md_degraded = None, md_message = None,
         md_fromIdempotency = None\<rparr>\<rparr>,
     w\<lparr>pw_cache := snd (ic_get (pd_cache d) t0 (buildCacheKey (pd_sha256 d) p m ps) (pw_cache w))\<rparr>)"
  using assms by (auto simp: execute_entry_eq no_key_read port_read_def Let_def json_present_def split: prod.splits)

locale port_read_cache = reliable_cache ic view free
  for ic :: "('c, json) ICacheService" and view :: "msec \<Rightarrow> 'c \<Rightarrow> string \<Rightarrow> json option" and free :: "'c \<Rightarrow> nat"
begin

lemma answered_read_view:
  assumes d: "pd_cache d = ic" and sc: "should_cache m entry"
    and run: "execute_entry d ctx t0 t1 p entry m ps None w = (Inr r, w')" "pr_metadata r = None"
    and t: "0 \<le> t1" "0 < free (pw_cache w)" "t \<le> t1 + pc_cacheTtl (pe_config entry) * 1000"
  shows "\<exists>v a. pr_data r = Some v \<and> view t (pw_cache w') (buildCacheKey (pd_sha256 d) p m ps) =
    Some (JObj [(''data'', v), (''cachedAt'', a)])"
proof -
  let ?k = "buildCacheKey (pd_sha256 d) p m ps"
  let ?ttl = "pc_cacheTtl (pe_config entry)"
  obtain v wb where v: "pr_data r = Some v" and w': "w' = snd (post_process d t1 p entry m True ?k None v wb)"
    and wb: "pw_cache wb = snd (ic_get ic t0 ?k (pw_cache w))"
    using run by (rule entry_answered) (auto simp: sc d no_key_read port_read_def intro: that)
  let ?e = "JObj [(''data'', v), (''cachedAt'', JStr (toISOString t1))]"
  have c: "pw_cache w' = snd (ic_set ic t1 ?k ?e (Some ?ttl) (pw_cache wb))"
    using post_process_read_cache [OF sc, of d t1 p ?k v wb] by (simp add: w' d)
  have "0 < free (pw_cache wb)"
    using get_free [of "pw_cache w" t0 ?k] t(2) by (simp add: wb)
  then have "view t (pw_cache w') ?k = Some ?e"
    using sc t by (simp add: c set_view_ok should_cache_def)
  with v show ?thesis by blast
qed

lemma read_again:
  assumes "pd_cache d = ic" and "should_cache m entry" and "map_of (pw_ports w) p = Some entry"
    and "execute d ctx t0 t1 p m ps None w = (Inr r, w')" "pr_metadata r = None"
    and "0 \<le> t1" "0 < free (pw_cache w)" "t2 \<le> t1 + pc_cacheTtl (pe_config entry) * 1000"
  shows "\<exists>r2. fst (execute d ctx2 t2 t3 p m ps None w') = Inr r2 \<and> pr_data r2 = pr_data r \<and> pr_fromCache r2 \<and>
    pw_env (snd (execute d ctx2 t2 t3 p m ps None w')) = pw_env w'"
proof -
  from assms(3,4) have run: "execute_entry d ctx t0 t1 p entry m ps None w = (Inr r, w')"
    by (simp add: execute_is_entry)
  from answered_read_view [OF assms(1,2) run assms(5-8)] obtain v a where
    v: "pr_data r = Some v" and "view t2 (pw_cache w') (buildCacheKey (pd_sha256 d) p m ps) =
      Some (JObj [(''data'', v), (''cachedAt'', a)])" by blast
  then have hit: "fst (ic_get (pd_cache d) t2 (buildCacheKey (pd_sha256 d) p m ps) (pw_cache w')) =
    Some (JObj [(''data'', v), (''cachedAt'', a)])"
    by (simp add: assms(1) get_view)
  have "map_of (pw_ports w') p = Some entry"
    using entry_ports [OF run assms(3)] assms(3) by simp
  with entry_hit [OF assms(2) hit, of ctx2 t3] v show ?thesis by (simp add: execute_is_entry)
qed

end

interpretation pmem: port_read_cache memory_cache_service mc_view mc_free
  by unfold_locales

text \<open>
  A read that the adapter answered is answered from the cache for the time to live of its port:
  the same method with the same parameters, asked by anybody, returns the same data without
  reaching the downstream service, as long as the in-process cache had room for the entry.
\<close>

lemma read_served_from_cache:
  assumes "pd_cache d = memory_cache_service" "should_cache m entry" "map_of (pw_ports w) p = Some entry"
    and "execute d ctx t0 t1 p m ps None w = (Inr r, w')" "pr_metadata r = None"
    and "0 \<le> t1" "0 < mc_free (pw_cache w)" "t2 \<le> t1 + pc_cacheTtl (pe_config entry) * 1000"
  shows "\<exists>r2. fst (execute d ctx2 t2 t3 p m ps None w') = Inr r2 \<and> pr_data r2 = pr_data r \<and> pr_fromCache r2 \<and>
    pw_env (snd (execute d ctx2 t2 t3 p m ps None w')) = pw_env w'"
  using assms by (rule pmem.read_again)

section \<open>Writes invalidate reads\<close>

lemma mc_pattern_clears:
  assumes "CHR ''*'' \<notin> set (mc_getFullKey c stem)" "CHR ''?'' \<notin> set (mc_getFullKey c stem)"
    and "list_all js_dot rest"
  shows "mc_view t (snd (mc_deleteByPattern (stem @ ''*'') c)) (stem @ rest) = None"
proof -
  have "mc_getFullKey c (stem @ ''*'') = mc_getFullKey c stem @ ''*''"
    "mc_getFullKey c (stem @ rest) = mc_getFullKey c stem @ rest"
    by (simp_all add: mc_getFullKey_def)
  with assms show ?thesis
    by (simp add: mc_deleteByPattern_view glob_literal_star list_all_iff)
qed

lemma write_clears_reads:
  assumes d: "pd_cache d = memory_cache_service" and mut: "isMutationMethod m"
    and run: "execute_entry d ctx t0 t1 p entry m ps None w = (Inr r, w')" "pr_metadata r = None"
    and name: "CHR ''*'' \<notin> set (mc_keyPrefix (pw_cache w) @ p)" "CHR ''?'' \<notin> set (mc_keyPrefix (pw_cache w) @ p)"
    and hash: "list_all js_dot (pd_sha256 d x)"
    and k: "k = ''cache:v2:port:'' @ p @ '':'' @ take 16 (pd_sha256 d x)"
  shows "mc_view t (pw_cache w') k = None"
proof -
  obtain v wb where w': "w' = snd (post_process d t1 p entry m False (buildCacheKey (pd_sha256 d) p m ps) None v wb)"
    and wb: "pw_cache wb = pw_cache w"
    using run by (rule entry_answered) (auto simp: mut should_cache_def no_key_read port_read_def intro: that)
  let ?stem = "''cache:v2:port:'' @ p @ '':''"
  have c: "pw_cache w' = snd (mc_deleteByPattern (?stem @ ''*'') (pw_cache w))"
    using post_process_write_cache [OF mut, of d t1 p entry "buildCacheKey (pd_sha256 d) p m ps" v wb]
    by (simp add: w' wb d memory_cache_service_def split: prod.splits)
  have "list_all js_dot (take 16 (pd_sha256 d x))"
    using hash by (auto simp: list_all_iff dest: in_set_takeD)
  moreover have "CHR ''*'' \<notin> set (mc_getFullKey (pw_cache w) ?stem)" "CHR ''?'' \<notin> set (mc_getFullKey (pw_cache w) ?stem)"
    using name by (simp_all add: mc_getFullKey_def)
  ultimately show ?thesis
    using mc_pattern_clears [of "pw_cache w" ?stem "take 16 (pd_sha256 d x)" t] by (simp add: c k)
qed

lemma entry_miss_fresh:
  assumes "\<not> json_present (fst (port_read d t0 (should_cache m entry) (buildCacheKey (pd_sha256 d) p m ps) (pw_cache w)))"
    and "execute_entry d ctx t0 t1 p entry m ps None w = (Inr r, w')"
  shows "pr_metadata r = None \<or> (\<exists>md. pr_metadata r = Some md \<and> md_degraded md = Some True)"
  using assms
  by (auto simp: execute_entry_eq port_call_eq no_key_read Let_def dest: queue_result_degraded
      split: prod.splits if_splits sum.splits)

lemma fresh_after_write:
  assumes "pd_cache d = memory_cache_service" "map_of (pw_ports w) p = Some entry" "isMutationMethod m"
    and "execute d ctx t0 t1 p m ps None w = (Inr r, w')" "pr_metadata r = None"
    and "CHR ''*'' \<notin> set (mc_keyPrefix (pw_cache w) @ p)" "CHR ''?'' \<notin> set (mc_keyPrefix (pw_cache w) @ p)"
    and "\<And>x. list_all js_dot (pd_sha256 d x)"
    and "fst (execute d ctx2 t2 t3 p m2 ps2 None w') = Inr r2"
  shows "pr_metadata r2 = None \<or> (\<exists>md. pr_metadata r2 = Some md \<and> md_degraded md = Some True)"
proof -
  from assms(2,4) have run: "execute_entry d ctx t0 t1 p entry m ps None w = (Inr r, w')"
    by (simp add: execute_is_entry)
  have reg: "map_of (pw_ports w') p = Some entry"
    using entry_ports [OF run assms(2)] assms(2) by simp
  let ?k = "buildCacheKey (pd_sha256 d) p m2 ps2"
  have "mc_view t2 (pw_cache w') ?k = None"
    by (rule write_clears_reads [OF assms(1,3) run assms(5-8)]) (simp add: buildCacheKey_def generateShortHash_def)
  then have "\<not> json_present (fst (port_read d t2 (should_cache m2 entry) ?k (pw_cache w')))"
    by (simp add: port_read_def assms(1) mem.get_view json_present_def)
  moreover from assms(9) reg obtain w2 where "execute_entry d ctx2 t2 t3 p entry m2 ps2 None w' = (Inr r2, w2)"
    by (metis execute_is_entry prod.collapse)
  ultimately show ?thesis by (rule entry_miss_fresh)
qed

text \<open>
  C13. After a write that the adapter answered, no read of the same port is served from the read
  cache: the next call of whatever method and parameters, if it returns at all, returns a fresh
  answer of the adapter or is marked as degraded. The port name and the cache's prefix hold no
  wildcards, and the hash is a line of text, as a hexadecimal digest is.
\<close>

theorem write_invalidates_reads:
  assumes "pd_cache d = memory_cache_service" "map_of (pw_ports w) p = Some entry" "isMutationMethod m"
    and "execute d ctx t0 t1 p m ps None w = (Inr r, w')" "pr_metadata r = None"
    and "CHR ''*'' \<notin> set (mc_keyPrefix (pw_cache w) @ p)" "CHR ''?'' \<notin> set (mc_keyPrefix (pw_cache w) @ p)"
    and "\<And>x. list_all js_dot (pd_sha256 d x)"
    and "fst (execute d ctx2 t2 t3 p m2 ps2 None w') = Inr r2"
  shows "pr_metadata r2 = None \<or> (\<exists>md. pr_metadata r2 = Some md \<and> md_degraded md = Some True)"
  using assms by (rule fresh_after_write)

text \<open>
  The list of verbs is closed: an operation that the live adapters send as \<^verbatim>\<open>PUT\<close> is
  treated as a cacheable read.
\<close>

lemma edit_is_cacheable:
  "\<not> isMutationMethod ''edit-profile'' \<and>
   resolveHttpMethod \<lparr>ac_portName = p, ac_baseUrl = u, ac_timeout = t, ac_methodMap = None\<rparr> ''edit-profile'' = PUT"
  by (simp add: resolveHttpMethod_def starts_with_def isMutationMethod_def mutation_verbs_def)

section \<open>A cached answer belongs to its call\<close>

definition port_stem :: string where
  "port_stem = ''cache:v2:port:''"

type_synonym answer = "string \<times> string \<times> (string \<times> json) list \<times> json"

text \<open>Every entry under a key of the registry holds an answer that was given for that key.\<close>

definition holds_answer :: "(string \<Rightarrow> string) \<Rightarrow> answer set \<Rightarrow> string \<Rightarrow> json \<Rightarrow> bool" where
  "holds_answer sha A k x \<longleftrightarrow> (\<exists>p m ps v a. (p, m, ps, v) \<in> A \<and> k = buildCacheKey sha p m ps \<and>
     x = JObj [(''data'', v), (''cachedAt'', a)])"

definition sound_cache :: "(string \<Rightarrow> string) \<Rightarrow> answer set \<Rightarrow> json memory_cache \<Rightarrow> bool" where
  "sound_cache sha A c \<longleftrightarrow> (\<forall>k e. map_of (mc_cache c) (mc_getFullKey c (port_stem @ k)) = Some e \<longrightarrow>
     holds_answer sha A (port_stem @ k) (ce_value e))"

definition mc_sub :: "'v memory_cache \<Rightarrow> 'v memory_cache \<Rightarrow> bool" where
  "mc_sub c' c \<longleftrightarrow> mc_keyPrefix c' = mc_keyPrefix c \<and>
     (\<forall>k e. map_of (mc_cache c') k = Some e \<longrightarrow> map_of (mc_cache c) k = Some e)"

lemma holds_mono: "holds_answer sha A k x \<Longrightarrow> A \<subseteq> B \<Longrightarrow> holds_answer sha B k x"
  unfolding holds_answer_def by blast

lemma sound_sub:
  assumes "sound_cache sha A c" "mc_sub c' c" "A \<subseteq> B"
  shows "sound_cache sha B c'"
  unfolding sound_cache_def
proof (intro allI impI)
  fix k e
  assume "map_of (mc_cache c') (mc_getFullKey c' (port_stem @ k)) = Some e"
  then have "map_of (mc_cache c) (mc_getFullKey c (port_stem @ k)) = Some e"
    using assms(2) by (simp add: mc_sub_def mc_getFullKey_def split: if_splits)
  then have "holds_answer sha A (port_stem @ k) (ce_value e)"
    using assms(1) by (simp add: sound_cache_def)
  then show "holds_answer sha B (port_stem @ k) (ce_value e)"
    using assms(3) by (rule holds_mono)
qed

lemma mc_sub_refl [simp]: "mc_sub c c"
  by (simp add: mc_sub_def)

lemma delete_sub: "map_of (AList.delete x m) k = Some e \<Longrightarrow> map_of m k = Some e"
  by (simp add: jsmap_simps split: if_splits)

lemma mc_sub_get: "mc_sub (snd (mc_get t k c)) c"
proof -
  have "snd (mc_get t k c) = c \<or> snd (mc_get t k c) = c\<lparr>mc_cache := AList.delete (mc_getFullKey c k) (mc_cache c)\<rparr>"
    by (simp add: mc_get_def Let_def split: option.split)
  then show ?thesis using delete_sub by (auto simp: mc_sub_def)
qed

lemma mc_sub_pattern: "mc_sub (snd (mc_deleteByPattern pat c)) c"
  by (simp add: mc_sub_def mc_deleteByPattern_def Let_def map_of_filter_keys)

lemma mc_evict_cases: "\<exists>x. mc_evict fk c = mc_cache c \<or> mc_evict fk c = AList.delete x (mc_cache c)"
  unfolding mc_evict_def by (cases "mc_cache c") (simp_all split: prod.split, blast?)

lemma mc_evict_sub: "map_of (mc_evict fk c) k = Some e \<Longrightarrow> map_of (mc_cache c) k = Some e"
  using mc_evict_cases [of fk c] by (auto dest: delete_sub)

lemma mc_set_entries:
  "map_of (mc_cache (mc_set t k v ttl c)) (mc_getFullKey c k') = Some e \<Longrightarrow>
   (if k' = k then ce_value e = v else map_of (mc_cache c) (mc_getFullKey c k') = Some e)"
  by (auto simp: mc_set_def Let_def jsmap_simps dest: mc_evict_sub split: if_splits)

lemma sound_set:
  assumes "sound_cache sha A c" "\<And>x. k = port_stem @ x \<Longrightarrow> holds_answer sha A k v"
  shows "sound_cache sha A (mc_set t k v ttl c)"
  unfolding sound_cache_def
proof (intro allI impI)
  fix x e
  assume "map_of (mc_cache (mc_set t k v ttl c)) (mc_getFullKey (mc_set t k v ttl c) (port_stem @ x)) = Some e"
  from mc_set_entries [OF this [unfolded getFullKey_set]] assms
  show "holds_answer sha A (port_stem @ x) (ce_value e)"
    by (cases "port_stem @ x = k") (auto simp: sound_cache_def)
qed

lemma sound_set_answer:
  "sound_cache sha A c \<Longrightarrow> (p, m, ps, v) \<in> A \<Longrightarrow>
   sound_cache sha A (mc_set t (buildCacheKey sha p m ps) (JObj [(''data'', v), (''cachedAt'', a)]) ttl c)"
  by (rule sound_set, assumption) (unfold holds_answer_def, blast)

lemma sound_set_other:
  "sound_cache sha A c \<Longrightarrow> (\<And>x. k \<noteq> port_stem @ x) \<Longrightarrow> sound_cache sha A (mc_set t k v ttl c)"
  by (rule sound_set, assumption) blast

lemma memory_ops:
  "ic_get memory_cache_service = mc_get"
  "ic_set memory_cache_service t k v ttl c = (True, mc_set t k v ttl c)"
  "snd (ic_deleteByPattern memory_cache_service pat c) = snd (mc_deleteByPattern pat c)"
  by (simp_all add: memory_cache_service_def split: prod.splits)

lemma idem_key_other: "idem_key sha x \<noteq> port_stem @ y"
  by (simp add: idem_key_def port_stem_def)

definition on_memory :: "(json memory_cache, 's) port_deps \<Rightarrow> bool" where
  "on_memory d \<longleftrightarrow> pd_cache d = memory_cache_service \<and>
     pd_idempotency d \<in> {None, Some None, Some (Some memory_cache_service)}"

lemma sound_idem_read:
  assumes "on_memory d" "sound_cache sha A c"
  shows "sound_cache sha A (snd (idem_read d t key c))"
proof -
  have "snd (idem_read d t key c) = c \<or> (\<exists>k. snd (idem_read d t key c) = snd (mc_get t k c))"
    using assms(1)
    by (auto simp: on_memory_def idem_read_def with_idempotency_def idem_check_def memory_ops
        split: option.splits prod.splits) (metis snd_conv)
  with assms(2) sound_sub [OF assms(2) mc_sub_get] show ?thesis by auto
qed

lemma sound_port_read:
  assumes "on_memory d" "sound_cache sha A c"
  shows "sound_cache sha A (snd (port_read d t sc k c))"
  using assms sound_sub [OF assms(2) mc_sub_get] by (simp add: on_memory_def port_read_def memory_ops)

lemma sound_post_process:
  assumes d: "on_memory d" and A: "sound_cache (pd_sha256 d) A (pw_cache w)" "(p, m, ps, v) \<in> A"
  shows "sound_cache (pd_sha256 d) A
    (pw_cache (snd (post_process d t p entry m sc (buildCacheKey (pd_sha256 d) p m ps) key v w)))"
proof -
  let ?sha = "pd_sha256 d"
  define c1 where "c1 = (if isMutationMethod m then snd (mc_deleteByPattern (''cache:v2:port:'' @ p @ '':*'') (pw_cache w)) else pw_cache w)"
  define c2 where "c2 = (if sc then mc_set t (buildCacheKey ?sha p m ps)
     (JObj [(''data'', v), (''cachedAt'', JStr (toISOString t))]) (Some (pc_cacheTtl (pe_config entry))) c1 else c1)"
  define c3 where "c3 = (if truthy_str key \<and> pd_idempotency d = Some (Some memory_cache_service)
     then mc_set t (idem_key ?sha (the key)) v (Some idem_TTL) c2 else c2)"
  have "pw_cache (snd (post_process d t p entry m sc (buildCacheKey ?sha p m ps) key v w)) = c3"
    using d by (auto simp: post_process_def with_idempotency_def async_simps c1_def c2_def c3_def on_memory_def
        memory_ops idem_store_def)
  moreover have "sound_cache ?sha A c1"
    using A(1) sound_sub [OF A(1) mc_sub_pattern] by (simp add: c1_def)
  then have "sound_cache ?sha A c2"
    using sound_set_answer A(2) by (simp add: c2_def)
  then have "sound_cache ?sha A c3"
    using sound_set_other idem_key_other by (simp add: c3_def)
  ultimately show ?thesis by simp
qed

definition call_payload :: "string \<Rightarrow> (string \<times> json) list \<Rightarrow> string" where
  "call_payload m ps = stringify (JObj [(''method'', JStr m), (''params'', JObj ps)])"

lemma call_payload_inject: "call_payload m ps = call_payload m' ps' \<longleftrightarrow> m = m' \<and> ps = ps'"
  unfolding call_payload_def stringify_inject by simp

lemma buildCacheKey_inject:
  assumes hex: "\<And>x. CHR '':'' \<notin> set (sha x)"
    and inj: "inj_on (generateShortHash sha) P" "call_payload m ps \<in> P" "call_payload m' ps' \<in> P"
    and eq: "buildCacheKey sha p m ps = buildCacheKey sha p' m' ps'"
  shows "p = p' \<and> m = m' \<and> ps = ps'"
proof -
  let ?h = "generateShortHash sha (call_payload m ps)" and ?h' = "generateShortHash sha (call_payload m' ps')"
  have no: "CHR '':'' \<notin> set (rev (generateShortHash sha x))" for x
    using hex in_set_takeD by (fastforce simp: generateShortHash_def)
  from eq have "p @ CHR '':'' # ?h = p' @ CHR '':'' # ?h'"
    by (simp add: buildCacheKey_def call_payload_def)
  then have "rev ?h @ CHR '':'' # rev p = rev ?h' @ CHR '':'' # rev p'"
    by (metis append.assoc append_Cons append_Nil rev.simps(2) rev_append)
  then have "p = p'" "?h = ?h'"
    using append_sep_inject [OF no no] by simp_all
  with inj have "call_payload m ps = call_payload m' ps'" by (simp add: inj_on_eq_iff)
  with \<open>p = p'\<close> show ?thesis by (simp add: call_payload_inject)
qed

fun op_payload :: "port_op \<Rightarrow> string" where
  "op_payload (Execute ctx t0 t1 p m ps key) = call_payload m ps"
| "op_payload (Replay now uuid payload) = call_payload (rp_method payload) (rp_params payload)"

text \<open>The answers the adapters gave to the calls of a history.\<close>

fun op_answer :: "('c, 's) port_deps \<Rightarrow> port_op \<Rightarrow> ('c, 's) port_world \<Rightarrow> answer list" where
  "op_answer d (Execute ctx t0 t1 p m ps key) w =
     (case fst (execute d ctx t0 t1 p m ps key w) of
        Inr r \<Rightarrow> if pr_metadata r = None then [(p, m, ps, the (pr_data r))] else []
      | Inl e \<Rightarrow> [])"
| "op_answer d (Replay now uuid payload) w = []"

fun port_answers :: "('c, 's) port_deps \<Rightarrow> port_op list \<Rightarrow> ('c, 's) port_world \<Rightarrow> answer list" where
  "port_answers d [] w = []"
| "port_answers d (op # ops) w = op_answer d op w @ port_answers d ops (port_step d op w)"

lemma op_answer_payload: "(p, m, ps, v) \<in> set (op_answer d op w) \<Longrightarrow> call_payload m ps = op_payload op"
  by (cases op) (auto split: sum.splits if_splits)

lemma answers_payload: "(p, m, ps, v) \<in> set (port_answers d ops w) \<Longrightarrow> call_payload m ps \<in> op_payload ` set ops"
  by (induction ops arbitrary: w) (auto dest: op_answer_payload)

lemma queue_cache:
  "pw_cache (snd (executeWithQueue d ctx t0 t p entry used err m ps key w)) = pw_cache w"
  unfolding executeWithQueue_def executeFallback_def queue_stale_def enqueue_def
  by (simp add: async_simps split: option.split sum.split prod.split)

lemma sound_entry:
  assumes d: "on_memory d" and A: "sound_cache (pd_sha256 d) A (pw_cache w)"
    and run: "execute_entry d ctx t0 t1 p entry m ps key w = (x, w')"
    and B: "A \<subseteq> B" "\<And>r. x = Inr r \<Longrightarrow> pr_metadata r = None \<Longrightarrow> (p, m, ps, the (pr_data r)) \<in> B"
  shows "sound_cache (pd_sha256 d) B (pw_cache w')"
proof -
  have B0: "sound_cache (pd_sha256 d) B (pw_cache w)"
    using sound_sub [OF A mc_sub_refl B(1)] .
  let ?c = "snd (idem_read d t0 key (pw_cache w))"
  let ?k = "buildCacheKey (pd_sha256 d) p m ps"
  let ?c' = "snd (port_read d t0 (should_cache m entry) ?k ?c)"
  have c: "sound_cache (pd_sha256 d) B ?c" "sound_cache (pd_sha256 d) B ?c'"
    using sound_idem_read [OF d B0] sound_port_read [OF d] by blast+
  show ?thesis
  proof (cases "\<exists>r. x = Inr r \<and> pr_metadata r = None")
    case True
    then obtain r where r: "x = Inr r" "pr_metadata r = None" by blast
    from run [unfolded r(1)] r(2) obtain v wb where v: "pr_data r = Some v"
      and w': "w' = snd (post_process d t1 p entry m (should_cache m entry) ?k key v wb)" and wb: "pw_cache wb = ?c'"
      by (rule entry_answered) (auto intro: that)
    have "(p, m, ps, v) \<in> B" using B(2) [OF r] v by simp
    with sound_post_process [OF d] c(2) wb show ?thesis by (simp add: w')
  next
    case False
    have "pw_cache w' = ?c \<or> pw_cache w' = ?c'"
      using run False
      by (auto simp: execute_entry_eq port_call_eq Let_def dest!: arg_cong [where f = snd]
          simp: queue_cache split: prod.splits option.splits if_splits sum.splits)
    with c show ?thesis by auto
  qed
qed

lemma sound_step:
  assumes d: "on_memory d" and A: "sound_cache (pd_sha256 d) A (pw_cache w)"
  shows "sound_cache (pd_sha256 d) (A \<union> set (op_answer d op w)) (pw_cache (port_step d op w))"
proof (cases op)
  case (Execute ctx t0 t1 p m ps key)
  show ?thesis
  proof (cases "map_of (pw_ports w) p")
    case None
    then have "port_step d op w = w" by (simp add: Execute execute_def async_simps)
    with sound_sub [OF A mc_sub_refl] show ?thesis by simp
  next
    case (Some entry)
    obtain x w' where run: "execute_entry d ctx t0 t1 p entry m ps key w = (x, w')" by fastforce
    have "sound_cache (pd_sha256 d) (A \<union> set (op_answer d op w)) (pw_cache w')"
      by (rule sound_entry [OF d A run]) (use Some run in \<open>auto simp: Execute execute_is_entry\<close>)
    with Some run show ?thesis by (simp add: Execute execute_is_entry)
  qed
next
  case (Replay now uuid payload)
  have "pw_cache (port_step d op w) = pw_cache w"
    by (simp add: Replay executeReplay_def async_simps split: option.split prod.split sum.split)
  with A sound_sub [OF A mc_sub_refl] show ?thesis by (simp add: Replay)
qed

lemma sound_history:
  "on_memory d \<Longrightarrow> sound_cache (pd_sha256 d) A (pw_cache w) \<Longrightarrow>
   sound_cache (pd_sha256 d) (A \<union> set (port_answers d ops w)) (pw_cache (port_history d ops w))"
proof (induction ops arbitrary: A w)
  case (Cons op ops)
  from Cons.IH [OF Cons.prems(1) sound_step [OF Cons.prems]] show ?case by (simp add: Un_assoc)
qed simp

lemma entry_cached_view:
  assumes d: "on_memory d"
    and run: "execute_entry d ctx t0 t1 p entry m ps key w = (Inr r, w')"
    and md: "pr_metadata r = Some md" "md_degraded md = None" "md_fromIdempotency md = None"
  obtains x t where "mc_view t (snd (idem_read d t0 key (pw_cache w))) (buildCacheKey (pd_sha256 d) p m ps) = Some x"
    "pr_data r = json_get ''data'' x"
proof -
  let ?c = "snd (idem_read d t0 key (pw_cache w))" and ?k = "buildCacheKey (pd_sha256 d) p m ps"
  from run md have "json_present (fst (port_read d t0 (should_cache m entry) ?k ?c))"
    "pr_data r = json_get ''data'' (the (fst (port_read d t0 (should_cache m entry) ?k ?c)))"
    by (auto simp: execute_entry_eq port_call_eq Let_def dest: queue_result_degraded
        split: prod.splits option.splits if_splits sum.splits)
  moreover have "fst (port_read d t0 (should_cache m entry) ?k ?c) = (if should_cache m entry then mc_view t0 ?c ?k else None)"
    using d by (simp add: port_read_def on_memory_def mem.get_view)
  ultimately show ?thesis
    by (intro that [of t0 "the (mc_view t0 ?c ?k)"]) (auto simp: json_present_def split: if_splits)
qed

text \<open>
  C9. A cached answer belongs to its call. In any history of calls and replays that starts with no
  entry of the registry in the cache, an answer served from the read cache is one that an adapter
  gave, earlier in the history, to a call of the same port with the same method and the same
  parameters. The digest is hexadecimal and its first sixteen characters tell the calls of the
  history apart.
\<close>

theorem cached_answer_belongs_to_call:
  assumes "on_memory d" "sound_cache (pd_sha256 d) {} (pw_cache w)"
    and "\<And>x. CHR '':'' \<notin> set (pd_sha256 d x)"
    and "inj_on (generateShortHash (pd_sha256 d)) (insert (call_payload m ps) (op_payload ` set ops))"
    and "fst (execute d ctx t0 t1 p m ps key (port_history d ops w)) = Inr r"
    and "pr_metadata r = Some md" "md_degraded md = None" "md_fromIdempotency md = None"
  shows "\<exists>v. pr_data r = Some v \<and> (p, m, ps, v) \<in> set (port_answers d ops w)"
proof -
  let ?w = "port_history d ops w" and ?A = "set (port_answers d ops w)"
  from assms(5) obtain entry where reg: "map_of (pw_ports ?w) p = Some entry"
    by (cases "map_of (pw_ports ?w) p") (simp_all add: execute_def async_simps)
  with assms(5) obtain w' where run: "execute_entry d ctx t0 t1 p entry m ps key ?w = (Inr r, w')"
    by (metis execute_is_entry prod.collapse)
  from entry_cached_view [OF assms(1) run assms(6-8)] obtain x t where
    view: "mc_view t (snd (idem_read d t0 key (pw_cache ?w))) (buildCacheKey (pd_sha256 d) p m ps) = Some x"
    and data: "pr_data r = json_get ''data'' x" by blast
  have "sound_cache (pd_sha256 d) ?A (snd (idem_read d t0 key (pw_cache ?w)))"
    using sound_idem_read [OF assms(1)] sound_history [OF assms(1,2), of ops] by simp
  with view have "holds_answer (pd_sha256 d) ?A (buildCacheKey (pd_sha256 d) p m ps) x"
    by (auto simp: sound_cache_def mc_view_def port_stem_def buildCacheKey_def split: option.splits if_splits)
  then obtain p' m' ps' v a where ans: "(p', m', ps', v) \<in> ?A"
    and eq: "buildCacheKey (pd_sha256 d) p m ps = buildCacheKey (pd_sha256 d) p' m' ps'"
    and x: "x = JObj [(''data'', v), (''cachedAt'', a)]"
    unfolding holds_answer_def by blast
  from answers_payload [OF ans] have "call_payload m' ps' \<in> insert (call_payload m ps) (op_payload ` set ops)" by blast
  from buildCacheKey_inject [OF assms(3,4) insertI1 this eq] ans data x show ?thesis by simp
qed

section \<open>The concrete registry\<close>

text \<open>A digest that tells the payload of one method from all others.\<close>

definition demo_digest :: "string \<Rightarrow> string" where
  "demo_digest s = (if s = call_payload ''get-detail'' [] then ''1'' else ''0'')"

definition demo_cached_deps :: "(json memory_cache, unit) port_deps" where
  "demo_cached_deps = demo_port_deps\<lparr>pd_sha256 := demo_digest\<rparr>"

abbreviation demo_read where
  "demo_read w \<equiv> execute demo_cached_deps (user_context ''alice'') 0 10 ''invoice'' ''get-detail'' [] None w"

lemma demo_digest_chars: "c \<in> set (demo_digest s) \<Longrightarrow> is_digit c"
  by (auto simp: demo_digest_def is_digit_def split: if_splits)

lemma demo_read_result:
  "\<exists>r w'. demo_read demo_port_world = (Inr r, w') \<and> pr_metadata r = None \<and>
     pr_data r = Some (JObj [(''owner'', JStr ''alice'')])"
proof -
  have "fst (demo_read demo_port_world) = Inr \<lparr>pr_data = Some (JObj [(''owner'', JStr ''alice'')]),
    pr_adapterUsed = Live, pr_fromCache = False, pr_duration = 10, pr_metadata = None\<rparr>"
    by code_simp
  then show ?thesis by (cases "demo_read demo_port_world") auto
qed

theorem cached_answer_belongs_to_call_witness:
  "(''invoice'', ''get-detail'', [], JObj [(''owner'', JStr ''alice'')]) \<in>
     set (port_answers demo_cached_deps [Execute (user_context ''alice'') 0 10 ''invoice'' ''get-detail'' [] None] demo_port_world)"
proof -
  let ?ops = "[Execute (user_context ''alice'') 0 10 ''invoice'' ''get-detail'' [] None]"
  let ?r = "\<lparr>pr_data = Some (JObj [(''owner'', JStr ''alice'')]), pr_adapterUsed = Live, pr_fromCache = True,
    pr_duration = 0, pr_metadata = Some \<lparr>md_cachedAt = Some (JStr ''1970-01-01T00:00:00.010Z''), md_degraded = None,
      md_message = None, md_fromIdempotency = None\<rparr>\<rparr>"
  have hit: "fst (execute demo_cached_deps None 60000 60010 ''invoice'' ''get-detail'' [] None
      (port_history demo_cached_deps ?ops demo_port_world)) = Inr ?r"
    by code_simp
  have mem: "on_memory demo_cached_deps" by (simp add: on_memory_def demo_cached_deps_def demo_port_deps_def)
  have start: "sound_cache (pd_sha256 demo_cached_deps) {} (pw_cache demo_port_world)"
    by (simp add: sound_cache_def demo_port_world_def port_register_def mc_new_def Let_def)
  have hex: "CHR '':'' \<notin> set (pd_sha256 demo_cached_deps x)" for x
    using demo_digest_chars [of "CHR '':''" x] by (auto simp: demo_cached_deps_def is_digit_def)
  from cached_answer_belongs_to_call [OF mem start hex _ hit] show ?thesis by simp
qed

abbreviation demo_write where
  "demo_write w \<equiv> execute demo_cached_deps (user_context ''alice'') 20 30 ''invoice'' ''update-address'' [] None w"

theorem write_invalidates_reads_witness:
  "\<exists>r2. fst (execute demo_cached_deps (user_context ''bob'') 40 50 ''invoice'' ''get-detail'' [] None
      (snd (demo_write (snd (demo_read demo_port_world))))) = Inr r2 \<and>
     (pr_metadata r2 = None \<or> (\<exists>md. pr_metadata r2 = Some md \<and> md_degraded md = Some True))"
proof -
  let ?w = "snd (demo_read demo_port_world)"
  have "fst (demo_write ?w) = Inr \<lparr>pr_data = Some (JObj [(''owner'', JStr ''alice'')]),
    pr_adapterUsed = Live, pr_fromCache = False, pr_duration = 10, pr_metadata = None\<rparr>"
    by code_simp
  then obtain r where r: "demo_write ?w = (Inr r, snd (demo_write ?w))" "pr_metadata r = None"
    by (cases "demo_write ?w") auto
  obtain r2 where r2: "fst (execute demo_cached_deps (user_context ''bob'') 40 50 ''invoice'' ''get-detail'' [] None
      (snd (demo_write ?w))) = Inr r2"
  proof -
    have "\<not> isl (fst (execute demo_cached_deps (user_context ''bob'') 40 50 ''invoice'' ''get-detail'' [] None
      (snd (demo_write ?w))))" by code_simp
    then show ?thesis using that by (metis sum.collapse(2))
  qed
  have reg: "map_of (pw_ports ?w) ''invoice'' = Some demo_entry"
    using pr.keepsD [OF keeps_execute, of "''invoice''" demo_port_world] demo_entry_registered
    by (simp add: port_rel_def)
  have mut: "isMutationMethod ''update-address''" by code_simp
  have prefix: "mc_keyPrefix (pw_cache ?w) = ''''" by code_simp
  have mem: "pd_cache demo_cached_deps = memory_cache_service" by (simp add: demo_cached_deps_def demo_port_deps_def)
  have dot: "list_all js_dot (pd_sha256 demo_cached_deps x)" for x
    using demo_digest_chars [of _ x] by (fastforce simp: demo_cached_deps_def list_all_iff js_dot_def is_digit_def)
  from write_invalidates_reads [OF mem reg mut r _ _ dot r2] prefix r2 show ?thesis by auto
qed

end
