(* ===== verification/Port_Clients.thy ===== *)
theory Port_Clients
  imports Port_Registry
begin

text \<open>
  Two clients of the port registry: the fan-out of
  src/libs/shared/port/aggregation.service.ts and the health indicator of
  src/libs/shared/port/port-health-indicator.ts.
\<close>

section \<open>Aggregation\<close>

record aggregation_call =
  ac_port :: string
  ac_method :: string
  ac_params :: "(string \<times> json) list option"

record aggregation_result =
  ar_portName :: string
  ar_success :: bool
  ar_data :: "json option"
  ar_error :: "string option"
  ar_duration :: int

record aggregation_response =
  rs_results :: "aggregation_result list"
  rs_succeeded :: nat
  rs_failed :: nat
  rs_totalDuration :: int

text \<open>
  \<^verbatim>\<open>Promise.allSettled\<close> runs the calls concurrently and reports them in the order of the
  calls. The order in which they take effect is an argument: the list of their positions.
\<close>

fun run_calls ::
  "('c, 's) port_deps \<Rightarrow> request_context option \<Rightarrow> msec \<Rightarrow> msec \<Rightarrow> aggregation_call list \<Rightarrow> nat list \<Rightarrow>
   ('c, 's) port_world \<Rightarrow> (nat \<times> (port_error + port_result)) list \<times> ('c, 's) port_world" where
  "run_calls d ctx t0 t1 calls [] w = ([], w)"
| "run_calls d ctx t0 t1 calls (i # order) w =
     (let call = calls ! i;
          (r, w1) = execute d ctx t0 t1 (ac_port call) (ac_method call) (js_nullish (ac_params call) []) None w;
          (rest, w2) = run_calls d ctx t0 t1 calls order w1
      in ((i, r) # rest, w2))"

definition settled_result :: "int \<Rightarrow> aggregation_call \<Rightarrow> port_error + port_result \<Rightarrow> aggregation_result" where
  "settled_result elapsed call r =
     (case r of
        Inr v \<Rightarrow> \<lparr>ar_portName = ac_port call, ar_success = True, ar_data = pr_data v, ar_error = None,
                  ar_duration = pr_duration v\<rparr>
      | Inl e \<Rightarrow> \<lparr>ar_portName = ac_port call, ar_success = False, ar_data = None,
                  ar_error = Some (port_message e), ar_duration = elapsed\<rparr>)"

definition executeAll ::
  "('c, 's) port_deps \<Rightarrow> request_context option \<Rightarrow> msec \<Rightarrow> msec \<Rightarrow> nat list \<Rightarrow> aggregation_call list \<Rightarrow>
   ('c, 's) port_world \<Rightarrow> aggregation_response \<times> ('c, 's) port_world" where
  "executeAll d ctx t0 t1 order calls w =
     (case run_calls d ctx t0 t1 calls order w of (settled, w') \<Rightarrow>
        let results = map (\<lambda>i. settled_result (t1 - t0) (calls ! i) (the (map_of settled i))) [0..<length calls]
        in (\<lparr>rs_results = results,
             rs_succeeded = length (filter ar_success results),
             rs_failed = length (filter (\<lambda>r. \<not> ar_success r) results),
             rs_totalDuration = t1 - t0\<rparr>, w'))"

definition resolveToMap :: "aggregation_response \<Rightarrow> (string, json) jsmap" where
  "resolveToMap response = foldl (\<lambda>m r. AList.update (ar_portName r)
     (if ar_success r then json_nullish (ar_data r) JNull else JNull) m) [] (rs_results response)"

definition resolveSuccessful :: "aggregation_response \<Rightarrow> (string, json) jsmap" where
  "resolveSuccessful response = foldl (\<lambda>m r.
     (case ar_data r of
        Some v \<Rightarrow> if ar_success r then AList.update (ar_portName r) v m else m
      | None \<Rightarrow> m)) [] (rs_results response)"

section \<open>Health\<close>

datatype health_status = UP | DEGRADED | DOWN

record port_health =
  ph_status :: health_status
  ph_message :: string
  ph_timestamp :: string
  ph_circuits :: "(string \<times> circuit_state \<times> rat) list option"
  ph_total :: "nat option"
  ph_open :: "nat option"
  ph_halfOpen :: "nat option"
  ph_closed :: "nat option"

definition port_health_check :: "msec \<Rightarrow> ('c, 's) port_world \<Rightarrow> port_health" where
  "port_health_check now w =
     (let states = getAllCircuitBreakerStates w;
          in_state = (\<lambda>st. filter (\<lambda>s. fst (snd s) = st) states);
          openPorts = in_state OPEN;
          halfOpenPorts = in_state HALF_OPEN;
          closedPorts = in_state CLOSED;
          circuits = map (\<lambda>(portName, st, _, _, _, failureRate). (portName, st, failureRate)) states
      in if states = []
         then \<lparr>ph_status = UP, ph_message = ''No ports registered'', ph_timestamp = toISOString now,
               ph_circuits = None, ph_total = None, ph_open = None, ph_halfOpen = None, ph_closed = None\<rparr>
         else if openPorts \<noteq> []
         then \<lparr>ph_status = DOWN,
               ph_message = js_nat_str (length openPorts) @ '' circuit breaker(s) OPEN: '' @ join '', '' (map fst openPorts),
               ph_timestamp = toISOString now, ph_circuits = Some circuits, ph_total = Some (length states),
               ph_open = Some (length openPorts), ph_halfOpen = Some (length halfOpenPorts),
               ph_closed = Some (length closedPorts)\<rparr>
         else if halfOpenPorts \<noteq> []
         then \<lparr>ph_status = DEGRADED,
               ph_message = js_nat_str (length halfOpenPorts) @ '' circuit breaker(s) in HALF_OPEN probe: ''
                 @ join '', '' (map fst halfOpenPorts),
               ph_timestamp = toISOString now, ph_circuits = Some circuits, ph_total = Some (length states),
               ph_open = Some 0, ph_halfOpen = Some (length halfOpenPorts), ph_closed = Some (length closedPorts)\<rparr>
         else \<lparr>ph_status = UP,
               ph_message = ''All '' @ js_nat_str (length states) @ '' port circuit breakers healthy'',
               ph_timestamp = toISOString now, ph_circuits = Some circuits, ph_total = Some (length states),
               ph_open = Some 0, ph_halfOpen = Some 0, ph_closed = Some (length closedPorts)\<rparr>)"

section \<open>Facts\<close>

lemma run_calls_keys: "map fst (fst (run_calls d ctx t0 t1 calls order w)) = order"
  by (induction order arbitrary: w) (auto simp: Let_def split: prod.splits, metis fst_conv)

lemma aggregation_counts:
  assumes "executeAll d ctx t0 t1 order calls w = (resp, w')"
  shows "map ar_portName (rs_results resp) = map ac_port calls"
    "rs_succeeded resp + rs_failed resp = length calls"
proof -
  have port: "ar_portName (settled_result e c r) = ac_port c" for e c r
    by (simp add: settled_result_def split: sum.split)
  have "map (\<lambda>i. ac_port (calls ! i)) [0..<length calls] = map ac_port calls"
    by (rule nth_equalityI) simp_all
  with assms show "map ar_portName (rs_results resp) = map ac_port calls"
    by (auto simp: executeAll_def Let_def port comp_def split: prod.splits)
  from assms show "rs_succeeded resp + rs_failed resp = length calls"
    by (auto simp: executeAll_def Let_def comp_def sum_length_filter_compl split: prod.splits)
qed

lemma health_verdict:
  "ph_status (port_health_check now w) =
     (if list_ex (\<lambda>x. cb_state (snd x) = OPEN) (pw_breakers w) then DOWN
      else if list_ex (\<lambda>x. cb_state (snd x) = HALF_OPEN) (pw_breakers w) then DEGRADED else UP)"
  by (force simp: port_health_check_def getAllCircuitBreakerStates_def Let_def filter_empty_conv list_ex_iff split_beta)

end
