(* ===== verification/Retry.thy ===== *)
theory Retry
  imports Prelude Complex_Main
begin

text \<open>
  The retry service of src/libs/shared/resilience/retry.decorator.ts: option merging, the decision
  whether an error is retried, the delay between attempts, and the retry loop around an operation.
  The operation acts on a state of its own; the waiting times are returned as a list. Delays,
  doubles in the code, are exact rationals; the random number of an attempt is an argument.
\<close>

section \<open>Options\<close>

record retry_options =
  ro_maxAttempts :: "int option"
  ro_initialDelayMs :: "rat option"
  ro_maxDelayMs :: "rat option"
  ro_backoffMultiplier :: "rat option"
  ro_jitterFactor :: "rat option"
  ro_shouldRetry :: "(js_error \<Rightarrow> int \<Rightarrow> bool) option"
  ro_delayCalculator :: "(int \<Rightarrow> js_error \<Rightarrow> rat) option"
  ro_retryableErrors :: "string list option"
  ro_nonRetryableErrors :: "string list option"
  ro_logAttempts :: "bool option"

definition no_options :: retry_options where
  "no_options = \<lparr>ro_maxAttempts = None, ro_initialDelayMs = None, ro_maxDelayMs = None,
     ro_backoffMultiplier = None, ro_jitterFactor = None, ro_shouldRetry = None,
     ro_delayCalculator = None, ro_retryableErrors = None, ro_nonRetryableErrors = None,
     ro_logAttempts = None\<rparr>"

definition retry_defaults :: retry_options where
  "retry_defaults = \<lparr>ro_maxAttempts = Some 3, ro_initialDelayMs = Some 1000, ro_maxDelayMs = Some 30000,
     ro_backoffMultiplier = Some 2, ro_jitterFactor = Some (1 / 10),
     ro_shouldRetry = Some (\<lambda>error attempt. True),
     ro_delayCalculator = Some (\<lambda>attempt error. 1000),
     ro_retryableErrors = Some [], ro_nonRetryableErrors = Some [], ro_logAttempts = Some True\<rparr>"

definition spread_options :: "retry_options \<Rightarrow> retry_options \<Rightarrow> retry_options" where
  "spread_options a b = \<lparr>
     ro_maxAttempts = js_spread (ro_maxAttempts a) (ro_maxAttempts b),
     ro_initialDelayMs = js_spread (ro_initialDelayMs a) (ro_initialDelayMs b),
     ro_maxDelayMs = js_spread (ro_maxDelayMs a) (ro_maxDelayMs b),
     ro_backoffMultiplier = js_spread (ro_backoffMultiplier a) (ro_backoffMultiplier b),
     ro_jitterFactor = js_spread (ro_jitterFactor a) (ro_jitterFactor b),
     ro_shouldRetry = js_spread (ro_shouldRetry a) (ro_shouldRetry b),
     ro_delayCalculator = js_spread (ro_delayCalculator a) (ro_delayCalculator b),
     ro_retryableErrors = js_spread (ro_retryableErrors a) (ro_retryableErrors b),
     ro_nonRetryableErrors = js_spread (ro_nonRetryableErrors a) (ro_nonRetryableErrors b),
     ro_logAttempts = js_spread (ro_logAttempts a) (ro_logAttempts b)\<rparr>"

definition mergeOptions :: "retry_options option \<Rightarrow> retry_options option \<Rightarrow> retry_options" where
  "mergeOptions globalConfig options =
     spread_options (spread_options retry_defaults (js_nullish globalConfig no_options))
       (js_nullish options no_options)"

section \<open>The decisions\<close>

fun str_includes :: "string \<Rightarrow> string \<Rightarrow> bool" where
  "str_includes p [] = (p = [])"
| "str_includes p (c # s) = (take (length p) (c # s) = p \<or> str_includes p s)"
  \<comment> \<open>\<^verbatim>\<open>s.includes(p)\<close>\<close>

definition error_is :: "js_error \<Rightarrow> string \<Rightarrow> bool" where
  "error_is e kind = (err_name e = kind \<or> err_ctor e = kind \<or> str_includes kind (err_message e))"

definition isRetryableError :: "js_error \<Rightarrow> bool" where
  "isRetryableError e =
     (let name = err_name e; has = (\<lambda>s. str_includes s (err_message e)) in
      if name = ''UnauthorizedError'' \<or> name = ''ForbiddenError'' \<or> has ''401'' \<or> has ''403'' then False
      else if name = ''ValidationError'' \<or> name = ''BadRequestException'' \<or> has ''400'' \<or> has ''validation''
      then False
      else if name = ''NotFoundException'' \<or> has ''404'' then False
      else name = ''ECONNREFUSED'' \<or> name = ''ETIMEDOUT'' \<or> name = ''ENOTFOUND'' \<or> name = ''ECONNRESET''
        \<or> has ''timeout'' \<or> has ''connection'' \<or> has ''500'' \<or> has ''502'' \<or> has ''503'' \<or> has ''504'')"

definition maxAttempts :: "retry_options \<Rightarrow> int" where
  "maxAttempts opts = js_nullish (ro_maxAttempts opts) 3"

definition shouldRetry :: "js_error \<Rightarrow> int \<Rightarrow> retry_options \<Rightarrow> bool" where
  "shouldRetry e attempt opts =
     (if attempt \<ge> maxAttempts opts then False
      else if (case ro_shouldRetry opts of None \<Rightarrow> False | Some f \<Rightarrow> \<not> f e attempt) then False
      else if list_ex (error_is e) (js_nullish (ro_nonRetryableErrors opts) []) then False
      else if js_nullish (ro_retryableErrors opts) [] \<noteq> []
      then list_ex (error_is e) (js_nullish (ro_retryableErrors opts) [])
      else isRetryableError e)"

definition calculateDelay :: "rat \<Rightarrow> int \<Rightarrow> js_error \<Rightarrow> retry_options \<Rightarrow> rat" where
  "calculateDelay rnd attempt e opts =
     (case ro_delayCalculator opts of
        Some f \<Rightarrow> f attempt e
      | None \<Rightarrow>
          let baseDelay = js_nullish (ro_initialDelayMs opts) 0 *
                js_nullish (ro_backoffMultiplier opts) 0 ^ nat (attempt - 1);
              cappedDelay = min baseDelay (js_nullish (ro_maxDelayMs opts) 0);
              jitterFactor = js_nullish (ro_jitterFactor opts) 0
          in if jitterFactor > 0 then of_int \<lfloor>cappedDelay + cappedDelay * jitterFactor * rnd\<rfloor>
             else of_int \<lfloor>cappedDelay\<rfloor>)"

section \<open>The loop\<close>

text \<open>
  The result is the value or the last error; with no attempt at all nothing was caught, and what is
  thrown is undefined, or the type error of the final log line.
\<close>

definition no_attempt_error :: "retry_options \<Rightarrow> js_error option" where
  "no_attempt_error opts = (if js_nullish (ro_logAttempts opts) True
     then Some \<lparr>err_name = ''TypeError'', err_ctor = ''TypeError'',
            err_message = ''Cannot read properties of undefined (reading 'message')''\<rparr>
     else None)"

function retry_loop ::
  "retry_options \<Rightarrow> (int \<Rightarrow> rat) \<Rightarrow> ('s, js_error, 'a) async \<Rightarrow> int \<Rightarrow> js_error option \<Rightarrow> 's \<Rightarrow>
   (js_error option + 'a) \<times> rat list \<times> 's" where
  "retry_loop opts rnd operation attempt lastError s =
     (if attempt \<le> maxAttempts opts
      then (case operation s of
              (Inr result, s') \<Rightarrow> (Inr result, [], s')
            | (Inl e, s') \<Rightarrow>
                if \<not> shouldRetry e attempt opts then (Inl (Some e), [], s')
                else
                  let delays = (if attempt < maxAttempts opts then [calculateDelay (rnd attempt) attempt e opts] else [])
                  in (case retry_loop opts rnd operation (attempt + 1) (Some e) s' of
                        (r, later, s'') \<Rightarrow> (r, delays @ later, s'')))
      else (Inl (case lastError of None \<Rightarrow> no_attempt_error opts | Some e \<Rightarrow> Some e), [], s))"
  by pat_completeness auto
termination
  by (relation "measure (\<lambda>(opts, rnd, operation, attempt, lastError, s). nat (maxAttempts opts + 1 - attempt))") auto

declare retry_loop.simps [simp del]

definition retry_execute ::
  "retry_options option \<Rightarrow> (int \<Rightarrow> rat) \<Rightarrow> ('s, js_error, 'a) async \<Rightarrow> retry_options option \<Rightarrow> 's \<Rightarrow>
   (js_error option + 'a) \<times> rat list \<times> 's" where
  "retry_execute globalConfig rnd operation options s =
     retry_loop (mergeOptions globalConfig options) rnd operation 1 None s"

text \<open>The interceptor: the options of the handler win over those of the class; without any, no retry.\<close>

definition retry_intercept ::
  "retry_options option \<Rightarrow> (int \<Rightarrow> rat) \<Rightarrow> ('s, js_error, 'a) async \<Rightarrow> retry_options option \<Rightarrow> retry_options option \<Rightarrow> 's \<Rightarrow>
   (js_error option + 'a) \<times> rat list \<times> 's" where
  "retry_intercept globalConfig rnd operation handlerOptions classOptions s =
     (case (case handlerOptions of Some h \<Rightarrow> Some h | None \<Rightarrow> classOptions) of
        None \<Rightarrow> (case operation s of (r, s') \<Rightarrow> (map_sum Some id r, [], s'))
      | Some options \<Rightarrow> retry_execute globalConfig rnd operation (Some options) s)"

section \<open>The configurations\<close>

definition ExternalAPI :: retry_options where
  "ExternalAPI = no_options\<lparr>ro_maxAttempts := Some 3, ro_initialDelayMs := Some 1000, ro_backoffMultiplier := Some 2,
     ro_jitterFactor := Some (1 / 10), ro_retryableErrors := Some [''ECONNREFUSED'', ''ETIMEDOUT'', ''ENOTFOUND'']\<rparr>"

definition Database :: retry_options where
  "Database = no_options\<lparr>ro_maxAttempts := Some 2, ro_initialDelayMs := Some 500, ro_backoffMultiplier := Some (3 / 2),
     ro_jitterFactor := Some (2 / 10), ro_shouldRetry := Some (\<lambda>e attempt. str_includes ''connection'' (err_message e)
       \<or> str_includes ''timeout'' (err_message e) \<or> str_includes ''deadlock'' (err_message e))\<rparr>"

definition MessageQueue :: retry_options where
  "MessageQueue = no_options\<lparr>ro_maxAttempts := Some 5, ro_initialDelayMs := Some 2000, ro_backoffMultiplier := Some 2,
     ro_maxDelayMs := Some 60000, ro_jitterFactor := Some (3 / 10),
     ro_nonRetryableErrors := Some [''ValidationError'', ''SerializationError'']\<rparr>"

definition FileSystem :: retry_options where
  "FileSystem = no_options\<lparr>ro_maxAttempts := Some 3, ro_initialDelayMs := Some 100, ro_backoffMultiplier := Some 2,
     ro_retryableErrors := Some [''EBUSY'', ''EMFILE'', ''ENFILE'']\<rparr>"

definition Aggressive :: retry_options where
  "Aggressive = no_options\<lparr>ro_maxAttempts := Some 10, ro_initialDelayMs := Some 100, ro_backoffMultiplier := Some (12 / 10),
     ro_maxDelayMs := Some 10000, ro_jitterFactor := Some (5 / 10)\<rparr>"

definition Conservative :: retry_options where
  "Conservative = no_options\<lparr>ro_maxAttempts := Some 2, ro_initialDelayMs := Some 2000, ro_backoffMultiplier := Some 1,
     ro_nonRetryableErrors := Some [''Error'']\<rparr>"

section \<open>What the loop does\<close>

text \<open>The state before attempt \<open>i + 1\<close> when every earlier attempt was made.\<close>

definition after_attempts :: "('s, 'e, 'a) async \<Rightarrow> nat \<Rightarrow> 's \<Rightarrow> 's" where
  "after_attempts operation i s = ((\<lambda>s. snd (operation s)) ^^ i) s"

lemma after_attempts_0 [simp]: "after_attempts operation 0 s = s"
  by (simp add: after_attempts_def)

lemma after_attempts_Suc: "after_attempts operation (Suc i) s = after_attempts operation i (snd (operation s))"
  by (simp add: after_attempts_def funpow_Suc_right del: funpow.simps)

definition retry_spec ::
  "retry_options \<Rightarrow> ('s, js_error, 'a) async \<Rightarrow> int \<Rightarrow> 's \<Rightarrow> nat \<Rightarrow> (js_error option + 'a) \<Rightarrow> bool" where
  "retry_spec opts operation attempt s n r \<longleftrightarrow>
     list_all (\<lambda>i. \<exists>e. fst (operation (after_attempts operation i s)) = Inl e \<and> shouldRetry e (attempt + int i) opts) [0..<n] \<and>
     (case fst (operation (after_attempts operation n s)) of
        Inr v \<Rightarrow> r = Inr v
      | Inl e \<Rightarrow> r = Inl (Some e) \<and> \<not> shouldRetry e (attempt + int n) opts)"

lemma retry_spec_Suc:
  assumes "fst (operation s) = Inl e" "shouldRetry e attempt opts"
    and "retry_spec opts operation (attempt + 1) (snd (operation s)) n r"
  shows "retry_spec opts operation attempt s (Suc n) r"
proof -
  have upt: "[0..<Suc n] = 0 # map Suc [0..<n]" by (simp add: upt_conv_Cons map_Suc_upt del: upt_Suc)
  from assms show ?thesis
    unfolding retry_spec_def upt
    by (simp add: after_attempts_Suc list.pred_map comp_def add.assoc del: upt_Suc split: sum.splits)
qed

lemma shouldRetry_room: "shouldRetry e attempt opts \<Longrightarrow> attempt < maxAttempts opts"
  by (auto simp: shouldRetry_def split: if_splits)

lemma retry_loop_outcome:
  assumes "retry_loop opts rnd operation attempt lastError s = (r, delays, s')"
    and "attempt \<le> maxAttempts opts"
  shows "attempt + int (length delays) \<le> maxAttempts opts \<and>
    s' = after_attempts operation (Suc (length delays)) s \<and>
    retry_spec opts operation attempt s (length delays) r"
  using assms
proof (induction opts rnd operation attempt lastError s arbitrary: r delays s' rule: retry_loop.induct)
  case (1 opts rnd operation attempt lastError s)
  obtain x s1 where op: "operation s = (x, s1)" by fastforce
  show ?case
  proof (cases "\<exists>e. x = Inl e \<and> shouldRetry e attempt opts")
    case False
    with 1(2,3) op show ?thesis
      by (auto simp: retry_loop.simps [of opts rnd operation attempt] retry_spec_def after_attempts_Suc
          split: sum.splits)
  next
    case True
    then obtain e where e: "x = Inl e" "shouldRetry e attempt opts" by blast
    note room = shouldRetry_room [OF e(2)]
    obtain r2 d2 s2 where rec: "retry_loop opts rnd operation (attempt + 1) (Some e) s1 = (r2, d2, s2)"
      by (metis prod_cases3)
    with 1(2,3) op e room have eq: "r = r2" "delays = calculateDelay (rnd attempt) attempt e opts # d2" "s' = s2"
      by (simp_all add: retry_loop.simps [of opts rnd operation attempt])
    have "attempt + 1 + int (length d2) \<le> maxAttempts opts \<and>
      s2 = after_attempts operation (Suc (length d2)) s1 \<and> retry_spec opts operation (attempt + 1) s1 (length d2) r2"
      using 1(1) [OF 1(3) op [symmetric] e(1), of "[calculateDelay (rnd attempt) attempt e opts]" r2 d2 s2] e(2) rec room
      by simp
    with eq op e retry_spec_Suc [of operation s e attempt opts "length d2" r2] show ?thesis
      by (simp add: after_attempts_Suc)
  qed
qed

lemma retry_loop_delays:
  assumes "retry_loop opts rnd operation attempt lastError s = (r, delays, s')"
    and "ro_delayCalculator opts = Some f" "\<And>n e. f n e = c"
  shows "list_all (\<lambda>d. d = c) delays"
  using assms
proof (induction opts rnd operation attempt lastError s arbitrary: r delays s' rule: retry_loop.induct)
  case (1 opts rnd operation attempt lastError s)
  obtain x s1 where op: "operation s = (x, s1)" by fastforce
  show ?case
  proof (cases "attempt \<le> maxAttempts opts \<and> (\<exists>e. x = Inl e \<and> shouldRetry e attempt opts)")
    case False
    with 1(2) op show ?thesis
      by (auto simp: retry_loop.simps [of opts rnd operation attempt] split: sum.splits if_splits)
  next
    case True
    then obtain e where e: "x = Inl e" "shouldRetry e attempt opts" by blast
    obtain r2 d2 s2 where rec: "retry_loop opts rnd operation (attempt + 1) (Some e) s1 = (r2, d2, s2)"
      by (metis prod_cases3)
    have "list_all (\<lambda>d. d = c) d2"
      using 1(1) [OF _ op [symmetric] e(1) _ refl rec] True e 1(3,4) by simp
    with 1(2,3,4) op e rec True show ?thesis
      by (auto simp: retry_loop.simps [of opts rnd operation attempt] calculateDelay_def split: if_splits)
  qed
qed

text \<open>
  C15. The retry loop always ends, and what it does is determined: with at least one attempt
  allowed, it makes as many attempts as there are waits plus one, never more than the configured
  maximum; every attempt before the last failed with an error that the policy retries, and the
  result is that of the last attempt, a value or an error that the policy does not retry.
\<close>

theorem retry_outcome:
  assumes "retry_execute globalConfig rnd operation options s = (r, delays, s')"
    and "1 \<le> maxAttempts (mergeOptions globalConfig options)"
  shows "1 + int (length delays) \<le> maxAttempts (mergeOptions globalConfig options) \<and>
    s' = after_attempts operation (Suc (length delays)) s \<and>
    retry_spec (mergeOptions globalConfig options) operation 1 s (length delays) r"
  by (rule retry_loop_outcome [OF assms(1) [unfolded retry_execute_def] assms(2)])

text \<open>
  The waiting time between two attempts is one second whatever the initial delay, the multiplier,
  the cap and the jitter are configured to, unless a delay calculator is configured: the merged
  options always hold the default calculator, so the exponential backoff is never computed.
\<close>

lemma retry_never_backs_off:
  assumes "retry_execute globalConfig rnd operation options s = (r, delays, s')"
    and "Option.bind globalConfig ro_delayCalculator = None" "Option.bind options ro_delayCalculator = None"
  shows "list_all (\<lambda>d. d = 1000) delays"
proof -
  have "ro_delayCalculator (mergeOptions globalConfig options) = Some (\<lambda>attempt error. 1000)"
    using assms(2,3)
    by (cases globalConfig; cases options)
      (simp_all add: mergeOptions_def spread_options_def retry_defaults_def js_spread_def no_options_def)
  from retry_loop_delays [OF assms(1) [unfolded retry_execute_def] this] show ?thesis by simp
qed

text \<open>An operation that is refused twice and then answers with the number of the attempt.\<close>

definition flaky :: "(nat, js_error, nat) async" where
  "flaky n = (if n < 2 then (Inl (new_Error ''connection reset''), Suc n) else (Inr n, Suc n))"

lemma flaky_run: "retry_execute None (\<lambda>_. 0) flaky (Some Aggressive) 0 = (Inr 2, [1000, 1000], 3)"
  by code_simp

lemma flaky_max: "maxAttempts (mergeOptions None (Some Aggressive)) = 10"
  by code_simp

theorem retry_outcome_witness:
  "retry_execute None (\<lambda>_. 0) flaky (Some Aggressive) 0 = (Inr 2, [1000, 1000], 3) \<and>
   1 + int (length [1000, 1000 :: rat]) \<le> maxAttempts (mergeOptions None (Some Aggressive)) \<and>
   3 = after_attempts flaky (Suc (length [1000, 1000 :: rat])) 0 \<and>
   retry_spec (mergeOptions None (Some Aggressive)) flaky 1 0 (length [1000, 1000 :: rat]) (Inr 2)"
  using flaky_run retry_outcome [OF flaky_run] flaky_max by simp

end
