(* ===== verification/Json_Parse.thy ===== *)
theory Json_Parse
  imports Json
begin

text \<open>
  \<^verbatim>\<open>JSON.parse\<close> on texts whose numbers are integers, and the round trip with
  \<^verbatim>\<open>JSON.stringify\<close>. The parser recurses with fuel; the length of the text is enough, which
  is part of the round trip. Escapes of surrogates, and numbers with a fraction or an exponent, are
  outside the model (the parser rejects them).
\<close>

section \<open>The parser\<close>

definition is_ws :: "char \<Rightarrow> bool" where
  "is_ws c = (c = CHR 0x20 \<or> c = CHR 0x09 \<or> c = CHR 0x0A \<or> c = CHR 0x0D)"

definition skip_ws :: "string \<Rightarrow> string" where
  "skip_ws s = dropWhile is_ws s"

definition hex_value :: "char \<Rightarrow> nat option" where
  "hex_value c = (let n = (of_char c :: nat) in
     if 48 \<le> n \<and> n \<le> 57 then Some (n - 48)
     else if 97 \<le> n \<and> n \<le> 102 then Some (n - 87)
     else if 65 \<le> n \<and> n \<le> 70 then Some (n - 55) else None)"

text \<open>The UTF-8 bytes of a code point below the surrogates or above them.\<close>

definition utf8_point :: "nat \<Rightarrow> string option" where
  "utf8_point n =
     (if n < 128 then Some [char_of n]
      else if n < 2048 then Some [char_of (192 + n div 64), char_of (128 + n mod 64)]
      else if 55296 \<le> n \<and> n < 57344 then None
      else Some [char_of (224 + n div 4096), char_of (128 + n div 64 mod 64), char_of (128 + n mod 64)])"

definition simple_escape :: "char \<Rightarrow> char option" where
  "simple_escape c =
     (if c = CHR 0x22 \<or> c = CHR 0x5C \<or> c = CHR ''/'' then Some c
      else if c = CHR ''b'' then Some (CHR 0x08)
      else if c = CHR ''t'' then Some (CHR 0x09)
      else if c = CHR ''n'' then Some (CHR 0x0A)
      else if c = CHR ''f'' then Some (CHR 0x0C)
      else if c = CHR ''r'' then Some (CHR 0x0D) else None)"

definition unicode_escape :: "string \<Rightarrow> string option" where
  "unicode_escape hs = (case map hex_value hs of
     [Some a, Some b, Some c, Some d] \<Rightarrow> utf8_point (((a * 16 + b) * 16 + c) * 16 + d)
   | _ \<Rightarrow> None)"

fun parse_chars :: "string \<Rightarrow> (string \<times> string) option" where
  "parse_chars [] = None"
| "parse_chars (c # r) =
     (if c = CHR 0x22 then Some ([], r)
      else if (of_char c :: nat) < 32 then None
      else if c \<noteq> CHR 0x5C then map_option (\<lambda>(s, r'). (c # s, r')) (parse_chars r)
      else (case r of
              [] \<Rightarrow> None
            | e # r1 \<Rightarrow>
                if e = CHR ''u''
                then (case r1 of
                        h1 # h2 # h3 # h4 # r2 \<Rightarrow>
                          (case unicode_escape [h1, h2, h3, h4] of
                             None \<Rightarrow> None
                           | Some bytes \<Rightarrow> map_option (\<lambda>(s, r'). (bytes @ s, r')) (parse_chars r2))
                      | _ \<Rightarrow> None)
                else (case simple_escape e of
                        None \<Rightarrow> None
                      | Some x \<Rightarrow> map_option (\<lambda>(s, r'). (x # s, r')) (parse_chars r1))))"

definition parse_number :: "string \<Rightarrow> (json \<times> string) option" where
  "parse_number s =
     (let neg = (s \<noteq> [] \<and> hd s = CHR ''-'');
          t = (if neg then tl s else s);
          ds = takeWhile is_digit t;
          r = dropWhile is_digit t
      in if ds = [] \<or> (hd ds = CHR ''0'' \<and> length ds > 1) then None
         else if r \<noteq> [] \<and> hd r \<in> {CHR ''.'', CHR ''e'', CHR ''E''} then None
         else Some (JNum ((if neg then - 1 else 1) * int (parse_dec ds)), r))"

definition parse_word :: "string \<Rightarrow> json \<Rightarrow> string \<Rightarrow> (json \<times> string) option" where
  "parse_word w v s = (if take (length w) s = w then Some (v, drop (length w) s) else None)"

fun parse_value :: "nat \<Rightarrow> string \<Rightarrow> (json \<times> string) option"
  and parse_elems :: "nat \<Rightarrow> string \<Rightarrow> (json list \<times> string) option"
  and parse_members :: "nat \<Rightarrow> string \<Rightarrow> ((string \<times> json) list \<times> string) option"
where
  "parse_value 0 s = None"
| "parse_value (Suc n) s =
     (case skip_ws s of
        [] \<Rightarrow> None
      | c # r \<Rightarrow>
          if c = CHR 0x22 then map_option (\<lambda>(x, r'). (JStr x, r')) (parse_chars r)
          else if c = CHR ''['' then
            (case skip_ws r of
               [] \<Rightarrow> None
             | d # r' \<Rightarrow> if d = CHR '']'' then Some (JArr [], r')
                         else map_option (\<lambda>(xs, r'). (JArr xs, r')) (parse_elems n r))
          else if c = CHR ''{'' then
            (case skip_ws r of
               [] \<Rightarrow> None
             | d # r' \<Rightarrow> if d = CHR ''}'' then Some (JObj [], r')
                         else map_option (\<lambda>(ps, r'). (JObj ps, r')) (parse_members n r))
          else if c = CHR ''n'' then parse_word ''null'' JNull (c # r)
          else if c = CHR ''t'' then parse_word ''true'' (JBool True) (c # r)
          else if c = CHR ''f'' then parse_word ''false'' (JBool False) (c # r)
          else parse_number (c # r))"
| "parse_elems 0 s = None"
| "parse_elems (Suc n) s =
     (case parse_value n s of
        None \<Rightarrow> None
      | Some (x, r) \<Rightarrow>
          (case skip_ws r of
             [] \<Rightarrow> None
           | c # r' \<Rightarrow>
               if c = CHR '']'' then Some ([x], r')
               else if c = CHR '','' then map_option (\<lambda>(xs, r''). (x # xs, r'')) (parse_elems n r')
               else None))"
| "parse_members 0 s = None"
| "parse_members (Suc n) s =
     (case skip_ws s of
        [] \<Rightarrow> None
      | q # s1 \<Rightarrow>
          if q \<noteq> CHR 0x22 then None
          else (case parse_chars s1 of
                  None \<Rightarrow> None
                | Some (k, s2) \<Rightarrow>
                    (case skip_ws s2 of
                       [] \<Rightarrow> None
                     | c # s3 \<Rightarrow>
                         if c \<noteq> CHR '':'' then None
                         else (case parse_value n s3 of
                                 None \<Rightarrow> None
                               | Some (x, r) \<Rightarrow>
                                   (case skip_ws r of
                                      [] \<Rightarrow> None
                                    | d # r' \<Rightarrow>
                                        if d = CHR ''}'' then Some ([(k, x)], r')
                                        else if d = CHR '','' then
                                          map_option (\<lambda>(ps, r''). ((k, x) # ps, r'')) (parse_members n r')
                                        else None)))))"

text \<open>
  Repeated property names: the last value wins and the first place is kept, as in a JavaScript
  object.
\<close>

fun dedup_props :: "(string \<times> json) list \<Rightarrow> (string \<times> json) list" where
  "dedup_props ps = foldl (\<lambda>m (k, v). AList.update k v m) [] ps"

fun normal_json :: "json \<Rightarrow> json" where
  "normal_json (JArr xs) = JArr (map normal_json xs)"
| "normal_json (JObj ps) = JObj (dedup_props (map (\<lambda>p. (fst p, normal_json (snd p))) ps))"
| "normal_json j = j"

definition json_parse :: "string \<Rightarrow> js_error + json" where
  "json_parse s =
     (case parse_value (length s) s of
        Some (j, r) \<Rightarrow> if skip_ws r = [] then Inr (normal_json j)
                       else Inl \<lparr>err_name = ''SyntaxError'', err_ctor = ''SyntaxError'', err_message = ''Unexpected token in JSON''\<rparr>
      | None \<Rightarrow> Inl \<lparr>err_name = ''SyntaxError'', err_ctor = ''SyntaxError'', err_message = ''Unexpected token in JSON''\<rparr>)"

section \<open>Round trip\<close>

lemma parse_chars_plain:
  "c \<noteq> CHR 0x22 \<Longrightarrow> c \<noteq> CHR 0x5C \<Longrightarrow> \<not> (of_char c :: nat) < 32 \<Longrightarrow>
   parse_chars (c # r) = map_option (\<lambda>(s, r'). (c # s, r')) (parse_chars r)"
  by simp

lemma hex_value_lower: "n < 16 \<Longrightarrow> hex_value (hex_lower n) = Some n"
  by (auto simp: hex_value_def hex_lower_def of_char_of take_bit_eq_mod)

lemma parse_chars_unicode:
  assumes "(of_char c :: nat) < 32"
  shows "parse_chars ([CHR 0x5C, CHR ''u'', CHR ''0'', CHR ''0'', hex_lower (of_char c div 16), hex_lower (of_char c mod 16)] @ r)
    = map_option (\<lambda>(s, r'). (c # s, r')) (parse_chars r)"
proof -
  let ?n = "of_char c :: nat"
  have z: "hex_value CHR ''0'' = Some 0" by code_simp
  have "?n div 16 < 16" "?n mod 16 < 16" using assms by simp_all
  then have "unicode_escape [CHR ''0'', CHR ''0'', hex_lower (?n div 16), hex_lower (?n mod 16)] = utf8_point ?n"
    by (simp add: unicode_escape_def hex_value_lower z)
  moreover have "utf8_point ?n = Some [c]"
    using assms by (simp add: utf8_point_def)
  ultimately show ?thesis by simp
qed

lemma parse_chars_escape: "parse_chars (json_escape c @ r) = map_option (\<lambda>(s, r'). (c # s, r')) (parse_chars r)"
proof -
  consider "c \<in> {CHR 0x22, CHR 0x5C, CHR 0x08, CHR 0x09, CHR 0x0A, CHR 0x0C, CHR 0x0D}"
    | "c \<notin> {CHR 0x22, CHR 0x5C, CHR 0x08, CHR 0x09, CHR 0x0A, CHR 0x0C, CHR 0x0D}" "(of_char c :: nat) < 32"
    | "c \<noteq> CHR 0x22" "c \<noteq> CHR 0x5C" "\<not> (of_char c :: nat) < 32"
    by blast
  then show ?thesis
  proof cases
    case 1
    then show ?thesis by (auto simp: json_escape_def simple_escape_def)
  next
    case 2
    then have "json_escape c = [CHR 0x5C, CHR ''u'', CHR ''0'', CHR ''0'', hex_lower (of_char c div 16), hex_lower (of_char c mod 16)]"
      by (simp add: json_escape_def)
    with parse_chars_unicode [OF 2(2)] show ?thesis by simp
  next
    case 3
    then have "json_escape c = [c]" by (auto simp: json_escape_def)
    with 3 show ?thesis using parse_chars_plain by simp
  qed
qed

lemma parse_chars_quote: "parse_chars (concat (map json_escape s) @ CHR 0x22 # r) = Some (s, r)"
  by (induction s) (simp_all add: parse_chars_escape del: parse_chars.simps(2), simp)

lemma js_nat_str_hd: "n \<noteq> 0 \<Longrightarrow> hd (js_nat_str n) \<noteq> CHR ''0''"
proof (induction n rule: js_nat_str.induct)
  case (1 n)
  show ?case
  proof (cases "n < 10")
    case True
    with 1(2) have "(of_char (digit_char n) :: nat) \<noteq> of_char (CHR ''0'')" by simp
    then have "digit_char n \<noteq> CHR ''0''" by metis
    with True show ?thesis by (simp add: js_nat_str.simps [of n])
  next
    case False
    with 1 show ?thesis by (simp add: js_nat_str.simps [of n])
  qed
qed

lemma js_nat_str_0: "js_nat_str 0 = ''0''"
  by code_simp

lemma digits_split:
  assumes "json_delim r"
  shows "takeWhile is_digit (js_nat_str n @ r) = js_nat_str n" "dropWhile is_digit (js_nat_str n @ r) = r"
proof -
  have "r \<noteq> [] \<Longrightarrow> \<not> is_digit (hd r)" using delim_not_num [OF assms] by (auto simp: num_char_def)
  then show "takeWhile is_digit (js_nat_str n @ r) = js_nat_str n" "dropWhile is_digit (js_nat_str n @ r) = r"
    using js_nat_str_digits [of _ n] by (cases r; auto simp: takeWhile_append2 dropWhile_append2)+
qed

lemma parse_number_int:
  assumes "json_delim r"
  shows "parse_number (js_int_str n @ r) = Some (JNum n, r)"
proof -
  have dot: "\<not> (r \<noteq> [] \<and> hd r \<in> {CHR ''.'', CHR ''e'', CHR ''E''})"
    using assms by (auto simp: json_delim_def)
  have zero: "hd (js_nat_str m) = CHR ''0'' \<Longrightarrow> length (js_nat_str m) = 1" for m
    using js_nat_str_hd [of m] js_nat_str_0 by (cases "m = 0") auto
  have minus: "hd (js_nat_str m) \<noteq> CHR ''-''" for m
    using js_nat_str_digits [OF hd_in_set, of m] by (auto simp: is_digit_def)
  note facts = digits_split [OF assms] parse_dec_js_nat_str
  show ?thesis
    using dot zero minus
    by (cases "n < 0") (auto simp: parse_number_def js_int_str_def facts Let_def)
qed

lemma skip_ws_stringify: "skip_ws (stringify j @ r) = stringify j @ r"
proof -
  have "\<not> is_ws (hd (stringify j))"
    using num_hd_neq by (auto simp: stringify_hd is_ws_def num_char_def is_digit_def split: json.splits)
  then show ?thesis
    using stringify_hd(1) [of j] by (cases "stringify j") (auto simp: skip_ws_def)
qed

lemma skip_ws_plain [simp]: "\<not> is_ws c \<Longrightarrow> skip_ws (c # r) = c # r"
  by (simp add: skip_ws_def)

lemma not_ws [simp]: "\<not> is_ws CHR 0x22" "\<not> is_ws CHR '',''" "\<not> is_ws CHR '':''" "\<not> is_ws CHR '']''"
  "\<not> is_ws CHR ''}''" "\<not> is_ws CHR ''[''" "\<not> is_ws CHR ''{''" "\<not> is_ws CHR ''n''" "\<not> is_ws CHR ''t''" "\<not> is_ws CHR ''f''"
  by (simp_all add: is_ws_def)

text \<open>What the recursion needs to know of the values below: they parse back in front of a delimiter.\<close>

definition parses_back :: "json \<Rightarrow> bool" where
  "parses_back j \<longleftrightarrow> (\<forall>n r. json_delim r \<longrightarrow> length (stringify j) \<le> n \<longrightarrow> parse_value n (stringify j @ r) = Some (j, r))"

lemma parses_backD:
  "parses_back j \<Longrightarrow> json_delim r \<Longrightarrow> length (stringify j) \<le> n \<Longrightarrow> parse_value n (stringify j @ r) = Some (j, r)"
  by (simp add: parses_back_def)

lemma delim_intros: "json_delim (CHR '','' # r)" "json_delim (CHR '']'' # r)" "json_delim (CHR ''}'' # r)"
  by (simp_all add: json_delim_def)

lemma join_Cons: "join sep (x # xs) = (if xs = [] then x else x @ sep @ join sep xs)"
  by (cases xs) simp_all

lemma parse_elems_back:
  "list_all parses_back xs \<Longrightarrow> xs \<noteq> [] \<Longrightarrow> length (join '','' (map stringify xs)) < n \<Longrightarrow>
   parse_elems n (join '','' (map stringify xs) @ CHR '']'' # r) = Some (xs, r)"
proof (induction xs arbitrary: n)
  case (Cons x xs)
  then obtain m where n: "n = Suc m" by (cases n) auto
  show ?case
  proof (cases "xs = []")
    case True
    with Cons.prems n show ?thesis
      by (simp add: parses_backD delim_intros)
  next
    case False
    have "parse_value m (stringify x @ CHR '','' # join '','' (map stringify xs) @ CHR '']'' # r) =
      Some (x, CHR '','' # join '','' (map stringify xs) @ CHR '']'' # r)"
      by (rule parses_backD) (use Cons.prems False n in \<open>auto simp: join_Cons delim_intros\<close>)
    moreover have "parse_elems m (join '','' (map stringify xs) @ CHR '']'' # r) = Some (xs, r)"
      by (rule Cons.IH) (use Cons.prems False n in \<open>auto simp: join_Cons\<close>)
    ultimately show ?thesis using False n by (simp add: join_Cons)
  qed
qed simp

abbreviation member_text :: "string \<times> json \<Rightarrow> string" where
  "member_text p \<equiv> json_quote (fst p) @ '':'' @ stringify (snd p)"

lemma parse_members_back:
  "list_all (\<lambda>p. parses_back (snd p)) ps \<Longrightarrow> ps \<noteq> [] \<Longrightarrow> length (join '','' (map member_text ps)) < n \<Longrightarrow>
   parse_members n (join '','' (map member_text ps) @ CHR ''}'' # r) = Some (ps, r)"
proof (induction ps arbitrary: n)
  case (Cons p ps)
  obtain k v where p: "p = (k, v)" by (cases p)
  from Cons.prems obtain m where n: "n = Suc m" by (cases n) auto
  have key: "parse_chars (concat (map json_escape k) @ CHR 0x22 # u) = Some (k, u)" for u
    by (rule parse_chars_quote)
  show ?case
  proof (cases "ps = []")
    case True
    have "parse_value m (stringify v @ CHR ''}'' # r) = Some (v, CHR ''}'' # r)"
      by (rule parses_backD) (use Cons.prems True n p in \<open>auto simp: delim_intros\<close>)
    with True n p key show ?thesis by (simp add: json_quote_def)
  next
    case False
    have "parse_value m (stringify v @ CHR '','' # join '','' (map member_text ps) @ CHR ''}'' # r) =
      Some (v, CHR '','' # join '','' (map member_text ps) @ CHR ''}'' # r)"
      by (rule parses_backD) (use Cons.prems False n p in \<open>auto simp: join_Cons delim_intros\<close>)
    moreover have "parse_members m (join '','' (map member_text ps) @ CHR ''}'' # r) = Some (ps, r)"
      by (rule Cons.IH) (use Cons.prems False n p in \<open>auto simp: join_Cons\<close>)
    ultimately show ?thesis using False n p key by (simp add: join_Cons json_quote_def)
  qed
qed simp

lemma stringify_parses_back: "parses_back j"
proof (induction j rule: stringify.induct)
  case (5 xs)
  then have sub: "list_all parses_back xs" by (simp add: list_all_iff)
  show ?case
    unfolding parses_back_def
  proof (intro allI impI)
    fix n r assume n: "length (stringify (JArr xs)) \<le> n"
    then obtain m where m: "n = Suc m" by (cases n) auto
    show "parse_value n (stringify (JArr xs) @ r) = Some (JArr xs, r)"
    proof (cases "xs = []")
      case False
      let ?t = "join '','' (map stringify xs) @ CHR '']'' # r"
      have "parse_elems m ?t = Some (xs, r)"
        by (rule parse_elems_back [OF sub False]) (use n m in auto)
      moreover obtain d t where "skip_ws ?t = d # t" "d \<noteq> CHR '']''"
      proof -
        obtain x ys where xs: "xs = x # ys" using False by (cases xs) auto
        obtain u where u: "?t = stringify x @ u" by (cases "ys = []") (auto simp: xs join_Cons)
        then have "skip_ws ?t = stringify x @ u" using skip_ws_stringify by metis
        with stringify_open [of x] show ?thesis
          by (cases "stringify x") (auto intro: that)
      qed
      ultimately show ?thesis using m by simp
    qed (simp add: m)
  qed
next
  case (6 ps)
  then have sub: "list_all (\<lambda>p. parses_back (snd p)) ps" by (simp add: list_all_iff)
  show ?case
    unfolding parses_back_def
  proof (intro allI impI)
    fix n r assume n: "length (stringify (JObj ps)) \<le> n"
    then obtain m where m: "n = Suc m" by (cases n) auto
    show "parse_value n (stringify (JObj ps) @ r) = Some (JObj ps, r)"
    proof (cases "ps = []")
      case False
      let ?t = "join '','' (map member_text ps) @ CHR ''}'' # r"
      have "parse_members m ?t = Some (ps, r)"
        by (rule parse_members_back [OF sub False]) (use n m in auto)
      moreover obtain t where "skip_ws ?t = CHR 0x22 # t"
      proof -
        obtain p qs where ps: "ps = p # qs" using False by (cases ps) auto
        obtain u where "?t = CHR 0x22 # u" by (cases "qs = []") (auto simp: ps join_Cons json_quote_def)
        then show ?thesis using that by simp
      qed
      ultimately show ?thesis using m by simp
    qed (simp add: m)
  qed
next
  case (3 k)
  show ?case
    unfolding parses_back_def
  proof (intro allI impI)
    fix n r assume r: "json_delim r" and n: "length (stringify (JNum k)) \<le> n"
    then obtain m where m: "n = Suc m" by (cases n) (auto simp: js_int_str_def split: if_splits)
    obtain c t where ct: "js_int_str k = c # t" by (cases "js_int_str k") (auto simp: js_int_str_def split: if_splits)
    then have "num_char c" using num_hd [of k] by simp
    then have c: "c \<noteq> CHR 0x22" "c \<noteq> CHR ''[''" "c \<noteq> CHR ''{''" "c \<noteq> CHR ''n''" "c \<noteq> CHR ''t''" "c \<noteq> CHR ''f''"
      by (auto simp: num_char_def is_digit_def)
    have "skip_ws (js_int_str k @ r) = c # t @ r"
      using skip_ws_stringify [of "JNum k" r] by (simp add: ct)
    moreover have "parse_number (c # t @ r) = Some (JNum k, r)"
      using parse_number_int [OF r, of k] by (simp add: ct)
    ultimately show "parse_value n (stringify (JNum k) @ r) = Some (JNum k, r)"
      using c by (simp add: m)
  qed
next
  case (4 s)
  show ?case
    unfolding parses_back_def
  proof (intro allI impI)
    fix n r assume "length (stringify (JStr s)) \<le> n"
    then obtain m where "n = Suc m" by (cases n) (auto simp: json_quote_def)
    then show "parse_value n (stringify (JStr s) @ r) = Some (JStr s, r)"
      using parse_chars_quote [of s r] by (simp add: json_quote_def)
  qed
next
  case 1
  then show ?case by (auto simp: parses_back_def parse_word_def dest: Suc_le_D)
next
  case (2 b)
  then show ?case by (cases b) (auto simp: parses_back_def parse_word_def dest: Suc_le_D)
qed

fun wf_json :: "json \<Rightarrow> bool" where
  "wf_json (JArr xs) = list_all wf_json xs"
| "wf_json (JObj ps) = (distinct (map fst ps) \<and> list_all (\<lambda>p. wf_json (snd p)) ps)"
| "wf_json j = True"
  \<comment> \<open>an object has each property once\<close>

lemma dedup_from: "distinct (map fst (m @ ps)) \<Longrightarrow> foldl (\<lambda>m (k, v). AList.update k v m) m ps = m @ ps"
proof (induction ps arbitrary: m)
  case (Cons p ps)
  obtain k v where p: "p = (k, v)" by (cases p)
  with Cons.prems have "map_of m k = None" by (force simp: map_of_eq_None_iff)
  with Cons p show ?case by (simp add: jsmap_set_absent)
qed simp

lemma normal_wf: "wf_json j \<Longrightarrow> normal_json j = j"
proof (induction j rule: normal_json.induct)
  case (1 xs)
  then show ?case by (simp add: list_all_iff map_idI)
next
  case (2 ps)
  then have "map (\<lambda>p. (fst p, normal_json (snd p))) ps = ps"
    by (auto simp: list_all_iff intro!: map_idI)
  with 2(2) dedup_from [of "[]" ps] show ?case by simp
qed simp_all

text \<open>
  The round trip: parsing what \<^verbatim>\<open>JSON.stringify\<close> wrote gives the value back,
  for every value whose objects name each property once.
\<close>

lemma json_roundtrip:
  assumes "wf_json j"
  shows "json_parse (stringify j) = Inr j"
  using parses_backD [OF stringify_parses_back, of "[]" j "length (stringify j)"] normal_wf [OF assms]
  by (simp add: json_parse_def json_delim_def skip_ws_def)

end
