(* ===== verification/Outbox.thy ===== *)
theory Outbox
  imports Json_Parse
begin

text \<open>
  The transactional outbox: the table and its repository
  (src/libs/shared/database/outbox/outbox.repository.ts, outbox/drizzle/schema/outbox.schema.ts), the
  processor that polls it (outbox-processor.service.ts) and the interfaces of
  src/libs/core/infrastructure/outbox/outbox.interface.ts. The table is the list of its rows; a
  statement of the repository is one update of it. The event bus is an argument that acts on a
  state of its own.
\<close>

section \<open>Events and rows\<close>

record domain_event =
  de_eventId :: string
  de_eventType :: string
  de_aggregateId :: string
  de_aggregateType :: string
  de_occurredAt :: msec
  de_data :: json
  de_metadata :: "json option"

definition event_json :: "domain_event \<Rightarrow> json" where
  "event_json e = JObj ([(''eventId'', JStr (de_eventId e)), (''eventType'', JStr (de_eventType e)),
     (''aggregateId'', JStr (de_aggregateId e)), (''aggregateType'', JStr (de_aggregateType e)),
     (''occurredAt'', JStr (toISOString (de_occurredAt e))), (''data'', de_data e)]
     @ jopt ''metadata'' (de_metadata e))"
  \<comment> \<open>the event as \<^verbatim>\<open>JSON.stringify\<close> sees it, properties in the order the class declares them\<close>

datatype outbox_status = PENDING | PROCESSING | PROCESSED | FAILED

record outbox_row =
  ob_id :: string
  ob_aggregateId :: string
  ob_aggregateType :: string
  ob_eventType :: string
  ob_payload :: string
  ob_status :: outbox_status
  ob_createdAt :: msec
  ob_processedAt :: "msec option"
  ob_retryCount :: int
  ob_lastError :: "string option"

type_synonym outbox = "outbox_row list"

section \<open>The repository\<close>

definition new_row :: "msec \<Rightarrow> domain_event \<Rightarrow> outbox_row" where
  "new_row now e = \<lparr>ob_id = de_eventId e, ob_aggregateId = de_aggregateId e,
     ob_aggregateType = de_aggregateType e, ob_eventType = de_eventType e,
     ob_payload = stringify (event_json e), ob_status = PENDING, ob_createdAt = now,
     ob_processedAt = None, ob_retryCount = 0, ob_lastError = None\<rparr>"

definition duplicate_key :: js_error where
  "duplicate_key = new_Error ''duplicate key value violates unique constraint''"

definition ob_insert :: "outbox_row list \<Rightarrow> (outbox, js_error, unit) async" where
  "ob_insert rows t =
     (if distinct (map ob_id (t @ rows)) then (Inr (), t @ rows) else (Inl duplicate_key, t))"
  \<comment> \<open>one insert statement: all rows or, when a primary key repeats, none\<close>

definition ob_add :: "msec \<Rightarrow> domain_event \<Rightarrow> (outbox, js_error, unit) async" where
  "ob_add now e = ob_insert [new_row now e]"

definition ob_addMany :: "msec \<Rightarrow> domain_event list \<Rightarrow> (outbox, js_error, unit) async" where
  "ob_addMany now es = (if es = [] then ret () else ob_insert (map (new_row now) es))"

definition ob_getPending :: "nat \<Rightarrow> outbox \<Rightarrow> outbox_row list" where
  "ob_getPending limit t = take limit (sort_key ob_createdAt (filter (\<lambda>r. ob_status r = PENDING) t))"
  \<comment> \<open>rows created at the same time: in the order of the table, where the database promises no order\<close>

definition ob_update :: "(outbox_row \<Rightarrow> bool) \<Rightarrow> (outbox_row \<Rightarrow> outbox_row) \<Rightarrow> outbox \<Rightarrow> outbox" where
  "ob_update P f t = map (\<lambda>r. if P r then f r else r) t"
  \<comment> \<open>\<^verbatim>\<open>UPDATE ... SET ... WHERE\<close>\<close>

definition ob_markAsProcessing :: "string \<Rightarrow> outbox \<Rightarrow> bool \<times> outbox" where
  "ob_markAsProcessing id' t =
     (let P = (\<lambda>r. ob_id r = id' \<and> ob_status r = PENDING)
      in (filter P t \<noteq> [], ob_update P (\<lambda>r. r\<lparr>ob_status := PROCESSING\<rparr>) t))"

definition ob_markAsProcessed :: "msec \<Rightarrow> string \<Rightarrow> outbox \<Rightarrow> outbox" where
  "ob_markAsProcessed now id' t =
     ob_update (\<lambda>r. ob_id r = id') (\<lambda>r. r\<lparr>ob_status := PROCESSED, ob_processedAt := Some now\<rparr>) t"

definition ob_markAsFailed :: "string \<Rightarrow> string \<Rightarrow> outbox \<Rightarrow> outbox" where
  "ob_markAsFailed id' err t =
     ob_update (\<lambda>r. ob_id r = id')
       (\<lambda>r. r\<lparr>ob_status := FAILED, ob_lastError := Some err, ob_retryCount := ob_retryCount r + 1\<rparr>) t"

definition ob_resetForRetry :: "int \<Rightarrow> outbox \<Rightarrow> nat \<times> outbox" where
  "ob_resetForRetry maxRetries t =
     (let P = (\<lambda>r. ob_status r = FAILED \<and> ob_retryCount r < maxRetries)
      in (length (filter P t), ob_update P (\<lambda>r. r\<lparr>ob_status := PENDING\<rparr>) t))"

definition ob_expired :: "msec \<Rightarrow> outbox_row \<Rightarrow> bool" where
  "ob_expired olderThan r =
     (ob_status r = PROCESSED \<and> (case ob_processedAt r of None \<Rightarrow> False | Some t \<Rightarrow> t \<le> olderThan))"

definition ob_deleteProcessed :: "msec \<Rightarrow> outbox \<Rightarrow> nat \<times> outbox" where
  "ob_deleteProcessed olderThan t =
     (length (filter (ob_expired olderThan) t), filter (\<lambda>r. \<not> ob_expired olderThan r) t)"

definition ob_getStats :: "outbox \<Rightarrow> nat \<times> nat \<times> nat \<times> nat" where
  "ob_getStats t = (let n = (\<lambda>st. length (filter (\<lambda>r. ob_status r = st) t))
     in (n PENDING, n PROCESSING, n PROCESSED, n FAILED))"

section \<open>The processor\<close>

record outbox_config =
  oc_pollingIntervalMs :: int
  oc_batchSize :: nat
  oc_maxRetries :: int
  oc_retentionPeriodMs :: int

definition DEFAULT_CONFIG :: outbox_config where
  "DEFAULT_CONFIG = \<lparr>oc_pollingIntervalMs = 1000, oc_batchSize = 100, oc_maxRetries = 3,
     oc_retentionPeriodMs = 7 * 24 * 60 * 60 * 1000\<rparr>"

record 'b outbox_world =
  ow_table :: outbox
  ow_bus :: 'b
  ow_isProcessing :: bool
  ow_isRunning :: bool

definition outbox_start :: "'b outbox_world \<Rightarrow> 'b outbox_world" where
  "outbox_start w = (if ow_isRunning w then w else w\<lparr>ow_isRunning := True\<rparr>)"

definition outbox_stop :: "'b outbox_world \<Rightarrow> 'b outbox_world" where
  "outbox_stop w = (if \<not> ow_isRunning w then w else w\<lparr>ow_isRunning := False\<rparr>)"

text \<open>
  The bus gets the parsed event. The code turns \<^verbatim>\<open>occurredAt\<close> back into a
  \<^verbatim>\<open>Date\<close>, which in JSON is the same string.
\<close>

definition publish_payload ::
  "(json \<Rightarrow> ('b, js_error, unit) async) \<Rightarrow> string \<Rightarrow> ('b, js_error, unit) async" where
  "publish_payload publish payload = (case json_parse payload of Inl e \<Rightarrow> throw e | Inr event \<Rightarrow> publish event)"

definition processEntry ::
  "(json \<Rightarrow> ('b, js_error, unit) async) \<Rightarrow> msec \<Rightarrow> string \<Rightarrow> string \<Rightarrow> 'b outbox_world \<Rightarrow> 'b outbox_world" where
  "processEntry publish now id' payload w =
     (case ob_markAsProcessing id' (ow_table w) of (acquired, t) \<Rightarrow>
        if \<not> acquired then w\<lparr>ow_table := t\<rparr>
        else (case publish_payload publish payload (ow_bus w) of
                (Inr _, b) \<Rightarrow> w\<lparr>ow_table := ob_markAsProcessed now id' t, ow_bus := b\<rparr>
              | (Inl e, b) \<Rightarrow> w\<lparr>ow_table := ob_markAsFailed id' (err_message e) t, ow_bus := b\<rparr>))"

fun processEntries ::
  "(json \<Rightarrow> ('b, js_error, unit) async) \<Rightarrow> msec \<Rightarrow> outbox_row list \<Rightarrow> 'b outbox_world \<Rightarrow> 'b outbox_world" where
  "processEntries publish now [] w = w"
| "processEntries publish now (r # rs) w =
     processEntries publish now rs (processEntry publish now (ob_id r) (ob_payload r) w)"

definition processOutbox ::
  "(json \<Rightarrow> ('b, js_error, unit) async) \<Rightarrow> outbox_config \<Rightarrow> msec \<Rightarrow> 'b outbox_world \<Rightarrow> 'b outbox_world" where
  "processOutbox publish cfg now w =
     (if ow_isProcessing w then w
      else
        let w1 = w\<lparr>ow_isProcessing := True\<rparr>;
            entries = ob_getPending (oc_batchSize cfg) (ow_table w1)
        in if entries = [] then w1\<lparr>ow_isProcessing := False\<rparr>
           else
             let w2 = processEntries publish now entries w1
             in w2\<lparr>ow_table := snd (ob_resetForRetry (oc_maxRetries cfg) (ow_table w2)), ow_isProcessing := False\<rparr>)"

definition cleanupOldEntries :: "outbox_config \<Rightarrow> msec \<Rightarrow> 'b outbox_world \<Rightarrow> 'b outbox_world" where
  "cleanupOldEntries cfg now w =
     w\<lparr>ow_table := snd (ob_deleteProcessed (now - oc_retentionPeriodMs cfg) (ow_table w))\<rparr>"

section \<open>Rows after an update\<close>

definition row_done :: "msec \<Rightarrow> outbox_row \<Rightarrow> outbox_row" where
  "row_done now r = r\<lparr>ob_status := PROCESSED, ob_processedAt := Some now\<rparr>"

lemma ob_update_ids [simp]:
  "(\<And>r. ob_id (f r) = ob_id r) \<Longrightarrow> map ob_id (ob_update P f t) = map ob_id t"
  by (simp add: ob_update_def comp_def if_distrib)

lemma distinct_row: "distinct (map ob_id t) \<Longrightarrow> r \<in> set t \<Longrightarrow> x \<in> set t \<Longrightarrow> ob_id x = ob_id r \<Longrightarrow> x = r"
  by (metis distinct_map inj_on_def)

lemma lock_then_done:
  assumes "distinct (map ob_id t)" "r \<in> set t" "ob_status r = PENDING"
  shows "ob_markAsProcessed now (ob_id r) (snd (ob_markAsProcessing (ob_id r) t)) =
    ob_update (\<lambda>x. ob_id x = ob_id r) (row_done now) t"
proof -
  have "ob_status x = PENDING" if "x \<in> set t" "ob_id x = ob_id r" for x
    using distinct_row [OF assms(1,2) that] assms(3) by simp
  then show ?thesis
    by (auto simp: ob_markAsProcessed_def ob_markAsProcessing_def Let_def ob_update_def row_done_def)
qed

lemma lock_acquired: "r \<in> set t \<Longrightarrow> ob_status r = PENDING \<Longrightarrow> fst (ob_markAsProcessing (ob_id r) t)"
  by (auto simp: ob_markAsProcessing_def Let_def filter_empty_conv)

section \<open>Delivery\<close>

definition bus_after :: "(json \<Rightarrow> ('b, js_error, unit) async) \<Rightarrow> json list \<Rightarrow> 'b \<Rightarrow> 'b" where
  "bus_after publish = fold (\<lambda>event b. snd (publish event b))"

lemma processEntry_accept:
  assumes "distinct (map ob_id (ow_table w))" "r \<in> set (ow_table w)" "ob_status r = PENDING"
    and "json_parse (ob_payload r) = Inr event" "\<And>e b. fst (publish e b) = Inr ()"
  shows "processEntry publish now (ob_id r) (ob_payload r) w =
    w\<lparr>ow_table := ob_update (\<lambda>x. ob_id x = ob_id r) (row_done now) (ow_table w), ow_bus := snd (publish event (ow_bus w))\<rparr>"
proof -
  obtain a t where lock: "ob_markAsProcessing (ob_id r) (ow_table w) = (a, t)" by fastforce
  then have "a" using lock_acquired [OF assms(2,3)] by simp
  moreover have "ob_markAsProcessed now (ob_id r) t = ob_update (\<lambda>x. ob_id x = ob_id r) (row_done now) (ow_table w)"
    using lock_then_done [OF assms(1-3), of now] lock by simp
  moreover have "publish_payload publish (ob_payload r) (ow_bus w) = (Inr (), snd (publish event (ow_bus w)))"
    using assms(4,5) by (simp add: publish_payload_def prod_eq_iff)
  ultimately show ?thesis using lock by (simp add: processEntry_def)
qed

lemma processEntries_accept:
  assumes "distinct (map ob_id (ow_table w))" "distinct (map ob_id rs)"
    and "set rs \<subseteq> {r \<in> set (ow_table w). ob_status r = PENDING}"
    and "\<And>r. r \<in> set rs \<Longrightarrow> json_parse (ob_payload r) = Inr (event r)" "\<And>e b. fst (publish e b) = Inr ()"
  shows "processEntries publish now rs w =
    w\<lparr>ow_table := ob_update (\<lambda>x. ob_id x \<in> ob_id ` set rs) (row_done now) (ow_table w),
      ow_bus := bus_after publish (map event rs) (ow_bus w)\<rparr>"
  using assms
proof (induction rs arbitrary: w)
  case Nil
  then show ?case by (simp add: ob_update_def bus_after_def)
next
  case (Cons r rs)
  let ?w = "w\<lparr>ow_table := ob_update (\<lambda>x. ob_id x = ob_id r) (row_done now) (ow_table w), ow_bus := snd (publish (event r) (ow_bus w))\<rparr>"
  have step: "processEntry publish now (ob_id r) (ob_payload r) w = ?w"
    using Cons.prems by (intro processEntry_accept) auto
  have keep: "x \<in> set (ow_table ?w)" if "x \<in> set rs" for x
  proof -
    have "ob_id x \<noteq> ob_id r" using Cons.prems(2) that by (metis distinct.simps(2) image_eqI list.set_map list.simps(9))
    moreover have "x \<in> set (ow_table w)" using Cons.prems(3) that by auto
    ultimately show ?thesis by (force simp: ob_update_def)
  qed
  have "processEntries publish now rs ?w = ?w\<lparr>ow_table := ob_update (\<lambda>x. ob_id x \<in> ob_id ` set rs) (row_done now) (ow_table ?w),
      ow_bus := bus_after publish (map event rs) (ow_bus ?w)\<rparr>"
  proof (rule Cons.IH)
    show "distinct (map ob_id (ow_table ?w))" using Cons.prems(1) by (simp add: row_done_def)
    show "set rs \<subseteq> {r \<in> set (ow_table ?w). ob_status r = PENDING}" using Cons.prems(3) keep by auto
  qed (use Cons.prems in auto)
  moreover have "ob_update (\<lambda>x. ob_id x \<in> ob_id ` set rs) (row_done now) (ob_update (\<lambda>x. ob_id x = ob_id r) (row_done now) t) =
    ob_update (\<lambda>x. ob_id x \<in> ob_id ` set (r # rs)) (row_done now) t" for t
    by (auto simp: ob_update_def row_done_def)
  ultimately show ?case using step by (simp add: bus_after_def)
qed

lemma event_json_parse: "wf_json (event_json e) \<Longrightarrow> json_parse (ob_payload (new_row t e)) = Inr (event_json e)"
  by (simp add: new_row_def json_roundtrip)

lemma sort_rows: "sort_key ob_createdAt (map (\<lambda>(t, e). new_row t e) tes) = map (\<lambda>(t, e). new_row t e) (sort_key fst tes)"
proof -
  have "insort_key ob_createdAt (new_row t e) (map (\<lambda>(t, e). new_row t e) xs) =
    map (\<lambda>(t, e). new_row t e) (insort_key fst (t, e) xs)" for t e xs
    by (induction xs) (auto simp: new_row_def)
  then show ?thesis by (induction tes) (auto simp: sort_key_def)
qed

text \<open>
  C17. One poll delivers the outbox. When the waiting events, created at different times, fit into a
  batch and the bus accepts them, a poll hands to the bus exactly the events that were added, as they were added, in the
  order of their creation, and marks every row as processed.
\<close>

theorem outbox_delivers_in_order:
  assumes "ow_table w = map (\<lambda>(t, e). new_row t e) tes" "distinct (map (de_eventId \<circ> snd) tes)"
    and "list_all (\<lambda>(t, e). wf_json (event_json e)) tes" "length tes \<le> oc_batchSize cfg"
    and "\<And>e b. fst (publish e b) = Inr ()" "\<not> ow_isProcessing w" "distinct (map fst tes)"
  shows "ow_bus (processOutbox publish cfg now w) = bus_after publish (map (event_json \<circ> snd) (sort_key fst tes)) (ow_bus w) \<and>
    ow_table (processOutbox publish cfg now w) = map (row_done now \<circ> (\<lambda>(t, e). new_row t e)) tes"
proof -
  let ?row = "\<lambda>(t, e). new_row t e"
  let ?rs = "map ?row (sort_key fst tes)"
  let ?w1 = "w\<lparr>ow_isProcessing := True\<rparr>"
  have pend: "filter (\<lambda>r. ob_status r = PENDING) (map ?row tes) = map ?row tes"
    by (auto simp: new_row_def intro!: filter_True)
  have entries: "ob_getPending (oc_batchSize cfg) (ow_table w) = ?rs"
    using assms(4) by (simp add: ob_getPending_def assms(1) pend sort_rows)
  have ids: "map ob_id (map ?row xs) = map (de_eventId \<circ> snd) xs" for xs
    by (auto simp: new_row_def)
  have d: "distinct (map ob_id (ow_table ?w1))" using assms(2) unfolding ids [of tes, symmetric] by (simp add: assms(1))
  have ds: "distinct (map ob_id ?rs)"
    using assms(2) unfolding ids by (simp add: distinct_map)
  define event where "event r = (case json_parse (ob_payload r) of Inr j \<Rightarrow> j | Inl _ \<Rightarrow> JNull)" for r :: outbox_row
  have parse: "json_parse (ob_payload r) = Inr (event r)" if "r \<in> set ?rs" for r
    using that assms(3) event_json_parse by (fastforce simp: event_def list_all_iff)
  have evs: "map event ?rs = map (event_json \<circ> snd) (sort_key fst tes)"
    using assms(3) event_json_parse by (auto simp: event_def list_all_iff)
  have run: "processEntries publish now ?rs ?w1 =
    ?w1\<lparr>ow_table := ob_update (\<lambda>x. ob_id x \<in> ob_id ` set ?rs) (row_done now) (ow_table ?w1),
      ow_bus := bus_after publish (map event ?rs) (ow_bus ?w1)\<rparr>"
    by (rule processEntries_accept [OF d ds _ parse assms(5)]) (auto simp: assms(1) new_row_def)
  have table: "ob_update (\<lambda>x. ob_id x \<in> ob_id ` set ?rs) (row_done now) (ow_table w) = map (row_done now \<circ> ?row) tes"
    by (auto simp: ob_update_def assms(1) image_image)
  have reset: "snd (ob_resetForRetry n (map (row_done now \<circ> ?row) tes)) = map (row_done now \<circ> ?row) tes" for n
    by (auto simp: ob_resetForRetry_def Let_def ob_update_def row_done_def)
  show ?thesis
  proof (cases "tes = []")
    case True
    with assms(6) entries show ?thesis by (simp add: processOutbox_def Let_def bus_after_def assms(1))
  next
    case False
    then have "?rs \<noteq> []" by (metis length_0_conv length_map length_sort)
    with assms(6) have "processOutbox publish cfg now w = (processEntries publish now ?rs ?w1)
      \<lparr>ow_table := snd (ob_resetForRetry (oc_maxRetries cfg) (ow_table (processEntries publish now ?rs ?w1))), ow_isProcessing := False\<rparr>"
      by (simp add: processOutbox_def Let_def entries)
    with run [unfolded evs] table reset show ?thesis by simp
  qed
qed

section \<open>Starvation of failed entries\<close>

lemma no_pending: "filter (\<lambda>r. ob_status r = PENDING) t = [] \<Longrightarrow> ob_getPending n t = []"
  by (simp add: ob_getPending_def)

text \<open>
  Failed entries starve. While no entry is pending, a poll does nothing at all, so an entry that
  failed is not retried by any number of polls, however few attempts it has had: the reset that
  makes failed entries pending again runs only after a batch with at least one pending entry.
\<close>

lemma failed_entries_starve:
  assumes "filter (\<lambda>r. ob_status r = PENDING) (ow_table w) = []" "\<not> ow_isProcessing w"
  shows "fold (processOutbox publish cfg) polls w = w"
proof -
  have "processOutbox publish cfg now w = w" for now
    using assms no_pending by (simp add: processOutbox_def Let_def)
  then show ?thesis by (induction polls) simp_all
qed

section \<open>Several processors\<close>

text \<open>
  Several instances poll one table. An instance locks an entry, publishes it, and marks it; between
  these steps other instances act, the marking may be that of a failure even after the event was
  published (the first marking having failed), and an instance may crash and forget what it held.
\<close>

record outbox_sys =
  os_table :: outbox
  os_holds :: "(nat \<times> string \<times> bool) list"
  \<comment> \<open>instance, entry, and whether the event has been published\<close>
  os_published :: "string set"
  os_added :: "string set"

inductive ob_sys_step :: "int \<Rightarrow> outbox_sys \<Rightarrow> outbox_sys \<Rightarrow> bool" for maxRetries where
  add: "ob_add now e (os_table s) = (Inr (), t) \<Longrightarrow>
    ob_sys_step maxRetries s (s\<lparr>os_table := t, os_added := insert (de_eventId e) (os_added s)\<rparr>)"
| lock: "ob_markAsProcessing i (os_table s) = (True, t) \<Longrightarrow> p \<notin> fst ` set (os_holds s) \<Longrightarrow>
    ob_sys_step maxRetries s (s\<lparr>os_table := t, os_holds := (p, i, False) # os_holds s\<rparr>)"
| publish: "os_holds s = hs @ (p, i, b) # hs' \<Longrightarrow>
    ob_sys_step maxRetries s (s\<lparr>os_holds := hs @ (p, i, True) # hs', os_published := insert i (os_published s)\<rparr>)"
| processed: "os_holds s = hs @ (p, i, True) # hs' \<Longrightarrow>
    ob_sys_step maxRetries s (s\<lparr>os_table := ob_markAsProcessed now i (os_table s), os_holds := hs @ hs'\<rparr>)"
| failed: "os_holds s = hs @ (p, i, b) # hs' \<Longrightarrow>
    ob_sys_step maxRetries s (s\<lparr>os_table := ob_markAsFailed i err (os_table s), os_holds := hs @ hs'\<rparr>)"
| reset: "ob_sys_step maxRetries s (s\<lparr>os_table := snd (ob_resetForRetry maxRetries (os_table s))\<rparr>)"
| cleanup: "ob_sys_step maxRetries s (s\<lparr>os_table := snd (ob_deleteProcessed olderThan (os_table s))\<rparr>)"
| crash: "os_holds s = hs @ h # hs' \<Longrightarrow> ob_sys_step maxRetries s (s\<lparr>os_holds := hs @ hs'\<rparr>)"

inductive ob_sys_reach :: "int \<Rightarrow> outbox_sys \<Rightarrow> bool" for maxRetries where
  init: "ob_sys_reach maxRetries \<lparr>os_table = [], os_holds = [], os_published = {}, os_added = {}\<rparr>"
| step: "ob_sys_reach maxRetries s \<Longrightarrow> ob_sys_step maxRetries s s' \<Longrightarrow> ob_sys_reach maxRetries s'"

definition held_ids :: "outbox_sys \<Rightarrow> string list" where
  "held_ids s = map (\<lambda>(p, i, b). i) (os_holds s)"

definition ob_sys_inv :: "outbox_sys \<Rightarrow> bool" where
  "ob_sys_inv s \<longleftrightarrow> distinct (map ob_id (os_table s)) \<and> distinct (held_ids s) \<and>
     (\<forall>i \<in> set (held_ids s). \<exists>r \<in> set (os_table s). ob_id r = i \<and> ob_status r = PROCESSING) \<and>
     (\<forall>(p, i, b) \<in> set (os_holds s). b \<longrightarrow> i \<in> os_published s) \<and>
     (\<forall>r \<in> set (os_table s). ob_status r = PROCESSED \<longrightarrow> ob_id r \<in> os_published s) \<and>
     os_added s \<subseteq> ob_id ` set (os_table s) \<union> os_published s"

lemma inv_update:
  assumes inv: "ob_sys_inv s" and id: "\<And>r. ob_id (f r) = ob_id r"
    and held: "\<And>r. r \<in> set (os_table s) \<Longrightarrow> P r \<Longrightarrow> ob_id r \<in> set (map (\<lambda>(p, i, b). i) hs) \<Longrightarrow> ob_status (f r) = PROCESSING"
    and fin: "\<And>r. r \<in> set (os_table s) \<Longrightarrow> P r \<Longrightarrow> ob_status (f r) = PROCESSED \<Longrightarrow> ob_id r \<in> os_published s"
    and hs: "distinct (map (\<lambda>(p, i, b). i) hs)" "\<forall>(p, i, b) \<in> set hs. b \<longrightarrow> i \<in> os_published s"
    and rows: "\<And>i. i \<in> set (map (\<lambda>(p, i, b). i) hs) \<Longrightarrow>
      \<exists>r \<in> set (os_table s). ob_id r = i \<and> (P r \<or> ob_status r = PROCESSING)"
  shows "ob_sys_inv (s\<lparr>os_table := ob_update P f (os_table s), os_holds := hs\<rparr>)"
proof -
  have row: "\<exists>r \<in> set (ob_update P f (os_table s)). ob_id r = i \<and> ob_status r = PROCESSING"
    if "i \<in> set (map (\<lambda>(p, i, b). i) hs)" for i
  proof -
    from rows [OF that] obtain r where r: "r \<in> set (os_table s)" "ob_id r = i" "P r \<or> ob_status r = PROCESSING"
      by blast
    then have "(if P r then f r else r) \<in> set (ob_update P f (os_table s))" by (auto simp: ob_update_def)
    with r that held [of r] id show ?thesis by (intro bexI [of _ "if P r then f r else r"]) auto
  qed
  have ids: "ob_id ` set (ob_update P f (os_table s)) = ob_id ` set (os_table s)"
    using ob_update_ids [OF id, of P "os_table s"] by (metis list.set_map)
  have "distinct (map ob_id (ob_update P f (os_table s)))"
    using inv ob_update_ids [OF id] by (simp add: ob_sys_inv_def)
  moreover have "\<forall>r \<in> set (ob_update P f (os_table s)). ob_status r = PROCESSED \<longrightarrow> ob_id r \<in> os_published s"
    using inv fin id by (auto simp: ob_update_def ob_sys_inv_def)
  moreover have "os_added s \<subseteq> ob_id ` set (ob_update P f (os_table s)) \<union> os_published s"
    using inv ids by (simp add: ob_sys_inv_def)
  ultimately show ?thesis
    using hs row by (simp add: ob_sys_inv_def held_ids_def)
qed

lemma invD:
  assumes "ob_sys_inv s"
  shows "distinct (map ob_id (os_table s))" "distinct (map (\<lambda>(p, i, b). i) (os_holds s))"
    "\<And>i. i \<in> set (map (\<lambda>(p, i, b). i) (os_holds s)) \<Longrightarrow> \<exists>r \<in> set (os_table s). ob_id r = i \<and> ob_status r = PROCESSING"
    "\<forall>(p, i, b) \<in> set (os_holds s). b \<longrightarrow> i \<in> os_published s"
    "\<forall>r \<in> set (os_table s). ob_status r = PROCESSED \<longrightarrow> ob_id r \<in> os_published s"
    "os_added s \<subseteq> ob_id ` set (os_table s) \<union> os_published s"
  using assms unfolding ob_sys_inv_def held_ids_def by blast+

lemma held_row:
  assumes "ob_sys_inv s" "i \<in> set (map (\<lambda>(p, i, b). i) (os_holds s))" "r \<in> set (os_table s)" "ob_id r = i"
  shows "ob_status r = PROCESSING"
  using invD(3) [OF assms(1,2)] distinct_row [OF invD(1) [OF assms(1)]] assms(3,4) by metis

lemma inv_lock:
  assumes inv: "ob_sys_inv s" and lock: "ob_markAsProcessing i (os_table s) = (True, t)"
  shows "ob_sys_inv (s\<lparr>os_table := t, os_holds := (p, i, False) # os_holds s\<rparr>)"
proof -
  let ?P = "\<lambda>r. ob_id r = i \<and> ob_status r = PENDING"
  from lock have t: "t = ob_update ?P (\<lambda>r. r\<lparr>ob_status := PROCESSING\<rparr>) (os_table s)" and "filter ?P (os_table s) \<noteq> []"
    by (auto simp: ob_markAsProcessing_def Let_def)
  then obtain r where r: "r \<in> set (os_table s)" "?P r" by (auto simp: filter_empty_conv)
  then have free: "i \<notin> set (map (\<lambda>(p, i, b). i) (os_holds s))" using held_row [OF inv] by fastforce
  have "ob_sys_inv (s\<lparr>os_table := ob_update ?P (\<lambda>r. r\<lparr>ob_status := PROCESSING\<rparr>) (os_table s), os_holds := (p, i, False) # os_holds s\<rparr>)"
  proof (rule inv_update [OF inv])
    show "\<exists>r \<in> set (os_table s). ob_id r = j \<and> (?P r \<or> ob_status r = PROCESSING)"
      if "j \<in> set (map (\<lambda>(p, i, b). i) ((p, i, False) # os_holds s))" for j
      using that r invD(3) [OF inv, of j] by (cases "j = i") auto
  qed (use free invD [OF inv] in auto)
  then show ?thesis by (simp add: t)
qed

lemma inv_release:
  assumes inv: "ob_sys_inv s" and holds: "os_holds s = hs @ (p, i, b) # hs'"
    and f: "\<And>r. ob_id (f r) = ob_id r" "\<And>r. ob_status (f r) = PROCESSED \<Longrightarrow> i \<in> os_published s"
  shows "ob_sys_inv (s\<lparr>os_table := ob_update (\<lambda>r. ob_id r = i) f (os_table s), os_holds := hs @ hs'\<rparr>)"
proof (rule inv_update [OF inv f(1)])
  have d: "distinct (map (\<lambda>(p, i, b). i) (hs @ (p, i, b) # hs'))" using invD(2) [OF inv] by (simp add: holds)
  then show "distinct (map (\<lambda>(p, i, b). i) (hs @ hs'))" by simp
  from d have i: "i \<notin> set (map (\<lambda>(p, i, b). i) (hs @ hs'))" by simp
  show "ob_status (f r) = PROCESSING" if "ob_id r = i" "ob_id r \<in> set (map (\<lambda>(p, i, b). i) (hs @ hs'))" for r
    using that i by simp
  show "\<exists>r \<in> set (os_table s). ob_id r = j \<and> (ob_id r = i \<or> ob_status r = PROCESSING)"
    if "j \<in> set (map (\<lambda>(p, i, b). i) (hs @ hs'))" for j
  proof -
    have "j \<in> set (map (\<lambda>(p, i, b). i) (os_holds s))" using that by (auto simp: holds)
    from invD(3) [OF inv this] show ?thesis by blast
  qed
qed (use invD(4) [OF inv] holds f(2) in auto)

lemma inv_reset:
  assumes "ob_sys_inv s"
  shows "ob_sys_inv (s\<lparr>os_table := snd (ob_resetForRetry n (os_table s))\<rparr>)"
proof -
  let ?P = "\<lambda>r. ob_status r = FAILED \<and> ob_retryCount r < n"
  have "ob_sys_inv (s\<lparr>os_table := ob_update ?P (\<lambda>r. r\<lparr>ob_status := PENDING\<rparr>) (os_table s), os_holds := os_holds s\<rparr>)"
    by (rule inv_update [OF assms]) (use invD [OF assms] held_row [OF assms] in fastforce)+
  then show ?thesis by (simp add: ob_resetForRetry_def Let_def)
qed

lemma inv_cleanup:
  assumes inv: "ob_sys_inv s"
  shows "ob_sys_inv (s\<lparr>os_table := snd (ob_deleteProcessed d (os_table s))\<rparr>)"
proof -
  let ?t = "filter (\<lambda>r. \<not> ob_expired d r) (os_table s)"
  have "distinct (map ob_id ?t)" using invD(1) [OF inv] by (rule distinct_map_filter)
  moreover have "\<exists>r \<in> set ?t. ob_id r = i \<and> ob_status r = PROCESSING" if "i \<in> set (map (\<lambda>(p, i, b). i) (os_holds s))" for i
    using invD(3) [OF inv that] by (auto simp: ob_expired_def)
  moreover have "os_added s \<subseteq> ob_id ` set ?t \<union> os_published s"
    using invD(5,6) [OF inv] by (fastforce simp: ob_expired_def)
  ultimately show ?thesis
    using invD(2,4,5) [OF inv] by (simp add: ob_sys_inv_def held_ids_def ob_deleteProcessed_def)
qed

lemma inv_add:
  assumes inv: "ob_sys_inv s" and add: "ob_add now e (os_table s) = (Inr (), t)"
  shows "ob_sys_inv (s\<lparr>os_table := t, os_added := insert (de_eventId e) (os_added s)\<rparr>)"
proof -
  from add have t: "t = os_table s @ [new_row now e]" and d: "distinct (map ob_id (os_table s @ [new_row now e]))"
    using invD(1) [OF inv] by (auto simp: ob_add_def ob_insert_def split: if_splits)
  have "\<exists>r \<in> set t. ob_id r = i \<and> ob_status r = PROCESSING" if "i \<in> set (map (\<lambda>(p, i, b). i) (os_holds s))" for i
    using invD(3) [OF inv that] by (auto simp: t)
  moreover have "\<forall>r \<in> set t. ob_status r = PROCESSED \<longrightarrow> ob_id r \<in> os_published s"
    using invD(5) [OF inv] by (simp add: t new_row_def)
  moreover have "insert (de_eventId e) (os_added s) \<subseteq> ob_id ` set t \<union> os_published s"
    using invD(6) [OF inv] by (auto simp: t new_row_def)
  ultimately show ?thesis
    using invD(2,4) [OF inv] d by (simp add: ob_sys_inv_def held_ids_def t)
qed

lemma inv_publish:
  assumes inv: "ob_sys_inv s" and holds: "os_holds s = hs @ (p, i, b) # hs'"
  shows "ob_sys_inv (s\<lparr>os_holds := hs @ (p, i, True) # hs', os_published := insert i (os_published s)\<rparr>)"
proof -
  have same: "map (\<lambda>(p, i, b). i) (hs @ (p, i, True) # hs') = map (\<lambda>(p, i, b). i) (os_holds s)"
    by (simp add: holds)
  have "\<forall>(p, j, b) \<in> set (hs @ (p, i, True) # hs'). b \<longrightarrow> j \<in> insert i (os_published s)"
  proof (rule ballI)
    fix h
    assume "h \<in> set (hs @ (p, i, True) # hs')"
    then have "h = (p, i, True) \<or> h \<in> set (os_holds s)" by (auto simp: holds)
    then show "case h of (p, j, b) \<Rightarrow> b \<longrightarrow> j \<in> insert i (os_published s)"
      using bspec [OF invD(4) [OF inv], of h] by (cases h) auto
  qed
  moreover have "\<forall>r \<in> set (os_table s). ob_status r = PROCESSED \<longrightarrow> ob_id r \<in> insert i (os_published s)"
    using invD(5) [OF inv] by simp
  moreover have "os_added s \<subseteq> ob_id ` set (os_table s) \<union> insert i (os_published s)"
    using invD(6) [OF inv] by blast
  ultimately show ?thesis
    using inv unfolding ob_sys_inv_def held_ids_def by (simp add: same del: map_append list.map set_map set_append)
qed

lemma inv_crash:
  assumes inv: "ob_sys_inv s" and holds: "os_holds s = hs @ h # hs'"
  shows "ob_sys_inv (s\<lparr>os_holds := hs @ hs'\<rparr>)"
proof -
  have "\<exists>r \<in> set (os_table s). ob_id r = i \<and> ob_status r = PROCESSING" if "i \<in> set (map (\<lambda>(p, i, b). i) (hs @ hs'))" for i
    by (rule invD(3) [OF inv]) (use that in \<open>auto simp: holds\<close>)
  moreover have "distinct (map (\<lambda>(p, i, b). i) (hs @ hs'))" "\<forall>(p, i, b) \<in> set (hs @ hs'). b \<longrightarrow> i \<in> os_published s"
    using invD(2,4) [OF inv] by (auto simp: holds)
  ultimately show ?thesis
    using inv unfolding ob_sys_inv_def held_ids_def by simp
qed

lemma ob_sys_step_inv: "ob_sys_step n s s' \<Longrightarrow> ob_sys_inv s \<Longrightarrow> ob_sys_inv s'"
proof (induction rule: ob_sys_step.induct)
  case (processed s hs p i hs' now)
  have "i \<in> os_published s" using invD(4) [OF processed(2)] processed(1) by auto
  then show ?case
    unfolding ob_markAsProcessed_def by (intro inv_release [OF processed(2,1)]) simp_all
next
  case (failed s hs p i b hs' err)
  then show ?case
    unfolding ob_markAsFailed_def by (intro inv_release [OF failed(2,1)]) simp_all
qed (auto intro: inv_add inv_lock inv_publish inv_reset inv_cleanup inv_crash)

lemma ob_sys_reach_inv: "ob_sys_reach n s \<Longrightarrow> ob_sys_inv s"
proof (induction rule: ob_sys_reach.induct)
  case init
  then show ?case by (simp add: ob_sys_inv_def held_ids_def)
next
  case (step s s')
  then show ?case using ob_sys_step_inv by blast
qed

text \<open>
  C16. Several instances share the outbox safely. Whatever the instances do, in whatever order and
  wherever they crash, no two of them hold the same entry, a row marked processed was published,
  and every event ever added is still in the table or was published: none is lost.
\<close>

theorem outbox_exclusive_and_lossless:
  assumes "ob_sys_reach maxRetries s"
  shows "distinct (held_ids s) \<and>
    (\<forall>r \<in> set (os_table s). ob_status r = PROCESSED \<longrightarrow> ob_id r \<in> os_published s) \<and>
    os_added s \<subseteq> ob_id ` set (os_table s) \<union> os_published s"
  using ob_sys_reach_inv [OF assms] by (simp add: ob_sys_inv_def)

section \<open>A concrete outbox\<close>

definition demo_event :: "string \<Rightarrow> domain_event" where
  "demo_event i = \<lparr>de_eventId = i, de_eventType = ''UserCreated'', de_aggregateId = ''u1'',
     de_aggregateType = ''User'', de_occurredAt = 0, de_data = JNull, de_metadata = None\<rparr>"

definition demo_bus :: "json \<Rightarrow> (json list, js_error, unit) async" where
  "demo_bus e = writes (\<lambda>log. log @ [e])"

definition demo_outbox :: "json list outbox_world" where
  "demo_outbox = \<lparr>ow_table = map (\<lambda>(t, e). new_row t e) [(20, demo_event ''b''), (10, demo_event ''a'')],
     ow_bus = [], ow_isProcessing = False, ow_isRunning = True\<rparr>"

lemma demo_event_wf: "wf_json (event_json (demo_event i))"
  by (simp add: event_json_def demo_event_def jopt_def)

theorem outbox_delivers_in_order_witness:
  "ow_bus (processOutbox demo_bus DEFAULT_CONFIG 30 demo_outbox) =
     [event_json (demo_event ''a''), event_json (demo_event ''b'')]"
proof -
  let ?rows = "[(20 :: int, demo_event ''b''), (10, demo_event ''a'')]"
  have t: "ow_table demo_outbox = map (\<lambda>(t, e). new_row t e) ?rows"
    "\<not> ow_isProcessing demo_outbox" by (simp_all add: demo_outbox_def)
  have e: "distinct (map (de_eventId \<circ> snd) ?rows)" "list_all (\<lambda>(t, e). wf_json (event_json e)) ?rows"
    by (simp_all add: demo_event_wf) (simp add: demo_event_def)
  have d: "distinct (map fst ?rows)" by simp
  have b: "length ?rows \<le> oc_batchSize DEFAULT_CONFIG" "\<And>e b. fst (demo_bus e b) = Inr ()"
    by (simp_all add: DEFAULT_CONFIG_def demo_bus_def async_simps)
  have "ow_bus (processOutbox demo_bus DEFAULT_CONFIG 30 demo_outbox) =
    bus_after demo_bus (map (event_json \<circ> snd) (sort_key fst ?rows)) (ow_bus demo_outbox)"
    by (rule conjunct1 [OF outbox_delivers_in_order [OF t(1) e b t(2) d]])
  then show ?thesis
    by (simp add: bus_after_def demo_bus_def async_simps demo_outbox_def sort_key_def)
qed

definition failed_outbox :: "json list outbox_world" where
  "failed_outbox = \<lparr>ow_table = ob_markAsFailed ''a'' ''bus down'' [new_row 10 (demo_event ''a'')],
     ow_bus = [], ow_isProcessing = False, ow_isRunning = True\<rparr>"

theorem outbox_exclusive_and_lossless_witness:
  "\<exists>s. ob_sys_reach 3 s \<and> held_ids s = [''a''] \<and> os_added s = {''a''} \<and>
     distinct (held_ids s) \<and> os_added s \<subseteq> ob_id ` set (os_table s) \<union> os_published s"
proof -
  let ?e = "demo_event ''a''"
  let ?s0 = "\<lparr>os_table = [], os_holds = [], os_published = {}, os_added = {}\<rparr>"
  let ?s1 = "?s0\<lparr>os_table := [new_row 5 ?e], os_added := insert (de_eventId ?e) (os_added ?s0)\<rparr>"
  let ?s2 = "?s1\<lparr>os_table := [(new_row 5 ?e)\<lparr>ob_status := PROCESSING\<rparr>], os_holds := (1, ''a'', False) # os_holds ?s1\<rparr>"
  have 1: "ob_sys_step 3 ?s0 ?s1"
    by (rule ob_sys_step.add [where now = 5]) (simp add: ob_add_def ob_insert_def)
  have 2: "ob_sys_step 3 ?s1 ?s2"
    by (rule ob_sys_step.lock)
      (simp_all add: ob_markAsProcessing_def Let_def ob_update_def new_row_def demo_event_def)
  have reach: "ob_sys_reach 3 ?s2"
    by (rule ob_sys_reach.step [OF ob_sys_reach.step [OF ob_sys_reach.init 1] 2])
  have "held_ids ?s2 = [''a'']" "os_added ?s2 = {''a''}"
    by (simp_all add: held_ids_def demo_event_def)
  with reach outbox_exclusive_and_lossless [OF reach] show ?thesis by blast
qed

end
