(* ===== verification/Bff.thy ===== *)
theory Bff
  imports Port_Caching
begin

text \<open>
  What the business services of src/modules share: the exceptions they throw, a call of the port
  registry, schema validation, and the treatment of an answer. The validators of the schemas
  (\<^verbatim>\<open>safeParse\<close> of \<^verbatim>\<open>zod\<close>) are arguments: they give the parsed value or the message
  of the error.
\<close>

datatype app_error =
  PortError port_error
| ValidationException string
| NotFoundException string
| ForbiddenException string
| TypeErrorException string
| CacheException string

type_synonym ('c, 's, 'a) bff = "(('c, 's) port_world, app_error, 'a) async"
type_synonym 'a schema = "json \<Rightarrow> string + 'a"
type_synonym params = "(string \<times> json) list"

text \<open>A request: its context and, for its n-th port call, the times before and after the call.\<close>

record ('c, 's) bff_request =
  bf_deps :: "('c, 's) port_deps"
  bf_ctx :: "request_context option"
  bf_time :: "nat \<Rightarrow> msec \<times> msec"

definition port_op :: "(('c, 's) port_world, port_error, 'a) async \<Rightarrow> ('c, 's, 'a) bff" where
  "port_op m = (\<lambda>w. case m w of (r, w') \<Rightarrow> (map_sum PortError id r, w'))"

definition callPort ::
  "('c, 's) bff_request \<Rightarrow> nat \<Rightarrow> string \<Rightarrow> string \<Rightarrow> params \<Rightarrow> ('c, 's, port_result) bff" where
  "callPort b n portName method ps =
     port_op (execute (bf_deps b) (bf_ctx b) (fst (bf_time b n)) (snd (bf_time b n)) portName method ps None)"

definition fetch ::
  "('c, 's) bff_request \<Rightarrow> string \<Rightarrow> string \<Rightarrow> params \<Rightarrow> ('c, 's, json option) bff" where
  "fetch b portName method ps = bnd (callPort b 0 portName method ps) (\<lambda>result. ret (pr_data result))"
  \<comment> \<open>\<^verbatim>\<open>const result = await execute(...); return result.data;\<close>\<close>

definition opt_truthy :: "json option \<Rightarrow> bool" where
  "opt_truthy v = (case v of None \<Rightarrow> False | Some j \<Rightarrow> json_truthy j)"

definition data_or :: "app_error \<Rightarrow> json option \<Rightarrow> ('c, 's, json) bff" where
  "data_or e v = (if opt_truthy v then ret (the v) else throw e)"

definition fetch_or ::
  "('c, 's) bff_request \<Rightarrow> string \<Rightarrow> string \<Rightarrow> params \<Rightarrow> app_error \<Rightarrow> ('c, 's, json) bff" where
  "fetch_or b portName method ps e = bnd (fetch b portName method ps) (data_or e)"

definition safeParse :: "'a schema \<Rightarrow> json \<Rightarrow> (string \<Rightarrow> string) \<Rightarrow> ('c, 's, 'a) bff" where
  "safeParse schema v msg = (case schema v of Inl m \<Rightarrow> throw (ValidationException (msg m)) | Inr x \<Rightarrow> ret x)"

definition obj_spread :: "params \<Rightarrow> params \<Rightarrow> params" where
  "obj_spread a b = fold (\<lambda>(k, v). AList.update k v) b a"
  \<comment> \<open>\<^verbatim>\<open>{ ...a, ...b }\<close>\<close>

definition customer :: "string \<Rightarrow> params" where
  "customer customerId = [(''customerId'', JStr customerId)]"

lemma port_op_app [async_simps]: "port_op m w = (case m w of (r, w') \<Rightarrow> (map_sum PortError id r, w'))"
  by (simp add: port_op_def)

lemma port_op_Inr: "port_op m w = (Inr x, w') \<longleftrightarrow> m w = (Inr x, w')"
  by (cases "m w"; cases "fst (m w)") (auto simp: port_op_def)

lemma callPort_Inr:
  "callPort b n p m ps w = (Inr r, w') \<longleftrightarrow>
   execute (bf_deps b) (bf_ctx b) (fst (bf_time b n)) (snd (bf_time b n)) p m ps None w = (Inr r, w')"
  by (simp add: callPort_def port_op_Inr)

lemma bnd_Inr: "bnd m f w = (Inr y, w') \<longleftrightarrow> (\<exists>x w1. m w = (Inr x, w1) \<and> f x w1 = (Inr y, w'))"
  by (auto simp: bnd_app split: prod.splits sum.splits)

lemma seq_Inr: "seq m n w = (Inr y, w') \<longleftrightarrow> (\<exists>x w1. m w = (Inr x, w1) \<and> n w1 = (Inr y, w'))"
  by (simp add: seq_def bnd_Inr)

lemma ret_Inr: "ret x w = (Inr y, w') \<longleftrightarrow> y = x \<and> w' = w"
  by (auto simp: ret_def)

lemma data_or_Inr: "data_or e v w = (Inr j, w') \<longleftrightarrow> opt_truthy v \<and> j = the v \<and> w' = w"
  by (auto simp: data_or_def async_simps)

lemma safeParse_Inr: "safeParse s v msg w = (Inr x, w') \<longleftrightarrow> s v = Inr x \<and> w' = w"
  by (auto simp: safeParse_def async_simps split: sum.splits)

lemma opt_truthyD: "opt_truthy v \<Longrightarrow> \<exists>j. v = Some j \<and> json_truthy j"
  by (cases v) (auto simp: opt_truthy_def)

lemmas bff_Inr = bnd_Inr seq_Inr ret_Inr data_or_Inr safeParse_Inr callPort_Inr

section \<open>Ports without a cache\<close>

text \<open>A call of such a port whose breaker admits it returns what the adapter answers.\<close>

lemma execute_answers:
  assumes "map_of (pw_ports w) p = Some entry" "\<not> should_cache m entry" "admits t0 p w"
    and "adapter_of entry (choose_adapter d p entry (pw_config w)) ctx m ps (pw_env w) = (Inr v, s)"
  obtains r w1 where "execute d ctx t0 t1 p m ps None w = (Inr r, w1)" "pr_data r = Some v" "pr_metadata r = None" "pw_env w1 = s"
proof -
  from assms(2) have sc: "should_cache m entry = False" by simp
  have env: "pw_env (snd (post_process d t1 p entry m sc k None v x)) = pw_env x" for sc k x
    by (subst post_process_fallback) simp
  show ?thesis
    by (rule that) (use assms env in \<open>auto simp: execute_is_entry [OF assms(1)] execute_entry_eq no_key_read port_read_def sc Let_def
        json_present_def port_call_eq split: prod.splits\<close>)
qed

text \<open>Concrete requests and worlds: ports whose answers are not cached, on an empty registry.\<close>

definition no_ports :: "(json memory_cache, unit) port_world" where
  "no_ports = \<lparr>pw_ports = [], pw_breakers = [], pw_fallback = fp_new (Some []), pw_config = [],
     pw_cache = mc_new \<lparr>co_defaultTtl = None, co_keyPrefix = None, co_maxEntries = None\<rparr>, pw_env = ()\<rparr>"

definition uncached :: port_config_override where
  "uncached = \<lparr>po_name = None, po_cacheTier = None, po_cacheTtl = Some 0, po_timeout = None,
     po_queuePolicy = None, po_circuitBreaker = None, po_active = None\<rparr>"

definition shop_entry :: "string \<Rightarrow> unit port_adapter \<Rightarrow> unit port_entry" where
  "shop_entry p a = \<lparr>pe_name = p, pe_mockAdapter = a, pe_liveAdapter = a, pe_config = resolved_config p [] (Some uncached)\<rparr>"

lemma shop_config: "should_cache m (shop_entry p a) = False" "pc_queuePolicy (pe_config (shop_entry p a)) = QNever"
  by (simp_all add: should_cache_def shop_entry_def resolved_config_def spread_config_def uncached_def js_nullish_def)

definition shop_request :: "int \<Rightarrow> (json memory_cache, unit) bff_request" where
  "shop_request t = \<lparr>bf_deps = demo_port_deps, bf_ctx = None, bf_time = (\<lambda>n. (t + 100 * int n, t + 100 * int n + 10))\<rparr>"

lemma shop_request_simps [simp]:
  "bf_deps (shop_request t) = demo_port_deps" "bf_ctx (shop_request t) = None"
  "bf_time (shop_request t) n = (t + 100 * int n, t + 100 * int n + 10)"
  by (simp_all add: shop_request_def)

definition one_port :: "string \<Rightarrow> unit port_adapter \<Rightarrow> (json memory_cache, unit) port_world" where
  "one_port p a = port_register 0 p a a (Some uncached) no_ports"

lemma one_port_answers:
  assumes "a ctx m ps () = (Inr v, ())"
  obtains r w1 where "execute demo_port_deps ctx t0 t1 p m ps None (one_port p a) = (Inr r, w1)" "pr_data r = Some v" "pr_metadata r = None"
proof -
  have reg: "map_of (pw_ports (one_port p a)) p = Some (shop_entry p a)" "admits t0 p (one_port p a)"
    by (simp_all add: one_port_def no_ports_def port_register_def shop_entry_def Let_def admits_def cb_admit_def cb_new_def)
  have answers: "adapter_of (shop_entry p a) used ctx m ps (pw_env (one_port p a)) = (Inr v, ())" for used
    using assms by (cases used) (simp_all add: adapter_of_def shop_entry_def)
  show ?thesis by (rule execute_answers [OF reg(1) _ reg(2) answers]) (auto simp: shop_config intro: that)
qed

end
