(* ===== verification/Chat.thy ===== *)
theory Chat
  imports Bff "HOL-Library.Multiset"
begin

text \<open>
  The customer chat: request signing (src/libs/shared/security/hmac-sign.util.ts), the adapter that
  talks to the agents' system (src/modules/support/clients/cskh-chat.client.ts), the table of
  messages and its forwarder (src/modules/support/chat-outbox.forwarder.ts), and the support service
  (src/modules/support/support.service.ts). The hash functions, the URL parser, \<^verbatim>\<open>fetch\<close>, the TCP
  probe and the collation order of strings are arguments.
\<close>

section \<open>Signing\<close>

definition to_upper :: "char \<Rightarrow> char" where
  "to_upper c = (if 97 \<le> (of_char c :: nat) \<and> (of_char c :: nat) \<le> 122 then char_of ((of_char c :: nat) - 32) else c)"

definition toUpperCase :: "string \<Rightarrow> string" where
  "toUpperCase = map to_upper"

definition buildCanonicalString ::
  "(string \<Rightarrow> string) \<Rightarrow> string \<Rightarrow> string \<Rightarrow> string \<Rightarrow> string option \<Rightarrow> string" where
  "buildCanonicalString sha256 timestamp method pathAndQuery body =
     ''v1:'' @ timestamp @ '':'' @ toUpperCase method @ '':'' @ pathAndQuery @ '':'' @ sha256 (js_nullish body [])"

record url_parts =
  up_hostname :: string
  up_port :: string
  up_pathname :: string
  up_search :: string

record sign_deps =
  sd_sha256 :: "string \<Rightarrow> string"
  sd_hmac :: "string \<Rightarrow> string \<Rightarrow> string"  \<comment> \<open>secret and message\<close>
  sd_parseUrl :: "string \<Rightarrow> js_error + url_parts"

definition signWebhook ::
  "sign_deps \<Rightarrow> string \<Rightarrow> string \<Rightarrow> string \<Rightarrow> string option \<Rightarrow> int \<Rightarrow> js_error + (string, string) jsmap" where
  "signWebhook d secret method url body timestampSeconds =
     (case sd_parseUrl d url of
        Inl e \<Rightarrow> Inl e
      | Inr u \<Rightarrow>
          let ts = js_int_str timestampSeconds;
              canonical = buildCanonicalString (sd_sha256 d) ts method (up_pathname u @ up_search u) body
          in Inr [(''x-timestamp'', ts), (''x-signature'', ''v1='' @ sd_hmac d secret canonical)])"

section \<open>The adapter\<close>

record cskh_config =
  cc_appWebhookUrl :: "string option"
  cc_hmacSecret :: "string option"

definition strip_slash :: "string \<Rightarrow> string" where
  "strip_slash s = (if s \<noteq> [] \<and> last s = CHR ''/'' then butlast s else s)"

definition cskh_new :: "string option \<Rightarrow> string option \<Rightarrow> cskh_config" where
  "cskh_new base secret =
     \<lparr>cc_appWebhookUrl = (if truthy_str base then Some (strip_slash (the base) @ ''/webhooks/app'') else None),
      cc_hmacSecret = (if truthy_str secret then secret else None)\<rparr>"

record 's cskh_deps =
  cd_fetch :: "fetch_call \<Rightarrow> ('s, js_error, fetch_response) async"
  cd_sign :: sign_deps
  cd_now :: msec
  cd_uuid :: string

definition WIRE_TIMEOUT_MS :: int where
  "WIRE_TIMEOUT_MS = 3000"

definition signed_fetch ::
  "'s cskh_deps \<Rightarrow> string \<Rightarrow> http_method \<Rightarrow> string \<Rightarrow> (string, string) jsmap \<Rightarrow> string option \<Rightarrow>
   ('s, js_error, fetch_response) async" where
  "signed_fetch d secret m url headers body =
     (case signWebhook (cd_sign d) secret (method_name m) url body (cd_now d div 1000) of
        Inl e \<Rightarrow> throw e
      | Inr signature \<Rightarrow> cd_fetch d \<lparr>fe_url = url, fe_method = m, fe_headers = headers @ signature, fe_body = body,
          fe_timeout = WIRE_TIMEOUT_MS\<rparr>)"

definition envelope :: "fetch_response \<Rightarrow> json option" where
  "envelope r = (case fr_json r of Inl _ \<Rightarrow> Some JNull
     | Inr raw \<Rightarrow> Some (json_nullish (if raw = JNull then None else json_get ''data'' raw) raw))"
  \<comment> \<open>\<^verbatim>\<open>raw?.data ?? raw\<close>, where a body that is no JSON counts as null\<close>

definition opt_get :: "string \<Rightarrow> json option \<Rightarrow> json option" where
  "opt_get k v = (case v of None \<Rightarrow> None | Some j \<Rightarrow> json_get k j)"
  \<comment> \<open>\<^verbatim>\<open>v?.k\<close>\<close>

definition wire_error :: "string \<Rightarrow> js_error \<Rightarrow> port_error" where
  "wire_error url e =
     (if err_name e = ''TimeoutError'' \<or> err_name e = ''AbortError''
      then PortTimeoutException ''cskh-chat'' WIRE_TIMEOUT_MS
      else PortDownstreamException ''cskh-chat'' 0 (''unreachable: '' @ err_message e) url)"

definition sent_answer :: "fetch_response \<Rightarrow> string \<Rightarrow> ('s, port_error, json) async" where
  "sent_answer r url =
     (if fr_status r = 401 \<or> fr_status r = 403
      then ret (JObj [(''sent'', JBool False), (''reason'', JStr ''unauthorized'')])
      else if \<not> fr_ok r
      then throw (PortDownstreamException ''cskh-chat'' (fr_status r) (fr_statusText r) url)
      else ret (JObj ([(''sent'', JBool True)] @ jopt ''conversationId'' (opt_get ''conversationId'' (envelope r))
                 @ jopt ''messageId'' (opt_get ''messageId'' (envelope r)))))"

definition cskh_sendMessage :: "cskh_config \<Rightarrow> 's cskh_deps \<Rightarrow> params \<Rightarrow> ('s, port_error, json) async" where
  "cskh_sendMessage cfg d ps =
     (case cc_appWebhookUrl cfg of
        None \<Rightarrow> ret (JObj [(''sent'', JBool True)])
      | Some url \<Rightarrow>
          (case cc_hmacSecret cfg of
             None \<Rightarrow> ret (JObj [(''sent'', JBool False), (''reason'', JStr ''config'')])
           | Some secret \<Rightarrow>
               let messageId = json_nullish (map_of ps ''messageId'') (JStr (cd_uuid d));
                   body = stringify (JObj (jopt ''userId'' (map_of ps ''userId'') @ [(''messageId'', messageId)]
                            @ jopt ''text'' (map_of ps ''text'')))
               in (\<lambda>s. case signed_fetch d secret POST url [(''Content-Type'', ''application/json'')] (Some body) s of
                         (Inl e, s') \<Rightarrow> (Inl (wire_error url e), s')
                       | (Inr r, s') \<Rightarrow> sent_answer r url s')))"

definition empty_thread :: json where
  "empty_thread = JObj [(''conversationId'', JNull), (''messages'', JArr [])]"

definition thread_of :: "fetch_response \<Rightarrow> json" where
  "thread_of r =
     (if \<not> fr_ok r then empty_thread
      else JObj [(''conversationId'', json_nullish (opt_get ''conversationId'' (envelope r)) JNull),
                 (''messages'', case opt_get ''messages'' (envelope r) of Some (JArr xs) \<Rightarrow> JArr xs | _ \<Rightarrow> JArr [])])"

text \<open>Reading the thread never fails: whatever goes wrong, the thread is empty.\<close>

definition cskh_getConversation :: "cskh_config \<Rightarrow> 's cskh_deps \<Rightarrow> params \<Rightarrow> ('s, port_error, json) async" where
  "cskh_getConversation cfg d ps =
     (case (cc_appWebhookUrl cfg, cc_hmacSecret cfg) of
        (Some base, Some secret) \<Rightarrow>
          let userId = (case map_of ps ''userId'' of None \<Rightarrow> ''undefined'' | Some j \<Rightarrow> js_string j);
              url = base @ ''/conversation?userId='' @ encodeURIComponent userId
          in (\<lambda>s. case signed_fetch d secret GET url [] None s of
                    (Inl e, s') \<Rightarrow> (Inr empty_thread, s')
                  | (Inr r, s') \<Rightarrow> (Inr (thread_of r), s'))
      | _ \<Rightarrow> ret empty_thread)"

definition cskh_execute :: "cskh_config \<Rightarrow> 's cskh_deps \<Rightarrow> 's port_adapter" where
  "cskh_execute cfg d ctx method ps =
     (if method = ''send-message'' then cskh_sendMessage cfg d ps
      else if method = ''get-conversation'' then cskh_getConversation cfg d ps
      else throw (OtherError (new_Error (''cskh-chat: unsupported method '' @ [CHR 0x27] @ method @ [CHR 0x27]))))"

section \<open>The table and the forwarder\<close>

record chat_row =
  ch_messageId :: string
  ch_userId :: string
  ch_text :: string
  ch_createdAt :: msec
  ch_forwardedAt :: "msec option"

record ('c, 's) chat_world =
  cw_ports :: "('c, 's) port_world"
  cw_rows :: "chat_row list"
  cw_probeOk :: bool
  cw_probeAt :: msec
  cw_announcedDown :: bool

definition FLUSH_BATCH :: nat where
  "FLUSH_BATCH = 50"

definition PROBE_CACHE_MS :: int where
  "PROBE_CACHE_MS = 30000"

text \<open>Host and port of the receiver; without them, or with an unusable URL, there is no probe.\<close>

definition forwarder_wire :: "(string \<Rightarrow> js_error + url_parts) \<Rightarrow> (string \<Rightarrow> int) \<Rightarrow> string option \<Rightarrow> (string \<times> int) option" where
  "forwarder_wire parseUrl number url =
     (if \<not> truthy_str url then None
      else case parseUrl (the url) of
             Inl _ \<Rightarrow> None
           | Inr u \<Rightarrow> Some (up_hostname u, if up_port u = [] then 80 else number (up_port u)))"

definition wireReachable ::
  "(string \<times> int) option \<Rightarrow> bool \<Rightarrow> msec \<Rightarrow> ('c, 's) chat_world \<Rightarrow> bool \<times> ('c, 's) chat_world" where
  "wireReachable wire probe now w =
     (if (case wire of None \<Rightarrow> True | Some (host, port) \<Rightarrow> host = [] \<or> port = 0) then (True, w)
      else if now - cw_probeAt w < PROBE_CACHE_MS then (cw_probeOk w, w)
      else (probe, w\<lparr>cw_probeAt := now, cw_probeOk := probe, cw_announcedDown := \<not> probe\<rparr>))"
  \<comment> \<open>\<open>probe\<close> is the outcome of the TCP connection\<close>

definition chat_pending :: "chat_row list \<Rightarrow> chat_row list" where
  "chat_pending rows = take FLUSH_BATCH (sort_key ch_createdAt (filter (\<lambda>r. ch_forwardedAt r = None) rows))"

definition mark_forwarded :: "msec \<Rightarrow> string \<Rightarrow> chat_row list \<Rightarrow> chat_row list" where
  "mark_forwarded now messageId rows =
     map (\<lambda>r. if ch_messageId r = messageId then r\<lparr>ch_forwardedAt := Some now\<rparr> else r) rows"

definition row_params :: "chat_row \<Rightarrow> params" where
  "row_params row = [(''userId'', JStr (ch_userId row)), (''text'', JStr (ch_text row)), (''messageId'', JStr (ch_messageId row))]"

definition forward_row ::
  "('c, 's) bff_request \<Rightarrow> nat \<Rightarrow> chat_row \<Rightarrow> ('c, 's) chat_world \<Rightarrow> nat \<times> ('c, 's) chat_world" where
  "forward_row b n row w =
     (case callPort b n ''cskh-chat'' ''send-message'' (row_params row) (cw_ports w) of
        (Inl e, pw) \<Rightarrow> (0, w\<lparr>cw_ports := pw\<rparr>)
      | (Inr r, pw) \<Rightarrow>
          if opt_truthy (opt_get ''sent'' (pr_data r))
          then (1, w\<lparr>cw_ports := pw, cw_rows := mark_forwarded (snd (bf_time b n)) (ch_messageId row) (cw_rows w)\<rparr>)
          else (0, w\<lparr>cw_ports := pw\<rparr>))"

fun forward_rows ::
  "('c, 's) bff_request \<Rightarrow> nat \<Rightarrow> chat_row list \<Rightarrow> ('c, 's) chat_world \<Rightarrow> nat \<times> ('c, 's) chat_world" where
  "forward_rows b n [] w = (0, w)"
| "forward_rows b n (row # rows) w =
     (case forward_row b n row w of (k, w1) \<Rightarrow> case forward_rows b (Suc n) rows w1 of (m, w2) \<Rightarrow> (k + m, w2))"

definition flushOnce ::
  "(string \<times> int) option \<Rightarrow> bool \<Rightarrow> msec \<Rightarrow> ('c, 's) bff_request \<Rightarrow> ('c, 's) chat_world \<Rightarrow> nat \<times> ('c, 's) chat_world" where
  "flushOnce wire probe now b w =
     (case wireReachable wire probe now w of (reachable, w1) \<Rightarrow>
        if \<not> reachable then (0, w1) else forward_rows b 0 (chat_pending (cw_rows w1)) w1)"

section \<open>The support service\<close>

record support_schemas =
  ss_clickToCall :: "json schema"  \<comment> \<open>the phone number\<close>
  ss_sendMessage :: "(string \<times> string) schema"  \<comment> \<open>user and text\<close>

definition getCallHistory :: "('c, 's) bff_request \<Rightarrow> string \<Rightarrow> ('c, 's, json) bff" where
  "getCallHistory b customerId = fetch_or b ''call-center'' ''get-call-history'' (customer customerId)
     (PortError (PortFallbackException ''call-center'' None))"

definition createClickToCall ::
  "support_schemas \<Rightarrow> ('c, 's) bff_request \<Rightarrow> string \<Rightarrow> json \<Rightarrow> ('c, 's, json) bff" where
  "createClickToCall S b customerId body = bnd (safeParse (ss_clickToCall S) body id) (\<lambda>phoneNumber.
     fetch_or b ''call-center'' ''create-click-to-call''
       (customer customerId @ [(''phoneNumber'', phoneNumber), (''useCache'', JBool False)])
       (PortError (PortFallbackException ''call-center'' None)))"

text \<open>
  A message is stored first; the answer does not wait for the flush that follows, which the next
  definition leaves to the caller.
\<close>

definition sendMessage ::
  "support_schemas \<Rightarrow> msec \<Rightarrow> string \<Rightarrow> string \<Rightarrow> json \<Rightarrow> (('c, 's) chat_world, app_error, string) async" where
  "sendMessage S now uuid userId txt w =
     (case ss_sendMessage S (JObj [(''userId'', JStr userId), (''text'', txt)]) of
        Inl msg \<Rightarrow> (Inl (ValidationException msg), w)
      | Inr (u, t) \<Rightarrow> (Inr uuid, w\<lparr>cw_rows := cw_rows w @ [\<lparr>ch_messageId = uuid, ch_userId = u, ch_text = t,
          ch_createdAt = now, ch_forwardedAt = None\<rparr>]\<rparr>))"

text \<open>Insertion into an ordered list, after what is not greater: \<^verbatim>\<open>sort\<close> is stable.\<close>

fun insert_by :: "('a \<Rightarrow> 'a \<Rightarrow> bool) \<Rightarrow> 'a \<Rightarrow> 'a list \<Rightarrow> 'a list" where
  "insert_by le x [] = [x]"
| "insert_by le x (y # ys) = (if le x y then x # y # ys else y # insert_by le x ys)"

definition sort_by :: "('a \<Rightarrow> 'a \<Rightarrow> bool) \<Rightarrow> 'a list \<Rightarrow> 'a list" where
  "sort_by le xs = foldr (insert_by le) xs []"

definition local_message :: "chat_row \<Rightarrow> json" where
  "local_message r = JObj [(''id'', JStr (ch_messageId r)), (''content'', JStr (ch_text r)), (''direction'', JStr ''INBOUND''),
     (''senderType'', JStr ''CUSTOMER''), (''createdAt'', JStr (toISOString (ch_createdAt r)))]"

definition server_messages :: "json option \<Rightarrow> json list" where
  "server_messages data = (case opt_get ''messages'' data of Some (JArr xs) \<Rightarrow> xs | _ \<Rightarrow> [])"

definition local_messages :: "string \<Rightarrow> json option list \<Rightarrow> chat_row list \<Rightarrow> json list" where
  "local_messages userId serverIds rows =
     map local_message (filter (\<lambda>r. Some (JStr (ch_messageId r)) \<notin> set serverIds)
       (sort_key ch_createdAt (filter (\<lambda>r. ch_userId r = userId) rows)))"

definition created_le :: "(string \<Rightarrow> string \<Rightarrow> bool) \<Rightarrow> json \<Rightarrow> json \<Rightarrow> bool" where
  "created_le le a c = (case (json_get ''createdAt'' a, json_get ''createdAt'' c) of
     (Some (JStr x), Some (JStr y)) \<Rightarrow> le x y | _ \<Rightarrow> True)"

definition getConversation ::
  "(string \<Rightarrow> string \<Rightarrow> bool) \<Rightarrow> ('c, 's) bff_request \<Rightarrow> string \<Rightarrow> chat_row list \<Rightarrow> ('c, 's, json \<times> json list) bff" where
  "getConversation le b userId rows =
     bnd (callPort b 0 ''cskh-chat'' ''get-conversation'' [(''userId'', JStr userId)]) (\<lambda>r.
       let server = server_messages (pr_data r);
           local = local_messages userId (map (json_get ''id'') server) rows
       in ret (json_nullish (opt_get ''conversationId'' (pr_data r)) JNull,
               sort_by (created_le le) (server @ local)))"

section \<open>What a signature binds\<close>

lemma append_last_sep_inject:
  assumes "x \<notin> set b" "x \<notin> set d" "a @ x # b = c @ x # d"
  shows "a = c \<and> b = d"
proof -
  have "rev b @ x # rev a = rev d @ x # rev c" using arg_cong [OF assms(3), of rev] by simp
  then show ?thesis using append_sep_inject [of x "rev b" "rev d" "rev a" "rev c"] assms(1,2) by auto
qed

lemma to_upper_colon: "to_upper c = CHR '':'' \<longleftrightarrow> c = CHR '':''"
proof (cases "97 \<le> (of_char c :: nat) \<and> (of_char c :: nat) \<le> 122")
  case True
  then have "(of_char c :: nat) - 32 < 256" by linarith
  with True have "of_char (to_upper c) = (of_char c :: nat) - 32" by (simp add: to_upper_def)
  moreover have "(of_char c :: nat) - 32 \<noteq> 58" using True by arith
  ultimately have "of_char (to_upper c) \<noteq> (58 :: nat)" by simp
  with True show ?thesis by fastforce
qed (auto simp: to_upper_def)

lemma int_str_colon: "CHR '':'' \<notin> set (js_int_str n)"
  using js_nat_str_digits [of "CHR '':''"] by (auto simp: js_int_str_def is_digit_def)

text \<open>
  C21. A signature binds the request. Two requests whose signed strings are equal have the same
  timestamp, the same method up to case, the same path with its query and bodies of the same hash,
  whatever characters the path holds. The methods and the hash contain no colon.
\<close>

theorem signature_binds_request:
  assumes "buildCanonicalString sha256 (js_int_str t) m p body = buildCanonicalString sha256 (js_int_str t') m' p' body'"
    and "CHR '':'' \<notin> set m" "CHR '':'' \<notin> set m'" "\<And>x. CHR '':'' \<notin> set (sha256 x)"
  shows "t = t' \<and> toUpperCase m = toUpperCase m' \<and> p = p' \<and> sha256 (js_nullish body []) = sha256 (js_nullish body' [])"
proof -
  have up: "CHR '':'' \<notin> set (toUpperCase x)" if "CHR '':'' \<notin> set x" for x
    using that by (auto simp: toUpperCase_def to_upper_colon dest: sym)
  from assms(1) have "js_int_str t @ CHR '':'' # toUpperCase m @ CHR '':'' # p @ CHR '':'' # sha256 (js_nullish body []) =
      js_int_str t' @ CHR '':'' # toUpperCase m' @ CHR '':'' # p' @ CHR '':'' # sha256 (js_nullish body' [])"
    by (simp add: buildCanonicalString_def)
  then have t: "js_int_str t = js_int_str t'" and m: "toUpperCase m @ CHR '':'' # p @ CHR '':'' # sha256 (js_nullish body []) =
      toUpperCase m' @ CHR '':'' # p' @ CHR '':'' # sha256 (js_nullish body' [])"
    unfolding append_sep_inject [OF int_str_colon int_str_colon] by simp_all
  from m have "toUpperCase m = toUpperCase m'" and p: "p @ CHR '':'' # sha256 (js_nullish body []) = p' @ CHR '':'' # sha256 (js_nullish body' [])"
    unfolding append_sep_inject [OF up [OF assms(2)] up [OF assms(3)]] by simp_all
  with append_last_sep_inject [OF assms(4,4) p] t show ?thesis by (simp add: js_int_str_inject)
qed

definition demo_hash :: "string \<Rightarrow> string" where
  "demo_hash x = map (\<lambda>c. CHR ''a'') x"

theorem signature_binds_request_witness:
  "buildCanonicalString demo_hash (js_int_str 5) ''post'' ''/a:b'' (Some ''x'') =
     buildCanonicalString demo_hash (js_int_str 5) ''POST'' ''/a:b'' (Some ''y'') \<and>
   toUpperCase ''post'' = toUpperCase ''POST'' \<and> demo_hash ''x'' = demo_hash ''y''"
proof -
  have "toUpperCase ''post'' = ''POST''" "toUpperCase ''POST'' = ''POST''" by code_simp+
  then have eq: "buildCanonicalString demo_hash (js_int_str 5) ''post'' ''/a:b'' (Some ''x'') =
     buildCanonicalString demo_hash (js_int_str 5) ''POST'' ''/a:b'' (Some ''y'')"
    by (simp add: buildCanonicalString_def demo_hash_def js_nullish_def)
  with signature_binds_request [OF eq] show ?thesis by (auto simp: demo_hash_def js_nullish_def)
qed

section \<open>The conversation\<close>

lemma mset_insert_by: "mset (insert_by le x xs) = add_mset x (mset xs)"
  by (induction xs) auto

lemma mset_sort_by: "mset (sort_by le xs) = mset xs"
  unfolding sort_by_def by (induction xs) (simp_all add: mset_insert_by)

lemma local_id [simp]: "json_get ''id'' (local_message r) = Some (JStr (ch_messageId r))"
  by (simp add: local_message_def)

lemma local_ids: "map (json_get ''id'') (map local_message rs) = map (\<lambda>r. Some (JStr (ch_messageId r))) rs"
  by simp

lemma kept_disjoint: "set xs \<inter> set (map f (filter (\<lambda>r. f r \<notin> set xs) ys)) = {}"
  by auto

text \<open>Sorting with a comparison that is total and transitive on the elements orders them.\<close>

lemma set_insert_by [simp]: "set (insert_by le x xs) = insert x (set xs)"
  by (induction xs) auto

lemma sorted_insert_by:
  assumes "\<forall>a \<in> S. \<forall>c \<in> S. le a c \<or> le c a" "\<forall>a \<in> S. \<forall>c \<in> S. \<forall>d \<in> S. le a c \<longrightarrow> le c d \<longrightarrow> le a d"
  shows "x \<in> S \<Longrightarrow> set ys \<subseteq> S \<Longrightarrow> sorted_wrt le ys \<Longrightarrow> sorted_wrt le (insert_by le x ys)"
proof (induction ys)
  case (Cons y ys)
  show ?case
  proof (cases "le x y")
    case True
    have "le x z" if "z \<in> set ys" for z
    proof -
      from that Cons.prems have "y \<in> S" "z \<in> S" "le y z" by auto
      with True Cons.prems(1) show ?thesis using assms(2) by blast
    qed
    with True Cons.prems(3) show ?thesis by simp
  next
    case False
    have S: "y \<in> S" "set ys \<subseteq> S" "sorted_wrt le ys" using Cons.prems by simp_all
    then have "le y x" using False assms(1) Cons.prems(1) by blast
    with False Cons.IH [OF Cons.prems(1) S(2,3)] Cons.prems(3) show ?thesis by simp
  qed
qed simp

lemma sorted_sort_by:
  assumes "\<forall>a \<in> S. \<forall>c \<in> S. le a c \<or> le c a" "\<forall>a \<in> S. \<forall>c \<in> S. \<forall>d \<in> S. le a c \<longrightarrow> le c d \<longrightarrow> le a d"
  shows "set xs \<subseteq> S \<Longrightarrow> sorted_wrt le (sort_by le xs)"
proof (induction xs)
  case (Cons x xs)
  have "set (sort_by le xs) = set xs" using mset_sort_by [of le xs] by (metis set_mset_mset)
  with Cons sorted_insert_by [OF assms, of x "sort_by le xs"] show ?case by (simp add: sort_by_def)
qed (simp add: sort_by_def)

text \<open>When a message was written, if it says so, and the order of the conversation.\<close>

definition created_at :: "json \<Rightarrow> string option" where
  "created_at m = (case json_get ''createdAt'' m of Some (JStr x) \<Rightarrow> Some x | _ \<Rightarrow> None)"

definition written_before :: "(string \<Rightarrow> string \<Rightarrow> bool) \<Rightarrow> json \<Rightarrow> json \<Rightarrow> bool" where
  "written_before le a c \<longleftrightarrow> (\<exists>x y. created_at a = Some x \<and> created_at c = Some y \<and> le x y)"

text \<open>What the collation of the library is documented to be.\<close>

definition collation :: "(string \<Rightarrow> string \<Rightarrow> bool) \<Rightarrow> bool" where
  "collation le \<longleftrightarrow> (\<forall>x y. le x y \<or> le y x) \<and> (\<forall>x y z. le x y \<longrightarrow> le y z \<longrightarrow> le x z)"

lemma local_dated [simp]: "created_at (local_message r) = Some (toISOString (ch_createdAt r))"
  by (simp add: created_at_def local_message_def)

lemma created_le_dated: "created_at a = Some x \<Longrightarrow> created_at c = Some y \<Longrightarrow> created_le le a c \<longleftrightarrow> le x y"
  by (auto simp: created_at_def created_le_def split: option.splits json.splits)

lemma sorted_conversation:
  assumes "collation le" "\<forall>m \<in> set ms. created_at m \<noteq> None"
  shows "sorted_wrt (written_before le) (sort_by (created_le le) ms)"
proof -
  let ?S = "set ms"
  have total: "le x y \<or> le y x" and trans: "le x y \<Longrightarrow> le y z \<Longrightarrow> le x z" for x y z
    using assms(1) unfolding collation_def by blast+
  have dated: "\<forall>a \<in> ?S. created_at a = Some (the (created_at a))" using assms(2) by simp
  have le: "created_le le a c \<longleftrightarrow> le (the (created_at a)) (the (created_at c))" if "a \<in> ?S" "c \<in> ?S" for a c
    by (rule created_le_dated) (use dated that in blast)+
  have "\<forall>a \<in> ?S. \<forall>c \<in> ?S. created_le le a c \<or> created_le le c a"
    by (intro ballI) (simp only: le total)
  moreover have "\<forall>a \<in> ?S. \<forall>c \<in> ?S. \<forall>d \<in> ?S. created_le le a c \<longrightarrow> created_le le c d \<longrightarrow> created_le le a d"
    by (intro ballI impI) (simp only: le, erule (1) trans)
  ultimately have "sorted_wrt (created_le le) (sort_by (created_le le) ms)" by (rule sorted_sort_by) simp
  moreover have "set (sort_by (created_le le) ms) = ?S" using mset_sort_by [of "created_le le" ms] by (metis set_mset_mset)
  moreover have "written_before le a c" if "a \<in> ?S" "c \<in> ?S" "created_le le a c" for a c
    unfolding written_before_def using that(3) unfolding le [OF that(1,2)] using dated that(1,2) by blast
  ultimately show ?thesis
    using sorted_wrt_mono_rel [of "sort_by (created_le le) ms" "created_le le" "written_before le"] by simp
qed

lemma own_messages:
  "mset (map local_message (filter (\<lambda>r. Some (JStr (ch_messageId r)) \<notin> X) (sort_key ch_createdAt (filter (\<lambda>r. ch_userId r = u) rows)))) =
   image_mset local_message (filter_mset (\<lambda>r. ch_userId r = u \<and> Some (JStr (ch_messageId r)) \<notin> X) (mset rows))"
  by (simp add: filter_filter_mset conj_commute)

lemma ids_distinct:
  assumes "distinct (map ch_messageId rows)" "distinct (map (json_get ''id'') server)"
  shows "distinct (map (json_get ''id'') (server @ local_messages userId (map (json_get ''id'') server) rows))"
proof -
  let ?ids = "map (json_get ''id'') server"
  let ?kept = "filter (\<lambda>r. Some (JStr (ch_messageId r)) \<notin> set ?ids) (sort_key ch_createdAt (filter (\<lambda>r. ch_userId r = userId) rows))"
  have "distinct (map ch_messageId (sort_key ch_createdAt (filter (\<lambda>r. ch_userId r = userId) rows)))"
    using distinct_map_filter [OF assms(1)] by (simp add: distinct_map)
  then have "distinct (map (\<lambda>r. Some (JStr (ch_messageId r))) ?kept)"
    by (auto simp: distinct_map inj_on_def)
  moreover have "set ?ids \<inter> set (map (\<lambda>r. Some (JStr (ch_messageId r))) ?kept) = {}"
    by (rule kept_disjoint)
  ultimately show ?thesis using assms(2) by (simp only: map_append local_messages_def local_ids distinct_append)
qed

lemma own_message_shown:
  assumes "mset msgs = mset (server @ local_messages userId (map (json_get ''id'') server) rows)"
    and "row \<in> set rows" "ch_userId row = userId"
  shows "Some (JStr (ch_messageId row)) \<in> json_get ''id'' ` set msgs"
proof -
  have set: "set msgs = set (server @ local_messages userId (map (json_get ''id'') server) rows)"
    using assms(1) by (metis set_mset_mset)
  show ?thesis
  proof (cases "Some (JStr (ch_messageId row)) \<in> json_get ''id'' ` set server")
    case False
    with assms(2,3) have "local_message row \<in> set msgs" by (auto simp: set local_messages_def)
    then show ?thesis using local_id by (metis image_eqI)
  qed (auto simp: set)
qed

text \<open>
  C22. A customer sees every message once, in the order they were written, and nobody else's. The conversation consists of exactly the
  messages of the agents' system and the stored messages of this customer that are not among them; where every message
  of the agents' system says when it was written, they are ordered by that; each message of the customer is there whether or
  not it was forwarded; and no identifier appears twice, provided neither source repeats one.
\<close>

theorem conversation_complete:
  assumes "getConversation le b userId rows w = (Inr (cid, msgs), w')"
  shows "\<exists>r. execute (bf_deps b) (bf_ctx b) (fst (bf_time b 0)) (snd (bf_time b 0)) ''cskh-chat'' ''get-conversation''
      [(''userId'', JStr userId)] None w = (Inr r, w') \<and>
    (let server = server_messages (pr_data r); ids = json_get ''id'' ` set server in
     mset msgs = mset server +
       image_mset local_message (filter_mset (\<lambda>row. ch_userId row = userId \<and> Some (JStr (ch_messageId row)) \<notin> ids) (mset rows)) \<and>
     (collation le \<and> (\<forall>m \<in> set server. created_at m \<noteq> None) \<longrightarrow> sorted_wrt (written_before le) msgs) \<and>
     (\<forall>row \<in> set rows. ch_userId row = userId \<longrightarrow> Some (JStr (ch_messageId row)) \<in> json_get ''id'' ` set msgs) \<and>
     (distinct (map ch_messageId rows) \<and> distinct (map (json_get ''id'') server) \<longrightarrow> distinct (map (json_get ''id'') msgs)))"
proof -
  from assms obtain r where r: "execute (bf_deps b) (bf_ctx b) (fst (bf_time b 0)) (snd (bf_time b 0)) ''cskh-chat''
      ''get-conversation'' [(''userId'', JStr userId)] None w = (Inr r, w')"
    and msgs: "msgs = sort_by (created_le le) (server_messages (pr_data r) @
      local_messages userId (map (json_get ''id'') (server_messages (pr_data r))) rows)"
    by (auto simp: getConversation_def bff_Inr Let_def)
  let ?server = "server_messages (pr_data r)"
  let ?ids = "map (json_get ''id'') ?server"
  let ?own = "local_messages userId ?ids rows"
  have mset: "mset msgs = mset (?server @ ?own)" by (simp only: msgs mset_sort_by)
  have own: "mset ?own = image_mset local_message
      (filter_mset (\<lambda>row. ch_userId row = userId \<and> Some (JStr (ch_messageId row)) \<notin> json_get ''id'' ` set ?server) (mset rows))"
    unfolding local_messages_def own_messages by simp
  have "sorted_wrt (written_before le) msgs" if "collation le" "\<forall>m \<in> set ?server. created_at m \<noteq> None"
    unfolding msgs by (rule sorted_conversation) (use that in \<open>auto simp: local_messages_def\<close>)
  moreover have "Some (JStr (ch_messageId row)) \<in> json_get ''id'' ` set msgs" if "row \<in> set rows" "ch_userId row = userId" for row
    by (rule own_message_shown [OF mset that])
  moreover have "distinct (map (json_get ''id'') msgs)" if "distinct (map ch_messageId rows)" "distinct ?ids"
  proof -
    have "mset (map (json_get ''id'') msgs) = mset (map (json_get ''id'') (?server @ ?own))" using mset by (metis mset_map)
    then show ?thesis using mset_eq_imp_distinct_iff ids_distinct [OF that] by blast
  qed
  ultimately show ?thesis using r mset own by (intro exI [of _ r]) (simp add: Let_def)
qed

section \<open>Forwarding\<close>

text \<open>A flush changes nothing of a message but the time it was forwarded, and never takes that back.\<close>

definition row_kept :: "chat_row \<Rightarrow> chat_row \<Rightarrow> bool" where
  "row_kept r r' \<longleftrightarrow> r' = r\<lparr>ch_forwardedAt := ch_forwardedAt r'\<rparr> \<and> (ch_forwardedAt r \<noteq> None \<longrightarrow> ch_forwardedAt r' \<noteq> None)"

lemma rows_kept_refl: "list_all2 row_kept rows rows"
  by (simp add: list.rel_refl row_kept_def)

lemma rows_kept_trans:
  "list_all2 row_kept a b \<Longrightarrow> list_all2 row_kept b c \<Longrightarrow> list_all2 row_kept a c"
proof (rule list_all2_trans)
  show "row_kept x z" if "row_kept x y" "row_kept y z" for x y z
    using that by (cases x; cases y; cases z) (simp add: row_kept_def)
qed

lemma mark_kept: "list_all2 row_kept rows (mark_forwarded t i rows)"
  by (auto simp: mark_forwarded_def list_all2_map2 row_kept_def intro!: list.rel_refl_strong)

lemma forward_rows_kept: "list_all2 row_kept (cw_rows w) (cw_rows (snd (forward_rows b n rows w)))"
proof (induction rows arbitrary: n w)
  case Nil
  then show ?case by (simp add: rows_kept_refl)
next
  case (Cons row rows)
  have "list_all2 row_kept (cw_rows w) (cw_rows (snd (forward_row b n row w)))"
    by (auto simp: forward_row_def mark_kept rows_kept_refl split: prod.splits sum.splits)
  with Cons.IH [of "snd (forward_row b n row w)" "Suc n"] show ?case
    by (auto intro: rows_kept_trans split: prod.splits)
qed

lemma flush_kept: "list_all2 row_kept (cw_rows w) (cw_rows (snd (flushOnce wire probe now b w)))"
proof -
  obtain reachable w1 where "wireReachable wire probe now w = (reachable, w1)" by fastforce
  moreover from this have "cw_rows w1 = cw_rows w" by (auto simp: wireReachable_def split: if_splits)
  ultimately show ?thesis
    using forward_rows_kept [of w1 b 0] by (simp add: flushOnce_def rows_kept_refl)
qed

lemma send_not_cached: "should_cache ''send-message'' entry = False"
  by (simp add: should_cache_def isMutationMethod_def mutation_verbs_def starts_with_def)

text \<open>
  C23. Chat messages are lost. After the agents' system accepted one message, a message whose delivery
  fails is nevertheless marked as forwarded: the failing call is answered with the fallback data of
  the port, which is the acceptance of the earlier message, and the row is never sent again.
\<close>

theorem failed_message_marked_forwarded:
  assumes "map_of (pw_ports pw) ''cskh-chat'' = Some entry"
    and "map_of (fp_fallbacks (pw_fallback pw)) ''cskh-chat'' = Some (port_fallback ''cskh-chat'')" "fp_cache (pw_fallback pw) \<noteq> None"
    and "pc_queuePolicy (pe_config entry) \<noteq> QAlways"
    and "execute (bf_deps b) ctx1 t0 t1 ''cskh-chat'' m1 ps1 key1 pw = (Inr r1, cw_ports w)" "pr_metadata r1 = None"
    and "opt_truthy (opt_get ''sent'' (pr_data r1))"
    and "adapter_of entry (choose_adapter (bf_deps b) ''cskh-chat'' entry (pw_config pw)) (bf_ctx b) ''send-message''
      (row_params row) (pw_env (cw_ports w)) = (Inl e, s)"
  shows "fst (forward_row b n row w) = 1 \<and>
    (\<forall>r \<in> set (chat_pending (cw_rows (snd (forward_row b n row w)))). ch_messageId r \<noteq> ch_messageId row)"
proof -
  let ?exec = "execute (bf_deps b) (bf_ctx b) (fst (bf_time b n)) (snd (bf_time b n)) ''cskh-chat'' ''send-message'' (row_params row) None (cw_ports w)"
  from assms(1,5) have first: "execute_entry (bf_deps b) ctx1 t0 t1 ''cskh-chat'' entry m1 ps1 key1 pw = (Inr r1, cw_ports w)"
    by (simp add: execute_is_entry)
  note after = answered_fallback [OF first assms(6,3)]
  obtain v where v: "pr_data r1 = Some v" and sent: "json_get ''sent'' v \<noteq> None"
    using assms(7) by (auto simp: opt_get_def opt_truthy_def split: option.splits)
  from sent have "v \<noteq> JNull" by auto
  have "\<exists>r md. fst (execute_entry (bf_deps b) (bf_ctx b) (fst (bf_time b n)) (snd (bf_time b n)) ''cskh-chat'' entry
      ''send-message'' (row_params row) None (cw_ports w)) = Inr r \<and>
     pr_data r = Some v \<and> pr_metadata r = Some md \<and> md_degraded md = Some True"
    using assms(2,4,8) after v \<open>v \<noteq> JNull\<close> by (intro failing_served) (simp_all add: port_read_def send_not_cached json_present_def)
  then obtain r pw' where "?exec = (Inr r, pw')" "pr_data r = Some v"
    using assms(1) after(3) by (metis execute_is_entry prod.collapse)
  then have "forward_row b n row w = (1, w\<lparr>cw_ports := pw', cw_rows := mark_forwarded (snd (bf_time b n)) (ch_messageId row) (cw_rows w)\<rparr>)"
    using assms(7) v by (simp add: forward_row_def callPort_def async_simps)
  then show ?thesis
    by (auto simp: chat_pending_def mark_forwarded_def dest!: in_set_takeD)
qed

section \<open>A concrete chat\<close>

text \<open>
  A port that accepts the messages of Alice and fails for everybody else. Alice's message goes
  through, then Bob's message is marked as forwarded although its delivery failed.
\<close>

definition chat_adapter :: "unit port_adapter" where
  "chat_adapter ctx m ps =
     (if map_of ps ''userId'' = Some (JStr ''alice'') then ret (JObj [(''sent'', JBool True)])
      else throw (PortTimeoutException ''cskh-chat'' 3000))"

definition chat_row_of :: "string \<Rightarrow> chat_row" where
  "chat_row_of u = \<lparr>ch_messageId = ''m-'' @ u, ch_userId = u, ch_text = ''hello'', ch_createdAt = 5, ch_forwardedAt = None\<rparr>"

lemma one_port_fields:
  "map_of (pw_ports (one_port p a)) p = Some (shop_entry p a)"
  "map_of (fp_fallbacks (pw_fallback (one_port p a))) p = Some (port_fallback p)" "fp_cache (pw_fallback (one_port p a)) \<noteq> None"
  by (simp_all add: one_port_def no_ports_def port_register_def shop_entry_def Let_def fp_register_def fp_new_def)

theorem failed_message_marked_forwarded_witness:
  "\<exists>w. cw_rows w = [chat_row_of ''bob''] \<and> fst (forward_row (shop_request 1000) 0 (chat_row_of ''bob'') w) = 1 \<and>
     (\<forall>r \<in> set (chat_pending (cw_rows (snd (forward_row (shop_request 1000) 0 (chat_row_of ''bob'') w)))). ch_messageId r \<noteq> ''m-bob'')"
proof -
  let ?pw = "one_port ''cskh-chat'' chat_adapter"
  obtain r1 pw1 where r1: "execute demo_port_deps None 0 10 ''cskh-chat'' ''send-message'' (row_params (chat_row_of ''alice'')) None ?pw = (Inr r1, pw1)"
    "pr_data r1 = Some (JObj [(''sent'', JBool True)])" "pr_metadata r1 = None"
    by (rule one_port_answers [of chat_adapter None _ _ "JObj [(''sent'', JBool True)]"])
      (auto simp: chat_adapter_def async_simps row_params_def chat_row_of_def)
  let ?w = "\<lparr>cw_ports = pw1, cw_rows = [chat_row_of ''bob''], cw_probeOk = True, cw_probeAt = 0, cw_announcedDown = False\<rparr>"
  have first: "execute (bf_deps (shop_request 1000)) None 0 10 ''cskh-chat'' ''send-message'' (row_params (chat_row_of ''alice'')) None ?pw = (Inr r1, cw_ports ?w)"
    using r1(1) by simp
  have policy: "pc_queuePolicy (pe_config (shop_entry ''cskh-chat'' chat_adapter)) \<noteq> QAlways" by (simp add: shop_config)
  have sent: "opt_truthy (opt_get ''sent'' (pr_data r1))" by (simp add: r1(2) opt_get_def opt_truthy_def)
  have down: "adapter_of (shop_entry ''cskh-chat'' chat_adapter) used ctx ''send-message'' (row_params (chat_row_of ''bob'')) s =
      (Inl (PortTimeoutException ''cskh-chat'' 3000), s)" for used ctx s
    by (cases used) (simp_all add: adapter_of_def shop_entry_def chat_adapter_def row_params_def chat_row_of_def async_simps)
  from failed_message_marked_forwarded [OF one_port_fields policy first r1(3) sent down, of 0]
  show ?thesis by (intro exI [of _ ?w]) (simp add: chat_row_of_def)
qed

text \<open>
  An agents' system that has a message of noon. Alice wrote one in the first second of 1970, Bob another: Alice sees her own
  and the agents', in that order.
\<close>

definition agents_message :: json where
  "agents_message = JObj [(''id'', JStr ''a-1''), (''createdAt'', JStr ''2026-01-01T12:00:00.000Z'')]"

definition agents_adapter :: "unit port_adapter" where
  "agents_adapter ctx m ps = ret (JObj [(''conversationId'', JStr ''c-1''), (''messages'', JArr [agents_message])])"

definition text_le :: "string \<Rightarrow> string \<Rightarrow> bool" where
  "text_le x y = ord_class.lexordp_eq (map of_char x :: nat list) (map of_char y)"

lemma text_le_collation: "collation text_le"
  unfolding collation_def text_le_def using lexordp_eq_linear lexordp_eq_trans by blast

theorem conversation_complete_witness:
  "\<exists>cid msgs w'. getConversation text_le (shop_request 0) ''alice'' [chat_row_of ''bob'', chat_row_of ''alice''] (one_port ''cskh-chat'' agents_adapter) =
      (Inr (cid, msgs), w') \<and> mset msgs = {#agents_message, local_message (chat_row_of ''alice'')#} \<and>
      sorted_wrt (written_before text_le) msgs"
proof -
  let ?w = "one_port ''cskh-chat'' agents_adapter" and ?rows = "[chat_row_of ''bob'', chat_row_of ''alice'']"
  let ?data = "JObj [(''conversationId'', JStr ''c-1''), (''messages'', JArr [agents_message])]"
  obtain r pw1 where r: "execute demo_port_deps None 0 10 ''cskh-chat'' ''get-conversation'' [(''userId'', JStr ''alice'')] None ?w = (Inr r, pw1)"
    "pr_data r = Some ?data"
    by (rule one_port_answers [of agents_adapter None _ _ ?data]) (auto simp: agents_adapter_def async_simps)
  then obtain cid msgs where run: "getConversation text_le (shop_request 0) ''alice'' ?rows ?w = (Inr (cid, msgs), pw1)"
    by (simp add: getConversation_def callPort_def async_simps Let_def)
  have server: "server_messages (pr_data r) = [agents_message]" by (simp add: r(2) server_messages_def opt_get_def)
  have "collation text_le" by (rule text_le_collation)
  with conversation_complete [OF run] r(1) server run show ?thesis
    by (intro exI [of _ cid] exI [of _ msgs] exI [of _ pw1])
      (simp add: Let_def chat_row_of_def agents_message_def created_at_def)
qed

end
