(* ===== verification/Http_Filter.thy ===== *)
theory Http_Filter
  imports Chat
begin

text \<open>
  What leaves the server: the exceptions of the core (src/libs/core/common/exceptions,
  src/libs/core/domain/exceptions), the filter that turns whatever was thrown into a reply
  (src/libs/shared/http/filters/global-exception.filter.ts), and the interceptor that wraps what a
  handler returned (src/libs/shared/http/interceptors/response.interceptor.ts,
  src/libs/shared/http/dtos/response.dto.ts). An exception of the web framework is given by what the
  filter asks of it: its status, its response and its message.
\<close>

section \<open>Exceptions\<close>

text \<open>The classes that extend \<^verbatim>\<open>BaseException\<close>; of the downstream class the filter reads the status.\<close>

datatype exception_class =
  PortDownstreamClass int
| PortTimeoutClass
| PortNotRegisteredClass
| PortFallbackClass
| NotFoundClass
| UnauthorizedClass
| ForbiddenClass
| ConflictClass
| LockoutClass
| ConcurrencyClass
| ValidationClass

fun class_name :: "exception_class \<Rightarrow> string" where
  "class_name (PortDownstreamClass _) = ''PortDownstreamException''"
| "class_name PortTimeoutClass = ''PortTimeoutException''"
| "class_name PortNotRegisteredClass = ''PortNotRegisteredException''"
| "class_name PortFallbackClass = ''PortFallbackException''"
| "class_name NotFoundClass = ''NotFoundException''"
| "class_name UnauthorizedClass = ''UnauthorizedException''"
| "class_name ForbiddenClass = ''ForbiddenException''"
| "class_name ConflictClass = ''ConflictException''"
| "class_name LockoutClass = ''LockoutException''"
| "class_name ConcurrencyClass = ''ConcurrencyException''"
| "class_name ValidationClass = ''ValidationException''"

record base_exception =
  ex_class :: exception_class
  ex_message :: string
  ex_code :: string
  ex_details :: "json option"

definition exception_json :: "base_exception \<Rightarrow> json" where
  "exception_json e = JObj ([(''name'', JStr (class_name (ex_class e))), (''code'', JStr (ex_code e)),
     (''message'', JStr (ex_message e))] @ jopt ''details'' (ex_details e))"

definition jstr :: "string \<Rightarrow> string option \<Rightarrow> params" where
  "jstr k v = jopt k (map_option JStr v)"

definition new_NotFoundException :: "string option \<Rightarrow> string option \<Rightarrow> json option \<Rightarrow> base_exception" where
  "new_NotFoundException message code details = \<lparr>ex_class = NotFoundClass,
     ex_message = js_nullish message ''Resource not found'', ex_code = js_nullish code ''NOT_FOUND'', ex_details = details\<rparr>"

definition NotFound_resource :: "string \<Rightarrow> string option \<Rightarrow> base_exception" where
  "NotFound_resource resourceType resourceId = new_NotFoundException
     (Some (if truthy_str resourceId
            then resourceType @ '' with id '' @ [CHR 0x27] @ the resourceId @ [CHR 0x27] @ '' not found''
            else resourceType @ '' not found''))
     (Some (toUpperCase resourceType @ ''_NOT_FOUND''))
     (Some (JObj ([(''resourceType'', JStr resourceType)] @ jstr ''resourceId'' resourceId)))"

definition new_UnauthorizedException :: "string option \<Rightarrow> string option \<Rightarrow> json option \<Rightarrow> base_exception" where
  "new_UnauthorizedException message code details = \<lparr>ex_class = UnauthorizedClass,
     ex_message = js_nullish message ''Unauthorized'', ex_code = js_nullish code ''UNAUTHORIZED'', ex_details = details\<rparr>"

definition missingToken :: base_exception where
  "missingToken = new_UnauthorizedException (Some ''Authentication token is required'') (Some ''MISSING_TOKEN'') None"

definition invalidToken :: "string option \<Rightarrow> base_exception" where
  "invalidToken reason = new_UnauthorizedException
     (Some (if truthy_str reason then the reason else ''Invalid authentication token''))
     (Some ''INVALID_TOKEN'') (Some (JObj (jstr ''reason'' reason)))"

definition expiredToken :: base_exception where
  "expiredToken = new_UnauthorizedException (Some ''Authentication token has expired'') (Some ''TOKEN_EXPIRED'') None"

definition new_ForbiddenException :: "string option \<Rightarrow> string option \<Rightarrow> json option \<Rightarrow> base_exception" where
  "new_ForbiddenException message code details = \<lparr>ex_class = ForbiddenClass,
     ex_message = js_nullish message ''Forbidden'', ex_code = js_nullish code ''FORBIDDEN'', ex_details = details\<rparr>"

definition insufficientPermissions :: "string option \<Rightarrow> string option \<Rightarrow> base_exception" where
  "insufficientPermissions requiredPermission userId = new_ForbiddenException
     (Some (if truthy_str requiredPermission
            then ''Insufficient permissions. Required: '' @ the requiredPermission else ''Insufficient permissions''))
     (Some ''INSUFFICIENT_PERMISSIONS'')
     (Some (JObj (jstr ''requiredPermission'' requiredPermission @ jstr ''userId'' userId)))"

definition insufficientRole :: "string \<Rightarrow> string option \<Rightarrow> base_exception" where
  "insufficientRole requiredRole userRole = new_ForbiddenException
     (Some (''Insufficient role. Required: '' @ requiredRole)) (Some ''INSUFFICIENT_ROLE'')
     (Some (JObj ([(''requiredRole'', JStr requiredRole)] @ jstr ''userRole'' userRole)))"

definition resourceAccessDenied :: "string \<Rightarrow> string option \<Rightarrow> string option \<Rightarrow> base_exception" where
  "resourceAccessDenied resourceType resourceId userId = new_ForbiddenException
     (Some (''Access denied to '' @ resourceType @
        (if truthy_str resourceId then '' '' @ [CHR 0x27] @ the resourceId @ [CHR 0x27] else [])))
     (Some ''RESOURCE_ACCESS_DENIED'')
     (Some (JObj ([(''resourceType'', JStr resourceType)] @ jstr ''resourceId'' resourceId @ jstr ''userId'' userId)))"

definition new_ConflictException :: "string option \<Rightarrow> string option \<Rightarrow> json option \<Rightarrow> base_exception" where
  "new_ConflictException message code details = \<lparr>ex_class = ConflictClass,
     ex_message = js_nullish message ''Resource conflict'', ex_code = js_nullish code ''CONFLICT'', ex_details = details\<rparr>"

definition Conflict_duplicate :: "string \<Rightarrow> string option \<Rightarrow> string option \<Rightarrow> base_exception" where
  "Conflict_duplicate resourceType field value = new_ConflictException
     (Some (if truthy_str field
            then resourceType @ '' with '' @ the field @ '' '' @ [CHR 0x27] @ js_nullish value ''undefined'' @ [CHR 0x27]
                 @ '' already exists''
            else resourceType @ '' already exists''))
     (Some ''DUPLICATE_RESOURCE'')
     (Some (JObj ([(''resourceType'', JStr resourceType)] @ jstr ''field'' field @ jstr ''value'' value)))"

definition Conflict_invalidState :: "string \<Rightarrow> string \<Rightarrow> string option \<Rightarrow> base_exception" where
  "Conflict_invalidState resourceType currentState requiredState = new_ConflictException
     (Some (if truthy_str requiredState
            then resourceType @ '' is in '' @ [CHR 0x27] @ currentState @ [CHR 0x27] @ '' state, but '' @ [CHR 0x27]
                 @ the requiredState @ [CHR 0x27] @ '' is required''
            else resourceType @ '' is in invalid state: '' @ currentState))
     (Some ''INVALID_STATE'')
     (Some (JObj ([(''resourceType'', JStr resourceType), (''currentState'', JStr currentState)]
        @ jstr ''requiredState'' requiredState)))"

definition Conflict_version :: "string \<Rightarrow> string \<Rightarrow> int \<Rightarrow> int \<Rightarrow> base_exception" where
  "Conflict_version resourceType resourceId expectedVersion actualVersion = new_ConflictException
     (Some (resourceType @ '' '' @ [CHR 0x27] @ resourceId @ [CHR 0x27] @ '' version conflict: expected ''
        @ js_int_str expectedVersion @ '', got '' @ js_int_str actualVersion))
     (Some ''VERSION_CONFLICT'')
     (Some (JObj [(''resourceType'', JStr resourceType), (''resourceId'', JStr resourceId),
        (''expectedVersion'', JNum expectedVersion), (''actualVersion'', JNum actualVersion)]))"

definition new_ConcurrencyException :: "string option \<Rightarrow> string \<Rightarrow> int option \<Rightarrow> int option \<Rightarrow> base_exception" where
  "new_ConcurrencyException message aggregateId expectedVersion actualVersion = \<lparr>ex_class = ConcurrencyClass,
     ex_message = js_nullish message ''Concurrency conflict: Aggregate version mismatch'',
     ex_code = ''CONCURRENCY_ERROR'',
     ex_details = Some (JObj ([(''aggregateId'', JStr aggregateId)] @ jopt ''expectedVersion'' (map_option JNum expectedVersion)
       @ jopt ''actualVersion'' (map_option JNum actualVersion)))\<rparr>"

definition versionMismatch :: "string \<Rightarrow> int \<Rightarrow> int \<Rightarrow> base_exception" where
  "versionMismatch aggregateId expectedVersion actualVersion = new_ConcurrencyException
     (Some (''Concurrency conflict for Aggregate ['' @ aggregateId @ '']: expected version '' @ js_int_str expectedVersion
        @ '', but got '' @ js_int_str actualVersion))
     aggregateId (Some expectedVersion) (Some actualVersion)"

text \<open>A validation error is made from one message or from the list of the fields at fault.\<close>

definition new_ValidationException :: "json list + string \<Rightarrow> base_exception" where
  "new_ValidationException errors = \<lparr>ex_class = ValidationClass,
     ex_message = (case errors of Inl _ \<Rightarrow> ''Validation failed'' | Inr message \<Rightarrow> message),
     ex_code = ''VALIDATION_ERROR'',
     ex_details = (case errors of Inl items \<Rightarrow> Some (JArr items) | Inr _ \<Rightarrow> None)\<rparr>"

definition new_LockoutException :: "string \<Rightarrow> int \<Rightarrow> base_exception" where
  "new_LockoutException reason retryAfterSec = \<lparr>ex_class = LockoutClass,
     ex_message = [CHR 0xC4, CHR 0x90, CHR 0xC3, CHR 0xA3] @ '' v'' @
       [CHR 0xC6, CHR 0xB0, CHR 0xE1, CHR 0xBB, CHR 0xA3] @ ''t s'' @ [CHR 0xE1, CHR 0xBB, CHR 0x91] @
       '' l'' @ [CHR 0xE1, CHR 0xBA, CHR 0xA7] @ ''n th'' @ [CHR 0xE1, CHR 0xBB, CHR 0xAD] @ '' cho ph'' @
       [CHR 0xC3, CHR 0xA9] @ ''p. Vui l'' @ [CHR 0xC3, CHR 0xB2] @ ''ng th'' @
       [CHR 0xE1, CHR 0xBB, CHR 0xAD] @ '' l'' @ [CHR 0xE1, CHR 0xBA, CHR 0xA1] @ ''i sau.'',
     ex_code = ''BINDING_LOCKED'',
     ex_details = Some (JObj [(''reason'', JStr reason), (''retryAfterSec'', JNum retryAfterSec)])\<rparr>"

text \<open>
  The exception of the domain layer extends \<^verbatim>\<open>Error\<close> itself, not \<^verbatim>\<open>BaseException\<close>.
\<close>

record domain_exception =
  dx_message :: string
  dx_code :: string
  dx_details :: "json option"

definition new_DomainException :: "string \<Rightarrow> string option \<Rightarrow> json option \<Rightarrow> domain_exception" where
  "new_DomainException message code details =
     \<lparr>dx_message = message, dx_code = js_nullish code ''DOMAIN_ERROR'', dx_details = details\<rparr>"

definition new_BusinessRuleException :: "string \<Rightarrow> string option \<Rightarrow> json option \<Rightarrow> domain_exception" where
  "new_BusinessRuleException message code details =
     new_DomainException message (Some (js_nullish code ''BUSINESS_RULE_VIOLATION'')) details"

definition BusinessRule_violation :: "string \<Rightarrow> (json list + params) option \<Rightarrow> domain_exception" where
  "BusinessRule_violation rule details = new_BusinessRuleException (''Business rule violated: '' @ rule)
     (Some ''BUSINESS_RULE_VIOLATION'')
     (Some (case details of
        Some (Inl items) \<Rightarrow> JArr (JObj [(''rule'', JStr rule)] # items)
      | Some (Inr ps) \<Rightarrow> JObj (obj_spread [(''rule'', JStr rule)] ps)
      | None \<Rightarrow> JObj [(''rule'', JStr rule)]))"

section \<open>The filter\<close>

record http_exception =
  hx_status :: int
  hx_response :: "string + params"
  hx_message :: string

datatype thrown =
  HttpException http_exception
| QueuedException string string
| BaseException base_exception
| DomainException domain_exception
| PlainError js_error
| NotAnError

record request_line =
  rl_url :: string
  rl_method :: string

record reply =
  rp_status :: int
  rp_body :: json

text \<open>Production or not, and the stack trace of an error, which only a development server shows.\<close>

record filter_env =
  fe_production :: bool
  fe_stack :: "js_error \<Rightarrow> string"

definition failure_head :: "msec \<Rightarrow> request_line \<Rightarrow> int \<Rightarrow> params" where
  "failure_head now req status = [(''success'', JBool False), (''statusCode'', JNum status),
     (''timestamp'', JStr (toISOString now)), (''path'', JStr (rl_url req)), (''method'', JStr (rl_method req))]"

definition handleHttpException :: "msec \<Rightarrow> request_line \<Rightarrow> http_exception \<Rightarrow> reply" where
  "handleHttpException now req e =
     (let error = (case hx_response e of
            Inl s \<Rightarrow> JStr s
          | Inr ps \<Rightarrow> if opt_truthy (map_of ps ''message'') then the (map_of ps ''message'') else JStr (hx_message e));
          details = (case hx_response e of
            Inl _ \<Rightarrow> None
          | Inr ps \<Rightarrow> if map_of ps ''error'' \<noteq> None then Some (JObj ps) else None)
      in \<lparr>rp_status = hx_status e,
          rp_body = JObj (failure_head now req (hx_status e) @ [(''error'', error)] @ jopt ''details'' details)\<rparr>)"

fun getHttpStatus :: "exception_class \<Rightarrow> int" where
  "getHttpStatus (PortDownstreamClass statusCode) = (if statusCode \<ge> 500 then 502 else statusCode)"
| "getHttpStatus PortTimeoutClass = 504"
| "getHttpStatus PortNotRegisteredClass = 500"
| "getHttpStatus NotFoundClass = 404"
| "getHttpStatus UnauthorizedClass = 401"
| "getHttpStatus ForbiddenClass = 403"
| "getHttpStatus ConflictClass = 409"
| "getHttpStatus LockoutClass = 429"
| "getHttpStatus ConcurrencyClass = 409"
| "getHttpStatus ValidationClass = 400"
| "getHttpStatus PortFallbackClass = 500"

definition handleBaseException :: "msec \<Rightarrow> request_line \<Rightarrow> base_exception \<Rightarrow> reply" where
  "handleBaseException now req e =
     (let status = getHttpStatus (ex_class e)
      in \<lparr>rp_status = status, rp_body = JObj (failure_head now req status @ [(''error'', exception_json e)])\<rparr>)"

definition handleUnknownError :: "filter_env \<Rightarrow> msec \<Rightarrow> request_line \<Rightarrow> js_error option \<Rightarrow> reply" where
  "handleUnknownError env now req exception =
     (let error = (case exception of Some e \<Rightarrow> e | None \<Rightarrow> new_Error ''Unknown error'') in
      \<lparr>rp_status = 500, rp_body = JObj (failure_head now req 500 @ [(''error'', JObj (
         [(''name'', JStr ''InternalServerError''), (''code'', JStr ''INTERNAL_SERVER_ERROR''),
          (''message'', JStr (if fe_production env then ''An unexpected error occurred'' else err_message error))]
         @ (if fe_production env then [] else [(''stack'', JStr (fe_stack env error))])))])\<rparr>)"

definition queued_reply :: "msec \<Rightarrow> string \<Rightarrow> string \<Rightarrow> reply" where
  "queued_reply now portName jobId = \<lparr>rp_status = 202, rp_body = JObj [(''success'', JBool True),
     (''statusCode'', JNum 202), (''queued'', JBool True), (''jobId'', JStr jobId), (''portName'', JStr portName),
     (''timestamp'', JStr (toISOString now)),
     (''message'', JStr ''Request accepted and queued for retry (downstream temporarily unavailable)'')]\<rparr>"

definition domain_error :: "domain_exception \<Rightarrow> js_error" where
  "domain_error e = \<lparr>err_name = ''DomainException'', err_ctor = ''DomainException'', err_message = dx_message e\<rparr>"

fun catch_exception :: "filter_env \<Rightarrow> msec \<Rightarrow> request_line \<Rightarrow> thrown \<Rightarrow> reply" where
  "catch_exception env now req (HttpException e) = handleHttpException now req e"
| "catch_exception env now req (QueuedException portName jobId) = queued_reply now portName jobId"
| "catch_exception env now req (BaseException e) = handleBaseException now req e"
| "catch_exception env now req (DomainException e) = handleUnknownError env now req (Some (domain_error e))"
| "catch_exception env now req (PlainError e) = handleUnknownError env now req (Some e)"
| "catch_exception env now req NotAnError = handleUnknownError env now req None"

section \<open>The interceptor\<close>

record success_dto =
  sd_statusCode :: int
  sd_timestamp :: string
  sd_path :: "string option"
  sd_method :: "string option"
  sd_data :: "json option"
  sd_message :: "string option"

definition new_success :: "msec \<Rightarrow> json option \<Rightarrow> int \<Rightarrow> string option \<Rightarrow> success_dto" where
  "new_success now data statusCode message = \<lparr>sd_statusCode = statusCode, sd_timestamp = toISOString now,
     sd_path = None, sd_method = None, sd_data = data, sd_message = message\<rparr>"

definition success_ok :: "msec \<Rightarrow> json option \<Rightarrow> string option \<Rightarrow> success_dto" where
  "success_ok now data message = new_success now data 200 message"

definition success_created :: "msec \<Rightarrow> json option \<Rightarrow> string option \<Rightarrow> success_dto" where
  "success_created now data message = new_success now data 201
     (Some (if truthy_str message then the message else ''Resource created successfully''))"

definition success_accepted :: "msec \<Rightarrow> json option \<Rightarrow> string option \<Rightarrow> success_dto" where
  "success_accepted now data message = new_success now data 202
     (Some (if truthy_str message then the message else ''Request accepted''))"

definition success_noContent :: "msec \<Rightarrow> string option \<Rightarrow> success_dto" where
  "success_noContent now message = new_success now None 204 message"

definition success_json :: "success_dto \<Rightarrow> json" where
  "success_json s = JObj ([(''success'', JBool True), (''statusCode'', JNum (sd_statusCode s)),
     (''timestamp'', JStr (sd_timestamp s))] @ jstr ''path'' (sd_path s) @ jstr ''method'' (sd_method s)
     @ jopt ''data'' (sd_data s) @ jstr ''message'' (sd_message s))"

text \<open>What a handler returns: a finished response, or data that may be null or undefined.\<close>

datatype handled = Finished success_dto | Returned "json option"

fun intercept :: "msec \<Rightarrow> request_line \<Rightarrow> handled \<Rightarrow> success_dto" where
  "intercept now req (Finished s) =
     s\<lparr>sd_path := (if truthy_str (sd_path s) then sd_path s else Some (rl_url req)),
       sd_method := (if truthy_str (sd_method s) then sd_method s else Some (rl_method req))\<rparr>"
| "intercept now req (Returned data) =
     (if json_present data then success_ok now data None else success_noContent now None)"

section \<open>What the services throw\<close>

fun port_class :: "port_error \<Rightarrow> exception_class" where
  "port_class (PortDownstreamException p code txt url) = PortDownstreamClass code"
| "port_class (PortTimeoutException p ms) = PortTimeoutClass"
| "port_class (PortNotRegisteredException p) = PortNotRegisteredClass"
| "port_class _ = PortFallbackClass"

definition port_base :: "port_error \<Rightarrow> base_exception" where
  "port_base e = \<lparr>ex_class = port_class e, ex_message = port_message e,
     ex_code = js_nullish (port_code e) ''PORT_ERROR'', ex_details = port_details e\<rparr>"

fun port_thrown :: "port_error \<Rightarrow> thrown" where
  "port_thrown (PortQueuedException p jobId) = QueuedException p jobId"
| "port_thrown (OtherError e) = PlainError e"
| "port_thrown e = BaseException (port_base e)"

fun app_thrown :: "app_error \<Rightarrow> thrown" where
  "app_thrown (PortError e) = port_thrown e"
| "app_thrown (ValidationException m) = BaseException (new_ValidationException (Inr m))"
| "app_thrown (NotFoundException m) = BaseException (new_NotFoundException (Some m) None None)"
| "app_thrown (ForbiddenException m) = BaseException (new_ForbiddenException (Some m) None None)"
| "app_thrown (TypeErrorException m) = PlainError \<lparr>err_name = ''TypeError'', err_ctor = ''TypeError'', err_message = m\<rparr>"
| "app_thrown (CacheException m) = PlainError (new_Error m)"

text \<open>The exceptions of the domain layer never reach the branch that would answer them with 400.\<close>

lemma domain_exception_unknown: "rp_status (catch_exception env now req (DomainException e)) = 500"
  by (simp add: handleUnknownError_def Let_def)

end
