(* ===== verification/Auth.thy ===== *)
theory Auth
  imports Http_Filter Binding_Audit Binding_Guard
begin

text \<open>
  Who is asking. The guard of the session (src/modules/auth/infrastructure/guards/session-auth.guard.ts)
  with the decorator that hands the user to a handler, the guard of calls between services
  (src/libs/shared/security/inter-service-api-key.guard.ts), the auth controller
  (src/modules/auth/infrastructure/http/auth.controller.ts), and what the binding flow and its guard throw
  on the way to the filter. The session library is given by its answer to the request's headers, and the
  framework by the exceptions it makes.
\<close>

section \<open>The session guard\<close>

record authenticated_user =
  aut_id :: string
  aut_sessionId :: string

text \<open>Ids of the session library are strings; any other value would be handed on as it prints.\<close>

definition session_data_user :: "json \<Rightarrow> authenticated_user option" where
  "session_data_user session =
     (let uid = Option.bind (json_get ''user'' session) (json_get ''id'');
          sid = Option.bind (json_get ''session'' session) (json_get ''id'')
      in if opt_truthy uid then Some \<lparr>aut_id = js_string (the uid), aut_sessionId = js_string (json_nullish sid (JStr []))\<rparr>
         else None)"

fun is_object :: "json \<Rightarrow> bool" where
  "is_object (JObj _) = True"
| "is_object (JArr _) = True"
| "is_object _ = False"
  \<comment> \<open>\<^verbatim>\<open>v && typeof v === 'object'\<close>\<close>

definition SessionAuthGuard :: "bool \<Rightarrow> js_error + json option \<Rightarrow> thrown + authenticated_user option" where
  "SessionAuthGuard isPublic getSession =
     (if isPublic then Inr None
      else case getSession of
             Inl e \<Rightarrow> Inl (BaseException (invalidToken (Some ''Session verification failed'')))
           | Inr session \<Rightarrow>
               if (case session of None \<Rightarrow> False | Some s \<Rightarrow> is_object s)
               then (case session_data_user (the session) of
                       None \<Rightarrow> Inl (BaseException missingToken)
                     | Some user \<Rightarrow> Inr (Some user))
               else Inl (BaseException missingToken))"

text \<open>\<^verbatim>\<open>@CurrentUser()\<close>\<close>

definition CurrentUser :: "authenticated_user option \<Rightarrow> thrown + authenticated_user" where
  "CurrentUser user = (case user of None \<Rightarrow> Inl (BaseException missingToken) | Some u \<Rightarrow> Inr u)"

section \<open>The guard between services\<close>

text \<open>The exceptions that the framework makes from a message or from an object.\<close>

record nest_lib =
  nl_forbidden :: "string + params \<Rightarrow> http_exception"
  nl_http :: "params \<Rightarrow> int \<Rightarrow> http_exception"

text \<open>
  \<^verbatim>\<open>timingSafeEqual\<close> throws on buffers of different sizes, which texts of the same length make when their
  letters take a different number of bytes.
\<close>

definition timing_safe_error :: js_error where
  "timing_safe_error = \<lparr>err_name = ''RangeError'', err_ctor = ''RangeError'',
     err_message = ''Input buffers must have the same byte length''\<rparr>"

definition InterServiceApiKeyGuard :: "nest_lib \<Rightarrow> string option \<Rightarrow> json option \<Rightarrow> thrown + unit" where
  "InterServiceApiKeyGuard nest expectedKey apiKey =
     (if \<not> truthy_str expectedKey then Inl (HttpException (nl_forbidden nest (Inl ''Service configuration error'')))
      else case apiKey of
             Some (JStr key) \<Rightarrow>
               if key = [] \<or> js_length key \<noteq> js_length (the expectedKey)
               then Inl (HttpException (nl_forbidden nest (Inl ''Invalid API key'')))
               else if length key \<noteq> length (the expectedKey) then Inl (PlainError timing_safe_error)
               else if key \<noteq> the expectedKey then Inl (HttpException (nl_forbidden nest (Inl ''Invalid API key'')))
               else Inr ()
           | _ \<Rightarrow> Inl (HttpException (nl_forbidden nest (Inl ''Invalid API key''))))"

text \<open>Only the configured key is let in; one of its length but with a letter beyond ASCII makes the guard fail instead of refuse.\<close>

lemma api_key_exact: "InterServiceApiKeyGuard nest expectedKey apiKey = Inr () \<longleftrightarrow> truthy_str expectedKey \<and> apiKey = Some (JStr (the expectedKey))"
  by (auto simp: InterServiceApiKeyGuard_def truthy_str_def split: option.splits json.splits)

lemma api_key_wide: "InterServiceApiKeyGuard nest (Some ''secret'') (Some (JStr (''secre'' @ [CHR 0xC3, CHR 0xA9]))) = Inl (PlainError timing_safe_error)"
  by (simp add: InterServiceApiKeyGuard_def truthy_str_def js_length_def)

section \<open>What the binding flow throws\<close>

text \<open>
  Errors that come from the cache, the database or the cipher are whatever those libraries throw.
\<close>

record library_errors =
  le_cache :: js_error
  le_database :: js_error
  le_cipher :: "pii_error \<Rightarrow> js_error"

fun validation_text :: "validation_reason \<Rightarrow> string" where
  "validation_text InitExpired =
     ''Phi'' @ [CHR 0xC3, CHR 0xAA] @ ''n li'' @ [CHR 0xC3, CHR 0xAA] @ ''n k'' @
     [CHR 0xE1, CHR 0xBA, CHR 0xBF] @ ''t h'' @ [CHR 0xE1, CHR 0xBA, CHR 0xBF] @ ''t h'' @
     [CHR 0xE1, CHR 0xBA, CHR 0xA1] @ ''n ho'' @ [CHR 0xE1, CHR 0xBA, CHR 0xB7] @ ''c ch'' @
     [CHR 0xC6, CHR 0xB0] @ ''a b'' @ [CHR 0xE1, CHR 0xBA, CHR 0xAF] @ ''t '' @
     [CHR 0xC4, CHR 0x91, CHR 0xE1, CHR 0xBA, CHR 0xA7] @ ''u. Vui l'' @ [CHR 0xC3, CHR 0xB2] @ ''ng th'' @
     [CHR 0xE1, CHR 0xBB, CHR 0xAD] @ '' l'' @ [CHR 0xE1, CHR 0xBA, CHR 0xA1] @ ''i.''"
| "validation_text ForeignRef =
     ''Kh'' @ [CHR 0xC3, CHR 0xA1] @ ''ch h'' @ [CHR 0xC3, CHR 0xA0] @ ''ng kh'' @ [CHR 0xC3, CHR 0xB4] @
     ''ng h'' @ [CHR 0xE1, CHR 0xBB, CHR 0xA3] @ ''p l'' @ [CHR 0xE1, CHR 0xBB, CHR 0x87] @ '' cho phi'' @
     [CHR 0xC3, CHR 0xAA] @ ''n n'' @ [CHR 0xC3, CHR 0xA0] @ ''y.''"
| "validation_text NoSessionPhone =
     ''Kh'' @ [CHR 0xC3, CHR 0xB4] @ ''ng c'' @ [CHR 0xC3, CHR 0xB3] @ '' s'' @
     [CHR 0xE1, CHR 0xBB, CHR 0x91] @ '' '' @ [CHR 0xC4, CHR 0x91] @ ''i'' @
     [CHR 0xE1, CHR 0xBB, CHR 0x87] @ ''n tho'' @ [CHR 0xE1, CHR 0xBA, CHR 0xA1] @ ''i '' @
     [CHR 0xC4, CHR 0x91, CHR 0xC3, CHR 0xA3] @ '' x'' @ [CHR 0xC3, CHR 0xA1] @ ''c th'' @
     [CHR 0xE1, CHR 0xBB, CHR 0xB1] @ ''c tr'' @ [CHR 0xC3, CHR 0xAA] @ ''n phi'' @ [CHR 0xC3, CHR 0xAA] @
     ''n '' @ [CHR 0xC4, CHR 0x91, CHR 0xE1, CHR 0xBB, CHR 0x83] @ '' '' @
     [CHR 0xC4, CHR 0x91, CHR 0xC4, CHR 0x83] @ ''ng k'' @ [CHR 0xC3, CHR 0xBD] @ ''.''"

definition exists_conflict :: "resolve_status option \<Rightarrow> base_exception" where
  "exists_conflict found = (case found of
     Some status \<Rightarrow> new_ConflictException (Some (
       ''Kh'' @ [CHR 0xC3, CHR 0xA1] @ ''ch h'' @ [CHR 0xC3, CHR 0xA0] @ ''ng '' @
     [CHR 0xC4, CHR 0x91, CHR 0xC3, CHR 0xA3] @ '' t'' @ [CHR 0xE1, CHR 0xBB, CHR 0x93] @ ''n t'' @
     [CHR 0xE1, CHR 0xBA, CHR 0xA1] @ ''i cho s'' @ [CHR 0xE1, CHR 0xBB, CHR 0x91] @ '' n'' @
     [CHR 0xC3, CHR 0xA0] @ ''y '' @ [CHR 0xE2, CHR 0x80, CHR 0x94] @ '' d'' @ [CHR 0xC3, CHR 0xB9] @
     ''ng lu'' @ [CHR 0xE1, CHR 0xBB, CHR 0x93] @ ''ng li'' @ [CHR 0xC3, CHR 0xAA] @ ''n k'' @
     [CHR 0xE1, CHR 0xBA, CHR 0xBF] @ ''t (bind), kh'' @ [CHR 0xC3, CHR 0xB4] @ ''ng '' @
     [CHR 0xC4, CHR 0x91, CHR 0xC4, CHR 0x83] @ ''ng k'' @ [CHR 0xC3, CHR 0xBD] @ '' m'' @
     [CHR 0xE1, CHR 0xBB, CHR 0x9B] @ ''i.''))
       (Some ''CUSTOMER_EXISTS_USE_BIND'') (Some (JObj [(''status'', JStr (Binding.status_str status))]))
   | None \<Rightarrow> new_ConflictException (Some (
       ''Kh'' @ [CHR 0xC3, CHR 0xA1] @ ''ch h'' @ [CHR 0xC3, CHR 0xA0] @ ''ng v'' @
     [CHR 0xE1, CHR 0xBB, CHR 0xAB] @ ''a '' @
     [CHR 0xC4, CHR 0x91, CHR 0xC6, CHR 0xB0, CHR 0xE1, CHR 0xBB, CHR 0xA3] @ ''c t'' @
     [CHR 0xE1, CHR 0xBA, CHR 0xA1] @ ''o cho s'' @ [CHR 0xE1, CHR 0xBB, CHR 0x91] @ '' n'' @
     [CHR 0xC3, CHR 0xA0] @ ''y '' @ [CHR 0xE2, CHR 0x80, CHR 0x94] @ '' d'' @ [CHR 0xC3, CHR 0xB9] @
     ''ng lu'' @ [CHR 0xE1, CHR 0xBB, CHR 0x93] @ ''ng li'' @ [CHR 0xC3, CHR 0xAA] @ ''n k'' @
     [CHR 0xE1, CHR 0xBA, CHR 0xBF] @ ''t (bind).''))
       (Some ''CUSTOMER_EXISTS_USE_BIND'') None)"

fun bind_thrown :: "library_errors \<Rightarrow> bind_error \<Rightarrow> thrown" where
  "bind_thrown L CacheRejected = PlainError (le_cache L)"
| "bind_thrown L DatabaseError = PlainError (le_database L)"
| "bind_thrown L (ValidationError reason) = BaseException (new_ValidationException (Inr (validation_text reason)))"
| "bind_thrown L (LockoutError reason retryAfterSec) = BaseException (new_LockoutException (reason_str reason) retryAfterSec)"
| "bind_thrown L (ConflictError found) = BaseException (exists_conflict found)"
| "bind_thrown L (CustomerServiceError CustomerConflict) = BaseException (new_ConflictException None None None)"
| "bind_thrown L (CustomerServiceError (CustomerFailure e)) = PlainError e"

fun guard_thrown :: "nest_lib \<Rightarrow> library_errors \<Rightarrow> guard_error \<Rightarrow> thrown" where
  "guard_thrown nest L BINDING_REQUIRED = HttpException (nl_forbidden nest (Inr [(''statusCode'', JNum 403),
     (''code'', JStr ''BINDING_REQUIRED''), (''message'', JStr ''Customer binding not verified.'')]))"
| "guard_thrown nest L BINDING_INTEGRITY = HttpException (nl_http nest [(''statusCode'', JNum 500),
     (''code'', JStr ''BINDING_INTEGRITY''), (''message'', JStr ''Binding integrity error.'')] 500)"
| "guard_thrown nest L (GuardDecryptError e) = PlainError (le_cipher L e)"
| "guard_thrown nest L GuardDatabaseError = PlainError (le_database L)"

section \<open>The auth controller\<close>

record user_row =
  ur_id :: string
  ur_phoneNumber :: "string option"
  ur_fullName :: "string option"
  ur_cccd :: "string option"
  ur_profileStatus :: "string option"

record me_response =
  me_userId :: string
  me_profileStatus :: string
  me_fullName :: "string option"
  me_hasCccd :: bool
  me_customerId :: "string option"
  me_linked :: bool

definition getMe :: "pii_service \<Rightarrow> user_row list \<Rightarrow> binding_row list \<Rightarrow> string \<Rightarrow> pii_error + me_response" where
  "getMe pii users bindings userId =
     (let user = find (\<lambda>r. ur_id r = userId) users;
          binding = find (\<lambda>r. br_userId r = userId \<and> br_status r = Verified) bindings
      in case decryptIfNeeded pii (Option.bind binding br_customerId) of
           Inl e \<Rightarrow> Inl e
         | Inr customerId \<Rightarrow> Inr (case user of
               None \<Rightarrow> \<lparr>me_userId = userId, me_profileStatus = ''incomplete'', me_fullName = None, me_hasCccd = False,
                 me_customerId = customerId, me_linked = (binding \<noteq> None)\<rparr>
             | Some u \<Rightarrow> \<lparr>me_userId = userId, me_profileStatus = js_nullish (ur_profileStatus u) ''incomplete'',
                 me_fullName = ur_fullName u, me_hasCccd = truthy_str (ur_cccd u),
                 me_customerId = customerId, me_linked = (binding \<noteq> None)\<rparr>))"

definition resolve_url :: "string \<Rightarrow> string \<Rightarrow> string" where
  "resolve_url base phone = base @ ''/api/v1/customers/resolve?phone='' @ encodeURIComponent phone"

definition single_match :: "json option \<Rightarrow> json option" where
  "single_match data =
     (if \<not> opt_truthy data then None
      else case data of
             Some (JArr xs) \<Rightarrow> (case xs of [x] \<Rightarrow> Some x | _ \<Rightarrow> None)
           | _ \<Rightarrow> data)"

definition resolveFromCustomerService ::
  "(string \<Rightarrow> ('s, js_error, fetch_response) async) \<Rightarrow> string \<Rightarrow> string \<Rightarrow> 's \<Rightarrow> json option \<times> 's" where
  "resolveFromCustomerService fetchUrl base phone s =
     (case fetchUrl (resolve_url base phone) s of
        (Inl e, s') \<Rightarrow> (None, s')
      | (Inr res, s') \<Rightarrow>
          if \<not> fr_ok res then (None, s')
          else case fr_json res of
                 Inl e \<Rightarrow> (None, s')
               | Inr body \<Rightarrow> (single_match (json_get ''data'' body), s'))"

definition resolveFromMock :: "('c, 's) bff_request \<Rightarrow> string \<Rightarrow> ('c, 's) port_world \<Rightarrow> json option \<times> ('c, 's) port_world" where
  "resolveFromMock b phone w =
     (case callPort b 0 ''customer-profile'' ''find-by-phone'' [(''phone'', JStr phone)] w of
        (Inl e, w') \<Rightarrow> (None, w')
      | (Inr result, w') \<Rightarrow> (if json_present (pr_data result) then pr_data result else None, w'))"

datatype registration =
  NotRegistered string
| Registered string "json option"

text \<open>
  The phone of the user is looked up at the customer service where one is configured and at the mock
  otherwise; \<^verbatim>\<open>customer.customerId\<close> is undefined where the customer has none.
\<close>

definition checkRegistration ::
  "('c, 's) bff_request \<Rightarrow> (string \<Rightarrow> ('s, js_error, fetch_response) async) \<Rightarrow> string option \<Rightarrow> user_row list \<Rightarrow> string \<Rightarrow>
   ('c, 's) port_world \<Rightarrow> registration \<times> ('c, 's) port_world" where
  "checkRegistration b fetchUrl customerServiceUrl users userId w =
     (let user = find (\<lambda>r. ur_id r = userId) users;
          phone = Option.bind user ur_phoneNumber;
          profileStatus = js_nullish (Option.bind user ur_profileStatus) ''incomplete''
      in if \<not> truthy_str phone then (NotRegistered profileStatus, w)
         else case (if truthy_str customerServiceUrl
                    then (case resolveFromCustomerService fetchUrl (the customerServiceUrl) (the phone) (pw_env w) of
                            (found, s) \<Rightarrow> (found, w\<lparr>pw_env := s\<rparr>))
                    else resolveFromMock b (the phone) w) of
                (found, w') \<Rightarrow>
                  if opt_truthy found then (Registered profileStatus (json_get ''customerId'' (the found)), w')
                  else (NotRegistered profileStatus, w'))"

datatype provider_answer = ProviderAnswer "string option" string string

definition providerCallback :: "string schema \<Rightarrow> json \<Rightarrow> thrown + provider_answer" where
  "providerCallback S body = (case S body of
     Inl m \<Rightarrow> Inl (BaseException (new_ValidationException (Inr m)))
   | Inr providerType \<Rightarrow> Inr (ProviderAnswer None providerType
       (''Provider '' @ providerType @ '' validated. OAuth flow handled by better-auth.'')))"

definition linkProvider :: "string schema \<Rightarrow> string \<Rightarrow> json \<Rightarrow> thrown + provider_answer" where
  "linkProvider S userId body = (case S body of
     Inl m \<Rightarrow> Inl (BaseException (new_ValidationException (Inr m)))
   | Inr providerType \<Rightarrow> Inr (ProviderAnswer (Some userId) providerType
       (''Open '' @ providerType @ '' authorization via better-auth /api/auth/sign-in/social to link this provider to your account.'')))"

definition unlinkProvider :: "string schema \<Rightarrow> string \<Rightarrow> json \<Rightarrow> thrown + provider_answer" where
  "unlinkProvider S userId body = (case S body of
     Inl m \<Rightarrow> Inl (BaseException (new_ValidationException (Inr m)))
   | Inr providerType \<Rightarrow> Inr (ProviderAnswer (Some userId) providerType
       (''Use better-auth to unlink '' @ providerType @ '' from your account.'')))"

section \<open>Answers of the auth controller\<close>

text \<open>A phone that belongs to several customers counts as none: nothing is disclosed.\<close>

lemma several_matches_denied:
  assumes "length xs \<noteq> 1" "fetchUrl (resolve_url base phone) s = (Inr res, s')" "fr_json res = Inr body"
    and "json_get ''data'' body = Some (JArr xs)"
  shows "fst (resolveFromCustomerService fetchUrl base phone s) = None"
  using assms by (auto simp: resolveFromCustomerService_def single_match_def opt_truthy_def split: list.splits)

text \<open>Where the guard finds no cached entry, the answer about the user agrees with the guard's verdict.\<close>

lemma me_agrees_with_guard:
  assumes "u \<noteq> []" "bd_db_ok d (bw_statements w)" "cache_get (bd_cache d) now (bindKey u) (bw_cache w) = (Inr None :: bind_error + bind_val option, c)"
    and "fst (canActivate d now (Some u) False w) = Inr (Some bc)"
  shows "\<exists>me. getMe (bd_pii d) users (bw_bindings w) u = Inr me \<and> me_linked me \<and> me_customerId me = Some (bc_customerId bc)"
proof -
  let ?row = "find (\<lambda>r. br_userId r = u \<and> br_status r = Verified) (bw_bindings w)"
  have read: "resolveBinding d now u w = (case ?row of None \<Rightarrow> ret None | Some row \<Rightarrow> seq (warm_cache d now u (row_entry row))
      (ret (Some (row_entry row)))) (w\<lparr>bw_cache := c, bw_statements := Suc (bw_statements w)\<rparr>)"
    using assms(2,3) by (simp add: resolveBinding_def bnd_app on_cache_def on_db_def reads_app Let_def row_entry_def split: option.splits)
  obtain row where row: "?row = Some row"
    using assms(1,4) by (cases ?row) (simp_all add: read canActivate_def js_falsy_def ret_app Let_def)
  obtain w' where "resolveBinding d now u w = (Inr (Some (row_entry row)), w')"
    using row by (simp add: read seq_app warm_cache_app ret_app)
  with assms(1,4) have "decryptIfNeeded (bd_pii d) (br_customerId row) = Inr (Some (bc_customerId bc))"
    by (auto simp: canActivate_def js_falsy_def Let_def row_entry_def split: sum.splits if_splits option.splits)
  with row show ?thesis by (auto simp: getMe_def Let_def split: option.splits)
qed

end
