(* ===== verification/Bff_Services.thy ===== *)
theory Bff_Services
  imports Bff
begin

text \<open>
  The services that pass a customer's request on to a port: billing
  (src/modules/billing/billing.service.ts), usage (src/modules/usage/usage.service.ts), incident
  reports (src/modules/report/report.service.ts), notifications
  (src/modules/notification/notification.service.ts), contracts
  (src/modules/service-request/service-request.service.ts) and the account
  (src/modules/account/account.service.ts). A property of an object that is undefined is left out of
  the parameters.
\<close>

section \<open>Billing\<close>

record billing_schemas =
  bs_invoiceList :: "params schema"
  bs_invoiceId :: "string schema"
  bs_contractId :: "string schema"

definition validateInvoiceId :: "billing_schemas \<Rightarrow> string \<Rightarrow> ('c, 's, unit) bff" where
  "validateInvoiceId S invoiceId =
     seq (safeParse (bs_invoiceId S) (JStr invoiceId) (\<lambda>_. ''Invalid Invoice ID format'')) (ret ())"

definition validateContractId :: "billing_schemas \<Rightarrow> string \<Rightarrow> ('c, 's, unit) bff" where
  "validateContractId S contractId =
     seq (safeParse (bs_contractId S) (JStr contractId) (\<lambda>_. ''Invalid Contract ID format'')) (ret ())"

definition getInvoiceList ::
  "billing_schemas \<Rightarrow> ('c, 's) bff_request \<Rightarrow> string \<Rightarrow> json \<Rightarrow> ('c, 's, json option) bff" where
  "getInvoiceList S b customerId query =
     bnd (safeParse (bs_invoiceList S) query (\<lambda>_. ''Invalid query parameters'')) (\<lambda>data.
       fetch b ''invoice'' ''get-list'' (obj_spread (customer customerId) data))"

definition getInvoiceDetail ::
  "billing_schemas \<Rightarrow> ('c, 's) bff_request \<Rightarrow> string \<Rightarrow> string \<Rightarrow> ('c, 's, json option) bff" where
  "getInvoiceDetail S b customerId invoiceId = seq (validateInvoiceId S invoiceId)
     (fetch b ''invoice'' ''get-by-id'' (customer customerId @ [(''invoiceId'', JStr invoiceId)]))"

definition getInvoicePdf ::
  "billing_schemas \<Rightarrow> ('c, 's) bff_request \<Rightarrow> string \<Rightarrow> string \<Rightarrow> ('c, 's, json option) bff" where
  "getInvoicePdf S b customerId invoiceId = seq (validateInvoiceId S invoiceId)
     (fetch b ''invoice'' ''get-pdf'' (customer customerId @ [(''invoiceId'', JStr invoiceId)]))"

definition getTariffPlan ::
  "billing_schemas \<Rightarrow> ('c, 's) bff_request \<Rightarrow> string \<Rightarrow> string \<Rightarrow> ('c, 's, json option) bff" where
  "getTariffPlan S b customerId contractId = seq (validateContractId S contractId)
     (fetch b ''tariff'' ''get-tariff-plan'' (customer customerId @ [(''contractId'', JStr contractId)]))"

definition getTariffBreakdown ::
  "billing_schemas \<Rightarrow> ('c, 's) bff_request \<Rightarrow> string \<Rightarrow> string \<Rightarrow> string \<Rightarrow> ('c, 's, json option) bff" where
  "getTariffBreakdown S b customerId contractId invoiceId =
     seq (validateContractId S contractId) (seq (validateInvoiceId S invoiceId)
     (fetch b ''tariff'' ''get-tariff-breakdown''
        (customer customerId @ [(''contractId'', JStr contractId), (''invoiceId'', JStr invoiceId)])))"

definition getApplicableFees ::
  "billing_schemas \<Rightarrow> ('c, 's) bff_request \<Rightarrow> string \<Rightarrow> string \<Rightarrow> ('c, 's, json option) bff" where
  "getApplicableFees S b customerId contractId = seq (validateContractId S contractId)
     (fetch b ''tariff'' ''get-applicable-fees'' (customer customerId @ [(''contractId'', JStr contractId)]))"

section \<open>Usage\<close>

record usage_schemas =
  us_meterId :: "string schema"
  us_period :: "string schema"
  us_comparison :: "unit schema"

definition validateMeterId :: "usage_schemas \<Rightarrow> string \<Rightarrow> ('c, 's, unit) bff" where
  "validateMeterId S meterId = seq (safeParse (us_meterId S) (JStr meterId) (\<lambda>_. ''Invalid meter ID format'')) (ret ())"

definition validatePeriod :: "usage_schemas \<Rightarrow> string \<Rightarrow> ('c, 's, unit) bff" where
  "validatePeriod S period = seq (safeParse (us_period S) (JStr period) (\<lambda>_. ''Invalid period format. Use YYYY-MM'')) (ret ())"

definition validateComparisonParams :: "usage_schemas \<Rightarrow> string \<Rightarrow> string \<Rightarrow> ('c, 's, unit) bff" where
  "validateComparisonParams S current previous =
     safeParse (us_comparison S) (JObj [(''current'', JStr current), (''previous'', JStr previous)])
       (\<lambda>_. ''Invalid period parameters. Use YYYY-MM format for both current and previous'')"

definition getMeters :: "('c, 's) bff_request \<Rightarrow> string \<Rightarrow> ('c, 's, json option) bff" where
  "getMeters b customerId = fetch b ''meter'' ''get-meter-by-customer'' (customer customerId)"

definition null_access :: "json option \<Rightarrow> string \<Rightarrow> app_error" where
  "null_access v key = TypeErrorException (''Cannot read properties of ''
     @ (if v = None then ''undefined'' else ''null'') @ '' (reading '' @ [CHR 0x27] @ key @ [CHR 0x27] @ '')'')"

definition null_destructure :: "json option \<Rightarrow> app_error" where
  "null_destructure v = TypeErrorException (''Cannot destructure property '' @ [CHR 0x27] @ ''currentVolume'' @ [CHR 0x27]
     @ '' of '' @ [CHR 0x27] @ ''result.data'' @ [CHR 0x27] @ '' as it is '' @ (if v = None then ''undefined'' else ''null'') @ ''.'')"

fun obj_entries :: "json \<Rightarrow> params" where
  "obj_entries (JObj ps) = ps"
| "obj_entries (JArr xs) = zip (map js_nat_str [0..<length xs]) xs"
| "obj_entries (JStr s) = zip (map js_nat_str [0..<length s]) (map (\<lambda>c. JStr [c]) s)"
| "obj_entries _ = []"
  \<comment> \<open>the own properties that \<^verbatim>\<open>...v\<close> copies\<close>

definition getCalibrationStatus ::
  "usage_schemas \<Rightarrow> ('c, 's) bff_request \<Rightarrow> string \<Rightarrow> string \<Rightarrow> ('c, 's, json) bff" where
  "getCalibrationStatus S b customerId meterId = seq (validateMeterId S meterId)
     (bnd (fetch b ''meter'' ''get-calibration-status'' (customer customerId @ [(''meterId'', JStr meterId)])) (\<lambda>raw.
        if \<not> json_present raw then throw (null_access raw ''status'')
        else let status = json_get ''status'' (the raw);
                 isWarning = (status = Some (JStr ''expiring_soon'') \<or> status = Some (JStr ''expired''))
             in ret (JObj (AList.update ''isWarning'' (JBool isWarning) (obj_entries (the raw))))))"

definition getMeterHistory ::
  "usage_schemas \<Rightarrow> ('c, 's) bff_request \<Rightarrow> string \<Rightarrow> string \<Rightarrow> ('c, 's, json option) bff" where
  "getMeterHistory S b customerId meterId = seq (validateMeterId S meterId)
     (fetch b ''meter'' ''get-meter-history'' (customer customerId @ [(''meterId'', JStr meterId)]))"

definition getConsumptionHistory :: "('c, 's) bff_request \<Rightarrow> string \<Rightarrow> ('c, 's, json option) bff" where
  "getConsumptionHistory b customerId = fetch b ''meter-reading'' ''get-readings'' (customer customerId)"

text \<open>
  The change between two volumes in percent, rounded to hundredths, and its direction. Volumes are
  integers here and the quotient is exact; the schema of the answer (meter-reading.dto.ts) admits no
  volumes but numbers, and anything else is taken as not a number.
\<close>

datatype direction = Up | Down | Neutral

datatype change = NoBase | NotANumber | Percent rat

definition js_round :: "rat \<Rightarrow> int" where
  "js_round x = \<lfloor>x + 1 / 2\<rfloor>"
  \<comment> \<open>\<^verbatim>\<open>Math.round\<close>: halves go up\<close>

definition percentageChange :: "json option \<Rightarrow> json option \<Rightarrow> change" where
  "percentageChange currentVolume previousVolume =
     (if previousVolume = Some (JNum 0) then NoBase
      else case (currentVolume, previousVolume) of
             (Some (JNum c), Some (JNum p)) \<Rightarrow>
               Percent (of_int (js_round ((of_int c - of_int p) / of_int p * 100 * 100)) / 100)
           | _ \<Rightarrow> NotANumber)"

definition change_direction :: "change \<Rightarrow> direction" where
  "change_direction ch = (case ch of Percent x \<Rightarrow> if x > 0 then Up else if x < 0 then Down else Neutral | _ \<Rightarrow> Neutral)"

record comparison_response =
  cr_raw :: json
  cr_percentageChange :: change
  cr_direction :: direction

definition getConsumptionComparison ::
  "usage_schemas \<Rightarrow> ('c, 's) bff_request \<Rightarrow> string \<Rightarrow> string \<Rightarrow> string \<Rightarrow> ('c, 's, comparison_response) bff" where
  "getConsumptionComparison S b customerId currentPeriod previousPeriod =
     seq (validateComparisonParams S currentPeriod previousPeriod)
     (bnd (fetch b ''meter-reading'' ''get-comparison'' (customer customerId @
            [(''currentPeriod'', JStr currentPeriod), (''previousPeriod'', JStr previousPeriod)])) (\<lambda>data.
        if \<not> json_present data then throw (null_destructure data)
        else let ch = percentageChange (json_get ''currentVolume'' (the data)) (json_get ''previousVolume'' (the data))
             in ret \<lparr>cr_raw = the data, cr_percentageChange = ch, cr_direction = change_direction ch\<rparr>))"

definition getReadingDetail ::
  "usage_schemas \<Rightarrow> ('c, 's) bff_request \<Rightarrow> string \<Rightarrow> string \<Rightarrow> ('c, 's, json option) bff" where
  "getReadingDetail S b customerId period = seq (validatePeriod S period)
     (fetch b ''meter-reading'' ''get-reading-detail'' (customer customerId @ [(''period'', JStr period)]))"

definition getRealtimeConsumption :: "('c, 's) bff_request \<Rightarrow> string \<Rightarrow> ('c, 's, json) bff" where
  "getRealtimeConsumption b customerId =
     fetch_or b ''smart-meter'' ''get-realtime-consumption'' (customer customerId)
       (PortError (PortFallbackException ''smart-meter'' None))"

definition getMeterStatus :: "('c, 's) bff_request \<Rightarrow> string \<Rightarrow> string \<Rightarrow> ('c, 's, json) bff" where
  "getMeterStatus b customerId meterId =
     fetch_or b ''smart-meter'' ''get-meter-status'' (customer customerId @ [(''meterId'', JStr meterId)])
       (PortError (PortFallbackException ''smart-meter'' None))"

section \<open>Incident reports\<close>

definition opt_str :: "string \<Rightarrow> string option \<Rightarrow> params" where
  "opt_str k v = jopt k (map_option JStr v)"

definition pick :: "string list \<Rightarrow> params \<Rightarrow> params" where
  "pick ks parsed = concat (map (\<lambda>k. jopt k (map_of parsed k)) ks)"
  \<comment> \<open>the listed properties of the parsed body, in the order the code lists them\<close>

definition no_cache :: params where
  "no_cache = [(''useCache'', JBool False)]"

record incident_filters =
  if_status :: "string option"
  if_area :: "string option"
  if_type :: "string option"
  if_severity :: "string option"

record report_schemas =
  rs_createIncident :: "params schema"
  rs_updateStatus :: "params schema"
  rs_gisTriage :: "params schema"
  rs_createReport :: "params schema"

definition listIncidents :: "('c, 's) bff_request \<Rightarrow> incident_filters option \<Rightarrow> ('c, 's, json option) bff" where
  "listIncidents b filters = fetch b ''incident'' ''get-incidents''
     (opt_str ''status'' (Option.bind filters if_status) @ opt_str ''area'' (Option.bind filters if_area)
      @ opt_str ''type'' (Option.bind filters if_type) @ opt_str ''severity'' (Option.bind filters if_severity))"

definition getIncidentDetail :: "('c, 's) bff_request \<Rightarrow> string \<Rightarrow> ('c, 's, json option) bff" where
  "getIncidentDetail b incidentId = fetch b ''incident'' ''get-incident-detail'' [(''incidentId'', JStr incidentId)]"

definition createIncident :: "report_schemas \<Rightarrow> ('c, 's) bff_request \<Rightarrow> json \<Rightarrow> ('c, 's, json option) bff" where
  "createIncident S b body = bnd (safeParse (rs_createIncident S) body id) (\<lambda>parsed.
     fetch b ''incident'' ''create-incident''
       (pick [''type'', ''severity'', ''location'', ''description'', ''source'', ''linkedTicketIds''] parsed @ no_cache))"

definition updateIncidentStatus ::
  "report_schemas \<Rightarrow> ('c, 's) bff_request \<Rightarrow> string \<Rightarrow> json \<Rightarrow> ('c, 's, json option) bff" where
  "updateIncidentStatus S b incidentId body = bnd (safeParse (rs_updateStatus S) body id) (\<lambda>parsed.
     fetch b ''incident'' ''update-incident-status''
       ([(''incidentId'', JStr incidentId)] @ pick [''status'', ''actor'', ''description''] parsed @ no_cache))"

definition gisTriage :: "report_schemas \<Rightarrow> ('c, 's) bff_request \<Rightarrow> json \<Rightarrow> ('c, 's, json option) bff" where
  "gisTriage S b body = bnd (safeParse (rs_gisTriage S) body id) (\<lambda>parsed.
     fetch b ''incident'' ''gis-triage'' (pick [''ticketIds'', ''area''] parsed @ no_cache))"

definition createReport ::
  "report_schemas \<Rightarrow> ('c, 's) bff_request \<Rightarrow> string \<Rightarrow> json \<Rightarrow> ('c, 's, json option) bff" where
  "createReport S b customerId body = bnd (safeParse (rs_createReport S) body id) (\<lambda>parsed.
     fetch b ''incident'' ''create-report''
       (customer customerId @ pick [''type'', ''description'', ''location'', ''photoUrls''] parsed @ no_cache))"

definition getMyReports :: "('c, 's) bff_request \<Rightarrow> string \<Rightarrow> string option \<Rightarrow> ('c, 's, json option) bff" where
  "getMyReports b customerId status = fetch b ''incident'' ''get-my-reports'' (customer customerId @ opt_str ''status'' status)"

definition getReportDetail :: "('c, 's) bff_request \<Rightarrow> string \<Rightarrow> string \<Rightarrow> ('c, 's, json option) bff" where
  "getReportDetail b customerId reportId =
     fetch b ''incident'' ''get-report-detail'' (customer customerId @ [(''reportId'', JStr reportId)])"

section \<open>Notifications\<close>

record notification_schemas =
  ns_alertHistory :: "params schema"
  ns_alertId :: "string schema"
  ns_history :: "params schema"
  ns_preferences :: "json schema"  \<comment> \<open>the channels\<close>
  ns_dispatch :: "params schema"

definition getActiveAlerts :: "('c, 's) bff_request \<Rightarrow> string \<Rightarrow> ('c, 's, json option) bff" where
  "getActiveAlerts b customerId = fetch b ''proactive-notification'' ''get-active-alerts'' (customer customerId)"

definition getAlertHistory ::
  "notification_schemas \<Rightarrow> ('c, 's) bff_request \<Rightarrow> string \<Rightarrow> params \<Rightarrow> ('c, 's, json option) bff" where
  "getAlertHistory S b customerId filters = bnd (safeParse (ns_alertHistory S) (JObj filters) id) (\<lambda>data.
     fetch b ''proactive-notification'' ''get-alert-history'' (obj_spread (customer customerId) data))"

definition acknowledgeAlert ::
  "notification_schemas \<Rightarrow> ('c, 's) bff_request \<Rightarrow> string \<Rightarrow> string \<Rightarrow> ('c, 's, json option) bff" where
  "acknowledgeAlert S b alertId customerId =
     bnd (safeParse (ns_alertId S) (JObj [(''alertId'', JStr alertId)]) id) (\<lambda>parsed.
       fetch b ''proactive-notification'' ''acknowledge-alert''
         ([(''alertId'', JStr parsed), (''customerId'', JStr customerId)] @ no_cache))"

definition getPreferences :: "('c, 's) bff_request \<Rightarrow> string \<Rightarrow> ('c, 's, json option) bff" where
  "getPreferences b customerId = fetch b ''notification'' ''get-notification-preferences'' (customer customerId)"

definition getHistory ::
  "notification_schemas \<Rightarrow> ('c, 's) bff_request \<Rightarrow> string \<Rightarrow> params \<Rightarrow> ('c, 's, json option) bff" where
  "getHistory S b customerId filters = bnd (safeParse (ns_history S) (JObj filters) id) (\<lambda>data.
     fetch b ''notification'' ''get-notification-history'' (obj_spread (customer customerId) data))"

definition updatePreferences ::
  "notification_schemas \<Rightarrow> ('c, 's) bff_request \<Rightarrow> string \<Rightarrow> json \<Rightarrow> ('c, 's, json option) bff" where
  "updatePreferences S b customerId body = bnd (safeParse (ns_preferences S) body id) (\<lambda>channels.
     fetch b ''notification'' ''update-notification-preferences''
       (customer customerId @ [(''channels'', channels)] @ no_cache))"

definition dispatchNotification ::
  "notification_schemas \<Rightarrow> ('c, 's) bff_request \<Rightarrow> json \<Rightarrow> ('c, 's, json option) bff" where
  "dispatchNotification S b payload = bnd (safeParse (ns_dispatch S) payload id) (\<lambda>data.
     fetch b ''notification'' ''dispatch-notification'' (obj_spread data no_cache))"

definition getCutoffSchedule :: "('c, 's) bff_request \<Rightarrow> string \<Rightarrow> ('c, 's, json option) bff" where
  "getCutoffSchedule b areaId = fetch b ''water-cutoff'' ''get-cutoff-schedule'' [(''areaId'', JStr areaId)]"

section \<open>Contracts\<close>

record contract_schemas =
  cs_query :: "params schema"
  cs_contractId :: "string schema"
  cs_sign :: "json schema"  \<comment> \<open>the signature reference\<close>

definition validateContract :: "contract_schemas \<Rightarrow> string \<Rightarrow> ('c, 's, unit) bff" where
  "validateContract S contractId =
     seq (safeParse (cs_contractId S) (JStr contractId) (\<lambda>_. ''Invalid contract ID format'')) (ret ())"

text \<open>A query that does not parse is no error: the contracts are listed without a filter.\<close>

definition getContracts ::
  "contract_schemas \<Rightarrow> ('c, 's) bff_request \<Rightarrow> string \<Rightarrow> json \<Rightarrow> ('c, 's, json option) bff" where
  "getContracts S b customerId query =
     fetch b ''contract'' ''get-contracts'' (customer customerId @
       jopt ''filters'' (case cs_query S query of Inl _ \<Rightarrow> None | Inr filters \<Rightarrow> Some (JObj filters)))"

definition getContractDetail ::
  "contract_schemas \<Rightarrow> ('c, 's) bff_request \<Rightarrow> string \<Rightarrow> string \<Rightarrow> ('c, 's, json option) bff" where
  "getContractDetail S b customerId contractId = seq (validateContract S contractId)
     (fetch b ''contract'' ''get-contract-detail'' (customer customerId @ [(''contractId'', JStr contractId)]))"

definition getContractVersions ::
  "contract_schemas \<Rightarrow> ('c, 's) bff_request \<Rightarrow> string \<Rightarrow> string \<Rightarrow> ('c, 's, json option) bff" where
  "getContractVersions S b customerId contractId = seq (validateContract S contractId)
     (fetch b ''contract'' ''get-contract-versions'' (customer customerId @ [(''contractId'', JStr contractId)]))"

definition getContractPDF ::
  "contract_schemas \<Rightarrow> ('c, 's) bff_request \<Rightarrow> string \<Rightarrow> string \<Rightarrow> ('c, 's, json option) bff" where
  "getContractPDF S b customerId contractId = seq (validateContract S contractId)
     (fetch b ''contract'' ''get-contract-pdf'' (customer customerId @ [(''contractId'', JStr contractId)]))"

definition getEcontract :: "('c, 's) bff_request \<Rightarrow> string \<Rightarrow> string \<Rightarrow> ('c, 's, json option) bff" where
  "getEcontract b customerId dossierId =
     fetch b ''econtract'' ''get-contract'' (customer customerId @ [(''dossierId'', JStr dossierId)])"

definition signEcontract ::
  "contract_schemas \<Rightarrow> ('c, 's) bff_request \<Rightarrow> string \<Rightarrow> string \<Rightarrow> json \<Rightarrow> ('c, 's, json option) bff" where
  "signEcontract S b customerId dossierId body = bnd (safeParse (cs_sign S) body id) (\<lambda>signatureRef.
     fetch b ''econtract'' ''sign-contract''
       (customer customerId @ [(''dossierId'', JStr dossierId), (''signatureRef'', signatureRef)] @ no_cache))"

section \<open>Account\<close>

record account_schemas =
  as_updateProfile :: "params schema"
  as_onboarding :: "params schema"
  as_documents :: "json schema"  \<comment> \<open>the documents\<close>

definition getProfile :: "('c, 's) bff_request \<Rightarrow> string \<Rightarrow> ('c, 's, json option) bff" where
  "getProfile b customerId = fetch b ''customer-profile'' ''get-profile'' (customer customerId)"

definition getTimeline :: "('c, 's) bff_request \<Rightarrow> string \<Rightarrow> params option \<Rightarrow> ('c, 's, json option) bff" where
  "getTimeline b customerId filters =
     fetch b ''customer-profile'' ''get-timeline'' (customer customerId @ jopt ''filters'' (map_option JObj filters))"

definition getRelatedAccounts :: "('c, 's) bff_request \<Rightarrow> string \<Rightarrow> ('c, 's, json option) bff" where
  "getRelatedAccounts b customerId = fetch b ''customer-profile'' ''get-related-accounts'' (customer customerId)"

definition updateProfile ::
  "account_schemas \<Rightarrow> ('c, 's) bff_request \<Rightarrow> string \<Rightarrow> json \<Rightarrow> ('c, 's, json option) bff" where
  "updateProfile S b customerId body = bnd (safeParse (as_updateProfile S) body id) (\<lambda>data.
     seq (callPort b 0 ''customer-profile'' ''update-profile'' (customer customerId @ [(''data'', JObj data)]))
    (bnd (callPort b 1 ''customer-profile'' ''get-profile'' (customer customerId)) (\<lambda>fresh. ret (pr_data fresh))))"

definition createOnboardingRequest ::
  "account_schemas \<Rightarrow> ('c, 's) bff_request \<Rightarrow> string \<Rightarrow> json \<Rightarrow> ('c, 's, json option) bff" where
  "createOnboardingRequest S b customerId body = bnd (safeParse (as_onboarding S) body id) (\<lambda>data.
     fetch b ''onboarding'' ''create-onboarding-request'' (obj_spread (obj_spread (customer customerId) data) no_cache))"

definition getOnboardingStatus :: "('c, 's) bff_request \<Rightarrow> string \<Rightarrow> ('c, 's, json option) bff" where
  "getOnboardingStatus b requestId = fetch b ''onboarding'' ''get-onboarding-status'' [(''requestId'', JStr requestId)]"

definition submitDocuments ::
  "account_schemas \<Rightarrow> ('c, 's) bff_request \<Rightarrow> string \<Rightarrow> string \<Rightarrow> json \<Rightarrow> ('c, 's, json option) bff" where
  "submitDocuments S b requestId customerId body = bnd (safeParse (as_documents S) body id) (\<lambda>documents.
     fetch b ''onboarding'' ''submit-documents''
       ([(''requestId'', JStr requestId), (''customerId'', JStr customerId), (''documents'', documents)] @ no_cache))"

section \<open>The consumption comparison\<close>

lemma js_round_near: "\<bar>of_int (js_round x) - x\<bar> \<le> 1 / 2"
proof -
  have "of_int (js_round x) \<le> x + 1 / 2" "x + 1 / 2 < of_int (js_round x) + 1"
    unfolding js_round_def using floor_correct [of "x + 1 / 2"] by simp_all
  then show ?thesis by linarith
qed

lemma hundredths: "\<bar>n - e * 100\<bar> \<le> 1 / 2 \<Longrightarrow> \<bar>n / 100 - e\<bar> \<le> 1 / 200" for n e :: rat
  by (auto simp: abs_le_iff field_simps)

lemma js_round_sign: "js_round x > 0 \<longleftrightarrow> x \<ge> 1 / 2" "js_round x < 0 \<longleftrightarrow> x < - 1 / 2"
  unfolding js_round_def by (simp_all add: less_floor_iff floor_less_iff) linarith+

lemma direction_of_change:
  fixes e :: rat
  shows "change_direction (Percent (of_int (js_round (e * 100)) / 100)) = Up \<longleftrightarrow> e \<ge> 1 / 200"
    "change_direction (Percent (of_int (js_round (e * 100)) / 100)) = Down \<longleftrightarrow> e < - 1 / 200"
proof -
  have "change_direction (Percent (of_int n / 100)) = Up \<longleftrightarrow> 0 < n" "change_direction (Percent (of_int n / 100)) = Down \<longleftrightarrow> n < 0" for n
    by (auto simp: change_direction_def)
  moreover have "1 / 2 \<le> e * 100 \<longleftrightarrow> 1 / 200 \<le> e" "e * 100 < - 1 / 2 \<longleftrightarrow> e < - 1 / 200" by linarith+
  ultimately show "change_direction (Percent (of_int (js_round (e * 100)) / 100)) = Up \<longleftrightarrow> e \<ge> 1 / 200"
    "change_direction (Percent (of_int (js_round (e * 100)) / 100)) = Down \<longleftrightarrow> e < - 1 / 200"
    using js_round_sign [of "e * 100"] by simp_all
qed

text \<open>
  The comparison of two periods is accurate. When the previous volume is positive, the reported
  change is within half a hundredth of a percent of the exact one, and the reported direction is up
  exactly when the consumption rose by at least that much, down exactly when it fell by more than
  that, and neutral otherwise; with no previous consumption the change is absent and the direction
  neutral.
\<close>

lemma comparison_accurate:
  assumes "getConsumptionComparison S b customerId cur prev w = (Inr res, w')"
    and "json_get ''currentVolume'' (cr_raw res) = Some (JNum c)" "json_get ''previousVolume'' (cr_raw res) = Some (JNum p)"
  shows "(p = 0 \<longrightarrow> cr_percentageChange res = NoBase \<and> cr_direction res = Neutral) \<and>
    (0 < p \<longrightarrow> (\<exists>x. cr_percentageChange res = Percent x \<and> \<bar>x - of_int (c - p) / of_int p * 100\<bar> \<le> 1 / 200 \<and>
      (cr_direction res = Up \<longleftrightarrow> of_int (c - p) / of_int p * 100 \<ge> (1 / 200 :: rat)) \<and>
      (cr_direction res = Down \<longleftrightarrow> of_int (c - p) / of_int p * 100 < (- 1 / 200 :: rat))))"
proof -
  from assms(1) have res: "cr_percentageChange res = percentageChange (json_get ''currentVolume'' (cr_raw res)) (json_get ''previousVolume'' (cr_raw res))"
    "cr_direction res = change_direction (cr_percentageChange res)"
    by (auto simp: getConsumptionComparison_def bff_Inr Let_def throw_app split: if_splits)
  let ?exact = "of_int (c - p) / of_int p * 100 :: rat"
  let ?n = "js_round (?exact * 100)"
  have "p = 0 \<Longrightarrow> cr_percentageChange res = NoBase \<and> cr_direction res = Neutral"
    by (simp add: res assms(3) percentageChange_def change_direction_def)
  moreover have "\<exists>x. cr_percentageChange res = Percent x \<and> \<bar>x - ?exact\<bar> \<le> 1 / 200 \<and>
      (cr_direction res = Up \<longleftrightarrow> ?exact \<ge> 1 / 200) \<and> (cr_direction res = Down \<longleftrightarrow> ?exact < - 1 / 200)" if "0 < p"
  proof (intro exI conjI)
    show x: "cr_percentageChange res = Percent (of_int ?n / 100)"
      using that by (simp add: res(1) assms(2,3) percentageChange_def)
    show "\<bar>of_int ?n / 100 - ?exact\<bar> \<le> 1 / 200" by (rule hundredths) (rule js_round_near)
    show "cr_direction res = Up \<longleftrightarrow> ?exact \<ge> 1 / 200" "cr_direction res = Down \<longleftrightarrow> ?exact < - 1 / 200"
      unfolding res(2) x by (rule direction_of_change)+
  qed
  ultimately show ?thesis by blast
qed

text \<open>Consumption rose from 12 to 13: 8.33 percent.\<close>

definition usage_schemas_demo :: usage_schemas where
  "usage_schemas_demo = \<lparr>us_meterId = (\<lambda>j. Inr []), us_period = (\<lambda>j. Inr []), us_comparison = (\<lambda>j. Inr ())\<rparr>"

definition readings_demo :: "unit port_adapter" where
  "readings_demo ctx m ps = ret (JObj [(''currentVolume'', JNum 13), (''previousVolume'', JNum 12)])"

section \<open>An update shows its effect\<close>

text \<open>
  After an update that the service answered, the profile returned is not taken from the in-process
  cache: it is a fresh answer or one marked as degraded.
\<close>

lemma update_mutates: "isMutationMethod ''update-profile''"
  by (simp add: isMutationMethod_def mutation_verbs_def starts_with_def)

lemma updated_profile_fresh:
  assumes "pd_cache (bf_deps b) = memory_cache_service" "map_of (pw_ports w) ''customer-profile'' = Some entry"
    and "CHR ''*'' \<notin> set (mc_keyPrefix (pw_cache w))" "CHR ''?'' \<notin> set (mc_keyPrefix (pw_cache w))"
    and "\<And>x. list_all js_dot (pd_sha256 (bf_deps b) x)"
    and "updateProfile S b customerId body w = (Inr v, w')"
  shows "\<exists>data r1 w1 r2. callPort b 0 ''customer-profile'' ''update-profile'' (customer customerId @ [(''data'', JObj data)]) w = (Inr r1, w1) \<and>
    callPort b 1 ''customer-profile'' ''get-profile'' (customer customerId) w1 = (Inr r2, w') \<and> v = pr_data r2 \<and>
    (pr_metadata r1 = None \<longrightarrow> pr_metadata r2 = None \<or> (\<exists>md. pr_metadata r2 = Some md \<and> md_degraded md = Some True))"
proof -
  from assms(6) obtain data r1 w1 r2 where
    r1: "callPort b 0 ''customer-profile'' ''update-profile'' (customer customerId @ [(''data'', JObj data)]) w = (Inr r1, w1)"
    and r2: "callPort b 1 ''customer-profile'' ''get-profile'' (customer customerId) w1 = (Inr r2, w')" "v = pr_data r2"
    unfolding updateProfile_def bnd_Inr seq_Inr ret_Inr safeParse_Inr by blast
  have answer: "fst (execute (bf_deps b) (bf_ctx b) (fst (bf_time b 1)) (snd (bf_time b 1)) ''customer-profile'' ''get-profile''
      (customer customerId) None w1) = Inr r2"
    using r2(1) [unfolded callPort_Inr] by simp
  have "pr_metadata r2 = None \<or> (\<exists>md. pr_metadata r2 = Some md \<and> md_degraded md = Some True)" if "pr_metadata r1 = None"
    by (rule fresh_after_write [OF assms(1,2) update_mutates r1 [unfolded callPort_Inr] that _ _ assms(5) answer])
      (use assms(3,4) in simp_all)
  with r1 r2 show ?thesis
    by (intro exI [of _ data] exI [of _ r1] exI [of _ w1] exI [of _ r2] conjI impI)
qed

text \<open>
  Two operations that change state downstream are not among the verbs of the registry: an alert that
  is acknowledged and a triage are treated as cacheable reads, whatever \<open>useCache\<close> says.
\<close>

lemma writes_cached_as_reads:
  "should_cache ''acknowledge-alert'' entry = should_cache ''get-active-alerts'' entry"
  "should_cache ''gis-triage'' entry = should_cache ''get-incidents'' entry"
  by (simp_all add: should_cache_def isMutationMethod_def mutation_verbs_def starts_with_def)

end
