(* ===== verification/Idempotency.thy ===== *)
theory Idempotency
  imports Json Memory_Cache
begin

text \<open>
  Idempotent execution of commands: the service that remembers results
  (src/libs/shared/idempotency/idempotency.service.ts) and the method decorator built on it
  (idempotent.decorator.ts). Results are kept in the injected cache or, without one, in a map of the
  service. A stored result is a JSON object; \<open>is_datesKept\<close> says whether the cache hands back
  the stored object itself, with its dates, as the in-process cache does, or a copy parsed from JSON
  in which the dates have become strings, as the Redis cache does.
\<close>

section \<open>The service\<close>

record idem_options =
  io_ttlSeconds :: "int option"
  io_keyPrefix :: "string option"
  io_returnCachedResult :: "bool option"

record 'c idem_service =
  is_cache :: "('c, json) ICacheService option"
  is_datesKept :: bool

type_synonym idem_memory = "(string, json \<times> msec) jsmap"

definition DEFAULT_TTL :: int where
  "DEFAULT_TTL = 3600"

definition idem_cacheKey :: "string \<Rightarrow> idem_options option \<Rightarrow> string" where
  "idem_cacheKey idempotencyKey options =
     js_nullish (Option.bind options io_keyPrefix) ''idempotency'' @ '':'' @ idempotencyKey"

definition idempotency_result :: "msec \<Rightarrow> int \<Rightarrow> json option \<Rightarrow> string \<Rightarrow> json" where
  "idempotency_result now ttl result commandType =
     JObj (jopt ''result'' result @ [(''storedAt'', JStr (toISOString now)),
       (''expiresAt'', JStr (toISOString (now + ttl * 1000))), (''commandType'', JStr commandType)])"

text \<open>
  The log line of a hit calls \<^verbatim>\<open>toISOString\<close> on \<^verbatim>\<open>storedAt\<close> inside the try block: where that is
  no date the call throws, the error is logged, and the lookup ends as a miss.
\<close>

definition stored_hit :: "bool \<Rightarrow> json option \<Rightarrow> json option" where
  "stored_hit datesKept cached =
     (case cached of
        None \<Rightarrow> None
      | Some v \<Rightarrow> if json_truthy v \<and> datesKept \<and> json_get ''storedAt'' v \<noteq> None then Some v else None)"

definition getExisting ::
  "'c idem_service \<Rightarrow> msec \<Rightarrow> string \<Rightarrow> idem_options option \<Rightarrow> 'c \<times> idem_memory \<Rightarrow>
   json option \<times> 'c \<times> idem_memory" where
  "getExisting svc now idempotencyKey options = (\<lambda>(c, m).
     let cacheKey = idem_cacheKey idempotencyKey options in
     case is_cache svc of
       Some ic \<Rightarrow> (case ic_get ic now cacheKey c of (cached, c') \<Rightarrow> (stored_hit (is_datesKept svc) cached, c', m))
     | None \<Rightarrow> (case map_of m cacheKey of
           None \<Rightarrow> (None, c, m)
         | Some (result, expiresAt) \<Rightarrow>
             if expiresAt > now then (Some result, c, m) else (None, c, AList.delete cacheKey m)))"

definition cleanupMemoryStore :: "msec \<Rightarrow> idem_memory \<Rightarrow> idem_memory" where
  "cleanupMemoryStore now m = filter (\<lambda>(k, result, expiresAt). \<not> expiresAt < now) m"

definition idem_save ::
  "'c idem_service \<Rightarrow> msec \<Rightarrow> string \<Rightarrow> json option \<Rightarrow> string \<Rightarrow> idem_options option \<Rightarrow>
   'c \<times> idem_memory \<Rightarrow> 'c \<times> idem_memory" where
  "idem_save svc now idempotencyKey result commandType options = (\<lambda>(c, m).
     let cacheKey = idem_cacheKey idempotencyKey options;
         ttl = js_nullish (Option.bind options io_ttlSeconds) DEFAULT_TTL;
         entry = idempotency_result now ttl result commandType in
     case is_cache svc of
       Some ic \<Rightarrow> (snd (ic_set ic now cacheKey entry (Some ttl) c), m)
     | None \<Rightarrow> (c, cleanupMemoryStore now (AList.update cacheKey (entry, now + ttl * 1000) m)))"

definition idem_remove :: "'c idem_service \<Rightarrow> string \<Rightarrow> idem_options option \<Rightarrow> 'c \<times> idem_memory \<Rightarrow> 'c \<times> idem_memory" where
  "idem_remove svc idempotencyKey options = (\<lambda>(c, m).
     let cacheKey = idem_cacheKey idempotencyKey options in
     case is_cache svc of Some ic \<Rightarrow> (ic_delete ic cacheKey c, m) | None \<Rightarrow> (c, AList.delete cacheKey m))"

section \<open>The decorator\<close>

definition on_idem :: "('m \<Rightarrow> 'a \<times> 'm) \<Rightarrow> ('m \<times> 's, 'e, 'a) async" where
  "on_idem f = (\<lambda>(m, s). case f m of (a, m') \<Rightarrow> (Inr a, m', s))"

definition duplicate_error :: "string \<Rightarrow> js_error" where
  "duplicate_error key = new_Error (''Duplicate command detected: '' @ key)"

definition Idempotent ::
  "'c idem_service option \<Rightarrow> idem_options option \<Rightarrow> msec \<Rightarrow> msec \<Rightarrow> string option \<Rightarrow> string \<Rightarrow>
   (('c \<times> idem_memory) \<times> 's, js_error, json option) async \<Rightarrow>
   (('c \<times> idem_memory) \<times> 's, js_error, json option) async" where
  "Idempotent svc options t0 t1 idempotencyKey commandType originalMethod =
     (case svc of
        None \<Rightarrow> originalMethod
      | Some service \<Rightarrow>
          if \<not> truthy_str idempotencyKey then originalMethod
          else
            bnd (on_idem (getExisting service t0 (the idempotencyKey) options)) (\<lambda>existing.
              case existing of
                Some entry \<Rightarrow>
                  if Option.bind options io_returnCachedResult \<noteq> Some False then ret (json_get ''result'' entry)
                  else throw (duplicate_error (the idempotencyKey))
              | None \<Rightarrow>
                  bnd originalMethod (\<lambda>result.
                    seq (on_idem (\<lambda>m. ((), idem_save service t1 (the idempotencyKey) result commandType options m)))
                        (ret result))))"

section \<open>A saved result is found again\<close>

lemma result_found [simp]:
  "json_truthy (idempotency_result now ttl result ct)" "json_get ''storedAt'' (idempotency_result now ttl result ct) \<noteq> None"
  "json_get ''result'' (idempotency_result now ttl result ct) = result"
  by (auto simp: idempotency_result_def jopt_def split: option.splits)

text \<open>Without dates the service never finds anything, whatever was saved.\<close>

lemma no_dates_no_hit:
  "is_cache svc = Some ic \<Longrightarrow> \<not> is_datesKept svc \<Longrightarrow> fst (getExisting svc now key options s) = None"
  by (cases s) (auto simp: getExisting_def Let_def stored_hit_def split: prod.splits option.splits)

locale idem_cache = reliable_cache ic view free
  for ic :: "('c, json) ICacheService" and view :: "msec \<Rightarrow> 'c \<Rightarrow> string \<Rightarrow> json option" and free :: "'c \<Rightarrow> nat"
begin

text \<open>A cache serves a saved result for its time to live.\<close>

lemma saved_found:
  assumes "is_cache svc = Some ic" "is_datesKept svc" "0 \<le> now" "0 < free c"
    and "0 < js_nullish (Option.bind options io_ttlSeconds) DEFAULT_TTL"
    and "t \<le> now + js_nullish (Option.bind options io_ttlSeconds) DEFAULT_TTL * 1000"
  shows "\<exists>v. fst (getExisting svc t key options (idem_save svc now key result ct options (c, m))) = Some v \<and>
    json_get ''result'' v = result"
proof -
  let ?ttl = "js_nullish (Option.bind options io_ttlSeconds) DEFAULT_TTL"
  let ?c = "snd (ic_set ic now (idem_cacheKey key options) (idempotency_result now ?ttl result ct) (Some ?ttl) c)"
  have "fst (ic_get ic t (idem_cacheKey key options) ?c) = Some (idempotency_result now ?ttl result ct)"
    using assms(3-6) by (simp add: read_back)
  then show ?thesis
    using assms(1,2) by (auto simp: getExisting_def idem_save_def Let_def stored_hit_def split: prod.splits)
qed

end

interpretation memidem: idem_cache memory_cache_service mc_view mc_free
  by unfold_locales

end
