(* ===== verification/Payment.thy ===== *)
theory Payment
  imports Bff Idempotency
begin

text \<open>
  The payment service (src/modules/payment/payment.service.ts): creation of single and batch payments
  after the invoices have been verified, auto debit, debt queries, and the webhook that reports the
  outcome of a payment. It works through the ports \<open>invoice\<close>, \<open>payment\<close>, \<open>debt\<close> and
  \<open>notification\<close> of the registry, the cache and the idempotency service.
\<close>

section \<open>Requests\<close>

datatype webhook_status = PaymentSuccess | PaymentFailed

record webhook_payload =
  wp_paymentId :: string
  wp_invoiceId :: string
  wp_customerId :: string
  wp_amount :: int
  wp_status :: webhook_status

record payment_schemas =
  ps_createPayment :: "(string \<times> string) schema"  \<comment> \<open>invoice id and method\<close>
  ps_createBatch :: "(string list \<times> string) schema"
  ps_history :: "params schema"
  ps_autoDebit :: "json schema"  \<comment> \<open>the bank account\<close>
  ps_webhook :: "webhook_payload schema"

definition em_dash :: string where
  "em_dash = [CHR 0xE2, CHR 0x80, CHR 0x94]"

definition js_opt_string :: "json option \<Rightarrow> string" where
  "js_opt_string v = (case v of None \<Rightarrow> ''undefined'' | Some j \<Rightarrow> js_string j)"

section \<open>Creating payments\<close>

text \<open>The invoice must exist and be unpaid; single and batch payments check it in the same way.\<close>

definition invoice_params :: "string \<Rightarrow> string \<Rightarrow> params" where
  "invoice_params invoiceId customerId =
     [(''invoiceId'', JStr invoiceId), (''customerId'', JStr customerId), (''useCache'', JBool False)]"

definition unpaid :: "json \<Rightarrow> bool" where
  "unpaid invoice = (json_get ''paymentStatus'' invoice = Some (JStr ''unpaid''))"

definition not_payable :: "string \<Rightarrow> json \<Rightarrow> app_error" where
  "not_payable invoiceId invoice = ForbiddenException (''Invoice '' @ invoiceId
     @ '' is not available for payment. Current status: '' @ js_opt_string (json_get ''paymentStatus'' invoice))"

definition verifyInvoice ::
  "('c, 's) bff_request \<Rightarrow> nat \<Rightarrow> string \<Rightarrow> string \<Rightarrow> ('c, 's, json) bff" where
  "verifyInvoice b n customerId invoiceId =
     bnd (callPort b n ''invoice'' ''get-by-id'' (invoice_params invoiceId customerId)) (\<lambda>result.
     bnd (data_or (NotFoundException (''Invoice '' @ invoiceId @ '' not found'')) (pr_data result)) (\<lambda>invoice.
       if unpaid invoice then ret invoice else throw (not_payable invoiceId invoice)))"

definition submitPayment ::
  "('c, 's) bff_request \<Rightarrow> string \<Rightarrow> string \<Rightarrow> string \<Rightarrow> json option \<Rightarrow> ('c, 's, json) bff" where
  "submitPayment b customerId invoiceId method amount =
     bnd (callPort b 1 ''payment'' ''create-payment''
            ([(''invoiceId'', JStr invoiceId), (''customerId'', JStr customerId), (''method'', JStr method)]
             @ jopt ''amount'' amount)) (\<lambda>result.
       data_or (NotFoundException (''Payment creation failed for invoice '' @ invoiceId @ '' '' @ em_dash
         @ '' no response from payment service'')) (pr_data result))"

definition createPayment ::
  "payment_schemas \<Rightarrow> ('c, 's) bff_request \<Rightarrow> string \<Rightarrow> json \<Rightarrow> ('c, 's, json) bff" where
  "createPayment S b customerId body =
     bnd (safeParse (ps_createPayment S) body (\<lambda>_. ''Invalid payment request'')) (\<lambda>(invoiceId, method).
     bnd (verifyInvoice b 0 customerId invoiceId) (\<lambda>invoice.
       submitPayment b customerId invoiceId method (json_get ''totalAmount'' invoice)))"

text \<open>The running total of a batch: \<^verbatim>\<open>+=\<close> on whatever the amounts are.\<close>

datatype js_sum = SumNum int | SumNaN | SumText string

fun js_plus :: "js_sum \<Rightarrow> json option \<Rightarrow> js_sum" where
  "js_plus (SumNum a) None = SumNaN"
| "js_plus (SumNum a) (Some (JNum n)) = SumNum (a + n)"
| "js_plus (SumNum a) (Some JNull) = SumNum a"
| "js_plus (SumNum a) (Some (JBool x)) = SumNum (a + of_bool x)"
| "js_plus (SumNum a) (Some j) = SumText (js_int_str a @ js_string j)"
| "js_plus SumNaN None = SumNaN"
| "js_plus SumNaN (Some (JNum n)) = SumNaN"
| "js_plus SumNaN (Some JNull) = SumNaN"
| "js_plus SumNaN (Some (JBool x)) = SumNaN"
| "js_plus SumNaN (Some j) = SumText (''NaN'' @ js_string j)"
| "js_plus (SumText t) v = SumText (t @ js_opt_string v)"

fun sum_json :: "js_sum \<Rightarrow> json" where
  "sum_json (SumNum n) = JNum n"
| "sum_json SumNaN = JNull"  \<comment> \<open>as it is serialised\<close>
| "sum_json (SumText t) = JStr t"

fun verifyInvoices ::
  "('c, 's) bff_request \<Rightarrow> nat \<Rightarrow> string \<Rightarrow> string list \<Rightarrow> js_sum \<Rightarrow> ('c, 's, js_sum) bff" where
  "verifyInvoices b n customerId [] totalAmount = ret totalAmount"
| "verifyInvoices b n customerId (invoiceId # invoiceIds) totalAmount =
     bnd (verifyInvoice b n customerId invoiceId) (\<lambda>invoice.
       verifyInvoices b (Suc n) customerId invoiceIds (js_plus totalAmount (json_get ''totalAmount'' invoice)))"

definition no_paymentId :: "json option \<Rightarrow> app_error" where
  "no_paymentId v = TypeErrorException (''Cannot read properties of ''
     @ (if v = None then ''undefined'' else ''null'') @ '' (reading 'paymentId')'')"

definition batch_params :: "string list \<Rightarrow> string \<Rightarrow> string \<Rightarrow> js_sum \<Rightarrow> params" where
  "batch_params invoiceIds customerId method totalAmount =
     [(''invoiceIds'', JArr (map JStr invoiceIds)), (''customerId'', JStr customerId),
      (''method'', JStr method), (''totalAmount'', sum_json totalAmount)]"

definition createBatchPayment ::
  "payment_schemas \<Rightarrow> ('c, 's) bff_request \<Rightarrow> string \<Rightarrow> json \<Rightarrow> ('c, 's, json) bff" where
  "createBatchPayment S b customerId body =
     bnd (safeParse (ps_createBatch S) body (\<lambda>_. ''Invalid batch payment request'')) (\<lambda>(invoiceIds, method).
     bnd (verifyInvoices b 0 customerId invoiceIds (SumNum 0)) (\<lambda>totalAmount.
     bnd (callPort b (length invoiceIds) ''payment'' ''create-batch-payment''
            (batch_params invoiceIds customerId method totalAmount)) (\<lambda>result.
       if json_present (pr_data result) then ret (the (pr_data result))
       else throw (no_paymentId (pr_data result)))))"

section \<open>Queries\<close>

definition getPaymentHistory ::
  "payment_schemas \<Rightarrow> ('c, 's) bff_request \<Rightarrow> string \<Rightarrow> json \<Rightarrow> ('c, 's, json) bff" where
  "getPaymentHistory S b customerId query =
     bnd (safeParse (ps_history S) query (\<lambda>_. ''Invalid query parameters'')) (\<lambda>filters.
       fetch_or b ''payment'' ''get-payment-history''
         [(''customerId'', JStr customerId), (''filters'', JObj filters)]
         (NotFoundException (''Payment history not available for customer '' @ customerId)))"

definition setupAutoDebit ::
  "payment_schemas \<Rightarrow> ('c, 's) bff_request \<Rightarrow> string \<Rightarrow> json \<Rightarrow> ('c, 's, json) bff" where
  "setupAutoDebit S b customerId body =
     bnd (safeParse (ps_autoDebit S) body (\<lambda>_. ''Invalid auto debit request'')) (\<lambda>bankAccount.
       fetch_or b ''payment'' ''setup-auto-debit''
         [(''customerId'', JStr customerId), (''bankAccount'', bankAccount)]
         (NotFoundException (''Auto debit registration failed '' @ em_dash @ '' no response from payment service'')))"

definition getOutstandingDebt :: "('c, 's) bff_request \<Rightarrow> string \<Rightarrow> ('c, 's, json) bff" where
  "getOutstandingDebt b customerId =
     fetch_or b ''debt'' ''get-outstanding-debt'' (customer customerId) (PortError (PortFallbackException ''debt'' None))"

definition getDebtHistory :: "('c, 's) bff_request \<Rightarrow> string \<Rightarrow> ('c, 's, json) bff" where
  "getDebtHistory b customerId =
     fetch_or b ''debt'' ''get-debt-history'' (customer customerId) (PortError (PortFallbackException ''debt'' None))"

section \<open>The webhook\<close>

record webhook_result =
  wr_processed :: bool
  wr_paymentId :: string
  wr_status :: string

definition webhook_json :: "webhook_result \<Rightarrow> json" where
  "webhook_json r = JObj [(''processed'', JBool (wr_processed r)), (''paymentId'', JStr (wr_paymentId r)),
     (''status'', JStr (wr_status r))]"

definition status_str :: "webhook_status \<Rightarrow> string" where
  "status_str s = (case s of PaymentSuccess \<Rightarrow> ''success'' | PaymentFailed \<Rightarrow> ''failed'')"

definition cache_op :: "('c \<Rightarrow> 'a \<times> 'c) \<Rightarrow> ('c, 's, 'a) bff" where
  "cache_op f = (\<lambda>w. case f (pw_cache w) of (a, c) \<Rightarrow> (Inr a, w\<lparr>pw_cache := c\<rparr>))"

text \<open>The idempotency service is injected with the application's cache.\<close>

definition webhook_service :: "('c, 's) bff_request \<Rightarrow> bool \<Rightarrow> 'c idem_service" where
  "webhook_service b datesKept = \<lparr>is_cache = Some (pd_cache (bf_deps b)), is_datesKept = datesKept\<rparr>"

definition webhook_seen ::
  "('c, 's) bff_request \<Rightarrow> bool \<Rightarrow> string \<Rightarrow> ('c, 's, json option) bff" where
  "webhook_seen b datesKept paymentId = cache_op (\<lambda>c.
     case getExisting (webhook_service b datesKept) (fst (bf_time b 0)) paymentId None (c, []) of (r, c', m) \<Rightarrow> (r, c'))"

definition webhook_save ::
  "('c, 's) bff_request \<Rightarrow> bool \<Rightarrow> webhook_result \<Rightarrow> ('c, 's, unit) bff" where
  "webhook_save b datesKept r = cache_op (\<lambda>c.
     ((), fst (idem_save (webhook_service b datesKept) (fst (bf_time b 2)) (wr_paymentId r) (Some (webhook_json r))
        ''HandlePaymentWebhook'' None (c, []))))"

definition invalidate :: "('c, 's) bff_request \<Rightarrow> string \<Rightarrow> ('c, 's, nat) bff" where
  "invalidate b pattern =
     bnd (cache_op (ic_deleteByPattern (pd_cache (bf_deps b)) pattern)) (\<lambda>deleted.
       case deleted of None \<Rightarrow> throw (CacheException pattern) | Some n \<Rightarrow> ret n)"

definition payment_notice :: "webhook_payload \<Rightarrow> params" where
  "payment_notice p =
     (case wp_status p of
        PaymentSuccess \<Rightarrow>
          [(''customerId'', JStr (wp_customerId p)), (''type'', JStr ''payment_completed''), (''isCritical'', JBool True),
           (''invoiceId'', JStr (wp_invoiceId p)), (''amount'', JNum (wp_amount p)),
           (''metadata'', JObj [(''paymentId'', JStr (wp_paymentId p))])]
      | PaymentFailed \<Rightarrow>
          [(''customerId'', JStr (wp_customerId p)), (''type'', JStr ''payment_failed''), (''isCritical'', JBool True),
           (''invoiceId'', JStr (wp_invoiceId p)),
           (''metadata'', JObj [(''paymentId'', JStr (wp_paymentId p)), (''status'', JStr ''failed'')])])"

definition notify :: "('c, 's) bff_request \<Rightarrow> webhook_payload \<Rightarrow> ('c, 's, unit) bff" where
  "notify b p = try_catch
     (seq (callPort b 1 ''notification'' ''dispatch-notification'' (payment_notice p)) (ret ())) (\<lambda>_. ret ())"

definition handleWebhook ::
  "payment_schemas \<Rightarrow> ('c, 's) bff_request \<Rightarrow> bool \<Rightarrow> json \<Rightarrow> ('c, 's, webhook_result) bff" where
  "handleWebhook S b datesKept body =
     bnd (safeParse (ps_webhook S) body (\<lambda>_. ''Invalid payment webhook payload'')) (\<lambda>payload.
     bnd (webhook_seen b datesKept (wp_paymentId payload)) (\<lambda>existing.
       if existing \<noteq> None
       then ret \<lparr>wr_processed = False, wr_paymentId = wp_paymentId payload, wr_status = ''duplicate''\<rparr>
       else
         let result = \<lparr>wr_processed = True, wr_paymentId = wp_paymentId payload,
                       wr_status = status_str (wp_status payload)\<rparr> in
         seq (case wp_status payload of
                PaymentSuccess \<Rightarrow>
                  seq (invalidate b ''cache:v2:port:invoice:*'')
                 (seq (invalidate b ''cache:v2:port:debt:*'') (notify b payload))
              | PaymentFailed \<Rightarrow> notify b payload)
        (seq (webhook_save b datesKept result) (ret result))))"

section \<open>A batch is verified before it is paid\<close>

text \<open>The reads of a run of invoices that were all reported unpaid, from one state to another.\<close>

inductive verified ::
  "('c, 's) bff_request \<Rightarrow> string \<Rightarrow> nat \<Rightarrow> string list \<Rightarrow> json list \<Rightarrow> ('c, 's) port_world \<Rightarrow> ('c, 's) port_world \<Rightarrow> bool"
  for b customerId where
  none: "verified b customerId n [] [] w w"
| invoice: "verified b customerId n (i # is) (v # vs) w w2"
    if "execute (bf_deps b) (bf_ctx b) (fst (bf_time b n)) (snd (bf_time b n)) ''invoice'' ''get-by-id''
        (invoice_params i customerId) None w = (Inr r, w1)"
      "pr_data r = Some v" "unpaid v" "verified b customerId (Suc n) is vs w1 w2"

lemma unpaid_truthy: "unpaid v \<Longrightarrow> json_truthy v"
  by (cases v) (simp_all add: unpaid_def)

lemma verifyInvoice_Inr:
  "verifyInvoice b n customerId i w = (Inr v, w') \<longleftrightarrow>
   (\<exists>r. execute (bf_deps b) (bf_ctx b) (fst (bf_time b n)) (snd (bf_time b n)) ''invoice'' ''get-by-id''
      (invoice_params i customerId) None w = (Inr r, w') \<and> pr_data r = Some v \<and> unpaid v)"
  unfolding verifyInvoice_def bff_Inr
  by (auto simp: async_simps opt_truthy_def unpaid_truthy split: if_splits option.splits)

text \<open>A failing check ends in the state that its read of the invoice port left.\<close>

lemma verifyInvoice_Inl:
  "verifyInvoice b n customerId i w = (Inl e, w') \<Longrightarrow>
   w' = snd (execute (bf_deps b) (bf_ctx b) (fst (bf_time b n)) (snd (bf_time b n)) ''invoice'' ''get-by-id''
      (invoice_params i customerId) None w)"
  unfolding verifyInvoice_def callPort_def
  by (auto simp: async_simps data_or_def split: prod.splits sum.splits if_splits)

lemma verifyInvoices_cases:
  assumes "verifyInvoices b n customerId ids totalAmount w = (res, w')"
  shows "(\<exists>vs. verified b customerId n ids vs w w' \<and> res = Inr (fold (\<lambda>v s. js_plus s (json_get ''totalAmount'' v)) vs totalAmount)) \<or>
    (\<exists>front i rest vs w1 e. ids = front @ i # rest \<and> verified b customerId n front vs w w1 \<and> res = Inl e \<and>
      w' = snd (execute (bf_deps b) (bf_ctx b) (fst (bf_time b (n + length front))) (snd (bf_time b (n + length front)))
        ''invoice'' ''get-by-id'' (invoice_params i customerId) None w1))"
  using assms
proof (induction ids arbitrary: n totalAmount w)
  case Nil
  then show ?case by (auto simp: async_simps intro: verified.none)
next
  case (Cons i ids)
  obtain x w1 where check: "verifyInvoice b n customerId i w = (x, w1)" by fastforce
  show ?case
  proof (cases x)
    case (Inl e)
    with check Cons.prems have "res = Inl e" "w' = w1" by (simp_all add: async_simps)
    with verifyInvoice_Inl [of b n customerId i w e w1] check Inl
    have "i # ids = [] @ i # ids \<and> verified b customerId n [] [] w w \<and> res = Inl e \<and>
      w' = snd (execute (bf_deps b) (bf_ctx b) (fst (bf_time b (n + length []))) (snd (bf_time b (n + length [])))
        ''invoice'' ''get-by-id'' (invoice_params i customerId) None w)"
      by (simp add: verified.none)
    then show ?thesis by blast
  next
    case (Inr v)
    with check Cons.prems have rest: "verifyInvoices b (Suc n) customerId ids
        (js_plus totalAmount (json_get ''totalAmount'' v)) w1 = (res, w')"
      by (simp add: async_simps)
    have step: "verified b customerId n (i # is) (v # vs) w w2" if "verified b customerId (Suc n) is vs w1 w2" for "is" vs w2
      using check Inr that by (auto simp: verifyInvoice_Inr intro: verified.invoice)
    from Cons.IH [OF rest] show ?thesis
    proof (elim disjE exE conjE)
      fix vs
      assume "verified b customerId (Suc n) ids vs w1 w'"
        "res = Inr (fold (\<lambda>v s. js_plus s (json_get ''totalAmount'' v)) vs (js_plus totalAmount (json_get ''totalAmount'' v)))"
      then show ?thesis using step by (intro disjI1 exI [of _ "v # vs"]) simp
    next
      fix front j tail vs w2 e
      assume "ids = front @ j # tail" "verified b customerId (Suc n) front vs w1 w2" "res = Inl e"
        "w' = snd (execute (bf_deps b) (bf_ctx b) (fst (bf_time b (Suc n + length front))) (snd (bf_time b (Suc n + length front)))
          ''invoice'' ''get-by-id'' (invoice_params j customerId) None w2)"
      then show ?thesis
        using step
        by (intro disjI2 exI [of _ "i # front"] exI [of _ j] exI [of _ tail] exI [of _ "v # vs"] exI [of _ w2] exI [of _ e]) simp
    qed
  qed
qed

lemma total_of_numbers:
  "map (json_get ''totalAmount'') vs = map (Some \<circ> JNum) amounts \<Longrightarrow>
   fold (\<lambda>v s. js_plus s (json_get ''totalAmount'' v)) vs (SumNum a) = SumNum (a + sum_list amounts)"
  by (induction vs arbitrary: amounts a) (auto simp: add.assoc split: list.splits)

lemma snd_batch_call:
  "snd (bnd (callPort b n p m ps) (\<lambda>result. if json_present (pr_data result) then ret (the (pr_data result))
      else throw (no_paymentId (pr_data result))) w) =
   snd (execute (bf_deps b) (bf_ctx b) (fst (bf_time b n)) (snd (bf_time b n)) p m ps None w)"
  by (simp add: callPort_def async_simps split: prod.split sum.split)

text \<open>
  C18. No invoice is paid unverified. A batch payment reaches the payment service only after every
  invoice of the batch was read and reported unpaid, one read each and in order, and then it asks
  for the sum of the amounts that were read; when one of the reads fails or reports another status,
  the request fails in the state which that read left, and the payment service is not called.
\<close>

theorem batch_verified_before_payment:
  assumes "ps_createBatch S body = Inr (ids, method)" "createBatchPayment S b customerId body w = (res, w')"
  shows "(\<exists>vs w1 totalAmount. verified b customerId 0 ids vs w w1 \<and>
      (\<forall>amounts. map (json_get ''totalAmount'') vs = map (Some \<circ> JNum) amounts \<longrightarrow> totalAmount = SumNum (sum_list amounts)) \<and>
      w' = snd (execute (bf_deps b) (bf_ctx b) (fst (bf_time b (length ids))) (snd (bf_time b (length ids))) ''payment''
        ''create-batch-payment'' (batch_params ids customerId method totalAmount) None w1)) \<or>
    (\<exists>front i rest vs w1 e. ids = front @ i # rest \<and> verified b customerId 0 front vs w w1 \<and> res = Inl e \<and>
      w' = snd (execute (bf_deps b) (bf_ctx b) (fst (bf_time b (length front))) (snd (bf_time b (length front)))
        ''invoice'' ''get-by-id'' (invoice_params i customerId) None w1))"
proof -
  obtain x w1 where reads: "verifyInvoices b 0 customerId ids (SumNum 0) w = (x, w1)" by fastforce
  have run: "createBatchPayment S b customerId body w = (case x of
      Inl e \<Rightarrow> (Inl e, w1)
    | Inr totalAmount \<Rightarrow> bnd (callPort b (length ids) ''payment'' ''create-batch-payment'' (batch_params ids customerId method totalAmount))
        (\<lambda>result. if json_present (pr_data result) then ret (the (pr_data result)) else throw (no_paymentId (pr_data result))) w1)"
    using assms(1) reads by (simp add: createBatchPayment_def safeParse_def async_simps split: sum.splits)
  from verifyInvoices_cases [OF reads] show ?thesis
  proof (elim disjE exE conjE)
    fix vs
    let ?total = "fold (\<lambda>v s. js_plus s (json_get ''totalAmount'' v)) vs (SumNum 0)"
    assume ok: "verified b customerId 0 ids vs w w1" "x = Inr ?total"
    have "w' = snd (createBatchPayment S b customerId body w)" by (simp add: assms(2))
    also have "\<dots> = snd (execute (bf_deps b) (bf_ctx b) (fst (bf_time b (length ids))) (snd (bf_time b (length ids))) ''payment''
        ''create-batch-payment'' (batch_params ids customerId method ?total) None w1)"
      unfolding run ok(2) sum.case by (rule snd_batch_call)
    finally have w': "w' = \<dots>" .
    have "\<forall>amounts. map (json_get ''totalAmount'') vs = map (Some \<circ> JNum) amounts \<longrightarrow> ?total = SumNum (sum_list amounts)"
      using total_of_numbers [of vs _ 0] by simp
    with ok(1) w' show ?thesis by (intro disjI1) blast
  next
    fix front i rest vs w2 e
    assume "ids = front @ i # rest" "verified b customerId 0 front vs w w2" "x = Inl e"
      "w1 = snd (execute (bf_deps b) (bf_ctx b) (fst (bf_time b (0 + length front))) (snd (bf_time b (0 + length front)))
        ''invoice'' ''get-by-id'' (invoice_params i customerId) None w2)"
    with run assms(2) show ?thesis
      by (intro disjI2 exI [of _ front] exI [of _ i] exI [of _ rest] exI [of _ vs] exI [of _ w2] exI [of _ e]) simp
  qed
qed

section \<open>Payments during an outage of the invoice service\<close>

text \<open>
  C19. During an outage of the invoice service a payment takes its amount from another invoice. When
  the last answer of the invoice port, given to any caller for any method and invoice, was an unpaid
  invoice, and the service then fails to answer the check of the invoice to be paid, the check
  succeeds with that other invoice, and the payment service is asked to collect its amount for the
  requested invoice.
\<close>

theorem outage_pays_wrong_amount:
  assumes "map_of (pw_ports w) ''invoice'' = Some entry"
    and "map_of (fp_fallbacks (pw_fallback w)) ''invoice'' = Some (port_fallback ''invoice'')" "fp_cache (pw_fallback w) \<noteq> None"
    and "pc_queuePolicy (pe_config entry) \<noteq> QAlways"
    and "execute (bf_deps b) ctx1 t0 t1 ''invoice'' m1 ps1 key1 w = (Inr r1, w1)" "pr_metadata r1 = None"
    and "pr_data r1 = Some other" "unpaid other"
    and "ps_createPayment S body = Inr (invoiceId, method)"
    and "\<not> json_present (fst (port_read (bf_deps b) (fst (bf_time b 0)) (should_cache ''get-by-id'' entry)
      (buildCacheKey (pd_sha256 (bf_deps b)) ''invoice'' ''get-by-id'' (invoice_params invoiceId customerId)) (pw_cache w1)))"
    and "adapter_of entry (choose_adapter (bf_deps b) ''invoice'' entry (pw_config w)) (bf_ctx b) ''get-by-id''
      (invoice_params invoiceId customerId) (pw_env w1) = (Inl e, s)"
  shows "\<exists>w2. createPayment S b customerId body w1 =
    submitPayment b customerId invoiceId method (json_get ''totalAmount'' other) w2"
proof -
  from assms(1,5) have first: "execute_entry (bf_deps b) ctx1 t0 t1 ''invoice'' entry m1 ps1 key1 w = (Inr r1, w1)"
    by (simp add: execute_is_entry)
  note after = answered_fallback [OF first assms(6,3)]
  have "other \<noteq> JNull" using unpaid_truthy [OF assms(8)] by auto
  then have "\<exists>r md. fst (execute_entry (bf_deps b) (bf_ctx b) (fst (bf_time b 0)) (snd (bf_time b 0)) ''invoice'' entry
      ''get-by-id'' (invoice_params invoiceId customerId) None w1) = Inr r \<and>
     pr_data r = Some other \<and> pr_metadata r = Some md \<and> md_degraded md = Some True"
    using assms(2,4,7,10,11) after by (intro failing_served) simp_all
  then obtain r w2 where "execute (bf_deps b) (bf_ctx b) (fst (bf_time b 0)) (snd (bf_time b 0)) ''invoice''
      ''get-by-id'' (invoice_params invoiceId customerId) None w1 = (Inr r, w2)" "pr_data r = Some other"
    using assms(1) after(3) by (metis execute_is_entry prod.collapse)
  with assms(8) have "verifyInvoice b 0 customerId invoiceId w1 = (Inr other, w2)"
    by (auto simp: verifyInvoice_Inr)
  with assms(9) show ?thesis
    by (auto simp: createPayment_def safeParse_def async_simps)
qed

section \<open>The webhook and the in-process cache\<close>

text \<open>Every step of the webhook but the last leaves in the cache at most what was there.\<close>

definition mc_shrinks :: "'v memory_cache \<Rightarrow> 'v memory_cache \<Rightarrow> bool" where
  "mc_shrinks c c' \<longleftrightarrow> mc_free c \<le> mc_free c' \<and> mc_keyPrefix c' = mc_keyPrefix c \<and>
     (\<forall>t k. mc_view t c' k = None \<or> mc_view t c' k = mc_view t c k)"

definition shrinks :: "(json memory_cache, 's) port_world \<Rightarrow> (json memory_cache, 's) port_world \<Rightarrow> bool" where
  "shrinks w w' \<longleftrightarrow> mc_shrinks (pw_cache w) (pw_cache w')"

interpretation shr: evolution shrinks
  by unfold_locales (auto simp: shrinks_def mc_shrinks_def intro: order_trans, metis)

lemma mc_deleteByPattern_fields:
  "mc_free c \<le> mc_free (snd (mc_deleteByPattern pat c))" "mc_keyPrefix (snd (mc_deleteByPattern pat c)) = mc_keyPrefix c"
  by (auto simp: mc_deleteByPattern_def mc_free_def Let_def intro: diff_le_mono2)

lemma mc_get_fields: "mc_keyPrefix (snd (mc_get t k c)) = mc_keyPrefix c"
  by (auto simp: mc_get_def Let_def split: option.splits)

lemma mc_get_shrinks: "mc_shrinks c (snd (mc_get t k c))"
proof -
  have "mc_view t' (snd (mc_get t k c)) k' = None \<or> mc_view t' (snd (mc_get t k c)) k' = mc_view t' c k'" for t' k'
    by (auto simp: mc_get_def mc_view_def Let_def jsmap_simps split: option.splits)
  then show ?thesis by (simp add: mc_shrinks_def mc_get_free mc_get_fields)
qed

lemma mc_pattern_shrinks: "mc_shrinks c (snd (mc_deleteByPattern pat c))"
  by (simp add: mc_shrinks_def mc_deleteByPattern_fields mc_deleteByPattern_view)

lemma mc_shrinks_refl: "mc_shrinks c c"
  by (simp add: mc_shrinks_def)

lemma memory_pattern: "ic_deleteByPattern memory_cache_service pat c = (Some (fst (mc_deleteByPattern pat c)), snd (mc_deleteByPattern pat c))"
  by (simp add: memory_cache_service_def split: prod.splits)

lemma mutation_cache:
  assumes "isMutationMethod m"
  shows "pw_cache (snd (execute d ctx t0 t1 p m ps None w)) \<in>
    {pw_cache w, snd (ic_deleteByPattern (pd_cache d) (''cache:v2:port:'' @ p @ '':*'') (pw_cache w))}"
proof (cases "map_of (pw_ports w) p")
  case None
  then show ?thesis by (simp add: execute_def async_simps)
next
  case (Some entry)
  have sc: "\<not> should_cache m entry" using assms by (simp add: should_cache_def)
  then have "should_cache m entry = False" by simp
  then show ?thesis
    unfolding execute_is_entry [OF Some] execute_entry_eq no_key_read port_read_def
    by (auto simp: port_call_eq Let_def json_present_def queue_cache post_process_write_cache [OF assms]
        split: prod.splits sum.splits)
qed

lemma shr_callPort:
  assumes "pd_cache (bf_deps b) = memory_cache_service" "isMutationMethod m"
  shows "shr.keeps (callPort b n p m ps)"
  unfolding shr.keeps_def
proof
  fix w
  have "pw_cache (snd (callPort b n p m ps w)) =
    pw_cache (snd (execute (bf_deps b) (bf_ctx b) (fst (bf_time b n)) (snd (bf_time b n)) p m ps None w))"
    by (simp add: callPort_def async_simps split: prod.split)
  with mutation_cache [OF assms(2), of "bf_deps b" "bf_ctx b" "fst (bf_time b n)" "snd (bf_time b n)" p ps w]
  show "shrinks w (snd (callPort b n p m ps w))"
    by (auto simp: assms(1) memory_pattern shrinks_def mc_pattern_shrinks mc_shrinks_refl)
qed

lemma dispatch_mutates: "isMutationMethod ''dispatch-notification''"
  by (simp add: isMutationMethod_def mutation_verbs_def starts_with_def)

lemma shr_notify: "pd_cache (bf_deps b) = memory_cache_service \<Longrightarrow> shr.keeps (notify b p)"
  unfolding notify_def by (intro shr.keeps_rules shr_callPort dispatch_mutates)

lemma shr_cache_op: "(\<And>c. mc_shrinks c (snd (f c))) \<Longrightarrow> shr.keeps (cache_op f)"
  by (simp add: shr.keeps_def cache_op_def shrinks_def split: prod.split) (metis snd_conv)

lemma shr_invalidate: "pd_cache (bf_deps b) = memory_cache_service \<Longrightarrow> shr.keeps (invalidate b pat)"
  unfolding invalidate_def
  by (intro shr.keeps_rules shr_cache_op) (simp add: memory_pattern mc_pattern_shrinks)

lemma getExisting_cache:
  "pd_cache (bf_deps b) = ic \<Longrightarrow>
   getExisting (webhook_service b dk) t k None (c, m) =
     (stored_hit dk (fst (ic_get ic t (idem_cacheKey k None) c)), snd (ic_get ic t (idem_cacheKey k None) c), m)"
  by (simp add: getExisting_def webhook_service_def Let_def split: prod.splits)

lemma shr_seen: "pd_cache (bf_deps b) = memory_cache_service \<Longrightarrow> shr.keeps (webhook_seen b dk k)"
  unfolding webhook_seen_def
  by (intro shr_cache_op)
    (simp add: getExisting_cache memory_cache_service_def mc_get_shrinks)

lemma webhook_processed:
  assumes ic: "pd_cache (bf_deps b) = memory_cache_service"
    and run: "handleWebhook S b dk body w = (Inr r, w')" "wr_processed r"
  obtains payload w1 w2 where "ps_webhook S body = Inr payload" "wr_paymentId r = wp_paymentId payload"
    "shrinks w w1"
    "(case wp_status payload of
        PaymentSuccess \<Rightarrow> seq (invalidate b ''cache:v2:port:invoice:*'') (seq (invalidate b ''cache:v2:port:debt:*'') (notify b payload))
      | PaymentFailed \<Rightarrow> notify b payload) w1 = (Inr (), w2)"
    "w' = w2\<lparr>pw_cache := snd (ic_set memory_cache_service (fst (bf_time b 2)) (idem_cacheKey (wp_paymentId payload) None)
       (idempotency_result (fst (bf_time b 2)) DEFAULT_TTL (Some (webhook_json r)) ''HandlePaymentWebhook'') (Some DEFAULT_TTL) (pw_cache w2))\<rparr>"
proof -
  from run(1) obtain payload w1 existing where p: "ps_webhook S body = Inr payload"
    "webhook_seen b dk (wp_paymentId payload) w = (Inr existing, w1)"
    by (auto simp: handleWebhook_def bff_Inr)
  let ?result = "\<lparr>wr_processed = True, wr_paymentId = wp_paymentId payload, wr_status = status_str (wp_status payload)\<rparr>"
  let ?work = "case wp_status payload of
        PaymentSuccess \<Rightarrow> seq (invalidate b ''cache:v2:port:invoice:*'') (seq (invalidate b ''cache:v2:port:debt:*'') (notify b payload))
      | PaymentFailed \<Rightarrow> notify b payload"
  have "existing = None"
    using run p by (auto simp: handleWebhook_def safeParse_def async_simps split: if_splits)
  with run(1) p have "seq ?work (seq (webhook_save b dk ?result) (ret ?result)) w1 = (Inr r, w')"
    by (simp add: handleWebhook_def safeParse_def bnd_app Let_def)
  then obtain w2 where w2: "?work w1 = (Inr (), w2)" and r: "r = ?result" and w': "w' = snd (webhook_save b dk ?result w2)"
    unfolding seq_Inr ret_Inr by (metis (full_types) old.unit.exhaust snd_conv)
  have "shrinks w w1"
    using shr.keepsD [OF shr_seen [OF ic], of w dk "wp_paymentId payload"] p(2) by simp
  moreover from w' have "w' = w2\<lparr>pw_cache := snd (ic_set memory_cache_service (fst (bf_time b 2)) (idem_cacheKey (wp_paymentId payload) None)
       (idempotency_result (fst (bf_time b 2)) DEFAULT_TTL (Some (webhook_json r)) ''HandlePaymentWebhook'') (Some DEFAULT_TTL) (pw_cache w2))\<rparr>"
    by (simp add: webhook_save_def cache_op_def idem_save_def webhook_service_def ic r Let_def js_nullish_def)
  ultimately show ?thesis using that p(1) w2 r by simp
qed

lemma shr_work:
  assumes "pd_cache (bf_deps b) = memory_cache_service"
  shows "shr.keeps (case wp_status payload of
      PaymentSuccess \<Rightarrow> seq (invalidate b i) (seq (invalidate b j) (notify b payload))
    | PaymentFailed \<Rightarrow> notify b payload)"
  by (cases "wp_status payload") (simp_all add: shr.keeps_seq shr_invalidate shr_notify assms)

lemma webhook_room:
  assumes "shr.keeps m" "shrinks w w1" "m w1 = (x, w2)" "0 < mc_free (pw_cache w)"
  shows "0 < mc_free (pw_cache w2)"
  using shr.keepsD [OF assms(1), of w1] assms(2-4) by (auto simp: shrinks_def mc_shrinks_def)

text \<open>
  C20. A payment notification is processed once. With the in-process cache, the notification of a
  payment that arrives again within an hour after it was processed is answered as a duplicate:
  nothing is sent to any service, and nothing in the cache changes.
\<close>

theorem webhook_processed_once:
  assumes "pd_cache (bf_deps b) = memory_cache_service" "pd_cache (bf_deps b2) = memory_cache_service"
    and "handleWebhook S b True body w = (Inr r, w')" "wr_processed r"
    and "ps_webhook S body2 = Inr payload2" "wp_paymentId payload2 = wr_paymentId r"
    and "0 < mc_free (pw_cache w)" "0 \<le> fst (bf_time b 2)"
    and "fst (bf_time b2 0) \<le> fst (bf_time b 2) + 3600 * 1000"
  shows "\<exists>c. handleWebhook S b2 True body2 w' =
      (Inr \<lparr>wr_processed = False, wr_paymentId = wr_paymentId r, wr_status = ''duplicate''\<rparr>, w'\<lparr>pw_cache := c\<rparr>) \<and>
    (\<forall>t k. fst (bf_time b2 0) \<le> t \<longrightarrow> mc_view t c k = mc_view t (pw_cache w') k)"
  using assms(1,3,4)
proof (rule webhook_processed)
  let ?t = "fst (bf_time b2 0)" and ?k = "idem_cacheKey (wr_paymentId r) None"
  fix payload w1 w2
  let ?v = "idempotency_result (fst (bf_time b 2)) DEFAULT_TTL (Some (webhook_json r)) ''HandlePaymentWebhook''"
  assume p: "wr_paymentId r = wp_paymentId payload" "shrinks w w1"
    "(case wp_status payload of
        PaymentSuccess \<Rightarrow> seq (invalidate b ''cache:v2:port:invoice:*'') (seq (invalidate b ''cache:v2:port:debt:*'') (notify b payload))
      | PaymentFailed \<Rightarrow> notify b payload) w1 = (Inr (), w2)"
    and w': "w' = w2\<lparr>pw_cache := snd (ic_set memory_cache_service (fst (bf_time b 2)) (idem_cacheKey (wp_paymentId payload) None) ?v
      (Some DEFAULT_TTL) (pw_cache w2))\<rparr>"
  have "0 < mc_free (pw_cache w2)" by (rule webhook_room [OF shr_work [OF assms(1)] p(2,3) assms(7)])
  then have hit: "fst (mc_get ?t ?k (pw_cache w')) = Some ?v"
    using mem.read_back [of "fst (bf_time b 2)" DEFAULT_TTL "pw_cache w2" ?t ?k ?v] assms(8,9) p(1)
    by (simp add: w' DEFAULT_TTL_def memory_cache_service_def)
  have "handleWebhook S b2 True body2 w' =
      (Inr \<lparr>wr_processed = False, wr_paymentId = wr_paymentId r, wr_status = ''duplicate''\<rparr>,
       w'\<lparr>pw_cache := snd (mc_get ?t ?k (pw_cache w'))\<rparr>)"
    using assms(5,6) hit
    by (simp add: handleWebhook_def safeParse_def async_simps webhook_seen_def cache_op_def
        getExisting_cache [OF assms(2)] memory_cache_service_def stored_hit_def)
  then show ?thesis using mc_get_keeps by blast
qed

lemma work_clears:
  assumes ic: "pd_cache (bf_deps b) = memory_cache_service"
    and run: "seq (invalidate b ''cache:v2:port:invoice:*'') (seq (invalidate b ''cache:v2:port:debt:*'') (notify b payload)) w = (Inr (), w')"
    and p: "p = ''invoice'' \<or> p = ''debt''"
    and prefix: "CHR ''*'' \<notin> set (mc_keyPrefix (pw_cache w))" "CHR ''?'' \<notin> set (mc_keyPrefix (pw_cache w))"
    and rest: "list_all js_dot rest"
  shows "mc_view t (pw_cache w') (''cache:v2:port:'' @ p @ '':'' @ rest) = None"
proof -
  obtain w1 w2 x y where inv: "invalidate b ''cache:v2:port:invoice:*'' w = (Inr x, w1)"
      "invalidate b ''cache:v2:port:debt:*'' w1 = (Inr y, w2)" and n: "notify b payload w2 = (Inr (), w')"
    using run by (auto simp: seq_Inr)
  have c1: "pw_cache w1 = snd (mc_deleteByPattern (''cache:v2:port:invoice:'' @ ''*'') (pw_cache w))"
    and c2: "pw_cache w2 = snd (mc_deleteByPattern (''cache:v2:port:debt:'' @ ''*'') (pw_cache w1))"
    using inv by (auto simp: invalidate_def async_simps cache_op_def ic memory_pattern)
  have pre: "CHR ''*'' \<notin> set (mc_getFullKey c stem)" "CHR ''?'' \<notin> set (mc_getFullKey c stem)"
    if "mc_keyPrefix c = mc_keyPrefix (pw_cache w)" "stem = ''cache:v2:port:invoice:'' \<or> stem = ''cache:v2:port:debt:''" for c stem
    using prefix that by (auto simp: mc_getFullKey_def)
  have "mc_keyPrefix (pw_cache w1) = mc_keyPrefix (pw_cache w)" by (simp add: c1 mc_deleteByPattern_fields)
  then have "mc_view t (pw_cache w1) (''cache:v2:port:invoice:'' @ rest) = None"
      "mc_view t (pw_cache w2) (''cache:v2:port:debt:'' @ rest) = None"
    unfolding c1 c2 by (intro mc_pattern_clears pre rest; simp add: c1)+
  moreover have "mc_shrinks (pw_cache w1) (pw_cache w2)" "mc_shrinks (pw_cache w2) (pw_cache w')"
    using mc_pattern_shrinks [of "pw_cache w1"] shr.keepsD [OF shr_notify [OF ic], of w2 payload] n
    by (simp_all add: c2 shrinks_def)
  ultimately show ?thesis using p by (auto simp: mc_shrinks_def) metis+
qed

text \<open>
  A successful payment empties the read caches. After the notification of a successful payment
  was processed, no read of the invoice or the debt port is served from the in-process cache: the
  next call of whatever method and parameters, if it returns, returns a fresh answer or one marked
  as degraded. The cache's prefix holds no wildcards and the hash is a line of text.
\<close>

lemma payment_refreshes_reads:
  assumes "pd_cache (bf_deps b) = memory_cache_service" "pd_cache d = memory_cache_service"
    and "ps_webhook S body = Inr payload" "wp_status payload = PaymentSuccess"
    and "handleWebhook S b dk body w = (Inr r, w')" "wr_processed r"
    and "0 < mc_free (pw_cache w)" "0 \<le> fst (bf_time b 2)"
    and "CHR ''*'' \<notin> set (mc_keyPrefix (pw_cache w))" "CHR ''?'' \<notin> set (mc_keyPrefix (pw_cache w))"
    and "\<And>x. list_all js_dot (pd_sha256 d x)" "p = ''invoice'' \<or> p = ''debt''"
    and "fst (execute d ctx t2 t3 p m ps None w') = Inr r2"
  shows "pr_metadata r2 = None \<or> (\<exists>md. pr_metadata r2 = Some md \<and> md_degraded md = Some True)"
  using assms(1,5,6)
proof (rule webhook_processed)
  fix payload' w1 w2
  let ?v = "idempotency_result (fst (bf_time b 2)) DEFAULT_TTL (Some (webhook_json r)) ''HandlePaymentWebhook''"
  let ?k = "buildCacheKey (pd_sha256 d) p m ps"
  assume p: "ps_webhook S body = Inr payload'" "shrinks w w1"
    "(case wp_status payload' of
        PaymentSuccess \<Rightarrow> seq (invalidate b ''cache:v2:port:invoice:*'') (seq (invalidate b ''cache:v2:port:debt:*'') (notify b payload'))
      | PaymentFailed \<Rightarrow> notify b payload') w1 = (Inr (), w2)"
    and w': "w' = w2\<lparr>pw_cache := snd (ic_set memory_cache_service (fst (bf_time b 2)) (idem_cacheKey (wp_paymentId payload') None) ?v
      (Some DEFAULT_TTL) (pw_cache w2))\<rparr>"
  let ?rest = "take 16 (pd_sha256 d (stringify (JObj [(''method'', JStr m), (''params'', JObj ps)])))"
  have k: "?k = ''cache:v2:port:'' @ p @ '':'' @ ?rest" by (simp add: buildCacheKey_def generateShortHash_def)
  have "mc_keyPrefix (pw_cache w1) = mc_keyPrefix (pw_cache w)" using p(2) by (simp add: shrinks_def mc_shrinks_def)
  moreover have "list_all js_dot ?rest" using assms(11) by (auto simp: list_all_iff dest: in_set_takeD)
  ultimately have "mc_view t2 (pw_cache w2) ?k = None"
    unfolding k using assms(3,4,9,10,12) p by (intro work_clears [OF assms(1), of payload w1]) simp_all
  moreover have "0 < mc_free (pw_cache w2)" by (rule webhook_room [OF shr_work [OF assms(1)] p(2,3) assms(7)])
  moreover have "?k \<noteq> idem_cacheKey (wp_paymentId payload') None" by (simp add: k idem_cacheKey_def js_nullish_def)
  ultimately have "mc_view t2 (pw_cache w') ?k = None"
    using assms(8) by (simp add: w' mem.set_view_ok DEFAULT_TTL_def)
  then have miss: "\<not> json_present (fst (port_read d t2 (should_cache m entry) ?k (pw_cache w')))" for entry :: "'a port_entry"
    by (simp add: port_read_def assms(2) mem.get_view json_present_def)
  from assms(13) obtain entry where entry: "map_of (pw_ports w') p = Some entry"
    by (cases "map_of (pw_ports w') p") (simp_all add: execute_def async_simps)
  with assms(13) obtain w3 where "execute_entry d ctx t2 t3 p entry m ps None w' = (Inr r2, w3)"
    by (metis execute_is_entry prod.collapse)
  then show ?thesis by (rule entry_miss_fresh [OF miss])
qed

section \<open>A concrete shop\<close>

text \<open>
  An invoice service that knows one unpaid invoice and fails on every other, a payment service that
  accepts everything, and no other ports.
\<close>

definition shop_invoices :: "unit port_adapter" where
  "shop_invoices ctx m ps =
     (if map_of ps ''invoiceId'' = Some (JStr ''I1'')
      then ret (JObj [(''paymentStatus'', JStr ''unpaid''), (''totalAmount'', JNum 100)])
      else throw (PortTimeoutException ''invoice'' 3000))"

definition shop_payments :: "unit port_adapter" where
  "shop_payments ctx m ps = ret (JObj [(''paymentId'', JStr ''PAY-1'')])"

definition shop :: "(json memory_cache, unit) port_world" where
  "shop = port_register 0 ''invoice'' shop_invoices shop_invoices (Some uncached)
     (port_register 0 ''payment'' shop_payments shop_payments (Some uncached)
no_ports)"

definition shop_schemas :: payment_schemas where
  "shop_schemas = \<lparr>ps_createPayment = (\<lambda>j. Inr (js_opt_string (json_get ''invoiceId'' j), ''qr_code'')),
     ps_createBatch = (\<lambda>j. Inr ([''I1''], ''qr_code'')), ps_history = (\<lambda>j. Inr []),
     ps_autoDebit = Inr, ps_webhook = (\<lambda>j. Inr \<lparr>wp_paymentId = ''PAY-1'', wp_invoiceId = ''I1'',
       wp_customerId = ''C1'', wp_amount = 100, wp_status = PaymentSuccess\<rparr>)\<rparr>"

lemma shop_ports:
  "map_of (pw_ports shop) ''invoice'' = Some (shop_entry ''invoice'' shop_invoices)"
  "map_of (pw_ports shop) ''payment'' = Some (shop_entry ''payment'' shop_payments)"
  by (simp_all add: shop_def no_ports_def port_register_def shop_entry_def Let_def)

lemma shop_admits: "admits t ''invoice'' shop" "admits t ''payment'' shop"
  by (simp_all add: admits_def shop_def no_ports_def port_register_def Let_def cb_admit_def cb_new_def)

lemma shop_fallback:
  "map_of (fp_fallbacks (pw_fallback shop)) ''invoice'' = Some (port_fallback ''invoice'')" "fp_cache (pw_fallback shop) \<noteq> None"
  by (simp_all add: shop_def no_ports_def port_register_def Let_def fp_register_def fp_new_def)

lemma shop_invoice_fails:
  "adapter_of (shop_entry ''invoice'' shop_invoices) used ctx m (invoice_params ''I2'' c) s = (Inl (PortTimeoutException ''invoice'' 3000), s)"
  by (cases used) (simp_all add: adapter_of_def shop_entry_def shop_invoices_def invoice_params_def async_simps)

lemma shop_invoice_answers:
  "adapter_of (shop_entry ''invoice'' shop_invoices) used ctx m (invoice_params ''I1'' c) s =
     (Inr (JObj [(''paymentStatus'', JStr ''unpaid''), (''totalAmount'', JNum 100)]), s)"
  by (cases used) (simp_all add: adapter_of_def shop_entry_def shop_invoices_def invoice_params_def async_simps)

text \<open>
  Alice looks at her invoice I1 over 100; then the service fails, and Bob pays his invoice I2: the
  payment service is asked for 100.
\<close>

theorem outage_pays_wrong_amount_witness:
  "\<exists>w1 w2. createPayment shop_schemas (shop_request 1000) ''bob'' (JObj [(''invoiceId'', JStr ''I2'')]) w1 =
    submitPayment (shop_request 1000) ''bob'' ''I2'' ''qr_code'' (Some (JNum 100)) w2"
proof -
  let ?other = "JObj [(''paymentStatus'', JStr ''unpaid''), (''totalAmount'', JNum 100)]"
  let ?entry = "shop_entry ''invoice'' shop_invoices"
  obtain r1 w1 where r1: "execute demo_port_deps (user_context ''alice'') 0 10 ''invoice'' ''get-by-id'' (invoice_params ''I1'' ''alice'') None shop = (Inr r1, w1)"
    "pr_data r1 = Some ?other" "pr_metadata r1 = None"
    by (rule execute_answers [OF shop_ports(1) _ shop_admits(1) shop_invoice_answers]) (simp_all add: shop_config)
  have first: "execute (bf_deps (shop_request 1000)) (user_context ''alice'') 0 10 ''invoice'' ''get-by-id'' (invoice_params ''I1'' ''alice'') None shop = (Inr r1, w1)"
    using r1(1) by simp
  have u: "unpaid ?other" by (simp add: unpaid_def)
  have parse: "ps_createPayment shop_schemas (JObj [(''invoiceId'', JStr ''I2'')]) = Inr (''I2'', ''qr_code'')"
    by (simp add: shop_schemas_def js_opt_string_def)
  have policy: "pc_queuePolicy (pe_config ?entry) \<noteq> QAlways" by (simp add: shop_config)
  have miss: "\<not> json_present (fst (port_read (bf_deps (shop_request 1000)) (fst (bf_time (shop_request 1000) 0)) (should_cache ''get-by-id'' ?entry)
      (buildCacheKey (pd_sha256 (bf_deps (shop_request 1000))) ''invoice'' ''get-by-id'' (invoice_params ''I2'' ''bob'')) (pw_cache w1)))"
    by (simp add: shop_config port_read_def json_present_def)
  from outage_pays_wrong_amount [OF shop_ports(1) shop_fallback policy first r1(3,2) u parse miss shop_invoice_fails]
  show ?thesis by auto
qed

inductive_cases verified_one: "verified b c n [i] vs w w'"

text \<open>A batch of one invoice over 100: the payment service is asked for 100.\<close>

theorem batch_verified_before_payment_witness:
  "\<exists>w1 w'. createBatchPayment shop_schemas (shop_request 0) ''alice'' JNull shop = (Inr (JObj [(''paymentId'', JStr ''PAY-1'')]), w') \<and>
     w' = snd (execute demo_port_deps None 100 110 ''payment'' ''create-batch-payment''
       (batch_params [''I1''] ''alice'' ''qr_code'' (SumNum 100)) None w1)"
proof -
  let ?v = "JObj [(''paymentStatus'', JStr ''unpaid''), (''totalAmount'', JNum 100)]"
  have first: "adapter_of (shop_entry ''invoice'' shop_invoices) (choose_adapter demo_port_deps ''invoice'' (shop_entry ''invoice'' shop_invoices) (pw_config shop))
      None ''get-by-id'' (invoice_params ''I1'' ''alice'') (pw_env shop) = (Inr ?v, ())"
    by (simp add: shop_invoice_answers)
  obtain r1 w1 where r1: "execute demo_port_deps None 0 10 ''invoice'' ''get-by-id'' (invoice_params ''I1'' ''alice'') None shop = (Inr r1, w1)"
    "pr_data r1 = Some ?v"
    by (rule execute_answers [OF shop_ports(1) _ shop_admits(1) first]) (simp_all add: shop_config)
  have same: "pw_ports w1 = pw_ports shop" "map_of (pw_breakers w1) ''payment'' = map_of (pw_breakers shop) ''payment''"
    using pr.keepsD [OF keeps_execute, of "''invoice''" shop demo_port_deps None 0 10 "''get-by-id''" "invoice_params ''I1'' ''alice''" None] r1(1)
    by (auto simp: port_rel_def)
  have pay: "adapter_of (shop_entry ''payment'' shop_payments) used None m ps x = (Inr (JObj [(''paymentId'', JStr ''PAY-1'')]), x)" for used m ps x
    by (cases used) (simp_all add: adapter_of_def shop_entry_def shop_payments_def async_simps)
  have reg: "map_of (pw_ports w1) ''payment'' = Some (shop_entry ''payment'' shop_payments)" "admits 100 ''payment'' w1"
    using shop_ports(2) shop_admits(2) [of 100] same by (simp_all add: admits_def)
  obtain r2 w2 where r2: "execute demo_port_deps None 100 110 ''payment'' ''create-batch-payment''
      (batch_params [''I1''] ''alice'' ''qr_code'' (SumNum 100)) None w1 = (Inr r2, w2)" "pr_data r2 = Some (JObj [(''paymentId'', JStr ''PAY-1'')])"
    by (rule execute_answers [OF reg(1) _ reg(2) pay]) (simp_all add: shop_config)
  have check: "verifyInvoice (shop_request 0) 0 ''alice'' ''I1'' shop = (Inr ?v, w1)"
    using r1 by (simp add: verifyInvoice_Inr unpaid_def)
  have parse: "ps_createBatch shop_schemas JNull = Inr ([''I1''], ''qr_code'')" by (simp add: shop_schemas_def)
  have run: "createBatchPayment shop_schemas (shop_request 0) ''alice'' JNull shop = (Inr (JObj [(''paymentId'', JStr ''PAY-1'')]), w2)"
    using r2 by (simp add: createBatchPayment_def safeParse_def parse async_simps check callPort_def json_present_def)
  from batch_verified_before_payment [OF parse run] obtain vs u totalAmount where
    u: "verified (shop_request 0) ''alice'' 0 [''I1''] vs shop u"
      "\<forall>amounts. map (json_get ''totalAmount'') vs = map (Some \<circ> JNum) amounts \<longrightarrow> totalAmount = SumNum (sum_list amounts)"
      "w2 = snd (execute demo_port_deps None 100 110 ''payment'' ''create-batch-payment'' (batch_params [''I1''] ''alice'' ''qr_code'' totalAmount) None u)"
    by auto
  from u(1) r1 have "vs = [?v]" by (auto elim!: verified_one elim: verified.cases)
  with u(2) have "totalAmount = SumNum 100" by (auto dest: spec [of _ "[100]"])
  with run u(3) show ?thesis by blast
qed

text \<open>The same notification twice; the notification port is not registered.\<close>

lemma shop_webhook_seen: "webhook_seen (shop_request t) dk p shop = (Inr None, shop)"
  by (simp add: webhook_seen_def cache_op_def getExisting_cache [OF refl] demo_port_deps_def memory_cache_service_def
      mc_get_def shop_def no_ports_def port_register_def mc_new_def stored_hit_def Let_def)

lemma shop_webhook:
  obtains w' where "handleWebhook shop_schemas (shop_request 0) True JNull shop =
    (Inr \<lparr>wr_processed = True, wr_paymentId = ''PAY-1'', wr_status = ''success''\<rparr>, w')"
proof -
  have inv: "\<exists>n w'. invalidate (shop_request 0) pat w = (Inr n, w')" for pat w
    by (simp add: invalidate_def async_simps cache_op_def demo_port_deps_def memory_pattern)
  have noted: "\<exists>w'. notify (shop_request 0) p w = (Inr (), w')" for p w
    by (auto simp: notify_def async_simps split: prod.splits sum.splits)
  have save: "\<exists>w'. webhook_save (shop_request 0) dk r w = (Inr (), w')" for dk r w
    by (simp add: webhook_save_def cache_op_def split: prod.splits)
  let ?p = "\<lparr>wp_paymentId = ''PAY-1'', wp_invoiceId = ''I1'', wp_customerId = ''C1'', wp_amount = 100, wp_status = PaymentSuccess\<rparr>"
  let ?r = "\<lparr>wr_processed = True, wr_paymentId = ''PAY-1'', wr_status = ''success''\<rparr>"
  obtain n1 w1 where 1: "invalidate (shop_request 0) ''cache:v2:port:invoice:*'' shop = (Inr n1, w1)" using inv by blast
  obtain n2 w2 where 2: "invalidate (shop_request 0) ''cache:v2:port:debt:*'' w1 = (Inr n2, w2)" using inv by blast
  obtain w3 where 3: "notify (shop_request 0) ?p w2 = (Inr (), w3)" using noted by blast
  obtain w4 where 4: "webhook_save (shop_request 0) True ?r w3 = (Inr (), w4)" using save by blast
  have "handleWebhook shop_schemas (shop_request 0) True JNull shop = (Inr ?r, w4)"
    by (simp add: handleWebhook_def safeParse_def shop_schemas_def async_simps shop_webhook_seen 1 2 3 4 status_str_def Let_def)
  then show ?thesis by (rule that)
qed

lemma shop_cache: "0 < mc_free (pw_cache shop)" "mc_keyPrefix (pw_cache shop) = []"
  by (simp_all add: shop_def no_ports_def port_register_def mc_new_def mc_free_def Let_def js_or_num_def js_or_str_def)

theorem webhook_processed_once_witness:
  "\<exists>w' c. handleWebhook shop_schemas (shop_request 5000) True JNull w' =
     (Inr \<lparr>wr_processed = False, wr_paymentId = ''PAY-1'', wr_status = ''duplicate''\<rparr>, w'\<lparr>pw_cache := c\<rparr>)"
proof -
  obtain w' where run: "handleWebhook shop_schemas (shop_request 0) True JNull shop =
    (Inr \<lparr>wr_processed = True, wr_paymentId = ''PAY-1'', wr_status = ''success''\<rparr>, w')" by (rule shop_webhook)
  have ic: "pd_cache (bf_deps (shop_request t)) = memory_cache_service" for t by (simp add: demo_port_deps_def)
  from webhook_processed_once [OF ic ic run, of JNull _ 5000] shop_cache(1) show ?thesis
    by (auto simp: shop_schemas_def)
qed

end
