(* ===== verification/Sessions.thy ===== *)
theory Sessions
  imports Bff Json_Parse Retry
begin

text \<open>
  The record of a customer's interactions: the store in memory
  (src/modules/session/infrastructure/memory/in-memory-session.store.ts), the store in Redis
  (src/modules/session/infrastructure/redis/redis-session.store.ts) and the service that reads either
  (src/modules/session/session.service.ts). Two things are arguments: the time of a timestamp, which
  is undefined where the text is no date, and the commands of Redis.
\<close>

section \<open>Events and metadata\<close>

record session_event =
  se_id :: string
  se_type :: string
  se_channel :: string
  se_timestamp :: string
  se_content :: params

record session_metadata =
  sm_sessionId :: string
  sm_userId :: string
  sm_channel :: string
  sm_createdAt :: string
  sm_updatedAt :: string
  sm_eventCount :: int

definition session_event_json :: "session_event \<Rightarrow> json" where
  "session_event_json e = JObj [(''id'', JStr (se_id e)), (''type'', JStr (se_type e)), (''channel'', JStr (se_channel e)),
     (''timestamp'', JStr (se_timestamp e)), (''content'', JObj (se_content e))]"

definition metadata_json :: "session_metadata \<Rightarrow> json" where
  "metadata_json m = JObj [(''sessionId'', JStr (sm_sessionId m)), (''userId'', JStr (sm_userId m)),
     (''channel'', JStr (sm_channel m)), (''createdAt'', JStr (sm_createdAt m)), (''updatedAt'', JStr (sm_updatedAt m)),
     (''eventCount'', JNum (sm_eventCount m))]"

section \<open>The store in memory\<close>

record session_data =
  sd_metadata :: session_metadata
  sd_events :: "session_event list"

type_synonym session_memory = "(string, session_data) jsmap"

definition new_session :: "msec \<Rightarrow> string \<Rightarrow> session_event \<Rightarrow> session_data" where
  "new_session now userId event = \<lparr>sd_metadata = \<lparr>sm_sessionId = se_id event, sm_userId = userId,
     sm_channel = se_channel event, sm_createdAt = toISOString now, sm_updatedAt = toISOString now, sm_eventCount = 0\<rparr>,
     sd_events = []\<rparr>"

definition appendEvent :: "msec \<Rightarrow> string \<Rightarrow> session_event \<Rightarrow> session_memory \<Rightarrow> session_memory" where
  "appendEvent now userId event sessions =
     (let session = js_nullish (map_of sessions userId) (new_session now userId event);
          events = sd_events session @ [event];
          metadata = (sd_metadata session)\<lparr>sm_updatedAt := se_timestamp event, sm_channel := se_channel event,
            sm_eventCount := int (length events)\<rparr>
      in AList.update userId \<lparr>sd_metadata = metadata, sd_events = events\<rparr> sessions)"

definition getSession :: "string \<Rightarrow> session_memory \<Rightarrow> session_metadata option" where
  "getSession userId sessions = map_option sd_metadata (map_of sessions userId)"

definition in_range :: "(string \<Rightarrow> msec option) \<Rightarrow> int option \<Rightarrow> int option \<Rightarrow> session_event \<Rightarrow> bool" where
  "in_range getTime from till event = (case getTime (se_timestamp event) of
     None \<Rightarrow> False
   | Some ts \<Rightarrow> ts \<ge> js_nullish from 0 \<and> (case till of None \<Rightarrow> True | Some t \<Rightarrow> ts \<le> t))"

definition getEvents ::
  "(string \<Rightarrow> msec option) \<Rightarrow> string \<Rightarrow> int option \<Rightarrow> int option \<Rightarrow> session_memory \<Rightarrow> session_event list" where
  "getEvents getTime userId from till sessions = (case map_of sessions userId of
     None \<Rightarrow> []
   | Some session \<Rightarrow> filter (in_range getTime from till) (sd_events session))"

definition sessionExists :: "string \<Rightarrow> session_memory \<Rightarrow> bool" where
  "sessionExists userId sessions = (map_of sessions userId \<noteq> None)"

section \<open>The store in Redis\<close>

record 'r redis =
  rd_zadd :: "string \<Rightarrow> int \<Rightarrow> string \<Rightarrow> 'r \<Rightarrow> 'r"
  rd_expire :: "string \<Rightarrow> int \<Rightarrow> 'r \<Rightarrow> 'r"
  rd_hsetnx :: "string \<Rightarrow> string \<Rightarrow> string \<Rightarrow> 'r \<Rightarrow> 'r"
  rd_hget :: "string \<Rightarrow> string \<Rightarrow> 'r \<Rightarrow> string option"
  rd_hset :: "string \<Rightarrow> string \<Rightarrow> string \<Rightarrow> 'r \<Rightarrow> 'r"
  rd_hgetall :: "string \<Rightarrow> 'r \<Rightarrow> (string \<times> string) list"
  rd_zrange :: "string \<Rightarrow> int \<Rightarrow> int option \<Rightarrow> 'r \<Rightarrow> string list"
  rd_exists :: "string \<Rightarrow> 'r \<Rightarrow> bool"
  rd_badScore :: js_error

definition sessionKey :: "string \<Rightarrow> string" where
  "sessionKey userId = ''session:'' @ userId"

definition eventsKey :: "string \<Rightarrow> string" where
  "eventsKey userId = ''session:'' @ userId @ '':events''"

definition SESSION_APPEND_LUA ::
  "'r redis \<Rightarrow> string \<Rightarrow> string \<Rightarrow> string \<Rightarrow> int \<Rightarrow> int \<Rightarrow> string \<Rightarrow> string \<Rightarrow> string \<Rightarrow> string \<Rightarrow> 'r \<Rightarrow> 'r" where
  "SESSION_APPEND_LUA rd sKey eKey event ttl score updatedAt userId channel sessionId r0 =
     (let r1 = rd_expire rd eKey ttl (rd_zadd rd eKey score event r0);
          r2 = rd_hsetnx rd sKey ''createdAt'' updatedAt (rd_hsetnx rd sKey ''channel'' channel
                 (rd_hsetnx rd sKey ''userId'' userId (rd_hsetnx rd sKey ''sessionId'' sessionId r1)));
          currentCount = (case rd_hget rd sKey ''eventCount'' r2 of Some n \<Rightarrow> parse_dec n | None \<Rightarrow> 0);
          r3 = rd_hset rd sKey ''eventCount'' (js_nat_str (currentCount + 1)) (rd_hset rd sKey ''updatedAt'' updatedAt r2)
      in rd_expire rd sKey ttl r3)"

text \<open>
  A store whose script was not loaded at start refuses. \<open>failure\<close> is the error with which the
  server rejects the script's digest: where it no longer knows the script, the text of the script is sent
  and loaded again. A score that is no number is rejected by the script itself.
\<close>

definition redis_appendEvent ::
  "'r redis \<Rightarrow> (string \<Rightarrow> msec option) \<Rightarrow> int \<Rightarrow> js_error option \<Rightarrow> string \<Rightarrow> msec \<Rightarrow> string \<Rightarrow> string \<Rightarrow> session_event \<Rightarrow>
   int option \<Rightarrow> ('r \<times> string option, js_error, unit) async" where
  "redis_appendEvent rd getTime defaultTtl failure loadedSha now uuid userId event ttl = (\<lambda>(r, scriptSha).
     if \<not> truthy_str scriptSha
     then (Inl (new_Error (''Session Lua script not loaded '' @ [CHR 0xE2, CHR 0x80, CHR 0x94] @ '' cannot append event'')),
           r, scriptSha)
     else
       let run = (\<lambda>sha. case getTime (se_timestamp event) of
             None \<Rightarrow> (Inl (rd_badScore rd), r, scriptSha)
           | Some score \<Rightarrow> (Inr (), SESSION_APPEND_LUA rd (sessionKey userId) (eventsKey userId)
               (stringify (session_event_json event)) (js_nullish ttl defaultTtl) score (toISOString now) userId
               (se_channel event) uuid r, sha))
       in case failure of
            None \<Rightarrow> run scriptSha
          | Some e \<Rightarrow> if str_includes ''NOSCRIPT'' (err_name e @ '': '' @ err_message e) then run (Some loadedSha)
                      else (Inl e, r, scriptSha))"

definition redis_getSession :: "'r redis \<Rightarrow> string \<Rightarrow> 'r \<Rightarrow> session_metadata option" where
  "redis_getSession rd userId r =
     (let data = rd_hgetall rd (sessionKey userId) r;
          field = (\<lambda>k. js_nullish (map_of data k) '''')
      in if data = [] then None
         else Some \<lparr>sm_sessionId = field ''sessionId'', sm_userId = field ''userId'', sm_channel = field ''channel'',
           sm_createdAt = field ''createdAt'', sm_updatedAt = field ''updatedAt'',
           sm_eventCount = int (if field ''eventCount'' = '''' then 0 else parse_dec (field ''eventCount''))\<rparr>)"

text \<open>Entries that do not parse are skipped.\<close>

definition redis_getEvents :: "'r redis \<Rightarrow> string \<Rightarrow> int option \<Rightarrow> int option \<Rightarrow> 'r \<Rightarrow> json list" where
  "redis_getEvents rd userId from till r =
     concat (map (\<lambda>raw. case json_parse raw of Inl _ \<Rightarrow> [] | Inr event \<Rightarrow> [event])
       (rd_zrange rd (eventsKey userId) (js_nullish from 0) till r))"

definition redis_sessionExists :: "'r redis \<Rightarrow> string \<Rightarrow> 'r \<Rightarrow> bool" where
  "redis_sessionExists rd userId r = rd_exists rd (sessionKey userId) r"

section \<open>The service\<close>

record session_query =
  sq_from :: "int option"
  sq_to :: "int option"
  sq_channel :: "string option"
  sq_page :: int
  sq_pageSize :: int

record session_detail =
  sx_session :: "session_metadata option"
  sx_recentEvents :: "session_event list"

record events_response =
  sr_sessionId :: "string option"
  sr_events :: "session_event list"
  sr_totalCount :: int
  sr_page :: int
  sr_pageSize :: int

definition RECENT_EVENTS_WINDOW_MS :: int where
  "RECENT_EVENTS_WINDOW_MS = 2 * 60 * 60 * 1000"

definition getMySession :: "(string \<Rightarrow> msec option) \<Rightarrow> msec \<Rightarrow> string \<Rightarrow> session_memory \<Rightarrow> session_detail" where
  "getMySession getTime now userId store = (case getSession userId store of
     None \<Rightarrow> \<lparr>sx_session = None, sx_recentEvents = []\<rparr>
   | Some metadata \<Rightarrow> \<lparr>sx_session = Some metadata,
       sx_recentEvents = getEvents getTime userId (Some (now - RECENT_EVENTS_WINDOW_MS)) None store\<rparr>)"

definition js_slice :: "'a list \<Rightarrow> int \<Rightarrow> int \<Rightarrow> 'a list" where
  "js_slice xs start stop =
     (let n = int (length xs);
          norm = (\<lambda>i. if i < 0 then max (n + i) 0 else min i n)
      in take (nat (norm stop - norm start)) (drop (nat (norm start)) xs))"
  \<comment> \<open>\<^verbatim>\<open>xs.slice(start, stop)\<close>\<close>

definition matching_events ::
  "(string \<Rightarrow> msec option) \<Rightarrow> string \<Rightarrow> session_query \<Rightarrow> session_memory \<Rightarrow> session_event list" where
  "matching_events getTime userId q store =
     (let events = getEvents getTime userId (sq_from q) (sq_to q) store
      in if truthy_str (sq_channel q) then filter (\<lambda>e. se_channel e = the (sq_channel q)) events else events)"

definition getMyEvents ::
  "session_query schema \<Rightarrow> (string \<Rightarrow> msec option) \<Rightarrow> string \<Rightarrow> json \<Rightarrow> session_memory \<Rightarrow> app_error + events_response" where
  "getMyEvents S getTime userId query store = (case S query of
     Inl msg \<Rightarrow> Inl (ValidationException msg)
   | Inr q \<Rightarrow>
       let events = matching_events getTime userId q store;
           offset = (sq_page q - 1) * sq_pageSize q
       in Inr \<lparr>sr_sessionId = map_option sm_sessionId (getSession userId store),
            sr_events = js_slice events offset (offset + sq_pageSize q),
            sr_totalCount = int (length events), sr_page = sq_page q, sr_pageSize = sq_pageSize q\<rparr>)"

section \<open>Reading back what was recorded\<close>

text \<open>
  The contract of a store over the log of each user: what is recorded is appended to the user's log, a
  query filters the log, and the metadata describe it.
\<close>

locale event_store =
  fixes append :: "msec \<Rightarrow> string \<Rightarrow> session_event \<Rightarrow> 's \<Rightarrow> 's"
    and events :: "(string \<Rightarrow> msec option) \<Rightarrow> string \<Rightarrow> int option \<Rightarrow> int option \<Rightarrow> 's \<Rightarrow> session_event list"
    and metadata :: "string \<Rightarrow> 's \<Rightarrow> session_metadata option"
    and start :: 's and wf :: "'s \<Rightarrow> bool" and log :: "'s \<Rightarrow> string \<Rightarrow> session_event list"
  assumes wf_start: "wf start" and wf_append: "wf s \<Longrightarrow> wf (append now v e s)"
    and log_start: "log start u = []"
    and log_append: "log (append now v e s) u = (if v = u then log s u @ [e] else log s u)"
    and events_log: "events getTime u from till s = filter (in_range getTime from till) (log s u)"
    and metadata_log: "wf s \<Longrightarrow> (case metadata u s of None \<Rightarrow> log s u = []
      | Some m \<Rightarrow> log s u \<noteq> [] \<and> sm_eventCount m = int (length (log s u)) \<and> sm_sessionId m = se_id (hd (log s u))
          \<and> sm_updatedAt m = se_timestamp (last (log s u)))"
begin

lemma recorded:
  "wf (fold (\<lambda>(now, v, e). append now v e) h start) \<and>
   log (fold (\<lambda>(now, v, e). append now v e) h start) u = [e. (now, v, e) \<leftarrow> h, v = u]"
proof (induction h rule: rev_induct)
  case Nil
  then show ?case by (simp add: wf_start log_start)
next
  case (snoc x h)
  then show ?case
    by (cases x) (auto simp: wf_append log_append)
qed

end

definition session_wf :: "session_memory \<Rightarrow> bool" where
  "session_wf sessions = (\<forall>u d. map_of sessions u = Some d \<longrightarrow> sd_events d \<noteq> [] \<and>
     sm_eventCount (sd_metadata d) = int (length (sd_events d)) \<and> sm_sessionId (sd_metadata d) = se_id (hd (sd_events d)) \<and>
     sm_updatedAt (sd_metadata d) = se_timestamp (last (sd_events d)))"

definition session_log :: "session_memory \<Rightarrow> string \<Rightarrow> session_event list" where
  "session_log sessions u = (case map_of sessions u of None \<Rightarrow> [] | Some d \<Rightarrow> sd_events d)"

interpretation memlog: event_store appendEvent getEvents getSession "[]" session_wf session_log
proof
  show "session_wf (appendEvent now v e s)" if "session_wf s" for now v e s
    using that by (auto simp: session_wf_def appendEvent_def Let_def jsmap_simps new_session_def js_nullish_def hd_append
        split: if_splits option.splits)
qed (auto simp: session_wf_def session_log_def appendEvent_def getEvents_def getSession_def Let_def jsmap_simps new_session_def
    js_nullish_def split: option.splits)

definition record_all :: "(msec \<times> string \<times> session_event) list \<Rightarrow> session_memory" where
  "record_all h = fold (\<lambda>(now, v, e). appendEvent now v e) h []"

definition events_of :: "string \<Rightarrow> (msec \<times> string \<times> session_event) list \<Rightarrow> session_event list" where
  "events_of u h = [e. (now, v, e) \<leftarrow> h, v = u]"

lemma memory_recorded: "session_wf (record_all h)" "session_log (record_all h) u = events_of u h"
  using memlog.recorded [of h u] by (simp_all add: record_all_def events_of_def)

section \<open>Pages\<close>

lemma slice_nat: "a \<le> b \<Longrightarrow> js_slice xs (int a) (int b) = take (b - a) (drop a xs)"
proof -
  assume "a \<le> b"
  have "js_slice xs (int a) (int b) = take (min b (length xs) - min a (length xs)) (drop (min a (length xs)) xs)"
    by (simp add: js_slice_def Let_def nat_diff_distrib' flip: of_nat_min)
  then show ?thesis by (cases "b \<le> length xs"; cases "a \<le> length xs") (simp_all add: min_def)
qed

lemma slice_page: "js_slice xs (int p * int k) (int p * int k + int k) = take k (drop (p * k) xs)"
  using slice_nat [of "p * k" "p * k + k" xs] by simp

lemma pages_concat: "concat (map (\<lambda>p. take k (drop (p * k) xs)) [0..<m]) = take (m * k) xs"
proof (induction m)
  case (Suc m)
  have "take (m * k + k) xs = take (m * k) xs @ take k (drop (m * k) xs)" by (rule take_add)
  with Suc show ?case by (simp add: add.commute)
qed simp

text \<open>The events of a history that a query asks for.\<close>

definition asked_events :: "(string \<Rightarrow> msec option) \<Rightarrow> session_query \<Rightarrow> session_event list \<Rightarrow> session_event list" where
  "asked_events getTime q es = filter (\<lambda>e. in_range getTime (sq_from q) (sq_to q) e \<and>
     (truthy_str (sq_channel q) \<longrightarrow> se_channel e = the (sq_channel q))) es"

lemma matching_asked:
  "matching_events getTime u q (record_all h) = asked_events getTime q (events_of u h)"
  by (simp add: matching_events_def asked_events_def memlog.events_log memory_recorded Let_def conj_commute)

text \<open>
  C24. A user's interactions can be read back page by page. After any history of recorded events, the pages
  of a query put together are exactly the events recorded for that user in the asked range and channel,
  in the order of recording; every page reports their number, and the session is named after the first event.
\<close>

theorem session_pages_complete:
  assumes "\<And>p. S (query p) = Inr (q\<lparr>sq_page := int p + 1, sq_pageSize := int k\<rparr>)"
    and "length (asked_events getTime q (events_of u h)) \<le> m * k"
  shows "\<exists>pages. (\<forall>p. getMyEvents S getTime u (query p) (record_all h) = Inr (pages p) \<and>
      sr_totalCount (pages p) = int (length (asked_events getTime q (events_of u h))) \<and>
      sr_sessionId (pages p) = (case events_of u h of [] \<Rightarrow> None | e # es \<Rightarrow> Some (se_id e))) \<and>
    concat (map (\<lambda>p. sr_events (pages p)) [0..<m]) = asked_events getTime q (events_of u h)"
proof -
  let ?xs = "asked_events getTime q (events_of u h)"
  define pages where "pages p = \<lparr>sr_sessionId = map_option sm_sessionId (getSession u (record_all h)),
    sr_events = take k (drop (p * k) ?xs), sr_totalCount = int (length ?xs), sr_page = int p + 1, sr_pageSize = int k\<rparr>" for p
  have "getMyEvents S getTime u (query p) (record_all h) = Inr (pages p)" for p
    using slice_page
    by (simp add: getMyEvents_def assms(1) pages_def Let_def matching_asked asked_events_def)
  moreover have "map_option sm_sessionId (getSession u (record_all h)) = (case events_of u h of [] \<Rightarrow> None | e # es \<Rightarrow> Some (se_id e))"
    using memlog.metadata_log [OF memory_recorded(1), of h u]
    by (auto simp: memory_recorded split: option.splits list.splits)
  moreover have "concat (map (\<lambda>p. sr_events (pages p)) [0..<m]) = ?xs"
    using assms(2) by (simp add: pages_def pages_concat)
  ultimately show ?thesis by (intro exI [of _ pages]) (simp add: pages_def)
qed

definition demo_session_event :: "string \<Rightarrow> session_event" where
  "demo_session_event i = \<lparr>se_id = i, se_type = ''invoice_viewed'', se_channel = ''app'', se_timestamp = i, se_content = []\<rparr>"

theorem session_pages_complete_witness:
  "\<exists>pages :: nat \<Rightarrow> events_response. concat (map (\<lambda>p. sr_events (pages p)) [0..<2]) = map demo_session_event [''1'', ''2'', ''3''] \<and>
     (\<forall>p. sr_totalCount (pages p) = 3 \<and> sr_sessionId (pages p) = Some ''1'')"
proof -
  let ?h = "map (\<lambda>i. (0, ''u'', demo_session_event i)) [''1'', ''2'', ''3'']"
  let ?q = "\<lparr>sq_from = None, sq_to = None, sq_channel = None, sq_page = 1, sq_pageSize = 2\<rparr>"
  let ?S = "\<lambda>j. case j of JNum p \<Rightarrow> Inr (?q\<lparr>sq_page := p\<rparr>) | _ \<Rightarrow> Inl []"
  have ev: "events_of ''u'' ?h = map demo_session_event [''1'', ''2'', ''3'']" by (simp add: events_of_def)
  have all: "asked_events (\<lambda>s. Some 5) ?q (events_of ''u'' ?h) = map demo_session_event [''1'', ''2'', ''3'']"
    unfolding ev by (simp add: asked_events_def in_range_def js_nullish_def truthy_str_def)
  have "\<exists>pages. (\<forall>p. getMyEvents ?S (\<lambda>s. Some 5) ''u'' (JNum (int p + 1)) (record_all ?h) = Inr (pages p) \<and>
      sr_totalCount (pages p) = int (length (asked_events (\<lambda>s. Some 5) ?q (events_of ''u'' ?h))) \<and>
      sr_sessionId (pages p) = (case events_of ''u'' ?h of [] \<Rightarrow> None | e # es \<Rightarrow> Some (se_id e))) \<and>
    concat (map (\<lambda>p. sr_events (pages p)) [0..<2]) = asked_events (\<lambda>s. Some 5) ?q (events_of ''u'' ?h)"
    by (rule session_pages_complete [where k = 2]) (simp, simp only: all, simp)
  then obtain pages where p: "\<forall>p. getMyEvents ?S (\<lambda>s. Some 5) ''u'' (JNum (int p + 1)) (record_all ?h) = Inr (pages p) \<and>
      sr_totalCount (pages p) = 3 \<and> sr_sessionId (pages p) = Some ''1''"
    and c: "concat (map (\<lambda>p. sr_events (pages p)) [0..<2]) = map demo_session_event [''1'', ''2'', ''3'']"
    unfolding all unfolding ev by (elim exE conjE) (rule that, simp_all add: demo_session_event_def)
  from c p show ?thesis by blast
qed

end
