(* ===== verification/Controllers.thy ===== *)
theory Controllers
  imports Auth Bff_Services Payment Sessions
begin

text \<open>
  The controllers: one datatype of routes per controller class and one function that does what its methods
  do. A method reads the customer through \<^verbatim>\<open>@CustomerId()\<close> or the user through
  \<^verbatim>\<open>@CurrentUser()\<close>, the rest of its arguments come from the path, the query and the body. Query
  parameters that a method takes as strings are present. The users table appears twice, in full and as the
  two columns that the binding flow reads.
\<close>

section \<open>State and plumbing\<close>

record ('b, 's, 'c, 't) app_world =
  aw_bind :: "('b, 's) bind_world"
  aw_chat :: "('c, 't) chat_world"
  aw_users :: "user_row list"
  aw_sessions :: session_memory

type_synonym ('b, 's, 'c, 't) handler = "(('b, 's, 'c, 't) app_world, thrown, handled) async"

record services =
  sv_account :: account_schemas
  sv_billing :: billing_schemas
  sv_contract :: contract_schemas
  sv_notification :: notification_schemas
  sv_payment :: payment_schemas
  sv_report :: report_schemas
  sv_support :: support_schemas
  sv_usage :: usage_schemas
  sv_number :: "rat \<Rightarrow> json"  \<comment> \<open>the JSON number of a fraction\<close>

definition on_ports :: "('a \<Rightarrow> json option) \<Rightarrow> ('c, 't, 'a) bff \<Rightarrow> ('b, 's, 'c, 't) handler" where
  "on_ports json_of m = (\<lambda>w. case m (cw_ports (aw_chat w)) of (r, pw) \<Rightarrow>
     (map_sum app_thrown (\<lambda>a. Returned (json_of a)) r, w\<lparr>aw_chat := (aw_chat w)\<lparr>cw_ports := pw\<rparr>\<rparr>))"

abbreviation port_data :: "('c, 't, json option) bff \<Rightarrow> ('b, 's, 'c, 't) handler" where
  "port_data \<equiv> on_ports id"

abbreviation port_value :: "('c, 't, json) bff \<Rightarrow> ('b, 's, 'c, 't) handler" where
  "port_value \<equiv> on_ports Some"

definition no_customer :: thrown where
  "no_customer = PlainError (new_Error ''@CustomerId() requires a binding-verified route (no bound customer resolved)'')"

definition with_customer :: "bound_customer option \<Rightarrow> (string \<Rightarrow> ('b, 's, 'c, 't) handler) \<Rightarrow> ('b, 's, 'c, 't) handler" where
  "with_customer cust f = (case CustomerId cust of None \<Rightarrow> throw no_customer | Some customerId \<Rightarrow> f customerId)"

definition with_user :: "authenticated_user option \<Rightarrow> (authenticated_user \<Rightarrow> ('b, 's, 'c, 't) handler) \<Rightarrow> ('b, 's, 'c, 't) handler" where
  "with_user user f = (case CurrentUser user of Inl e \<Rightarrow> throw e | Inr u \<Rightarrow> f u)"

section \<open>Billing\<close>

datatype tariff_route = TariffPlan string | TariffBreakdown string string | ApplicableFees string

fun TariffController ::
  "services \<Rightarrow> ('c, 't) bff_request \<Rightarrow> bound_customer option \<Rightarrow> tariff_route \<Rightarrow> ('b, 's, 'c, 't) handler" where
  "TariffController S b cust (TariffPlan contractId) =
     with_customer cust (\<lambda>c. port_data (getTariffPlan (sv_billing S) b c contractId))"
| "TariffController S b cust (TariffBreakdown contractId invoiceId) =
     with_customer cust (\<lambda>c. port_data (getTariffBreakdown (sv_billing S) b c contractId invoiceId))"
| "TariffController S b cust (ApplicableFees contractId) =
     with_customer cust (\<lambda>c. port_data (getApplicableFees (sv_billing S) b c contractId))"

datatype invoice_route = InvoiceList json | InvoiceDetail string | InvoicePdf string

fun InvoiceController ::
  "services \<Rightarrow> ('c, 't) bff_request \<Rightarrow> bound_customer option \<Rightarrow> invoice_route \<Rightarrow> ('b, 's, 'c, 't) handler" where
  "InvoiceController S b cust (InvoiceList query) =
     with_customer cust (\<lambda>c. port_data (getInvoiceList (sv_billing S) b c query))"
| "InvoiceController S b cust (InvoiceDetail invoiceId) =
     with_customer cust (\<lambda>c. port_data (getInvoiceDetail (sv_billing S) b c invoiceId))"
| "InvoiceController S b cust (InvoicePdf invoiceId) =
     with_customer cust (\<lambda>c. port_data (getInvoicePdf (sv_billing S) b c invoiceId))"

section \<open>Usage\<close>

fun direction_str :: "direction \<Rightarrow> string" where
  "direction_str Up = ''up''"
| "direction_str Down = ''down''"
| "direction_str Neutral = ''neutral''"

text \<open>A percentage that is not a number is written as null, as a missing one is.\<close>

definition comparison_json :: "services \<Rightarrow> comparison_response \<Rightarrow> json" where
  "comparison_json S c = JObj (AList.update ''direction'' (JStr (direction_str (cr_direction c)))
     (AList.update ''percentageChange'' (case cr_percentageChange c of Percent x \<Rightarrow> sv_number S x | _ \<Rightarrow> JNull)
       (obj_entries (cr_raw c))))"

datatype usage_route =
  Meters
| ConsumptionHistory
| ConsumptionComparison string string
| ReadingDetail string
| CalibrationStatus string
| MeterHistory string

fun UsageController ::
  "services \<Rightarrow> ('c, 't) bff_request \<Rightarrow> bound_customer option \<Rightarrow> usage_route \<Rightarrow> ('b, 's, 'c, 't) handler" where
  "UsageController S b cust Meters = with_customer cust (\<lambda>c. port_data (getMeters b c))"
| "UsageController S b cust ConsumptionHistory = with_customer cust (\<lambda>c. port_data (getConsumptionHistory b c))"
| "UsageController S b cust (ConsumptionComparison current previous) = with_customer cust (\<lambda>c.
     on_ports (\<lambda>r. Some (comparison_json S r)) (getConsumptionComparison (sv_usage S) b c current previous))"
| "UsageController S b cust (ReadingDetail period) =
     with_customer cust (\<lambda>c. port_data (getReadingDetail (sv_usage S) b c period))"
| "UsageController S b cust (CalibrationStatus meterId) =
     with_customer cust (\<lambda>c. port_value (getCalibrationStatus (sv_usage S) b c meterId))"
| "UsageController S b cust (MeterHistory meterId) =
     with_customer cust (\<lambda>c. port_data (getMeterHistory (sv_usage S) b c meterId))"

datatype smart_meter_route = RealtimeConsumption | MeterStatus string

fun SmartMeterController ::
  "('c, 't) bff_request \<Rightarrow> bound_customer option \<Rightarrow> smart_meter_route \<Rightarrow> ('b, 's, 'c, 't) handler" where
  "SmartMeterController b cust RealtimeConsumption = with_customer cust (\<lambda>c. port_value (getRealtimeConsumption b c))"
| "SmartMeterController b cust (MeterStatus meterId) = with_customer cust (\<lambda>c. port_value (getMeterStatus b c meterId))"

section \<open>Notifications\<close>

datatype notification_route = Preferences | UpdatePreferences json | NotificationHistory params | CutoffSchedule string

fun NotificationController ::
  "services \<Rightarrow> ('c, 't) bff_request \<Rightarrow> bound_customer option \<Rightarrow> notification_route \<Rightarrow> ('b, 's, 'c, 't) handler" where
  "NotificationController S b cust Preferences = with_customer cust (\<lambda>c. port_data (getPreferences b c))"
| "NotificationController S b cust (UpdatePreferences body) =
     with_customer cust (\<lambda>c. port_data (updatePreferences (sv_notification S) b c body))"
| "NotificationController S b cust (NotificationHistory query) =
     with_customer cust (\<lambda>c. port_data (getHistory (sv_notification S) b c query))"
| "NotificationController S b cust (CutoffSchedule areaId) = port_data (getCutoffSchedule b areaId)"

datatype alert_route = ActiveAlerts | AlertHistory params | AcknowledgeAlert string

fun ProactiveNotificationController ::
  "services \<Rightarrow> ('c, 't) bff_request \<Rightarrow> bound_customer option \<Rightarrow> alert_route \<Rightarrow> ('b, 's, 'c, 't) handler" where
  "ProactiveNotificationController S b cust ActiveAlerts = with_customer cust (\<lambda>c. port_data (getActiveAlerts b c))"
| "ProactiveNotificationController S b cust (AlertHistory query) =
     with_customer cust (\<lambda>c. port_data (getAlertHistory (sv_notification S) b c query))"
| "ProactiveNotificationController S b cust (AcknowledgeAlert alertId) =
     with_customer cust (\<lambda>c. port_data (acknowledgeAlert (sv_notification S) b alertId c))"

section \<open>Payments\<close>

datatype payment_route = CreatePayment json | PaymentHistory json | CreateBatchPayment json | SetupAutoDebit json

fun PaymentController ::
  "services \<Rightarrow> ('c, 't) bff_request \<Rightarrow> bound_customer option \<Rightarrow> payment_route \<Rightarrow> ('b, 's, 'c, 't) handler" where
  "PaymentController S b cust (CreatePayment body) =
     with_customer cust (\<lambda>c. port_value (createPayment (sv_payment S) b c body))"
| "PaymentController S b cust (PaymentHistory query) =
     with_customer cust (\<lambda>c. port_value (getPaymentHistory (sv_payment S) b c query))"
| "PaymentController S b cust (CreateBatchPayment body) =
     with_customer cust (\<lambda>c. port_value (createBatchPayment (sv_payment S) b c body))"
| "PaymentController S b cust (SetupAutoDebit body) =
     with_customer cust (\<lambda>c. port_value (setupAutoDebit (sv_payment S) b c body))"

datatype debt_route = OutstandingDebt | DebtHistory

fun DebtController :: "('c, 't) bff_request \<Rightarrow> bound_customer option \<Rightarrow> debt_route \<Rightarrow> ('b, 's, 'c, 't) handler" where
  "DebtController b cust OutstandingDebt = with_customer cust (\<lambda>c. port_value (getOutstandingDebt b c))"
| "DebtController b cust DebtHistory = with_customer cust (\<lambda>c. port_value (getDebtHistory b c))"

definition WebhookController :: "services \<Rightarrow> ('c, 't) bff_request \<Rightarrow> bool \<Rightarrow> json \<Rightarrow> ('b, 's, 'c, 't) handler" where
  "WebhookController S b datesKept body =
     on_ports (\<lambda>_. Some (JObj [(''received'', JBool True)])) (handleWebhook (sv_payment S) b datesKept body)"

section \<open>Incidents and reports\<close>

datatype incident_route =
  ListIncidents incident_filters
| Triage json
| CreateReport json
| MyReports "string option"
| ReportDetail string
| IncidentDetail string
| CreateIncident json
| UpdateIncidentStatus string json

fun ReportController ::
  "services \<Rightarrow> ('c, 't) bff_request \<Rightarrow> bound_customer option \<Rightarrow> incident_route \<Rightarrow> ('b, 's, 'c, 't) handler" where
  "ReportController S b cust (ListIncidents filters) = port_data (listIncidents b (Some filters))"
| "ReportController S b cust (Triage body) = port_data (gisTriage (sv_report S) b body)"
| "ReportController S b cust (CreateReport body) =
     with_customer cust (\<lambda>c. port_data (createReport (sv_report S) b c body))"
| "ReportController S b cust (MyReports status) = with_customer cust (\<lambda>c. port_data (getMyReports b c status))"
| "ReportController S b cust (ReportDetail reportId) = with_customer cust (\<lambda>c. port_data (getReportDetail b c reportId))"
| "ReportController S b cust (IncidentDetail i) = port_data (getIncidentDetail b i)"
| "ReportController S b cust (CreateIncident body) = port_data (createIncident (sv_report S) b body)"
| "ReportController S b cust (UpdateIncidentStatus i body) = port_data (updateIncidentStatus (sv_report S) b i body)"

section \<open>Account and contracts\<close>

datatype account_route = Profile | Timeline | RelatedAccounts | UpdateProfile json

fun AccountController ::
  "services \<Rightarrow> ('c, 't) bff_request \<Rightarrow> bound_customer option \<Rightarrow> account_route \<Rightarrow> ('b, 's, 'c, 't) handler" where
  "AccountController S b cust Profile = with_customer cust (\<lambda>c. port_data (getProfile b c))"
| "AccountController S b cust Timeline = with_customer cust (\<lambda>c. port_data (getTimeline b c None))"
| "AccountController S b cust RelatedAccounts = with_customer cust (\<lambda>c. port_data (getRelatedAccounts b c))"
| "AccountController S b cust (UpdateProfile body) =
     with_customer cust (\<lambda>c. port_data (updateProfile (sv_account S) b c body))"

datatype onboarding_route = CreateOnboarding json | OnboardingStatus string | SubmitDocuments string json

fun OnboardingController ::
  "services \<Rightarrow> ('c, 't) bff_request \<Rightarrow> authenticated_user option \<Rightarrow> onboarding_route \<Rightarrow> ('b, 's, 'c, 't) handler" where
  "OnboardingController S b user (CreateOnboarding body) =
     with_user user (\<lambda>u. port_data (createOnboardingRequest (sv_account S) b (aut_id u) body))"
| "OnboardingController S b user (OnboardingStatus requestId) = port_data (getOnboardingStatus b requestId)"
| "OnboardingController S b user (SubmitDocuments requestId body) =
     with_user user (\<lambda>u. port_data (submitDocuments (sv_account S) b requestId (aut_id u) body))"

datatype contract_route = Contracts json | ContractDetail string | ContractVersions string | ContractPDF string

fun ContractController ::
  "services \<Rightarrow> ('c, 't) bff_request \<Rightarrow> bound_customer option \<Rightarrow> contract_route \<Rightarrow> ('b, 's, 'c, 't) handler" where
  "ContractController S b cust (Contracts query) =
     with_customer cust (\<lambda>c. port_data (getContracts (sv_contract S) b c query))"
| "ContractController S b cust (ContractDetail contractId) =
     with_customer cust (\<lambda>c. port_data (getContractDetail (sv_contract S) b c contractId))"
| "ContractController S b cust (ContractVersions contractId) =
     with_customer cust (\<lambda>c. port_data (getContractVersions (sv_contract S) b c contractId))"
| "ContractController S b cust (ContractPDF contractId) =
     with_customer cust (\<lambda>c. port_data (getContractPDF (sv_contract S) b c contractId))"

datatype econtract_route = Dossier string | SignDossier string json

fun EcontractController ::
  "services \<Rightarrow> ('c, 't) bff_request \<Rightarrow> bound_customer option \<Rightarrow> econtract_route \<Rightarrow> ('b, 's, 'c, 't) handler" where
  "EcontractController S b cust (Dossier dossierId) = with_customer cust (\<lambda>c. port_data (getEcontract b c dossierId))"
| "EcontractController S b cust (SignDossier dossierId body) =
     with_customer cust (\<lambda>c. port_data (signEcontract (sv_contract S) b c dossierId body))"

section \<open>Support\<close>

datatype support_route = ClickToCall json | CallHistory | Message json | Messages

text \<open>
  \<open>le\<close> compares timestamps as \<^verbatim>\<open>localeCompare\<close> does; a body without a text sends the empty
  text.
\<close>

definition conversation_json :: "json \<times> json list \<Rightarrow> json option" where
  "conversation_json r = Some (JObj [(''conversationId'', fst r), (''messages'', JArr (snd r))])"

fun SupportController ::
  "services \<Rightarrow> ('c, 't) bff_request \<Rightarrow> (string \<Rightarrow> string \<Rightarrow> bool) \<Rightarrow> msec \<Rightarrow> string \<Rightarrow> authenticated_user option \<Rightarrow>
   support_route \<Rightarrow> ('b, 's, 'c, 't) handler" where
  "SupportController S b le now uuid user (ClickToCall body) =
     with_user user (\<lambda>u. port_value (createClickToCall (sv_support S) b (aut_id u) body))"
| "SupportController S b le now uuid user CallHistory = with_user user (\<lambda>u. port_value (getCallHistory b (aut_id u)))"
| "SupportController S b le now uuid user (Message body) = with_user user (\<lambda>u w.
     case sendMessage (sv_support S) now uuid (aut_id u) (json_nullish (json_get ''text'' body) (JStr [])) (aw_chat w) of
       (r, cw) \<Rightarrow> (map_sum app_thrown (\<lambda>messageId. Returned (Some (JObj [(''sent'', JBool True),
                     (''messageId'', JStr messageId)]))) r, w\<lparr>aw_chat := cw\<rparr>))"
| "SupportController S b le now uuid user Messages = with_user user (\<lambda>u w.
     on_ports conversation_json (getConversation le b (aut_id u) (cw_rows (aw_chat w))) w)"

section \<open>Sessions\<close>

datatype session_route = MySession | MyEvents json

definition detail_json :: "session_detail \<Rightarrow> json" where
  "detail_json d = JObj [(''session'', case sx_session d of None \<Rightarrow> JNull | Some m \<Rightarrow> metadata_json m),
     (''recentEvents'', JArr (map session_event_json (sx_recentEvents d)))]"

definition events_json :: "events_response \<Rightarrow> json" where
  "events_json r = JObj [(''sessionId'', case sr_sessionId r of None \<Rightarrow> JNull | Some i \<Rightarrow> JStr i),
     (''events'', JArr (map session_event_json (sr_events r))), (''totalCount'', JNum (sr_totalCount r)),
     (''page'', JNum (sr_page r)), (''pageSize'', JNum (sr_pageSize r))]"

fun SessionController ::
  "session_query schema \<Rightarrow> (string \<Rightarrow> msec option) \<Rightarrow> msec \<Rightarrow> authenticated_user option \<Rightarrow> session_route \<Rightarrow> ('b, 's, 'c, 't) handler" where
  "SessionController Q getTime now user MySession = with_user user (\<lambda>u w.
     (Inr (Returned (Some (detail_json (getMySession getTime now (aut_id u) (aw_sessions w))))), w))"
| "SessionController Q getTime now user (MyEvents query) = with_user user (\<lambda>u w.
     (map_sum app_thrown (\<lambda>r. Returned (Some (events_json r))) (getMyEvents Q getTime (aut_id u) query (aw_sessions w)), w))"

section \<open>Binding\<close>

definition challenge_json :: "challenge_descriptor \<Rightarrow> json" where
  "challenge_json c = JObj [(''type'', JStr (factor_str (cd_type c))), (''label'', JStr (cd_label c)),
     (''inputMode'', JStr (case cd_inputMode c of NumericInput \<Rightarrow> ''numeric'' | TextInput \<Rightarrow> ''text''))]"

definition candidate_json :: "candidate \<Rightarrow> json" where
  "candidate_json c = JObj [(''customerRef'', JStr (cand_customerRef c)), (''maskedHint'', JStr (cand_maskedHint c)),
     (''challenge'', challenge_json (cand_challenge c))]"

definition resolve_json :: "resolve_result \<Rightarrow> json" where
  "resolve_json r = JObj ([(''status'', JStr (Binding.status_str (rr_status r)))] @ jstr ''customerRef'' (rr_customerRef r)
     @ jstr ''maskedHint'' (rr_maskedHint r) @ jopt ''challenge'' (map_option challenge_json (rr_challenge r))
     @ jopt ''candidates'' (map_option (\<lambda>cs. JArr (map candidate_json cs)) (rr_candidates r))
     @ jopt ''capped'' (map_option JBool (rr_capped r)))"

fun bind_json :: "bind_result \<Rightarrow> json" where
  "bind_json NotBound = JObj [(''bound'', JBool False)]"
| "bind_json (Bound customerId) = JObj [(''bound'', JBool True), (''customerId'', JStr customerId)]"

definition on_binding ::
  "library_errors \<Rightarrow> ('a \<Rightarrow> json) \<Rightarrow> ('b, 's, 'a) bind_op \<Rightarrow> ('b, 's, 'c, 't) handler" where
  "on_binding L json_of m = (\<lambda>w. case m (aw_bind w) of (r, bw) \<Rightarrow>
     (map_sum (bind_thrown L) (\<lambda>a. Returned (Some (json_of a))) r, w\<lparr>aw_bind := bw\<rparr>))"

datatype binding_route = BindInit | Bind json | RegisterCustomer json

fun BindingController ::
  "library_errors \<Rightarrow> ('b, 's) bind_deps \<Rightarrow> bind_body schema \<Rightarrow> create_customer_request schema \<Rightarrow> msec \<Rightarrow> string option \<Rightarrow>
   string option \<Rightarrow> authenticated_user option \<Rightarrow> binding_route \<Rightarrow> ('b, 's, 'c, 't) handler" where
  "BindingController L d SB SR now device ip user BindInit = with_user user (\<lambda>u.
     on_binding L resolve_json (bindInit d now (aut_id u) (aut_sessionId u) device ip))"
| "BindingController L d SB SR now device ip user (Bind body) = with_user user (\<lambda>u.
     case SB body of
       Inl m \<Rightarrow> throw (BaseException (new_ValidationException (Inr m)))
     | Inr parsed \<Rightarrow> on_binding L bind_json (bind d now (aut_id u) (aut_sessionId u) parsed device ip))"
| "BindingController L d SB SR now device ip user (RegisterCustomer body) = with_user user (\<lambda>u.
     case SR body of
       Inl m \<Rightarrow> throw (BaseException (new_ValidationException (Inr m)))
     | Inr profile \<Rightarrow> on_binding L bind_json (bindRegister d now (aut_id u) (aut_sessionId u) profile device ip))"

section \<open>Auth\<close>

definition me_json :: "me_response \<Rightarrow> json" where
  "me_json m = JObj [(''userId'', JStr (me_userId m)), (''profileStatus'', JStr (me_profileStatus m)),
     (''fullName'', case me_fullName m of None \<Rightarrow> JNull | Some n \<Rightarrow> JStr n), (''hasCccd'', JBool (me_hasCccd m)),
     (''customerId'', case me_customerId m of None \<Rightarrow> JNull | Some i \<Rightarrow> JStr i), (''linked'', JBool (me_linked m))]"

fun registration_json :: "registration \<Rightarrow> json" where
  "registration_json (NotRegistered status) = JObj [(''registered'', JBool False), (''profileStatus'', JStr status)]"
| "registration_json (Registered status customerId) =
     JObj ([(''registered'', JBool True), (''profileStatus'', JStr status)] @ jopt ''customerId'' customerId)"

fun provider_json :: "provider_answer \<Rightarrow> json" where
  "provider_json (ProviderAnswer None providerType message) =
     JObj [(''message'', JStr message), (''providerType'', JStr providerType)]"
| "provider_json (ProviderAnswer (Some userId) providerType message) =
     JObj [(''userId'', JStr userId), (''providerType'', JStr providerType), (''message'', JStr message)]"

definition provider_handler :: "thrown + provider_answer \<Rightarrow> ('b, 's, 'c, 't) handler" where
  "provider_handler r = (\<lambda>w. (map_sum id (\<lambda>a. Returned (Some (provider_json a))) r, w))"

record 't auth_deps =
  au_fetch :: "string \<Rightarrow> ('t, js_error, fetch_response) async"
  au_customerServiceUrl :: "string option"
  au_register :: "string schema"
  au_link :: "string schema"

datatype auth_route = LinkProvider json | UnlinkProvider json | Me | CheckRegistration

fun AuthController ::
  "library_errors \<Rightarrow> pii_service \<Rightarrow> 't auth_deps \<Rightarrow> ('c, 't) bff_request \<Rightarrow> authenticated_user option \<Rightarrow> auth_route \<Rightarrow>
   ('b, 's, 'c, 't) handler" where
  "AuthController L pii A b user (LinkProvider body) =
     with_user user (\<lambda>u. provider_handler (linkProvider (au_link A) (aut_id u) body))"
| "AuthController L pii A b user (UnlinkProvider body) =
     with_user user (\<lambda>u. provider_handler (unlinkProvider (au_link A) (aut_id u) body))"
| "AuthController L pii A b user Me = with_user user (\<lambda>u w.
     (map_sum (\<lambda>e. PlainError (le_cipher L e)) (\<lambda>m. Returned (Some (me_json m)))
        (getMe pii (aw_users w) (bw_bindings (aw_bind w)) (aut_id u)), w))"
| "AuthController L pii A b user CheckRegistration = with_user user (\<lambda>u w.
     case checkRegistration b (au_fetch A) (au_customerServiceUrl A) (aw_users w) (aut_id u) (cw_ports (aw_chat w)) of
       (r, pw) \<Rightarrow> (Inr (Returned (Some (registration_json r))), w\<lparr>aw_chat := (aw_chat w)\<lparr>cw_ports := pw\<rparr>\<rparr>))"

end
