(* ===== verification/Server.thy ===== *)
theory Server
  imports Controllers
begin

text \<open>
  A request from the guards to the reply (src/main.ts, src/app.module.ts): the session guard and the binding
  guard, which are global and run in this order because the auth module is imported first, the guard of the
  webhook's controller, the handler, and the interceptor or the filter. A route carries what its decorators
  say: whether it is public, and whether it skips the binding guard.
\<close>

section \<open>Routes\<close>

datatype customer_route =
  Tariff tariff_route
| Invoice invoice_route
| Usage usage_route
| SmartMeter smart_meter_route
| Notification notification_route
| Alerts alert_route
| Payments payment_route
| Debt debt_route
| Incidents incident_route
| Account account_route
| Contract contract_route
| Econtract econtract_route

datatype user_route =
  Onboarding onboarding_route
| Support support_route
| SessionLog session_route
| BindingFlow binding_route
| Identity auth_route

datatype public_route = ProviderCallback json | PaymentIpn json

datatype route = CustomerRoute customer_route | UserRoute user_route | PublicRoute public_route

fun is_public :: "route \<Rightarrow> bool" where
  "is_public (PublicRoute _) = True"
| "is_public _ = False"

fun skips_binding :: "route \<Rightarrow> bool" where
  "skips_binding (UserRoute _) = True"
| "skips_binding _ = False"

text \<open>The routes marked with \<^verbatim>\<open>@HttpCode(HttpStatus.OK)\<close>.\<close>

fun fixed_ok :: "route \<Rightarrow> bool" where
  "fixed_ok (UserRoute (BindingFlow _)) = True"
| "fixed_ok (UserRoute (Identity (LinkProvider _))) = True"
| "fixed_ok (UserRoute (Identity (UnlinkProvider _))) = True"
| "fixed_ok (PublicRoute (ProviderCallback _)) = True"
| "fixed_ok _ = False"

section \<open>Serving a request\<close>

record ('b, 's, 't) server =
  xs_nest :: nest_lib
  xs_defaultStatus :: "string \<Rightarrow> int"  \<comment> \<open>the framework's status of an answer, by method\<close>
  xs_errors :: library_errors
  xs_env :: filter_env
  xs_services :: services
  xs_binding :: "('b, 's) bind_deps"
  xs_bindSchema :: "bind_body schema"
  xs_registerSchema :: "create_customer_request schema"
  xs_auth :: "'t auth_deps"
  xs_sessionQuery :: "session_query schema"
  xs_getTime :: "string \<Rightarrow> msec option"
  xs_localeLe :: "string \<Rightarrow> string \<Rightarrow> bool"
  xs_apiKey :: "string option"
  xs_datesKept :: bool

record ('c, 't) http_call =
  hc_line :: request_line
  hc_session :: "js_error + json option"  \<comment> \<open>what the session library says about the headers\<close>
  hc_apiKey :: "json option"
  hc_device :: "string option"
  hc_ip :: "string option"
  hc_bff :: "('c, 't) bff_request"
  hc_now :: msec
  hc_uuid :: string

fun customer_handler ::
  "('b, 's, 't) server \<Rightarrow> ('c, 't) http_call \<Rightarrow> bound_customer option \<Rightarrow> customer_route \<Rightarrow> ('b, 's, 'c, 't) handler" where
  "customer_handler X q cust (Tariff r) = TariffController (xs_services X) (hc_bff q) cust r"
| "customer_handler X q cust (Invoice r) = InvoiceController (xs_services X) (hc_bff q) cust r"
| "customer_handler X q cust (Usage r) = UsageController (xs_services X) (hc_bff q) cust r"
| "customer_handler X q cust (SmartMeter r) = SmartMeterController (hc_bff q) cust r"
| "customer_handler X q cust (Notification r) = NotificationController (xs_services X) (hc_bff q) cust r"
| "customer_handler X q cust (Alerts r) = ProactiveNotificationController (xs_services X) (hc_bff q) cust r"
| "customer_handler X q cust (Payments r) = PaymentController (xs_services X) (hc_bff q) cust r"
| "customer_handler X q cust (Debt r) = DebtController (hc_bff q) cust r"
| "customer_handler X q cust (Incidents r) = ReportController (xs_services X) (hc_bff q) cust r"
| "customer_handler X q cust (Account r) = AccountController (xs_services X) (hc_bff q) cust r"
| "customer_handler X q cust (Contract r) = ContractController (xs_services X) (hc_bff q) cust r"
| "customer_handler X q cust (Econtract r) = EcontractController (xs_services X) (hc_bff q) cust r"

fun user_handler ::
  "('b, 's, 't) server \<Rightarrow> ('c, 't) http_call \<Rightarrow> authenticated_user option \<Rightarrow> user_route \<Rightarrow> ('b, 's, 'c, 't) handler" where
  "user_handler X q user (Onboarding r) = OnboardingController (xs_services X) (hc_bff q) user r"
| "user_handler X q user (Support r) =
     SupportController (xs_services X) (hc_bff q) (xs_localeLe X) (hc_now q) (hc_uuid q) user r"
| "user_handler X q user (SessionLog r) = SessionController (xs_sessionQuery X) (xs_getTime X) (hc_now q) user r"
| "user_handler X q user (BindingFlow r) = BindingController (xs_errors X) (xs_binding X) (xs_bindSchema X)
     (xs_registerSchema X) (hc_now q) (hc_device q) (hc_ip q) user r"
| "user_handler X q user (Identity r) =
     AuthController (xs_errors X) (bd_pii (xs_binding X)) (xs_auth X) (hc_bff q) user r"

fun public_handler :: "('b, 's, 't) server \<Rightarrow> ('c, 't) http_call \<Rightarrow> public_route \<Rightarrow> ('b, 's, 'c, 't) handler" where
  "public_handler X q (ProviderCallback body) = provider_handler (providerCallback (au_register (xs_auth X)) body)"
| "public_handler X q (PaymentIpn body) =
     (case InterServiceApiKeyGuard (xs_nest X) (xs_apiKey X) (hc_apiKey q) of
        Inl e \<Rightarrow> throw e
      | Inr _ \<Rightarrow> WebhookController (xs_services X) (hc_bff q) (xs_datesKept X) body)"

definition binding_guard ::
  "('b, 's, 't) server \<Rightarrow> ('c, 't) http_call \<Rightarrow> authenticated_user option \<Rightarrow> bool \<Rightarrow>
   (('b, 's, 'c, 't) app_world, thrown, bound_customer option) async" where
  "binding_guard X q user skip = (\<lambda>w.
     case canActivate (xs_binding X) (hc_now q) (map_option aut_id user) skip (aw_bind w) of
       (r, bw) \<Rightarrow> (map_sum (guard_thrown (xs_nest X) (xs_errors X)) id r, w\<lparr>aw_bind := bw\<rparr>))"

definition handle :: "('b, 's, 't) server \<Rightarrow> ('c, 't) http_call \<Rightarrow> route \<Rightarrow> ('b, 's, 'c, 't) handler" where
  "handle X q route = (case SessionAuthGuard (is_public route) (hc_session q) of
     Inl e \<Rightarrow> throw e
   | Inr user \<Rightarrow> bnd (binding_guard X q user (skips_binding route)) (\<lambda>cust.
       case route of
         CustomerRoute r \<Rightarrow> customer_handler X q cust r
       | UserRoute r \<Rightarrow> user_handler X q user r
       | PublicRoute r \<Rightarrow> public_handler X q r))"

definition answer_status :: "('b, 's, 't) server \<Rightarrow> ('c, 't) http_call \<Rightarrow> route \<Rightarrow> int" where
  "answer_status X q route = (if fixed_ok route then 200 else xs_defaultStatus X (rl_method (hc_line q)))"

definition respond ::
  "('b, 's, 't) server \<Rightarrow> ('c, 't) http_call \<Rightarrow> route \<Rightarrow> thrown + handled \<Rightarrow> reply" where
  "respond X q route outcome = (case outcome of
     Inl e \<Rightarrow> catch_exception (xs_env X) (hc_now q) (hc_line q) e
   | Inr answer \<Rightarrow> \<lparr>rp_status = answer_status X q route,
       rp_body = success_json (intercept (hc_now q) (hc_line q) answer)\<rparr>)"

definition serve_http ::
  "('b, 's, 't) server \<Rightarrow> ('c, 't) http_call \<Rightarrow> route \<Rightarrow> ('b, 's, 'c, 't) app_world \<Rightarrow> reply \<times> ('b, 's, 'c, 't) app_world" where
  "serve_http X q route w = (case handle X q route w of (outcome, w') \<Rightarrow> (respond X q route outcome, w'))"

section \<open>What the services fail with\<close>

fun expected :: "thrown \<Rightarrow> bool" where
  "expected (HttpException e) = (hx_status e \<in> {403, 500})"
| "expected (BaseException e) = (getHttpStatus (ex_class e) \<in> {400, 401, 403, 404, 409, 429, 500})"
| "expected _ = True"

abbreviation app_expected :: "app_error set" where
  "app_expected \<equiv> {e. expected (app_thrown e)}"

named_theorems service_fails

lemma callPort_fails [service_fails]:
  assumes "queue_ready (bf_deps b)"
  shows "only_fails app_expected (callPort b n p m ps)"
  unfolding only_fails_def
proof (intro allI impI)
  fix w e w'
  assume run: "callPort b n p m ps w = (Inl e, w')"
  let ?run = "execute (bf_deps b) (bf_ctx b) (fst (bf_time b n)) (snd (bf_time b n)) p m ps None"
  obtain pe where e: "e = PortError pe" "?run w = (Inl pe, w')"
    using run by (cases "?run w"; cases "fst (?run w)") (auto simp: callPort_def port_op_def)
  have "pe = PortNotRegisteredException p \<or> pe \<in> port_failures p"
  proof (cases "map_of (pw_ports w) p")
    case None
    with e(2) show ?thesis by (simp add: execute_def async_simps)
  next
    case (Some entry)
    with e(2) have "execute_entry (bf_deps b) (bf_ctx b) (fst (bf_time b n)) (snd (bf_time b n)) p entry m ps None w = (Inl pe, w')"
      by (simp add: execute_is_entry)
    then show ?thesis using only_failsD [OF entry_fails [OF assms]] by blast
  qed
  then show "e \<in> app_expected" by (auto simp: e(1) port_failures_def port_base_def)
qed

lemma own_errors_expected [service_fails]:
  "only_fails app_expected (safeParse S v msg)"
  "only_fails app_expected (data_or (NotFoundException m) x)"
  "only_fails app_expected (data_or (PortError (PortFallbackException p c)) x)"
  "only_fails app_expected (throw (TypeErrorException m))"
  "only_fails app_expected (throw (ForbiddenException m))"
  by (auto simp: only_fails_def safeParse_def data_or_def async_simps port_base_def new_ValidationException_def
      new_NotFoundException_def new_ForbiddenException_def split: sum.splits if_splits)

lemma fetch_fails [service_fails]:
  assumes "queue_ready (bf_deps b)"
  shows "only_fails app_expected (fetch b p m ps)"
    "only_fails app_expected (fetch_or b p m ps (NotFoundException msg))"
    "only_fails app_expected (fetch_or b p m ps (PortError (PortFallbackException q c)))"
  unfolding fetch_or_def fetch_def using assms by (intro only_fails_rules service_fails | assumption)+

lemma billing_fails [service_fails]:
  assumes "queue_ready (bf_deps b)"
  shows "only_fails app_expected (getInvoiceList SB b c query)" "only_fails app_expected (getInvoiceDetail SB b c i)"
    "only_fails app_expected (getInvoicePdf SB b c i)" "only_fails app_expected (getTariffPlan SB b c k)"
    "only_fails app_expected (getTariffBreakdown SB b c k i)" "only_fails app_expected (getApplicableFees SB b c k)"
  unfolding getInvoiceList_def getInvoiceDetail_def getInvoicePdf_def getTariffPlan_def getTariffBreakdown_def
    getApplicableFees_def validateInvoiceId_def validateContractId_def
  using assms by (intro only_fails_rules service_fails | assumption)+

lemma usage_fails [service_fails]:
  assumes "queue_ready (bf_deps b)"
  shows "only_fails app_expected (getMeters b c)" "only_fails app_expected (getConsumptionHistory b c)"
    "only_fails app_expected (getConsumptionComparison SU b c p1 p2)" "only_fails app_expected (getReadingDetail SU b c p)"
    "only_fails app_expected (getCalibrationStatus SU b c m)" "only_fails app_expected (getMeterHistory SU b c m)"
    "only_fails app_expected (getRealtimeConsumption b c)" "only_fails app_expected (getMeterStatus b c m)"
  unfolding getMeters_def getConsumptionHistory_def getConsumptionComparison_def getReadingDetail_def getCalibrationStatus_def
    getMeterHistory_def getRealtimeConsumption_def getMeterStatus_def validateComparisonParams_def validatePeriod_def
    validateMeterId_def null_access_def null_destructure_def Let_def
  using assms by (intro only_fails_rules service_fails | assumption)+

lemma report_fails [service_fails]:
  assumes "queue_ready (bf_deps b)"
  shows "only_fails app_expected (listIncidents b fs)" "only_fails app_expected (gisTriage SR b body)"
    "only_fails app_expected (createReport SR b c body)" "only_fails app_expected (getMyReports b c st)"
    "only_fails app_expected (getReportDetail b c i)" "only_fails app_expected (getIncidentDetail b i)"
    "only_fails app_expected (createIncident SR b body)" "only_fails app_expected (updateIncidentStatus SR b i body)"
  unfolding listIncidents_def gisTriage_def createReport_def getMyReports_def getReportDetail_def getIncidentDetail_def
    createIncident_def updateIncidentStatus_def
  using assms by (intro only_fails_rules service_fails | assumption)+

lemma notification_fails [service_fails]:
  assumes "queue_ready (bf_deps b)"
  shows "only_fails app_expected (getPreferences b c)" "only_fails app_expected (updatePreferences SN b c body)"
    "only_fails app_expected (getHistory SN b c fs)" "only_fails app_expected (getCutoffSchedule b a)"
    "only_fails app_expected (getActiveAlerts b c)" "only_fails app_expected (getAlertHistory SN b c fs)"
    "only_fails app_expected (acknowledgeAlert SN b a c)"
  unfolding getPreferences_def updatePreferences_def getHistory_def getCutoffSchedule_def getActiveAlerts_def
    getAlertHistory_def acknowledgeAlert_def
  using assms by (intro only_fails_rules service_fails | assumption)+

lemma account_fails [service_fails]:
  assumes "queue_ready (bf_deps b)"
  shows "only_fails app_expected (getProfile b c)" "only_fails app_expected (getTimeline b c fs)"
    "only_fails app_expected (getRelatedAccounts b c)" "only_fails app_expected (updateProfile SA b c body)"
    "only_fails app_expected (createOnboardingRequest SA b c body)" "only_fails app_expected (getOnboardingStatus b i)"
    "only_fails app_expected (submitDocuments SA b i c body)"
  unfolding getProfile_def getTimeline_def getRelatedAccounts_def updateProfile_def createOnboardingRequest_def
    getOnboardingStatus_def submitDocuments_def
  using assms by (intro only_fails_rules service_fails | assumption)+

lemma contract_fails [service_fails]:
  assumes "queue_ready (bf_deps b)"
  shows "only_fails app_expected (getContracts SC b c query)" "only_fails app_expected (getContractDetail SC b c k)"
    "only_fails app_expected (getContractVersions SC b c k)" "only_fails app_expected (getContractPDF SC b c k)"
    "only_fails app_expected (getEcontract b c k)" "only_fails app_expected (signEcontract SC b c k body)"
  unfolding getContracts_def getContractDetail_def getContractVersions_def getContractPDF_def getEcontract_def
    signEcontract_def validateContract_def
  using assms by (intro only_fails_rules service_fails | assumption)+

lemma verifyInvoice_fails [service_fails]:
  "queue_ready (bf_deps b) \<Longrightarrow> only_fails app_expected (verifyInvoice b n c i)"
  unfolding verifyInvoice_def not_payable_def by (intro only_fails_rules service_fails | assumption)+

lemma verifyInvoices_fails [service_fails]:
  "queue_ready (bf_deps b) \<Longrightarrow> only_fails app_expected (verifyInvoices b n c is t)"
  by (induction "is" arbitrary: n t) (auto intro!: only_fails_rules service_fails)

lemma cache_op_fails [service_fails]: "only_fails E (cache_op f)"
  by (auto simp: only_fails_def cache_op_def split: prod.splits)

lemma payment_fails [service_fails]:
  assumes "queue_ready (bf_deps b)"
  shows "only_fails app_expected (createPayment SP b c body)" "only_fails app_expected (getPaymentHistory SP b c query)"
    "only_fails app_expected (createBatchPayment SP b c body)" "only_fails app_expected (setupAutoDebit SP b c body)"
    "only_fails app_expected (getOutstandingDebt b c)" "only_fails app_expected (getDebtHistory b c)"
  unfolding createPayment_def getPaymentHistory_def createBatchPayment_def setupAutoDebit_def getOutstandingDebt_def
    getDebtHistory_def submitPayment_def no_paymentId_def split_beta
  using assms by (intro only_fails_rules service_fails | assumption)+

lemma handled_fails [service_fails]: "only_fails E (try_catch m (\<lambda>_. ret x))"
  by (auto simp: only_fails_def try_catch_app ret_app split: prod.splits sum.splits)

lemma invalidate_fails [service_fails]: "only_fails app_expected (invalidate b pattern)"
  unfolding invalidate_def by (auto intro!: only_fails_rules service_fails split: option.splits)

lemma webhook_fails [service_fails]:
  "only_fails app_expected (handleWebhook SP b k body)"
  unfolding handleWebhook_def Let_def webhook_seen_def webhook_save_def notify_def
  by (auto intro!: only_fails_rules service_fails split: webhook_status.splits)

lemma support_fails [service_fails]:
  assumes "queue_ready (bf_deps b)"
  shows "only_fails app_expected (createClickToCall SS b c body)" "only_fails app_expected (getCallHistory b c)"
    "only_fails app_expected (getConversation le b c rows)"
  unfolding createClickToCall_def getCallHistory_def getConversation_def Let_def
  using assms by (intro only_fails_rules service_fails | assumption)+

section \<open>What the handlers fail with\<close>

abbreviation served :: "('s, thrown, 'a) async \<Rightarrow> bool" where
  "served \<equiv> only_fails {e. expected e}"

lemma on_ports_served: "only_fails app_expected m \<Longrightarrow> served (on_ports f m)"
  by (auto simp: only_fails_def on_ports_def split: prod.splits) (metis Inl_Inr_False map_sum.simps sum.exhaust Inl_inject)

lemma with_customer_served: "(\<And>c. served (f c)) \<Longrightarrow> served (with_customer cust f)"
  by (auto simp: with_customer_def no_customer_def intro!: only_fails_rules split: option.splits)

lemma with_user_served: "(\<And>u. served (f u)) \<Longrightarrow> served (with_user user f)"
  by (auto simp: with_user_def CurrentUser_def missingToken_def new_UnauthorizedException_def intro!: only_fails_rules
      split: option.splits)

lemma bind_thrown_expected: "expected (bind_thrown L e)"
  by (cases "(L, e)" rule: bind_thrown.cases)
    (simp_all add: new_ValidationException_def new_LockoutException_def exists_conflict_def new_ConflictException_def split: option.splits)

lemma on_binding_served: "served (on_binding L f m)"
  by (auto simp: only_fails_def on_binding_def bind_thrown_expected split: prod.splits)
    (metis Inl_Inr_False Inl_inject bind_thrown_expected map_sum.simps sum.exhaust)

lemmas served_rules = on_ports_served with_customer_served with_user_served on_binding_served service_fails

lemma customer_served:
  assumes "queue_ready (bf_deps (hc_bff q))"
  shows "served (customer_handler X q cust r)"
proof (cases r)
  case (Tariff x) with assms show ?thesis by (cases x) (auto intro!: served_rules) next
  case (Invoice x) with assms show ?thesis by (cases x) (auto intro!: served_rules) next
  case (Usage x) with assms show ?thesis by (cases x) (auto intro!: served_rules) next
  case (SmartMeter x) with assms show ?thesis by (cases x) (auto intro!: served_rules) next
  case (Notification x) with assms show ?thesis by (cases x) (auto intro!: served_rules) next
  case (Alerts x) with assms show ?thesis by (cases x) (auto intro!: served_rules) next
  case (Payments x) with assms show ?thesis by (cases x) (auto intro!: served_rules) next
  case (Debt x) with assms show ?thesis by (cases x) (auto intro!: served_rules) next
  case (Incidents x) with assms show ?thesis by (cases x) (auto intro!: served_rules) next
  case (Account x) with assms show ?thesis by (cases x) (auto intro!: served_rules) next
  case (Contract x) with assms show ?thesis by (cases x) (auto intro!: served_rules) next
  case (Econtract x) with assms show ?thesis by (cases x) (auto intro!: served_rules)
qed

lemma map_sum_Inl: "map_sum f g x = Inl t \<longleftrightarrow> (\<exists>e. x = Inl e \<and> t = f e)"
  by (cases x) auto

lemma servedI: "(\<And>w t. fst (m w) = Inl t \<Longrightarrow> expected t) \<Longrightarrow> served m"
  unfolding only_fails_def by (metis fst_conv mem_Collect_eq)

lemma support_served:
  assumes "queue_ready (bf_deps b)"
  shows "served (SupportController S b le now uuid user r)"
proof (cases r)
  case (Message body)
  show ?thesis
    unfolding Message SupportController.simps
    by (intro with_user_served servedI) (auto simp: sendMessage_def new_ValidationException_def split: sum.splits prod.splits)
next
  case Messages
  show ?thesis
    unfolding Messages SupportController.simps
    by (intro with_user_served servedI) (use only_failsD [OF on_ports_served [OF support_fails(3) [OF assms]]] in
        \<open>metis mem_Collect_eq prod.collapse\<close>)
qed (use assms in \<open>auto intro!: served_rules\<close>)

lemma session_served: "served (SessionController Q getTime now user r)"
proof (cases r)
  case (MyEvents query)
  show ?thesis
    unfolding MyEvents SessionController.simps
    by (intro with_user_served servedI) (auto simp: getMyEvents_def new_ValidationException_def Let_def split: sum.splits)
qed (simp, intro with_user_served servedI, simp)

lemma binding_served: "served (BindingController L d SB SR now device ip user r)"
  by (cases r) (auto intro!: served_rules only_fails_rules simp: new_ValidationException_def split: sum.splits)

lemma provider_served:
  "served (provider_handler (providerCallback S body))" "served (provider_handler (linkProvider S u body))"
  "served (provider_handler (unlinkProvider S u body))"
  by (auto simp: only_fails_def provider_handler_def providerCallback_def linkProvider_def unlinkProvider_def new_ValidationException_def
      split: sum.splits)

lemma identity_served: "served (AuthController L pii A b user r)"
proof (cases r)
  case Me
  show ?thesis
    unfolding Me AuthController.simps by (intro with_user_served servedI) (auto simp: map_sum_Inl)
next
  case CheckRegistration
  show ?thesis
    unfolding CheckRegistration AuthController.simps by (intro with_user_served servedI) (simp split: prod.splits)
qed (auto intro: with_user_served provider_served)

lemma user_served: "queue_ready (bf_deps (hc_bff q)) \<Longrightarrow> served (user_handler X q user r)"
proof (cases r)
  case (Onboarding x)
  assume "queue_ready (bf_deps (hc_bff q))"
  with Onboarding show ?thesis by (cases x) (auto intro!: served_rules)
qed (auto intro: support_served session_served binding_served identity_served)

text \<open>What the framework's documentation says of the exceptions that the code makes with it.\<close>

definition nest_documented :: "nest_lib \<Rightarrow> bool" where
  "nest_documented nest = ((\<forall>r. hx_status (nl_forbidden nest r) = 403) \<and> (\<forall>r s. hx_status (nl_http nest r s) = s))"

lemma public_served: "nest_documented (xs_nest X) \<Longrightarrow> served (public_handler X q r)"
  by (cases r) (auto intro!: provider_served on_ports_served service_fails only_fails_rules
      simp: InterServiceApiKeyGuard_def nest_documented_def WebhookController_def split: sum.splits option.splits json.splits if_splits)

lemma guard_served: "nest_documented (xs_nest X) \<Longrightarrow> served (binding_guard X q user skip)"
proof -
  assume nest: "nest_documented (xs_nest X)"
  then have "expected (guard_thrown (xs_nest X) L e)" for L e
    by (cases e) (simp_all add: nest_documented_def)
  then show ?thesis
    by (auto simp: only_fails_def binding_guard_def split: prod.splits) (metis Inl_Inr_False Inl_inject map_sum.simps sum.exhaust)
qed

lemma handle_served:
  assumes "nest_documented (xs_nest X)" "queue_ready (bf_deps (hc_bff q))"
  shows "served (handle X q route)"
  unfolding handle_def
  using guard_served [OF assms(1)] customer_served [OF assms(2)] user_served [OF assms(2)] public_served [OF assms(1)]
  by (auto intro!: only_fails_rules simp: SessionAuthGuard_def missingToken_def invalidToken_def new_UnauthorizedException_def
      split: sum.splits route.splits option.splits if_splits)

section \<open>Every reply is well formed\<close>

definition well_formed_reply :: "request_line \<Rightarrow> reply \<Rightarrow> bool" where
  "well_formed_reply req rep \<longleftrightarrow>
     rp_status rep \<in> {200, 201, 202, 400, 401, 403, 404, 409, 429, 500} \<and>
     (\<exists>ps code stamp. rp_body rep = JObj ps \<and> distinct (map fst ps) \<and>
       map_of ps ''success'' = Some (JBool (rp_status rep < 400)) \<and>
       map_of ps ''statusCode'' = Some (JNum code) \<and> map_of ps ''timestamp'' = Some (JStr stamp) \<and>
       (400 \<le> rp_status rep \<longrightarrow> code = rp_status rep \<and> map_of ps ''path'' = Some (JStr (rl_url req)) \<and>
          map_of ps ''method'' = Some (JStr (rl_method req)) \<and> map_of ps ''error'' \<noteq> None))"

lemma failure_well_formed:
  assumes "status \<in> {400, 401, 403, 404, 409, 429, 500}"
  shows "well_formed_reply req \<lparr>rp_status = status,
    rp_body = JObj (failure_head now req status @ [(''error'', e)] @ jopt ''details'' d)\<rparr>"
  using assms unfolding well_formed_reply_def failure_head_def jopt_def by (auto split: option.splits)

lemma catch_well_formed: "expected t \<Longrightarrow> well_formed_reply req (catch_exception env now req t)"
proof (cases t)
  case (QueuedException p j)
  show ?thesis unfolding QueuedException catch_exception.simps queued_reply_def well_formed_reply_def by simp
qed (use failure_well_formed [where d = None] failure_well_formed in
    \<open>auto simp: handleHttpException_def handleBaseException_def handleUnknownError_def Let_def jopt_def\<close>)

lemma success_well_formed:
  assumes "status \<in> {200, 201}"
  shows "well_formed_reply req \<lparr>rp_status = status, rp_body = success_json s\<rparr>"
  using assms unfolding well_formed_reply_def success_json_def jopt_def jstr_def by (auto split: option.splits)

text \<open>
  C25. Every reply has the shape the clients rely on. Whatever the request and the state, the reply is an object
  with distinct properties whose success flag says whether the status is below 400; a failing reply repeats the
  status and names the path, the method and the error; and the status is one of ten. In particular no reply
  ever has 502 or 504: what a downstream service answered does not reach the client.
\<close>

theorem replies_well_formed:
  assumes "nest_documented (xs_nest X)" "queue_ready (bf_deps (hc_bff q))"
    and "xs_defaultStatus X (rl_method (hc_line q)) \<in> {200, 201}"
  shows "well_formed_reply (hc_line q) (fst (serve_http X q route w))"
proof -
  obtain r w' where run: "handle X q route w = (r, w')" by fastforce
  show ?thesis
  proof (cases r)
    case (Inl t)
    with run have "expected t" using only_failsD [OF handle_served [OF assms(1,2)]] by blast
    with run Inl show ?thesis by (simp add: serve_http_def respond_def catch_well_formed)
  next
    case (Inr answer)
    have "answer_status X q route \<in> {200, 201}" using assms(3) by (simp add: answer_status_def)
    with run Inr show ?thesis by (simp add: serve_http_def respond_def success_well_formed)
  qed
qed

section \<open>Customer data is guarded end to end\<close>

text \<open>
  C26. No customer's data without a proof of being that customer. A request to a route of customer data is
  turned away by a guard, without any port being called; or the session library names a user, and the handler
  runs for the customer of a verified binding of that very user, whose stored ciphertext decrypts to the customer
  id the handler gets. Nothing in the path, the query or the body of the request takes part in that choice.
\<close>

theorem customer_routes_guarded:
  fixes w :: "(bind_val memory_cache, 's, 'c, 't) app_world"
  assumes reach: "bind_reach (xs_binding X) t (aw_bind w)" and cache: "bd_cache (xs_binding X) = memory_cache_service"
    and time: "t \<le> hc_now q" and room: "1 \<le> mc_free (bw_cache (aw_bind w))"
    and plain: "\<And>u. SessionAuthGuard False (hc_session q) = Inr (Some u) \<Longrightarrow> aut_id u \<noteq> [] \<and> CHR '':'' \<notin> set (aut_id u)"
  shows "(\<exists>e bw. serve_http X q (CustomerRoute r) w =
        (catch_exception (xs_env X) (hc_now q) (hc_line q) e, w\<lparr>aw_bind := bw\<rparr>)) \<or>
    (\<exists>u bc row bw. SessionAuthGuard False (hc_session q) = Inr (Some u) \<and> bc_id bc = aut_id u \<and>
       row \<in> set (bw_bindings (aw_bind w)) \<and> br_userId row = aut_id u \<and> br_status row = Verified \<and>
       decryptIfNeeded (bd_pii (xs_binding X)) (br_customerId row) = Inr (Some (bc_customerId bc)) \<and>
       serve_http X q (CustomerRoute r) w =
         (case customer_handler X q (Some bc) r (w\<lparr>aw_bind := bw\<rparr>) of
            (outcome, w') \<Rightarrow> (respond X q (CustomerRoute r) outcome, w')))"
proof (cases "SessionAuthGuard False (hc_session q)")
  case (Inl e)
  then have "serve_http X q (CustomerRoute r) w = (catch_exception (xs_env X) (hc_now q) (hc_line q) e, w\<lparr>aw_bind := aw_bind w\<rparr>)"
    by (simp add: serve_http_def handle_def respond_def throw_app)
  then show ?thesis by blast
next
  case (Inr user)
  then obtain u where u: "user = Some u"
    by (cases user) (auto simp: SessionAuthGuard_def split: sum.splits option.splits if_splits)
  with plain Inr have id: "aut_id u \<noteq> []" "CHR '':'' \<notin> set (aut_id u)" by auto
  obtain g bw where g: "canActivate (xs_binding X) (hc_now q) (Some (aut_id u)) False (aw_bind w) = (g, bw)" by fastforce
  have run: "serve_http X q (CustomerRoute r) w = (case g of
      Inl e \<Rightarrow> (catch_exception (xs_env X) (hc_now q) (hc_line q) (guard_thrown (xs_nest X) (xs_errors X) e), w\<lparr>aw_bind := bw\<rparr>)
    | Inr cust \<Rightarrow> (case customer_handler X q cust r (w\<lparr>aw_bind := bw\<rparr>) of
          (outcome, w') \<Rightarrow> (respond X q (CustomerRoute r) outcome, w')))"
    by (simp add: serve_http_def handle_def Inr u bnd_app binding_guard_def g respond_def split: sum.splits)
  from guard_admits [OF reach cache time room id] g show ?thesis
  proof (elim disjE exE conjE bexE)
    fix e
    assume "fst (canActivate (xs_binding X) (hc_now q) (Some (aut_id u)) False (aw_bind w)) = Inl e"
    with g run show ?thesis by auto
  next
    fix bc row
    assume found: "fst (canActivate (xs_binding X) (hc_now q) (Some (aut_id u)) False (aw_bind w)) = Inr (Some bc)"
      and bc: "bc_id bc = aut_id u" "row \<in> set (bw_bindings (aw_bind w))" "br_userId row = aut_id u" "br_status row = Verified"
      "decryptIfNeeded (bd_pii (xs_binding X)) (br_customerId row) = Inr (Some (bc_customerId bc))"
    from found g run have "serve_http X q (CustomerRoute r) w = (case customer_handler X q (Some bc) r (w\<lparr>aw_bind := bw\<rparr>) of
          (outcome, w') \<Rightarrow> (respond X q (CustomerRoute r) outcome, w'))" by simp
    with Inr u bc show ?thesis by blast
  qed
qed

section \<open>A concrete server\<close>

definition refuse :: "'a schema" where
  "refuse = (\<lambda>_. Inl ''refused'')"

definition demo_services :: services where
  "demo_services = \<lparr>sv_account = \<lparr>as_updateProfile = refuse, as_onboarding = refuse, as_documents = refuse\<rparr>,
     sv_billing = \<lparr>bs_invoiceList = refuse, bs_invoiceId = refuse, bs_contractId = refuse\<rparr>,
     sv_contract = \<lparr>cs_query = refuse, cs_contractId = refuse, cs_sign = refuse\<rparr>,
     sv_notification = \<lparr>ns_alertHistory = refuse, ns_alertId = refuse, ns_history = refuse, ns_preferences = refuse,
       ns_dispatch = refuse\<rparr>,
     sv_payment = shop_schemas,
     sv_report = \<lparr>rs_createIncident = refuse, rs_updateStatus = refuse, rs_gisTriage = refuse, rs_createReport = refuse\<rparr>,
     sv_support = \<lparr>ss_clickToCall = refuse, ss_sendMessage = refuse\<rparr>,
     sv_usage = usage_schemas_demo, sv_number = (\<lambda>x. JNum \<lfloor>x\<rfloor>)\<rparr>"

definition demo_server :: "(bind_val memory_cache, mock_service \<times> answers, unit) server" where
  "demo_server = \<lparr>xs_nest = \<lparr>nl_forbidden = (\<lambda>r. \<lparr>hx_status = 403, hx_response = r, hx_message = ''Forbidden''\<rparr>),
       nl_http = (\<lambda>r s. \<lparr>hx_status = s, hx_response = Inr r, hx_message = ''Error''\<rparr>)\<rparr>,
     xs_defaultStatus = (\<lambda>m. if m = ''POST'' then 201 else 200),
     xs_errors = \<lparr>le_cache = new_Error ''cache'', le_database = new_Error ''database'', le_cipher = (\<lambda>_. new_Error ''cipher'')\<rparr>,
     xs_env = \<lparr>fe_production = True, fe_stack = (\<lambda>_. [])\<rparr>,
     xs_services = demo_services, xs_binding = demo_deps, xs_bindSchema = refuse, xs_registerSchema = refuse,
     xs_auth = \<lparr>au_fetch = (\<lambda>_. throw (new_Error ''offline'')), au_customerServiceUrl = None, au_register = refuse, au_link = refuse\<rparr>,
     xs_sessionQuery = refuse, xs_getTime = (\<lambda>_. None), xs_localeLe = (\<lambda>_ _. True), xs_apiKey = None, xs_datesKept = True\<rparr>"

definition demo_call :: "(json memory_cache, unit) http_call" where
  "demo_call = \<lparr>hc_line = \<lparr>rl_url = ''/payments/debt'', rl_method = ''GET''\<rparr>,
     hc_session = Inr (Some (JObj [(''user'', JObj [(''id'', JStr ''u1'')]), (''session'', JObj [(''id'', JStr ''s1'')])])),
     hc_apiKey = None, hc_device = None, hc_ip = None, hc_bff = shop_request 0, hc_now = 2, hc_uuid = ''m1''\<rparr>"

definition demo_app :: "(bind_val memory_cache, mock_service \<times> answers, json memory_cache, unit) app_world" where
  "demo_app = \<lparr>aw_bind = after_bind, aw_chat = \<lparr>cw_ports = no_ports, cw_rows = [], cw_probeOk = True, cw_probeAt = 0,
     cw_announcedDown = False\<rparr>, aw_users = [], aw_sessions = []\<rparr>"

theorem replies_well_formed_witness:
  "well_formed_reply (hc_line demo_call) (fst (serve_http demo_server demo_call (CustomerRoute (Debt OutstandingDebt)) demo_app))"
  by (rule replies_well_formed)
    (simp_all add: demo_server_def demo_call_def nest_documented_def queue_ready_def demo_port_deps_def)

lemma demo_user: "SessionAuthGuard False (hc_session demo_call) = Inr (Some \<lparr>aut_id = ''u1'', aut_sessionId = ''s1''\<rparr>)"
  by (simp add: SessionAuthGuard_def demo_call_def session_data_user_def opt_truthy_def json_nullish_def)

theorem customer_routes_guarded_witness:
  "(\<exists>e bw. serve_http demo_server demo_call (CustomerRoute (Debt OutstandingDebt)) demo_app =
      (catch_exception (xs_env demo_server) 2 (hc_line demo_call) e, demo_app\<lparr>aw_bind := bw\<rparr>)) \<or>
   (\<exists>row \<in> set (bw_bindings after_bind). br_userId row = ''u1'' \<and> br_status row = Verified \<and>
      (\<exists>cid. decryptIfNeeded demo_pii (br_customerId row) = Inr (Some cid)))"
proof -
  have "bind_reach (xs_binding demo_server) 1 (aw_bind demo_app)" "bd_cache (xs_binding demo_server) = memory_cache_service"
    "1 \<le> hc_now demo_call" "1 \<le> mc_free (bw_cache (aw_bind demo_app))" "bd_pii (xs_binding demo_server) = demo_pii"
    "hc_now demo_call = 2" "aw_bind demo_app = after_bind"
    using demo_reach(2) demo_deps_simps(1) demo_room(3)
    by (simp_all add: demo_server_def demo_app_def demo_call_def demo_deps_def)
  note demo = this
  show ?thesis
    using customer_routes_guarded [OF demo(1-4), of "Debt OutstandingDebt"] unfolding demo_user demo(5,6,7) by fastforce
qed

end
