(* ===== verification/Mock_Adapters.thy ===== *)
theory Mock_Adapters
  imports Bff_Services Sessions Port_Http Customer_Service
begin

text \<open>
  The adapters that the modules register with the port registry (src/modules/*/clients): most serve fixtures
  through \<^verbatim>\<open>MockAdapterBase\<close>; those of invoices, meters, smart meters, contracts, e-contracts and
  incident reports keep or read rows that carry their owner and scope every answer to the customer of the call,
  and those of payments and customer profiles keep state of their own.

  A row of a fixture is the list of its properties, with the types its interface declares. The files are read
  through \<open>mf_readJson\<close>, the contract checks are \<open>mf_schemas\<close>, by port and method.
\<close>

section \<open>Fixtures and rows with owners\<close>

record mock_files =
  mf_readJson :: "string list \<Rightarrow> js_error + json"
  mf_production :: bool
  mf_schemas :: "string \<Rightarrow> string \<rightharpoonup> json \<Rightarrow> string + json"

definition fixture :: "mock_files \<Rightarrow> string \<Rightarrow> string \<Rightarrow> params \<Rightarrow> ('s, port_error, json) async" where
  "fixture F portName = mock_execute (mf_readJson F) (mf_production F) portName (mf_schemas F portName)"

fun json_props :: "json \<Rightarrow> params" where
  "json_props (JObj ps) = ps"
| "json_props (JArr xs) = zip (map js_nat_str [0..<length xs]) xs"
| "json_props _ = []"
  \<comment> \<open>what the spread of an object or an array contributes\<close>

definition str_prop :: "string \<Rightarrow> params \<Rightarrow> string" where
  "str_prop k row = (case map_of row k of Some (JStr s) \<Rightarrow> s | _ \<Rightarrow> [])"

definition num_prop :: "string \<Rightarrow> params \<Rightarrow> int" where
  "num_prop k row = (case map_of row k of Some (JNum n) \<Rightarrow> n | _ \<Rightarrow> 0)"

text \<open>\<^verbatim>\<open>a === b\<close> for values of different origin: objects and arrays are never identical.\<close>

definition strict_eq :: "json option \<Rightarrow> json option \<Rightarrow> bool" where
  "strict_eq a b \<longleftrightarrow> a = b \<and> (case a of Some (JObj _) \<Rightarrow> False | Some (JArr _) \<Rightarrow> False | _ \<Rightarrow> True)"

definition owner_of :: "params \<Rightarrow> json option" where
  "owner_of row = map_of row ''ownerCustomerId''"

definition owned_by :: "json option \<Rightarrow> params list \<Rightarrow> params list" where
  "owned_by customerId rows =
     (if opt_truthy customerId then filter (\<lambda>row. strict_eq (owner_of row) customerId) rows else rows)"

definition strip_owner :: "params \<Rightarrow> params" where
  "strip_owner row = filter (\<lambda>p. fst p \<noteq> ''ownerCustomerId'') row"

definition find_row :: "string \<Rightarrow> json option \<Rightarrow> params list \<Rightarrow> params option" where
  "find_row key i rows = find (\<lambda>row. strict_eq (map_of row key) i) rows"

text \<open>The test that guards every lookup by id: the row exists, and belongs to the customer when there is one.\<close>

definition owned_row :: "string \<Rightarrow> json option \<Rightarrow> json option \<Rightarrow> params list \<Rightarrow> params option" where
  "owned_row key i customerId rows = (case find_row key i rows of
     None \<Rightarrow> None
   | Some row \<Rightarrow> if opt_truthy customerId \<and> \<not> strict_eq (owner_of row) customerId then None else Some row)"

definition rows_of :: "string \<Rightarrow> json \<Rightarrow> params list" where
  "rows_of key raw = (case json_get key raw of Some (JArr xs) \<Rightarrow> map json_props xs | _ \<Rightarrow> [])"

record raw_invoices =
  ri_items :: "params list"
  ri_page :: json
  ri_limit :: json

record mock_report =
  mo_reportId :: string
  mo_customerId :: "json option"
  mo_type :: json
  mo_description :: json
  mo_photoUrls :: json
  mo_location :: json
  mo_status :: string
  mo_incidentId :: "string option"
  mo_createdAt :: string
  mo_updatedAt :: string

record mock_world =
  mk_now :: msec  \<comment> \<open>the clock\<close>
  mk_invoices :: "raw_invoices option"
  mk_meters :: "params list option"
  mk_meterOwners :: "params list option"
  mk_contracts :: "params list option"
  mk_dossier :: "(string \<times> string) option"
  mk_payments :: nat
  mk_reportCounter :: nat
  mk_reports :: "(string, mock_report) jsmap"
  mk_customers :: "mock_row list"

type_synonym mock_adapter = "string \<Rightarrow> params \<Rightarrow> (mock_world, port_error, json) async"

definition read_rows :: "mock_files \<Rightarrow> string list \<Rightarrow> (mock_world, port_error, json) async" where
  "read_rows F path = (case mf_readJson F path of Inl e \<Rightarrow> throw (OtherError e) | Inr raw \<Rightarrow> ret raw)"

section \<open>Invoices\<close>

definition invoice_loadRaw :: "mock_files \<Rightarrow> (mock_world, port_error, raw_invoices) async" where
  "invoice_loadRaw F = bnd (reads mk_invoices) (\<lambda>cached. case cached of
     Some c \<Rightarrow> ret c
   | None \<Rightarrow> bnd (read_rows F [''mocks'', ''invoice'', ''get-list.json'']) (\<lambda>raw.
       let c = \<lparr>ri_items = rows_of ''invoices'' raw, ri_page = json_nullish (json_get ''page'' raw) (JNum 1),
                ri_limit = json_nullish (json_get ''limit'' raw) (JNum 10)\<rparr>
       in seq (writes (\<lambda>w. w\<lparr>mk_invoices := Some c\<rparr>)) (ret c)))"

text \<open>\<^verbatim>\<open>Number(v)\<close>, with \<open>None\<close> for NaN; the callers send integers, and strings that spell no decimal integer are not distinguished from NaN.\<close>

fun js_number :: "json \<Rightarrow> int option" where
  "js_number (JNum n) = Some n"
| "js_number JNull = Some 0"
| "js_number (JBool b) = Some (if b then 1 else 0)"
| "js_number (JStr s) = (if list_all is_digit s then Some (int (parse_dec s)) else None)"
| "js_number _ = None"

definition at_least_1 :: "int option \<Rightarrow> int option" where
  "at_least_1 = map_option (max 1)"
  \<comment> \<open>\<^verbatim>\<open>Math.max(1, n)\<close>\<close>

definition num_json :: "int option \<Rightarrow> json" where
  "num_json n = (case n of None \<Rightarrow> JNull | Some k \<Rightarrow> JNum k)"
  \<comment> \<open>NaN is serialised as null\<close>

definition page_rows :: "int option \<Rightarrow> int option \<Rightarrow> 'a list \<Rightarrow> 'a list" where
  "page_rows pageNum pageSize xs = (case (pageNum, pageSize) of
     (Some n, Some k) \<Rightarrow> js_slice xs ((n - 1) * k) ((n - 1) * k + k) | _ \<Rightarrow> [])"

definition total_pages :: "int option \<Rightarrow> nat \<Rightarrow> int option" where
  "total_pages pageSize n = map_option (\<lambda>k. max 1 \<lceil>of_nat n / of_int k :: rat\<rceil>) pageSize"

definition invoice_getList :: "mock_files \<Rightarrow> params \<Rightarrow> (mock_world, port_error, json) async" where
  "invoice_getList F ps = bnd (invoice_loadRaw F) (\<lambda>raw.
     let owned = owned_by (map_of ps ''customerId'') (ri_items raw);
         pageSize = at_least_1 (js_number (json_nullish (map_of ps ''limit'') (ri_limit raw)));
         pageNum = at_least_1 (js_number (json_nullish (map_of ps ''page'') (ri_page raw)))
     in ret (JObj [(''invoices'', JArr (map (JObj \<circ> strip_owner) (page_rows pageNum pageSize owned))),
          (''totalCount'', JNum (int (length owned))), (''page'', num_json pageNum), (''limit'', num_json pageSize),
          (''totalPages'', num_json (total_pages pageSize (length owned)))]))"

definition buildDetail :: "params \<Rightarrow> json" where
  "buildDetail item =
     (let total = num_prop ''totalAmount'' item;
          vat = js_round (of_int total / 20); environmental = js_round (of_int total / 10);
          subtotal = total - vat - environmental; unitPrice = 5920;
          volume = max 1 (js_round (of_int subtotal / of_int unitPrice));
          invoiceId = str_prop ''invoiceId'' item
      in JObj ([(''invoiceId'', JStr invoiceId), (''contractId'', JStr (str_prop ''contractId'' item)),
         (''period'', JStr (str_prop ''period'' item)),
         (''lineItems'', JArr [JObj [(''description'', JStr (''Ti'' @ [CHR 0xC3, CHR 0xAA] @ ''u th'' @ [CHR 0xE1, CHR 0xBB, CHR 0xA5] @ '' n'' @ [CHR 0xC6, CHR 0xB0, CHR 0xE1, CHR 0xBB, CHR 0x9B] @ ''c sinh ho'' @ [CHR 0xE1, CHR 0xBA, CHR 0xA1] @ ''t'')),
            (''volume'', JNum volume), (''unitPrice'', JNum unitPrice), (''amount'', JNum subtotal)]]),
         (''fees'', JArr [JObj [(''feeName'', JStr (''Ph'' @ [CHR 0xC3, CHR 0xAD] @ '' b'' @ [CHR 0xE1, CHR 0xBA, CHR 0xA3] @ ''o v'' @ [CHR 0xE1, CHR 0xBB, CHR 0x87] @ '' m'' @ [CHR 0xC3, CHR 0xB4] @ ''i tr'' @ [CHR 0xC6, CHR 0xB0, CHR 0xE1, CHR 0xBB, CHR 0x9D] @ ''ng (10%)'')), (''amount'', JNum environmental)],
            JObj [(''feeName'', JStr ''VAT (5%)''), (''amount'', JNum vat)]]),
         (''subtotal'', JNum subtotal), (''totalAmount'', JNum total),
         (''paymentStatus'', JStr (str_prop ''paymentStatus'' item)), (''cqtCode'', JStr (''CQT-'' @ invoiceId)),
         (''lookupCode'', JStr (''LK-'' @ js_slice invoiceId (-6) (int (length invoiceId)))),
         (''issueDate'', JStr (str_prop ''issueDate'' item)),
         (''dueDate'', json_nullish (map_of item ''dueDate'') JNull)]))"

definition invoice_getById :: "mock_files \<Rightarrow> params \<Rightarrow> (mock_world, port_error, json) async" where
  "invoice_getById F ps =
     (if \<not> opt_truthy (map_of ps ''invoiceId'') then fixture F ''invoice'' ''get-by-id'' ps
      else bnd (invoice_loadRaw F) (\<lambda>raw.
        case owned_row ''invoiceId'' (map_of ps ''invoiceId'') (map_of ps ''customerId'') (ri_items raw) of
          None \<Rightarrow> throw (not_found_error ''Invoice not found'')
        | Some item \<Rightarrow> ret (buildDetail item)))"

definition MockInvoiceAdapter :: "mock_files \<Rightarrow> mock_adapter" where
  "MockInvoiceAdapter F method ps =
     (if method = ''get-list'' then invoice_getList F ps
      else if method = ''get-by-id'' then invoice_getById F ps
      else fixture F ''invoice'' method ps)"

section \<open>Meters and contracts\<close>

definition meter_loadRaw :: "mock_files \<Rightarrow> (mock_world, port_error, params list) async" where
  "meter_loadRaw F = bnd (reads mk_meters) (\<lambda>cached. case cached of
     Some c \<Rightarrow> ret c
   | None \<Rightarrow> bnd (read_rows F [''mocks'', ''meter'', ''get-meter-by-customer.json'']) (\<lambda>raw.
       seq (writes (\<lambda>w. w\<lparr>mk_meters := Some (rows_of ''meters'' raw)\<rparr>)) (ret (rows_of ''meters'' raw))))"

definition meter_getByCustomer :: "mock_files \<Rightarrow> params \<Rightarrow> (mock_world, port_error, json) async" where
  "meter_getByCustomer F ps = bnd (meter_loadRaw F) (\<lambda>all.
     let owned = owned_by (map_of ps ''customerId'') all
     in ret (JObj [(''meters'', JArr (map (JObj \<circ> strip_owner) owned)), (''totalCount'', JNum (int (length owned)))]))"

definition String_of :: "json option \<Rightarrow> json option" where
  "String_of v = Some (JStr (case v of None \<Rightarrow> ''undefined'' | Some j \<Rightarrow> js_string j))"

definition meter_assertOwned :: "mock_files \<Rightarrow> json option \<Rightarrow> json option \<Rightarrow> (mock_world, port_error, unit) async" where
  "meter_assertOwned F meterId customerId = bnd (meter_loadRaw F) (\<lambda>all.
     if owned_row ''meterId'' meterId customerId all = None then throw (not_found_error ''Meter not found'') else ret ())"

text \<open>The fixture of one item, with the requested id in place of the fixture's.\<close>

definition with_id :: "string \<Rightarrow> json option \<Rightarrow> json \<Rightarrow> json" where
  "with_id key i data = (case data of
     JObj ps \<Rightarrow> JObj (AList.update key (the i) ps) | JArr xs \<Rightarrow> JObj (AList.update key (the i) (json_props data)) | _ \<Rightarrow> data)"

fun is_structure :: "json \<Rightarrow> bool" where
  "is_structure (JObj _) = True" | "is_structure (JArr _) = True" | "is_structure _ = False"

definition MockMeterAdapter :: "mock_files \<Rightarrow> mock_adapter" where
  "MockMeterAdapter F method ps =
     (if method = ''get-meter-by-customer'' then meter_getByCustomer F ps
      else if opt_truthy (map_of ps ''meterId'') \<and> (method = ''get-calibration-status'' \<or> method = ''get-meter-history'')
      then seq (meter_assertOwned F (String_of (map_of ps ''meterId'')) (map_of ps ''customerId''))
             (bnd (fixture F ''meter'' method ps) (\<lambda>data.
                if is_structure data then ret (with_id ''meterId'' (map_of ps ''meterId'') data)
                else fixture F ''meter'' method ps))
      else fixture F ''meter'' method ps)"

definition loadMeterOwners :: "mock_files \<Rightarrow> (mock_world, port_error, params list) async" where
  "loadMeterOwners F = bnd (reads mk_meterOwners) (\<lambda>cached. case cached of
     Some c \<Rightarrow> ret c
   | None \<Rightarrow> bnd (read_rows F [''mocks'', ''meter'', ''get-meter-by-customer.json'']) (\<lambda>raw.
       let c = map (\<lambda>m. jopt ''meterId'' (map_of m ''meterId'') @ jopt ''ownerCustomerId'' (owner_of m)) (rows_of ''meters'' raw)
       in seq (writes (\<lambda>w. w\<lparr>mk_meterOwners := Some c\<rparr>)) (ret c)))"

definition smart_assertOwned :: "mock_files \<Rightarrow> json option \<Rightarrow> json option \<Rightarrow> (mock_world, port_error, unit) async" where
  "smart_assertOwned F meterId customerId = bnd (loadMeterOwners F) (\<lambda>owners.
     if owned_row ''meterId'' meterId customerId owners = None then throw (not_found_error ''Meter not found'') else ret ())"

definition MockSmartMeterAdapter :: "mock_files \<Rightarrow> mock_adapter" where
  "MockSmartMeterAdapter F method ps =
     seq (if method = ''get-meter-status'' \<and> opt_truthy (map_of ps ''meterId'')
          then smart_assertOwned F (String_of (map_of ps ''meterId'')) (map_of ps ''customerId'') else ret ())
       (fixture F ''smart-meter'' method ps)"

definition contract_loadRaw :: "mock_files \<Rightarrow> (mock_world, port_error, params list) async" where
  "contract_loadRaw F = bnd (reads mk_contracts) (\<lambda>cached. case cached of
     Some c \<Rightarrow> ret c
   | None \<Rightarrow> bnd (read_rows F [''mocks'', ''contract'', ''get-contracts.json'']) (\<lambda>raw.
       seq (writes (\<lambda>w. w\<lparr>mk_contracts := Some (rows_of ''contracts'' raw)\<rparr>)) (ret (rows_of ''contracts'' raw))))"

definition contract_getContracts :: "mock_files \<Rightarrow> params \<Rightarrow> (mock_world, port_error, json) async" where
  "contract_getContracts F ps = bnd (contract_loadRaw F) (\<lambda>all.
     let owned = owned_by (map_of ps ''customerId'') all
     in ret (JObj [(''contracts'', JArr (map (JObj \<circ> strip_owner) owned)), (''totalCount'', JNum (int (length owned)))]))"

definition contract_assertOwned :: "mock_files \<Rightarrow> json option \<Rightarrow> json option \<Rightarrow> (mock_world, port_error, unit) async" where
  "contract_assertOwned F contractId customerId = bnd (contract_loadRaw F) (\<lambda>all.
     if owned_row ''contractId'' contractId customerId all = None then throw (not_found_error ''Contract not found'') else ret ())"

definition MockContractAdapter :: "mock_files \<Rightarrow> mock_adapter" where
  "MockContractAdapter F method ps =
     (if method = ''get-contracts'' then contract_getContracts F ps
      else if opt_truthy (map_of ps ''contractId'') \<and>
              method \<in> {''get-contract-detail'', ''get-contract-versions'', ''get-contract-pdf''}
      then seq (contract_assertOwned F (String_of (map_of ps ''contractId'')) (map_of ps ''customerId''))
             (bnd (fixture F ''contract'' method ps) (\<lambda>data.
                if is_structure data then ret (with_id ''contractId'' (map_of ps ''contractId'') data)
                else fixture F ''contract'' method ps))
      else fixture F ''contract'' method ps)"

definition loadOwner :: "mock_files \<Rightarrow> (mock_world, port_error, (string \<times> string) option) async" where
  "loadOwner F = bnd (reads mk_dossier) (\<lambda>cached. case cached of
     Some c \<Rightarrow> ret (Some c)
   | None \<Rightarrow> bnd (read_rows F [''mocks'', ''econtract'', ''get-contract.json'']) (\<lambda>raw.
       let c = (if opt_truthy (json_get ''dossierId'' raw) \<and> opt_truthy (json_get ''customerId'' raw)
                then Some (str_prop ''dossierId'' (json_props raw), str_prop ''customerId'' (json_props raw)) else None)
       in seq (writes (\<lambda>w. w\<lparr>mk_dossier := c\<rparr>)) (ret c)))"

definition econtract_assertOwned :: "mock_files \<Rightarrow> json option \<Rightarrow> json option \<Rightarrow> (mock_world, port_error, unit) async" where
  "econtract_assertOwned F dossierId customerId = bnd (loadOwner F) (\<lambda>owner.
     case owner of
       Some (d, c) \<Rightarrow>
         if \<not> strict_eq (Some (JStr d)) dossierId \<or> (opt_truthy customerId \<and> \<not> strict_eq (Some (JStr c)) customerId)
         then throw (not_found_error ''E-contract dossier not found'') else ret ()
     | None \<Rightarrow> throw (not_found_error ''E-contract dossier not found''))"

definition MockEcontractAdapter :: "mock_files \<Rightarrow> mock_adapter" where
  "MockEcontractAdapter F method ps =
     seq (if opt_truthy (map_of ps ''dossierId'') \<and> (method = ''get-contract'' \<or> method = ''sign-contract'')
          then econtract_assertOwned F (String_of (map_of ps ''dossierId'')) (map_of ps ''customerId'') else ret ())
       (fixture F ''econtract'' method ps)"

section \<open>Payments\<close>

definition MockPaymentAdapter :: "mock_files \<Rightarrow> mock_adapter" where
  "MockPaymentAdapter F method ps =
     (if method = ''create-payment''
      then bnd (fixture F ''payment'' method ps) (\<lambda>data.
        if is_structure data
        then seq (writes (\<lambda>w. w\<lparr>mk_payments := mk_payments w + 1\<rparr>)) (bnd (reads mk_payments) (\<lambda>n.
          let sq = padStart 3 CHR ''0'' (js_nat_str n);
              given = AList.update ''paymentId'' (JStr (''PAY-2026-'' @ sq)) (json_props data);
              invoice = (if json_present (map_of ps ''invoiceId'') then map_of ps ''invoiceId'' else json_get ''invoiceId'' data)
          in ret (JObj (case invoice of None \<Rightarrow> AList.delete ''invoiceId'' given | Some i \<Rightarrow> AList.update ''invoiceId'' i given))))
        else fixture F ''payment'' method ps)
      else fixture F ''payment'' method ps)"

section \<open>Incident reports\<close>

text \<open>The coordinates of the two seeded reports are no integers: \<open>point\<close> makes the location from the address and the area.\<close>

definition SEED_REPORTS :: "(string \<Rightarrow> string \<Rightarrow> json) \<Rightarrow> (string, mock_report) jsmap" where
  "SEED_REPORTS point =
    [(''SC-2026-00042'', \<lparr>mo_reportId = ''SC-2026-00042'', mo_customerId = Some (JStr ''QN-0912345''),
       mo_type = JStr ''water_outage'',
       mo_description = JStr (''M'' @ [CHR 0xE1, CHR 0xBA, CHR 0xA5] @ ''t n'' @ [CHR 0xC6, CHR 0xB0, CHR 0xE1, CHR 0xBB, CHR 0x9B] @ ''c t'' @ [CHR 0xE1, CHR 0xBB, CHR 0xAB] @ '' s'' @ [CHR 0xC3, CHR 0xA1] @ ''ng nay, khu v'' @ [CHR 0xE1, CHR 0xBB, CHR 0xB1] @ ''c ng'' @ [CHR 0xC3, CHR 0xB5] @ '' 5 Tr'' @ [CHR 0xE1, CHR 0xBA, CHR 0xA7] @ ''n Ph'' @ [CHR 0xC3, CHR 0xBA]),
       mo_photoUrls = JArr [], mo_location = point (''Ng'' @ [CHR 0xC3, CHR 0xB5] @ '' 5 Tr'' @ [CHR 0xE1, CHR 0xBA, CHR 0xA7] @ ''n Ph'' @ [CHR 0xC3, CHR 0xBA]) ''CP-DMA-1'',
       mo_status = ''in_progress'', mo_incidentId = Some ''INC-2026-0042'',
       mo_createdAt = ''2026-07-08T08:12:00Z'', mo_updatedAt = ''2026-07-08T09:30:00Z''\<rparr>),
     (''SC-2026-00038'', \<lparr>mo_reportId = ''SC-2026-00038'', mo_customerId = Some (JStr ''QN-0888891''),
       mo_type = JStr ''water_quality'',
       mo_description = JStr (''N'' @ [CHR 0xC6, CHR 0xB0, CHR 0xE1, CHR 0xBB, CHR 0x9B] @ ''c c'' @ [CHR 0xC3, CHR 0xB3] @ '' m'' @ [CHR 0xC3, CHR 0xA0] @ ''u v'' @ [CHR 0xC3, CHR 0xA0] @ ''ng '' @ [CHR 0xC4, CHR 0x91, CHR 0xE1, CHR 0xBB, CHR 0xA5] @ ''c''),
       mo_photoUrls = JArr [], mo_location = point (''Ng'' @ [CHR 0xC3, CHR 0xB5] @ '' 7 L'' @ [CHR 0xC3, CHR 0xAA] @ '' L'' @ [CHR 0xE1, CHR 0xBB, CHR 0xA3] @ ''i'') ''CP-DMA-2'',
       mo_status = ''resolved'', mo_incidentId = Some ''INC-2026-0039'',
       mo_createdAt = ''2026-07-05T07:00:00Z'', mo_updatedAt = ''2026-07-05T15:00:00Z''\<rparr>)]"

definition report_id :: "nat \<Rightarrow> string" where
  "report_id n = ''SC-2026-'' @ padStart 5 CHR ''0'' (js_nat_str n)"

definition mock_createReport :: "params \<Rightarrow> (mock_world, port_error, json) async" where
  "mock_createReport ps = (\<lambda>w.
     let counter = mk_reportCounter w + 1; reportId = report_id counter; stamp = toISOString (mk_now w);
         report = \<lparr>mo_reportId = reportId, mo_customerId = map_of ps ''customerId'',
           mo_type = json_nullish (map_of ps ''type'') (JStr ''other''),
           mo_description = json_nullish (map_of ps ''description'') (JStr []),
           mo_photoUrls = json_nullish (map_of ps ''photoUrls'') (JArr []),
           mo_location = json_nullish (map_of ps ''location'')
             (JObj [(''lat'', JNum 0), (''lng'', JNum 0), (''address'', JStr []), (''area'', JStr [])]),
           mo_status = ''submitted'', mo_incidentId = None, mo_createdAt = stamp, mo_updatedAt = stamp\<rparr>
     in (Inr (JObj [(''reportId'', JStr reportId), (''status'', JStr ''submitted''), (''incidentId'', JNull),
           (''message'', JStr (''Ph'' @ [CHR 0xE1, CHR 0xBA, CHR 0xA3] @ ''n '' @ [CHR 0xC3, CHR 0xA1] @ ''nh '' @ [CHR 0xC4, CHR 0x91, CHR 0xC3, CHR 0xA3] @ '' ti'' @ [CHR 0xE1, CHR 0xBA, CHR 0xBF] @ ''p nh'' @ [CHR 0xE1, CHR 0xBA, CHR 0xAD] @ ''n.''))]),
         w\<lparr>mk_reportCounter := counter, mk_reports := AList.update reportId report (mk_reports w)\<rparr>))"

definition report_props :: "mock_report \<Rightarrow> params" where
  "report_props r = [(''reportId'', JStr (mo_reportId r))] @ jopt ''customerId'' (mo_customerId r) @
     [(''type'', mo_type r), (''description'', mo_description r), (''photoUrls'', mo_photoUrls r),
      (''location'', mo_location r), (''status'', JStr (mo_status r)),
      (''incidentId'', case mo_incidentId r of None \<Rightarrow> JNull | Some i \<Rightarrow> JStr i),
      (''createdAt'', JStr (mo_createdAt r)), (''updatedAt'', JStr (mo_updatedAt r))]"

definition reported_by :: "json option \<Rightarrow> mock_report list \<Rightarrow> mock_report list" where
  "reported_by customerId reports =
     (if opt_truthy customerId then filter (\<lambda>r. strict_eq (mo_customerId r) customerId) reports else reports)"

definition mock_getMyReports :: "params \<Rightarrow> (mock_world, port_error, json) async" where
  "mock_getMyReports ps = bnd (reads (\<lambda>w. map snd (mk_reports w))) (\<lambda>reports.
     let owned = reported_by (map_of ps ''customerId'') reports;
         shown = (if opt_truthy (map_of ps ''status'')
                  then filter (\<lambda>r. strict_eq (Some (JStr (mo_status r))) (map_of ps ''status'')) owned else owned)
     in ret (JObj [(''reports'', JArr (map (JObj \<circ> report_props) shown)), (''totalCount'', JNum (int (length shown)))]))"

definition incident_summary :: "mock_report \<Rightarrow> json" where
  "incident_summary r = (case mo_incidentId r of
     None \<Rightarrow> JNull
   | Some i \<Rightarrow> if i = [] then JNull else
       JObj [(''incidentId'', JStr i), (''type'', JStr ''pipe_burst''), (''status'', JStr (mo_status r)),
         (''severity'', JStr ''high''), (''affectedCustomers'', JNum 42), (''assignedTeam'', JStr ''TEAM-CP-03'')])"

definition owned_report :: "json option \<Rightarrow> json option \<Rightarrow> (string, mock_report) jsmap \<Rightarrow> mock_report option" where
  "owned_report reportId customerId reports =
     (case (case reportId of Some (JStr i) \<Rightarrow> map_of reports i | _ \<Rightarrow> None) of
        None \<Rightarrow> None
      | Some r \<Rightarrow> if opt_truthy customerId \<and> \<not> strict_eq (mo_customerId r) customerId then None else Some r)"

definition mock_getReportDetail :: "params \<Rightarrow> (mock_world, port_error, json) async" where
  "mock_getReportDetail ps = bnd (reads mk_reports) (\<lambda>reports.
     case owned_report (map_of ps ''reportId'') (map_of ps ''customerId'') reports of
       None \<Rightarrow> throw (not_found_error ''Report not found'')
     | Some r \<Rightarrow> ret (JObj (report_props r @ [(''incidentSummary'', incident_summary r)])))"

definition MockIncidentAdapter :: "mock_files \<Rightarrow> mock_adapter" where
  "MockIncidentAdapter F method ps =
     (if method = ''create-report'' then mock_createReport ps
      else if method = ''get-my-reports'' then mock_getMyReports ps
      else if method = ''get-report-detail'' then mock_getReportDetail ps
      else fixture F ''incident'' method ps)"

section \<open>Customer profiles\<close>

fun profile_status_str :: "profile_status \<Rightarrow> string" where
  "profile_status_str Active = ''active''" | "profile_status_str Inactive = ''inactive''" | "profile_status_str Suspended = ''suspended''"

fun classification_str :: "classification \<Rightarrow> string" where
  "classification_str SinhHoat = ''sinh_hoat''" | "classification_str SanXuat = ''san_xuat''" | "classification_str HanhChinh = ''hanh_chinh''"

definition str_or_null :: "string option \<Rightarrow> json" where
  "str_or_null s = (case s of None \<Rightarrow> JNull | Some t \<Rightarrow> JStr t)"

definition profile_json :: "customer_profile \<Rightarrow> json" where
  "profile_json p = JObj ([(''customerId'', JStr (cp_customerId p)), (''fullName'', JStr (cp_fullName p)),
     (''classification'', JStr (classification_str (cp_classification p))),
     (''address'', JObj [(''street'', JStr (fa_street (cp_address p))), (''ward'', JStr (fa_ward (cp_address p))),
       (''district'', JStr (fa_district (cp_address p))), (''city'', JStr (fa_city (cp_address p))),
       (''fullAddress'', JStr (fa_fullAddress (cp_address p)))])] @
     jopt ''contactInfo'' (map_option (\<lambda>c. JObj [(''phone'', str_or_null (ci_phone c)), (''email'', str_or_null (ci_email c)),
       (''contactAddress'', str_or_null (ci_contactAddress c))]) (cp_contactInfo p)) @
     [(''status'', JStr (profile_status_str (cp_status p)))])"

definition profile_get :: "mock_files \<Rightarrow> params \<Rightarrow> (mock_world, port_error, json) async" where
  "profile_get F ps = (case map_of ps ''customerId'' of
     Some (JStr byId) \<Rightarrow>
       if byId = [] then ret JNull
       else bnd (reads (\<lambda>w. findByCustomerId byId (mk_customers w))) (\<lambda>stored. case stored of
         Some p \<Rightarrow> ret (profile_json p)
       | None \<Rightarrow>
           if byId \<in> set FIXTURE_CUSTOMER_IDS
           then bnd (fixture F ''customer-profile'' ''get-profile'' ps) (\<lambda>data.
             ret (JObj (AList.update ''customerId'' (JStr byId) (json_props data))))
           else ret JNull)
   | _ \<Rightarrow> ret JNull)"

definition profile_by_phone :: "mock_files \<Rightarrow> params \<Rightarrow> (mock_world, port_error, json) async" where
  "profile_by_phone F ps = (case map_of ps ''phone'' of
     Some (JStr phone) \<Rightarrow>
       if phone = [] then ret JNull
       else bnd (reads (\<lambda>w. findByPhone phone (mk_customers w))) (\<lambda>stored. case stored of
         Some p \<Rightarrow> ret (profile_json p)
       | None \<Rightarrow>
           if normalizePhone phone \<in> set EXISTING_CUSTOMER_PHONES
           then fixture F ''customer-profile'' ''find-by-phone'' ps else ret JNull)
   | _ \<Rightarrow> ret JNull)"

fun store_error :: "customer_error \<Rightarrow> js_error" where
  "store_error CustomerConflict = new_Error ''database''"
| "store_error (CustomerFailure e) = e"

definition profile_create :: "(params \<Rightarrow> string + create_profile_request) \<Rightarrow> params \<Rightarrow> (mock_world, port_error, json) async" where
  "profile_create parse ps = (case parse ps of
     Inl m \<Rightarrow> throw (OtherError (new_Error (''create-customer mock invalid params: '' @ m)))
   | Inr p \<Rightarrow> (\<lambda>w. case createCustomer p (mk_customers w) of
       (Inl e, rows) \<Rightarrow> (Inl (OtherError (store_error e)), w\<lparr>mk_customers := rows\<rparr>)
     | (Inr c, rows) \<Rightarrow> (Inr (profile_json c), w\<lparr>mk_customers := rows\<rparr>)))"

definition MockCustomerProfileAdapter ::
  "mock_files \<Rightarrow> (params \<Rightarrow> string + create_profile_request) \<Rightarrow> mock_adapter" where
  "MockCustomerProfileAdapter F parse method ps =
     (if method = ''create-customer'' then profile_create parse ps
      else if method = ''get-profile'' then profile_get F ps
      else if method = ''find-by-phone'' then profile_by_phone F ps
      else fixture F ''customer-profile'' method ps)"

section \<open>Adapters that only serve fixtures\<close>

definition MockTariffAdapter :: "mock_files \<Rightarrow> mock_adapter" where
  "MockTariffAdapter F = fixture F ''tariff''"

definition MockMeterReadingAdapter :: "mock_files \<Rightarrow> mock_adapter" where
  "MockMeterReadingAdapter F = fixture F ''meter-reading''"

definition MockDebtAdapter :: "mock_files \<Rightarrow> mock_adapter" where
  "MockDebtAdapter F = fixture F ''debt''"

definition MockNotificationAdapter :: "mock_files \<Rightarrow> mock_adapter" where
  "MockNotificationAdapter F = fixture F ''notification''"

definition MockProactiveNotificationAdapter :: "mock_files \<Rightarrow> mock_adapter" where
  "MockProactiveNotificationAdapter F = fixture F ''proactive-notification''"

definition MockWaterCutoffAdapter :: "mock_files \<Rightarrow> mock_adapter" where
  "MockWaterCutoffAdapter F = fixture F ''water-cutoff''"

definition MockCallCenterAdapter :: "mock_files \<Rightarrow> mock_adapter" where
  "MockCallCenterAdapter F = fixture F ''call-center''"

definition MockOnboardingAdapter :: "mock_files \<Rightarrow> mock_adapter" where
  "MockOnboardingAdapter F = fixture F ''onboarding''"

section \<open>The live adapter of customer profiles\<close>

definition CustomerProfileInternalAdapter :: "string option \<Rightarrow> adapter_config" where
  "CustomerProfileInternalAdapter BACKEND_BASE_URL =
     (let url = js_nullish BACKEND_BASE_URL ''http://localhost:3001'';
          base = (if url \<noteq> [] \<and> last url = CHR ''/'' then butlast url else url)
      in \<lparr>ac_portName = ''customer-profile'', ac_baseUrl = base @ ''/customers'', ac_timeout = 5000,
          ac_methodMap = Some [''get-profile'' \<mapsto> GET, ''get-timeline'' \<mapsto> GET, ''get-related-accounts'' \<mapsto> GET,
            ''find-by-phone'' \<mapsto> POST, ''create-customer'' \<mapsto> POST, ''update-profile'' \<mapsto> PUT]\<rparr>)"

section \<open>Registration\<close>

text \<open>
  The modules register their adapters in the order in which the application imports them. The live adapters of
  customer profiles, of notifications and of the support chat talk to other services and work on the second
  part of the environment; every other port has the mock as its live adapter too.
\<close>

record 't live_adapters =
  la_profile :: "'t port_adapter"
  la_notification :: "'t port_adapter"
  la_chat :: "'t port_adapter"

definition on_mocks :: "mock_adapter \<Rightarrow> (mock_world \<times> 't) port_adapter" where
  "on_mocks A ctx method ps = (\<lambda>(m, t). case A method ps m of (r, m') \<Rightarrow> (r, m', t))"

definition on_net :: "'t port_adapter \<Rightarrow> (mock_world \<times> 't) port_adapter" where
  "on_net A ctx method ps = (\<lambda>(m, t). case A ctx method ps t of (r, t') \<Rightarrow> (r, m, t'))"

definition mock_ports ::
  "mock_files \<Rightarrow> (params \<Rightarrow> string + create_profile_request) \<Rightarrow> 't live_adapters \<Rightarrow>
   (string \<times> (mock_world \<times> 't) port_adapter \<times> (mock_world \<times> 't) port_adapter) list" where
  "mock_ports F parse L =
     (let same = (\<lambda>A. (on_mocks A, on_mocks A)) in
      [(''customer-profile'', on_mocks (MockCustomerProfileAdapter F parse), on_net (la_profile L)),
       (''onboarding'', same (MockOnboardingAdapter F)),
       (''contract'', same (MockContractAdapter F)),
       (''econtract'', same (MockEcontractAdapter F)),
       (''meter'', same (MockMeterAdapter F)),
       (''meter-reading'', same (MockMeterReadingAdapter F)),
       (''smart-meter'', same (MockSmartMeterAdapter F)),
       (''tariff'', same (MockTariffAdapter F)),
       (''invoice'', same (MockInvoiceAdapter F)),
       (''payment'', same (MockPaymentAdapter F)),
       (''debt'', same (MockDebtAdapter F)),
       (''notification'', on_mocks (MockNotificationAdapter F), on_net (la_notification L)),
       (''proactive-notification'', same (MockProactiveNotificationAdapter F)),
       (''water-cutoff'', same (MockWaterCutoffAdapter F)),
       (''call-center'', same (MockCallCenterAdapter F)),
       (''cskh-chat'', on_net (la_chat L), on_net (la_chat L)),
       (''incident'', same (MockIncidentAdapter F))])"

definition register_ports ::
  "msec \<Rightarrow> mock_files \<Rightarrow> (params \<Rightarrow> string + create_profile_request) \<Rightarrow> 't live_adapters \<Rightarrow>
   ('c, mock_world \<times> 't) port_world \<Rightarrow> ('c, mock_world \<times> 't) port_world" where
  "register_ports now F parse L =
     fold (\<lambda>(name, mock, live). port_register now name mock live None) (mock_ports F parse L)"

end
