(* ===== verification/Mock_Scope.thy ===== *)
theory Mock_Scope
  imports Mock_Adapters
begin

text \<open>
  What the owner-scoped adapters promise: an answer to a customer depends on that customer's rows alone, so it
  cannot reveal anything of another customer's, not even that a row exists. And what becomes of the promise
  behind the port registry, whose fallback answers a refused read with the last answer of the port.
\<close>

section \<open>Lookups that respect ownership\<close>

locale owner_scoped =
  fixes sane :: "'w \<Rightarrow> bool"
    and items :: "'w \<Rightarrow> 'item list"
    and ident :: "'item \<Rightarrow> json option"
    and owner :: "'item \<Rightarrow> json option"
    and get :: "json option \<Rightarrow> json option \<Rightarrow> 'w \<Rightarrow> 'item option"
  assumes ids_differ: "sane w \<Longrightarrow> distinct (map ident (items w))"
    and get_first: "sane w \<Longrightarrow> opt_truthy c \<Longrightarrow> get i c w =
      (case find (\<lambda>x. strict_eq (ident x) i) (items w) of
         None \<Rightarrow> None | Some x \<Rightarrow> if strict_eq (owner x) c then Some x else None)"
begin

definition own :: "json option \<Rightarrow> 'w \<Rightarrow> 'item list" where
  "own c w = filter (\<lambda>x. strict_eq (owner x) c) (items w)"

lemma find_unique:
  assumes "distinct (map ident xs)"
  shows "find (\<lambda>x. strict_eq (ident x) i) (filter P xs) =
    (case find (\<lambda>x. strict_eq (ident x) i) xs of None \<Rightarrow> None | Some x \<Rightarrow> if P x then Some x else None)"
  using assms
proof (induction xs)
  case (Cons x xs)
  have "find (\<lambda>y. strict_eq (ident y) i) (filter P xs) = None" if "strict_eq (ident x) i"
    using that Cons.prems by (auto simp: find_None_iff strict_eq_def intro: rev_image_eqI)
  with Cons show ?case by auto
qed simp

lemma get_among_own:
  assumes "sane w" "opt_truthy c"
  shows "get i c w = find (\<lambda>x. strict_eq (ident x) i) (own c w)"
  using find_unique [OF ids_differ [OF assms(1)], of i "\<lambda>x. strict_eq (owner x) c"] get_first [OF assms]
  by (simp add: own_def)

lemma get_own:
  assumes "sane w" "opt_truthy c" "get i c w = Some x"
  shows "x \<in> set (items w)" "strict_eq (owner x) c" "strict_eq (ident x) i"
  using assms(3) unfolding get_among_own [OF assms(1,2)] own_def by (auto simp: find_Some_iff in_set_conv_nth dest: nth_mem)

lemma depends_on_own:
  assumes "sane w" "sane w'" "opt_truthy c" "own c w = own c w'"
  shows "get i c w = get i c w'"
  using assms by (simp add: get_among_own)

lemma foreign_refused:
  assumes "sane w" "opt_truthy c" "x \<in> set (items w)" "strict_eq (ident x) i" "\<not> strict_eq (owner x) c"
  shows "get i c w = None"
proof (rule ccontr)
  assume "get i c w \<noteq> None"
  then obtain y where y: "get i c w = Some y" by blast
  have "ident y = ident x" using get_own(3) [OF assms(1,2) y] assms(4) by (simp add: strict_eq_def)
  with get_own(1) [OF assms(1,2) y] assms(3) ids_differ [OF assms(1)] have "y = x"
    by (metis distinct_map inj_onD)
  with get_own(2) [OF assms(1,2) y] assms(5) show False by simp
qed

end

definition unique_by :: "string \<Rightarrow> params list \<Rightarrow> bool" where
  "unique_by key rows = distinct (map (\<lambda>row. map_of row key) rows)"

interpretation rows: owner_scoped "unique_by key" "\<lambda>rows. rows" "\<lambda>row. map_of row key" owner_of "owned_row key"
  for key :: string
  by unfold_locales (auto simp: unique_by_def owned_row_def find_row_def split: option.splits)

definition reports_wf :: "(string, mock_report) jsmap \<Rightarrow> bool" where
  "reports_wf reports \<longleftrightarrow> distinct (map fst reports) \<and> (\<forall>(k, r) \<in> set reports. mo_reportId r = k)"

lemma find_map_of:
  assumes "\<forall>(k, r) \<in> set reports. mo_reportId r = k"
  shows "find (\<lambda>r. strict_eq (Some (JStr (mo_reportId r))) (Some (JStr i))) (map snd reports) = map_of reports i"
  using assms by (induction reports) (auto simp: strict_eq_def)

lemma report_found:
  assumes "\<forall>(k, r) \<in> set reports. mo_reportId r = k"
  shows "find (\<lambda>r. strict_eq (Some (JStr (mo_reportId r))) i) (map snd reports) =
    (case i of Some (JStr k) \<Rightarrow> map_of reports k | _ \<Rightarrow> None)"
proof (cases "\<exists>k. i = Some (JStr k)")
  case True
  then show ?thesis using find_map_of [OF assms] by auto
next
  case False
  then have "strict_eq (Some (JStr k)) i = False" for k by (auto simp: strict_eq_def)
  with False show ?thesis by (auto simp: find_None_iff split: option.splits json.splits)
qed

interpretation reps: owner_scoped reports_wf "map snd" "\<lambda>r. Some (JStr (mo_reportId r))" mo_customerId owned_report
proof unfold_locales
  fix w :: "(string, mock_report) jsmap" and c i
  assume wf: "reports_wf w"
  then have "map (\<lambda>r. Some (JStr (mo_reportId r))) (map snd w) = map (\<lambda>k. Some (JStr k)) (map fst w)"
    by (auto simp: reports_wf_def)
  also have "distinct \<dots>" using wf by (auto simp: reports_wf_def distinct_map inj_on_def)
  finally show "distinct (map (\<lambda>r. Some (JStr (mo_reportId r))) (map snd w))" .
  show "opt_truthy c \<Longrightarrow> owned_report i c w = (case find (\<lambda>r. strict_eq (Some (JStr (mo_reportId r))) i) (map snd w) of
      None \<Rightarrow> None | Some x \<Rightarrow> if strict_eq (mo_customerId x) c then Some x else None)"
    using wf by (auto simp: reports_wf_def report_found owned_report_def split: option.splits)
qed

section \<open>The rows an adapter works on\<close>

definition cached_or :: "'a option \<Rightarrow> mock_files \<Rightarrow> string list \<Rightarrow> (json \<Rightarrow> 'a) \<Rightarrow> js_error + 'a" where
  "cached_or c F path f = (case c of Some x \<Rightarrow> Inr x | None \<Rightarrow> map_sum id f (mf_readJson F path))"

definition invoices_in :: "mock_files \<Rightarrow> mock_world \<Rightarrow> js_error + raw_invoices" where
  "invoices_in F w = cached_or (mk_invoices w) F [''mocks'', ''invoice'', ''get-list.json'']
     (\<lambda>raw. \<lparr>ri_items = rows_of ''invoices'' raw, ri_page = json_nullish (json_get ''page'' raw) (JNum 1),
              ri_limit = json_nullish (json_get ''limit'' raw) (JNum 10)\<rparr>)"

definition meters_in :: "mock_files \<Rightarrow> mock_world \<Rightarrow> js_error + params list" where
  "meters_in F w = cached_or (mk_meters w) F [''mocks'', ''meter'', ''get-meter-by-customer.json''] (rows_of ''meters'')"

definition owners_in :: "mock_files \<Rightarrow> mock_world \<Rightarrow> js_error + params list" where
  "owners_in F w = cached_or (mk_meterOwners w) F [''mocks'', ''meter'', ''get-meter-by-customer.json'']
     (\<lambda>raw. map (\<lambda>m. jopt ''meterId'' (map_of m ''meterId'') @ jopt ''ownerCustomerId'' (owner_of m)) (rows_of ''meters'' raw))"

definition contracts_in :: "mock_files \<Rightarrow> mock_world \<Rightarrow> js_error + params list" where
  "contracts_in F w = cached_or (mk_contracts w) F [''mocks'', ''contract'', ''get-contracts.json''] (rows_of ''contracts'')"

lemma loaded:
  "fst (bnd (invoice_loadRaw F) f w) = (case invoices_in F w of Inl e \<Rightarrow> Inl (OtherError e) | Inr c \<Rightarrow> fst (f c (snd (invoice_loadRaw F w))))"
  "fst (bnd (meter_loadRaw F) g w) = (case meters_in F w of Inl e \<Rightarrow> Inl (OtherError e) | Inr c \<Rightarrow> fst (g c (snd (meter_loadRaw F w))))"
  "fst (bnd (loadMeterOwners F) g w) = (case owners_in F w of Inl e \<Rightarrow> Inl (OtherError e) | Inr c \<Rightarrow> fst (g c (snd (loadMeterOwners F w))))"
  "fst (bnd (contract_loadRaw F) g w) = (case contracts_in F w of Inl e \<Rightarrow> Inl (OtherError e) | Inr c \<Rightarrow> fst (g c (snd (contract_loadRaw F w))))"
  by (simp_all add: invoice_loadRaw_def meter_loadRaw_def loadMeterOwners_def contract_loadRaw_def invoices_in_def meters_in_def
      owners_in_def contracts_in_def cached_or_def read_rows_def async_simps Let_def split: option.splits sum.splits)

section \<open>Answers depend on the customer's own rows\<close>

definition scoped_reads :: "(string \<times> string) list" where
  "scoped_reads =
    [(''invoice'', ''get-list''), (''invoice'', ''get-by-id''),
     (''meter'', ''get-meter-by-customer''), (''meter'', ''get-calibration-status''), (''meter'', ''get-meter-history''),
     (''smart-meter'', ''get-meter-status''),
     (''contract'', ''get-contracts''), (''contract'', ''get-contract-detail''), (''contract'', ''get-contract-versions''),
     (''contract'', ''get-contract-pdf''),
     (''incident'', ''get-my-reports''), (''incident'', ''get-report-detail'')]"

definition own_rows :: "json option \<Rightarrow> params list \<Rightarrow> params list" where
  "own_rows c rows = filter (\<lambda>row. strict_eq (owner_of row) c) rows"

definition own_part where
  "own_part F c w =
     (map_sum id (\<lambda>raw. raw\<lparr>ri_items := own_rows c (ri_items raw)\<rparr>) (invoices_in F w),
      map_sum id (own_rows c) (meters_in F w), map_sum id (own_rows c) (owners_in F w),
      map_sum id (own_rows c) (contracts_in F w),
      filter (\<lambda>r. strict_eq (mo_customerId r) c) (map snd (mk_reports w)))"
  \<comment> \<open>what of the mocks' data belongs to a customer\<close>

definition all_right :: "('a \<Rightarrow> bool) \<Rightarrow> 'e + 'a \<Rightarrow> bool" where
  "all_right P x = (case x of Inl _ \<Rightarrow> True | Inr a \<Rightarrow> P a)"

lemma all_right_simps [simp]: "all_right P (Inl e)" "all_right P (Inr a) = P a"
  by (simp_all add: all_right_def)

definition ids_unique :: "mock_files \<Rightarrow> mock_world \<Rightarrow> bool" where
  "ids_unique F w \<longleftrightarrow>
     all_right (unique_by ''invoiceId'' \<circ> ri_items) (invoices_in F w) \<and> all_right (unique_by ''meterId'') (meters_in F w) \<and>
     all_right (unique_by ''meterId'') (owners_in F w) \<and> all_right (unique_by ''contractId'') (contracts_in F w) \<and>
     reports_wf (mk_reports w)"

lemma map_sum_eqD:
  assumes "map_sum id f x = map_sum id f y"
  obtains e where "x = Inl e" "y = Inl e" | a b where "x = Inr a" "y = Inr b" "f a = f b"
  using assms by (cases x; cases y) auto

lemma own_rows_rows: "own_rows c rows = rows.own c rows" "opt_truthy c \<Longrightarrow> owned_by c rows = own_rows c rows"
  by (simp_all add: own_rows_def rows.own_def owned_by_def)

lemma owned_row_same:
  assumes "unique_by key rows" "unique_by key rows'" "opt_truthy c" "own_rows c rows = own_rows c rows'"
  shows "owned_row key i c rows = owned_row key i c rows'"
  using assms rows.depends_on_own [of key rows rows' c i] by (simp add: own_rows_rows)

lemma fst_fixture: "fst (fixture F p m ps w) = fst (fixture F p m ps w')"
  by (simp add: fixture_def mock_execute_def async_simps split: sum.splits option.splits)

lemma fst_fixture_cases: "\<exists>r. \<forall>w. fixture F p m ps w = (r, w)"
  by (simp add: fixture_def mock_execute_def async_simps split: sum.splits option.splits)

lemma seq_bnd: "seq (bnd m f) k = bnd m (\<lambda>x. seq (f x) k)"
  by (rule ext) (simp add: async_simps split: prod.splits sum.splits)

definition stateless :: "('s, 'e, 'a) async \<Rightarrow> bool" where
  "stateless m \<longleftrightarrow> (\<exists>r. \<forall>w. m w = (r, w))"
  \<comment> \<open>neither reads nor changes the state\<close>

lemma stateless_fst: "stateless m \<Longrightarrow> fst (m w) = fst (m w')"
  by (auto simp: stateless_def)

lemma stateless_fixture: "stateless (fixture F p m ps)"
  unfolding stateless_def by (rule fst_fixture_cases)

lemma stateless_bnd: "stateless m \<Longrightarrow> (\<And>x. stateless (f x)) \<Longrightarrow> stateless (bnd m f)"
proof -
  assume m: "stateless m" and f: "\<And>x. stateless (f x)"
  from m obtain r where r: "\<And>w. m w = (r, w)" by (auto simp: stateless_def)
  show "stateless (bnd m f)"
  proof (cases r)
    case (Inr x)
    with f [of x] r show ?thesis by (simp add: stateless_def bnd_app)
  qed (simp add: stateless_def bnd_app r)
qed

lemma stateless_ret: "stateless (ret x)" "stateless (throw e)"
  by (simp_all add: stateless_def async_simps)

lemmas stateless_rules = stateless_fixture stateless_bnd stateless_ret

lemma stateless_seq: "stateless m \<Longrightarrow> stateless k \<Longrightarrow> stateless (seq m k)"
  by (simp add: seq_def stateless_bnd)

text \<open>Two runs that load agreeing rows and go on without the state answer the same.\<close>

lemma view_same:
  assumes "opt_truthy c" "all_right (unique_by key) x" "all_right (unique_by key) y"
    and "map_sum id (own_rows c) x = map_sum id (own_rows c) y"
    and "\<And>a b u u'. owned_by c a = owned_by c b \<Longrightarrow> (\<And>i. owned_row key i c a = owned_row key i c b) \<Longrightarrow> f a u = f b u'"
  shows "(case x of Inl e \<Rightarrow> Inl (OtherError e) | Inr rows \<Rightarrow> f rows u) = (case y of Inl e \<Rightarrow> Inl (OtherError e) | Inr rows \<Rightarrow> f rows u')"
  using assms(4)
proof (rule map_sum_eqD)
  fix a b
  assume ab: "x = Inr a" "y = Inr b" "own_rows c a = own_rows c b"
  have "f a u = f b u'"
    using assms(1-3) ab by (intro assms(5)) (auto simp: own_rows_rows(2) intro: owned_row_same)
  with ab show ?thesis by simp
qed simp

lemma invoice_scoped:
  assumes "opt_truthy (map_of ps ''customerId'')"
    and "all_right (unique_by ''invoiceId'' \<circ> ri_items) (invoices_in F w)"
    and "all_right (unique_by ''invoiceId'' \<circ> ri_items) (invoices_in F w')"
    and "map_sum id (\<lambda>raw. raw\<lparr>ri_items := own_rows (map_of ps ''customerId'') (ri_items raw)\<rparr>) (invoices_in F w) =
         map_sum id (\<lambda>raw. raw\<lparr>ri_items := own_rows (map_of ps ''customerId'') (ri_items raw)\<rparr>) (invoices_in F w')"
  shows "fst (MockInvoiceAdapter F m ps w) = fst (MockInvoiceAdapter F m ps w')"
  using assms(4)
proof (rule map_sum_eqD)
  fix e
  assume "invoices_in F w = Inl e" "invoices_in F w' = Inl e"
  then show ?thesis
    by (simp add: MockInvoiceAdapter_def invoice_getList_def invoice_getById_def loaded fst_fixture [of F _ _ ps w w'])
next
  fix a b
  let ?c = "map_of ps ''customerId''"
  assume in_w: "invoices_in F w = Inr a" "invoices_in F w' = Inr b"
    and eq: "a\<lparr>ri_items := own_rows ?c (ri_items a)\<rparr> = b\<lparr>ri_items := own_rows ?c (ri_items b)\<rparr>"
  have own: "own_rows ?c (ri_items a) = own_rows ?c (ri_items b)" "ri_page a = ri_page b" "ri_limit a = ri_limit b"
    using eq by (cases a; cases b; simp)+
  have row: "owned_row ''invoiceId'' i ?c (ri_items a) = owned_row ''invoiceId'' i ?c (ri_items b)" for i
    using assms(1-3) in_w own by (intro owned_row_same) auto
  have l: "fst (invoice_getList F ps w) = fst (invoice_getList F ps w')"
    using in_w own assms(1) by (simp add: invoice_getList_def loaded own_rows_rows(2) Let_def ret_app)
  have d: "fst (invoice_getById F ps w) = fst (invoice_getById F ps w')"
  proof (cases "opt_truthy (map_of ps ''invoiceId'')")
    case True
    then show ?thesis using in_w row
      by (cases "owned_row ''invoiceId'' (map_of ps ''invoiceId'') ?c (ri_items b)") (simp_all add: invoice_getById_def loaded ret_app throw_app)
  qed (simp add: invoice_getById_def fst_fixture [of F _ _ ps w w'])
  show ?thesis using l d by (simp add: MockInvoiceAdapter_def fst_fixture [of F _ _ ps w w'])
qed

text \<open>Meters and contracts are listed and guarded in the same way.\<close>

lemma list_same:
  assumes "owned_by c a = owned_by c b"
  shows "fst ((let owned = owned_by c a in ret (g owned)) u) = fst ((let owned = owned_by c b in ret (g owned)) u')"
  by (simp add: assms Let_def ret_app)

lemma guard_same:
  assumes "\<And>i. owned_row key i c a = owned_row key i c b" "stateless k"
  shows "fst (seq (if owned_row key i c a = None then throw e else ret ()) k u) =
    fst (seq (if owned_row key i c b = None then throw e else ret ()) k u')"
  unfolding assms(1) by (rule stateless_fst) (auto intro!: stateless_seq stateless_rules assms(2))

lemma stateless_item:
  "stateless (bnd (fixture F p m ps) (\<lambda>data. if is_structure data then ret (g data) else fixture F p m ps))"
  by (auto intro!: stateless_rules)

lemma meters_same:
  assumes "opt_truthy c"
    and "all_right (unique_by ''meterId'') (meters_in F w)" "all_right (unique_by ''meterId'') (meters_in F w')"
    and "map_sum id (own_rows c) (meters_in F w) = map_sum id (own_rows c) (meters_in F w')"
    and "\<And>a b u u'. owned_by c a = owned_by c b \<Longrightarrow> (\<And>i. owned_row ''meterId'' i c a = owned_row ''meterId'' i c b) \<Longrightarrow>
      fst (g a u) = fst (g b u')"
  shows "fst (bnd (meter_loadRaw F) g w) = fst (bnd (meter_loadRaw F) g w')"
  unfolding loaded by (rule view_same [where f = "\<lambda>rows u. fst (g rows u)", OF assms])

lemma contracts_same:
  assumes "opt_truthy c"
    and "all_right (unique_by ''contractId'') (contracts_in F w)" "all_right (unique_by ''contractId'') (contracts_in F w')"
    and "map_sum id (own_rows c) (contracts_in F w) = map_sum id (own_rows c) (contracts_in F w')"
    and "\<And>a b u u'. owned_by c a = owned_by c b \<Longrightarrow> (\<And>i. owned_row ''contractId'' i c a = owned_row ''contractId'' i c b) \<Longrightarrow>
      fst (g a u) = fst (g b u')"
  shows "fst (bnd (contract_loadRaw F) g w) = fst (bnd (contract_loadRaw F) g w')"
  unfolding loaded by (rule view_same [where f = "\<lambda>rows u. fst (g rows u)", OF assms])

lemma owners_same:
  assumes "opt_truthy c"
    and "all_right (unique_by ''meterId'') (owners_in F w)" "all_right (unique_by ''meterId'') (owners_in F w')"
    and "map_sum id (own_rows c) (owners_in F w) = map_sum id (own_rows c) (owners_in F w')"
    and "\<And>a b u u'. owned_by c a = owned_by c b \<Longrightarrow> (\<And>i. owned_row ''meterId'' i c a = owned_row ''meterId'' i c b) \<Longrightarrow>
      fst (g a u) = fst (g b u')"
  shows "fst (bnd (loadMeterOwners F) g w) = fst (bnd (loadMeterOwners F) g w')"
  unfolding loaded by (rule view_same [where f = "\<lambda>rows u. fst (g rows u)", OF assms])

lemma meter_scoped:
  assumes "opt_truthy (map_of ps ''customerId'')"
    and "all_right (unique_by ''meterId'') (meters_in F w)" "all_right (unique_by ''meterId'') (meters_in F w')"
    and "map_sum id (own_rows (map_of ps ''customerId'')) (meters_in F w) = map_sum id (own_rows (map_of ps ''customerId'')) (meters_in F w')"
  shows "fst (MockMeterAdapter F m ps w) = fst (MockMeterAdapter F m ps w')"
proof -
  have "fst (meter_getByCustomer F ps w) = fst (meter_getByCustomer F ps w')"
    unfolding meter_getByCustomer_def by (rule meters_same [OF assms]) (rule list_same)
  moreover have "fst (seq (meter_assertOwned F i (map_of ps ''customerId'')) k w) = fst (seq (meter_assertOwned F i (map_of ps ''customerId'')) k w')"
    if "stateless k" for i and k :: "(mock_world, port_error, json) async"
    unfolding meter_assertOwned_def seq_bnd by (rule meters_same [OF assms]) (rule guard_same [OF _ that])
  ultimately show ?thesis
    unfolding MockMeterAdapter_def by (simp only: stateless_item fst_fixture [of F _ _ ps w w'] simp_thms split: if_split)
qed

lemma contract_scoped:
  assumes "opt_truthy (map_of ps ''customerId'')"
    and "all_right (unique_by ''contractId'') (contracts_in F w)" "all_right (unique_by ''contractId'') (contracts_in F w')"
    and "map_sum id (own_rows (map_of ps ''customerId'')) (contracts_in F w) = map_sum id (own_rows (map_of ps ''customerId'')) (contracts_in F w')"
  shows "fst (MockContractAdapter F m ps w) = fst (MockContractAdapter F m ps w')"
proof -
  have "fst (contract_getContracts F ps w) = fst (contract_getContracts F ps w')"
    unfolding contract_getContracts_def by (rule contracts_same [OF assms]) (rule list_same)
  moreover have "fst (seq (contract_assertOwned F i (map_of ps ''customerId'')) k w) = fst (seq (contract_assertOwned F i (map_of ps ''customerId'')) k w')"
    if "stateless k" for i and k :: "(mock_world, port_error, json) async"
    unfolding contract_assertOwned_def seq_bnd by (rule contracts_same [OF assms]) (rule guard_same [OF _ that])
  ultimately show ?thesis
    unfolding MockContractAdapter_def by (simp only: stateless_item fst_fixture [of F _ _ ps w w'] simp_thms split: if_split)
qed

lemma smart_scoped:
  assumes "opt_truthy (map_of ps ''customerId'')"
    and "all_right (unique_by ''meterId'') (owners_in F w)" "all_right (unique_by ''meterId'') (owners_in F w')"
    and "map_sum id (own_rows (map_of ps ''customerId'')) (owners_in F w) = map_sum id (own_rows (map_of ps ''customerId'')) (owners_in F w')"
  shows "fst (MockSmartMeterAdapter F m ps w) = fst (MockSmartMeterAdapter F m ps w')"
proof -
  have "fst (seq (smart_assertOwned F i (map_of ps ''customerId'')) k w) = fst (seq (smart_assertOwned F i (map_of ps ''customerId'')) k w')"
    if "stateless k" for i and k :: "(mock_world, port_error, json) async"
    unfolding smart_assertOwned_def seq_bnd by (rule owners_same [OF assms]) (rule guard_same [OF _ that])
  then show ?thesis
    unfolding MockSmartMeterAdapter_def
    by (simp only: stateless_fixture stateless_fst [OF stateless_seq [OF stateless_ret(1) stateless_fixture], of _ _ _ _ _ w w'] simp_thms split: if_split)
qed

lemma incident_scoped:
  assumes "opt_truthy (map_of ps ''customerId'')" "reports_wf (mk_reports w)" "reports_wf (mk_reports w')"
    and "filter (\<lambda>r. strict_eq (mo_customerId r) (map_of ps ''customerId'')) (map snd (mk_reports w)) =
         filter (\<lambda>r. strict_eq (mo_customerId r) (map_of ps ''customerId'')) (map snd (mk_reports w'))"
    and "m \<noteq> ''create-report''"
  shows "fst (MockIncidentAdapter F m ps w) = fst (MockIncidentAdapter F m ps w')"
proof -
  have "owned_report i (map_of ps ''customerId'') (mk_reports w) = owned_report i (map_of ps ''customerId'') (mk_reports w')" for i
    using assms(2,3,1,4) by (intro reps.depends_on_own) (simp_all add: reps.own_def)
  then have "fst (mock_getReportDetail ps w) = fst (mock_getReportDetail ps w')"
    by (simp add: mock_getReportDetail_def async_simps split: option.splits)
  moreover have "fst (mock_getMyReports ps w) = fst (mock_getMyReports ps w')"
    using assms(1,4) by (simp add: mock_getMyReports_def reported_by_def async_simps Let_def)
  ultimately show ?thesis using assms(5) by (simp add: MockIncidentAdapter_def fst_fixture [of F _ _ ps w w'])
qed

lemma scoped_ports:
  "map_of (mock_ports F parse L) ''invoice'' = Some (on_mocks (MockInvoiceAdapter F), on_mocks (MockInvoiceAdapter F))"
  "map_of (mock_ports F parse L) ''meter'' = Some (on_mocks (MockMeterAdapter F), on_mocks (MockMeterAdapter F))"
  "map_of (mock_ports F parse L) ''smart-meter'' = Some (on_mocks (MockSmartMeterAdapter F), on_mocks (MockSmartMeterAdapter F))"
  "map_of (mock_ports F parse L) ''contract'' = Some (on_mocks (MockContractAdapter F), on_mocks (MockContractAdapter F))"
  "map_of (mock_ports F parse L) ''incident'' = Some (on_mocks (MockIncidentAdapter F), on_mocks (MockIncidentAdapter F))"
  by (simp_all add: mock_ports_def Let_def)

lemma fst_on_mocks: "fst (on_mocks A ctx m ps e) = fst (A m ps (fst e))"
  by (simp add: on_mocks_def split: prod.splits)

lemma scoped_cases:
  assumes "(port, method) \<in> set scoped_reads"
  obtains "port = ''invoice''" | "port = ''meter''" | "port = ''smart-meter''" | "port = ''contract''"
    | "port = ''incident''" "method \<noteq> ''create-report''"
proof -
  have "list_all (\<lambda>(port, method). port = ''invoice'' \<or> port = ''meter'' \<or> port = ''smart-meter'' \<or> port = ''contract'' \<or>
      port = ''incident'' \<and> method \<noteq> ''create-report'') scoped_reads"
    by code_simp
  from this [unfolded list_all_iff, THEN bspec, OF assms, unfolded prod.case] that show thesis
    by (elim disjE conjE)
qed

text \<open>
  C27. Ownership at the data layer. In every read of an owner-scoped port, the answer to a customer is determined by
  the rows that carry this customer's mark: two states of the mocks' data that agree on them give the same answer or
  the same refusal, whatever the other customers' invoices, meters, contracts and reports are. So a request for
  another customer's row cannot be told apart from a request for one that does not exist.
\<close>

theorem mock_reads_scoped:
  assumes "(port, method) \<in> set scoped_reads" "map_of ps ''customerId'' = Some c" "json_truthy c"
    and "ids_unique F w" "ids_unique F w'" "own_part F (Some c) w = own_part F (Some c) w'"
    and "map_of (mock_ports F parse L) port = Some (mock, live)" "adapter \<in> {mock, live}"
  shows "fst (adapter ctx method ps (w, t)) = fst (adapter ctx method ps (w', t'))"
proof -
  have c: "opt_truthy (map_of ps ''customerId'')" using assms(2,3) by (simp add: opt_truthy_def)
  from assms(6) have own: "map_sum id (\<lambda>raw. raw\<lparr>ri_items := own_rows (map_of ps ''customerId'') (ri_items raw)\<rparr>) (invoices_in F w) =
      map_sum id (\<lambda>raw. raw\<lparr>ri_items := own_rows (map_of ps ''customerId'') (ri_items raw)\<rparr>) (invoices_in F w')"
    "map_sum id (own_rows (map_of ps ''customerId'')) (meters_in F w) = map_sum id (own_rows (map_of ps ''customerId'')) (meters_in F w')"
    "map_sum id (own_rows (map_of ps ''customerId'')) (owners_in F w) = map_sum id (own_rows (map_of ps ''customerId'')) (owners_in F w')"
    "map_sum id (own_rows (map_of ps ''customerId'')) (contracts_in F w) = map_sum id (own_rows (map_of ps ''customerId'')) (contracts_in F w')"
    "filter (\<lambda>r. strict_eq (mo_customerId r) (map_of ps ''customerId'')) (map snd (mk_reports w)) =
      filter (\<lambda>r. strict_eq (mo_customerId r) (map_of ps ''customerId'')) (map snd (mk_reports w'))"
    unfolding own_part_def assms(2) prod.inject by blast+
  note unique = assms(4,5) [unfolded ids_unique_def]
  from assms(1) have "\<exists>A. map_of (mock_ports F parse L) port = Some (on_mocks A, on_mocks A) \<and> fst (A method ps w) = fst (A method ps w')"
  proof (cases rule: scoped_cases)
    case 1
    then show ?thesis using scoped_ports(1) [of F parse L] invoice_scoped [OF c _ _ own(1)] unique by blast
  next
    case 2
    then show ?thesis using scoped_ports(2) [of F parse L] meter_scoped [OF c _ _ own(2)] unique by blast
  next
    case 3
    then show ?thesis using scoped_ports(3) [of F parse L] smart_scoped [OF c _ _ own(3)] unique by blast
  next
    case 4
    then show ?thesis using scoped_ports(4) [of F parse L] contract_scoped [OF c _ _ own(4)] unique by blast
  next
    case 5
    then show ?thesis using scoped_ports(5) [of F parse L] incident_scoped [OF c _ _ own(5)] unique by blast
  qed
  with assms(7,8) show ?thesis by (auto simp: fst_on_mocks)
qed

text \<open>New reports keep the ids unique, and their reporter can read them.\<close>

lemma update_entries: "(k, v) \<in> set (AList.update i x xs) \<Longrightarrow> k = i \<and> v = x \<or> (k, v) \<in> set xs"
  by (induction xs) (auto split: if_splits)

lemma createReport_wf:
  assumes "reports_wf (mk_reports w)"
  shows "reports_wf (mk_reports (snd (mock_createReport ps w)))"
  using assms by (auto simp: reports_wf_def mock_createReport_def Let_def distinct_update dest!: update_entries)

text \<open>The generated lines of an invoice add up to its amount.\<close>

lemma detail_adds_up:
  "\<exists>subtotal environmental vat. json_get ''subtotal'' (buildDetail item) = Some (JNum subtotal) \<and>
     json_get ''totalAmount'' (buildDetail item) = Some (JNum (subtotal + environmental + vat)) \<and>
     num_prop ''totalAmount'' item = subtotal + environmental + vat \<and>
     \<bar>of_int vat - of_int (num_prop ''totalAmount'' item) / 20\<bar> \<le> (1 / 2 :: rat)"
proof -
  let ?t = "num_prop ''totalAmount'' item"
  show ?thesis
    by (rule exI [of _ "?t - js_round (of_int ?t / 20) - js_round (of_int ?t / 10)"], rule exI [of _ "js_round (of_int ?t / 10)"],
        rule exI [of _ "js_round (of_int ?t / 20)"], use js_round_near [of "of_int ?t / 20"] in \<open>simp add: buildDetail_def Let_def\<close>)
qed

section \<open>The promise behind the registry\<close>

lemma refused_invoice:
  assumes "invoices_in F w = Inr raw" "i \<noteq> []" "customerId \<noteq> []"
    and "\<forall>row \<in> set (ri_items raw). map_of row ''invoiceId'' = Some (JStr i) \<longrightarrow> owner_of row \<noteq> Some (JStr customerId)"
  shows "fst (MockInvoiceAdapter F ''get-by-id'' (customer customerId @ [(''invoiceId'', JStr i)]) w) =
    Inl (not_found_error ''Invoice not found'')"
proof -
  have "owned_row ''invoiceId'' (Some (JStr i)) (Some (JStr customerId)) (ri_items raw) = None"
    using assms(2-4) by (auto simp: owned_row_def find_row_def find_Some_iff strict_eq_def opt_truthy_def split: option.splits)
  then show ?thesis
    using assms(1,2) by (simp add: MockInvoiceAdapter_def invoice_getById_def loaded customer_def opt_truthy_def throw_app)
qed

text \<open>
  C28. The registry undoes it. The refusal of an invoice that is not the customer's counts as a failure of the
  port, and the port registry answers failures with the last answer of the port: a customer who asks for an
  invoice of someone else, or for one that does not exist, gets whatever the invoice port answered last, to
  whomever that was.
\<close>

theorem refused_invoice_shows_last_answer:
  assumes "map_of (pw_ports w) ''invoice'' = Some entry"
    and "pe_mockAdapter entry = on_mocks (MockInvoiceAdapter F)" "pe_liveAdapter entry = on_mocks (MockInvoiceAdapter F)"
    and "map_of (fp_fallbacks (pw_fallback w)) ''invoice'' = Some (port_fallback ''invoice'')" "fp_cache (pw_fallback w) \<noteq> None"
    and "pc_queuePolicy (pe_config entry) \<noteq> QAlways"
    and "execute (bf_deps b) ctx1 t0 t1 ''invoice'' m1 ps1 key1 w = (Inr r1, w1)" "pr_metadata r1 = None"
    and "pr_data r1 = Some other" "other \<noteq> JNull"
    and "validateInvoiceId S i w1 = (Inr (), w1)" "i \<noteq> []" "customerId \<noteq> []"
    and "invoices_in F (fst (pw_env w1)) = Inr raw"
    and "\<forall>row \<in> set (ri_items raw). map_of row ''invoiceId'' = Some (JStr i) \<longrightarrow> owner_of row \<noteq> Some (JStr customerId)"
    and "\<not> json_present (fst (port_read (bf_deps b) (fst (bf_time b 0)) (should_cache ''get-by-id'' entry)
      (buildCacheKey (pd_sha256 (bf_deps b)) ''invoice'' ''get-by-id'' (customer customerId @ [(''invoiceId'', JStr i)])) (pw_cache w1)))"
  shows "\<exists>w2. getInvoiceDetail S b customerId i w1 = (Inr (Some other), w2)"
proof -
  let ?ps = "customer customerId @ [(''invoiceId'', JStr i)]"
  from assms(1,7) have first: "execute_entry (bf_deps b) ctx1 t0 t1 ''invoice'' entry m1 ps1 key1 w = (Inr r1, w1)"
    by (simp add: execute_is_entry)
  note after = answered_fallback [OF first assms(8,5)]
  have used: "adapter_of entry used = on_mocks (MockInvoiceAdapter F)" for used
    using assms(2,3) by (cases used) (simp_all add: adapter_of_def)
  have down: "adapter_of entry used (bf_ctx b) ''get-by-id'' ?ps (pw_env w1) =
      (Inl (not_found_error ''Invoice not found''), snd (adapter_of entry used (bf_ctx b) ''get-by-id'' ?ps (pw_env w1)))" for used
    using refused_invoice [OF assms(14,12,13,15)] by (simp add: prod_eq_iff used fst_on_mocks)
  have "\<exists>r md. fst (execute_entry (bf_deps b) (bf_ctx b) (fst (bf_time b 0)) (snd (bf_time b 0)) ''invoice'' entry ''get-by-id'' ?ps None w1) = Inr r \<and>
     pr_data r = Some other \<and> pr_metadata r = Some md \<and> md_degraded md = Some True"
    using assms(4,6,9,10,16) after by (intro failing_served [OF _ _ _ _ _ down]) simp_all
  then obtain r w2 where "execute (bf_deps b) (bf_ctx b) (fst (bf_time b 0)) (snd (bf_time b 0)) ''invoice'' ''get-by-id'' ?ps None w1 = (Inr r, w2)"
    "pr_data r = Some other"
    using assms(1) after(3) by (metis execute_is_entry prod.collapse)
  then have "fetch b ''invoice'' ''get-by-id'' ?ps w1 = (Inr (Some other), w2)"
    by (auto simp: fetch_def bnd_Inr callPort_Inr ret_app)
  with assms(11) show ?thesis by (auto simp: getInvoiceDetail_def seq_app)
qed

section \<open>Two customers\<close>

definition no_files :: mock_files where
  "no_files = \<lparr>mf_readJson = (\<lambda>_. Inl (new_Error ''ENOENT'')), mf_production = False, mf_schemas = (\<lambda>_ _. None)\<rparr>"

definition bill :: "string \<Rightarrow> string \<Rightarrow> int \<Rightarrow> params" where
  "bill i owner amount = [(''invoiceId'', JStr i), (''totalAmount'', JNum amount), (''ownerCustomerId'', JStr owner)]"

definition bills :: "params list \<Rightarrow> mock_world" where
  "bills rows = \<lparr>mk_now = 0, mk_invoices = Some \<lparr>ri_items = rows, ri_page = JNum 1, ri_limit = JNum 10\<rparr>, mk_meters = None,
     mk_meterOwners = None, mk_contracts = None, mk_dossier = None, mk_payments = 0, mk_reportCounter = 42, mk_reports = [],
     mk_customers = []\<rparr>"

definition no_live :: "unit live_adapters" where
  "no_live = \<lparr>la_profile = (\<lambda>_ _ _. throw (OtherError (new_Error ''offline''))),
     la_notification = (\<lambda>_ _ _. throw (OtherError (new_Error ''offline''))), la_chat = (\<lambda>_ _ _. throw (OtherError (new_Error ''offline'')))\<rparr>"

lemma bills_in [simp]:
  "invoices_in no_files (bills rows) = Inr \<lparr>ri_items = rows, ri_page = JNum 1, ri_limit = JNum 10\<rparr>"
  "meters_in no_files (bills rows) = Inl (new_Error ''ENOENT'')" "owners_in no_files (bills rows) = Inl (new_Error ''ENOENT'')"
  "contracts_in no_files (bills rows) = Inl (new_Error ''ENOENT'')" "mk_reports (bills rows) = []"
  by (simp_all add: invoices_in_def meters_in_def owners_in_def contracts_in_def cached_or_def bills_def no_files_def)

text \<open>Bob asks for Alice's invoice: the answer is that of a state in which she has none.\<close>

theorem mock_reads_scoped_witness:
  "fst (on_mocks (MockInvoiceAdapter no_files) None ''get-by-id'' [(''customerId'', JStr ''bob''), (''invoiceId'', JStr ''I1'')]
      (bills [bill ''I1'' ''alice'' 100, bill ''I2'' ''bob'' 200], ())) =
   fst (on_mocks (MockInvoiceAdapter no_files) None ''get-by-id'' [(''customerId'', JStr ''bob''), (''invoiceId'', JStr ''I1'')]
      (bills [bill ''I2'' ''bob'' 200], ()))"
proof (rule mock_reads_scoped [where port = "''invoice''" and F = no_files and parse = "\<lambda>_. Inl []" and L = no_live
    and c = "JStr ''bob''"])
  show "own_part no_files (Some (JStr ''bob'')) (bills [bill ''I1'' ''alice'' 100, bill ''I2'' ''bob'' 200]) =
      own_part no_files (Some (JStr ''bob'')) (bills [bill ''I2'' ''bob'' 200])"
    by (simp add: own_part_def own_rows_def bill_def owner_of_def strict_eq_def)
  show "map_of (mock_ports no_files (\<lambda>_. Inl []) no_live) ''invoice'' =
      Some (on_mocks (MockInvoiceAdapter no_files), on_mocks (MockInvoiceAdapter no_files))"
    by (rule scoped_ports)
qed (simp_all add: scoped_reads_def ids_unique_def unique_by_def bill_def reports_wf_def)

definition bill_deps :: "(json memory_cache, mock_world \<times> unit) port_deps" where
  "bill_deps = \<lparr>pd_cache = memory_cache_service, pd_sha256 = id, pd_idempotency = None,
     pd_queue = None, pd_mockMode = False\<rparr>"

definition bill_entry :: "(mock_world \<times> unit) port_entry" where
  "bill_entry = \<lparr>pe_name = ''invoice'', pe_mockAdapter = on_mocks (MockInvoiceAdapter no_files),
     pe_liveAdapter = on_mocks (MockInvoiceAdapter no_files), pe_config = resolved_config ''invoice'' [] (Some uncached)\<rparr>"

definition bill_world :: "(json memory_cache, mock_world \<times> unit) port_world" where
  "bill_world = port_register 0 ''invoice'' (on_mocks (MockInvoiceAdapter no_files)) (on_mocks (MockInvoiceAdapter no_files)) (Some uncached)
     \<lparr>pw_ports = [], pw_breakers = [], pw_fallback = fp_new (Some []), pw_config = [],
      pw_cache = mc_new \<lparr>co_defaultTtl = None, co_keyPrefix = None, co_maxEntries = None\<rparr>,
      pw_env = (bills [bill ''I1'' ''alice'' 100, bill ''I2'' ''bob'' 200], ())\<rparr>"

definition bill_request :: "string \<Rightarrow> int \<Rightarrow> (json memory_cache, mock_world \<times> unit) bff_request" where
  "bill_request user t = \<lparr>bf_deps = bill_deps, bf_ctx = user_context user, bf_time = (\<lambda>n. (t, t + 10))\<rparr>"

definition bill_schemas :: billing_schemas where
  "bill_schemas = \<lparr>bs_invoiceList = (\<lambda>_. Inr []), bs_invoiceId = (\<lambda>_. Inr []), bs_contractId = (\<lambda>_. Inr [])\<rparr>"

lemma bill_world_facts:
  "map_of (pw_ports bill_world) ''invoice'' = Some bill_entry" "admits 0 ''invoice'' bill_world"
  "map_of (fp_fallbacks (pw_fallback bill_world)) ''invoice'' = Some (port_fallback ''invoice'')"
  "fp_cache (pw_fallback bill_world) \<noteq> None" "pw_env bill_world = (bills [bill ''I1'' ''alice'' 100, bill ''I2'' ''bob'' 200], ())"
  "should_cache m bill_entry = False" "pc_queuePolicy (pe_config bill_entry) = QNever"
  "pe_mockAdapter bill_entry = on_mocks (MockInvoiceAdapter no_files)" "pe_liveAdapter bill_entry = on_mocks (MockInvoiceAdapter no_files)"
  by (simp_all add: bill_world_def bill_entry_def port_register_def Let_def admits_def cb_admit_def cb_new_def fp_register_def fp_new_def
      should_cache_def resolved_config_def spread_config_def uncached_def js_nullish_def)

lemma alice_reads:
  "adapter_of bill_entry used ctx ''get-by-id'' (customer ''alice'' @ [(''invoiceId'', JStr ''I1'')]) (pw_env bill_world) =
     (Inr (buildDetail (bill ''I1'' ''alice'' 100)), pw_env bill_world)"
  by (cases used) (simp_all add: adapter_of_def bill_world_facts on_mocks_def MockInvoiceAdapter_def invoice_getById_def
      invoice_loadRaw_def async_simps bills_def customer_def opt_truthy_def owned_row_def find_row_def bill_def strict_eq_def owner_of_def)

text \<open>Alice reads her invoice over 100; Bob asks for it and gets it.\<close>

theorem refused_invoice_shows_last_answer_witness:
  "\<exists>w1 w2. getInvoiceDetail bill_schemas (bill_request ''bob'' 1000) ''bob'' ''I1'' w1 =
     (Inr (Some (buildDetail (bill ''I1'' ''alice'' 100))), w2)"
proof -
  let ?alice = "customer ''alice'' @ [(''invoiceId'', JStr ''I1'')]"
  obtain r1 w1 where r1: "execute bill_deps (user_context ''alice'') 0 10 ''invoice'' ''get-by-id'' ?alice None bill_world = (Inr r1, w1)"
    "pr_data r1 = Some (buildDetail (bill ''I1'' ''alice'' 100))" "pr_metadata r1 = None" "pw_env w1 = pw_env bill_world"
    by (rule execute_answers [OF bill_world_facts(1) _ bill_world_facts(2) alice_reads]) (simp_all add: bill_world_facts)
  have first: "execute (bf_deps (bill_request ''bob'' 1000)) (user_context ''alice'') 0 10 ''invoice'' ''get-by-id'' ?alice None bill_world = (Inr r1, w1)"
    using r1(1) by (simp add: bill_request_def)
  have "\<exists>w2. getInvoiceDetail bill_schemas (bill_request ''bob'' 1000) ''bob'' ''I1'' w1 =
     (Inr (Some (buildDetail (bill ''I1'' ''alice'' 100))), w2)"
  proof (rule refused_invoice_shows_last_answer [OF bill_world_facts(1) _ _ bill_world_facts(3,4) _ first r1(3,2)])
    show "invoices_in no_files (fst (pw_env w1)) = Inr \<lparr>ri_items = [bill ''I1'' ''alice'' 100, bill ''I2'' ''bob'' 200],
        ri_page = JNum 1, ri_limit = JNum 10\<rparr>"
      by (simp add: r1(4) bill_world_facts)
  qed (simp_all add: bill_world_facts buildDetail_def Let_def validateInvoiceId_def safeParse_def bill_schemas_def
      async_simps bill_def owner_of_def port_read_def json_present_def)
  then show ?thesis by blast
qed

end
