(* ===== verification/Rate_Limit.thy ===== *)
theory Rate_Limit
  imports Auth
begin

text \<open>
  The rate limiting decorator and guard of src/libs/shared/security/rate-limiter.guard.ts. The metadata store of the
  reflection library is a map from targets and keys; the Redis server is a map from keys to sorted sets with a
  deadline. \<open>now\<close> is the clock, \<open>nonce\<close> the random part of a member.
\<close>

section \<open>Configuration\<close>

record rate_request =
  rq_ip :: "string option"
  rq_userId :: "string option"
  rq_xUserId :: "string option"

record rate_config =
  rl_limit :: int
  rl_windowMs :: int  \<comment> \<open>seconds, in spite of the name\<close>
  rl_keyGenerator :: "(rate_request \<Rightarrow> string) option"
  rl_message :: "string option"
  rl_skipSuccessfulRequests :: "bool option"
  rl_skipFailedRequests :: "bool option"

text \<open>What a decorator is applied to: a class, or the prototype of a class for a method.\<close>

datatype meta_target = ClassTarget string | PrototypeTarget string

fun constructor_name :: "meta_target \<Rightarrow> string" where
  "constructor_name (ClassTarget _) = ''Function''"
| "constructor_name (PrototypeTarget c) = c"

type_synonym metadata = "((meta_target \<times> string) \<times> rate_config) list"

definition config_key :: "string \<Rightarrow> string" where
  "config_key k = ''rate_limit_config_'' @ k"

definition RateLimit :: "rate_config \<Rightarrow> meta_target \<Rightarrow> string option \<Rightarrow> metadata \<Rightarrow> metadata" where
  "RateLimit config target propertyKey md =
     (let withDefaults = config\<lparr>
            rl_message := Some (js_nullish (rl_message config) ''Too many requests, please try again later''),
            rl_skipSuccessfulRequests := Some (js_nullish (rl_skipSuccessfulRequests config) False),
            rl_skipFailedRequests := Some (js_nullish (rl_skipFailedRequests config) False)\<rparr>;
          key = (if truthy_str propertyKey then constructor_name target @ ''.'' @ the propertyKey else constructor_name target)
      in AList.update (target, config_key key) withDefaults md)"

definition plain_config :: "int \<Rightarrow> int \<Rightarrow> rate_config" where
  "plain_config limit windowMs = \<lparr>rl_limit = limit, rl_windowMs = windowMs, rl_keyGenerator = None, rl_message = None,
     rl_skipSuccessfulRequests = None, rl_skipFailedRequests = None\<rparr>"

definition RateLimitPerMinute :: "int \<Rightarrow> rate_config" where "RateLimitPerMinute limit = plain_config limit 60"

definition RateLimitPerHour :: "int \<Rightarrow> rate_config" where "RateLimitPerHour limit = plain_config limit 3600"

definition RateLimitPerDay :: "int \<Rightarrow> rate_config" where "RateLimitPerDay limit = plain_config limit 86400"

definition RateLimitPerUser :: "int \<Rightarrow> int option \<Rightarrow> rate_config" where
  "RateLimitPerUser limit windowMs = (plain_config limit (js_nullish windowMs 3600))\<lparr>
     rl_keyGenerator := Some (\<lambda>q.
       let userId = (if truthy_str (rq_userId q) then rq_userId q else rq_xUserId q)
       in if truthy_str userId then ''rate_limit:user:'' @ the userId
          else ''rate_limit:'' @ js_nullish (rq_ip q) ''undefined''),
     rl_message := Some ''Too many requests for this user''\<rparr>"

definition RateLimitPerIP :: "int \<Rightarrow> int option \<Rightarrow> rate_config" where
  "RateLimitPerIP limit windowMs = (plain_config limit (js_nullish windowMs 3600))\<lparr>
     rl_keyGenerator := Some (\<lambda>q. ''rate_limit:ip:'' @ js_nullish (rq_ip q) ''undefined''),
     rl_message := Some ''Too many requests from this IP''\<rparr>"

definition RateLimitSensitive :: rate_config where
  "RateLimitSensitive = (plain_config 5 300)\<lparr>rl_message := Some ''Too many sensitive operations, please try again later''\<rparr>"

section \<open>The guard\<close>

text \<open>\<^verbatim>\<open>Reflect.getMetadata\<close> looks at the class and then at the classes it extends.\<close>

fun getMetadata :: "string \<Rightarrow> string list \<Rightarrow> metadata \<Rightarrow> rate_config option" where
  "getMetadata key [] md = None"
| "getMetadata key (c # cs) md = (case map_of md (ClassTarget c, key) of Some x \<Rightarrow> Some x | None \<Rightarrow> getMetadata key cs md)"

definition getRateLimitConfig :: "metadata \<Rightarrow> string \<Rightarrow> string list \<Rightarrow> string \<Rightarrow> rate_config option" where
  "getRateLimitConfig md controller supers handler =
     (case getMetadata (config_key (controller @ ''.'' @ handler)) (controller # supers) md of
        Some x \<Rightarrow> Some x
      | None \<Rightarrow> getMetadata (config_key controller) (controller # supers) md)"

definition getDefaultKey :: "rate_request \<Rightarrow> string" where
  "getDefaultKey q = ''rate_limit:'' @ (if truthy_str (rq_ip q) then the (rq_ip q) else ''unknown'')"

type_synonym zset = "(string \<times> int) list"

text \<open>
  The guard reaches through the injected cache service for a property \<^verbatim>\<open>client\<close>, of whatever class the service is:
  \<open>rd_members\<close> are the names its object answers to. The rest is the Redis server behind that client.
\<close>

record rate_redis =
  rd_members :: "string list"
  rd_execOk :: bool
  rd_sets :: "(string, zset \<times> msec) jsmap"

definition rd_pipeline :: "rate_redis \<Rightarrow> bool" where
  "rd_pipeline R \<longleftrightarrow> ''client'' \<in> set (rd_members R)"

lemma rd_pipeline_sets [simp]: "rd_pipeline (R\<lparr>rd_sets := x\<rparr>) = rd_pipeline R"
  by (simp add: rd_pipeline_def)

text \<open>The two cache services there are, with their fields and methods.\<close>

datatype cache_service_class = MemoryCacheService | RedisCacheService

fun cache_members :: "cache_service_class \<Rightarrow> string list" where
  "cache_members MemoryCacheService =
     [''cache'', ''cleanupInterval'', ''defaultTtl'', ''keyPrefix'', ''maxEntries'', ''get'', ''set'', ''setIfNotExist'', ''delete'',
      ''exists'', ''clear'', ''mget'', ''mset'', ''mdelete'', ''incr'', ''decr'', ''ttl'', ''onModuleDestroy'', ''deleteByPattern'',
      ''getFullKey'', ''cleanup'', ''globToRegex'']"
| "cache_members RedisCacheService =
     [''redis'', ''keyPrefix'', ''defaultTtl'', ''logger'', ''isConnecting'', ''setupEventHandlers'', ''onModuleInit'', ''get'', ''set'',
      ''setIfNotExist'', ''delete'', ''exists'', ''deleteByPattern'', ''clear'', ''mget'', ''mset'', ''mdelete'', ''incr'', ''decr'', ''ttl'',
      ''expire'', ''getStats'', ''ping'', ''onModuleDestroy'', ''getFullKey'']"

record rate_result =
  rr_allowed :: bool
  rr_count :: int
  rr_resetTime :: msec

definition window_millis :: "rate_config \<Rightarrow> int" where
  "window_millis config = rl_windowMs config * 1000"

definition live_set :: "msec \<Rightarrow> string \<Rightarrow> (string, zset \<times> msec) jsmap \<Rightarrow> zset" where
  "live_set now key sets = (case map_of sets key of Some (z, deadline) \<Rightarrow> if now < deadline then z else [] | None \<Rightarrow> [])"

definition member_of :: "msec \<Rightarrow> string \<Rightarrow> string" where
  "member_of now nonce = js_int_str now @ ''-'' @ nonce"

definition checkDistributedRateLimit ::
  "msec \<Rightarrow> string \<Rightarrow> string \<Rightarrow> rate_config \<Rightarrow> rate_redis \<Rightarrow> (js_error + rate_result) \<times> rate_redis" where
  "checkDistributedRateLimit now nonce key config R =
     (if \<not> rd_pipeline R then (Inl (new_Error ''Redis pipeline not available''), R)
      else if \<not> rd_execOk R then (Inl (new_Error ''redis''), R)
      else
        let windowStart = now - window_millis config;
            kept = filter (\<lambda>(m, score). \<not> (0 \<le> score \<and> score \<le> windowStart)) (live_set now key (rd_sets R));
            added = AList.update (member_of now nonce) now kept;
            count = int (length added)
        in (Inr \<lparr>rr_allowed = count \<le> rl_limit config, rr_count = count, rr_resetTime = now + window_millis config\<rparr>,
            R\<lparr>rd_sets := AList.update key (added, now + window_millis config) (rd_sets R)\<rparr>))"

definition checkInMemoryRateLimit :: "msec \<Rightarrow> rate_config \<Rightarrow> rate_result" where
  "checkInMemoryRateLimit now config = \<lparr>rr_allowed = True, rr_count = 0, rr_resetTime = now + window_millis config\<rparr>"

definition checkRateLimit :: "msec \<Rightarrow> string \<Rightarrow> string \<Rightarrow> rate_config \<Rightarrow> rate_redis \<Rightarrow> rate_result \<times> rate_redis" where
  "checkRateLimit now nonce key config R = (case checkDistributedRateLimit now nonce key config R of
     (Inl _, R') \<Rightarrow> (checkInMemoryRateLimit now config, R') | (Inr r, R') \<Rightarrow> (r, R'))"

definition addRateLimitHeaders :: "msec \<Rightarrow> rate_result \<Rightarrow> rate_config \<Rightarrow> (string \<times> int) list" where
  "addRateLimitHeaders now result config =
     [(''X-RateLimit-Limit'', rl_limit config), (''X-RateLimit-Remaining'', max 0 (rl_limit config - rr_count result)),
      (''X-RateLimit-Reset'', ceil_div (rr_resetTime result) 1000),
      (''X-RateLimit-Reset-In'', max 0 (ceil_div (rr_resetTime result - now) 1000)),
      (''X-RateLimit-Window-MS'', rl_windowMs config), (''X-RateLimit-Count'', rr_count result)]"

definition RateLimitGuard ::
  "nest_lib \<Rightarrow> metadata \<Rightarrow> string \<Rightarrow> string list \<Rightarrow> string \<Rightarrow> msec \<Rightarrow> string \<Rightarrow> rate_request \<Rightarrow> rate_redis \<Rightarrow>
   (thrown + bool) \<times> (string \<times> int) list \<times> rate_redis" where
  "RateLimitGuard nest md controller supers handler now nonce q R =
     (case getRateLimitConfig md controller supers handler of
        None \<Rightarrow> (Inr True, [], R)
      | Some config \<Rightarrow>
          let key = (case rl_keyGenerator config of Some g \<Rightarrow> g q | None \<Rightarrow> getDefaultKey q);
              (result, R') = checkRateLimit now nonce key config R;
              headers = addRateLimitHeaders now result config
          in (if \<not> rr_allowed result
              then Inl (HttpException (nl_http nest ([(''statusCode'', JNum 429)] @ jopt ''message'' (map_option JStr (rl_message config)) @
                     [(''retryAfter'', JNum (ceil_div (rr_resetTime result) 1000))]) 429))
              else Inr True, headers, R'))"

section \<open>The window of a key\<close>

text \<open>A history of requests under one key: when each was made, with which random part, and whether it was allowed.\<close>

type_synonym attempt = "msec \<times> string"

fun rate_run :: "rate_config \<Rightarrow> string \<Rightarrow> attempt list \<Rightarrow> rate_redis \<Rightarrow> (attempt \<times> bool) list \<times> rate_redis" where
  "rate_run config key [] R = ([], R)"
| "rate_run config key ((now, nonce) # rest) R =
     (case checkRateLimit now nonce key config R of (result, R1) \<Rightarrow>
      case rate_run config key rest R1 of (flags, R2) \<Rightarrow> (((now, nonce), rr_allowed result) # flags, R2))"

lemma rate_run_append:
  "rate_run config key (xs @ ys) R =
     (case rate_run config key xs R of (flags, R1) \<Rightarrow> case rate_run config key ys R1 of (flags', R2) \<Rightarrow> (flags @ flags', R2))"
  by (induction config key xs R rule: rate_run.induct) (simp_all split: prod.splits)

text \<open>The set of the key has every attempt that a window ending now or later can still contain.\<close>

definition holds_window :: "rate_config \<Rightarrow> string \<Rightarrow> attempt list \<Rightarrow> rate_redis \<Rightarrow> bool" where
  "holds_window config key xs R \<longleftrightarrow> rd_pipeline R \<and> rd_execOk R \<and>
     (\<forall>now. \<forall>(t, n) \<in> set xs. (\<forall>(t', n') \<in> set xs. t' \<le> now) \<longrightarrow> now - window_millis config < t \<longrightarrow>
        (member_of t n, t) \<in> set (live_set now key (rd_sets R)))"

lemma update_keeps: "(k, v) \<in> set xs \<Longrightarrow> k \<noteq> i \<Longrightarrow> (k, v) \<in> set (AList.update i x xs)"
  by (induction xs) auto

lemma update_has: "(i, x) \<in> set (AList.update i x xs)"
  by (induction xs) auto

lemma check_step:
  assumes inv: "holds_window config key xs R" and "0 < rl_windowMs config"
    and late: "\<forall>(t, n) \<in> set xs. 0 \<le> t \<and> t \<le> now" and new: "member_of now nonce \<notin> (\<lambda>(t, n). member_of t n) ` set xs"
    and differ: "distinct (map (\<lambda>(t, n). member_of t n) xs)"
    and run: "checkRateLimit now nonce key config R = (result, R')"
  shows "holds_window config key (xs @ [(now, nonce)]) R'"
    and "int (length (filter (\<lambda>(t, n). now - window_millis config < t) xs)) + 1 \<le> rr_count result"
    and "rr_allowed result \<longleftrightarrow> rr_count result \<le> rl_limit config"
proof -
  let ?W = "window_millis config"
  let ?kept = "filter (\<lambda>(m, score). \<not> (0 \<le> score \<and> score \<le> now - ?W)) (live_set now key (rd_sets R))"
  let ?added = "AList.update (member_of now nonce) now ?kept"
  have W: "0 < ?W" using assms(2) by (simp add: window_millis_def)
  have ok: "rd_pipeline R" "rd_execOk R" using inv by (simp_all add: holds_window_def)
  then have r: "result = \<lparr>rr_allowed = int (length ?added) \<le> rl_limit config, rr_count = int (length ?added), rr_resetTime = now + ?W\<rparr>"
    and R': "R' = R\<lparr>rd_sets := AList.update key (?added, now + ?W) (rd_sets R)\<rparr>"
    using run by (simp_all add: checkRateLimit_def checkDistributedRateLimit_def Let_def)
  have had: "(member_of t n, t) \<in> set ?added" if "(t, n) \<in> set xs" "now - ?W < t" for t n
  proof -
    have "(member_of t n, t) \<in> set (live_set now key (rd_sets R))"
      using inv that late unfolding holds_window_def by blast
    with that new show ?thesis by (intro update_keeps) (auto simp: image_iff)
  qed
  have sets: "live_set u key (rd_sets R') = (if u < now + ?W then ?added else [])" for u
    by (simp add: live_set_def R' update_conv)
  show "holds_window config key (xs @ [(now, nonce)]) R'"
    unfolding holds_window_def sets
  proof (intro conjI allI ballI, goal_cases)
    case (3 u x)
    show ?case
    proof (cases x)
      case (Pair t n)
      have "now \<le> u \<longrightarrow> u - ?W < t \<longrightarrow> u < now + ?W \<and> (member_of t n, t) \<in> set ?added"
        using 3 Pair late W had [of t n] update_has [of "member_of now nonce" now ?kept] by fastforce
      with Pair show ?thesis by auto
    qed
  qed (simp_all add: R' ok)
  have "length (filter (\<lambda>(t, n). now - ?W < t) xs) + 1 \<le> length ?added"
  proof -
    let ?ys = "filter (\<lambda>(t, n). now - ?W < t) xs @ [(now, nonce)]"
    let ?zs = "map (\<lambda>(t, n). (member_of t n, t)) ?ys"
    have "set ?zs \<subseteq> set ?added"
      using had update_has [of "member_of now nonce" now ?kept] by auto
    moreover have "distinct ?zs"
    proof -
      have e: "map fst ?zs = map (\<lambda>(t, n). member_of t n) (filter (\<lambda>(t, n). now - ?W < t) xs) @ [member_of now nonce]"
        by (simp add: comp_def case_prod_unfold)
      have d: "distinct (map (\<lambda>(t, n). member_of t n) (filter (\<lambda>(t, n). now - ?W < t) xs))"
        using differ by (rule distinct_map_filter)
      have "distinct (map fst ?zs)" unfolding e distinct_append using d new by auto
      then show ?thesis unfolding distinct_map by (rule conjunct1)
    qed
    ultimately have "length ?zs \<le> card (set ?added)"
      using card_mono [of "set ?added" "set ?zs"] distinct_card [of ?zs] by simp
    also have "\<dots> \<le> length ?added" by (rule card_length)
    finally have "length ?zs \<le> length ?added" .
    then show ?thesis by simp
  qed
  then show "int (length (filter (\<lambda>(t, n). now - ?W < t) xs)) + 1 \<le> rr_count result" by (simp add: r)
  show "rr_allowed result \<longleftrightarrow> rr_count result \<le> rl_limit config" by (simp add: r)
qed

definition attempt_members :: "attempt list \<Rightarrow> string list" where
  "attempt_members xs = map (\<lambda>(t, n). member_of t n) xs"

definition allowed_in :: "msec \<Rightarrow> msec \<Rightarrow> (attempt \<times> bool) list \<Rightarrow> attempt list" where
  "allowed_in s e entries = map fst (filter (\<lambda>((t, n), ok). ok \<and> s < t \<and> t \<le> e) entries)"

lemma rate_run_attempts: "map fst (fst (rate_run config key xs R)) = xs"
  by (induction config key xs R rule: rate_run.induct) (auto split: prod.splits)

lemma allowed_some: "length (allowed_in s e entries) \<le> length (filter (\<lambda>(t, n). s < t) (map fst entries))"
  by (induction entries) (auto simp: allowed_in_def)

lemma window_bound:
  assumes "0 < rl_windowMs config" "holds_window config key [] R"
    and "sorted (map fst xs)" "\<forall>(t, n) \<in> set xs. 0 \<le> t" "distinct (attempt_members xs)"
  shows "holds_window config key xs (snd (rate_run config key xs R)) \<and>
    (\<forall>s. int (length (allowed_in s (s + window_millis config) (fst (rate_run config key xs R)))) \<le> max 0 (rl_limit config))"
  using assms(3-5)
proof (induction xs rule: rev_induct)
  case Nil
  then show ?case using assms(2) by (simp add: allowed_in_def)
next
  case (snoc x xs)
  obtain now nonce where x: "x = (now, nonce)" by fastforce
  obtain flags R1 where run1: "rate_run config key xs R = (flags, R1)" by fastforce
  obtain result R2 where step: "checkRateLimit now nonce key config R1 = (result, R2)" by fastforce
  have IH: "holds_window config key xs R1"
    "int (length (allowed_in s (s + window_millis config) flags)) \<le> max 0 (rl_limit config)" for s
    using snoc run1 by (auto simp: sorted_append attempt_members_def)
  have late: "\<forall>(t, n) \<in> set xs. 0 \<le> t \<and> t \<le> now" using snoc.prems x by (auto simp: sorted_append)
  have new: "member_of now nonce \<notin> (\<lambda>(t, n). member_of t n) ` set xs" "distinct (map (\<lambda>(t, n). member_of t n) xs)"
    using snoc.prems(3) x by (auto simp: attempt_members_def)
  note st = check_step [OF IH(1) assms(1) late new step]
  have run: "rate_run config key (xs @ [x]) R = (flags @ [(x, rr_allowed result)], R2)"
    by (simp add: rate_run_append run1 x step)
  have "int (length (allowed_in s (s + window_millis config) (flags @ [(x, rr_allowed result)]))) \<le> max 0 (rl_limit config)" for s
  proof (cases "rr_allowed result \<and> s < now \<and> now \<le> s + window_millis config")
    case True
    have "map fst flags = xs" using rate_run_attempts [of config key xs R] by (simp add: run1)
    then have "length (allowed_in s (s + window_millis config) flags) \<le> length (filter (\<lambda>(t, n). s < t) xs)"
      using allowed_some by metis
    also have "\<dots> \<le> length (filter (\<lambda>(t, n). now - window_millis config < t) xs)"
      using True by (induction xs) auto
    finally have "int (length (allowed_in s (s + window_millis config) flags)) + 1 \<le> rl_limit config"
      using st(2,3) True by simp
    with True x show ?thesis by (simp add: allowed_in_def)
  next
    case False
    with IH(2) [of s] x show ?thesis by (auto simp: allowed_in_def)
  qed
  with run st(1) x show ?case by simp
qed

text \<open>
  What the counting would do behind a service that has a client: however the requests under one key are spaced, and however
  often refused ones are repeated, no window of the configured length sees more than the configured number of
  allowed requests. No service of the repository has one (\<open>cache_members\<close>), so this bound is never in force.
\<close>

lemma sliding_window_bound:
  assumes "0 < rl_windowMs config" "rd_pipeline R" "rd_execOk R" "map_of (rd_sets R) key = None"
    and "sorted (map fst xs)" "\<forall>(t, n) \<in> set xs. 0 \<le> t" "distinct (attempt_members xs)"
  shows "int (length (allowed_in s (s + window_millis config) (fst (rate_run config key xs R)))) \<le> max 0 (rl_limit config)"
  using window_bound [OF assms(1) _ assms(5-7)] assms(2-4) by (simp add: holds_window_def)

section \<open>Limits that are never applied\<close>

text \<open>
  The decorator files a configuration under the name of the target's constructor, which for a class is
  \<^verbatim>\<open>Function\<close>, and files a method's configuration at the prototype; the guard looks under the name of the class,
  at the class.
\<close>

definition decorated :: "(rate_config \<times> meta_target \<times> string option) list \<Rightarrow> metadata" where
  "decorated ds = fold (\<lambda>(config, target, m). RateLimit config target m) ds []"

lemma class_keys:
  assumes "((ClassTarget c, k), v) \<in> set (decorated ds)"
  shows "k = config_key ''Function'' \<or> (\<exists>m. k = config_key (''Function.'' @ m))"
proof -
  have "((ClassTarget c, k), v) \<in> set (fold (\<lambda>(config, target, m). RateLimit config target m) ds md) \<Longrightarrow>
      (\<forall>v. ((ClassTarget c, k), v) \<in> set md \<longrightarrow> k = config_key ''Function'' \<or> (\<exists>m. k = config_key (''Function.'' @ m))) \<Longrightarrow>
      k = config_key ''Function'' \<or> (\<exists>m. k = config_key (''Function.'' @ m))" for md
  proof (induction ds arbitrary: md)
    case (Cons d ds)
    have upd: "(i, x) \<in> set (AList.update j y zs) \<Longrightarrow> i = j \<or> (i, x) \<in> set zs" for i j x y and zs :: metadata
      by (induction zs) (auto split: if_splits)
    show ?case
      by (rule Cons.IH [of "(\<lambda>(config, target, m). RateLimit config target m) d md"])
        (use Cons.prems in \<open>auto simp: RateLimit_def Let_def split: prod.splits if_splits dest!: upd\<close>)
  qed auto
  with assms show ?thesis by (auto simp: decorated_def)
qed

lemma getMetadata_Some: "getMetadata k cs md = Some v \<Longrightarrow> \<exists>c. ((ClassTarget c, k), v) \<in> set md"
  by (induction cs) (auto split: option.splits dest: map_of_SomeD)

lemma found_under_Function:
  assumes "getMetadata (config_key k) cs (decorated ds) = Some v"
  shows "takeWhile (\<lambda>c. c \<noteq> CHR ''.'') k = ''Function''"
proof -
  obtain c where "((ClassTarget c, config_key k), v) \<in> set (decorated ds)" using getMetadata_Some [OF assms] by blast
  from class_keys [OF this] have "k = ''Function'' \<or> (\<exists>m. k = ''Function.'' @ m)"
    unfolding config_key_def same_append_eq .
  then show ?thesis by auto
qed

lemma decorated_not_found:
  assumes "controller \<noteq> ''Function''" "CHR ''.'' \<notin> set controller"
  shows "RateLimitGuard nest (decorated ds) controller supers handler now nonce q R = (Inr True, [], R)"
proof -
  have dotless: "\<And>c. c \<in> set controller \<Longrightarrow> c \<noteq> CHR ''.''" using assms(2) by blast
  have name: "takeWhile (\<lambda>c. c \<noteq> CHR ''.'') controller = controller"
    "takeWhile (\<lambda>c. c \<noteq> CHR ''.'') (controller @ ''.'' @ handler) = controller"
    using dotless by (simp_all only: takeWhile_append2 takeWhile_eq_all_conv) simp_all
  have "getMetadata (config_key k) cs (decorated ds) = None" if "takeWhile (\<lambda>c. c \<noteq> CHR ''.'') k = controller" for k cs
    using found_under_Function [of k cs ds] that assms(1) by (cases "getMetadata (config_key k) cs (decorated ds)") simp_all
  with name show ?thesis by (simp only: RateLimitGuard_def getRateLimitConfig_def option.case)
qed

lemma no_cache_client: "''client'' \<notin> set (cache_members c)"
  by (cases c) simp_all

lemma unlimited_without_client:
  assumes "\<not> rd_pipeline R"
  shows "fst (RateLimitGuard nest md controller supers handler now nonce q R) = Inr True \<and>
    snd (snd (RateLimitGuard nest md controller supers handler now nonce q R)) = R"
  using assms by (simp add: RateLimitGuard_def checkRateLimit_def checkDistributedRateLimit_def checkInMemoryRateLimit_def Let_def
      split: option.split)

text \<open>
  C31. No rate limit is ever applied, for two independent reasons. Whatever limits are attached by the decorator to whatever classes and
  methods, the guard finds none of them on a controller whose class is not called Function: it lets every request
  through without setting a header. And whatever limits it were to find, with either cache service of the
  repository it refuses no request and counts none, since it looks for a client that neither has.
\<close>

theorem rate_limit_never_applied:
  "(controller \<noteq> ''Function'' \<and> CHR ''.'' \<notin> set controller \<longrightarrow>
      RateLimitGuard nest (decorated ds) controller supers handler now nonce q R = (Inr True, [], R)) \<and>
   (rd_members R = cache_members c \<longrightarrow>
      fst (RateLimitGuard nest md controller supers handler now nonce q R) = Inr True \<and>
      snd (snd (RateLimitGuard nest md controller supers handler now nonce q R)) = R)"
  using decorated_not_found unlimited_without_client [of R] no_cache_client [of c] by (auto simp: rd_pipeline_def)

section \<open>Concrete runs\<close>

text \<open>With a client, one request a minute: the second is refused.\<close>

definition demo_redis :: rate_redis where
  "demo_redis = \<lparr>rd_members = [''client''], rd_execOk = True, rd_sets = []\<rparr>"

definition demo_attempts :: "attempt list" where
  "demo_attempts = [(1000, ''a''), (2000, ''b'')]"

lemma demo_run: "map snd (fst (rate_run (RateLimitPerMinute 1) ''k'' demo_attempts demo_redis)) = [True, False]"
  by (simp add: demo_attempts_def demo_redis_def checkRateLimit_def checkDistributedRateLimit_def RateLimitPerMinute_def
      plain_config_def window_millis_def live_set_def Let_def member_of_def rd_pipeline_def)

text \<open>
  A controller with a limit of no request at all, behind the Redis service: the decorated limit is not found, and the
  same limit filed where the guard looks refuses nothing either.
\<close>

definition redis_service :: rate_redis where
  "redis_service = \<lparr>rd_members = cache_members RedisCacheService, rd_execOk = True, rd_sets = []\<rparr>"

theorem rate_limit_never_applied_witness:
  "\<forall>nest. RateLimitGuard nest (decorated [(RateLimitPerMinute 0, ClassTarget ''Billing'', None)]) ''Billing'' [] ''list'' 5 ''a''
     \<lparr>rq_ip = None, rq_userId = None, rq_xUserId = None\<rparr> redis_service = (Inr True, [], redis_service) \<and>
   getRateLimitConfig [((ClassTarget ''Billing'', config_key ''Billing''), RateLimitPerMinute 0)] ''Billing'' [] ''list'' = Some (RateLimitPerMinute 0) \<and>
   fst (RateLimitGuard nest [((ClassTarget ''Billing'', config_key ''Billing''), RateLimitPerMinute 0)] ''Billing'' [] ''list'' 5 ''a''
     \<lparr>rq_ip = None, rq_userId = None, rq_xUserId = None\<rparr> redis_service) = Inr True"
proof
  fix nest
  show "RateLimitGuard nest (decorated [(RateLimitPerMinute 0, ClassTarget ''Billing'', None)]) ''Billing'' [] ''list'' 5 ''a''
     \<lparr>rq_ip = None, rq_userId = None, rq_xUserId = None\<rparr> redis_service = (Inr True, [], redis_service) \<and>
   getRateLimitConfig [((ClassTarget ''Billing'', config_key ''Billing''), RateLimitPerMinute 0)] ''Billing'' [] ''list'' = Some (RateLimitPerMinute 0) \<and>
   fst (RateLimitGuard nest [((ClassTarget ''Billing'', config_key ''Billing''), RateLimitPerMinute 0)] ''Billing'' [] ''list'' 5 ''a''
     \<lparr>rq_ip = None, rq_userId = None, rq_xUserId = None\<rparr> redis_service) = Inr True"
    using rate_limit_never_applied [of "''Billing''" nest "[(RateLimitPerMinute 0, ClassTarget ''Billing'', None)]" "[]" "''list''" 5 "''a''"
      "\<lparr>rq_ip = None, rq_userId = None, rq_xUserId = None\<rparr>" redis_service RedisCacheService
      "[((ClassTarget ''Billing'', config_key ''Billing''), RateLimitPerMinute 0)]"]
  by (simp add: redis_service_def getRateLimitConfig_def config_key_def)
qed

end
