(* ===== verification/Redaction.thy ===== *)
theory Redaction
  imports Bff Retry
begin

text \<open>
  The audit log of src/libs/shared/security/audit-logger.interceptor.ts: what is recorded of a request, and the
  redaction of sensitive data. Lower-casing concerns ASCII letters.
\<close>

section \<open>Letter case\<close>

definition lower_char :: "char \<Rightarrow> char" where
  "lower_char c = (if 65 \<le> (of_char c :: nat) \<and> (of_char c :: nat) \<le> 90 then char_of (of_char c + 32 :: nat) else c)"

definition toLowerCase :: "string \<Rightarrow> string" where
  "toLowerCase = map lower_char"

section \<open>Redaction\<close>

definition REDACTED :: json where
  "REDACTED = JStr ''[REDACTED]''"

definition sensitive :: "string list \<Rightarrow> string \<Rightarrow> bool" where
  "sensitive sensitiveFields key = list_ex (\<lambda>field. str_includes (toLowerCase field) (toLowerCase key)) sensitiveFields"

fun redactFields :: "string list \<Rightarrow> json \<Rightarrow> json" where
  "redactFields fs (JArr xs) = JArr (map (redactFields fs) xs)"
| "redactFields fs (JObj ps) =
     JObj (map (\<lambda>p. (fst p, if sensitive fs (fst p) then REDACTED else redactFields fs (snd p))) ps)"
| "redactFields fs v = v"

definition defaultSensitiveFields :: "string list" where
  "defaultSensitiveFields = [''password'', ''token'', ''secret'', ''key'', ''apiKey'', ''accessToken'', ''refreshToken'',
     ''authorization'', ''cookie'']"

definition sanitizeData :: "json option \<Rightarrow> string list option \<Rightarrow> json option" where
  "sanitizeData data extra =
     (if \<not> opt_truthy data then data
      else Some (case the data of
        JArr xs \<Rightarrow> redactFields (defaultSensitiveFields @ js_nullish extra []) (the data)
      | JObj ps \<Rightarrow> redactFields (defaultSensitiveFields @ js_nullish extra []) (the data)
      | v \<Rightarrow> v))"

section \<open>What is recorded\<close>

record audit_config =
  al_action :: string
  al_resource :: "string option"
  al_logRequestBody :: "bool option"
  al_logResponseBody :: "bool option"
  al_redactFields :: "string list option"
  al_customFields :: "json option"

definition plain_audit :: "string \<Rightarrow> string \<Rightarrow> audit_config" where
  "plain_audit action resource = \<lparr>al_action = action, al_resource = Some resource, al_logRequestBody = None,
     al_logResponseBody = None, al_redactFields = None, al_customFields = None\<rparr>"

definition SensitiveOperation :: "string \<Rightarrow> json option \<Rightarrow> json option \<Rightarrow> audit_config" where
  "SensitiveOperation category security retention = (plain_audit (''sensitive.'' @ category) category)\<lparr>
     al_logRequestBody := Some True, al_logResponseBody := Some False,
     al_redactFields := Some [''password'', ''token'', ''secret'', ''key''],
     al_customFields := Some (JObj ([(''sensitivity'', JStr ''high''), (''category'', JStr category)] @
       jopt ''security'' security @ jopt ''retention'' retention))\<rparr>"

definition AuditLogCreation :: "string \<Rightarrow> audit_config" where
  "AuditLogCreation resource = (plain_audit (resource @ ''.created'') resource)\<lparr>al_logRequestBody := Some True\<rparr>"

definition AuditLogUpdate :: "string \<Rightarrow> audit_config" where
  "AuditLogUpdate resource = (plain_audit (resource @ ''.updated'') resource)\<lparr>al_logRequestBody := Some True\<rparr>"

definition AuditLogDeletion :: "string \<Rightarrow> audit_config" where
  "AuditLogDeletion resource = (plain_audit (resource @ ''.deleted'') resource)\<lparr>
     al_customFields := Some (JObj [(''irreversible'', JBool True)])\<rparr>"

definition AuditLogRead :: "string \<Rightarrow> audit_config" where
  "AuditLogRead resource = plain_audit (resource @ ''.read'') resource"

definition AuditLogSecurity :: "string \<Rightarrow> audit_config" where
  "AuditLogSecurity action = (plain_audit (''security.'' @ action) ''security'')\<lparr>
     al_customFields := Some (JObj [(''category'', JStr ''security'')])\<rparr>"

record audit_request =
  ah_user :: "json option"
  ah_ip :: "json option"
  ah_userAgent :: "json option"
  ah_method :: string
  ah_url :: string
  ah_query :: json
  ah_params :: "json option"
  ah_body :: "json option"

definition field_of :: "json option \<Rightarrow> string \<Rightarrow> json option" where
  "field_of v k = Option.bind v (json_get k)"

definition jor :: "json option \<Rightarrow> json option \<Rightarrow> json option" where
  "jor a b = (if opt_truthy a then a else b)"

definition logged_body :: "bool option \<Rightarrow> json option \<Rightarrow> audit_config \<Rightarrow> json option" where
  "logged_body wanted body config = (if wanted = Some True then sanitizeData body (al_redactFields config) else None)"

definition createAuditEntry :: "msec \<Rightarrow> request_context option \<Rightarrow> audit_request \<Rightarrow> audit_config \<Rightarrow> msec \<Rightarrow> json" where
  "createAuditEntry now ctx q config startTime = JObj
    [(''audit'', JObj ([(''action'', JStr (al_action config))] @ jopt ''resource'' (map_option JStr (al_resource config)) @
       [(''timestamp'', JStr (toISOString now))] @ jopt ''sessionId'' (map_option (JStr \<circ> rc_correlationId) ctx) @
       jopt ''requestId'' (map_option JStr (Option.bind ctx rc_causationId)))),
     (''user'', JObj (jopt ''id'' (field_of (ah_user q) ''id'') @ jopt ''email'' (field_of (ah_user q) ''email'') @
       jopt ''roles'' (field_of (ah_user q) ''roles'') @ jopt ''ip'' (ah_ip q) @ jopt ''userAgent'' (ah_userAgent q))),
     (''operation'', JObj [(''method'', JStr (ah_method q)), (''url'', JStr (ah_url q)),
       (''path'', JStr (takeWhile (\<lambda>c. c \<noteq> CHR ''?'') (ah_url q))), (''query'', ah_query q), (''startTime'', JNum startTime)]),
     (''data'', JObj (jopt ''requestBody'' (logged_body (al_logRequestBody config) (ah_body q) config) @
       jopt ''customFields'' (al_customFields config))),
     (''business'', JObj (jopt ''resource'' (map_option JStr (al_resource config)) @
       jopt ''resourceId'' (jor (field_of (ah_params q) ''id'') (field_of (ah_body q) ''id''))))]"

definition logAuditSuccess ::
  "msec \<Rightarrow> request_context option \<Rightarrow> audit_request \<Rightarrow> audit_config \<Rightarrow> json option \<Rightarrow> int \<Rightarrow> msec \<Rightarrow> json" where
  "logAuditSuccess now ctx q config responseData statusCode startTime = JObj
    [(''audit'', JObj ([(''action'', JStr (al_action config))] @ jopt ''resource'' (map_option JStr (al_resource config)) @
       [(''timestamp'', JStr (toISOString now)), (''status'', JStr ''success''), (''duration'', JNum (now - startTime))] @
       jopt ''sessionId'' (map_option (JStr \<circ> rc_correlationId) ctx))),
     (''user'', JObj (jopt ''id'' (field_of (ah_user q) ''id'') @ jopt ''email'' (field_of (ah_user q) ''email''))),
     (''operation'', JObj [(''method'', JStr (ah_method q)), (''url'', JStr (ah_url q)), (''statusCode'', JNum statusCode),
       (''duration'', JNum (now - startTime))]),
     (''data'', JObj (jopt ''responseBody'' (logged_body (al_logResponseBody config) responseData config) @
       jopt ''customFields'' (al_customFields config))),
     (''business'', JObj (jopt ''resource'' (map_option JStr (al_resource config)) @
       jopt ''resourceId'' (jor (field_of responseData ''id'') (field_of (ah_params q) ''id''))))]"

definition logAuditError ::
  "string option \<Rightarrow> msec \<Rightarrow> request_context option \<Rightarrow> audit_request \<Rightarrow> audit_config \<Rightarrow> js_error \<Rightarrow> msec \<Rightarrow> json" where
  "logAuditError stack now ctx q config error startTime = JObj
    [(''audit'', JObj ([(''action'', JStr (al_action config))] @ jopt ''resource'' (map_option JStr (al_resource config)) @
       [(''timestamp'', JStr (toISOString now)), (''status'', JStr ''failed''), (''duration'', JNum (now - startTime)),
        (''error'', JObj ([(''name'', JStr (err_name error)), (''message'', JStr (err_message error))] @
          jopt ''stack'' (map_option JStr stack)))] @
       jopt ''sessionId'' (map_option (JStr \<circ> rc_correlationId) ctx))),
     (''user'', JObj (jopt ''id'' (field_of (ah_user q) ''id'') @ jopt ''email'' (field_of (ah_user q) ''email''))),
     (''operation'', JObj [(''method'', JStr (ah_method q)), (''url'', JStr (ah_url q)), (''duration'', JNum (now - startTime))]),
     (''data'', JObj (jopt ''requestBody'' (logged_body (al_logRequestBody config) (ah_body q) config) @
       jopt ''customFields'' (al_customFields config)))]"

text \<open>
  The interceptor: the handler's outcome passes through unchanged, and two entries are logged around it. The
  configuration is the handler's or else the class's; \<open>stack\<close> is the error's stack on a development server.
\<close>

definition getAuditConfig :: "audit_config option \<Rightarrow> audit_config option \<Rightarrow> audit_config option" where
  "getAuditConfig onHandler onClass = (if onHandler = None then onClass else onHandler)"

definition audit_intercept ::
  "audit_config option \<Rightarrow> (js_error \<Rightarrow> string option) \<Rightarrow> msec \<Rightarrow> msec \<Rightarrow> request_context option \<Rightarrow> audit_request \<Rightarrow> int \<Rightarrow>
   js_error + json option \<Rightarrow> (js_error + json option) \<times> (string \<times> json) list" where
  "audit_intercept auditConfig stack t0 t1 ctx q statusCode outcome =
     (case auditConfig of
        None \<Rightarrow> (outcome, [])
      | Some config \<Rightarrow>
          (outcome,
           [(''AUDIT: '' @ al_action config @ '' - STARTED'', createAuditEntry t0 ctx q config t0),
            (case outcome of
               Inr data \<Rightarrow> (''AUDIT: '' @ al_action config @ '' - COMPLETED'', logAuditSuccess t1 ctx q config data statusCode t0)
             | Inl e \<Rightarrow> (''AUDIT: '' @ al_action config @ '' - FAILED'', logAuditError (stack e) t1 ctx q config e t0))]))"

section \<open>Exactly the sensitive values are hidden\<close>

text \<open>Data that differ in nothing but values under sensitive names, at any depth.\<close>

inductive same_public :: "string list \<Rightarrow> json \<Rightarrow> json \<Rightarrow> bool" for fs :: "string list" where
  leaf: "\<forall>xs. v \<noteq> JArr xs \<Longrightarrow> \<forall>ps. v \<noteq> JObj ps \<Longrightarrow> same_public fs v v"
| arr: "list_all2 (same_public fs) xs ys \<Longrightarrow> same_public fs (JArr xs) (JArr ys)"
| obj: "list_all2 (\<lambda>p q. fst p = fst q \<and> (sensitive fs (fst p) \<or> same_public fs (snd p) (snd q))) ps qs \<Longrightarrow>
    same_public fs (JObj ps) (JObj qs)"

inductive_simps same_public_simps:
  "same_public fs (JArr xs) v" "same_public fs (JObj ps) v" "same_public fs JNull v" "same_public fs (JBool b) v"
  "same_public fs (JNum n) v" "same_public fs (JStr s) v"

lemma redact_shape:
  "redactFields fs v = JArr ys \<longleftrightarrow> (\<exists>xs. v = JArr xs \<and> ys = map (redactFields fs) xs)"
  "redactFields fs v = JObj qs \<longleftrightarrow> (\<exists>ps. v = JObj ps \<and>
     qs = map (\<lambda>p. (fst p, if sensitive fs (fst p) then REDACTED else redactFields fs (snd p))) ps)"
  "redactFields fs v = JNull \<longleftrightarrow> v = JNull" "redactFields fs v = JBool b \<longleftrightarrow> v = JBool b"
  "redactFields fs v = JNum n \<longleftrightarrow> v = JNum n" "redactFields fs v = JStr s \<longleftrightarrow> v = JStr s"
  by (cases v; auto)+

lemma map_eq_list_all2:
  "\<forall>x\<in>set xs. \<forall>y. (f x = g y) = P x y \<Longrightarrow> map f xs = map g ys \<longleftrightarrow> list_all2 P xs ys"
proof (induction xs arbitrary: ys)
  case (Cons x xs)
  then show ?case by (cases ys) simp_all
qed simp

lemma redact_eq_iff: "redactFields fs a = redactFields fs b \<longleftrightarrow> same_public fs a b"
proof (induction a arbitrary: b)
  case (JArr xs)
  then have "map (redactFields fs) xs = map (redactFields fs) ys \<longleftrightarrow> list_all2 (same_public fs) xs ys" for ys
    by (intro map_eq_list_all2) blast
  then show ?case by (cases b) (auto simp: same_public_simps)
next
  case (JObj ps)
  have entry: "redactFields fs (snd p) = redactFields fs v \<longleftrightarrow> same_public fs (snd p) v" if "p \<in> set ps" for p v
    using JObj that by (cases p) simp
  have "map (\<lambda>p. (fst p, if sensitive fs (fst p) then REDACTED else redactFields fs (snd p))) ps =
      map (\<lambda>p. (fst p, if sensitive fs (fst p) then REDACTED else redactFields fs (snd p))) qs \<longleftrightarrow>
      list_all2 (\<lambda>p q. fst p = fst q \<and> (sensitive fs (fst p) \<or> same_public fs (snd p) (snd q))) ps qs" for qs
    by (intro map_eq_list_all2) (auto simp: entry)
  then show ?case by (cases b) (auto simp: same_public_simps)
qed (auto simp: same_public_simps redact_shape eq_commute [of _ "redactFields fs _"])

text \<open>
  C33. The audit log hides exactly what is sensitive. Two bodies or answers leave the same data in the log if and only
  if they agree except in the values of properties whose name contains, in any case, one of the default words or one of the
  configured fields, wherever these properties are: nothing of such a value is logged, and everything else is.
\<close>

theorem audit_redaction_exact:
  assumes "opt_truthy (Some a)" "opt_truthy (Some b)"
  shows "sanitizeData (Some a) extra = sanitizeData (Some b) extra \<longleftrightarrow>
     same_public (defaultSensitiveFields @ js_nullish extra []) a b"
proof -
  have "sanitizeData (Some v) extra = Some (redactFields (defaultSensitiveFields @ js_nullish extra []) v)" if "opt_truthy (Some v)" for v
    using that by (cases v) (simp_all add: sanitizeData_def)
  with assms(1,2) show ?thesis by (simp add: redact_eq_iff)
qed

text \<open>Two logins of one user with different passwords.\<close>

theorem audit_redaction_exact_witness:
  "sanitizeData (Some (JObj [(''userName'', JStr ''an''), (''newPassword'', JStr ''a'')])) None =
   sanitizeData (Some (JObj [(''userName'', JStr ''an''), (''newPassword'', JStr ''b'')])) None \<and>
   sanitizeData (Some (JObj [(''userName'', JStr ''an''), (''pin'', JStr ''1'')])) None \<noteq>
   sanitizeData (Some (JObj [(''userName'', JStr ''an''), (''pin'', JStr ''2'')])) None"
proof -
  have s: "sensitive defaultSensitiveFields ''newPassword''"
      "\<not> sensitive defaultSensitiveFields ''pin''"
    by code_simp+
  show ?thesis
    by (subst (1 2) audit_redaction_exact) (simp_all add: same_public_simps s opt_truthy_def)
qed

end
