(* ===== verification/Access.thy ===== *)
theory Access
  imports Auth Redaction
begin

text \<open>
  The authorization decorators and guards of src/libs/shared/security/authorization.decorator.ts: roles, permissions,
  resource access, and their combination. \<^verbatim>\<open>getAllAndOverride\<close> gives the metadata of the handler or of its class;
  here a guard gets what it found. The exceptions of the framework come from \<open>nest_lib\<close>.
\<close>

datatype role = RoleAdmin | RoleManager | RoleUser | RoleGuest
datatype resource_access = RCreate | RRead | RUpdate | RDelete | RList

fun role_str :: "role \<Rightarrow> string" where
  "role_str RoleAdmin = ''admin''" | "role_str RoleManager = ''manager''" | "role_str RoleUser = ''user''" | "role_str RoleGuest = ''guest''"

fun access_str :: "resource_access \<Rightarrow> string" where
  "access_str RCreate = ''create''" | "access_str RRead = ''read''" | "access_str RUpdate = ''update''"
| "access_str RDelete = ''delete''" | "access_str RList = ''list''"

record access_user =
  au_id :: "json option"
  au_roles :: "string list option"
  au_role :: "string option"
  au_permissions :: "string list option"

record access_request =
  aq_user :: "access_user option"
  aq_params :: "json option"
  aq_body :: "json option"

record resource_metadata =
  rm_resource :: string
  rm_access :: "resource_access list"
  rm_condition :: "string option"
  rm_ownerField :: "string option"

definition forbidden :: "nest_lib \<Rightarrow> string \<Rightarrow> thrown" where
  "forbidden nest msg = HttpException (nl_forbidden nest (Inl msg))"

definition or_none :: "string list option \<Rightarrow> string" where
  "or_none xs = (case xs of None \<Rightarrow> ''none'' | Some ys \<Rightarrow> (let s = join '', '' ys in if s = [] then ''none'' else s))"

section \<open>Roles\<close>



definition RequireResource :: "string \<Rightarrow> resource_access list \<Rightarrow> string option \<Rightarrow> string option \<Rightarrow> resource_metadata option" where
  "RequireResource resource access condition ownerField =
     Some \<lparr>rm_resource = resource, rm_access = access, rm_condition = condition,
           rm_ownerField = Some (if truthy_str ownerField then the ownerField else ''ownerId'')\<rparr>"

definition has_role :: "access_user \<Rightarrow> role \<Rightarrow> bool" where
  "has_role u r = ((case au_roles u of None \<Rightarrow> False | Some rs \<Rightarrow> role_str r \<in> set rs) \<or> au_role u = Some (role_str r))"

definition RolesGuard :: "nest_lib \<Rightarrow> role list option \<Rightarrow> access_request \<Rightarrow> thrown + bool" where
  "RolesGuard nest requiredRoles q = (case requiredRoles of
     None \<Rightarrow> Inr True
   | Some roles \<Rightarrow> (case aq_user q of
       None \<Rightarrow> Inl (forbidden nest ''User not authenticated'')
     | Some u \<Rightarrow>
         if list_ex (has_role u) roles then Inr True
         else Inl (forbidden nest (''Required roles: '' @ join '', '' (map role_str roles) @ ''. User roles: '' @ or_none (au_roles u)))))"

section \<open>Permissions\<close>

definition role_permissions :: "string \<Rightarrow> string list" where
  "role_permissions r =
     (if r = ''admin'' then [''*:*'']
      else if r = ''manager'' then [''product:read'', ''product:create'', ''product:update'', ''order:read'', ''order:update'', ''user:read'']
      else if r = ''user'' then [''product:read'', ''order:create'', ''order:read'', ''order:update'']
      else if r = ''guest'' then [''product:read''] else [])"

definition derivePermissionsFromRoles :: "string list \<Rightarrow> string list" where
  "derivePermissionsFromRoles roles = concat (map role_permissions roles)"

definition hasPermission :: "string list \<Rightarrow> string \<Rightarrow> bool" where
  "hasPermission userPermissions required =
     (''*:*'' \<in> set userPermissions \<or> required \<in> set userPermissions \<or>
      takeWhile (\<lambda>c. c \<noteq> CHR '':'') required @ '':*'' \<in> set userPermissions)"

definition user_permissions :: "access_user \<Rightarrow> string list" where
  "user_permissions u = (case au_permissions u of Some ps \<Rightarrow> ps | None \<Rightarrow> derivePermissionsFromRoles (js_nullish (au_roles u) []))"

definition PermissionsGuard :: "nest_lib \<Rightarrow> string list option \<Rightarrow> access_request \<Rightarrow> thrown + bool" where
  "PermissionsGuard nest requiredPermissions q = (case requiredPermissions of
     None \<Rightarrow> Inr True
   | Some ps \<Rightarrow> (case aq_user q of
       None \<Rightarrow> Inl (forbidden nest ''User not authenticated'')
     | Some u \<Rightarrow>
         if list_all (hasPermission (user_permissions u)) ps then Inr True
         else Inl (forbidden nest (''Required permissions: '' @ join '', '' ps @ ''. User permissions: '' @ or_none (Some (user_permissions u))))))"

section \<open>Resources\<close>

definition is_admin :: "access_user \<Rightarrow> bool" where
  "is_admin u = (case au_roles u of None \<Rightarrow> False | Some rs \<Rightarrow> ''admin'' \<in> set rs)"

definition resource_permission :: "access_user \<Rightarrow> string \<Rightarrow> bool" where
  "resource_permission u p = (let ps = js_nullish (au_permissions u) [] in ''*:*'' \<in> set ps \<or> p \<in> set ps)"

definition checkResourceOwnership :: "access_user \<Rightarrow> json option \<Rightarrow> string option \<Rightarrow> bool" where
  "checkResourceOwnership u resourceId ownerField = True"

text \<open>\<^verbatim>\<open>===\<close> between the user's id and a value of the request: objects and arrays are never identical.\<close>

definition checkUserIdMatch :: "access_user \<Rightarrow> access_request \<Rightarrow> bool" where
  "checkUserIdMatch u q =
     (let i = jor (field_of (aq_body q) ''userId'') (field_of (aq_params q) ''userId'')
      in au_id u = i \<and> (case i of Some (JObj _) \<Rightarrow> False | Some (JArr _) \<Rightarrow> False | _ \<Rightarrow> True))"

definition evaluateCondition :: "string \<Rightarrow> access_user \<Rightarrow> access_request \<Rightarrow> string option \<Rightarrow> bool" where
  "evaluateCondition condition u q ownerField =
     (if str_includes ''resource.ownerId'' condition
      then checkResourceOwnership u (jor (field_of (aq_params q) ''id'') (field_of (aq_body q) ''id'')) ownerField
      else if str_includes (''user.roles.includes('' @ [CHR 0x27] @ ''admin'' @ [CHR 0x27] @ '')'') condition then is_admin u
      else if str_includes ''user.id =='' condition then checkUserIdMatch u q
      else True)"

definition checkResourceAccess :: "access_user \<Rightarrow> resource_metadata \<Rightarrow> access_request \<Rightarrow> bool" where
  "checkResourceAccess u m q =
     (if is_admin u then True
      else if \<not> list_all (\<lambda>a. resource_permission u (rm_resource m @ '':'' @ access_str a)) (rm_access m) then False
      else if truthy_str (rm_condition m) then evaluateCondition (the (rm_condition m)) u q (rm_ownerField m)
      else True)"

definition ResourceGuard :: "nest_lib \<Rightarrow> resource_metadata option \<Rightarrow> access_request \<Rightarrow> thrown + bool" where
  "ResourceGuard nest resourceAccess q = (case resourceAccess of
     None \<Rightarrow> Inr True
   | Some m \<Rightarrow> (case aq_user q of
       None \<Rightarrow> Inl (forbidden nest ''User not authenticated'')
     | Some u \<Rightarrow>
         if checkResourceAccess u m q then Inr True
         else Inl (forbidden nest (''Insufficient access to '' @ rm_resource m @ '':'' @ join '','' (map access_str (rm_access m))))))"

section \<open>The combined decorator\<close>



section \<open>What the guards decide\<close>






















lemma guards_answer_True:
  "RolesGuard nest rs q \<noteq> Inr False" "PermissionsGuard nest ps q \<noteq> Inr False" "ResourceGuard nest m q \<noteq> Inr False"
  by (auto simp: RolesGuard_def PermissionsGuard_def ResourceGuard_def split: option.splits)











text \<open>Permissions that come from a role count for the permissions guard but not for the resource guard.\<close>

lemma role_permissions_ignored:
  assumes "au_permissions u = None" "\<not> is_admin u" "access \<noteq> []" "aq_user q = Some u"
  shows "\<not> (\<exists>b. ResourceGuard nest (RequireResource name access c None) q = Inr b)"
  using assms by (auto simp: ResourceGuard_def RequireResource_def checkResourceAccess_def resource_permission_def Let_def
      js_nullish_def neq_Nil_conv split: option.split)

end
