(* ===== verification/Redis_Cache.thy ===== *)
theory Redis_Cache
  imports Port_Services Json_Parse
begin

text \<open>
  The cache port over Redis (src/libs/shared/caching/redis-cache.service.ts). The server and the client library
  are arguments: \<open>redis_client\<close> has one command per method of the client that the service calls, each taking the
  time and the state of the server. \<open>enc\<close> and \<open>dec\<close> say which JSON value stands for a value of the caller's type.
\<close>

section \<open>The client\<close>

datatype multi_command = MSetEx string int string | MSet string string

type_synonym ('s, 'a) command = "('s, js_error, 'a) async"

record 's redis_client =
  rd_get :: "msec \<Rightarrow> string \<Rightarrow> ('s, string option) command"
  rd_set :: "msec \<Rightarrow> string \<Rightarrow> string \<Rightarrow> ('s, unit) command"
  rd_setEx :: "msec \<Rightarrow> string \<Rightarrow> int \<Rightarrow> string \<Rightarrow> ('s, unit) command"
  rd_setNX :: "msec \<Rightarrow> string \<Rightarrow> int \<Rightarrow> string \<Rightarrow> ('s, string option) command"  \<comment> \<open>\<^verbatim>\<open>SET key value EX n NX\<close>\<close>
  rd_del :: "string list \<Rightarrow> ('s, unit) command"
  rd_exists :: "msec \<Rightarrow> string \<Rightarrow> ('s, int) command"
  rd_keys :: "string \<Rightarrow> ('s, string list) command"
  rd_flushDb :: "('s, unit) command"
  rd_mGet :: "msec \<Rightarrow> string list \<Rightarrow> ('s, string option list) command"
  rd_exec :: "msec \<Rightarrow> multi_command list \<Rightarrow> ('s, unit) command"
  rd_incrBy :: "msec \<Rightarrow> string \<Rightarrow> int \<Rightarrow> ('s, int) command"
  rd_decrBy :: "msec \<Rightarrow> string \<Rightarrow> int \<Rightarrow> ('s, int) command"
  rd_ttl :: "msec \<Rightarrow> string \<Rightarrow> ('s, int) command"
  rd_expire :: "msec \<Rightarrow> string \<Rightarrow> int \<Rightarrow> ('s, unit) command"
  rd_info :: "('s, string) command"
  rd_dbSize :: "('s, int) command"
  rd_ping :: "('s, string) command"
  rd_connect :: "('s, unit) command"
  rd_quit :: "('s, unit) command"
  rd_isOpen :: "'s \<Rightarrow> bool"
  rd_isReady :: "'s \<Rightarrow> bool"

section \<open>Construction and connection\<close>

record redis_options =
  ro_host :: string
  ro_port :: int
  ro_password :: "string option"
  ro_db :: "int option"
  ro_keyPrefix :: "string option"

record redis_config =
  rg_host :: string
  rg_port :: int
  rg_password :: "string option"
  rg_database :: int

record redis_cache =
  rs_keyPrefix :: string
  rs_defaultTtl :: int
  rs_isConnecting :: bool

definition redis_new :: "cache_options \<Rightarrow> redis_options option \<Rightarrow> js_error + redis_cache \<times> redis_config" where
  "redis_new opts redis = (case redis of
     None \<Rightarrow> Inl (new_Error ''Redis configuration is required'')
   | Some r \<Rightarrow> Inr
       (\<lparr>rs_keyPrefix = js_or_str (ro_keyPrefix r) (js_or_str (co_keyPrefix opts) []),
         rs_defaultTtl = js_or_num (co_defaultTtl opts) 300, rs_isConnecting = False\<rparr>,
        \<lparr>rg_host = ro_host r, rg_port = ro_port r, rg_password = ro_password r, rg_database = js_or_num (ro_db r) 0\<rparr>))"

text \<open>How long to wait before the next attempt to connect, in milliseconds, or that there is none.\<close>

definition reconnectStrategy :: "int \<Rightarrow> js_error + int" where
  "reconnectStrategy retries =
     (if retries > 10 then Inl (new_Error ''Redis reconnection failed'') else Inr (min (retries * 100) 3000))"

datatype redis_event = OnConnect | OnReady | OnError string | OnEnd | OnReconnecting

definition redis_on :: "redis_event \<Rightarrow> redis_cache \<Rightarrow> redis_cache" where
  "redis_on ev c = (case ev of
     OnConnect \<Rightarrow> c\<lparr>rs_isConnecting := True\<rparr> | OnReady \<Rightarrow> c\<lparr>rs_isConnecting := False\<rparr> | _ \<Rightarrow> c)"

definition redis_onModuleInit :: "'s redis_client \<Rightarrow> redis_cache \<Rightarrow> ('s, unit) command" where
  "redis_onModuleInit R c = bnd (reads (rd_isOpen R)) (\<lambda>isOpen.
     if \<not> isOpen \<and> \<not> rs_isConnecting c then rd_connect R else ret ())"

text \<open>Most operations log a failed command and go on with a default.\<close>

definition or_else :: "('s, 'a) command \<Rightarrow> 'a \<Rightarrow> 's \<Rightarrow> 'a \<times> 's" where
  "or_else m d s = (case m s of (Inl e, s') \<Rightarrow> (d, s') | (Inr x, s') \<Rightarrow> (x, s'))"

definition redis_onModuleDestroy :: "'s redis_client \<Rightarrow> 's \<Rightarrow> 's" where
  "redis_onModuleDestroy R s = snd (or_else (bnd (reads (rd_isOpen R)) (\<lambda>isOpen. if isOpen then rd_quit R else ret ())) () s)"

section \<open>Operations\<close>

definition redis_getFullKey :: "redis_cache \<Rightarrow> string \<Rightarrow> string" where
  "redis_getFullKey c key = (if rs_keyPrefix c \<noteq> [] then rs_keyPrefix c @ '':'' @ key else key)"

definition decode :: "(json \<Rightarrow> 'v) \<Rightarrow> string option \<Rightarrow> js_error + 'v option" where
  "decode dec value = (case value of
     None \<Rightarrow> Inr None
   | Some s \<Rightarrow> if s = [] then Inr None else (case json_parse s of Inl e \<Rightarrow> Inl e | Inr j \<Rightarrow> Inr (Some (dec j))))"

definition settled :: "'e + 'a \<Rightarrow> ('s, 'e, 'a) async" where
  "settled r s = (r, s)"

definition redis_get :: "'s redis_client \<Rightarrow> redis_cache \<Rightarrow> (json \<Rightarrow> 'v) \<Rightarrow> msec \<Rightarrow> string \<Rightarrow> 's \<Rightarrow> 'v option \<times> 's" where
  "redis_get R c dec now key =
     or_else (bnd (rd_get R now (redis_getFullKey c key)) (\<lambda>value. settled (decode dec value))) None"

definition redis_set ::
  "'s redis_client \<Rightarrow> redis_cache \<Rightarrow> ('v \<Rightarrow> json) \<Rightarrow> msec \<Rightarrow> string \<Rightarrow> 'v \<Rightarrow> int option \<Rightarrow> ('s, unit) command" where
  "redis_set R c enc now key value ttl =
     (let fullKey = redis_getFullKey c key; serializedValue = stringify (enc value); expiry = js_nullish ttl (rs_defaultTtl c)
      in if expiry > 0 then rd_setEx R now fullKey expiry serializedValue else rd_set R now fullKey serializedValue)"

definition redis_setIfNotExist ::
  "'s redis_client \<Rightarrow> redis_cache \<Rightarrow> ('v \<Rightarrow> json) \<Rightarrow> msec \<Rightarrow> string \<Rightarrow> 'v \<Rightarrow> int option \<Rightarrow> 's \<Rightarrow> bool \<times> 's" where
  "redis_setIfNotExist R c enc now key value ttl =
     or_else (bnd (rd_setNX R now (redis_getFullKey c key) (js_nullish ttl (rs_defaultTtl c)) (stringify (enc value)))
       (\<lambda>result. ret (result = Some ''OK''))) False"

definition redis_delete :: "'s redis_client \<Rightarrow> redis_cache \<Rightarrow> string \<Rightarrow> 's \<Rightarrow> 's" where
  "redis_delete R c key s = snd (or_else (rd_del R [redis_getFullKey c key]) () s)"

definition redis_exists :: "'s redis_client \<Rightarrow> redis_cache \<Rightarrow> msec \<Rightarrow> string \<Rightarrow> 's \<Rightarrow> bool \<times> 's" where
  "redis_exists R c now key = or_else (bnd (rd_exists R now (redis_getFullKey c key)) (\<lambda>result. ret (result > 0))) False"

definition redis_deleteByPattern :: "'s redis_client \<Rightarrow> redis_cache \<Rightarrow> string \<Rightarrow> ('s, nat) command" where
  "redis_deleteByPattern R c pattern = bnd (rd_keys R (redis_getFullKey c pattern)) (\<lambda>keys.
     if keys = [] then ret 0 else seq (rd_del R keys) (ret (length keys)))"

definition redis_clear :: "'s redis_client \<Rightarrow> redis_cache \<Rightarrow> ('s, unit) command" where
  "redis_clear R c =
     (if rs_keyPrefix c \<noteq> []
      then bnd (rd_keys R (rs_keyPrefix c @ '':*'')) (\<lambda>keys. if keys \<noteq> [] then rd_del R keys else ret ())
      else rd_flushDb R)"

text \<open>\<^verbatim>\<open>mget\<close>: one value that does not parse makes all of them null.\<close>

fun all_parsed :: "('e + 'a) list \<Rightarrow> 'e + 'a list" where
  "all_parsed [] = Inr []"
| "all_parsed (r # rs) = (case r of Inl e \<Rightarrow> Inl e | Inr x \<Rightarrow> map_sum id ((#) x) (all_parsed rs))"

definition redis_mget :: "'s redis_client \<Rightarrow> redis_cache \<Rightarrow> (json \<Rightarrow> 'v) \<Rightarrow> msec \<Rightarrow> string list \<Rightarrow> 's \<Rightarrow> 'v option list \<times> 's" where
  "redis_mget R c dec now keys s =
     (if keys = [] then ([], s)
      else or_else (bnd (rd_mGet R now (map (redis_getFullKey c) keys)) (\<lambda>values. settled (all_parsed (map (decode dec) values))))
             (replicate (length keys) None) s)"

definition redis_mset ::
  "'s redis_client \<Rightarrow> redis_cache \<Rightarrow> ('v \<Rightarrow> json) \<Rightarrow> msec \<Rightarrow> (string \<times> 'v \<times> int option) list \<Rightarrow> ('s, unit) command" where
  "redis_mset R c enc now entries =
     (if entries = [] then ret ()
      else rd_exec R now (map (\<lambda>(key, value, ttl).
        let fullKey = redis_getFullKey c key; expiry = js_nullish ttl (rs_defaultTtl c)
        in if expiry > 0 then MSetEx fullKey expiry (stringify (enc value)) else MSet fullKey (stringify (enc value))) entries))"

definition redis_mdelete :: "'s redis_client \<Rightarrow> redis_cache \<Rightarrow> string list \<Rightarrow> 's \<Rightarrow> 's" where
  "redis_mdelete R c keys s = (if keys = [] then s else snd (or_else (rd_del R (map (redis_getFullKey c) keys)) () s))"

definition redis_incr :: "'s redis_client \<Rightarrow> redis_cache \<Rightarrow> msec \<Rightarrow> string \<Rightarrow> int \<Rightarrow> 's \<Rightarrow> int \<times> 's" where
  "redis_incr R c now key amount = or_else (rd_incrBy R now (redis_getFullKey c key) amount) 0"

definition redis_decr :: "'s redis_client \<Rightarrow> redis_cache \<Rightarrow> msec \<Rightarrow> string \<Rightarrow> int \<Rightarrow> 's \<Rightarrow> int \<times> 's" where
  "redis_decr R c now key amount = or_else (rd_decrBy R now (redis_getFullKey c key) amount) 0"

definition redis_ttl :: "'s redis_client \<Rightarrow> redis_cache \<Rightarrow> msec \<Rightarrow> string \<Rightarrow> 's \<Rightarrow> int \<times> 's" where
  "redis_ttl R c now key = or_else (rd_ttl R now (redis_getFullKey c key)) (- 1)"

definition redis_expire :: "'s redis_client \<Rightarrow> redis_cache \<Rightarrow> msec \<Rightarrow> string \<Rightarrow> int \<Rightarrow> 's \<Rightarrow> bool \<times> 's" where
  "redis_expire R c now key seconds = or_else (seq (rd_expire R now (redis_getFullKey c key) seconds) (ret True)) False"

definition redis_getStats :: "'s redis_client \<Rightarrow> redis_cache \<Rightarrow> 's \<Rightarrow> (bool \<times> int \<times> string option) \<times> 's" where
  "redis_getStats R c = or_else (bnd (rd_info R) (\<lambda>info.
     bnd (if rs_keyPrefix c \<noteq> []
          then bnd (rd_keys R (rs_keyPrefix c @ '':*'')) (\<lambda>keys. ret (int (length keys)))
          else rd_dbSize R) (\<lambda>keyCount.
     bnd (reads (rd_isReady R)) (\<lambda>connected. ret (connected, keyCount, Some info))))) (False, 0, None)"

definition redis_ping :: "'s redis_client \<Rightarrow> 's \<Rightarrow> bool \<times> 's" where
  "redis_ping R = or_else (bnd (rd_ping R) (\<lambda>result. ret (result = ''PONG''))) False"

text \<open>The service behind the cache port; a rejected promise is what the port's clients see of a rethrown error.\<close>

definition redis_cache_service ::
  "'s redis_client \<Rightarrow> redis_cache \<Rightarrow> ('v \<Rightarrow> json) \<Rightarrow> (json \<Rightarrow> 'v) \<Rightarrow> ('s, 'v) ICacheService" where
  "redis_cache_service R c enc dec =
     \<lparr>ic_get = redis_get R c dec,
      ic_set = (\<lambda>now k v ttl s. case redis_set R c enc now k v ttl s of (r, s') \<Rightarrow> (r = Inr (), s')),
      ic_setIfNotExist = redis_setIfNotExist R c enc,
      ic_delete = redis_delete R c,
      ic_ttl = (\<lambda>now k s. fst (redis_ttl R c now k s)),
      ic_deleteByPattern = (\<lambda>p s. case redis_deleteByPattern R c p s of
        (Inl e, s') \<Rightarrow> (None, s') | (Inr n, s') \<Rightarrow> (Some n, s'))\<rparr>"

section \<open>The contract of the port\<close>

text \<open>
  What the service relies on of a reachable server, per the documentation of the commands: \<open>val t s k\<close> is the string
  that key \<open>k\<close> holds at time \<open>t\<close>. \<^verbatim>\<open>GET\<close> reads it, \<^verbatim>\<open>SET\<close> and \<^verbatim>\<open>SETEX\<close> replace it, the latter
  until its time is over, \<^verbatim>\<open>DEL\<close> removes it, and each leaves every other key alone.
\<close>

definition redis_laws :: "'s redis_client \<Rightarrow> (msec \<Rightarrow> 's \<Rightarrow> string \<Rightarrow> string option) \<Rightarrow> bool" where
  "redis_laws R val \<longleftrightarrow>
     (\<forall>t k s. \<exists>s'. rd_get R t k s = (Inr (val t s k), s') \<and> (\<forall>t' k'. t \<le> t' \<longrightarrow> val t' s' k' = val t' s k')) \<and>
     (\<forall>t k v s. \<exists>s'. rd_set R t k v s = (Inr (), s') \<and> (\<forall>t' k'. val t' s' k' = (if k' = k then Some v else val t' s k'))) \<and>
     (\<forall>t k ttl v s. 0 < ttl \<longrightarrow> (\<exists>s'. rd_setEx R t k ttl v s = (Inr (), s') \<and> (\<forall>t' k'. val t' s' k' =
        (if k' = k then if t' \<le> t + ttl * 1000 then Some v else None else val t' s k')))) \<and>
     (\<forall>ks s. \<exists>s'. rd_del R ks s = (Inr (), s') \<and> (\<forall>t' k'. val t' s' k' = (if k' \<in> set ks then None else val t' s k')))"

lemma redis_lawsD:
  assumes "redis_laws R val"
  shows "\<exists>s'. rd_get R t k s = (Inr (val t s k), s') \<and> (\<forall>t' k'. t \<le> t' \<longrightarrow> val t' s' k' = val t' s k')"
    and "\<exists>s'. rd_set R t k v s = (Inr (), s') \<and> (\<forall>t' k'. val t' s' k' = (if k' = k then Some v else val t' s k'))"
    and "0 < ttl \<Longrightarrow> \<exists>s'. rd_setEx R t k ttl v s = (Inr (), s') \<and> (\<forall>t' k'. val t' s' k' =
        (if k' = k then if t' \<le> t + ttl * 1000 then Some v else None else val t' s k'))"
    and "\<exists>s'. rd_del R ks s = (Inr (), s') \<and> (\<forall>t' k'. val t' s' k' = (if k' \<in> set ks then None else val t' s k'))"
  using assms unfolding redis_laws_def by (elim conjE, simp only:)+

definition redis_view ::
  "redis_cache \<Rightarrow> (json \<Rightarrow> 'v) \<Rightarrow> (msec \<Rightarrow> 's \<Rightarrow> string \<Rightarrow> string option) \<Rightarrow> msec \<Rightarrow> 's \<Rightarrow> string \<Rightarrow> 'v option" where
  "redis_view c dec val t s k = (case decode dec (val t s (redis_getFullKey c k)) of Inl e \<Rightarrow> None | Inr v \<Rightarrow> v)"

lemma full_key_inj [simp]: "redis_getFullKey c k = redis_getFullKey c k' \<longleftrightarrow> k = k'"
  by (simp add: redis_getFullKey_def)

lemma stringify_nonempty: "stringify j \<noteq> []"
  using stringify_open [of j] by auto

lemma decode_encoded: "wf_json (enc v) \<Longrightarrow> dec (enc v) = v \<Longrightarrow> decode dec (Some (stringify (enc v))) = Inr (Some v)"
  by (simp add: decode_def json_roundtrip stringify_nonempty)

lemma redis_get_run:
  assumes "redis_laws R val"
  obtains s' where "redis_get R c dec t k s = (redis_view c dec val t s k, s')"
    "\<forall>t' k'. t \<le> t' \<longrightarrow> val t' s' k' = val t' s k'"
proof -
  obtain s' where s': "rd_get R t (redis_getFullKey c k) s = (Inr (val t s (redis_getFullKey c k)), s')"
      "\<forall>t' k'. t \<le> t' \<longrightarrow> val t' s' k' = val t' s k'"
    using redis_lawsD(1) [OF assms] by metis
  then have "redis_get R c dec t k s = (redis_view c dec val t s k, s')"
    by (simp add: redis_get_def or_else_def redis_view_def settled_def async_simps split: sum.splits)
  with s'(2) show ?thesis using that by simp
qed

lemma redis_set_run:
  assumes "redis_laws R val"
  obtains s' where "redis_set R c enc t k v ttl s = (Inr (), s')"
    "\<forall>t' k'. val t' s' k' = (if k' = redis_getFullKey c k
       then if js_nullish ttl (rs_defaultTtl c) \<le> 0 \<or> t' \<le> t + js_nullish ttl (rs_defaultTtl c) * 1000
            then Some (stringify (enc v)) else None
       else val t' s k')"
proof (cases "0 < js_nullish ttl (rs_defaultTtl c)")
  case True
  then obtain s' where "rd_setEx R t (redis_getFullKey c k) (js_nullish ttl (rs_defaultTtl c)) (stringify (enc v)) s = (Inr (), s')"
      "\<forall>t' k'. val t' s' k' = (if k' = redis_getFullKey c k
         then if t' \<le> t + js_nullish ttl (rs_defaultTtl c) * 1000 then Some (stringify (enc v)) else None else val t' s k')"
    using redis_lawsD(3) [OF assms] by metis
  with True show ?thesis by (intro that [of s']) (auto simp: redis_set_def Let_def)
next
  case False
  then obtain s' where "rd_set R t (redis_getFullKey c k) (stringify (enc v)) s = (Inr (), s')"
      "\<forall>t' k'. val t' s' k' = (if k' = redis_getFullKey c k then Some (stringify (enc v)) else val t' s k')"
    using redis_lawsD(2) [OF assms] by metis
  with False show ?thesis by (intro that [of s']) (auto simp: redis_set_def Let_def)
qed

lemma redis_delete_run:
  assumes "redis_laws R val"
  shows "val t' (redis_delete R c k s) k' = (if k' = redis_getFullKey c k then None else val t' s k')"
proof -
  obtain s' where "rd_del R [redis_getFullKey c k] s = (Inr (), s')"
      "\<forall>t' k'. val t' s' k' = (if k' \<in> set [redis_getFullKey c k] then None else val t' s k')"
    using redis_lawsD(4) [OF assms] by metis
  then show ?thesis by (simp add: redis_delete_def or_else_def)
qed

text \<open>
  C34. Redis keeps the promises of the cache port. Over a reachable server, and for values whose JSON is written
  and read back faithfully, the Redis service satisfies the contract \<open>reliable_cache\<close> from which the results about
  the limiter, the idempotency service and the read cache of the ports are derived: a value that was set is read
  back unchanged until its time to live is over, for every other key nothing changes, reading changes nothing, and
  setting never fails.
\<close>

theorem redis_cache_contract:
  assumes "redis_laws R val" "\<forall>v. wf_json (enc v) \<and> dec (enc v) = v"
  shows "reliable_cache (redis_cache_service R c enc dec) (redis_view c dec val) (\<lambda>_. 1)"
proof
  fix t k s
  show "fst (ic_get (redis_cache_service R c enc dec) t k s) = redis_view c dec val t s k"
    by (rule redis_get_run [OF assms(1), of c dec t k s]) (simp add: redis_cache_service_def)
next
  fix t t' k s k' assume "t \<le> (t' :: msec)"
  moreover obtain s' where "redis_get R c dec t k s = (redis_view c dec val t s k, s')"
      "\<forall>t' k'. t \<le> t' \<longrightarrow> val t' s' k' = val t' s k'"
    by (rule redis_get_run [OF assms(1), of c dec t k s])
  ultimately show "redis_view c dec val t' (snd (ic_get (redis_cache_service R c enc dec) t k s)) k' = redis_view c dec val t' s k'"
    by (simp add: redis_cache_service_def redis_view_def)
next
  fix t :: msec and k v and ttl :: int and s t' k'
  assume "0 < ttl"
  obtain s' where s': "redis_set R c enc t k v (Some ttl) s = (Inr (), s')"
      "\<forall>t' k'. val t' s' k' = (if k' = redis_getFullKey c k
       then if js_nullish (Some ttl) (rs_defaultTtl c) \<le> 0 \<or> t' \<le> t + js_nullish (Some ttl) (rs_defaultTtl c) * 1000
            then Some (stringify (enc v)) else None else val t' s k')"
    by (rule redis_set_run [OF assms(1), of c enc t k v "Some ttl" s])
  with \<open>0 < ttl\<close> assms(2) show "redis_view c dec val t' (snd (ic_set (redis_cache_service R c enc dec) t k v (Some ttl) s)) k' =
      (if k' = k then (if t' \<le> t + ttl * 1000 then Some v else None) else redis_view c dec val t' s k')"
    by (auto simp: redis_cache_service_def redis_view_def decode_encoded) (simp_all add: decode_def)
next
  fix t k v ttl s
  show "fst (ic_set (redis_cache_service R c enc dec) t k v ttl s)"
    by (rule redis_set_run [OF assms(1), of c enc t k v ttl s]) (simp add: redis_cache_service_def)
next
  fix t k s k'
  show "redis_view c dec val t (ic_delete (redis_cache_service R c enc dec) k s) k' = (if k' = k then None else redis_view c dec val t s k')"
    using assms(1) by (simp add: redis_cache_service_def redis_view_def redis_delete_run decode_def)
qed simp_all

text \<open>A server that keeps a list of keys with their values and the ends of their times to live.\<close>

type_synonym demo_store = "(string \<times> string \<times> msec option) list"

definition demo_val :: "msec \<Rightarrow> demo_store \<Rightarrow> string \<Rightarrow> string option" where
  "demo_val t s k = (case map_of s k of None \<Rightarrow> None
     | Some (v, e) \<Rightarrow> if (case e of None \<Rightarrow> True | Some x \<Rightarrow> t \<le> x) then Some v else None)"

definition demo_server :: "demo_store redis_client" where
  "demo_server = \<lparr>rd_get = (\<lambda>t k s. (Inr (demo_val t s k), s)),
     rd_set = (\<lambda>t k v s. (Inr (), (k, v, None) # s)),
     rd_setEx = (\<lambda>t k ttl v s. (Inr (), (k, v, Some (t + ttl * 1000)) # s)),
     rd_setNX = (\<lambda>t k ex v s. if demo_val t s k = None then (Inr (Some ''OK''), (k, v, Some (t + ex * 1000)) # s) else (Inr None, s)),
     rd_del = (\<lambda>ks s. (Inr (), filter (\<lambda>p. fst p \<notin> set ks) s)),
     rd_exists = (\<lambda>t k s. (Inr (if demo_val t s k = None then 0 else 1), s)),
     rd_keys = (\<lambda>p s. (Inr (filter (glob_match p) (map fst s)), s)), rd_flushDb = (\<lambda>s. (Inr (), [])),
     rd_mGet = (\<lambda>t ks s. (Inr (map (demo_val t s) ks), s)),
     rd_exec = (\<lambda>t cs s. (Inr (), s)), rd_incrBy = (\<lambda>t k n s. (Inr n, s)), rd_decrBy = (\<lambda>t k n s. (Inr (- n), s)),
     rd_ttl = (\<lambda>t k s. (Inr (- 1), s)), rd_expire = (\<lambda>t k n s. (Inr (), s)), rd_info = (\<lambda>s. (Inr [], s)),
     rd_dbSize = (\<lambda>s. (Inr (int (length s)), s)), rd_ping = (\<lambda>s. (Inr ''PONG'', s)), rd_connect = (\<lambda>s. (Inr (), s)),
     rd_quit = (\<lambda>s. (Inr (), s)), rd_isOpen = (\<lambda>s. True), rd_isReady = (\<lambda>s. True)\<rparr>"

lemma map_of_without_keys: "map_of (filter (\<lambda>p. fst p \<notin> S) s) k = (if k \<in> S then None else map_of s k)"
  by (induction s) auto

lemma demo_server_laws: "redis_laws demo_server demo_val"
  unfolding redis_laws_def by (auto simp: demo_server_def demo_val_def map_of_without_keys)

definition text_of :: "json \<Rightarrow> string" where
  "text_of j = (case j of JStr s \<Rightarrow> s | _ \<Rightarrow> [])"

text \<open>Texts in a cache with the prefix \<^verbatim>\<open>bff\<close>: one that was set for ten minutes is there nine minutes later.\<close>

theorem redis_cache_contract_witness:
  "fst (ic_get (redis_cache_service demo_server \<lparr>rs_keyPrefix = ''bff'', rs_defaultTtl = 300, rs_isConnecting = False\<rparr> JStr text_of) 540000 ''greeting''
     (snd (ic_set (redis_cache_service demo_server \<lparr>rs_keyPrefix = ''bff'', rs_defaultTtl = 300, rs_isConnecting = False\<rparr> JStr text_of) 0 ''greeting'' ''hello'' (Some 600) []))) =
   Some ''hello''"
proof -
  let ?c = "\<lparr>rs_keyPrefix = ''bff'', rs_defaultTtl = 300, rs_isConnecting = False\<rparr>"
  have "reliable_cache (redis_cache_service demo_server ?c JStr text_of) (redis_view ?c text_of demo_val) (\<lambda>_. 1)"
    by (rule redis_cache_contract [OF demo_server_laws]) (simp add: text_of_def)
  from reliable_cache.read_back [OF this] show ?thesis by simp
qed

section \<open>Outages\<close>

text \<open>
  A failed \<^verbatim>\<open>SET NX\<close> is answered like a key that is already there. The service that claims inbound messages
  lets a message pass when its cache fails, but it never learns of the failure: it drops the message as a duplicate.
\<close>

lemma outage_drops_messages:
  assumes "\<And>s. \<exists>e s'. rd_setNX R now (redis_getFullKey c (idem_key sha rawKey)) idem_TTL (stringify (JStr ''claimed'')) s = (Inl e, s')"
  shows "\<not> fst (idem_claim (Some (redis_cache_service R c (\<lambda>j. j) (\<lambda>j. j))) sha now rawKey s)"
proof -
  obtain e s' where "rd_setNX R now (redis_getFullKey c (idem_key sha rawKey)) idem_TTL (stringify (JStr ''claimed'')) s = (Inl e, s')"
    using assms by blast
  then show ?thesis
    by (simp add: idem_claim_def redis_cache_service_def redis_setIfNotExist_def or_else_def async_simps)
qed


end
