(* ===== verification/Accounts.thy ===== *)
theory Accounts
  imports Pii_Encryption Mock_Adapters
begin

text \<open>
  What the login flow does around the session library (src/modules/auth/infrastructure/better-auth, oauth and zalo,
  src/modules/notification/clients): the hooks that encrypt personal data on its way into the users table, the
  configuration of the identity providers, the delivery of one-time passwords through the notification port, and
  the clients of Zalo and of the token endpoint.

  Outgoing calls, the gRPC client, the schemas and the session library itself are arguments. A call to a server has
  no time limit here, as in the code.
\<close>

section \<open>Outgoing calls\<close>

record wire_call =
  wc_url :: string
  wc_method :: http_method
  wc_headers :: "(string, string) jsmap"
  wc_body :: "string option"

record wire_response =
  wr_status :: int
  wr_json :: "js_error + json"
  wr_text :: "js_error + string"

type_synonym 's wire = "wire_call \<Rightarrow> ('s, js_error, wire_response) async"

definition wr_ok :: "wire_response \<Rightarrow> bool" where
  "wr_ok r \<longleftrightarrow> 200 \<le> wr_status r \<and> wr_status r \<le> 299"

definition settled :: "'e + 'a \<Rightarrow> ('s, 'e, 'a) async" where
  "settled r s = (r, s)"

definition recover :: "('s, 'e, 'a) async \<Rightarrow> 'a \<Rightarrow> ('s, 'f, 'a) async" where
  "recover m d s = (case m s of (Inl e, s') \<Rightarrow> (Inr d, s') | (Inr x, s') \<Rightarrow> (Inr x, s'))"

text \<open>\<^verbatim>\<open>URLSearchParams\<close>: bytes other than letters, digits and \<^verbatim>\<open>*-._\<close> are escaped, a space becomes a plus.\<close>

definition form_char :: "char \<Rightarrow> string" where
  "form_char c = (let n = (of_char c :: nat) in
     if 48 \<le> n \<and> n \<le> 57 \<or> 65 \<le> n \<and> n \<le> 90 \<or> 97 \<le> n \<and> n \<le> 122 \<or> c \<in> set ''*-._'' then [c]
     else if c = CHR '' '' then ''+''
     else [CHR 0x25, (''0123456789ABCDEF'') ! (n div 16), (''0123456789ABCDEF'') ! (n mod 16)])"

definition form_encode :: "(string \<times> string) list \<Rightarrow> string" where
  "form_encode ps = join ''&'' (map (\<lambda>(k, v). concat (map form_char k) @ ''='' @ concat (map form_char v)) ps)"

definition form_header :: "(string, string) jsmap" where
  "form_header = [(''Content-Type'', ''application/x-www-form-urlencoded'')]"

definition json_header :: "(string, string) jsmap" where
  "json_header = [(''Content-Type'', ''application/json'')]"

type_synonym env_config = "string \<Rightarrow> string option"

definition config_get :: "env_config \<Rightarrow> string \<Rightarrow> string \<Rightarrow> string" where
  "config_get config k d = js_nullish (config k) d"

definition text_prop :: "string \<Rightarrow> json \<Rightarrow> string option" where
  "text_prop k j = (case json_get k j of Some (JStr s) \<Rightarrow> Some s | _ \<Rightarrow> None)"

definition number_prop :: "string \<Rightarrow> json \<Rightarrow> int option" where
  "number_prop k j = (case json_get k j of Some (JNum n) \<Rightarrow> Some n | _ \<Rightarrow> None)"

section \<open>The token of the service account\<close>

record token_state =
  sa_token :: "string option"
  sa_expiresAt :: msec

record oa_token =
  oa_value :: string
  oa_expiresAt :: msec

record 's account_world =
  aw_sa :: token_state
  aw_oa :: "oa_token option"
  aw_env :: 's

definition on_env :: "('s, 'e, 'a) async \<Rightarrow> ('s account_world, 'e, 'a) async" where
  "on_env m w = (case m (aw_env w) of (r, s') \<Rightarrow> (r, w\<lparr>aw_env := s'\<rparr>))"

definition isConfigured :: "env_config \<Rightarrow> bool" where
  "isConfigured config \<longleftrightarrow> truthy_str (config ''KEYCLOAK_SA_CLIENT_ID'') \<and> truthy_str (config ''KEYCLOAK_SA_CLIENT_SECRET'')"

definition token_request :: "env_config \<Rightarrow> wire_call" where
  "token_request config =
     \<lparr>wc_url = config_get config ''KEYCLOAK_URL'' ''http://localhost:8080'' @ ''/realms/'' @
        config_get config ''KEYCLOAK_REALM'' ''water-platform'' @ ''/protocol/openid-connect/token'',
      wc_method = POST, wc_headers = form_header,
      wc_body = Some (form_encode [(''grant_type'', ''client_credentials''),
        (''client_id'', the (config ''KEYCLOAK_SA_CLIENT_ID'')), (''client_secret'', the (config ''KEYCLOAK_SA_CLIENT_SECRET''))])\<rparr>"

definition getToken :: "env_config \<Rightarrow> 's wire \<Rightarrow> msec \<Rightarrow> ('s account_world, js_error, string option) async" where
  "getToken config call now =
     (if \<not> isConfigured config then ret None
      else bnd (reads aw_sa) (\<lambda>st.
        if truthy_str (sa_token st) \<and> now < sa_expiresAt st then ret (sa_token st)
        else bnd (on_env (call (token_request config))) (\<lambda>res.
          if \<not> wr_ok res then throw (new_Error (''Keycloak SA token failed: '' @ js_int_str (wr_status res)))
          else bnd (settled (wr_json res)) (\<lambda>body.
            let st' = \<lparr>sa_token = text_prop ''access_token'' body,
                  sa_expiresAt = now + max 0 (js_nullish (number_prop ''expires_in'' body) 60 - 10) * 1000\<rparr>
            in seq (writes (\<lambda>w. w\<lparr>aw_sa := st'\<rparr>)) (ret (sa_token st'))))))"

section \<open>One-time passwords through the notification port\<close>

record 's grpc_deps =
  gd_fetch :: "'s wire"
  gd_send :: "json \<Rightarrow> (string \<times> string) list \<Rightarrow> ('s, js_error, json) async"  \<comment> \<open>request, metadata, reply\<close>
  gd_mock :: "string \<Rightarrow> params \<Rightarrow> ('s, port_error, json) async"

text \<open>The client exists exactly when the address is set.\<close>

definition otp_request :: "env_config \<Rightarrow> string \<Rightarrow> string \<Rightarrow> json" where
  "otp_request config phoneNumber code = JObj
     [(''template_key'', JStr ''customer.otp''), (''tenant_id'', JStr (config_get config ''NOTIFICATION_TENANT_ID'' ''tnt_hawaco'')),
      (''recipients'', JArr [JObj [(''user_id'', JStr []), (''phone'', JStr phoneNumber), (''email'', JStr [])]]),
      (''channels'', JArr [JStr ''sms'']), (''data_json'', JStr (stringify (JObj [(''otp'', JStr code)]))), (''locale'', JStr []),
      (''idempotency_key'', JStr (''otp:'' @ phoneNumber @ '':'' @ code))]"

definition sendOtp ::
  "env_config \<Rightarrow> 's grpc_deps \<Rightarrow> msec \<Rightarrow> string \<Rightarrow> string \<Rightarrow> ('s account_world, port_error, json) async" where
  "sendOtp config d now phoneNumber code =
     (if \<not> truthy_str (config ''NOTIFICATION_GRPC_URL'') then ret (JObj [(''sent'', JBool True)])
      else bnd (recover (getToken config (gd_fetch d) now) None) (\<lambda>token.
        let metadata = (if truthy_str token then [(''authorization'', ''Bearer '' @ the token)] else [])
        in bnd (recover (bnd (on_env (gd_send d (otp_request config phoneNumber code) metadata)) (\<lambda>r. ret (Some r))) None)
             (\<lambda>reply. ret (case reply of
               None \<Rightarrow> JObj [(''sent'', JBool True)]
             | Some r \<Rightarrow> JObj ([(''sent'', JBool True)] @ jopt ''notificationId'' (json_get ''notification_id'' r) @
                 jopt ''status'' (json_get ''status'' r))))))"

definition NotificationGrpcAdapter ::
  "env_config \<Rightarrow> 's grpc_deps \<Rightarrow> msec \<Rightarrow> string \<Rightarrow> params \<Rightarrow> ('s account_world, port_error, json) async" where
  "NotificationGrpcAdapter config d now method ps =
     (if method = ''send-otp'' then sendOtp config d now (str_prop ''phoneNumber'' ps) (str_prop ''code'' ps)
      else on_env (gd_mock d method ps))"

definition masked :: "string \<Rightarrow> string" where
  "masked phone = padStart (length phone) CHR ''*'' (js_slice phone (- 4) (int (length phone)))"

text \<open>The hook of the phone plugin: it never fails, and what it prints in development is the second component.\<close>

definition sendOTP ::
  "bool \<Rightarrow> ('c, 's) port_deps \<Rightarrow> request_context option \<Rightarrow> msec \<Rightarrow> msec \<Rightarrow> string \<Rightarrow> string \<Rightarrow> ('c, 's) port_world \<Rightarrow>
   string list \<times> ('c, 's) port_world" where
  "sendOTP production d ctx t0 t1 phone code w =
     ((if production then [] else [''[BetterAuth] [DEV] OTP for '' @ masked phone @ '': '' @ code]),
      snd (execute d ctx t0 t1 ''notification'' ''send-otp'' [(''phoneNumber'', JStr phone), (''code'', JStr code)] None w))"

section \<open>The Zalo official account\<close>

record oa_config =
  oc_appId :: string
  oc_appSecret :: string
  oc_refreshToken :: string
  oc_otpTemplateId :: string
  oc_oaBaseUrl :: string

definition oa_new :: "env_config \<Rightarrow> oa_config" where
  "oa_new config = \<lparr>oc_appId = config_get config ''ZALO_OA_ID'' [], oc_appSecret = config_get config ''ZALO_OA_APP_SECRET'' [],
     oc_refreshToken = config_get config ''ZALO_OA_REFRESH_TOKEN'' [],
     oc_otpTemplateId = config_get config ''ZALO_OA_OTP_TEMPLATE_ID'' [],
     oc_oaBaseUrl = config_get config ''ZALO_OA_BASE_URL'' ''https://openapi.zaloapp.com''\<rparr>"

definition oa_configured :: "oa_config \<Rightarrow> bool" where
  "oa_configured c \<longleftrightarrow> oc_appId c \<noteq> [] \<and> oc_appSecret c \<noteq> [] \<and> oc_refreshToken c \<noteq> []"

definition text_or_empty :: "wire_response \<Rightarrow> string" where
  "text_or_empty r = (case wr_text r of Inl _ \<Rightarrow> [] | Inr s \<Rightarrow> s)"

definition getAccessToken :: "oa_config \<Rightarrow> 's wire \<Rightarrow> msec \<Rightarrow> ('s account_world, js_error, string) async" where
  "getAccessToken c call now = bnd (reads aw_oa) (\<lambda>st.
     if (case st of None \<Rightarrow> False | Some tok \<Rightarrow> oa_expiresAt tok > now + 60000) then ret (oa_value (the st))
     else bnd (on_env (call \<lparr>wc_url = ''https://oauth.zaloapp.com/v4/oa/access_token'', wc_method = POST, wc_headers = json_header,
            wc_body = Some (stringify (JObj [(''grant_type'', JStr ''refresh_token''), (''refresh_token'', JStr (oc_refreshToken c)),
              (''app_id'', JStr (oc_appId c)), (''secret'', JStr (oc_appSecret c))]))\<rparr>)) (\<lambda>res.
       if \<not> wr_ok res
       then throw (new_Error (''Zalo OA token refresh failed ('' @ js_int_str (wr_status res) @ ''): '' @ text_or_empty res))
       else bnd (settled (wr_json res)) (\<lambda>data.
         let tok = \<lparr>oa_value = js_nullish (text_prop ''access_token'' data) ''undefined'',
               oa_expiresAt = now + js_nullish (number_prop ''expires_in'' data) 3600 * 1000\<rparr>
         in seq (writes (\<lambda>w. w\<lparr>aw_oa := Some tok\<rparr>)) (ret (oa_value tok)))))"

text \<open>What is logged is the result; a message that the official account refuses is logged and forgotten.\<close>

definition oa_sendOtp ::
  "oa_config \<Rightarrow> 's wire \<Rightarrow> msec \<Rightarrow> string \<Rightarrow> string \<Rightarrow> ('s account_world, js_error, string list) async" where
  "oa_sendOtp c call now phone code =
     (if \<not> oa_configured c \<or> oc_otpTemplateId c = [] then ret [''[DEV] ZNS OTP for '' @ masked phone @ '': '' @ code]
      else bnd (getAccessToken c call now) (\<lambda>accessToken.
        bnd (on_env (call \<lparr>wc_url = oc_oaBaseUrl c @ ''/v3.0/oa/message/phonenumber'', wc_method = POST,
             wc_headers = json_header @ [(''access_token'', accessToken)],
             wc_body = Some (stringify (JObj [(''recipient'', JObj [(''phone_number'', JStr phone)]),
               (''message'', JObj [(''template_id'', JStr (oc_otpTemplateId c)), (''template_data'', JObj [(''otp'', JStr code)])])]))\<rparr>))
          (\<lambda>res. ret (if wr_ok res then []
             else [''Zalo OA OTP send failed ('' @ js_int_str (wr_status res) @ '') for '' @ masked phone @ '': '' @ text_or_empty res]))))"

section \<open>Signing in with Zalo\<close>

record zalo_config =
  zc_appId :: string
  zc_appSecret :: string
  zc_redirectUri :: string

record zalo_user_info =
  zu_id :: string
  zu_name :: "string option"
  zu_pictureUrl :: "string option"
  zu_phone_number :: "string option"

record zalo_result =
  zr_zaloId :: string
  zr_name :: "string option"
  zr_avatarUrl :: "string option"
  zr_phoneNumber :: "string option"
  zr_phoneScopeGranted :: bool

text \<open>The schemas give the access token and the user, or the message of the error.\<close>

record zalo_schemas =
  zs_token :: "json \<Rightarrow> string + string"
  zs_user :: "json \<Rightarrow> string + zalo_user_info"

definition getOrThrow :: "env_config \<Rightarrow> string \<Rightarrow> js_error + string" where
  "getOrThrow config k = (case config k of None \<Rightarrow> Inl \<lparr>err_name = ''TypeError'', err_ctor = ''TypeError'',
       err_message = ''Configuration key '' @ [CHR 0x22] @ k @ [CHR 0x22] @ '' does not exist''\<rparr> | Some v \<Rightarrow> Inr v)"

definition zalo_new :: "env_config \<Rightarrow> js_error + zalo_config" where
  "zalo_new config = (case getOrThrow config ''ZALO_APP_ID'' of Inl e \<Rightarrow> Inl e | Inr i \<Rightarrow>
     (case getOrThrow config ''ZALO_APP_SECRET'' of Inl e \<Rightarrow> Inl e | Inr s \<Rightarrow>
       (case getOrThrow config ''ZALO_REDIRECT_URI'' of Inl e \<Rightarrow> Inl e | Inr u \<Rightarrow>
         Inr \<lparr>zc_appId = i, zc_appSecret = s, zc_redirectUri = u\<rparr>)))"

definition getAuthorizationUrl :: "zalo_config \<Rightarrow> string option \<Rightarrow> string" where
  "getAuthorizationUrl c state = ''https://oauth.zaloapp.com/v4/permission?'' @ form_encode
     ([(''app_id'', zc_appId c), (''redirect_uri'', zc_redirectUri c), (''scope'', ''id,name,picture,phone_number''), (''response_type'', ''code'')] @
      (if truthy_str state then [(''state'', the state)] else []))"

definition exchangeCodeForToken :: "zalo_config \<Rightarrow> zalo_schemas \<Rightarrow> 's wire \<Rightarrow> string \<Rightarrow> ('s, js_error, string) async" where
  "exchangeCodeForToken c S call code =
     bnd (call \<lparr>wc_url = ''https://oauth.zaloapp.com/v4/access_token'', wc_method = POST, wc_headers = form_header,
       wc_body = Some (form_encode [(''app_id'', zc_appId c), (''app_secret'', zc_appSecret c), (''code'', code),
         (''grant_type'', ''authorization_code''), (''redirect_uri'', zc_redirectUri c)])\<rparr>) (\<lambda>response.
     if \<not> wr_ok response then throw (new_Error (''Zalo token exchange failed: '' @ js_int_str (wr_status response)))
     else bnd (settled (wr_json response)) (\<lambda>data. case zs_token S data of
       Inl _ \<Rightarrow> throw (new_Error ''Invalid Zalo token response'') | Inr tok \<Rightarrow> ret tok))"

definition getUserInfo :: "zalo_schemas \<Rightarrow> 's wire \<Rightarrow> string \<Rightarrow> ('s, js_error, zalo_result) async" where
  "getUserInfo S call accessToken =
     bnd (call \<lparr>wc_url = ''https://graph.zalo.me/v2.0/me?fields=id,name,picture,phone_number&access_token='' @ accessToken,
       wc_method = GET, wc_headers = json_header, wc_body = None\<rparr>) (\<lambda>response.
     if \<not> wr_ok response then throw (new_Error (''Zalo user info fetch failed: '' @ js_int_str (wr_status response)))
     else bnd (settled (wr_json response)) (\<lambda>data. case zs_user S data of
       Inl _ \<Rightarrow> throw (new_Error ''Invalid Zalo user info response'')
     | Inr u \<Rightarrow> ret \<lparr>zr_zaloId = zu_id u, zr_name = zu_name u, zr_avatarUrl = zu_pictureUrl u, zr_phoneNumber = zu_phone_number u,
                     zr_phoneScopeGranted = truthy_str (zu_phone_number u)\<rparr>))"

definition zalo_handleCallback :: "zalo_config \<Rightarrow> zalo_schemas \<Rightarrow> 's wire \<Rightarrow> string \<Rightarrow> ('s, js_error, zalo_result) async" where
  "zalo_handleCallback c S call code = bnd (exchangeCodeForToken c S call code) (getUserInfo S call)"

section \<open>Users on their way into the database\<close>

text \<open>A user of the session library is an object; an absent column is one that has no property.\<close>

definition not_nullish :: "json option \<Rightarrow> json option" where
  "not_nullish v = (if v = Some JNull then None else v)"

definition readPhone :: "params \<Rightarrow> json option" where
  "readPhone user = (if not_nullish (map_of user ''phoneNumber'') \<noteq> None then map_of user ''phoneNumber''
     else not_nullish (map_of user ''phone''))"

definition as_text :: "json option \<Rightarrow> string option" where
  "as_text v = (case v of Some (JStr s) \<Rightarrow> Some s | _ \<Rightarrow> None)"

definition set_column :: "string \<Rightarrow> json option \<Rightarrow> params \<Rightarrow> params" where
  "set_column k v user = (case v of None \<Rightarrow> AList.delete k user | Some j \<Rightarrow> AList.update k j user)"

definition cipher_column :: "pii_service \<Rightarrow> byte list \<Rightarrow> string \<Rightarrow> json option \<Rightarrow> params \<Rightarrow> params" where
  "cipher_column p iv k raw = set_column k (map_option JStr (encryptIfNeeded p iv (as_text raw)))"

definition hash_column :: "pii_service \<Rightarrow> string \<Rightarrow> json option \<Rightarrow> params \<Rightarrow> params" where
  "hash_column p k raw = AList.update k (str_or_null (hashIfNeeded p (as_text raw)))"

definition create_before :: "pii_service \<Rightarrow> byte list \<Rightarrow> byte list \<Rightarrow> params \<Rightarrow> params" where
  "create_before p iv1 iv2 user =
     (let rawEmail = map_of user ''email''; rawPhone = readPhone user
      in hash_column p ''phoneHash'' rawPhone (hash_column p ''emailHash'' rawEmail
           (cipher_column p iv2 ''phone'' rawPhone (cipher_column p iv1 ''email'' rawEmail user))))"

definition update_before :: "pii_service \<Rightarrow> byte list \<Rightarrow> byte list \<Rightarrow> params \<Rightarrow> params" where
  "update_before p iv1 iv2 user =
     (let rawEmail = map_of user ''email''; rawPhone = readPhone user;
          user1 = (if rawEmail \<noteq> None then hash_column p ''emailHash'' rawEmail (cipher_column p iv1 ''email'' rawEmail user) else user)
      in if rawPhone \<noteq> None then hash_column p ''phoneHash'' rawPhone (cipher_column p iv2 ''phone'' rawPhone user1) else user1)"

section \<open>Providers and origins\<close>

definition provider_enabled :: "string \<Rightarrow> string \<Rightarrow> bool" where
  "provider_enabled clientId clientSecret \<longleftrightarrow> clientId \<noteq> [] \<and> clientSecret \<noteq> [] \<and> take 5 clientId \<noteq> ''stub-''"

definition socialProviders :: "env_config \<Rightarrow> (string \<times> string \<times> string) list" where
  "socialProviders config = concat (map (\<lambda>(name, k1, k2).
     let clientId = config_get config k1 []; clientSecret = config_get config k2 []
     in if provider_enabled clientId clientSecret then [(name, clientId, clientSecret)] else [])
     [(''google'', ''GOOGLE_CLIENT_ID'', ''GOOGLE_CLIENT_SECRET''),
      (''facebook'', ''FACEBOOK_CLIENT_ID'', ''FACEBOOK_CLIENT_SECRET''),
      (''apple'', ''APPLE_CLIENT_ID'', ''APPLE_CLIENT_SECRET'')])"

definition apple_mapProfileToUser :: "json \<Rightarrow> params" where
  "apple_mapProfileToUser profile =
     [(''email'', json_nullish (json_get ''email'' profile)
        (JStr ((case json_get ''sub'' profile of None \<Rightarrow> ''undefined'' | Some v \<Rightarrow> js_string v) @ ''@apple.placeholder.local'')))]"

definition trustedOrigins :: "env_config \<Rightarrow> string list" where
  "trustedOrigins config = filter (\<lambda>s. s \<noteq> []) (map trim (split_on CHR '','' (config_get config ''BETTER_AUTH_TRUSTED_ORIGINS'' [])))"

definition getTempEmail :: "string \<Rightarrow> string" where
  "getTempEmail phone = phone @ ''@cskh.placeholder.local''"

definition getTempName :: "string \<Rightarrow> string" where
  "getTempName phone = phone"

definition zalo_plugin_getUserInfo :: "'s wire \<Rightarrow> string \<Rightarrow> ('s, js_error, params) async" where
  "zalo_plugin_getUserInfo call accessToken =
     bnd (call \<lparr>wc_url = ''https://graph.zalo.me/v2.0/me?access_token='' @ accessToken, wc_method = GET, wc_headers = json_header, wc_body = None\<rparr>)
       (\<lambda>res. bnd (settled (wr_json res)) (\<lambda>data.
         let i = (case json_get ''id'' data of None \<Rightarrow> ''undefined'' | Some v \<Rightarrow> js_string v);
             picture_data = Option.bind (not_nullish (json_get ''picture'' data)) (json_get ''data'')
         in ret ([(''id'', JStr i)] @ jopt ''name'' (json_get ''name'' data) @
              [(''email'', JStr (i @ ''@zalo.placeholder.local'')), (''emailVerified'', JBool False)] @
              jopt ''image'' (Option.bind (not_nullish picture_data) (json_get ''url'')))))"

section \<open>The routes of the session library\<close>

text \<open>Requests and responses of the web interface of the library, which is an argument.\<close>

record auth_request =
  ax_protocol :: string
  ax_url :: string
  ax_method :: string
  ax_headers :: "(string \<times> string list) list"
  ax_body :: "json option"

record web_request =
  wq_url :: string
  wq_method :: string
  wq_headers :: "(string, string) jsmap"
  wq_body :: "string option"

record web_response =
  ws_status :: int
  ws_headers :: "(string \<times> string) list"
  ws_body :: string

definition to_web_request :: "auth_request \<Rightarrow> web_request" where
  "to_web_request q =
     (let host = (case map_of (ax_headers q) ''host'' of Some (h # _) \<Rightarrow> js_or_str (Some h) ''localhost:3000'' | _ \<Rightarrow> ''localhost:3000'')
      in \<lparr>wq_url = js_or_str (Some (ax_protocol q)) ''http'' @ ''://'' @ host @ ax_url q, wq_method = ax_method q,
          wq_headers = fold (\<lambda>(k, vs). AList.update k (join '', '' vs)) (ax_headers q) [],
          wq_body = (if ax_method q \<noteq> ''GET'' \<and> ax_method q \<noteq> ''HEAD'' \<and> opt_truthy (ax_body q)
                     then Some (stringify (the (ax_body q))) else None)\<rparr>)"

definition handleAuth ::
  "bool \<Rightarrow> (web_request \<Rightarrow> ('s, js_error, web_response) async) option \<Rightarrow> auth_request \<Rightarrow> 's \<Rightarrow> web_response \<times> 's" where
  "handleAuth production handler q s = (case handler of
     None \<Rightarrow> (\<lparr>ws_status = 503, ws_headers = [], ws_body = stringify (JObj [(''error'', JStr ''Authentication service unavailable'')])\<rparr>, s)
   | Some h \<Rightarrow> (case h (to_web_request q) s of
       (Inr r, s') \<Rightarrow> (r, s')
     | (Inl e, s') \<Rightarrow> (\<lparr>ws_status = 500, ws_headers = [], ws_body = stringify (JObj ([(''error'', JStr ''Authentication error'')] @
         (if production then [] else [(''detail'', JStr (err_message e))])))\<rparr>, s')))"

section \<open>What reaches the database\<close>

lemma set_column_other [simp]: "k' \<noteq> k \<Longrightarrow> map_of (set_column k v u) k' = map_of u k'"
  by (simp add: set_column_def update_conv' delete_conv' split: option.split)

lemma set_column_same [simp]: "map_of (set_column k v u) k = v"
  by (simp add: set_column_def update_conv' delete_conv' split: option.split)

lemma hash_column_map [simp]:
  "map_of (hash_column p k raw u) k' = (if k' = k then Some (str_or_null (hashIfNeeded p (as_text raw))) else map_of u k')"
  by (simp add: hash_column_def update_conv')

lemma cipher_column_map [simp]:
  "map_of (cipher_column p iv k raw u) k' = (if k' = k then map_option JStr (encryptIfNeeded p iv (as_text raw)) else map_of u k')"
  by (simp add: cipher_column_def)

lemma as_text_JStr [simp]: "as_text (map_option JStr v) = v"
  by (simp add: as_text_def split: option.split)

text \<open>
  C35. Users are stored encrypted and can be read back. When the session library creates a user, the columns for email
  and phone hold what decrypts to the email and the phone of the user, or nothing when there is none, and the index
  columns hold the keyed hashes for the lookup. Every other column is stored as it came: the column
  \<^verbatim>\<open>phoneNumber\<close> of the phone plugin, and the name, for which a new user's phone number is used.
\<close>

theorem stored_user_readable:
  assumes "aead_correct (pii_crypto p)" "bytes iv1" "bytes iv2"
  shows "decryptIfNeeded p (as_text (map_of (create_before p iv1 iv2 user) ''email'')) =
      Inr (if js_falsy (as_text (map_of user ''email'')) then None else as_text (map_of user ''email'')) \<and>
    decryptIfNeeded p (as_text (map_of (create_before p iv1 iv2 user) ''phone'')) =
      Inr (if js_falsy (as_text (readPhone user)) then None else as_text (readPhone user)) \<and>
    map_of (create_before p iv1 iv2 user) ''emailHash'' = Some (str_or_null (hashIfNeeded p (as_text (map_of user ''email'')))) \<and>
    map_of (create_before p iv1 iv2 user) ''phoneHash'' = Some (str_or_null (hashIfNeeded p (as_text (readPhone user)))) \<and>
    (k \<notin> {''email'', ''phone'', ''emailHash'', ''phoneHash''} \<longrightarrow> map_of (create_before p iv1 iv2 user) k = map_of user k)"
  by (simp add: create_before_def Let_def pii_stored_roundtrip [OF assms(1)] assms(2,3))

text \<open>A user who registers with a phone number: the number stays readable in two columns.\<close>

theorem stored_user_readable_witness:
  "decryptIfNeeded demo_pii (as_text (map_of (create_before demo_pii [1] [2] [(''phoneNumber'', JStr ''84901''), (''name'', JStr (getTempName ''84901''))]) ''phone'')) = Inr (Some ''84901'') \<and>
   map_of (create_before demo_pii [1] [2] [(''phoneNumber'', JStr ''84901''), (''name'', JStr (getTempName ''84901''))]) ''phoneNumber'' = Some (JStr ''84901'') \<and>
   map_of (create_before demo_pii [1] [2] [(''phoneNumber'', JStr ''84901''), (''name'', JStr (getTempName ''84901''))]) ''name'' = Some (JStr ''84901'')"
proof -
  let ?u = "[(''phoneNumber'', JStr ''84901''), (''name'', JStr (getTempName ''84901''))]"
  have c: "aead_correct (pii_crypto demo_pii)" "bytes [1]" "bytes [2]" by (simp_all add: demo_crypto_correct bytes_def)
  show ?thesis
    using stored_user_readable [OF c, of ?u "''phoneNumber''"] stored_user_readable [OF c, of ?u "''name''"]
    by (simp add: readPhone_def not_nullish_def as_text_def js_falsy_def getTempName_def)
qed

text \<open>An update that clears the email clears its index only: the encrypted email stays in the table.\<close>

lemma cleared_email_stays:
  "map_of (update_before p iv1 iv2 [(''email'', JNull)]) ''email'' = None"
  "map_of (update_before p iv1 iv2 [(''email'', JNull)]) ''emailHash'' = Some JNull"
  by (simp_all add: update_before_def Let_def readPhone_def not_nullish_def as_text_def encryptIfNeeded_def hashIfNeeded_def js_falsy_def str_or_null_def)

section \<open>Delivery\<close>

text \<open>The login never learns whether a password was delivered.\<close>

lemma recover_total: "\<exists>x w'. recover m d w = (Inr x, w')"
  by (simp add: recover_def split: prod.split sum.split)

lemma otp_always_sent:
  "\<exists>r w'. NotificationGrpcAdapter config d now ''send-otp'' ps w = (Inr r, w') \<and> json_get ''sent'' r = Some (JBool True)"
proof -
  obtain tok w1 where t: "recover (getToken config (gd_fetch d) now) None w = (Inr tok :: port_error + string option, w1)"
    using recover_total [of "getToken config (gd_fetch d) now" None w] by metis
  let ?m = "if truthy_str tok then [(''authorization'', ''Bearer '' @ the tok)] else []"
  obtain r w2 where "recover (bnd (on_env (gd_send d (otp_request config (str_prop ''phoneNumber'' ps) (str_prop ''code'' ps)) ?m)) (\<lambda>r. ret (Some r))) None w1 = (Inr r :: port_error + json option, w2)"
    using recover_total by metis
  with t show ?thesis
    by (cases r) (simp_all add: NotificationGrpcAdapter_def sendOtp_def async_simps Let_def)
qed

text \<open>A kept token is used until ten seconds before its end, counted from before it was requested.\<close>

lemma kept_token_fresh:
  assumes "getToken config call t1 w = (Inr (Some tok), w1)" "isConfigured config" "\<not> t1 < sa_expiresAt (aw_sa w)" "tok \<noteq> []"
  obtains body where "getToken config call t2 w1 = (Inr (Some tok), w1) \<or>
    t1 + max 0 (js_nullish (number_prop ''expires_in'' body) 60 - 10) * 1000 \<le> t2"
proof -
  obtain body s' where "w1 = w\<lparr>aw_env := s', aw_sa := \<lparr>sa_token = Some tok,
      sa_expiresAt = t1 + max 0 (js_nullish (number_prop ''expires_in'' body) 60 - 10) * 1000\<rparr>\<rparr>"
    using assms
    by (auto simp: getToken_def async_simps settled_def on_env_def Let_def truthy_str_def split: if_splits option.splits prod.splits sum.splits)
  with assms(2,4) show ?thesis
    by (intro that [of body]) (auto simp: getToken_def async_simps truthy_str_def)
qed

end
