(* ===== verification/Structured_Errors.thy ===== *)
theory Structured_Errors
  imports Chat Bff_Services Http_Filter Redaction
begin

text \<open>
  The error filter of src/libs/shared/errors/structured-error.filter.ts, which answers every exception with one
  JSON form and logs it with the request, and the exceptions with messages for the user of
  src/libs/shared/errors/domain-exception.base.ts.
\<close>

section \<open>Exceptions with messages for the user\<close>

record exception_options =
  eo_context :: "params option"
  eo_userMessage :: "string option"
  eo_errorCode :: "string option"
  eo_retryable :: "bool option"
  eo_suggestedAction :: "string option"

record enhanced_exception = domain_exception +
  ee_ctor :: string  \<comment> \<open>\<^verbatim>\<open>constructor.name\<close>\<close>
  ee_context :: "params option"
  ee_userMessage :: "string option"
  ee_errorCode :: "string option"
  ee_retryable :: bool
  ee_suggestedAction :: "string option"

definition no_options :: exception_options where
  "no_options = \<lparr>eo_context = None, eo_userMessage = None, eo_errorCode = None, eo_retryable = None, eo_suggestedAction = None\<rparr>"

definition new_enhanced :: "string \<Rightarrow> string \<Rightarrow> exception_options \<Rightarrow> enhanced_exception" where
  "new_enhanced ctor message os = domain_exception.extend
     (new_DomainException message (Some (js_or_str (eo_errorCode os) ''DOMAIN_ERROR'')) (map_option JObj (eo_context os)))
     \<lparr>ee_ctor = ctor, ee_context = eo_context os, ee_userMessage = eo_userMessage os, ee_errorCode = eo_errorCode os,
      ee_retryable = (eo_retryable os = Some True), ee_suggestedAction = eo_suggestedAction os\<rparr>"

text \<open>The context of every kind: its own entries, overridden by the caller's.\<close>

definition with_context :: "params \<Rightarrow> exception_options \<Rightarrow> params option" where
  "with_context own os = Some (obj_spread own (js_nullish (eo_context os) []))"

definition BusinessRuleViolationException :: "string \<Rightarrow> string \<Rightarrow> exception_options \<Rightarrow> enhanced_exception" where
  "BusinessRuleViolationException ruleName message os = new_enhanced ''BusinessRuleViolationException'' message (no_options\<lparr>
     eo_errorCode := Some (''BUSINESS_RULE_VIOLATION_'' @ toUpperCase ruleName),
     eo_userMessage := Some (js_or_str (eo_userMessage os) message),
     eo_context := with_context [(''ruleName'', JStr ruleName)] os,
     eo_suggestedAction := eo_suggestedAction os\<rparr>)"

text \<open>The id of a resource is a string or a number.\<close>

definition ResourceNotFoundException :: "string \<Rightarrow> json \<Rightarrow> exception_options \<Rightarrow> enhanced_exception" where
  "ResourceNotFoundException resourceType resourceId os = new_enhanced ''ResourceNotFoundException''
     (resourceType @ '' with ID '' @ js_string resourceId @ '' not found'') (no_options\<lparr>
     eo_errorCode := Some ''RESOURCE_NOT_FOUND'',
     eo_userMessage := Some (js_or_str (eo_userMessage os) (''The '' @ toLowerCase resourceType @ '' you'' @ [CHR 0x27] @ ''re looking for doesn'' @ [CHR 0x27] @ ''t exist'')),
     eo_context := with_context [(''resourceType'', JStr resourceType), (''resourceId'', resourceId)] os\<rparr>)"

definition DuplicateResourceException :: "string \<Rightarrow> string \<Rightarrow> exception_options \<Rightarrow> enhanced_exception" where
  "DuplicateResourceException resourceType identifier os = new_enhanced ''DuplicateResourceException''
     (resourceType @ '' with '' @ identifier @ '' already exists'') (no_options\<lparr>
     eo_errorCode := Some ''DUPLICATE_RESOURCE'',
     eo_userMessage := Some (js_or_str (eo_userMessage os) (''A '' @ toLowerCase resourceType @ '' with these details already exists'')),
     eo_context := with_context [(''resourceType'', JStr resourceType), (''identifier'', JStr identifier)] os,
     eo_suggestedAction := Some (js_or_str (eo_suggestedAction os) ''Please use a different identifier'')\<rparr>)"

definition InvalidStateException :: "string \<Rightarrow> string \<Rightarrow> string \<Rightarrow> exception_options \<Rightarrow> enhanced_exception" where
  "InvalidStateException currentState requiredState operation os = new_enhanced ''InvalidStateException''
     (''Cannot perform '' @ [CHR 0x27] @ operation @ [CHR 0x27] @ '' in state '' @ [CHR 0x27] @ currentState @ [CHR 0x27] @ ''. Required state: '' @ [CHR 0x27] @ requiredState @ [CHR 0x27]) (no_options\<lparr>
     eo_errorCode := Some ''INVALID_STATE'',
     eo_userMessage := Some (js_or_str (eo_userMessage os) ''This action is not available at this time''),
     eo_context := with_context [(''currentState'', JStr currentState), (''requiredState'', JStr requiredState), (''operation'', JStr operation)] os\<rparr>)"

text \<open>One permission, or an array of permissions.\<close>

definition InsufficientPermissionsException :: "string + string list \<Rightarrow> exception_options \<Rightarrow> enhanced_exception" where
  "InsufficientPermissionsException requiredPermission os =
     (let permissions = (case requiredPermission of Inl p \<Rightarrow> p | Inr ps \<Rightarrow> join '', '' ps);
          list = (case requiredPermission of Inl p \<Rightarrow> [p] | Inr ps \<Rightarrow> ps)
      in new_enhanced ''InsufficientPermissionsException'' (''Insufficient permissions. Required: '' @ permissions) (no_options\<lparr>
           eo_errorCode := Some ''INSUFFICIENT_PERMISSIONS'',
           eo_userMessage := Some (js_or_str (eo_userMessage os) (''You don'' @ [CHR 0x27] @ ''t have permission to perform this action'')),
           eo_context := with_context [(''requiredPermissions'', JArr (map JStr list))] os,
           eo_suggestedAction := Some (js_or_str (eo_suggestedAction os) ''Contact your administrator for access'')\<rparr>))"

definition ConcurrentModificationException :: "string \<Rightarrow> json \<Rightarrow> exception_options \<Rightarrow> enhanced_exception" where
  "ConcurrentModificationException resourceType resourceId os = new_enhanced ''ConcurrentModificationException''
     (resourceType @ '' '' @ js_string resourceId @ '' has been modified by another process'') (no_options\<lparr>
     eo_errorCode := Some ''CONCURRENT_MODIFICATION'',
     eo_userMessage := Some (js_or_str (eo_userMessage os) ''This item has been updated by someone else. Please refresh and try again''),
     eo_retryable := Some True,
     eo_context := with_context [(''resourceType'', JStr resourceType), (''resourceId'', resourceId)] os,
     eo_suggestedAction := Some (js_or_str (eo_suggestedAction os) ''Refresh the page and try again'')\<rparr>)"

definition ExternalServiceException :: "string \<Rightarrow> js_error \<Rightarrow> exception_options \<Rightarrow> enhanced_exception" where
  "ExternalServiceException serviceName originalError os = new_enhanced ''ExternalServiceException''
     (''External service '' @ [CHR 0x27] @ serviceName @ [CHR 0x27] @ '' failed: '' @ err_message originalError) (no_options\<lparr>
     eo_errorCode := Some ''EXTERNAL_SERVICE_ERROR'',
     eo_userMessage := Some (js_or_str (eo_userMessage os) (''We'' @ [CHR 0x27] @ ''re having trouble connecting to an external service'')),
     eo_retryable := Some (js_nullish (eo_retryable os) True),
     eo_context := with_context [(''serviceName'', JStr serviceName), (''originalError'', JStr (err_message originalError))] os,
     eo_suggestedAction := Some (js_or_str (eo_suggestedAction os) ''Please try again in a few moments'')\<rparr>)"

definition RateLimitExceededException :: "msec \<Rightarrow> int \<Rightarrow> int \<Rightarrow> exception_options \<Rightarrow> enhanced_exception" where
  "RateLimitExceededException now limit windowMs os = new_enhanced ''RateLimitExceededException''
     (''Rate limit exceeded: '' @ js_int_str limit @ '' requests per '' @ js_int_str windowMs @ ''ms'') (no_options\<lparr>
     eo_errorCode := Some ''RATE_LIMIT_EXCEEDED'',
     eo_userMessage := Some (js_or_str (eo_userMessage os) ''Too many requests. Please slow down and try again''),
     eo_retryable := Some True,
     eo_context := with_context [(''limit'', JNum limit), (''windowMs'', JNum windowMs), (''resetTime'', JNum (now + windowMs))] os,
     eo_suggestedAction := Some (js_or_str (eo_suggestedAction os)
       (''Please wait '' @ js_int_str \<lceil>of_int windowMs / 1000 :: rat\<rceil> @ '' seconds before trying again''))\<rparr>)"

record field_error =
  fd_field :: string
  fd_message :: string
  fd_value :: "json option"

definition field_error_json :: "field_error \<Rightarrow> json" where
  "field_error_json e = JObj ([(''field'', JStr (fd_field e)), (''message'', JStr (fd_message e))] @ jopt ''value'' (fd_value e))"

definition DomainValidationException :: "field_error list \<Rightarrow> exception_options \<Rightarrow> enhanced_exception" where
  "DomainValidationException validationErrors os = new_enhanced ''ValidationException''
     (''Validation failed: '' @ join '', '' (map fd_message validationErrors)) (no_options\<lparr>
     eo_errorCode := Some ''VALIDATION_FAILED'',
     eo_userMessage := Some (js_or_str (eo_userMessage os) ''Please check your input and try again''),
     eo_context := with_context [(''validationErrors'', JArr (map field_error_json validationErrors))] os,
     eo_suggestedAction := Some (js_or_str (eo_suggestedAction os) ''Please fix the validation errors and try again'')\<rparr>)"

section \<open>Codes and statuses\<close>

datatype error_code =
  VALIDATION_FAILED | INVALID_INPUT | UNAUTHORIZED | FORBIDDEN | NOT_FOUND | CONFLICT | BUSINESS_RULE_VIOLATION
| DOMAIN_ERROR | RATE_LIMIT_EXCEEDED | INTERNAL_ERROR | DATABASE_ERROR | SERVICE_UNAVAILABLE | TIMEOUT | GATEWAY_TIMEOUT

fun code_str :: "error_code \<Rightarrow> string" where
  "code_str VALIDATION_FAILED = ''VALIDATION_FAILED''" | "code_str INVALID_INPUT = ''INVALID_INPUT''"
| "code_str UNAUTHORIZED = ''UNAUTHORIZED''" | "code_str FORBIDDEN = ''FORBIDDEN''" | "code_str NOT_FOUND = ''NOT_FOUND''"
| "code_str CONFLICT = ''CONFLICT''" | "code_str BUSINESS_RULE_VIOLATION = ''BUSINESS_RULE_VIOLATION''"
| "code_str DOMAIN_ERROR = ''DOMAIN_ERROR''" | "code_str RATE_LIMIT_EXCEEDED = ''RATE_LIMIT_EXCEEDED''"
| "code_str INTERNAL_ERROR = ''INTERNAL_ERROR''" | "code_str DATABASE_ERROR = ''DATABASE_ERROR''"
| "code_str SERVICE_UNAVAILABLE = ''SERVICE_UNAVAILABLE''" | "code_str TIMEOUT = ''TIMEOUT''"
| "code_str GATEWAY_TIMEOUT = ''GATEWAY_TIMEOUT''"

definition mapHttpStatusToErrorCode :: "int \<Rightarrow> error_code" where
  "mapHttpStatusToErrorCode status =
     (if status = 400 then INVALID_INPUT else if status = 401 then UNAUTHORIZED else if status = 403 then FORBIDDEN
      else if status = 404 then NOT_FOUND else if status = 409 then CONFLICT else if status = 422 then BUSINESS_RULE_VIOLATION
      else if status = 429 then RATE_LIMIT_EXCEEDED else if status = 504 then GATEWAY_TIMEOUT
      else if status = 503 then SERVICE_UNAVAILABLE else INTERNAL_ERROR)"

definition mapErrorToStatus :: "js_error \<Rightarrow> int" where
  "mapErrorToStatus error =
     (let message = toLowerCase (err_message error); says = (\<lambda>s. str_includes s message)
      in if says ''not found'' \<or> says ''does not exist'' then 404
         else if says ''unauthorized'' \<or> says ''authentication'' then 401
         else if says ''forbidden'' \<or> says ''permission'' then 403
         else if says ''validation'' \<or> says ''invalid'' then 400
         else if says ''conflict'' \<or> says ''duplicate'' then 409
         else if says ''timeout'' then 504
         else if says ''rate limit'' \<or> says ''too many requests'' then 429
         else 500)"

definition mapErrorToErrorCode :: "js_error \<Rightarrow> error_code" where
  "mapErrorToErrorCode error =
     (let name = toLowerCase (err_ctor error); message = toLowerCase (err_message error);
          tells = (\<lambda>n m. str_includes n name \<or> str_includes m message)
      in if tells ''validation'' ''validation'' then VALIDATION_FAILED
         else if tells ''notfound'' ''not found'' then NOT_FOUND
         else if tells ''unauthorized'' ''unauthorized'' then UNAUTHORIZED
         else if tells ''forbidden'' ''forbidden'' then FORBIDDEN
         else if tells ''conflict'' ''conflict'' then CONFLICT
         else if tells ''timeout'' ''timeout'' then TIMEOUT
         else INTERNAL_ERROR)"

section \<open>What the filter catches\<close>

text \<open>
  An error of the validator of classes has a property, a value, the constraints it violates, and \<open>vd_json\<close> when
  it is serialised as a whole. The errors of the domain are known to the filter by their constructor, their
  message and their context. Errors that are instances of none of these have a constructor and a message.
\<close>

record validation_error =
  vd_property :: string
  vd_value :: "json option"
  vd_constraints :: "(string \<times> string) list option"
  vd_json :: json

record domain_failure =
  df_ctor :: string
  df_message :: string
  df_context :: "params option"

datatype failure =
  HttpFailure http_exception
| DomainFailure domain_failure
| ValidationFailure validation_error
| FailureList "validation_error list"
| ErrorFailure js_error
| OtherFailure

definition enhanced_failure :: "enhanced_exception \<Rightarrow> failure" where
  "enhanced_failure e = DomainFailure \<lparr>df_ctor = ee_ctor e, df_message = dx_message e, df_context = ee_context e\<rparr>"

text \<open>A development server shows the stack, when what was thrown has one.\<close>

record structured_env =
  sv_now :: msec
  sv_development :: bool
  sv_stack :: "failure \<Rightarrow> string option"
  sv_ctx :: "request_context option"

definition isValidationErrorArray :: "failure \<Rightarrow> bool" where
  "isValidationErrorArray e = (case e of FailureList (_ # _) \<Rightarrow> True | _ \<Rightarrow> False)"

definition formatValidationErrors :: "failure \<Rightarrow> json option" where
  "formatValidationErrors e = (case e of
     FailureList errs \<Rightarrow> Some (JArr (map (\<lambda>err. JObj ([(''field'', JStr (vd_property err)),
       (''message'', JStr (join '', '' (map snd (js_nullish (vd_constraints err) []))))] @ jopt ''value'' (vd_value err))) errs))
   | ValidationFailure err \<Rightarrow> Some (vd_json err)
   | _ \<Rightarrow> None)"

definition createErrorResponse :: "structured_env \<Rightarrow> string \<Rightarrow> failure \<Rightarrow> error_code \<Rightarrow> json \<Rightarrow> json option \<Rightarrow> json" where
  "createErrorResponse env path exception code message details = JObj
     [(''success'', JBool False),
      (''error'', JObj ([(''code'', JStr (code_str code)), (''message'', message)] @ jopt ''details'' details @
        [(''timestamp'', JStr (toISOString (sv_now env))), (''path'', JStr path)] @
        jopt ''requestId'' (map_option JStr (Option.bind (sv_ctx env) rc_causationId)) @
        jopt ''userId'' (map_option JStr (Option.bind (sv_ctx env) rc_userId)) @
        jopt ''correlationId'' (map_option (JStr \<circ> rc_correlationId) (sv_ctx env)) @
        (if sv_development env then jopt ''stack'' (map_option JStr (sv_stack env exception)) else [])))]"

definition http_message :: "params \<Rightarrow> json" where
  "http_message response =
     (if opt_truthy (map_of response ''message'') then the (map_of response ''message'')
      else if opt_truthy (map_of response ''error'') then the (map_of response ''error'')
      else JStr ''Internal server error'')"

definition http_details :: "params \<Rightarrow> json" where
  "http_details response = (if opt_truthy (map_of response ''details'') then the (map_of response ''details'') else JObj response)"

text \<open>Status, body, and the message of the error that is logged.\<close>

definition handleError :: "structured_env \<Rightarrow> string \<Rightarrow> failure \<Rightarrow> int \<times> json \<times> string" where
  "handleError env path exception =
     (let respond = createErrorResponse env path exception in
      case exception of
        HttpFailure e \<Rightarrow>
          (hx_status e,
           (case hx_response e of
              Inl s \<Rightarrow> respond (mapHttpStatusToErrorCode (hx_status e)) (JStr s) None
            | Inr response \<Rightarrow> respond (mapHttpStatusToErrorCode (hx_status e)) (http_message response) (Some (http_details response))),
           hx_message e)
      | DomainFailure e \<Rightarrow>
          (422, respond DOMAIN_ERROR (JStr (df_message e))
             (Some (JObj ([(''type'', JStr (df_ctor e))] @ jopt ''context'' (map_option JObj (df_context e))))), df_message e)
      | ErrorFailure e \<Rightarrow>
          if err_ctor e = ''QueryFailedError''
          then (500, respond DATABASE_ERROR (JStr ''Database operation failed'') (Some (JObj [(''type'', JStr ''database_error'')])), err_message e)
          else (mapErrorToStatus e, respond (mapErrorToErrorCode e)
                 (JStr (if err_message e = [] then ''An unexpected error occurred'' else err_message e))
                 (Some (JObj [(''type'', JStr (err_ctor e))])), err_message e)
      | ValidationFailure _ \<Rightarrow> (400, respond VALIDATION_FAILED (JStr ''Validation failed'') (formatValidationErrors exception), ''Validation failed'')
      | FailureList _ \<Rightarrow>
          if isValidationErrorArray exception
          then (400, respond VALIDATION_FAILED (JStr ''Validation failed'') (formatValidationErrors exception), ''Validation failed'')
          else (500, respond INTERNAL_ERROR (JStr ''An unexpected error occurred'') None, ''Unknown error'')
      | OtherFailure \<Rightarrow> (500, respond INTERNAL_ERROR (JStr ''An unexpected error occurred'') None, ''Unknown error''))"

section \<open>The log of an error\<close>

record error_request =
  eq_method :: string
  eq_url :: string
  eq_headers :: "(string \<times> string) list"
  eq_ip :: "json option"
  eq_body :: "json option"

definition sensitiveHeaders :: "string list" where
  "sensitiveHeaders = [''authorization'', ''cookie'', ''x-api-key'', ''x-auth-token'', ''x-session-token'']"

definition sanitizeHeaders :: "(string \<times> string) list \<Rightarrow> (string \<times> string) list" where
  "sanitizeHeaders headers =
     map (\<lambda>(k, v). (k, if k \<in> set sensitiveHeaders \<and> v \<noteq> [] then ''[REDACTED]'' else v)) headers"

definition sensitiveFields :: "string list" where
  "sensitiveFields = [''password'', ''token'', ''secret'', ''key'', ''apiKey'', ''accessToken'', ''refreshToken'']"

definition sanitizeBody :: "json option \<Rightarrow> json option" where
  "sanitizeBody body =
     (let clean = (\<lambda>ps. Some (JObj (map (\<lambda>(k, v). (k, if k \<in> set sensitiveFields \<and> json_truthy v then REDACTED else v)) ps)))
      in case body of
           Some (JObj ps) \<Rightarrow> clean ps
         | Some (JArr xs) \<Rightarrow> clean (obj_entries (JArr xs))
         | _ \<Rightarrow> body)"

definition logError :: "structured_env \<Rightarrow> error_request \<Rightarrow> string \<Rightarrow> string \<times> json" where
  "logError env q message =
     (''Request failed: '' @ eq_method q @ '' '' @ eq_url q @ '' - '' @ message,
      JObj
       [(''operation'', JObj [(''name'', JStr (eq_method q @ '' '' @ eq_url q)), (''type'', JStr ''http_request''), (''phase'', JStr ''error'')]),
        (''data'', JObj ([(''method'', JStr (eq_method q)), (''url'', JStr (eq_url q))] @
          jopt ''userAgent'' (map_option JStr (map_of (eq_headers q) ''user-agent'')) @ jopt ''ip'' (eq_ip q) @
          [(''headers'', JObj (map (\<lambda>(k, v). (k, JStr v)) (sanitizeHeaders (eq_headers q))))] @
          jopt ''body'' (if eq_method q \<noteq> ''GET'' then sanitizeBody (eq_body q) else None))),
        (''trace'', JObj (jopt ''id'' (map_option (JStr \<circ> rc_correlationId) (sv_ctx env)) @
          jopt ''correlationId'' (map_option (JStr \<circ> rc_correlationId) (sv_ctx env)) @
          jopt ''causationId'' (map_option JStr (Option.bind (sv_ctx env) rc_causationId)) @
          jopt ''userId'' (map_option JStr (Option.bind (sv_ctx env) rc_userId))))])"

definition structured_catch :: "structured_env \<Rightarrow> error_request \<Rightarrow> failure \<Rightarrow> reply \<times> (string \<times> json)" where
  "structured_catch env q exception =
     (case handleError env (eq_url q) exception of (status, body, message) \<Rightarrow>
        (\<lparr>rp_status = status, rp_body = body\<rparr>, logError env q message))"

section \<open>Facts\<close>

text \<open>Every answer has the documented form, and outside development it has no stack.\<close>

lemma error_reply_form:
  "\<exists>ps. fst (snd (handleError env path e)) = JObj [(''success'', JBool False), (''error'', JObj ps)] \<and>
     (\<exists>code. map_of ps ''code'' = Some (JStr (code_str code))) \<and>
     (\<not> sv_development env \<longrightarrow> map_of ps ''stack'' = None)"
proof -
  have "\<exists>ps. createErrorResponse env path e code message details = JObj [(''success'', JBool False), (''error'', JObj ps)] \<and>
     (\<exists>code. map_of ps ''code'' = Some (JStr (code_str code))) \<and> (\<not> sv_development env \<longrightarrow> map_of ps ''stack'' = None)"
    for code message details
    by (auto simp: createErrorResponse_def jopt_def map_add_def split: option.splits)
  moreover have "\<exists>code message details. fst (snd (handleError env path e)) = createErrorResponse env path e code message details"
    by (cases e) (auto simp: handleError_def Let_def split: sum.splits)
  ultimately show ?thesis by metis
qed

lemma error_statuses:
  assumes "\<forall>h. e \<noteq> HttpFailure h"
  shows "fst (handleError env path e) \<in> {400, 401, 403, 404, 409, 422, 429, 500, 504}"
  using assms by (cases e) (simp_all add: handleError_def mapErrorToStatus_def Let_def)

text \<open>No exception of the domain is answered with the status that its class stands for.\<close>

lemma domain_failures_all_422:
  "fst (handleError env path (enhanced_failure e)) = 422"
  "\<exists>ps. fst (snd (handleError env path (enhanced_failure e))) = JObj [(''success'', JBool False), (''error'', JObj ps)] \<and>
     map_of ps ''code'' = Some (JStr ''DOMAIN_ERROR'') \<and> map_of ps ''message'' = Some (JStr (dx_message e))"
  by (simp_all add: handleError_def enhanced_failure_def createErrorResponse_def)

text \<open>Status and code of a plain error are read off different words.\<close>

lemma status_and_code_disagree:
  "mapErrorToStatus \<lparr>err_name = ''Error'', err_ctor = ''Error'', err_message = ''User does not exist''\<rparr> = 404"
  "mapErrorToErrorCode \<lparr>err_name = ''Error'', err_ctor = ''Error'', err_message = ''User does not exist''\<rparr> = INTERNAL_ERROR"
  "mapErrorToStatus \<lparr>err_name = ''Error'', err_ctor = ''NotFoundException'', err_message = ''No such invoice''\<rparr> = 500"
  "mapErrorToErrorCode \<lparr>err_name = ''Error'', err_ctor = ''NotFoundException'', err_message = ''No such invoice''\<rparr> = NOT_FOUND"
  by code_simp+

text \<open>The error log looks at the names of the outermost properties only, the audit log at all of them.\<close>

lemma error_log_keeps_nested_secret:
  "sanitizeBody (Some (JObj [(''user'', JObj [(''password'', JStr s)])])) = Some (JObj [(''user'', JObj [(''password'', JStr s)])])"
  by (simp add: sanitizeBody_def sensitiveFields_def)

lemma audit_hides_what_the_error_log_hides: "k \<in> set sensitiveFields \<Longrightarrow> sensitive (defaultSensitiveFields @ extra) k"
proof -
  have "list_all (sensitive defaultSensitiveFields) sensitiveFields" by code_simp
  then show "k \<in> set sensitiveFields \<Longrightarrow> sensitive (defaultSensitiveFields @ extra) k"
    by (auto simp: list_all_iff sensitive_def)
qed

end
