(* ===== verification/Validation.thy ===== *)
theory Validation
  imports Chat Pii_Encryption Customer_Service
begin

text \<open>
  Validation of requests and pages: the pipes over schemas (src/libs/shared/validation/zod-validation.pipe.ts), the
  format of the class validator's errors (src/libs/shared/http/pipes/validation.pipe.ts), the pagination objects
  (src/libs/shared/http/dtos/pagination.dto.ts) and the page arithmetic of the read side
  (src/libs/core/infrastructure/persistence/read/base-read-dao.ts). A schema is a function to the parsed value,
  to the list of its issues, or to an error of another kind.
\<close>

section \<open>Reading numbers\<close>

text \<open>
  \<^verbatim>\<open>parseInt\<close> without a radix: white space, a sign, then decimal digits, or hexadecimal ones after
  \<^verbatim>\<open>0x\<close>; \<open>None\<close> is NaN.
\<close>

fun hex_digits :: "string \<Rightarrow> nat list" where
  "hex_digits [] = []"
| "hex_digits (c # s) = (case hex_value c of None \<Rightarrow> [] | Some n \<Rightarrow> n # hex_digits s)"

definition parse_digits :: "string \<Rightarrow> int option" where
  "parse_digits s =
     (if take 2 s = ''0x'' \<or> take 2 s = ''0X''
      then (let ds = hex_digits (drop 2 s) in if ds = [] then None else Some (int (fold (\<lambda>d n. 16 * n + d) ds 0)))
      else (let ds = takeWhile is_digit s in if ds = [] then None else Some (int (parse_dec ds))))"

definition parse_int_str :: "string \<Rightarrow> int option" where
  "parse_int_str s =
     (case dropWhile is_space s of
        [] \<Rightarrow> None
      | c # t \<Rightarrow> if c = CHR ''-'' then map_option uminus (parse_digits t)
                 else if c = CHR ''+'' then parse_digits t else parse_digits (c # t))"

definition parseInt :: "json option \<Rightarrow> int option" where
  "parseInt v = (case v of None \<Rightarrow> None | Some j \<Rightarrow> parse_int_str (js_string j))"

definition or_int :: "int option \<Rightarrow> int \<Rightarrow> int" where
  "or_int n d = (case n of None \<Rightarrow> d | Some k \<Rightarrow> if k = 0 then d else k)"
  \<comment> \<open>\<^verbatim>\<open>n || d\<close>\<close>

section \<open>Schema issues\<close>

text \<open>An issue of the schema library, with the properties that the pipe reads.\<close>

record zod_issue =
  zi_code :: string
  zi_path :: "string list"
  zi_message :: string
  zi_expected :: "json option"
  zi_received :: "json option"
  zi_validation :: "json option"
  zi_minimum :: "json option"
  zi_maximum :: "json option"

definition shown :: "json option \<Rightarrow> string" where
  "shown v = (case v of None \<Rightarrow> ''undefined'' | Some j \<Rightarrow> js_string j)"
  \<comment> \<open>in a template string\<close>

definition stringified :: "json option \<Rightarrow> string" where
  "stringified v = (case v of None \<Rightarrow> ''undefined'' | Some j \<Rightarrow> stringify j)"

definition formatErrorMessage :: "zod_issue \<Rightarrow> string" where
  "formatErrorMessage e =
     (let code = zi_code e; v = zi_validation e; is = (\<lambda>s. v = Some (JStr s)) in
      if code = ''invalid_type'' then ''Expected '' @ shown (zi_expected e) @ '', but received '' @ shown (zi_received e)
      else if code = ''invalid_literal'' then ''Invalid value, expected one of: '' @ stringified (zi_expected e)
      else if code = ''invalid_string'' then
        (if is ''email'' then ''Invalid email format'' else if is ''url'' then ''Invalid URL format''
         else if is ''uuid'' then ''Invalid UUID format''
         else if is ''min'' then ''String must be at least '' @ shown (zi_minimum e) @ '' characters''
         else if is ''max'' then ''String must be at most '' @ shown (zi_maximum e) @ '' characters''
         else ''Invalid string: '' @ shown v)
      else if code = ''invalid_number'' then
        (if is ''min'' then ''Number must be at least '' @ shown (zi_minimum e)
         else if is ''max'' then ''Number must be at most '' @ shown (zi_maximum e)
         else if is ''int'' then ''Number must be an integer'' else if is ''positive'' then ''Number must be positive''
         else ''Invalid number: '' @ shown v)
      else if code = ''invalid_date'' then ''Invalid date format''
      else if code = ''too_small'' then ''Must be at least '' @ shown (zi_minimum e) @ '' items''
      else if code = ''too_big'' then ''Must be at most '' @ shown (zi_maximum e) @ '' items''
      else js_or_str (Some (zi_message e)) ''Validation failed'')"

definition getExpectedMessage :: "zod_issue \<Rightarrow> json option" where
  "getExpectedMessage e =
     (if zi_code e = ''invalid_type'' then zi_expected e
      else if zi_code e = ''invalid_literal'' then map_option (JStr \<circ> stringify) (zi_expected e)
      else if zi_code e = ''invalid_string'' \<or> zi_code e = ''invalid_number'' then zi_validation e
      else None)"

definition formatZodErrors :: "zod_issue list \<Rightarrow> json" where
  "formatZodErrors issues = JArr (map (\<lambda>e. JObj
     ([(''field'', JStr (join ''.'' (zi_path e))), (''message'', JStr (formatErrorMessage e)), (''code'', JStr (zi_code e))] @
      jopt ''received'' (zi_received e) @ jopt ''expected'' (getExpectedMessage e))) issues)"

section \<open>The pipes\<close>

datatype argument_type = BodyArg | QueryArg | ParamArg | CustomArg

datatype parse_failure = ZodError "zod_issue list" | OtherFault js_error

datatype pipe_failure = BadRequest json | PipeFault js_error

text \<open>\<open>schema\<close> is the one filed at the type of the argument; \<open>formatter\<close> the caller's own format for errors.\<close>

definition zod_transform ::
  "(zod_issue list \<Rightarrow> json) option \<Rightarrow> msec \<Rightarrow> (json \<Rightarrow> parse_failure + json) option \<Rightarrow> argument_type \<Rightarrow> json option \<Rightarrow>
   pipe_failure + json option" where
  "zod_transform formatter now schema type value =
     (if \<not> opt_truthy value then Inr value
      else if type \<noteq> BodyArg \<and> schema = None then Inr value
      else (case schema of
        None \<Rightarrow> Inr value
      | Some parse \<Rightarrow> (case parse (the value) of
          Inr result \<Rightarrow> Inr (Some result)
        | Inl (OtherFault e) \<Rightarrow> Inl (PipeFault e)
        | Inl (ZodError issues) \<Rightarrow> Inl (BadRequest (JObj [(''success'', JBool False), (''error'', JObj
            [(''code'', JStr ''VALIDATION_FAILED''), (''message'', JStr ''Request validation failed''),
             (''details'', js_nullish formatter formatZodErrors issues), (''timestamp'', JStr (toISOString now))])])))))"

definition zod_param_transform ::
  "msec \<Rightarrow> (json \<Rightarrow> parse_failure + json) option \<Rightarrow> argument_type \<Rightarrow> json option \<Rightarrow> pipe_failure + json option" where
  "zod_param_transform now schema type value = (if type \<noteq> ParamArg then Inr value else zod_transform None now schema type value)"

definition zod_query_transform ::
  "msec \<Rightarrow> (json \<Rightarrow> parse_failure + json) option \<Rightarrow> argument_type \<Rightarrow> json option \<Rightarrow> pipe_failure + json option" where
  "zod_query_transform now schema type value = (if type \<noteq> QueryArg then Inr value else zod_transform None now schema type value)"

section \<open>Decorators\<close>

text \<open>\<^verbatim>\<open>/^[0-9a-f]{8}-[0-9a-f]{4}-[1-5][0-9a-f]{3}-[89ab][0-9a-f]{3}-[0-9a-f]{12}$/i\<close>\<close>

definition uuid_shape :: "string \<Rightarrow> bool" where
  "uuid_shape s \<longleftrightarrow> length s = 36 \<and>
     (\<forall>i \<in> {0..<36}. if i \<in> {8, 13, 18, 23} then s ! i = CHR ''-''
        else if i = 14 then s ! i \<in> set ''12345''
        else if i = 19 then s ! i \<in> set ''89abAB''
        else s ! i \<in> set ''0123456789abcdefABCDEF'')"

text \<open>The first argument that is a string of another shape, by its position.\<close>

fun bad_uuid :: "nat \<Rightarrow> json list \<Rightarrow> nat option" where
  "bad_uuid i [] = None"
| "bad_uuid i (JStr s # args) = (if uuid_shape s then bad_uuid (Suc i) args else Some i)"
| "bad_uuid i (_ # args) = bad_uuid (Suc i) args"

definition ValidateUUID :: "(json list \<Rightarrow> 'a) \<Rightarrow> json list \<Rightarrow> string + 'a" where
  "ValidateUUID originalMethod args = (case bad_uuid 0 args of
     Some i \<Rightarrow> Inl (''Invalid UUID format at position '' @ js_nat_str i) | None \<Rightarrow> Inr (originalMethod args))"

definition page_like :: "json \<Rightarrow> bool" where
  "page_like v = (case v of JObj ps \<Rightarrow> map_of ps ''page'' \<noteq> None \<or> map_of ps ''limit'' \<noteq> None | _ \<Rightarrow> False)"

definition clamp_page :: "json \<Rightarrow> json" where
  "clamp_page v = (case v of
     JObj ps \<Rightarrow> JObj (AList.update ''limit'' (JNum (min 100 (max 1 (or_int (parseInt (map_of ps ''limit'')) 10))))
       (AList.update ''page'' (JNum (max 1 (or_int (parseInt (map_of ps ''page'')) 1))) ps))
   | _ \<Rightarrow> v)"

fun clamp_first :: "json list \<Rightarrow> json list" where
  "clamp_first [] = []"
| "clamp_first (v # vs) = (if page_like v then clamp_page v # vs else v # clamp_first vs)"

definition ValidatePagination :: "(json list \<Rightarrow> 'a) \<Rightarrow> json list \<Rightarrow> 'a" where
  "ValidatePagination originalMethod args = originalMethod (clamp_first args)"

section \<open>Errors of the class validator\<close>

text \<open>An error without children has none or an empty list, which is the same to the code.\<close>

datatype class_error =
  ClassError (ce_property: string) (ce_constraints: "(string \<times> string) list option") (ce_children: "class_error list")

fun formatErrors :: "string \<Rightarrow> class_error \<Rightarrow> (string \<times> string list) list" where
  "formatErrors parentPath (ClassError property constraints children) =
     (let propertyPath = (if parentPath \<noteq> [] then parentPath @ ''.'' @ property else property) in
      (case constraints of None \<Rightarrow> [] | Some cs \<Rightarrow> [(propertyPath, map snd cs)]) @
      concat (map (formatErrors propertyPath) children))"

definition assign_all :: "(string \<times> 'a) list \<Rightarrow> (string \<times> 'a) list" where
  "assign_all entries = fold (\<lambda>(k, v). AList.update k v) entries []"

definition validationExceptionFactory :: "class_error list \<Rightarrow> json" where
  "validationExceptionFactory errors = JObj
     [(''code'', JStr ''VALIDATION_ERROR''), (''message'', JStr ''Validation failed''),
      (''details'', JObj (map (\<lambda>(k, ms). (k, JArr (map JStr ms))) (assign_all (concat (map (formatErrors []) errors)))))]"

section \<open>Pages\<close>

record pagination =
  pa_page :: "int option"
  pa_limit :: "int option"
  pa_sortBy :: "string option"
  pa_sortOrder :: "string option"

text \<open>\<^verbatim>\<open>Object.assign\<close> over the defaults; a property that is given as undefined overrides its default.\<close>

definition new_PaginationDto :: "(pagination \<Rightarrow> pagination) \<Rightarrow> pagination" where
  "new_PaginationDto partial = partial \<lparr>pa_page = Some 1, pa_limit = Some 10, pa_sortBy = None, pa_sortOrder = Some ''asc''\<rparr>"

definition getSkip :: "pagination \<Rightarrow> int" where
  "getSkip p = (or_int (pa_page p) 1 - 1) * or_int (pa_limit p) 10"

definition getTake :: "pagination \<Rightarrow> int" where
  "getTake p = or_int (pa_limit p) 10"

definition lower_ascii :: "string \<Rightarrow> string" where
  "lower_ascii = map (\<lambda>c. if 65 \<le> (of_char c :: nat) \<and> (of_char c :: nat) \<le> 90 then char_of ((of_char c :: nat) + 32) else c)"

definition pagination_validate :: "pagination \<Rightarrow> bool \<times> string list" where
  "pagination_validate p =
     (let errors =
        (case pa_page p of None \<Rightarrow> [] | Some n \<Rightarrow> if n < 1 then [''Page must be greater than 0''] else []) @
        (case pa_limit p of None \<Rightarrow> [] | Some n \<Rightarrow>
           (if n < 1 then [''Limit must be greater than 0''] else []) @
           (if n > 100 then [''Limit cannot exceed 100''] else [])) @
        (if truthy_str (pa_sortOrder p) \<and> lower_ascii (the (pa_sortOrder p)) \<notin> {''asc'', ''desc''}
         then [''Sort order must be '' @ [CHR 0x27] @ ''asc'' @ [CHR 0x27] @ '' or '' @ [CHR 0x27] @ ''desc'' @ [CHR 0x27]] else [])
      in (errors = [], errors))"

record page_meta =
  pm_page :: int
  pm_limit :: int
  pm_total :: int
  pm_totalPages :: int
  pm_hasNextPage :: bool
  pm_hasPreviousPage :: bool

text \<open>\<^verbatim>\<open>Math.ceil(total / limit)\<close> for a limit other than 0.\<close>

definition page_count :: "int \<Rightarrow> int \<Rightarrow> int" where
  "page_count totalRows limit = \<lceil>of_int totalRows / of_int limit :: rat\<rceil>"

definition new_PaginatedResponseDto :: "'a list \<Rightarrow> int \<Rightarrow> int \<Rightarrow> int \<Rightarrow> 'a list \<times> page_meta" where
  "new_PaginatedResponseDto data totalRows page limit =
     (data, \<lparr>pm_page = page, pm_limit = limit, pm_total = totalRows, pm_totalPages = page_count totalRows limit,
             pm_hasNextPage = (page < page_count totalRows limit), pm_hasPreviousPage = (page > 1)\<rparr>)"

definition PaginatedResponseDto_create :: "'a list \<Rightarrow> int \<Rightarrow> pagination \<Rightarrow> 'a list \<times> page_meta" where
  "PaginatedResponseDto_create data totalRows p = new_PaginatedResponseDto data totalRows (or_int (pa_page p) 1) (or_int (pa_limit p) 10)"

section \<open>The read side\<close>

definition executeQueryOne :: "('s, 'e, 'a list) async \<Rightarrow> ('s, 'e, 'a option) async" where
  "executeQueryOne query = bnd query (\<lambda>results. ret (case results of [] \<Rightarrow> None | r # _ \<Rightarrow> Some r))"

text \<open>The database gives a count as a number or as its digits; other strings are not counts.\<close>

definition executeCount :: "('s, 'e, json list) async \<Rightarrow> ('s, 'e, int) async" where
  "executeCount query = bnd (executeQueryOne query) (\<lambda>result. ret (case result of
     None \<Rightarrow> 0
   | Some row \<Rightarrow> (case json_get ''count'' row of
       Some (JNum n) \<Rightarrow> n | Some (JStr s) \<Rightarrow> int (parse_dec s) | _ \<Rightarrow> 0)))"

definition buildPaginationClause :: "int \<Rightarrow> int \<Rightarrow> string" where
  "buildPaginationClause page limit = ''LIMIT '' @ js_int_str limit @ '' OFFSET '' @ js_int_str ((page - 1) * limit)"

record page_info =
  pi_totalCount :: int
  pi_totalPages :: int
  pi_currentPage :: int
  pi_hasNextPage :: bool
  pi_hasPreviousPage :: bool

definition calculatePagination :: "int \<Rightarrow> int \<Rightarrow> int \<Rightarrow> page_info" where
  "calculatePagination totalCount page limit =
     \<lparr>pi_totalCount = totalCount, pi_totalPages = page_count totalCount limit, pi_currentPage = page,
      pi_hasNextPage = (page < page_count totalCount limit), pi_hasPreviousPage = (page > 1)\<rparr>"

section \<open>Facts\<close>

text \<open>There is a next page exactly when rows are left after this one.\<close>

lemma next_page_iff_rows_left: "0 < limit \<Longrightarrow> page < page_count totalRows limit \<longleftrightarrow> page * limit < totalRows"
proof -
  assume l: "0 < limit"
  have "page < page_count totalRows limit \<longleftrightarrow> (of_int page :: rat) < of_int totalRows / of_int limit"
    unfolding page_count_def by (simp add: less_ceiling_iff)
  also have "\<dots> \<longleftrightarrow> (of_int (page * limit) :: rat) < of_int totalRows" using l by (simp add: less_divide_eq)
  finally show ?thesis by linarith
qed

lemma next_page_of_dto: "0 < limit \<Longrightarrow>
  pm_hasNextPage (snd (new_PaginatedResponseDto xs totalRows page limit)) \<longleftrightarrow> page * limit < totalRows"
  by (simp add: new_PaginatedResponseDto_def next_page_iff_rows_left)

text \<open>Whatever the client sent, the handler sees a page of one to a hundred rows.\<close>

lemma clamped_page:
  assumes "page_like v"
  shows "\<exists>ps n k. clamp_page v = JObj ps \<and> map_of ps ''page'' = Some (JNum n) \<and> map_of ps ''limit'' = Some (JNum k) \<and>
     1 \<le> n \<and> 1 \<le> k \<and> k \<le> 100"
  using assms by (cases v) (simp_all add: page_like_def clamp_page_def update_conv')

lemma valid_pagination_take:
  assumes "fst (pagination_validate p)"
  shows "1 \<le> getTake p \<and> getTake p \<le> 100 \<and> 0 \<le> getSkip p"
  using assms
  by (cases "pa_page p"; cases "pa_limit p") (auto simp: pagination_validate_def Let_def getTake_def getSkip_def or_int_def split: if_splits)

text \<open>Only what is addressed to a pipe is validated.\<close>

lemma pipes_leave_other_arguments:
  "type \<noteq> ParamArg \<Longrightarrow> zod_param_transform now schema type v = Inr v"
  "type \<noteq> QueryArg \<Longrightarrow> zod_query_transform now schema type v = Inr v"
  "type \<noteq> BodyArg \<Longrightarrow> zod_transform f now None type v = Inr v"
  by (simp_all add: zod_param_transform_def zod_query_transform_def zod_transform_def)

text \<open>Falsy values are never validated, so a schema that requires a number accepts 0 and false without looking.\<close>

lemma falsy_skips_schema: "zod_transform f now (Some parse) BodyArg (Some (JNum 0)) = Inr (Some (JNum 0))"
  "zod_transform f now (Some parse) BodyArg None = Inr None"
  by (simp_all add: zod_transform_def opt_truthy_def)

end
