(* ===== verification/Request_Logging.thy ===== *)
theory Request_Logging
  imports Structured_Errors Validation
begin

text \<open>
  What is recorded of every request: the log entries of
  src/libs/shared/observability/logging.interceptor.ts and the metrics of metrics.middleware.ts. The log and the
  instruments are lists of records. Two clocks are read: \<open>performance.now()\<close>, the time since the process started,
  and \<open>Date.now()\<close>; both are whole milliseconds here. The header content-length holds decimal digits.
\<close>

section \<open>Requests and responses\<close>

record logged_request =
  ht_method :: string
  ht_url :: string
  ht_headers :: "(string \<times> string) list"
  ht_ip :: "json option"
  ht_query :: json
  ht_body :: "json option"

record logged_response =
  hs_statusCode :: int
  hs_headers :: "(string \<times> string) list"

definition header_int :: "(string \<times> string) list \<Rightarrow> string \<Rightarrow> int option" where
  "header_int headers k = (case map_of headers k of None \<Rightarrow> None | Some s \<Rightarrow> if s = [] then None else parse_int_str s)"

section \<open>The log\<close>

definition responseFields :: "string list" where
  "responseFields = [''token'', ''secret'', ''key'', ''accessToken'', ''refreshToken'', ''password'']"

definition log_sanitizeBody :: "json option \<Rightarrow> json option" where
  "log_sanitizeBody body = (if opt_truthy body then map_option (redactFields sensitiveFields) body else body)"

definition sanitizeResponseData :: "json option \<Rightarrow> json option" where
  "sanitizeResponseData data = (if opt_truthy data then map_option (redactFields responseFields) data else data)"

definition content_has :: "(string \<times> string) list \<Rightarrow> string \<Rightarrow> bool" where
  "content_has headers s = (case map_of headers ''content-type'' of None \<Rightarrow> False | Some ct \<Rightarrow> str_includes s ct)"

definition too_large :: "(string \<times> string) list \<Rightarrow> bool" where
  "too_large headers = (case header_int headers ''content-length'' of None \<Rightarrow> False | Some n \<Rightarrow> n > 1024 * 1024)"

definition shouldLogBody :: "logged_request \<Rightarrow> bool" where
  "shouldLogBody q \<longleftrightarrow> ht_method q \<noteq> ''GET'' \<and> \<not> content_has (ht_headers q) ''multipart/form-data'' \<and>
     \<not> content_has (ht_headers q) ''application/octet-stream'' \<and> \<not> too_large (ht_headers q)"

definition shouldLogResponseData :: "bool \<Rightarrow> logged_response \<Rightarrow> bool" where
  "shouldLogResponseData development r \<longleftrightarrow> development \<and> \<not> too_large (hs_headers r) \<and>
     \<not> content_has (hs_headers r) ''image/'' \<and> \<not> content_has (hs_headers r) ''video/'' \<and>
     \<not> content_has (hs_headers r) ''application/octet-stream''"

definition getResponseSize :: "(string \<times> string) list \<Rightarrow> int option" where
  "getResponseSize headers = header_int headers ''content-length''"

record log_entry =
  le_message :: string
  le_phase :: string
  le_duration :: "int option"
  le_data :: json

definition logRequest :: "logged_request \<Rightarrow> log_entry" where
  "logRequest q = \<lparr>le_message = ''Incoming request: '' @ ht_method q @ '' '' @ ht_url q, le_phase = ''start'', le_duration = None,
     le_data = JObj ([(''method'', JStr (ht_method q)), (''url'', JStr (ht_url q))] @
       jopt ''userAgent'' (map_option JStr (map_of (ht_headers q) ''user-agent'')) @ jopt ''ip'' (ht_ip q) @
       [(''headers'', JObj (map (\<lambda>(k, v). (k, JStr v)) (sanitizeHeaders (ht_headers q)))), (''query'', ht_query q)] @
       jopt ''body'' (if shouldLogBody q then log_sanitizeBody (ht_body q) else None))\<rparr>"

text \<open>\<open>startTime\<close> was read from one clock, the time of the end is read from the other.\<close>

definition logResponse :: "bool \<Rightarrow> logged_request \<Rightarrow> logged_response \<Rightarrow> json option \<Rightarrow> int \<Rightarrow> msec \<Rightarrow> log_entry" where
  "logResponse development q r data startTime date_now =
     \<lparr>le_message = ''Request completed: '' @ ht_method q @ '' '' @ ht_url q, le_phase = ''end'',
      le_duration = Some (date_now - startTime),
      le_data = JObj ([(''statusCode'', JNum (hs_statusCode r))] @ jopt ''responseSize'' (map_option JNum (getResponseSize (hs_headers r))) @
        jopt ''responseData'' (if shouldLogResponseData development r then sanitizeResponseData data else None))\<rparr>"

definition log_failure :: "string option \<Rightarrow> logged_request \<Rightarrow> js_error \<Rightarrow> int \<Rightarrow> msec \<Rightarrow> log_entry" where
  "log_failure stack q e startTime date_now =
     \<lparr>le_message = ''Request failed: '' @ ht_method q @ '' '' @ ht_url q @ '' - '' @ err_message e, le_phase = ''error'',
      le_duration = Some (date_now - startTime),
      le_data = JObj ([(''method'', JStr (ht_method q)), (''url'', JStr (ht_url q)), (''errorType'', JStr (err_ctor e))] @
        jopt ''stack'' (map_option JStr stack))\<rparr>"

text \<open>The outcome passes through; \<open>origin\<close> is the time at which the process started.\<close>

definition log_intercept ::
  "bool \<Rightarrow> (js_error \<Rightarrow> string option) \<Rightarrow> msec \<Rightarrow> logged_request \<Rightarrow> logged_response \<Rightarrow> msec \<Rightarrow> msec \<Rightarrow> js_error + json option \<Rightarrow>
   (js_error + json option) \<times> log_entry list" where
  "log_intercept development stack origin q r t0 t1 outcome =
     (let startTime = t0 - origin in
      (outcome, [logRequest q, (case outcome of
         Inr data \<Rightarrow> logResponse development q r data startTime t1
       | Inl e \<Rightarrow> log_failure (if development then stack e else None) q e startTime t1)]))"

section \<open>Metrics\<close>

record metrics_config =
  mg_enable :: "bool option"
  mg_includePaths :: "string list option"
  mg_excludePaths :: "string list option"

text \<open>
  A pattern with stars is matched as a regular expression that is not anchored: dots stand for any character. Other
  special characters of regular expressions do not occur in paths and are left out.
\<close>

fun re_here :: "string \<Rightarrow> string \<Rightarrow> bool" where
  "re_here [] s = True"
| "re_here (p # ps) [] = (p = CHR ''*'' \<and> re_here ps [])"
| "re_here (p # ps) (c # s) =
     (if p = CHR ''*'' then re_here ps (c # s) \<or> re_here (p # ps) s
      else (p = CHR ''.'' \<or> p = c) \<and> re_here ps s)"

fun re_anywhere :: "string \<Rightarrow> string \<Rightarrow> bool" where
  "re_anywhere p [] = re_here p []"
| "re_anywhere p (c # s) = (re_here p (c # s) \<or> re_anywhere p s)"

definition matchPath :: "string \<Rightarrow> string \<Rightarrow> bool" where
  "matchPath path pattern =
     (if pattern = ''*'' then True else if CHR ''*'' \<in> set pattern then re_anywhere pattern path else path = pattern)"

definition shouldSkipPath :: "metrics_config option \<Rightarrow> string \<Rightarrow> bool" where
  "shouldSkipPath config path =
     (let includePaths = js_nullish (Option.bind config mg_includePaths) []; excludePaths = js_nullish (Option.bind config mg_excludePaths) []
      in if includePaths \<noteq> [] then \<not> list_ex (matchPath path) includePaths
         else if excludePaths \<noteq> [] then list_ex (matchPath path) excludePaths else False)"

definition getUserAgentType :: "string \<Rightarrow> string" where
  "getUserAgentType userAgent =
     (if str_includes ''Mozilla'' userAgent then ''browser'' else if str_includes ''curl'' userAgent then ''curl''
      else if str_includes ''Postman'' userAgent then ''postman'' else if str_includes ''python-requests'' userAgent then ''python''
      else if str_includes ''axios'' userAgent then ''nodejs'' else ''unknown'')"

definition getMetricAttributes :: "logged_request \<Rightarrow> logged_response \<Rightarrow> (string \<times> string) list" where
  "getMetricAttributes q r =
     [(''http.method'', ht_method q), (''http.status_code'', js_int_str (hs_statusCode r)),
      (''http.route'', takeWhile (\<lambda>c. c \<noteq> CHR ''?'') (ht_url q)),
      (''http.user_agent.type'', getUserAgentType (js_nullish (map_of (ht_headers q) ''user-agent'') []))]"

datatype measurement =
  RequestDuration rat "(string \<times> string) list"
| RequestCount "(string \<times> string) list"
| RequestSize int "(string \<times> string) list"
| ResponseSize int "(string \<times> string) list"

definition recordMetrics :: "logged_request \<Rightarrow> logged_response \<Rightarrow> rat \<Rightarrow> int \<Rightarrow> int \<Rightarrow> measurement list" where
  "recordMetrics q r duration requestSize responseSize =
     (let attributes = getMetricAttributes q r in
      [RequestDuration duration attributes, RequestCount attributes] @
      (if requestSize > 0 then [RequestSize requestSize attributes] else []) @
      (if responseSize > 0 then [ResponseSize responseSize attributes] else []))"

text \<open>What a request adds to the instruments once its answer is sent; both times are of the same clock.\<close>

definition metrics_use :: "bool \<Rightarrow> metrics_config option \<Rightarrow> logged_request \<Rightarrow> logged_response \<Rightarrow> int \<Rightarrow> int \<Rightarrow> measurement list" where
  "metrics_use meter config q r startTime endTime =
     (if \<not> meter \<or> Option.bind config mg_enable = Some False then []
      else if shouldSkipPath config (ht_url q) then []
      else recordMetrics q r (of_int (endTime - startTime) / 1000)
        (js_nullish (header_int (ht_headers q) ''content-length'') 0) (js_nullish (getResponseSize (hs_headers r)) 0))"

section \<open>Facts\<close>

text \<open>Every logged duration is too long by the time at which the process started, some fifty years.\<close>

lemma logged_duration_wrong:
  "\<exists>e. snd (log_intercept development stack origin q r t0 t1 outcome) = [logRequest q, e] \<and> le_duration e = Some ((t1 - t0) + origin)"
  by (cases outcome) (simp_all add: log_intercept_def logResponse_def log_failure_def)

lemma log_outcome_unchanged: "fst (log_intercept development stack origin q r t0 t1 outcome) = outcome"
  by (simp add: log_intercept_def Let_def)

text \<open>The request log hides what the error log hides, and at any depth.\<close>

lemma log_body_exact:
  assumes "opt_truthy (Some a)" "opt_truthy (Some b)"
  shows "log_sanitizeBody (Some a) = log_sanitizeBody (Some b) \<longleftrightarrow> same_public sensitiveFields a b"
  using assms by (simp add: log_sanitizeBody_def redact_eq_iff)

text \<open>A pattern is looked for anywhere in the path, so excluding a prefix excludes paths that only contain it.\<close>

lemma pattern_not_anchored:
  "matchPath ''/billing/api/auth/x'' ''/api/auth/*''"
  by code_simp

text \<open>The query is part of the address that the filters see, so an exact path does not match a request with a query.\<close>

lemma query_escapes_exclusion:
  "shouldSkipPath (Some \<lparr>mg_enable = None, mg_includePaths = None, mg_excludePaths = Some [''/health'']\<rparr>) ''/health?x=1'' = False"
  by code_simp

end
