(* ===== verification/Aggregates.thy ===== *)
theory Aggregates
  imports Outbox Http_Filter
begin

text \<open>
  The domain layer: entities and aggregate roots (src/libs/core/domain/entities), domain events, value objects and
  specifications, the user aggregate of the auth module (src/modules/auth/domain), and the saving of aggregates by
  src/libs/shared/database/repositories/base-aggregate.repository.ts. \<open>now\<close> is the clock and \<open>uuid n\<close> the
  n-th random id that an operation draws.
\<close>

section \<open>Entities, events and aggregate roots\<close>

record entity =
  en_id :: string
  en_createdAt :: msec
  en_updatedAt :: msec

record aggregate = entity +
  ag_version :: int
  ag_events :: "domain_event list"

definition new_entity :: "msec \<Rightarrow> string \<Rightarrow> msec option \<Rightarrow> msec option \<Rightarrow> entity" where
  "new_entity now i createdAt updatedAt = \<lparr>en_id = i, en_createdAt = js_nullish createdAt now, en_updatedAt = js_nullish updatedAt now\<rparr>"

definition new_aggregate :: "msec \<Rightarrow> string \<Rightarrow> int option \<Rightarrow> msec option \<Rightarrow> msec option \<Rightarrow> aggregate" where
  "new_aggregate now i version createdAt updatedAt =
     entity.extend (new_entity now i createdAt updatedAt) \<lparr>ag_version = js_nullish version 0, ag_events = []\<rparr>"

definition entity_equals :: "'a entity_scheme \<Rightarrow> 'b entity_scheme option \<Rightarrow> bool" where
  "entity_equals x y = (case y of None \<Rightarrow> False | Some z \<Rightarrow> en_id x = en_id z)"

definition markAsUpdated :: "msec \<Rightarrow> 'a aggregate_scheme \<Rightarrow> 'a aggregate_scheme" where
  "markAsUpdated now a = a\<lparr>en_updatedAt := now, ag_version := ag_version a + 1\<rparr>"

definition addDomainEvent :: "msec \<Rightarrow> domain_event \<Rightarrow> 'a aggregate_scheme \<Rightarrow> 'a aggregate_scheme" where
  "addDomainEvent now e a = markAsUpdated now (a\<lparr>ag_events := ag_events a @ [e]\<rparr>)"

definition getDomainEvents :: "'a aggregate_scheme \<Rightarrow> domain_event list" where
  "getDomainEvents a = ag_events a"

definition clearDomainEvents :: "'a aggregate_scheme \<Rightarrow> 'a aggregate_scheme" where
  "clearDomainEvents a = a\<lparr>ag_events := []\<rparr>"

definition new_event :: "string \<Rightarrow> msec \<Rightarrow> string \<Rightarrow> string \<Rightarrow> string \<Rightarrow> json \<Rightarrow> json option \<Rightarrow> domain_event" where
  "new_event eventId now aggregateId aggregateType eventType data metadata =
     \<lparr>de_eventId = eventId, de_eventType = eventType, de_aggregateId = aggregateId, de_aggregateType = aggregateType,
      de_occurredAt = now, de_data = data, de_metadata = metadata\<rparr>"

section \<open>Specifications\<close>

datatype 'a ISpecification =
  Spec "'a \<Rightarrow> bool"
| AndSpecification "'a ISpecification" "'a ISpecification"
| OrSpecification "'a ISpecification" "'a ISpecification"
| NotSpecification "'a ISpecification"

primrec isSatisfiedBy :: "'a ISpecification \<Rightarrow> 'a \<Rightarrow> bool" where
  "isSatisfiedBy (Spec p) x = p x"
| "isSatisfiedBy (AndSpecification l r) x = (isSatisfiedBy l x \<and> isSatisfiedBy r x)"
| "isSatisfiedBy (OrSpecification l r) x = (isSatisfiedBy l x \<or> isSatisfiedBy r x)"
| "isSatisfiedBy (NotSpecification s) x = (\<not> isSatisfiedBy s x)"

section \<open>Value objects\<close>

datatype provider_type = PHONE | ZALO | GOOGLE | FACEBOOK | APPLE
datatype user_role = CUSTOMER | ADMIN
datatype user_status = ACTIVE | SUSPENDED | DELETED

fun provider_value :: "provider_type \<Rightarrow> string" where
  "provider_value PHONE = ''phone''" | "provider_value ZALO = ''zalo''" | "provider_value GOOGLE = ''google''"
| "provider_value FACEBOOK = ''facebook''" | "provider_value APPLE = ''apple''"

fun role_value :: "user_role \<Rightarrow> string" where
  "role_value CUSTOMER = ''customer''" | "role_value ADMIN = ''admin''"

fun user_status_value :: "user_status \<Rightarrow> string" where
  "user_status_value ACTIVE = ''active''" | "user_status_value SUSPENDED = ''suspended''" | "user_status_value DELETED = ''deleted''"

definition provider_fromString :: "string \<Rightarrow> js_error + provider_type" where
  "provider_fromString s =
     (if s = ''phone'' then Inr PHONE else if s = ''zalo'' then Inr ZALO else if s = ''google'' then Inr GOOGLE
      else if s = ''facebook'' then Inr FACEBOOK else if s = ''apple'' then Inr APPLE
      else Inl (new_Error (''Invalid ProviderType: '' @ s)))"

definition role_fromString :: "string \<Rightarrow> js_error + user_role" where
  "role_fromString s = (if s = ''customer'' then Inr CUSTOMER else if s = ''admin'' then Inr ADMIN
     else Inl (new_Error (''Invalid UserRole: '' @ s)))"

definition user_status_fromString :: "string \<Rightarrow> js_error + user_status" where
  "user_status_fromString s = (if s = ''active'' then Inr ACTIVE else if s = ''suspended'' then Inr SUSPENDED
     else if s = ''deleted'' then Inr DELETED else Inl (new_Error (''Invalid UserStatus: '' @ s)))"

definition provider_equals :: "provider_type \<Rightarrow> provider_type \<Rightarrow> bool" where
  "provider_equals a b = (provider_value a = provider_value b)"

section \<open>The user aggregate\<close>

record provider_link = entity +
  pl_userId :: string
  pl_providerType :: provider_type
  pl_providerId :: string
  pl_providerEmail :: "string option"
  pl_isVerified :: bool

definition link_create :: "string \<Rightarrow> msec \<Rightarrow> string \<Rightarrow> provider_type \<Rightarrow> string \<Rightarrow> string option \<Rightarrow> provider_link" where
  "link_create linkId now userId providerType providerId providerEmail =
     entity.extend (new_entity now linkId None None) \<lparr>pl_userId = userId, pl_providerType = providerType,
       pl_providerId = providerId, pl_providerEmail = providerEmail, pl_isVerified = False\<rparr>"

definition link_reconstitute ::
  "string \<Rightarrow> string \<Rightarrow> provider_type \<Rightarrow> string \<Rightarrow> string option \<Rightarrow> bool \<Rightarrow> msec \<Rightarrow> msec \<Rightarrow> provider_link" where
  "link_reconstitute linkId userId providerType providerId providerEmail isVerified createdAt updatedAt =
     entity.extend (new_entity createdAt linkId (Some createdAt) (Some updatedAt)) \<lparr>pl_userId = userId, pl_providerType = providerType,
       pl_providerId = providerId, pl_providerEmail = providerEmail, pl_isVerified = isVerified\<rparr>"

definition link_markVerified :: "msec \<Rightarrow> provider_link \<Rightarrow> provider_link" where
  "link_markVerified now l = l\<lparr>pl_isVerified := True, en_updatedAt := now\<rparr>"

record user = aggregate +
  us_email :: "string option"
  us_phone :: "string option"
  us_name :: string
  us_role :: user_role
  us_status :: user_status
  us_providers :: "provider_link list"

definition provider_data :: "provider_type \<Rightarrow> string \<Rightarrow> json" where
  "provider_data providerType providerId =
     JObj [(''providerType'', JStr (provider_value providerType)), (''providerId'', JStr providerId)]"

definition ProviderLinkedEvent :: "string \<Rightarrow> msec \<Rightarrow> string \<Rightarrow> provider_type \<Rightarrow> string \<Rightarrow> domain_event" where
  "ProviderLinkedEvent eventId now userId providerType providerId =
     new_event eventId now userId ''User'' ''ProviderLinked'' (provider_data providerType providerId) None"

definition UserRegisteredEvent :: "string \<Rightarrow> msec \<Rightarrow> string \<Rightarrow> provider_type \<Rightarrow> string \<Rightarrow> domain_event" where
  "UserRegisteredEvent eventId now userId providerType providerId =
     new_event eventId now userId ''User'' ''UserRegistered'' (provider_data providerType providerId) None"

definition linked :: "provider_type \<Rightarrow> string \<Rightarrow> user \<Rightarrow> bool" where
  "linked providerType providerId u =
     list_ex (\<lambda>p. provider_equals (pl_providerType p) providerType \<and> pl_providerId p = providerId) (us_providers u)"

definition addProvider ::
  "(nat \<Rightarrow> string) \<Rightarrow> msec \<Rightarrow> provider_type \<Rightarrow> string \<Rightarrow> string option \<Rightarrow> user \<Rightarrow> base_exception + user" where
  "addProvider uuid now providerType providerId providerEmail u =
     (if linked providerType providerId u
      then Inl (Conflict_duplicate ''Provider'' (Some (provider_value providerType @ '':'' @ providerId)) (Some providerId))
      else Inr (addDomainEvent now (ProviderLinkedEvent (uuid 1) now (en_id u) providerType providerId)
             (u\<lparr>us_providers := us_providers u @ [link_create (uuid 0) now (en_id u) providerType providerId providerEmail]\<rparr>)))"

record register_params =
  rg_phone :: "string option"
  rg_email :: "string option"
  rg_name :: "string option"
  rg_providerType :: provider_type
  rg_providerId :: string
  rg_providerEmail :: "string option"

definition user_register :: "(nat \<Rightarrow> string) \<Rightarrow> msec \<Rightarrow> register_params \<Rightarrow> base_exception + user" where
  "user_register uuid now p =
     (let u = aggregate.extend (new_aggregate now (uuid 0) (Some 0) None None)
            \<lparr>us_email = rg_email p, us_phone = rg_phone p, us_name = js_nullish (rg_name p) [], us_role = CUSTOMER,
             us_status = ACTIVE, us_providers = []\<rparr>
      in map_sum id (addDomainEvent now (UserRegisteredEvent (uuid 3) now (uuid 0) (rg_providerType p) (rg_providerId p)))
           (addProvider (\<lambda>n. uuid (n + 1)) now (rg_providerType p) (rg_providerId p) (rg_providerEmail p) u))"

definition linkPhone :: "(nat \<Rightarrow> string) \<Rightarrow> msec \<Rightarrow> string \<Rightarrow> user \<Rightarrow> base_exception + user" where
  "linkPhone uuid now phone u =
     (let u' = u\<lparr>us_phone := Some phone\<rparr>
      in if list_ex (\<lambda>p. provider_equals (pl_providerType p) PHONE) (us_providers u) then Inr u'
         else addProvider uuid now PHONE phone None u')"

definition updateName :: "string \<Rightarrow> user \<Rightarrow> user" where
  "updateName n u = u\<lparr>us_name := n\<rparr>"

record user_record =
  ur_id :: string
  ur_version :: int
  ur_email :: "string option"
  ur_phone :: "string option"
  ur_name :: string
  ur_role :: string
  ur_status :: string
  ur_createdAt :: msec
  ur_updatedAt :: msec
  ur_providers :: "provider_link list"

definition user_reconstitute :: "user_record \<Rightarrow> js_error + user" where
  "user_reconstitute r = (case role_fromString (ur_role r) of
     Inl e \<Rightarrow> Inl e
   | Inr role \<Rightarrow> (case user_status_fromString (ur_status r) of
       Inl e \<Rightarrow> Inl e
     | Inr status \<Rightarrow> Inr (aggregate.extend (new_aggregate (ur_createdAt r) (ur_id r) (Some (ur_version r)) (Some (ur_createdAt r)) (Some (ur_updatedAt r)))
         \<lparr>us_email = ur_email r, us_phone = ur_phone r, us_name = ur_name r, us_role = role, us_status = status,
          us_providers = ur_providers r\<rparr>)))"

section \<open>Saving aggregates\<close>

datatype repo_error = Concurrency base_exception | RepoFailure js_error

record save_options =
  so_forceOutbox :: "bool option"
  so_skipEventPublishing :: "bool option"

record ('a, 's) repository =
  rep_useOutbox :: bool
  rep_outbox :: "(domain_event list \<Rightarrow> ('s, repo_error, unit) async) option"  \<comment> \<open>\<^verbatim>\<open>addMany\<close> of the outbox\<close>
  rep_publish :: "domain_event \<Rightarrow> ('s, repo_error, unit) async"
  rep_persist :: "'a \<Rightarrow> int \<Rightarrow> ('s, repo_error, unit) async"

definition new_repository ::
  "(domain_event \<Rightarrow> ('s, repo_error, unit) async) \<Rightarrow> (domain_event list \<Rightarrow> ('s, repo_error, unit) async) option \<Rightarrow> bool option \<Rightarrow>
   ('a \<Rightarrow> int \<Rightarrow> ('s, repo_error, unit) async) \<Rightarrow> js_error + ('a, 's) repository" where
  "new_repository publish outbox useOutbox persist =
     (if useOutbox = Some True \<and> outbox = None
      then Inl (new_Error (''OutboxRepository is required when useOutbox is enabled. '' @
             ''Inject IOutboxRepository or disable useOutbox.''))
      else Inr \<lparr>rep_useOutbox = js_nullish useOutbox False, rep_outbox = outbox, rep_publish = publish, rep_persist = persist\<rparr>)"

text \<open>\<^verbatim>\<open>Promise.all\<close>: everything is started, the first failure is the outcome.\<close>

fun promise_all :: "('s, 'e, unit) async list \<Rightarrow> ('s, 'e, unit) async" where
  "promise_all [] s = (Inr (), s)"
| "promise_all (m # ms) s = (case m s of (r, s1) \<Rightarrow> case promise_all ms s1 of (r', s2) \<Rightarrow>
     ((case r of Inl e \<Rightarrow> Inl e | Inr _ \<Rightarrow> r'), s2))"

definition publishEvents :: "('a, 's) repository \<Rightarrow> domain_event list \<Rightarrow> ('s, repo_error, unit) async" where
  "publishEvents R es = promise_all (map (rep_publish R) es)"

definition persistWithOutbox ::
  "('a, 's) repository \<Rightarrow> 'a \<Rightarrow> int \<Rightarrow> domain_event list \<Rightarrow> ('s, repo_error, unit) async" where
  "persistWithOutbox R a expectedVersion es = (case rep_outbox R of
     None \<Rightarrow> throw (RepoFailure (new_Error ''OutboxRepository is required for Outbox Pattern''))
   | Some addMany \<Rightarrow> seq (rep_persist R a expectedVersion) (if es \<noteq> [] then addMany es else ret ()))"

definition expected_version :: "'a aggregate_scheme \<Rightarrow> int" where
  "expected_version a = (if ag_version a > 0 then ag_version a - 1 else 0)"

definition save ::
  "('a aggregate_scheme, 's) repository \<Rightarrow> save_options option \<Rightarrow> 'a aggregate_scheme \<Rightarrow> ('s, repo_error, 'a aggregate_scheme) async" where
  "save R options a =
     (let es = getDomainEvents a;
          useOutbox = (rep_useOutbox R \<or> Option.bind options so_forceOutbox = Some True)
      in seq (if useOutbox \<and> rep_outbox R \<noteq> None then persistWithOutbox R a (expected_version a) es
              else seq (rep_persist R a (expected_version a))
                (if Option.bind options so_skipEventPublishing \<noteq> Some True \<and> es \<noteq> [] then publishEvents R es else ret ()))
           (ret (clearDomainEvents a)))"

section \<open>Facts about aggregates\<close>

lemma aggregate_simps [simp]:
  "en_id (addDomainEvent now e a) = en_id a" "ag_version (addDomainEvent now e a) = ag_version a + 1"
  "ag_events (addDomainEvent now e a) = ag_events a @ [e]"
  "ag_events (clearDomainEvents a) = []" "ag_version (clearDomainEvents a) = ag_version a" "en_id (clearDomainEvents a) = en_id a"
  by (simp_all add: addDomainEvent_def markAsUpdated_def clearDomainEvents_def)

lemma user_simps [simp]:
  "us_providers (addDomainEvent now e u) = us_providers u" "us_providers (clearDomainEvents u) = us_providers u"
  by (simp_all add: addDomainEvent_def markAsUpdated_def clearDomainEvents_def)

lemma extend_simps [simp]:
  "en_id (aggregate.extend a x) = en_id a" "ag_version (aggregate.extend a x) = ag_version a" "ag_events (aggregate.extend a x) = ag_events a"
  "en_id (entity.extend b y) = en_id b"
  by (simp_all add: aggregate.defs entity.defs)

lemma extend_user [simp]:
  "us_providers (aggregate.extend a \<lparr>us_email = m, us_phone = p, us_name = n, us_role = r, us_status = s, us_providers = ps\<rparr>) = ps"
  by (simp add: aggregate.defs)

lemma new_aggregate_simps [simp]:
  "en_id (new_aggregate now i v c d) = i" "ag_version (new_aggregate now i v c d) = js_nullish v 0" "ag_events (new_aggregate now i v c d) = []"
  by (simp_all add: new_aggregate_def new_entity_def entity.defs)

lemma link_simps [simp]:
  "pl_userId (link_create l now i t p m) = i" "pl_providerType (link_create l now i t p m) = t" "pl_providerId (link_create l now i t p m) = p"
  by (simp_all add: link_create_def entity.defs)

lemma provider_value_inject [simp]: "provider_value a = provider_value b \<longleftrightarrow> a = b"
  by (cases a; cases b) simp_all

lemma provider_roundtrip: "provider_fromString (provider_value t) = Inr t"
  by (cases t) (simp_all add: provider_fromString_def)

lemma role_roundtrip: "role_fromString (role_value r) = Inr r"
  by (cases r) (simp_all add: role_fromString_def)

lemma user_status_roundtrip: "user_status_fromString (user_status_value s) = Inr s"
  by (cases s) (simp_all add: user_status_fromString_def)

text \<open>A stored user is reconstituted with its role and status.\<close>

lemma reconstitute_roundtrip:
  "\<exists>u. user_reconstitute (r\<lparr>ur_role := role_value x, ur_status := user_status_value y\<rparr>) = Inr u \<and>
     us_role u = x \<and> us_status u = y \<and> us_providers u = ur_providers r \<and> ag_version u = ur_version r \<and> ag_events u = []"
  by (simp add: user_reconstitute_def role_roundtrip user_status_roundtrip aggregate.defs js_nullish_def)

definition link_key :: "provider_link \<Rightarrow> provider_type \<times> string" where
  "link_key l = (pl_providerType l, pl_providerId l)"

lemma linked_iff: "linked t p u \<longleftrightarrow> (t, p) \<in> link_key ` set (us_providers u)"
  by (auto simp: linked_def list_ex_iff provider_equals_def link_key_def image_iff)

section \<open>The invariants of a user\<close>

definition user_wf :: "user \<Rightarrow> bool" where
  "user_wf u \<longleftrightarrow> us_providers u \<noteq> [] \<and> distinct (map link_key (us_providers u)) \<and>
     list_all (\<lambda>l. pl_userId l = en_id u) (us_providers u) \<and>
     list_all (\<lambda>e. de_aggregateId e = en_id u \<and> de_aggregateType e = ''User'') (ag_events u) \<and>
     int (length (ag_events u)) \<le> ag_version u"

lemma events_User [simp]:
  "de_aggregateId (ProviderLinkedEvent e now i t p) = i" "de_aggregateType (ProviderLinkedEvent e now i t p) = ''User''"
  "de_aggregateId (UserRegisteredEvent e now i t p) = i" "de_aggregateType (UserRegisteredEvent e now i t p) = ''User''"
  by (simp_all add: ProviderLinkedEvent_def UserRegisteredEvent_def new_event_def)

lemma addProvider_wf:
  assumes "addProvider uuid now t p m u = Inr u'" "user_wf u"
  shows "user_wf u'"
  using assms by (auto simp: addProvider_def linked_iff user_wf_def link_key_def split: if_splits)

lemma register_user:
  "\<exists>u. user_register uuid now p = Inr u \<and> user_wf u \<and> ag_version u = 2 \<and> en_id u = uuid 0 \<and> length (ag_events u) = 2"
  by (simp add: user_register_def Let_def addProvider_def linked_def user_wf_def js_nullish_def)

lemma phone_wf: "user_wf u \<Longrightarrow> user_wf (u\<lparr>us_phone := p\<rparr>)" "user_wf u \<Longrightarrow> user_wf (updateName n u)"
  "user_wf u \<Longrightarrow> user_wf (clearDomainEvents u)"
  by (simp_all add: user_wf_def updateName_def clearDomainEvents_def)

lemma linkPhone_total: "\<exists>u'. linkPhone uuid now phone u = Inr u'"
  by (auto simp: linkPhone_def Let_def addProvider_def linked_def list_ex_iff)

text \<open>
  What an observer keeps of a user, without the aggregate: the accounts linked, what happened since the last save, and how
  much happened in all.
\<close>

datatype user_note = NoteLinked provider_type string | NoteRegistered provider_type string

record user_log =
  ul_accounts :: "(provider_type \<times> string) list"
  ul_pending :: "user_note list"
  ul_version :: int

definition log_note :: "user_note \<Rightarrow> user_log \<Rightarrow> user_log" where
  "log_note n A = A\<lparr>ul_pending := ul_pending A @ [n], ul_version := ul_version A + 1\<rparr>"

definition log_link :: "provider_type \<Rightarrow> string \<Rightarrow> user_log \<Rightarrow> user_log" where
  "log_link t i A = (if (t, i) \<in> set (ul_accounts A) then A
     else log_note (NoteLinked t i) (A\<lparr>ul_accounts := ul_accounts A @ [(t, i)]\<rparr>))"

definition log_register :: "provider_type \<Rightarrow> string \<Rightarrow> user_log" where
  "log_register t i = log_note (NoteRegistered t i) (log_link t i \<lparr>ul_accounts = [], ul_pending = [], ul_version = 0\<rparr>)"

datatype user_action = AddProvider "nat \<Rightarrow> string" msec provider_type string "string option"
  | LinkPhone "nat \<Rightarrow> string" msec string | UpdateName string | Saved

fun log_op :: "user_action \<Rightarrow> user_log \<Rightarrow> user_log" where
  "log_op (AddProvider uuid now t i m) A = log_link t i A"
| "log_op (LinkPhone uuid now ph) A = (if PHONE \<in> fst ` set (ul_accounts A) then A else log_link PHONE ph A)"
| "log_op (UpdateName n) A = A"
| "log_op Saved A = A\<lparr>ul_pending := []\<rparr>"

text \<open>The operations of the aggregate; one that throws leaves the user as it was.\<close>

fun user_op :: "user_action \<Rightarrow> user \<Rightarrow> user" where
  "user_op (AddProvider uuid now t i m) u = (case addProvider uuid now t i m u of Inl e \<Rightarrow> u | Inr u' \<Rightarrow> u')"
| "user_op (LinkPhone uuid now ph) u = (case linkPhone uuid now ph u of Inl e \<Rightarrow> u | Inr u' \<Rightarrow> u')"
| "user_op (UpdateName n) u = updateName n u"
| "user_op Saved u = clearDomainEvents u"

fun note_event :: "user_note \<Rightarrow> string \<times> json" where
  "note_event (NoteLinked t i) = (''ProviderLinked'', provider_data t i)"
| "note_event (NoteRegistered t i) = (''UserRegistered'', provider_data t i)"

definition event_parts :: "domain_event \<Rightarrow> string \<times> json" where
  "event_parts e = (de_eventType e, de_data e)"

definition logged :: "user \<Rightarrow> user_log \<Rightarrow> bool" where
  "logged u A \<longleftrightarrow> map link_key (us_providers u) = ul_accounts A \<and>
     map event_parts (ag_events u) = map note_event (ul_pending A) \<and> ag_version u = ul_version A"

lemma event_parts_User [simp]:
  "event_parts (ProviderLinkedEvent e now i t p) = (''ProviderLinked'', provider_data t p)"
  "event_parts (UserRegisteredEvent e now i t p) = (''UserRegistered'', provider_data t p)"
  by (simp_all add: event_parts_def ProviderLinkedEvent_def UserRegisteredEvent_def new_event_def)

lemma logged_linked: "logged u A \<Longrightarrow> linked t i u \<longleftrightarrow> (t, i) \<in> set (ul_accounts A)"
  by (auto simp: logged_def linked_iff dest: sym)

lemma logged_link:
  assumes "logged u A"
  shows "logged (user_op (AddProvider uuid now t i m) u) (log_link t i A)"
  using assms logged_linked [OF assms] by (auto simp: addProvider_def log_link_def log_note_def logged_def link_key_def)

lemma logged_phone:
  "logged u A \<Longrightarrow> logged (u\<lparr>us_phone := p\<rparr>) A" "logged u A \<Longrightarrow> logged (updateName n u) A"
  by (simp_all add: logged_def updateName_def)

lemma provider_equals_iff: "provider_equals a b \<longleftrightarrow> a = b"
  by (simp add: provider_equals_def)

lemma has_phone: "list_ex (\<lambda>p. provider_equals (pl_providerType p) PHONE) (us_providers u) \<longleftrightarrow> PHONE \<in> fst ` link_key ` set (us_providers u)"
  by (force simp: list_ex_iff provider_equals_iff link_key_def image_iff)

lemma logged_link_phone:
  assumes l: "logged u A"
  shows "logged (user_op (LinkPhone uuid now ph) u) (log_op (LinkPhone uuid now ph) A)"
proof -
  have phone: "list_ex (\<lambda>p. provider_equals (pl_providerType p) PHONE) (us_providers u) \<longleftrightarrow> PHONE \<in> fst ` set (ul_accounts A)"
    using l unfolding has_phone by (simp add: logged_def flip: set_map)
  have "logged (user_op (AddProvider uuid now PHONE ph None) (u\<lparr>us_phone := Some ph\<rparr>)) (log_link PHONE ph A)"
    by (intro logged_link logged_phone l)
  moreover obtain u' where "linkPhone uuid now ph u = Inr u'" using linkPhone_total by blast
  ultimately show ?thesis
    using phone logged_phone(1) [OF l] by (auto simp: linkPhone_def Let_def split: if_splits)
qed

lemma logged_step: "logged u A \<Longrightarrow> logged (user_op op u) (log_op op A)"
proof (cases op)
  case (AddProvider uuid now t i m)
  then show "logged u A \<Longrightarrow> ?thesis" using logged_link by (simp del: user_op.simps add: AddProvider)
next
  case (LinkPhone uuid now ph)
  then show "logged u A \<Longrightarrow> ?thesis" using logged_link_phone by (simp del: user_op.simps log_op.simps)
qed (auto simp: logged_phone logged_def clearDomainEvents_def updateName_def)

lemma wf_step: "user_wf u \<Longrightarrow> user_wf (user_op op u)"
  by (cases op) (auto simp: linkPhone_def Let_def phone_wf intro: addProvider_wf phone_wf split: sum.splits if_splits)

lemma registered_logged:
  "\<exists>u. user_register uuid now p = Inr u \<and> user_wf u \<and> logged u (log_register (rg_providerType p) (rg_providerId p)) \<and> en_id u = uuid 0"
  by (simp add: user_register_def Let_def addProvider_def linked_def user_wf_def js_nullish_def logged_def log_register_def log_link_def
      log_note_def link_key_def)

lemma ops_logged:
  "logged u A \<Longrightarrow> user_wf u \<Longrightarrow> logged (fold user_op ops u) (fold log_op ops A) \<and> user_wf (fold user_op ops u)"
proof (induction ops arbitrary: u A)
  case (Cons op ops)
  from Cons.IH [OF logged_step [OF Cons.prems(1)] wf_step [OF Cons.prems(2)]] show ?case by simp
qed simp

text \<open>
  C29. A user is what its history says. Registration never fails, and after it and any operations of the aggregate, with saves
  in between, the linked accounts are those of the history, none twice and at least one; the pending events are, in their
  order, exactly the registration and the links since the last save, each about this user; the version is the number of all
  events ever recorded; every link is the user's own; linking a phone never fails; and linking a linked account again is a
  conflict.
\<close>

theorem user_invariants:
  "\<exists>u0. user_register uuid now p = Inr u0 \<and>
     (let u = fold user_op ops u0; A = fold log_op ops (log_register (rg_providerType p) (rg_providerId p)) in
      map link_key (us_providers u) = ul_accounts A \<and> us_providers u \<noteq> [] \<and> distinct (map link_key (us_providers u)) \<and>
      map event_parts (ag_events u) = map note_event (ul_pending A) \<and> ag_version u = ul_version A \<and>
      list_all (\<lambda>e. de_aggregateId e = en_id u) (ag_events u) \<and>
      list_all (\<lambda>l. pl_userId l = en_id u \<and> isl (addProvider uuid' now' (pl_providerType l) (pl_providerId l) m u)) (us_providers u) \<and>
      (\<exists>u'. linkPhone uuid' now' ph u = Inr u'))"
proof -
  obtain u0 where u0: "user_register uuid now p = Inr u0" "user_wf u0" "logged u0 (log_register (rg_providerType p) (rg_providerId p))"
    using registered_logged by blast
  let ?u = "fold user_op ops u0"
  note run = ops_logged [OF u0(3,2), of ops]
  have "list_all (\<lambda>l. isl (addProvider uuid' now' (pl_providerType l) (pl_providerId l) m ?u)) (us_providers ?u)"
    by (auto simp: list_all_iff addProvider_def linked_iff link_key_def image_iff)
  with run have "list_all (\<lambda>l. pl_userId l = en_id ?u \<and> isl (addProvider uuid' now' (pl_providerType l) (pl_providerId l) m ?u)) (us_providers ?u)"
    by (simp add: user_wf_def list_all_iff)
  with u0(1) run linkPhone_total [of uuid' now' ph ?u] show ?thesis
    by (auto simp: Let_def logged_def user_wf_def list_all_iff)
qed

section \<open>Saving with optimistic concurrency control\<close>

text \<open>
  The repositories implement \<^verbatim>\<open>persist\<close>. Its contract, as the base class documents it: for an expected version
  above 0 the row is updated only if it has that version, and otherwise the call fails with a version mismatch.
\<close>

definition checks_version :: "('s \<Rightarrow> string \<Rightarrow> int option) \<Rightarrow> ('a aggregate_scheme, 's) repository \<Rightarrow> bool" where
  "checks_version stored R \<longleftrightarrow> (\<forall>a v s. 0 < v \<longrightarrow> stored s (en_id a) \<noteq> Some v \<longrightarrow>
     rep_persist R a v s = (Inl (Concurrency (versionMismatch (en_id a) v (ag_version a))), s))"

lemma save_mismatch:
  assumes "checks_version stored R" "0 < expected_version a" "stored s (en_id a) \<noteq> Some (expected_version a)"
  shows "save R options a s = (Inl (Concurrency (versionMismatch (en_id a) (expected_version a) (ag_version a))), s)"
proof -
  have fails: "rep_persist R a (expected_version a) s = (Inl (Concurrency (versionMismatch (en_id a) (expected_version a) (ag_version a))), s)"
    using assms by (simp add: checks_version_def)
  show ?thesis
    by (auto simp: save_def Let_def seq_app persistWithOutbox_def fails)
qed

lemma fold_events [simp]:
  "en_id (fold (addDomainEvent now) es b) = en_id b" "ag_version (fold (addDomainEvent now) es b) = ag_version b + int (length es)"
  by (induction es arbitrary: b) simp_all

lemma several_events_mismatch:
  assumes "checks_version stored R" "0 \<le> ag_version a" "2 \<le> length es"
    and "stored s (en_id a) = None \<or> stored s (en_id a) = Some (ag_version a)"
  shows "\<exists>e. save R options (fold (addDomainEvent now) es a) s = (Inl (Concurrency e), s)"
proof -
  let ?a = "fold (addDomainEvent now) es a"
  have "0 < expected_version ?a" "stored s (en_id ?a) \<noteq> Some (expected_version ?a)"
    using assms(2-4) by (auto simp: expected_version_def)
  with save_mismatch [OF assms(1)] show ?thesis by blast
qed

text \<open>The operations of a user that is not saved in between raise its version by the events they record.\<close>

lemma user_op_events:
  assumes "op \<noteq> Saved"
  shows "ag_version (user_op op u) - int (length (ag_events (user_op op u))) = ag_version u - int (length (ag_events u)) \<and>
    en_id (user_op op u) = en_id u"
  using assms by (cases op)
    (auto simp: addProvider_def linkPhone_def Let_def updateName_def split: sum.splits)

lemma user_ops_events:
  assumes "Saved \<notin> set ops"
  shows "ag_version (fold user_op ops u) - int (length (ag_events (fold user_op ops u))) = ag_version u - int (length (ag_events u)) \<and>
    en_id (fold user_op ops u) = en_id u"
  using assms
proof (induction ops arbitrary: u)
  case (Cons op ops)
  with user_op_events [of op u] show ?case by auto
qed simp

text \<open>
  C30. A user with two events cannot be saved. The repository takes the version before the save to be one less than the
  current one, while every event raises the version. So under the documented check of versions, in every configuration,
  saving fails with a concurrency exception, storing and publishing nothing, for a user that was just registered, which
  records two events, and for one that was loaded, operations on which have recorded two events or more.
\<close>

theorem two_events_never_saved:
  assumes "checks_version stored R"
  shows "(user_register uuid now p = Inr u \<and> stored s (en_id u) = None \<longrightarrow> (\<exists>e. save R options u s = (Inl (Concurrency e), s))) \<and>
    (ag_events v = [] \<and> 0 \<le> ag_version v \<and> stored s (en_id v) = Some (ag_version v) \<and> Saved \<notin> set ops \<and>
       2 \<le> length (ag_events (fold user_op ops v)) \<longrightarrow> (\<exists>e. save R options (fold user_op ops v) s = (Inl (Concurrency e), s)))"
proof (intro conjI impI; elim conjE)
  assume u: "user_register uuid now p = Inr u" "stored s (en_id u) = None"
  with save_mismatch [OF assms, of u s options] register_user [of uuid now p]
  show "\<exists>e. save R options u s = (Inl (Concurrency e), s)" by (auto simp: expected_version_def)
next
  assume v: "ag_events v = []" "0 \<le> ag_version v" "stored s (en_id v) = Some (ag_version v)" "Saved \<notin> set ops"
    "2 \<le> length (ag_events (fold user_op ops v))"
  with user_ops_events [OF v(4), of v] have "ag_version v + 2 \<le> ag_version (fold user_op ops v)" "en_id (fold user_op ops v) = en_id v"
    by auto
  with v(2,3) save_mismatch [OF assms, of "fold user_op ops v" s options]
  show "\<exists>e. save R options (fold user_op ops v) s = (Inl (Concurrency e), s)" by (auto simp: expected_version_def)
qed

section \<open>A store of versions\<close>

definition demo_params :: register_params where
  "demo_params = \<lparr>rg_phone = Some ''0901234567'', rg_email = None, rg_name = None, rg_providerType = PHONE,
     rg_providerId = ''0901234567'', rg_providerEmail = None\<rparr>"

definition demo_uuid :: "nat \<Rightarrow> string" where
  "demo_uuid n = ''u'' @ js_nat_str n"

definition version_repository :: "(user, (string, int) jsmap \<times> domain_event list) repository" where
  "version_repository = \<lparr>rep_useOutbox = False, rep_outbox = None,
     rep_publish = (\<lambda>e (rows, bus). (Inr (), rows, bus @ [e])),
     rep_persist = (\<lambda>a v (rows, bus).
       if v = 0 \<or> map_of rows (en_id a) = Some v then (Inr (), AList.update (en_id a) (ag_version a) rows, bus)
       else (Inl (Concurrency (versionMismatch (en_id a) v (ag_version a))), rows, bus))\<rparr>"

lemma version_repository_checks: "checks_version (\<lambda>s. map_of (fst s)) version_repository"
  by (simp add: checks_version_def version_repository_def)

text \<open>Registering fails to be saved; so does linking two accounts to the user stored at version 2.\<close>

definition demo_links :: "user_action list" where
  "demo_links = [AddProvider demo_uuid 5 ZALO ''z1'' None, UpdateName ''An'', AddProvider demo_uuid 6 GOOGLE ''g1'' None]"

theorem two_events_never_saved_witness:
  "\<exists>e e' u. user_register demo_uuid 0 demo_params = Inr u \<and> save version_repository None u ([], []) = (Inl (Concurrency e), [], []) \<and>
     save version_repository None (fold user_op demo_links (clearDomainEvents u)) ([(demo_uuid 0, 2)], []) = (Inl (Concurrency e'), [(demo_uuid 0, 2)], [])"
proof -
  obtain u where u: "user_register demo_uuid 0 demo_params = Inr u" "user_wf u" "logged u (log_register PHONE ''0901234567'')" "en_id u = demo_uuid 0"
    using registered_logged [of demo_uuid 0 demo_params] by (auto simp: demo_params_def)
  let ?v = "clearDomainEvents u"
  have v: "logged ?v (log_op Saved (log_register PHONE ''0901234567''))" using logged_step [OF u(3), of Saved] by simp
  have version: "ag_version u = 2" using u(3) by (simp add: logged_def log_register_def log_link_def log_note_def)
  have "logged (fold user_op demo_links ?v) (fold log_op demo_links (log_op Saved (log_register PHONE ''0901234567'')))"
    using ops_logged [OF v phone_wf(3) [OF u(2)]] by blast
  then have "length (map event_parts (ag_events (fold user_op demo_links ?v))) = 2"
    by (simp only: logged_def) (simp add: demo_links_def log_register_def log_link_def log_note_def)
  then have two: "2 \<le> length (ag_events (fold user_op demo_links ?v))" by simp
  have loaded: "map_of (fst ([(demo_uuid 0, 2)], [] :: domain_event list)) (en_id ?v) = Some (ag_version ?v)" using u(4) version by simp
  have "ag_events ?v = []" "0 \<le> ag_version ?v" "Saved \<notin> set demo_links" using version by (simp_all add: demo_links_def)
  with two_events_never_saved [OF version_repository_checks, of demo_uuid 0 demo_params u "([], [])" None ?v demo_links]
    two_events_never_saved [OF version_repository_checks, of demo_uuid 0 demo_params u "([(demo_uuid 0, 2)], [])" None ?v demo_links] u(1) loaded two
  show ?thesis by auto
qed

end
