(* ===== verification/Unit_Of_Work.thy ===== *)
theory Unit_Of_Work
  imports Aggregates
begin

text \<open>
  Transactions (src/libs/shared/database/drizzle/unit-of-work/drizzle-unit-of-work.ts) and projections
  (src/libs/core/application/projections/base-projection.ts), and the repository base class of the core
  (src/libs/core/infrastructure/persistence/write/aggregate-repository.ts).

  The transaction of the database library is an argument. It is documented to run a block of statements on the data, to
  keep what the block did when it succeeds, and to undo it when it fails.
\<close>

section \<open>The unit of work\<close>

record transaction_options =
  to_isolationLevel :: "string option"
  to_timeout :: "int option"
  to_readOnly :: "bool option"

text \<open>
  The data; the context objects, each with its own flag whether it is active; and the ids under which the service has
  a context in its map of transactions.
\<close>

record 's uow =
  uw_data :: 's
  uw_contexts :: "(string, bool) jsmap"
  uw_active :: "string list"

definition DEFAULT_TIMEOUT :: int where
  "DEFAULT_TIMEOUT = 30000"

text \<open>\<^verbatim>\<open>new TransactionContext\<close>, entered into the map; its flag; and \<^verbatim>\<open>markComplete\<close>.\<close>

definition new_context :: "string \<Rightarrow> 's uow \<Rightarrow> 's uow" where
  "new_context transactionId w = w\<lparr>uw_contexts := AList.update transactionId True (uw_contexts w),
     uw_active := (if transactionId \<in> set (uw_active w) then uw_active w else uw_active w @ [transactionId])\<rparr>"

definition context_isActive :: "string \<Rightarrow> 's uow \<Rightarrow> bool" where
  "context_isActive transactionId w = js_nullish (map_of (uw_contexts w) transactionId) False"

definition markComplete :: "string \<Rightarrow> 's uow \<Rightarrow> 's uow" where
  "markComplete transactionId w = w\<lparr>uw_contexts := map (\<lambda>(i, a). (i, if i = transactionId then False else a)) (uw_contexts w)\<rparr>"

definition isTransactionActive :: "string \<Rightarrow> 's uow \<Rightarrow> bool" where
  "isTransactionActive transactionId w = (transactionId \<in> set (uw_active w) \<and> context_isActive transactionId w)"

definition drop_context :: "string \<Rightarrow> 's uow \<Rightarrow> 's uow" where
  "drop_context transactionId w = w\<lparr>uw_active := filter (\<lambda>i. i \<noteq> transactionId) (uw_active w)\<rparr>"

definition on_data :: "('s, js_error, 'a) async \<Rightarrow> ('s uow, js_error, 'a) async" where
  "on_data m w = (case m (uw_data w) of (r, s') \<Rightarrow> (r, w\<lparr>uw_data := s'\<rparr>))"

record ('s, 'a) db_driver =
  db_statement :: "string \<Rightarrow> ('s, js_error, unit) async"
  db_transaction :: "string \<Rightarrow> ('s uow, js_error, 'a) async \<Rightarrow> ('s uow, js_error, 'a) async"  \<comment> \<open>access mode and block\<close>

definition setIsolationLevel :: "('s, 'a) db_driver \<Rightarrow> string \<Rightarrow> ('s uow, js_error, unit) async" where
  "setIsolationLevel D level = on_data (db_statement D (''SET TRANSACTION ISOLATION LEVEL '' @ level))"

text \<open>The block that runs inside the transaction: the work gets the id of its context.\<close>

definition transaction_block ::
  "('s, 'a) db_driver \<Rightarrow> string \<Rightarrow> (string \<Rightarrow> ('s uow, js_error, 'a) async) \<Rightarrow> transaction_options option \<Rightarrow> ('s uow, js_error, 'a) async" where
  "transaction_block D transactionId work options =
     seq (writes (new_context transactionId))
    (seq (if truthy_str (Option.bind options to_isolationLevel)
          then setIsolationLevel D (the (Option.bind options to_isolationLevel)) else ret ())
    (seq (if Option.bind options to_readOnly = Some True then on_data (db_statement D ''SET TRANSACTION READ ONLY'') else ret ())
       (try_catch
         (bnd (work transactionId) (\<lambda>workResult.
           bnd (reads (context_isActive transactionId)) (\<lambda>active.
             if \<not> active then throw (new_Error ''Transaction context is no longer active'')
             else seq (writes (markComplete transactionId)) (ret workResult))))
         (\<lambda>e. seq (writes (markComplete transactionId)) (throw e)))))"

definition executeTransaction ::
  "('s, 'a) db_driver \<Rightarrow> string \<Rightarrow> (string \<Rightarrow> ('s uow, js_error, 'a) async) \<Rightarrow> transaction_options option \<Rightarrow> ('s uow, js_error, 'a) async" where
  "executeTransaction D transactionId work options =
     db_transaction D (if Option.bind options to_readOnly = Some True then ''read only'' else ''read write'')
       (transaction_block D transactionId work options)"

text \<open>
  The race with the timer: \<open>begins\<close> and \<open>ends\<close> are the times, from the start of the call, at which the library runs the
  block and at which the transaction is over. When the timer wins, the caller gets the error and cleans up at once, and the
  transaction goes on to its end as it would have. A clean-up during the block is written after it: once its context is
  entered, the block does not look at the map again. A clean-up before the block removes nothing, and the block then enters
  its context after all.
\<close>

definition timeout_error :: "int \<Rightarrow> string \<Rightarrow> js_error" where
  "timeout_error timeout transactionId =
     new_Error (''Transaction timeout after '' @ js_int_str timeout @ ''ms: '' @ transactionId)"

definition runInTransaction ::
  "('s, 'a) db_driver \<Rightarrow> string \<Rightarrow> int \<Rightarrow> int \<Rightarrow> (string \<Rightarrow> ('s uow, js_error, 'a) async) \<Rightarrow> transaction_options option \<Rightarrow> ('s uow, js_error, 'a) async" where
  "runInTransaction D transactionId begins ends work options w =
     (let timeout = js_nullish (Option.bind options to_timeout) DEFAULT_TIMEOUT in
      if ends < timeout
      then (case executeTransaction D transactionId work options w of (r, w') \<Rightarrow> (r, drop_context transactionId w'))
      else if begins < timeout
      then (case executeTransaction D transactionId work options w of
              (_, w') \<Rightarrow> (Inl (timeout_error timeout transactionId), drop_context transactionId w'))
      else (case executeTransaction D transactionId work options (drop_context transactionId w) of
              (_, w') \<Rightarrow> (Inl (timeout_error timeout transactionId), w')))"

definition getActiveTransactionIds :: "'s uow \<Rightarrow> string list" where
  "getActiveTransactionIds w = uw_active w"

definition getActiveTransactionCount :: "'s uow \<Rightarrow> nat" where
  "getActiveTransactionCount w = length (uw_active w)"

section \<open>Projections\<close>

text \<open>A projection keeps track of the events it has processed, or does not; \<open>no_tracking\<close> is the default.\<close>

record 's projection =
  pj_handle :: "domain_event \<Rightarrow> ('s, js_error, unit) async"
  pj_isEventProcessed :: "string \<Rightarrow> ('s, js_error, bool) async"
  pj_markEventProcessed :: "string \<Rightarrow> ('s, js_error, unit) async"

definition no_tracking :: "(domain_event \<Rightarrow> ('s, js_error, unit) async) \<Rightarrow> 's projection" where
  "no_tracking handle = \<lparr>pj_handle = handle, pj_isEventProcessed = (\<lambda>_. ret False), pj_markEventProcessed = (\<lambda>_. ret ())\<rparr>"

definition safeHandle :: "'s projection \<Rightarrow> domain_event \<Rightarrow> ('s, js_error, unit) async" where
  "safeHandle P event = bnd (pj_isEventProcessed P (de_eventId event)) (\<lambda>processed.
     if processed then ret ()
     else seq (pj_handle P event) (pj_markEventProcessed P (de_eventId event)))"

section \<open>The repository of the core\<close>

text \<open>
  The base class of the core differs from that of the shared library in how a subclass says that it has an outbox:
  it overrides both methods, \<open>outbox\<close> being its \<^verbatim>\<open>persistWithOutbox\<close>.
\<close>

record ('a, 's) core_repository =
  cr_supportsOutboxPattern :: bool
  cr_persistWithOutbox :: "('a \<Rightarrow> int \<Rightarrow> domain_event list \<Rightarrow> ('s, repo_error, unit) async) option"
  cr_persist :: "'a \<Rightarrow> int \<Rightarrow> ('s, repo_error, unit) async"
  cr_publish :: "domain_event \<Rightarrow> ('s, repo_error, unit) async"

definition core_persistWithOutbox :: "('a, 's) core_repository \<Rightarrow> 'a \<Rightarrow> int \<Rightarrow> domain_event list \<Rightarrow> ('s, repo_error, unit) async" where
  "core_persistWithOutbox R a expectedVersion es = (case cr_persistWithOutbox R of
     None \<Rightarrow> throw (RepoFailure (new_Error (''Outbox Pattern not implemented. Override persistWithOutbox() or '' @ ''set supportsOutboxPattern() to false.'')))
   | Some f \<Rightarrow> f a expectedVersion es)"

definition core_save ::
  "('a aggregate_scheme, 's) core_repository \<Rightarrow> bool \<Rightarrow> 'a aggregate_scheme \<Rightarrow> ('s, repo_error, 'a aggregate_scheme) async" where
  "core_save R skipEventPublishing a =
     (let es = getDomainEvents a
      in seq (if cr_supportsOutboxPattern R then core_persistWithOutbox R a (expected_version a) es
              else seq (cr_persist R a (expected_version a))
                (if \<not> skipEventPublishing \<and> es \<noteq> [] then promise_all (map (cr_publish R) es) else ret ()))
           (ret (clearDomainEvents a)))"

section \<open>Facts\<close>

text \<open>What the database library documents of its transactions, and of the statements that set one up.\<close>

definition commits_or_rolls_back :: "('s, 'a) db_driver \<Rightarrow> bool" where
  "commits_or_rolls_back D \<longleftrightarrow> (\<forall>mode block w. db_transaction D mode block w =
     (case block w of (Inr x, w') \<Rightarrow> (Inr x, w') | (Inl e, w') \<Rightarrow> (Inl e, w'\<lparr>uw_data := uw_data w\<rparr>)))"

definition settings_accepted :: "('s, 'a) db_driver \<Rightarrow> bool" where
  "settings_accepted D \<longleftrightarrow> (\<forall>sql s. db_statement D sql s = (Inr (), s))"

lemma markComplete_fields [simp]:
  "uw_data (markComplete i w) = uw_data w" "uw_active (markComplete i w) = uw_active w"
  by (simp_all add: markComplete_def)

lemma new_context_fields [simp]: "uw_data (new_context i w) = uw_data w" "context_isActive i (new_context i w)"
  by (simp_all add: new_context_def context_isActive_def js_nullish_def update_conv')

lemma settings_run:
  "settings_accepted D \<Longrightarrow> setIsolationLevel D level w = (Inr (), w)"
  "settings_accepted D \<Longrightarrow> on_data (db_statement D sql) w = (Inr (), w)"
  by (simp_all add: settings_accepted_def setIsolationLevel_def on_data_def)

lemma block_runs:
  assumes "settings_accepted D" "work i (new_context i w) = (outcome, w1)" "context_isActive i w1"
  shows "transaction_block D i work options w = (outcome, markComplete i w1)"
  using assms settings_run [OF assms(1)]
  by (cases outcome) (simp_all add: transaction_block_def async_simps)

lemma execute_runs:
  assumes "commits_or_rolls_back D" "settings_accepted D" "work i (new_context i w) = (outcome, w1)" "context_isActive i w1"
  shows "executeTransaction D i work options w =
    (outcome, (markComplete i w1)\<lparr>uw_data := if isl outcome then uw_data w else uw_data w1\<rparr>)"
  using assms(1) block_runs [where work = work, OF assms(2-4), of options]
  by (cases outcome) (simp_all add: executeTransaction_def commits_or_rolls_back_def)

lemma transaction_cleaned_up:
  "begins < js_nullish (Option.bind options to_timeout) DEFAULT_TIMEOUT \<Longrightarrow>
   i \<notin> set (getActiveTransactionIds (snd (runInTransaction D i begins ends work options w)))"
  by (simp add: runInTransaction_def getActiveTransactionIds_def drop_context_def Let_def split: prod.split)

text \<open>
  C36. In time, a transaction is all or nothing; too late, it is reported as failed but done. Let the work end in some
  outcome, with its context still active, under a library that commits what succeeds and rolls back what fails. When it is over
  before the time limit, the caller gets the outcome; otherwise the caller is told that the transaction timed out. In
  both cases the data are those the work left if it succeeded, and those of before if it failed. The service forgets
  the transaction, unless the time limit had passed before it began: then its id stays for good.
\<close>

theorem transaction_outcome:
  assumes "commits_or_rolls_back D" "settings_accepted D" "begins \<le> ends" "i \<notin> set (uw_active w)"
    and "work i (new_context i w) = (outcome, w1)" "context_isActive i w1" "uw_active w1 = uw_active (new_context i w)"
  shows "let timeout = js_nullish (Option.bind options to_timeout) DEFAULT_TIMEOUT;
      (result, w2) = runInTransaction D i begins ends work options w in
    result = (if ends < timeout then outcome else Inl (timeout_error timeout i)) \<and>
    uw_data w2 = (if isl outcome then uw_data w else uw_data w1) \<and>
    (i \<in> set (getActiveTransactionIds w2) \<longleftrightarrow> timeout \<le> begins)"
proof -
  have "filter (\<lambda>j. j \<noteq> i) (uw_active w) = uw_active w" by (rule filter_True) (use assms(4) in blast)
  then have "drop_context i w = w" by (simp add: drop_context_def)
  moreover have "i \<in> set (uw_active w1)" using assms(7) by (simp add: new_context_def)
  ultimately show ?thesis
    using execute_runs [where work = work, OF assms(1,2,5,6), of options] assms(3)
    by (auto simp: runInTransaction_def Let_def drop_context_def getActiveTransactionIds_def)
qed

text \<open>
  A withdrawal of 100 under the reference library. In time, it is reported and done; in 31 seconds, the caller is told that it
  failed, and the account has been charged.
\<close>

definition reference_driver :: "('s, 'a) db_driver" where
  "reference_driver = \<lparr>db_statement = (\<lambda>_. ret ()), db_transaction = (\<lambda>mode block w.
     case block w of (Inr x, w') \<Rightarrow> (Inr x, w') | (Inl e, w') \<Rightarrow> (Inl e, w'\<lparr>uw_data := uw_data w\<rparr>))\<rparr>"

definition withdrawal :: "string \<Rightarrow> (int uow, js_error, unit) async" where
  "withdrawal i = writes (\<lambda>w. w\<lparr>uw_data := uw_data w - 100\<rparr>)"

theorem transaction_outcome_witness:
  "(\<exists>w2. runInTransaction reference_driver ''t1'' 5 900 withdrawal None \<lparr>uw_data = 500, uw_contexts = [], uw_active = []\<rparr> = (Inr (), w2) \<and>
      uw_data w2 = 400) \<and>
   (\<exists>w2. runInTransaction reference_driver ''t1'' 5 31000 withdrawal None \<lparr>uw_data = 500, uw_contexts = [], uw_active = []\<rparr> =
      (Inl (timeout_error 30000 ''t1''), w2) \<and> uw_data w2 = 400)"
proof -
  let ?w = "\<lparr>uw_data = 500, uw_contexts = [], uw_active = []\<rparr> :: int uow" and ?D = "reference_driver :: (int, unit) db_driver"
  let ?w1 = "(new_context ''t1'' ?w)\<lparr>uw_data := 400\<rparr>"
  have D: "commits_or_rolls_back ?D" "settings_accepted ?D"
    by (simp_all add: commits_or_rolls_back_def settings_accepted_def reference_driver_def async_simps)
  have work: "withdrawal ''t1'' (new_context ''t1'' ?w) = (Inr (), ?w1)" by (simp add: withdrawal_def async_simps)
  have active: "context_isActive ''t1'' ?w1" "uw_active ?w1 = uw_active (new_context ''t1'' ?w)"
    by (simp_all add: context_isActive_def new_context_def js_nullish_def update_conv')
  have fresh: "''t1'' \<notin> set (uw_active ?w)" by simp
  have out: "let timeout = js_nullish (Option.bind None to_timeout) DEFAULT_TIMEOUT;
      (result, w2) = runInTransaction ?D ''t1'' 5 e withdrawal None ?w in
    result = (if e < timeout then Inr () else Inl (timeout_error timeout ''t1'')) \<and> uw_data w2 = 400 \<and>
    (''t1'' \<in> set (getActiveTransactionIds w2) \<longleftrightarrow> timeout \<le> 5)" if "5 \<le> e" for e
    using transaction_outcome [where work = withdrawal, OF D that fresh work active, of None] by (simp add: Let_def case_prod_beta)
  show ?thesis using out [of 900] out [of 31000]
    by (auto simp: Let_def js_nullish_def DEFAULT_TIMEOUT_def case_prod_beta prod_eq_iff)
qed

text \<open>A projection that tracks nothing handles an event as often as it arrives; one that tracks events handles it once.\<close>

lemma untracked_handles_again: "safeHandle (no_tracking handle) event = handle event"
  by (rule ext) (simp add: safeHandle_def no_tracking_def async_simps split: prod.split sum.split)

lemma tracked_handles_once:
  assumes "safeHandle P event s = (Inr (), s')" "pj_isEventProcessed P (de_eventId event) s' = (Inr True, s'')"
  shows "safeHandle P event s' = (Inr (), s'')"
  using assms(2) by (simp add: safeHandle_def async_simps)

lemma core_save_as_shared:
  assumes "\<not> cr_supportsOutboxPattern R"
  shows "core_save R False a = save \<lparr>rep_useOutbox = False, rep_outbox = None, rep_publish = cr_publish R, rep_persist = cr_persist R\<rparr> None a"
  using assms by (simp add: core_save_def save_def publishEvents_def Let_def)

end
