(* ===== verification/Health.thy ===== *)
theory Health
  imports Memory_Cache Json
begin

text \<open>
  Health checks (src/libs/shared/health): the registry of indicators, the verdict over their results, and the
  indicators of the database and of the cache. Indicators finish in any order; each gets the time at which it is
  asked.
\<close>

datatype health_status = UP | DOWN | DEGRADED

fun health_str :: "health_status \<Rightarrow> string" where
  "health_str UP = ''up''" | "health_str DOWN = ''down''" | "health_str DEGRADED = ''degraded''"

record health_result =
  hr_status :: health_status
  hr_message :: "string option"
  hr_error :: "string option"
  hr_responseTime :: "string option"
  hr_timestamp :: "string option"
  hr_extra :: "(string \<times> json) list"

definition health_result_of :: "health_status \<Rightarrow> string \<Rightarrow> msec \<Rightarrow> health_result" where
  "health_result_of status message now = \<lparr>hr_status = status, hr_message = Some message, hr_error = None, hr_responseTime = None,
     hr_timestamp = Some (toISOString now), hr_extra = []\<rparr>"

text \<open>An indicator gives a result, or fails with an error or with something else.\<close>

type_synonym 's indicator = "msec \<Rightarrow> ('s, js_error option, health_result) async"

type_synonym 's indicators = "(string, 's indicator) jsmap"

definition registerIndicator :: "string \<Rightarrow> 's indicator \<Rightarrow> 's indicators \<Rightarrow> 's indicators" where
  "registerIndicator name indicator = AList.update name indicator"

definition unregisterIndicator :: "string \<Rightarrow> 's indicators \<Rightarrow> 's indicators" where
  "unregisterIndicator name = AList.delete name"

definition failed_check :: "js_error option \<Rightarrow> msec \<Rightarrow> health_result" where
  "failed_check e now = (health_result_of DOWN ''Health check failed'' now)
     \<lparr>hr_error := Some (case e of Some err \<Rightarrow> err_message err | None \<Rightarrow> ''Unknown error'')\<rparr>"

definition run_check :: "'s indicator \<Rightarrow> msec \<Rightarrow> 's \<Rightarrow> health_result \<times> 's" where
  "run_check indicator now s = (case indicator now s of (Inl e, s') \<Rightarrow> (failed_check e now, s') | (Inr r, s') \<Rightarrow> (r, s'))"

definition determineOverallStatus :: "health_status list \<Rightarrow> health_status" where
  "determineOverallStatus statuses =
     (if statuses = [] then DEGRADED
      else if DOWN \<in> set statuses then DOWN else if DEGRADED \<in> set statuses then DEGRADED else UP)"

record health_response =
  hp_status :: health_status
  hp_timestamp :: string
  hp_uptime :: int
  hp_checks :: "(string, health_result) jsmap"

text \<open>All checks are started; they take effect in the order in which they are registered.\<close>

fun run_checks :: "'s indicators \<Rightarrow> msec \<Rightarrow> 's \<Rightarrow> (string, health_result) jsmap \<times> 's" where
  "run_checks [] now s = ([], s)"
| "run_checks ((name, indicator) # rest) now s =
     (case run_check indicator now s of (r, s1) \<Rightarrow> case run_checks rest now s1 of (rs, s2) \<Rightarrow> ((name, r) # rs, s2))"

definition health_checkHealth :: "msec \<Rightarrow> 's indicators \<Rightarrow> msec \<Rightarrow> 's \<Rightarrow> health_response \<times> 's" where
  "health_checkHealth startTime indicators now s = (case run_checks indicators now s of (checks, s') \<Rightarrow>
     (\<lparr>hp_status = determineOverallStatus (map (hr_status \<circ> snd) checks), hp_timestamp = toISOString now,
       hp_uptime = (now - startTime) div 1000, hp_checks = checks\<rparr>, s'))"

definition checkIndicator :: "'s indicators \<Rightarrow> string \<Rightarrow> msec \<Rightarrow> 's \<Rightarrow> health_result \<times> 's" where
  "checkIndicator indicators name now s = (case map_of indicators name of
     None \<Rightarrow> (health_result_of DOWN (''Health indicator '' @ [CHR 0x27] @ name @ [CHR 0x27] @ '' not found'') now, s)
   | Some indicator \<Rightarrow> run_check indicator now s)"

section \<open>The indicators\<close>

record pool_stats =
  po_totalCount :: int
  po_idleCount :: int
  po_waitingCount :: int

text \<open>The database service: whether the write pool answers, and its counts.\<close>

definition db_check ::
  "(('s, js_error, bool) async \<times> ('s \<Rightarrow> pool_stats option)) option \<Rightarrow> msec \<Rightarrow> msec \<Rightarrow> 's \<Rightarrow> health_result \<times> 's" where
  "db_check service t0 t1 s = (case service of
     None \<Rightarrow> (health_result_of DEGRADED ''Database service is not configured'' t0, s)
   | Some (checkConnection, getPoolStats) \<Rightarrow>
       (let took = js_int_str (t1 - t0) @ ''ms'' in
        case checkConnection s of
          (Inr isHealthy, s') \<Rightarrow>
            (if isHealthy
             then (health_result_of UP ''Database connection is healthy'' t1)\<lparr>hr_responseTime := Some took,
               hr_extra := (case getPoolStats s' of None \<Rightarrow> [] | Some st \<Rightarrow>
                 [(''pool'', JObj [(''total'', JNum (po_totalCount st)), (''idle'', JNum (po_idleCount st)), (''waiting'', JNum (po_waitingCount st))])])\<rparr>
             else (health_result_of DOWN ''Database connection health check failed'' t1)\<lparr>hr_responseTime := Some took\<rparr>, s')
        | (Inl e, s') \<Rightarrow> ((health_result_of DOWN ''Database connection failed'' t1)
             \<lparr>hr_error := Some (err_message e), hr_responseTime := Some took\<rparr>, s')))"

definition health_key :: "msec \<Rightarrow> string" where
  "health_key now = ''health:check:'' @ js_int_str now"

text \<open>The cache is asked to keep a value, to give it back and to forget it; only \<^verbatim>\<open>set\<close> can fail.\<close>

definition cache_check :: "('c, string) ICacheService option \<Rightarrow> js_error \<Rightarrow> msec \<Rightarrow> msec \<Rightarrow> 'c \<Rightarrow> health_result \<times> 'c" where
  "cache_check cache rejection t0 t1 c = (case cache of
     None \<Rightarrow> (health_result_of DEGRADED ''Redis cache service is not configured'' t0, c)
   | Some ic \<Rightarrow>
       (let testKey = health_key t0; took = js_int_str (t1 - t0) @ ''ms'' in
        case ic_set ic t0 testKey ''health_check'' (Some 5) c of (ok, c1) \<Rightarrow>
        if \<not> ok then ((health_result_of DOWN ''Redis cache connection failed'' t1)
          \<lparr>hr_error := Some (err_message rejection), hr_responseTime := Some took\<rparr>, c1)
        else (case ic_get ic t1 testKey c1 of (retrieved, c2) \<Rightarrow>
          (if retrieved = Some ''health_check''
           then (health_result_of UP ''Redis cache is healthy'' t1)\<lparr>hr_responseTime := Some took\<rparr>
           else health_result_of DOWN ''Redis cache returned unexpected value'' t1, ic_delete ic testKey c2))))"

section \<open>Facts\<close>

lemma run_checks_names: "map fst (fst (run_checks is now s)) = map fst is"
proof (induction "is" arbitrary: s)
  case (Cons i "is")
  obtain name indicator where i: "i = (name, indicator)" by (cases i)
  obtain r s1 where "run_check indicator now s = (r, s1)" by fastforce
  moreover obtain rs s2 where "run_checks is now s1 = (rs, s2)" by fastforce
  ultimately show ?case using i Cons [of s1] by simp
qed simp

text \<open>The service is up exactly when something is checked and everything that is checked is up.\<close>

lemma overall_up_iff: "determineOverallStatus sts = UP \<longleftrightarrow> sts \<noteq> [] \<and> (\<forall>st \<in> set sts. st = UP)"
  by (auto simp: determineOverallStatus_def) (metis health_status.exhaust)

lemma overall_down_iff: "determineOverallStatus sts = DOWN \<longleftrightarrow> DOWN \<in> set sts"
  by (auto simp: determineOverallStatus_def)

lemma health_up_iff:
  "hp_status (fst (health_checkHealth t0 is now s)) = UP \<longleftrightarrow> is \<noteq> [] \<and> (\<forall>r \<in> set (hp_checks (fst (health_checkHealth t0 is now s))). hr_status (snd r) = UP)"
proof -
  obtain checks s' where c: "run_checks is now s = (checks, s')" by fastforce
  then have "checks = [] \<longleftrightarrow> is = []" using run_checks_names [of "is" now s] by (metis fst_conv map_is_Nil_conv)
  then show ?thesis by (simp add: health_checkHealth_def c overall_up_iff)
qed

text \<open>A cache that keeps its promises is reported as up when it answers within five seconds.\<close>

lemma healthy_cache_up:
  assumes "reliable_cache ic view free" "0 \<le> t0" "t1 \<le> t0 + 5000" "0 < free c"
  shows "hr_status (fst (cache_check (Some ic) e t0 t1 c)) = UP"
proof -
  obtain ok c1 where c1: "ic_set ic t0 (health_key t0) ''health_check'' (Some 5) c = (ok, c1)" by fastforce
  then have "ok" using reliable_cache.set_resolves [OF assms(1), of t0 "health_key t0" "''health_check''" "Some 5" c] by simp
  obtain found c2 where c2: "ic_get ic t1 (health_key t0) c1 = (found, c2)" by fastforce
  then have "found = Some ''health_check''"
    using reliable_cache.read_back [OF assms(1), of t0 5 c t1 "health_key t0" "''health_check''"] assms(2-4) c1 by simp
  with \<open>ok\<close> show ?thesis by (simp add: cache_check_def c1 c2 Let_def health_result_of_def)
qed

end
