(* ===== verification/Platform.thy ===== *)
theory Platform
  imports Health Request_Context
begin

text \<open>
  The smaller services around the modules: the event bus (src/libs/shared/cqrs/events/event-bus.ts), the health routes
  (src/libs/shared/health/health.controller.ts), what the request logger is told to write
  (src/libs/shared/logging/logging.module.ts) and the cache that the port module provides
  (src/libs/shared/port/port.module.ts). The event bus of the CQRS library and the cache services are arguments.
\<close>

section \<open>The event bus\<close>

text \<open>Handlers act on a state \<open>'s\<close>; those of one event are started together and take effect in the order of subscription.\<close>

type_synonym ('ev, 's) event_handlers = "(string, ('ev \<Rightarrow> ('s, js_error, unit) async) list) jsmap"

definition eb_subscribe :: "string \<Rightarrow> ('ev \<Rightarrow> ('s, js_error, unit) async) \<Rightarrow> ('ev, 's) event_handlers \<Rightarrow> ('ev, 's) event_handlers" where
  "eb_subscribe eventType handler bus = AList.update eventType (js_nullish (map_of bus eventType) [] @ [handler]) bus"

definition run_handler :: "'ev \<Rightarrow> ('ev \<Rightarrow> ('s, js_error, unit) async) \<Rightarrow> 's \<Rightarrow> 's" where
  "run_handler event handler s = snd (handler event s)"
  \<comment> \<open>an error is only logged\<close>

definition eb_publish ::
  "('ev \<Rightarrow> 's \<Rightarrow> 's) \<Rightarrow> ('ev \<Rightarrow> string) \<Rightarrow> ('ev, 's) event_handlers \<Rightarrow> 'ev \<Rightarrow> ('s, js_error, unit) async" where
  "eb_publish cqrsPublish eventType bus event s =
     (Inr (), fold (run_handler event) (js_nullish (map_of bus (eventType event)) []) (cqrsPublish event s))"

text \<open>The handlers of an event are those subscribed to its type, in order; a failing one keeps none of the others from running.\<close>

lemma subscribe_order:
  "map_of (eb_subscribe t h bus) t' = (if t' = t then Some (js_nullish (map_of bus t) [] @ [h]) else map_of bus t')"
  by (simp add: eb_subscribe_def jsmap_simps)

lemma publish_after_subscribe:
  assumes "eventType event = t"
  shows "snd (eb_publish pub eventType (eb_subscribe t h bus) event s) = run_handler event h (snd (eb_publish pub eventType bus event s))"
  by (simp add: eb_publish_def assms subscribe_order)

lemma publish_other_type:
  "eventType event \<noteq> t \<Longrightarrow> eb_publish pub eventType (eb_subscribe t h bus) event s = eb_publish pub eventType bus event s"
  by (simp add: eb_publish_def subscribe_order)

lemma publish_resolves: "fst (eb_publish pub eventType bus event s) = Inr ()"
  by (simp add: eb_publish_def)

section \<open>Health routes\<close>

definition liveness :: "msec \<Rightarrow> json" where
  "liveness now = JObj [(''status'', JStr ''alive''), (''timestamp'', JStr (toISOString now))]"

text \<open>The answer, or the message of the 503.\<close>

definition readiness :: "msec \<Rightarrow> 's indicators \<Rightarrow> msec \<Rightarrow> 's \<Rightarrow> (string + health_response) \<times> 's" where
  "readiness startTime indicators now s = (case health_checkHealth startTime indicators now s of (health, s') \<Rightarrow>
     (if hp_status health = DOWN then Inl ''Service is not ready'' else Inr health, s'))"

lemma readiness_iff:
  "(\<exists>h. fst (readiness t0 is now s) = Inr h) \<longleftrightarrow>
     (\<forall>r \<in> set (hp_checks (fst (health_checkHealth t0 is now s))). hr_status (snd r) \<noteq> DOWN)"
proof -
  obtain checks s' where c: "run_checks is now s = (checks, s')" by fastforce
  have "hp_status (fst (health_checkHealth t0 is now s)) = DOWN \<longleftrightarrow> (\<exists>r \<in> set checks. hr_status (snd r) = DOWN)"
    by (force simp: health_checkHealth_def c overall_down_iff)
  moreover have "hp_checks (fst (health_checkHealth t0 is now s)) = checks" by (simp add: health_checkHealth_def c)
  ultimately show ?thesis by (auto simp: readiness_def split: prod.splits)
qed

text \<open>With nothing registered the service is degraded, and ready.\<close>

lemma empty_ready: "\<exists>h. fst (readiness t0 [] now s) = Inr h \<and> hp_status h = DEGRADED"
  by (simp add: readiness_def health_checkHealth_def determineOverallStatus_def)

section \<open>The request logger\<close>

definition genReqId :: "(string \<times> string) list \<Rightarrow> string \<Rightarrow> string" where
  "genReqId headers uuid = js_or_str (map_of headers ''x-request-id'') uuid"

definition customLogLevel :: "int \<Rightarrow> js_error option \<Rightarrow> string" where
  "customLogLevel statusCode err =
     (if statusCode \<ge> 500 \<or> err \<noteq> None then ''error'' else if statusCode \<ge> 400 then ''warn'' else ''info'')"

definition customSuccessMessage :: "string \<Rightarrow> string \<Rightarrow> string" where
  "customSuccessMessage method url = method @ '' '' @ url @ '' completed''"

definition customErrorMessage :: "string \<Rightarrow> string \<Rightarrow> js_error \<Rightarrow> string" where
  "customErrorMessage method url err = method @ '' '' @ url @ '' failed: '' @ err_message err"

record http_line_request =
  hq_id :: string
  hq_method :: string
  hq_url :: string
  hq_query :: json
  hq_params :: json
  hq_headers :: "(string \<times> string) list"

definition logged_headers :: "string list" where
  "logged_headers = [''user-agent'', ''content-type'', ''x-request-id'']"

definition serialize_req :: "http_line_request \<Rightarrow> json" where
  "serialize_req req = JObj [(''id'', JStr (hq_id req)), (''method'', JStr (hq_method req)), (''url'', JStr (hq_url req)),
     (''query'', hq_query req), (''params'', hq_params req),
     (''headers'', JObj (concat (map (\<lambda>h. jopt h (map_option JStr (map_of (hq_headers req) h))) logged_headers)))]"

definition serialize_res :: "int \<Rightarrow> json" where
  "serialize_res statusCode = JObj [(''statusCode'', JNum statusCode)]"

definition pretty_logging :: "(string \<Rightarrow> string option) \<Rightarrow> bool" where
  "pretty_logging env \<longleftrightarrow> env ''NODE_ENV'' \<noteq> Some ''production'' \<and> env ''ENABLE_PRETTY_LOGGING'' = Some ''true''"

text \<open>Cookies and authorization never reach the line of a request: it does not depend on any header but three.\<close>

lemma line_hides_headers:
  assumes "\<forall>h \<in> set logged_headers. map_of hs h = map_of hs' h"
  shows "serialize_req (req\<lparr>hq_headers := hs\<rparr>) = serialize_req (req\<lparr>hq_headers := hs'\<rparr>)"
  using assms by (simp add: serialize_req_def logged_headers_def)

section \<open>The cache of the ports\<close>

datatype cache_choice =
  UseRedis string int "string option" int string int
| UseMemory int string

definition choose_cache :: "(string \<Rightarrow> string option) \<Rightarrow> (string \<Rightarrow> int option) \<Rightarrow> cache_choice" where
  "choose_cache get get_number =
     (let prefix = js_nullish (get ''CACHE_KEY_PREFIX'') ''ioc:''; ttl = js_nullish (get_number ''CACHE_DEFAULT_TTL'') 300 in
      if truthy_str (get ''REDIS_HOST'')
      then UseRedis (the (get ''REDIS_HOST'')) (js_nullish (get_number ''REDIS_PORT'') 6379) (get ''REDIS_PASSWORD'')
        (js_nullish (get_number ''REDIS_DB'') 0) prefix ttl
      else UseMemory ttl prefix)"

text \<open>Both caches get the same prefix and the same default time to live.\<close>

lemma same_cache_settings:
  "(case choose_cache get num of UseRedis _ _ _ _ p t \<Rightarrow> (p, t) | UseMemory t p \<Rightarrow> (p, t)) =
     (js_nullish (get ''CACHE_KEY_PREFIX'') ''ioc:'', js_nullish (num ''CACHE_DEFAULT_TTL'') 300)"
  by (simp add: choose_cache_def Let_def)

end
