(* ===== verification/Circuit_Policies.thy ===== *)
theory Circuit_Policies
  imports Circuit_Breaker Json Retry
begin

text \<open>
  What the application puts around its circuit breakers (src/libs/shared/resilience/circuit-breaker.decorator.ts): the
  interceptor that finds the options of a handler and sends the call through the service, and the table of common
  configurations. The outcome of a protected call is a JSON value.
\<close>

section \<open>The interceptor\<close>

text \<open>What the execution context says of a call: its handler, its arguments, and what the decorators left on both.\<close>

record 'a protected_call =
  pc_handlerOptions :: "('a, json) service_options option"
  pc_classOptions :: "('a, json) service_options option"
  pc_className :: "string option"
  pc_handlerName :: string
  pc_args :: 'a

definition circuit_intercept ::
  "msec \<Rightarrow> msec \<Rightarrow> 'a protected_call \<Rightarrow> ('a \<Rightarrow> js_error + json) \<Rightarrow> ('a, json) circuit_service \<Rightarrow>
     (js_error + json) \<times> ('a, json) circuit_service" where
  "circuit_intercept now0 now1 call meth svc =
     (case (case pc_handlerOptions call of Some opts \<Rightarrow> Some opts | None \<Rightarrow> pc_classOptions call) of
        None \<Rightarrow> (meth (pc_args call), svc)
      | Some opts \<Rightarrow> cs_execute now0 now1 (pc_className call) (pc_handlerName call) (pc_args call) (Some opts) meth svc)"

section \<open>Common configurations\<close>

definition circuit_config ::
  "int \<Rightarrow> int \<Rightarrow> int \<Rightarrow> int option \<Rightarrow> (js_error \<Rightarrow> bool) option \<Rightarrow> json option \<Rightarrow> ('a, json) service_options" where
  "circuit_config timeout errorThreshold resetTimeout minRequests errorFilter answer =
     \<lparr>so_circuit = \<lparr>cbo_timeout = Some timeout, cbo_errorThreshold = Some errorThreshold, cbo_resetTimeout = Some resetTimeout,
        cbo_minRequests = minRequests, cbo_errorFilter = errorFilter, cbo_name = None\<rparr>,
      so_fallback = map_option (\<lambda>v _. FbReturn v) answer\<rparr>"

definition ExternalAPI_config :: "('a, json) service_options" where
  "ExternalAPI_config = circuit_config 60000 50 30000 (Some 5) None (Some (JObj [(''error'', JStr ''External service unavailable'')]))"

definition CriticalService_config :: "('a, json) service_options" where
  "CriticalService_config = circuit_config 30000 20 60000 (Some 10) None None"

definition connection_error :: "js_error \<Rightarrow> bool" where
  "connection_error e \<longleftrightarrow> str_includes ''ECONNREFUSED'' (err_message e) \<or> str_includes ''ETIMEDOUT'' (err_message e) \<or>
     str_includes ''ENOTFOUND'' (err_message e)"

definition Database_config :: "('a, json) service_options" where
  "Database_config = circuit_config 10000 30 5000 None (Some connection_error) None"

definition Cache_config :: "('a, json) service_options" where
  "Cache_config = circuit_config 5000 70 10000 None None (Some JNull)"

section \<open>Facts\<close>

text \<open>An undecorated handler is called as it is, and the options of a method come before those of its class.\<close>

lemma undecorated_untouched:
  "pc_handlerOptions call = None \<Longrightarrow> pc_classOptions call = None \<Longrightarrow>
   circuit_intercept t0 t1 call meth svc = (meth (pc_args call), svc)"
  by (simp add: circuit_intercept_def)

lemma method_options_first:
  "pc_handlerOptions call = Some opts \<Longrightarrow>
   circuit_intercept t0 t1 call meth svc = circuit_intercept t0 t1 (call\<lparr>pc_classOptions := cls\<rparr>) meth svc"
  by (simp add: circuit_intercept_def)

lemma new_breaker_options:
  assumes "map_of (cs_breakers svc) key = None"
  shows "so_fallback opts = Some fb \<Longrightarrow> snd (fst (cs_getCircuitBreaker now key (Some opts) svc)) = Some fb"
    and "cb_options (fst (fst (cs_getCircuitBreaker now key (Some opts) svc))) =
      so_circuit (cs_mergedOptions key (cs_globalConfig svc) opts)"
  using assms by (simp_all add: cs_getCircuitBreaker_def cs_mergedOptions_def Let_def js_spread_def cb_new_def)

text \<open>A call through a breaker whose fallback always answers never fails.\<close>

lemma answering_fallback_total:
  assumes "map_of (cs_breakers svc) key = None \<and> so_fallback opts = Some (\<lambda>_. FbReturn v) \<or>
      (\<exists>cb. map_of (cs_breakers svc) key = Some (cb, Some (\<lambda>_. FbReturn v)))"
    and "key = cs_getCircuitBreakerKey cls prop (Some opts)"
  shows "fst (cs_execute t0 t1 cls prop args (Some opts) meth svc) \<in> {Inr v} \<union> {meth args}"
    and "isl (fst (cs_execute t0 t1 cls prop args (Some opts) meth svc)) = False"
proof -
  obtain cb fb svc1 where g: "cs_getCircuitBreaker t0 key (Some opts) svc = ((cb, fb), svc1)" by (metis surj_pair)
  have fb: "fb = Some (\<lambda>_. FbReturn v)"
    using assms(1) new_breaker_options(1) [of svc key opts "\<lambda>_. FbReturn v" t0] g
    by (auto simp: cs_getCircuitBreaker_def)
  show "fst (cs_execute t0 t1 cls prop args (Some opts) meth svc) \<in> {Inr v} \<union> {meth args}"
    "isl (fst (cs_execute t0 t1 cls prop args (Some opts) meth svc)) = False"
    using g fb assms(2) [symmetric]
    by (auto simp: cs_execute_def Let_def split: sum.splits)
qed

text \<open>So a cache behind the preset for caches gives a value or null, whatever the cache does.\<close>

lemma cache_preset_total:
  assumes "pc_handlerOptions call = Some Cache_config" "cs_breakers svc = []"
  shows "fst (circuit_intercept t0 t1 call meth svc) \<in> {Inr JNull, meth (pc_args call)}"
    "isl (fst (circuit_intercept t0 t1 call meth svc)) = False"
proof -
  have fb: "so_fallback (Cache_config :: ('a, json) service_options) = Some (\<lambda>_. FbReturn JNull)"
    by (simp add: Cache_config_def circuit_config_def)
  note total = answering_fallback_total [OF _ refl, of svc "pc_className call" "pc_handlerName call" Cache_config JNull t0 t1 "pc_args call" meth]
  show "fst (circuit_intercept t0 t1 call meth svc) \<in> {Inr JNull, meth (pc_args call)}"
    using total(1) fb assms by (auto simp: circuit_intercept_def)
  show "isl (fst (circuit_intercept t0 t1 call meth svc)) = False"
    using total(2) fb assms by (simp add: circuit_intercept_def)
qed

text \<open>Behind the preset for databases a failing query is no failure of the database: nothing is counted.\<close>

lemma database_preset_ignores_query_errors:
  assumes "cbo_errorFilter (cb_options cb) = cbo_errorFilter (so_circuit (Database_config :: ('a, json) service_options))"
    "\<not> connection_error e"
  shows "cb_recordFailure now e cb = cb"
  using assms by (simp add: cb_recordFailure_def cb_counts_def Database_config_def circuit_config_def)

text \<open>The presets without a minimum take that of the service: ten calls, unless the application sets one.\<close>

lemma preset_minimum:
  assumes "cs_globalConfig svc = no_service_options"
  shows "cbo_minRequests (so_circuit (cs_mergedOptions key (cs_globalConfig svc) Cache_config)) = Some 10"
    "cbo_minRequests (so_circuit (cs_mergedOptions key (cs_globalConfig svc) ExternalAPI_config)) = Some 5"
  by (simp_all add: assms cs_mergedOptions_def no_service_options_def Cache_config_def ExternalAPI_config_def circuit_config_def
      js_spread_def Let_def)

end
