(* ===== verification/Database_Pools.thy ===== *)
theory Database_Pools
  imports Health
begin

text \<open>
  The pools of database connections (src/libs/shared/database/drizzle/database.service.ts): their registry, the
  retry of a failed connection, the health probe and the shutdown; the factory that opens a pool
  (database.provider.ts) and the migration run at start-up (migration/database-migration.service.ts). A pool is a
  record of the operations of the pg library that the code calls; the connections live in a state \<open>'s\<close>. The times
  slept are collected in a list.
\<close>

abbreviation isr :: "'e + 'a \<Rightarrow> bool" where
  "isr r \<equiv> \<not> isl r"

section \<open>Retry\<close>

text \<open>The loop over the attempts: \<open>remaining\<close> attempts are left, \<open>attempt\<close> is the next one.\<close>

definition withRetry_delay :: "nat \<Rightarrow> msec" where
  "withRetry_delay attempt = 2 ^ (attempt - 1) * 1000"

fun withRetry_from ::
  "('s, js_error, 'a) async \<Rightarrow> nat \<Rightarrow> nat \<Rightarrow> js_error option \<Rightarrow> 's \<Rightarrow> ((js_error + 'a) \<times> msec list) \<times> 's" where
  "withRetry_from fn 0 attempt lastError s =
     ((Inl (js_nullish lastError (new_Error ''Connection failed after all retry attempts'')), []), s)"
| "withRetry_from fn (Suc remaining) attempt lastError s = (case fn s of
     (Inr x, s') \<Rightarrow> ((Inr x, []), s')
   | (Inl e, s') \<Rightarrow> (case withRetry_from fn remaining (Suc attempt) (Some e) s' of ((r, slept), s'') \<Rightarrow>
       ((r, if remaining > 0 then withRetry_delay attempt # slept else slept), s'')))"

definition withRetry ::
  "('s, js_error, 'a) async \<Rightarrow> nat option \<Rightarrow> 's \<Rightarrow> ((js_error + 'a) \<times> msec list) \<times> 's" where
  "withRetry fn maxAttempts = withRetry_from fn (js_nullish maxAttempts 3) 1 None"

section \<open>Pools\<close>

record 's db_pool =
  dp_connect :: "('s, js_error, unit) async"
  dp_probe :: "('s, js_error, unit) async"
  dp_release :: "'s \<Rightarrow> 's"
  dp_end :: "('s, js_error, unit) async"
  dp_stats :: "'s \<Rightarrow> pool_stats"

type_synonym 's pools = "(string, 's db_pool) jsmap"

definition registerPool :: "string \<Rightarrow> 's db_pool \<Rightarrow> 's pools \<Rightarrow> 's pools" where
  "registerPool name pool = AList.update name pool"

definition getPool :: "'s pools \<Rightarrow> string \<Rightarrow> 's db_pool option" where
  "getPool pools name = map_of pools name"

definition getPoolStats :: "'s pools \<Rightarrow> string \<Rightarrow> 's \<Rightarrow> pool_stats option" where
  "getPoolStats pools name s = map_option (\<lambda>pool. dp_stats pool s) (map_of pools name)"

text \<open>One probe: a client is taken and always released, whatever its query does.\<close>

definition probe :: "'s db_pool \<Rightarrow> ('s, js_error, unit) async" where
  "probe pool s = (case dp_connect pool s of
     (Inl e, s1) \<Rightarrow> (Inl e, s1)
   | (Inr _, s1) \<Rightarrow> (case dp_probe pool s1 of (r, s2) \<Rightarrow> (r, dp_release pool s2)))"

definition checkConnection :: "'s pools \<Rightarrow> string option \<Rightarrow> ('s, js_error, bool) async" where
  "checkConnection pools poolName s = (case getPool pools (js_nullish poolName ''WRITE'') of
     None \<Rightarrow> (Inr False, s)
   | Some pool \<Rightarrow> (case withRetry (probe pool) None s of ((r, _), s') \<Rightarrow> (Inr (isr r), s')))"

definition closePool :: "string \<Rightarrow> ('s pools \<times> 's, js_error, unit) async" where
  "closePool name w = (case w of (pools, s) \<Rightarrow> (case map_of pools name of
     None \<Rightarrow> (Inr (), w)
   | Some pool \<Rightarrow> (case dp_end pool s of
       (Inr _, s') \<Rightarrow> (Inr (), (AList.delete name pools, s'))
     | (Inl e, s') \<Rightarrow> (Inl e, (pools, s')))))"

text \<open>All pools are closed at once; they end in the order in which they were registered, and a failure is only logged.\<close>

fun closePools :: "string list \<Rightarrow> 's pools \<times> 's \<Rightarrow> 's pools \<times> 's" where
  "closePools [] w = w"
| "closePools (name # names) w = closePools names (snd (closePool name w))"

definition closeAllPools :: "('s pools \<times> 's, js_error, unit) async" where
  "closeAllPools w = (if fst w = [] then (Inr (), w) else (Inr (), closePools (map fst (fst w)) w))"

definition onApplicationShutdown :: "string option \<Rightarrow> ('s pools \<times> 's, js_error, unit) async" where
  "onApplicationShutdown signal = try_catch closeAllPools throw"

section \<open>Opening a pool and migrating\<close>

record pool_config =
  pf_connectionString :: string
  pf_min :: nat
  pf_max :: nat
  pf_idleTimeoutMillis :: "msec option"
  pf_connectionTimeoutMillis :: msec

definition pool_options :: "string \<Rightarrow> pool_config" where
  "pool_options url = \<lparr>pf_connectionString = url, pf_min = 5, pf_max = 20, pf_idleTimeoutMillis = Some 30000,
     pf_connectionTimeoutMillis = 2000\<rparr>"

definition createPool :: "(pool_config \<Rightarrow> 's db_pool) \<Rightarrow> string \<Rightarrow> string \<Rightarrow> 's pools \<Rightarrow> 's db_pool \<times> 's pools" where
  "createPool Pool connectionString poolName pools =
     (let pool = Pool (pool_options connectionString) in (pool, registerPool poolName pool pools))"

definition createDrizzleProvider ::
  "(pool_config \<Rightarrow> 's db_pool) \<Rightarrow> (string \<Rightarrow> string option) \<Rightarrow> string \<Rightarrow> string option \<Rightarrow> ('s pools, js_error, 's db_pool) async" where
  "createDrizzleProvider Pool config poolName envVar pools =
     (let var = js_nullish envVar ''DATABASE_URL'' in
      if \<not> truthy_str (config var) then (Inl (new_Error (var @ '' is not set'')), pools)
      else case createPool Pool (the (config var)) poolName pools of (pool, pools') \<Rightarrow> (Inr pool, pools'))"

definition migration_options :: "string \<Rightarrow> pool_config" where
  "migration_options url = \<lparr>pf_connectionString = url, pf_min = 1, pf_max = 1, pf_idleTimeoutMillis = None,
     pf_connectionTimeoutMillis = 10000\<rparr>"

text \<open>The pool is ended in a \<^verbatim>\<open>finally\<close>, whose own failure replaces what happened before.\<close>

definition runMigrations ::
  "(pool_config \<Rightarrow> 's db_pool) \<Rightarrow> ('s db_pool \<Rightarrow> ('s, js_error, unit) async) \<Rightarrow> (string \<Rightarrow> string option) \<Rightarrow> ('s, js_error, unit) async" where
  "runMigrations Pool migrate config s =
     (if \<not> truthy_str (config ''DATABASE_URL'') then (Inl (new_Error ''DATABASE_URL is not configured''), s)
      else let pool = Pool (migration_options (the (config ''DATABASE_URL''))) in
        case migrate pool s of (r, s1) \<Rightarrow> (case dp_end pool s1 of (Inl e, s2) \<Rightarrow> (Inl e, s2) | (Inr _, s2) \<Rightarrow> (r, s2)))"

section \<open>Facts\<close>

text \<open>The states an operation goes through when it fails again and again.\<close>

fun after_failures :: "('s, js_error, 'a) async \<Rightarrow> nat \<Rightarrow> 's \<Rightarrow> 's" where
  "after_failures fn 0 s = s"
| "after_failures fn (Suc n) s = after_failures fn n (snd (fn s))"

lemma withRetry_from_succeeds:
  "isr (fst (fst (withRetry_from fn n k e s))) \<longleftrightarrow> (\<exists>i < n. isr (fst (fn (after_failures fn i s))))"
proof (induction n arbitrary: k e s)
  case (Suc n)
  obtain r s1 where f: "fn s = (r, s1)" by (cases "fn s")
  show ?case
  proof (cases r)
    case (Inl err)
    have "(\<exists>i < Suc n. isr (fst (fn (after_failures fn i s)))) \<longleftrightarrow> (\<exists>i < n. isr (fst (fn (after_failures fn i s1))))"
      using f Inl by (auto simp: less_Suc_eq_0_disj)
    moreover obtain r' slept s2 where "withRetry_from fn n (Suc k) (Some err) s1 = ((r', slept), s2)" by (metis surj_pair)
    ultimately show ?thesis using f Inl Suc [of "Suc k" "Some err" s1] by simp
  next
    case (Inr x)
    then show ?thesis using f by (auto intro: exI [of _ 0])
  qed
qed simp

text \<open>The attempts end: with \<open>n\<close> of them the time slept is below \<open>2 ^ (n - 1)\<close> seconds.\<close>

lemma withRetry_from_slept:
  "0 < k \<Longrightarrow> sum_list (snd (fst (withRetry_from fn n k e s))) \<le> (2 ^ (n - 1) - 1) * 2 ^ (k - 1) * 1000"
proof (induction n arbitrary: k e s)
  case (Suc n)
  obtain r s1 where f: "fn s = (r, s1)" by (cases "fn s")
  show ?case
  proof (cases r)
    case (Inl err)
    obtain r' slept s2 where w: "withRetry_from fn n (Suc k) (Some err) s1 = ((r', slept), s2)" by (metis surj_pair)
    have IH: "sum_list slept \<le> (2 ^ (n - 1) - 1) * 2 ^ k * 1000" using Suc.IH [of "Suc k" "Some err" s1] w by simp
    show ?thesis
    proof (cases n)
      case (Suc m)
      obtain j where j: "k = Suc j" using \<open>0 < k\<close> by (cases k) auto
      have "sum_list slept \<le> (2 ^ m - 1) * (2 * 2 ^ j) * 1000" using IH Suc j by simp
      then have "2 ^ j * 1000 + sum_list slept \<le> (2 * 2 ^ m - 1) * 2 ^ j * 1000" by (simp add: algebra_simps)
      then show ?thesis using f Inl w Suc j by (simp add: withRetry_delay_def)
    qed (use f Inl w in auto)
  next
    case (Inr x)
    then show ?thesis using f by simp
  qed
qed simp

lemma withRetry_slept: "sum_list (snd (fst (withRetry fn maxAttempts s))) \<le> (2 ^ (js_nullish maxAttempts 3 - 1) - 1) * 1000"
  using withRetry_from_slept [of 1 fn "js_nullish maxAttempts 3" None s] by (simp add: withRetry_def)

text \<open>With no attempt at all the operation is not called and the general error is given.\<close>

lemma withRetry_none: "withRetry fn (Some 0) s = ((Inl (new_Error ''Connection failed after all retry attempts''), []), s)"
  by (simp add: withRetry_def)

text \<open>The probe never fails: it says whether the pool answered one of three attempts.\<close>

lemma checkConnection_total: "\<exists>b. fst (checkConnection pools name s) = Inr b"
  by (auto simp: checkConnection_def split: option.splits prod.splits)

lemma checkConnection_iff:
  "fst (checkConnection pools name s) = Inr True \<longleftrightarrow>
     (\<exists>pool. map_of pools (js_nullish name ''WRITE'') = Some pool \<and> (\<exists>i < 3. isr (fst (probe pool (after_failures (probe pool) i s)))))"
proof (cases "map_of pools (js_nullish name ''WRITE'')")
  case (Some pool)
  obtain r slept s' where w: "withRetry (probe pool) None s = ((r, slept), s')" by (metis surj_pair)
  then have "isr r \<longleftrightarrow> (\<exists>i < 3. isr (fst (probe pool (after_failures (probe pool) i s))))"
    using withRetry_from_succeeds [of "probe pool" 3 1 None s] by (simp add: withRetry_def)
  then show ?thesis using Some w by (simp add: checkConnection_def getPool_def)
qed (simp add: checkConnection_def getPool_def)

text \<open>
  So the health indicator's branch for a failing service is dead: over these pools the database is reported as up or
  as down without an error.
\<close>

lemma db_check_over_pools:
  "hr_error (fst (db_check (Some (checkConnection pools (Some ''WRITE''), getPoolStats pools ''WRITE'')) t0 t1 s)) = None"
  using checkConnection_total [of pools "Some ''WRITE''" s]
  by (auto simp: db_check_def health_result_of_def Let_def split: prod.splits sum.splits)

lemma db_up_iff:
  "hr_status (fst (db_check (Some (checkConnection pools (Some ''WRITE''), getPoolStats pools ''WRITE'')) t0 t1 s)) = UP \<longleftrightarrow>
     (\<exists>pool. map_of pools ''WRITE'' = Some pool \<and> (\<exists>i < 3. isr (fst (probe pool (after_failures (probe pool) i s)))))"
  using checkConnection_total [of pools "Some ''WRITE''" s] checkConnection_iff [of pools "Some ''WRITE''" s]
  by (auto simp: db_check_def health_result_of_def Let_def split: prod.splits sum.splits)

text \<open>A client that was taken is released, whether its query answers or not.\<close>

lemma probe_releases:
  assumes "dp_connect pool s = (Inr (), s1)"
  shows "snd (probe pool s) = dp_release pool (snd (dp_probe pool s1))"
  using assms by (simp add: probe_def split: prod.splits)

text \<open>Shutting down keeps exactly the pools that could not be closed, and never fails itself.\<close>

lemma closePools_keys: "name \<notin> set names \<Longrightarrow> map_of (fst (closePools names w)) name = map_of (fst w) name"
proof (induction names arbitrary: w)
  case (Cons n names)
  have "map_of (fst (snd (closePool n w))) name = map_of (fst w) name"
    using Cons.prems by (cases w) (auto simp: closePool_def jsmap_simps split: option.splits prod.splits sum.splits)
  with Cons show ?case by simp
qed simp

lemma shutdown_resolves: "fst (onApplicationShutdown signal w) = Inr ()"
  by (simp add: onApplicationShutdown_def try_catch_def closeAllPools_def)

lemma closePool_fst:
  "map_of (fst (snd (closePool n w))) n =
     (case map_of (fst w) n of None \<Rightarrow> None | Some pool \<Rightarrow> if isr (fst (dp_end pool (snd w))) then None else Some pool)"
  by (cases w) (auto simp: closePool_def jsmap_simps split: option.splits prod.splits sum.splits)

lemma closePools_closes:
  assumes "map fst (fst w) = names" "\<forall>p \<in> set (fst w). \<forall>s. isr (fst (dp_end (snd p) s))" "distinct names"
  shows "fst (closePools names w) = []"
  using assms
proof (induction names arbitrary: w)
  case (Cons n names)
  obtain ps s where w: "w = (ps, s)" by (cases w)
  then obtain pool rest where ps: "ps = (n, pool) # rest" using Cons.prems(1) by (cases ps) auto
  have "isr (fst (dp_end pool s))" using Cons.prems(2) w ps by simp
  then obtain s' where e: "dp_end pool s = (Inr (), s')" by (cases "dp_end pool s"; cases "fst (dp_end pool s)") auto
  have "map_of rest n = None" using Cons.prems(1,3) w ps by (force simp: map_of_eq_None_iff)
  then have "snd (closePool n w) = (rest, s')" using w ps e by (simp add: closePool_def delete_absent)
  then show ?case using Cons.IH [of "(rest, s')"] Cons.prems w ps by simp
qed simp

lemma closeAllPools_closes:
  assumes "\<forall>p \<in> set (fst w). \<forall>s. isr (fst (dp_end (snd p) s))" "distinct (map fst (fst w))"
  shows "fst (snd (closeAllPools w)) = []"
  using closePools_closes [OF refl assms] by (simp add: closeAllPools_def)

text \<open>Migrations fail fast, and the pool they use is ended in any case.\<close>

lemma migration_failure_stops:
  assumes "truthy_str (config ''DATABASE_URL'')"
    and "fst (migrate (Pool (migration_options (the (config ''DATABASE_URL'')))) s) = Inl e"
  shows "\<exists>e'. fst (runMigrations Pool migrate config s) = Inl e'"
  using assms by (auto simp: runMigrations_def Let_def split: prod.splits sum.splits)

end
