(* ===== verification/Structured_Logger.thy ===== *)
theory Structured_Logger
  imports Bff
begin

text \<open>
  The structured logger (src/libs/shared/observability/structured-logger.service.ts): how an entry is enriched with
  the service and the request it belongs to, and the lines each level writes. The pino library receives the level,
  the context of the child logger and the entry; redaction by its paths and the threshold are its business. A logged
  entry is a JSON object whose undefined fields are absent; an error object is a JSON value given by the caller.
\<close>

section \<open>Configuration\<close>

datatype log_level = TRACE | DEBUG | INFO | WARN | ERROR | FATAL

fun level_str :: "log_level \<Rightarrow> string" where
  "level_str TRACE = ''trace''" | "level_str DEBUG = ''debug''" | "level_str INFO = ''info''"
| "level_str WARN = ''warn''" | "level_str ERROR = ''error''" | "level_str FATAL = ''fatal''"

record logger_config =
  lo_serviceName :: "string option"
  lo_serviceVersion :: "string option"
  lo_environment :: "string option"
  lo_logLevel :: "string option"
  lo_prettyPrint :: "bool option"
  lo_redactKeys :: "string list option"

definition no_logger_config :: logger_config where
  "no_logger_config = \<lparr>lo_serviceName = None, lo_serviceVersion = None, lo_environment = None, lo_logLevel = None,
     lo_prettyPrint = None, lo_redactKeys = None\<rparr>"

definition serviceInfo :: "(string \<Rightarrow> string option) \<Rightarrow> int \<Rightarrow> logger_config \<Rightarrow> params" where
  "serviceInfo env pid config =
     [(''service'', JStr (js_or_str (lo_serviceName config) (js_or_str (env ''SERVICE_NAME'') ''nestjs-ddd-api''))),
      (''version'', JStr (js_or_str (lo_serviceVersion config) (js_or_str (env ''SERVICE_VERSION'') ''1.0.0''))),
      (''environment'', JStr (js_or_str (lo_environment config) (js_or_str (env ''NODE_ENV'') ''development''))),
      (''instanceId'', JStr (js_or_str (env ''SERVICE_NAME'') ''app'' @ ''-'' @ js_int_str pid))]"

definition redact_paths :: "string list" where
  "redact_paths = [''password'', ''token'', ''secret'', ''key'', ''authorization'', ''cookie'', ''user.password'',
     ''user.token'', ''data.password'', ''data.token'', ''bankAccount'', ''*.bankAccount'', ''*.cardNumber'', ''*.cvv'']"

record pino_config =
  pi_level :: string
  pi_base :: params
  pi_redact :: "string list"
  pi_pretty :: bool

definition pinoConfig :: "(string \<Rightarrow> string option) \<Rightarrow> int \<Rightarrow> string \<Rightarrow> logger_config \<Rightarrow> pino_config" where
  "pinoConfig env pid hostname config =
     (let info = serviceInfo env pid config in
      \<lparr>pi_level = js_or_str (lo_logLevel config) (js_or_str (env ''LOG_LEVEL'') ''info''),
       pi_base = obj_spread info [(''pid'', JNum pid), (''hostname'', JStr hostname)],
       pi_redact = js_nullish (lo_redactKeys config) redact_paths,
       pi_pretty = (lo_prettyPrint config \<noteq> Some False \<and> map_of info ''environment'' = Some (JStr ''development'')
         \<and> env ''ENABLE_PRETTY_LOGGING'' = Some ''true'')\<rparr>)"

text \<open>A logger: its service, what its parents' \<^verbatim>\<open>child\<close> calls added, and its pino options.\<close>

record structured_logger =
  sl_service :: params
  sl_context :: "params list"
  sl_config :: pino_config

definition new_structured_logger ::
  "(string \<Rightarrow> string option) \<Rightarrow> int \<Rightarrow> string \<Rightarrow> logger_config option \<Rightarrow> structured_logger" where
  "new_structured_logger env pid hostname config =
     (let c = js_nullish config no_logger_config in
      \<lparr>sl_service = serviceInfo env pid c, sl_context = [], sl_config = pinoConfig env pid hostname c\<rparr>)"

definition child_logger :: "params \<Rightarrow> structured_logger \<Rightarrow> structured_logger" where
  "child_logger context lg = lg\<lparr>sl_context := sl_context lg @ [context]\<rparr>"
  \<comment> \<open>pino's child, with the service of the parent\<close>

section \<open>Entries\<close>

definition spread_of :: "json option \<Rightarrow> params" where
  "spread_of v = (case v of Some (JObj ps) \<Rightarrow> ps | _ \<Rightarrow> [])"
  \<comment> \<open>\<^verbatim>\<open>...v\<close> of an object or of undefined\<close>

definition entry_field :: "params option \<Rightarrow> string \<Rightarrow> json option" where
  "entry_field entry k = Option.bind entry (\<lambda>ps. map_of ps k)"
  \<comment> \<open>\<^verbatim>\<open>entry?.k\<close>\<close>

definition context_fields :: "request_context option \<Rightarrow> params option \<Rightarrow> params" where
  "context_fields context entry = (case context of None \<Rightarrow> [] | Some ctx \<Rightarrow>
     [(''trace'', JObj (obj_spread
        ([(''id'', JStr (rc_correlationId ctx)), (''correlationId'', JStr (rc_correlationId ctx))] @
         jopt ''causationId'' (map_option JStr (rc_causationId ctx)) @ jopt ''userId'' (map_option JStr (rc_userId ctx)))
        (spread_of (entry_field entry ''trace''))))] @
     (if truthy_str (rc_userId ctx)
      then [(''user'', JObj (obj_spread [(''id'', JStr (the (rc_userId ctx)))] (spread_of (entry_field entry ''user''))))]
      else []))"

definition merged :: "params \<Rightarrow> params \<Rightarrow> string \<Rightarrow> string \<times> json" where
  "merged base override k = (k, JObj (obj_spread (spread_of (map_of base k)) (spread_of (map_of override k))))"
  \<comment> \<open>\<^verbatim>\<open>k: { ...base.k, ...override.k }\<close>\<close>

definition mergeLogEntries :: "params \<Rightarrow> params option \<Rightarrow> params" where
  "mergeLogEntries base override = (case override of None \<Rightarrow> base | Some over \<Rightarrow>
     obj_spread (obj_spread (spread_of (map_of base ''metadata'')) over)
       ([(''message'', the (map_of base ''message'')), (''level'', the (map_of base ''level''))] @
        map (merged base over) [''metadata'', ''operation'', ''user'', ''trace'', ''business'']))"

definition buildLogEntry :: "params \<Rightarrow> request_context option \<Rightarrow> string \<Rightarrow> params option \<Rightarrow> params" where
  "buildLogEntry service context message entry =
     (let level = entry_field entry ''level'';
          base = [(''message'', JStr message), (''level'', if opt_truthy level then the level else JStr (level_str INFO)),
            (''metadata'', JObj (obj_spread service (spread_of (entry_field entry ''metadata''))))] @ context_fields context entry
      in mergeLogEntries base entry)"

record log_line =
  ll_level :: log_level
  ll_context :: "params list"
  ll_entry :: params

definition log_write ::
  "structured_logger \<Rightarrow> request_context option \<Rightarrow> log_level \<Rightarrow> string \<Rightarrow> params option \<Rightarrow> log_line" where
  "log_write lg context level message entry =
     \<lparr>ll_level = level, ll_context = sl_context lg, ll_entry = buildLogEntry (sl_service lg) context message entry\<rparr>"

definition with_error :: "params option \<Rightarrow> json option \<Rightarrow> params" where
  "with_error entry error = (case error of
     Some e \<Rightarrow> AList.update ''error'' e (js_nullish entry []) | None \<Rightarrow> AList.delete ''error'' (js_nullish entry []))"
  \<comment> \<open>\<^verbatim>\<open>{ ...entry, error }\<close>: an undefined error hides that of the entry\<close>

definition log_trace where "log_trace lg ctx message entry = log_write lg ctx TRACE message entry"
definition log_debug where "log_debug lg ctx message entry = log_write lg ctx DEBUG message entry"
definition log_info where "log_info lg ctx message entry = log_write lg ctx INFO message entry"
definition log_warn where "log_warn lg ctx message entry = log_write lg ctx WARN message entry"
definition log_error where "log_error lg ctx message error entry = log_write lg ctx ERROR message (Some (with_error entry error))"
definition log_fatal where "log_fatal lg ctx message error entry = log_write lg ctx FATAL message (Some (with_error entry error))"

definition logOperationStart :: "structured_logger \<Rightarrow> request_context option \<Rightarrow> msec \<Rightarrow> string \<Rightarrow> json option \<Rightarrow> log_line" where
  "logOperationStart lg ctx now operationName data =
     log_info lg ctx (''Starting operation: '' @ operationName)
       (Some ([(''operation'', JObj [(''name'', JStr operationName), (''phase'', JStr ''start''), (''startTime'', JNum now)])] @
         jopt ''data'' data))"

definition logOperationEnd ::
  "structured_logger \<Rightarrow> request_context option \<Rightarrow> msec \<Rightarrow> string \<Rightarrow> msec \<Rightarrow> json option \<Rightarrow> json option \<Rightarrow> log_line" where
  "logOperationEnd lg ctx now operationName startTime result error =
     log_write lg ctx (if error = None then INFO else ERROR) (''Completed operation: '' @ operationName)
       (Some ([(''operation'', JObj [(''name'', JStr operationName), (''phase'', JStr ''end''), (''duration'', JNum (now - startTime)),
          (''startTime'', JNum startTime), (''endTime'', JNum now)])] @ jopt ''data'' result @ jopt ''error'' error))"

section \<open>Facts\<close>

text \<open>The later object wins; within an object the last value of a name does.\<close>

lemma obj_spread_get: "map_of (obj_spread a b) k = (case map_of (rev b) k of Some v \<Rightarrow> Some v | None \<Rightarrow> map_of a k)"
proof (induction b arbitrary: a)
  case (Cons p b)
  obtain q v where p: "p = (q, v)" by (cases p)
  show ?case using Cons [of "AList.update q v a"] p
    by (auto simp: obj_spread_def jsmap_simps map_add_def split: option.splits)
qed (simp add: obj_spread_def)

lemmas log_entry_defs = buildLogEntry_def mergeLogEntries_def merged_def Let_def

text \<open>Neither the message nor the service's metadata can be lost to the entry unless the entry overrides the metadata itself.\<close>

lemma logged_message: "map_of (ll_entry (log_write lg ctx level message entry)) ''message'' = Some (JStr message)"
  by (cases entry) (simp_all add: log_write_def log_entry_defs obj_spread_get)

text \<open>What a line says of its own level is the entry's level or \<^verbatim>\<open>info\<close>, whichever method wrote it.\<close>

lemma error_lines_say_info:
  assumes "entry_field entry ''level'' = None"
  shows "ll_level (log_error lg ctx message error entry) = ERROR"
    "map_of (ll_entry (log_error lg ctx message error entry)) ''level'' = Some (JStr ''info'')"
proof -
  have none: "map_of (with_error entry error) ''level'' = None"
    using assms by (cases entry; cases error) (simp_all add: with_error_def entry_field_def jsmap_simps)
  show "ll_level (log_error lg ctx message error entry) = ERROR" by (simp add: log_error_def log_write_def)
  show "map_of (ll_entry (log_error lg ctx message error entry)) ''level'' = Some (JStr ''info'')"
    using none by (simp add: log_error_def log_write_def log_entry_defs obj_spread_get entry_field_def opt_truthy_def)
qed

lemma logged_trace_of:
  "map_of (ll_entry (log_write lg (Some ctx) level message (Some entry))) ''trace'' =
     Some (JObj (obj_spread (spread_of (map_of (context_fields (Some ctx) (Some entry)) ''trace'')) (spread_of (map_of entry ''trace''))))"
  by (simp add: log_write_def log_entry_defs obj_spread_get context_fields_def)

text \<open>A line written while a request is served carries its correlation id, unless the entry names another.\<close>

lemma logged_correlation:
  assumes "map_of (rev (spread_of (map_of entry ''trace''))) ''correlationId'' = None"
  shows "\<exists>t. map_of (ll_entry (log_write lg (Some ctx) level message (Some entry))) ''trace'' = Some (JObj t)
    \<and> map_of t ''correlationId'' = Some (JStr (rc_correlationId ctx))"
  using assms unfolding logged_trace_of
  by (simp add: obj_spread_get context_fields_def spread_of_def entry_field_def)

text \<open>An entry may claim another user than the one of the request.\<close>

lemma entry_user_wins:
  assumes "map_of entry ''user'' = Some (JObj [(''id'', v)])"
  shows "\<exists>u. map_of (ll_entry (log_write lg (Some ctx) level message (Some entry))) ''user'' = Some (JObj u) \<and> map_of u ''id'' = Some v"
  using assms by (simp add: log_write_def log_entry_defs obj_spread_get spread_of_def)

text \<open>Outside of a request, and without an entry, a line holds nothing but the service.\<close>

lemma bare_line:
  "ll_entry (log_write lg None level message None) =
     [(''message'', JStr message), (''level'', JStr ''info''), (''metadata'', JObj (sl_service lg))]"
  by (simp add: log_write_def log_entry_defs context_fields_def entry_field_def opt_truthy_def spread_of_def obj_spread_def)

lemma child_keeps_service: "sl_service (child_logger context lg) = sl_service lg"
  by (simp add: child_logger_def)

end
