(* ===== verification/Tracing.thy ===== *)
theory Tracing
  imports Structured_Logger Redaction
begin

text \<open>
  The tracing interceptor (src/libs/shared/observability/tracing.interceptor.ts): the span of every handled request or
  message. A span is the record of what the interceptor does to it, in order; the tracer exports it. Names of handlers
  are words (letters, digits and underscores), and a name is present.
\<close>

section \<open>Spans\<close>

record handler_info =
  hi_ctor :: "string option"
  hi_name :: string
  hi_controller :: string

record traced_http =
  th_method :: string
  th_url :: string
  th_userAgent :: "string option"
  th_statusCode :: int

datatype span_event =
  SpanStatus bool string
| SpanAttribute string json
| SpanException string string "string option"
| SpanEnd

record span =
  sp_name :: string
  sp_attributes :: params
  sp_events :: "span_event list"

section \<open>What the handler is\<close>

definition mentions :: "string \<Rightarrow> string \<Rightarrow> handler_info \<Rightarrow> bool" where
  "mentions Word lower h \<longleftrightarrow> (case hi_ctor h of None \<Rightarrow> False | Some c \<Rightarrow> str_includes Word c) \<or> str_includes lower (toLowerCase (hi_name h))"

definition isCommandHandler :: "handler_info \<Rightarrow> bool" where
  "isCommandHandler = mentions ''Command'' ''command''"

definition isQueryHandler :: "handler_info \<Rightarrow> bool" where
  "isQueryHandler = mentions ''Query'' ''query''"

definition isEventHandler :: "handler_info \<Rightarrow> bool" where
  "isEventHandler = mentions ''Event'' ''event''"

definition getOperationType :: "handler_info \<Rightarrow> string" where
  "getOperationType h =
     (if isCommandHandler h then ''command'' else if isQueryHandler h then ''query'' else if isEventHandler h then ''event''
      else ''unknown'')"

text \<open>
  \<^verbatim>\<open>(\w+)Handler\<close> takes as much as it can: everything before the last occurrence of the word that leaves something
  in front of it.
\<close>

fun before_last :: "string \<Rightarrow> string \<Rightarrow> string option" where
  "before_last w [] = None"
| "before_last w (c # s) = (case before_last w s of
     Some p \<Rightarrow> Some (c # p)
   | None \<Rightarrow> if take (length w) s = w then Some [c] else None)"

definition getCommandName :: "handler_info \<Rightarrow> string" where
  "getCommandName h = js_nullish (before_last ''Handler'' (hi_name h)) (hi_name h)"

definition getQueryName :: "handler_info \<Rightarrow> string" where
  "getQueryName h = js_nullish (before_last ''Handler'' (hi_name h)) (hi_name h)"

definition getSpanName :: "traced_http option \<Rightarrow> handler_info \<Rightarrow> string" where
  "getSpanName http h =
     (if http \<noteq> None then ''http.controller.'' @ hi_controller h @ ''.'' @ hi_name h
      else if isCommandHandler h \<or> isQueryHandler h
      then ''command.handler.'' @ (if isCommandHandler h then ''command'' else ''query'') @ ''.'' @ hi_name h
      else if isEventHandler h then ''event.handler.'' @ hi_name h
      else hi_controller h @ ''.'' @ hi_name h)"

definition truthy_attr :: "string \<Rightarrow> string option \<Rightarrow> params" where
  "truthy_attr k v = (if truthy_str v then [(k, JStr (the v))] else [])"

definition getInitialAttributes :: "traced_http option \<Rightarrow> handler_info \<Rightarrow> request_context option \<Rightarrow> params" where
  "getInitialAttributes http h context =
     [(''operation.name'', JStr (hi_name h)), (''operation.type'', JStr (getOperationType h))] @
     (case context of None \<Rightarrow> [] | Some ctx \<Rightarrow>
        truthy_attr ''correlation.id'' (Some (rc_correlationId ctx)) @ truthy_attr ''user.id'' (rc_userId ctx) @
        truthy_attr ''causation.id'' (rc_causationId ctx)) @
     (case http of None \<Rightarrow> [] | Some q \<Rightarrow>
        [(''http.method'', JStr (th_method q)), (''http.url'', JStr (th_url q)), (''http.user_agent'', JStr (js_or_str (th_userAgent q) ''''))]) @
     (if isCommandHandler h then [(''command.name'', JStr (getCommandName h))]
      else if isQueryHandler h then [(''query.name'', JStr (getQueryName h))] else [])"

section \<open>The outcome\<close>

definition addBusinessAttributes :: "json \<Rightarrow> span_event list" where
  "addBusinessAttributes data =
     (let has = (\<lambda>k. opt_truthy (json_get k data)); val = (\<lambda>k. the (json_get k data)) in
      if \<not> has ''id'' then []
      else if has ''price'' \<and> has ''stock''
      then [SpanAttribute ''product.id'' (val ''id'')] @ (if has ''category'' then [SpanAttribute ''product.category'' (val ''category'')] else [])
      else if has ''items'' then [SpanAttribute ''order.id'' (val ''id'')] else [])"

definition recordSuccess :: "traced_http option \<Rightarrow> json option \<Rightarrow> span_event list" where
  "recordSuccess http response =
     [SpanStatus True ''''] @
     (case http of None \<Rightarrow> [] | Some q \<Rightarrow> [SpanAttribute ''http.status_code'' (JNum (th_statusCode q))]) @
     (let data = Option.bind response (json_get ''data'') in if opt_truthy data then addBusinessAttributes (the data) else [])"

definition recordError :: "(js_error \<Rightarrow> string option) \<Rightarrow> js_error \<Rightarrow> span_event list" where
  "recordError stack e =
     [SpanException (err_name e) (err_message e) (stack e), SpanAttribute ''error.type'' (JStr (err_ctor e)),
      SpanAttribute ''error.message'' (JStr (err_message e)), SpanStatus False (err_message e)]"

text \<open>The handler answers once, or fails; what it does passes through.\<close>

definition trace_intercept ::
  "(js_error \<Rightarrow> string option) \<Rightarrow> request_context option \<Rightarrow> traced_http option \<Rightarrow> handler_info \<Rightarrow> js_error + json option \<Rightarrow>
     (js_error + json option) \<times> span" where
  "trace_intercept stack context http h outcome =
     (outcome, \<lparr>sp_name = getSpanName http h, sp_attributes = getInitialAttributes http h context,
        sp_events = (case outcome of Inr response \<Rightarrow> recordSuccess http response | Inl e \<Rightarrow> recordError stack e) @ [SpanEnd]\<rparr>)"

section \<open>Facts\<close>

text \<open>The span of every handled call is ended exactly once, last, after its status was set.\<close>

definition span_complete :: "span \<Rightarrow> bool" where
  "span_complete s \<longleftrightarrow> (\<exists>evs. sp_events s = evs @ [SpanEnd] \<and> SpanEnd \<notin> set evs \<and> (\<exists>ok m. SpanStatus ok m \<in> set evs))"

lemma business_no_end: "SpanEnd \<notin> set (addBusinessAttributes data)"
  by (simp add: addBusinessAttributes_def Let_def)

lemma spans_complete: "span_complete (snd (trace_intercept stack context http h outcome))"
proof -
  have "SpanEnd \<notin> set (recordSuccess http r)" for r
    using business_no_end by (auto simp: recordSuccess_def Let_def split: option.splits)
  moreover have "SpanEnd \<notin> set (recordError stack e)" for e by (simp add: recordError_def)
  ultimately show ?thesis
    by (cases outcome) (auto simp: span_complete_def trace_intercept_def recordSuccess_def recordError_def)
qed

lemma span_status:
  "SpanStatus True '''' \<in> set (sp_events (snd (trace_intercept stack context http h (Inr r))))"
  "SpanStatus False (err_message e) \<in> set (sp_events (snd (trace_intercept stack context http h (Inl e))))"
  by (simp_all add: trace_intercept_def recordSuccess_def recordError_def)

text \<open>A span carries the correlation id of its request, whatever is handled.\<close>

lemma span_correlation:
  "rc_correlationId ctx \<noteq> '''' \<Longrightarrow>
   map_of (sp_attributes (snd (trace_intercept stack (Some ctx) http h outcome))) ''correlation.id'' = Some (JStr (rc_correlationId ctx))"
  by (simp add: trace_intercept_def getInitialAttributes_def truthy_attr_def truthy_str_def)

text \<open>Query handlers are counted under the name of the spans of commands.\<close>

lemma query_span_named_command:
  "isQueryHandler h \<Longrightarrow> \<exists>rest. getSpanName None h = ''command.handler.'' @ rest"
  by (simp add: getSpanName_def)

text \<open>The name in front of the last \<^verbatim>\<open>Handler\<close>.\<close>

lemma before_last_some: "before_last w s = Some p \<Longrightarrow> p \<noteq> [] \<and> (\<exists>rest. s = p @ w @ rest)"
proof (induction s arbitrary: p)
  case (Cons c s)
  then show ?case
    by (auto split: option.splits if_splits) (metis append_take_drop_id)+
qed simp

lemma before_last_suffix: "w \<noteq> [] \<Longrightarrow> s \<noteq> [] \<Longrightarrow> \<exists>p. before_last w (s @ w) = Some p \<and> length s \<le> length p"
proof (induction s)
  case (Cons c s)
  show ?case
  proof (cases s)
    case Nil
    then show ?thesis by (cases "before_last w w") auto
  next
    case (Cons d s')
    with Cons.IH Cons.prems obtain p where "before_last w (s @ w) = Some p" "length s \<le> length p" by auto
    then show ?thesis by simp
  qed
qed simp

lemma command_name_of:
  assumes "hi_name h = name @ ''Handler''" "name \<noteq> []"
  shows "getCommandName h = name"
proof -
  obtain p where p: "before_last ''Handler'' (name @ ''Handler'') = Some p" "length name \<le> length p"
    using before_last_suffix [of "''Handler''" name] assms(2) by auto
  then obtain rest where r: "name @ ''Handler'' = p @ ''Handler'' @ rest" using before_last_some by blast
  have "length (name @ ''Handler'') = length (p @ ''Handler'' @ rest)" by (simp only: r)
  with p(2) have "length p = length name" by simp
  with r have "p = name" by simp
  then show ?thesis using p(1) by (simp add: getCommandName_def assms(1))
qed

end
