(* ===== verification/Zod.thy ===== *)
theory Zod
  imports Bff Retry
begin

text \<open>
  The language in which the DTO files (src/modules/*/dto) describe what a body, a query or an answer must look like. A
  schema is a value of \<open>zod\<close>, one constructor for each call of the zod library that the files make. The library itself
  is not part of the repository: \<open>zod_out\<close> states what its documentation says a schema accepts and what it gives back,
  \<open>zod_documented\<close> is the assumption that the library's \<^verbatim>\<open>safeParse\<close> does that, and the formats it recognises by rules
  of its own (URLs, addresses, UUIDs, coerced numbers, letters outside of ASCII) are the fields of \<open>zod_formats\<close>.
\<close>

section \<open>Schemas\<close>

datatype string_check =
  SMin nat | SMax nat | SRegex "string \<Rightarrow> bool" | SUrl | SEmail | SUuid | STrim

datatype number_check = NInt | NPositive | NNonneg | NMin int | NMax int

datatype zod =
  ZString "string_check list"
| ZNumber "number_check list"
| ZCoerceNumber "number_check list"
| ZBoolean
| ZEnum "string list"
| ZUnknown
| ZRecord zod
| ZArray zod nat "nat option"
| ZObject "(string \<times> zod) list"
| ZNullable zod
| ZOptional zod
| ZDefault zod json
| ZRefine zod "params \<Rightarrow> bool"

record zod_formats =
  zf_url :: "string \<Rightarrow> bool"
  zf_email :: "string \<Rightarrow> bool"
  zf_uuid :: "string \<Rightarrow> bool"
  zf_trim :: "string \<Rightarrow> string"
  zf_number :: "json \<Rightarrow> int option"  \<comment> \<open>\<^verbatim>\<open>Number(v)\<close>, when it is a number\<close>

definition zstring :: zod where "zstring = ZString []"
definition znumber :: zod where "znumber = ZNumber []"
definition zarray :: "zod \<Rightarrow> zod" where "zarray z = ZArray z 0 None"

fun extend_schema :: "zod \<Rightarrow> (string \<times> zod) list \<Rightarrow> zod" where
  "extend_schema (ZObject fs) gs = ZObject (fs @ gs)"
| "extend_schema z gs = z"
  \<comment> \<open>\<^verbatim>\<open>S.extend({...})\<close> with new names\<close>

section \<open>What a schema accepts\<close>

text \<open>Checks run in order; trimming changes the text for those that follow.\<close>

fun string_out :: "zod_formats \<Rightarrow> string_check list \<Rightarrow> string \<Rightarrow> string option" where
  "string_out L [] s = Some s"
| "string_out L (SMin n # cs) s = (if n \<le> js_length s then string_out L cs s else None)"
| "string_out L (SMax n # cs) s = (if js_length s \<le> n then string_out L cs s else None)"
| "string_out L (SRegex r # cs) s = (if r s then string_out L cs s else None)"
| "string_out L (SUrl # cs) s = (if zf_url L s then string_out L cs s else None)"
| "string_out L (SEmail # cs) s = (if zf_email L s then string_out L cs s else None)"
| "string_out L (SUuid # cs) s = (if zf_uuid L s then string_out L cs s else None)"
| "string_out L (STrim # cs) s = string_out L cs (zf_trim L s)"

fun number_ok :: "int \<Rightarrow> number_check \<Rightarrow> bool" where
  "number_ok n NInt = True"  \<comment> \<open>numbers are integers\<close>
| "number_ok n NPositive = (0 < n)"
| "number_ok n NNonneg = (0 \<le> n)"
| "number_ok n (NMin m) = (m \<le> n)"
| "number_ok n (NMax m) = (n \<le> m)"

definition number_out :: "number_check list \<Rightarrow> int option \<Rightarrow> json option option" where
  "number_out cs v = (case v of None \<Rightarrow> None | Some n \<Rightarrow> if list_all (number_ok n) cs then Some (Some (JNum n)) else None)"

text \<open>Fields in the order of the schema, those that give undefined left out; other properties are dropped.\<close>

fun collect_fields :: "(string \<times> json option option) list \<Rightarrow> params option" where
  "collect_fields [] = Some []"
| "collect_fields ((k, None) # rest) = None"
| "collect_fields ((k, Some v) # rest) = map_option (\<lambda>ps. jopt k v @ ps) (collect_fields rest)"

fun collect_items :: "json option option list \<Rightarrow> json list option" where
  "collect_items [] = Some []"
| "collect_items (None # rest) = None"
| "collect_items (Some v # rest) = map_option ((#) (json_nullish v JNull)) (collect_items rest)"

definition object_of :: "json option \<Rightarrow> params" where
  "object_of v = (case v of Some (JObj ps) \<Rightarrow> ps | _ \<Rightarrow> [])"

fun zod_out :: "zod_formats \<Rightarrow> zod \<Rightarrow> json option \<Rightarrow> json option option" where
  "zod_out L (ZString cs) v =
     (case v of Some (JStr s) \<Rightarrow> map_option (\<lambda>t. Some (JStr t)) (string_out L cs s) | _ \<Rightarrow> None)"
| "zod_out L (ZNumber cs) v = (case v of Some (JNum n) \<Rightarrow> number_out cs (Some n) | _ \<Rightarrow> None)"
| "zod_out L (ZCoerceNumber cs) v = number_out cs (Option.bind v (zf_number L))"
| "zod_out L ZBoolean v = (case v of Some (JBool b) \<Rightarrow> Some v | _ \<Rightarrow> None)"
| "zod_out L (ZEnum vs) v = (case v of Some (JStr s) \<Rightarrow> if s \<in> set vs then Some v else None | _ \<Rightarrow> None)"
| "zod_out L ZUnknown v = Some v"
| "zod_out L (ZRecord z) v = (case v of
     Some (JObj ps) \<Rightarrow> map_option (\<lambda>qs. Some (JObj qs)) (collect_fields (map (\<lambda>p. (fst p, zod_out L z (Some (snd p)))) ps))
   | _ \<Rightarrow> None)"
| "zod_out L (ZArray z lo hi) v = (case v of
     Some (JArr xs) \<Rightarrow>
       if length xs < lo \<or> (case hi of None \<Rightarrow> False | Some h \<Rightarrow> h < length xs) then None
       else map_option (\<lambda>ys. Some (JArr ys)) (collect_items (map (\<lambda>x. zod_out L z (Some x)) xs))
   | _ \<Rightarrow> None)"
| "zod_out L (ZObject fs) v = (case v of
     Some (JObj ps) \<Rightarrow> map_option (\<lambda>qs. Some (JObj qs)) (collect_fields (map (\<lambda>f. (fst f, zod_out L (snd f) (map_of ps (fst f)))) fs))
   | _ \<Rightarrow> None)"
| "zod_out L (ZNullable z) v = (if v = Some JNull then Some v else zod_out L z v)"
| "zod_out L (ZOptional z) v = (if v = None then Some v else zod_out L z v)"
| "zod_out L (ZDefault z d) v = (if v = None then Some (Some d) else zod_out L z v)"
| "zod_out L (ZRefine z p) v = (case zod_out L z v of None \<Rightarrow> None | Some w \<Rightarrow> if p (object_of w) then Some w else None)"

definition zod_documented :: "zod_formats \<Rightarrow> (zod \<Rightarrow> json option \<Rightarrow> string + json option) \<Rightarrow> bool" where
  "zod_documented L zparse \<longleftrightarrow>
     (\<forall>z v. case zod_out L z v of None \<Rightarrow> isl (zparse z v) | Some w \<Rightarrow> zparse z v = Inr w)"

text \<open>A schema as the services use it: the parsed value read by \<open>read\<close>.\<close>

definition schema_of ::
  "(zod \<Rightarrow> json option \<Rightarrow> string + json option) \<Rightarrow> zod \<Rightarrow> (json option \<Rightarrow> 'a) \<Rightarrow> 'a schema" where
  "schema_of zparse z read = (\<lambda>v. map_sum id read (zparse z (Some v)))"

section \<open>Facts\<close>

lemma documented_Inr: "zod_documented L zparse \<Longrightarrow> zparse z v = Inr w \<longleftrightarrow> zod_out L z v = Some w"
  unfolding zod_documented_def by (cases "zod_out L z v"; drule spec [of _ z]; drule spec [of _ v]) auto

lemma schema_of_Inr:
  "zod_documented L zparse \<Longrightarrow> schema_of zparse z read v = Inr x \<longleftrightarrow> (\<exists>w. zod_out L z (Some v) = Some w \<and> x = read w)"
  by (cases "zparse z (Some v)") (auto simp: schema_of_def documented_Inr [symmetric])

lemma zstring_out [simp]: "zod_out L zstring v = (case v of Some (JStr s) \<Rightarrow> Some v | _ \<Rightarrow> None)"
  by (auto simp: zstring_def split: option.splits json.splits)

lemma znumber_out [simp]: "zod_out L znumber v = (case v of Some (JNum n) \<Rightarrow> Some v | _ \<Rightarrow> None)"
  by (auto simp: znumber_def number_out_def split: option.splits json.splits)

lemma zod_object_Some:
  "zod_out L (ZObject fs) (Some v) = Some w \<longleftrightarrow>
     (\<exists>ps qs. v = JObj ps \<and> collect_fields (map (\<lambda>f. (fst f, zod_out L (snd f) (map_of ps (fst f)))) fs) = Some qs \<and> w = Some (JObj qs))"
  by (cases v) auto

lemma collect_fields_all: "collect_fields os = Some ps \<Longrightarrow> (k, r) \<in> set os \<Longrightarrow> r \<noteq> None"
  by (induction os arbitrary: ps rule: collect_fields.induct) auto

lemma collect_fields_get:
  assumes "collect_fields os = Some ps" "distinct (map fst os)"
  shows "map_of ps k = Option.bind (map_of os k) (\<lambda>v. Option.bind v (\<lambda>w. w))"
  using assms
proof (induction os arbitrary: ps rule: collect_fields.induct)
  case (3 q v rest)
  then obtain ps' where ps': "collect_fields rest = Some ps'" "ps = jopt q v @ ps'" by auto
  have "map_of rest q = None" using "3.prems"(2) by (simp add: map_of_eq_None_iff)
  moreover have "map_of ps' k = Option.bind (map_of rest k) (\<lambda>v. Option.bind v (\<lambda>w. w))"
    using "3.IH" ps'(1) "3.prems"(2) by simp
  ultimately show ?case using ps' by (cases v; cases "k = q") (auto simp: jopt_def map_add_def split: option.splits)
qed simp_all

end
