(* ===== verification/Dto_Schemas.thy ===== *)
theory Dto_Schemas
  imports Zod
begin

text \<open>
  The schemas of the data transfer objects, one definition for each schema of the DTO files
  (src/modules/*/dto, src/modules/auth/application/dtos, the Zalo provider and src/../config), under its name there; a name that two
  modules declare carries the module's name the second time. Error messages and descriptions are left out. The
  regular expressions are the predicates of the first section.
\<close>

section \<open>Shapes of texts\<close>

definition is_letter :: "char \<Rightarrow> bool" where
  "is_letter c \<longleftrightarrow> (let n = of_char c :: nat in (65 \<le> n \<and> n \<le> 90) \<or> (97 \<le> n \<and> n \<le> 122))"

definition id_char :: "char \<Rightarrow> bool" where
  "id_char c \<longleftrightarrow> is_letter c \<or> is_digit c \<or> c = CHR ''-'' \<or> c = CHR ''_''"

definition id_shape :: "string \<Rightarrow> bool" where
  "id_shape s \<longleftrightarrow> s \<noteq> [] \<and> list_all id_char s"

definition is_dash :: "char \<Rightarrow> bool" where
  "is_dash c \<longleftrightarrow> c = CHR ''-''"

definition has_shape :: "(char \<Rightarrow> bool) list \<Rightarrow> string \<Rightarrow> bool" where
  "has_shape ps s \<longleftrightarrow> list_all2 (\<lambda>p c. p c) ps s"

definition month_pattern :: "(char \<Rightarrow> bool) list" where
  "month_pattern = replicate 4 is_digit @ [is_dash] @ replicate 2 is_digit"

definition month_shape :: "string \<Rightarrow> bool" where
  "month_shape = has_shape month_pattern"

definition day_shape :: "string \<Rightarrow> bool" where
  "day_shape = has_shape (month_pattern @ [is_dash] @ replicate 2 is_digit)"

definition day_prefix :: "string \<Rightarrow> bool" where
  "day_prefix s \<longleftrightarrow> day_shape (take 10 s)"

definition account_shape :: "string \<Rightarrow> bool" where
  "account_shape s \<longleftrightarrow> list_all is_digit s \<and> 6 \<le> length s \<and> length s \<le> 20"

definition otp_shape :: "string \<Rightarrow> bool" where
  "otp_shape = has_shape (replicate 6 is_digit)"

text \<open>\<^verbatim>\<open>(0[3|5|7|8|9])+([0-9]{8})\<close>: the group may repeat, and the class contains the bar.\<close>

fun phone_shape :: "string \<Rightarrow> bool" where
  "phone_shape (a # b # s) =
     (a = CHR ''0'' \<and> b \<in> set ''3|5789'' \<and> (has_shape (replicate 8 is_digit) s \<or> phone_shape s))"
| "phone_shape s = False"

section \<open>Refinements\<close>

fun str_le :: "string \<Rightarrow> string \<Rightarrow> bool" where
  "str_le [] t = True"
| "str_le (c # s) [] = False"
| "str_le (c # s) (d # t) =
     ((of_char c :: nat) < of_char d \<or> (c = d \<and> str_le s t))"
  \<comment> \<open>\<^verbatim>\<open>s <= t\<close>\<close>

definition dates_in_order :: "params \<Rightarrow> bool" where
  "dates_in_order data =
     (case (map_of data ''startDate'', map_of data ''endDate'') of
        (Some (JStr s), Some (JStr t)) \<Rightarrow> if s \<noteq> [] \<and> t \<noteq> [] then str_le s t else True
      | _ \<Rightarrow> True)"

definition some_field :: "params \<Rightarrow> bool" where
  "some_field data \<longleftrightarrow> data \<noteq> []"

section \<open>Accounts\<close>

definition CustomerProfileSchema :: zod where
  "CustomerProfileSchema = ZObject [(''customerId'', zstring), (''fullName'', zstring), (''classification'',
     ZEnum [''sinh_hoat'', ''san_xuat'', ''hanh_chinh'']), (''address'', ZObject [(''street'', zstring),
     (''ward'', zstring), (''district'', zstring), (''city'', zstring), (''fullAddress'', zstring)]),
     (''contactInfo'', ZObject [(''phone'', ZNullable zstring), (''email'', ZNullable zstring),
     (''contactAddress'', ZNullable zstring)]), (''status'', ZEnum [''active'', ''inactive'', ''suspended''])]"

definition CreateCustomerRequestSchema :: zod where
  "CreateCustomerRequestSchema = ZObject [(''fullName'', zstring), (''classification'', ZEnum [''sinh_hoat'',
     ''san_xuat'', ''hanh_chinh'']), (''address'', ZObject [(''street'', zstring), (''ward'', zstring),
     (''district'', zstring), (''city'', zstring)]), (''contactInfo'', ZObject [(''phone'', ZNullable zstring),
     (''email'', ZNullable zstring), (''contactAddress'', ZNullable zstring)]), (''status'', ZEnum [''active'',
     ''inactive'', ''suspended''])]"

definition TimelineEntrySchema :: zod where
  "TimelineEntrySchema = ZObject [(''eventType'', zstring), (''timestamp'', zstring), (''summary'', zstring),
     (''channel'', ZNullable (ZEnum [''app'', ''zalo'', ''hotline'', ''counter'', ''web''])), (''referenceId'',
     ZNullable zstring)]"

definition TimelineResponseSchema :: zod where
  "TimelineResponseSchema = ZObject [(''entries'', zarray TimelineEntrySchema), (''totalCount'', znumber)]"

definition RelatedAccountSchema :: zod where
  "RelatedAccountSchema = ZObject [(''customerId'', zstring), (''name'', zstring), (''relationshipType'',
     zstring), (''address'', ZNullable zstring), (''contactInfo'', ZRecord (ZNullable zstring))]"

definition RelatedAccountsResponseSchema :: zod where
  "RelatedAccountsResponseSchema = ZObject [(''accounts'', zarray RelatedAccountSchema)]"

definition UpdateProfileResponseSchema :: zod where
  "UpdateProfileResponseSchema = ZObject [(''customerId'', zstring), (''updatedFields'', zarray zstring),
     (''updatedAt'', zstring)]"

definition OnboardingStage :: zod where
  "OnboardingStage = ZEnum [''submitted'', ''site_survey'', ''contract'', ''installation'',
     ''meter_activation'', ''completed'', ''rejected'']"

definition OnboardingStatusSchema :: zod where
  "OnboardingStatusSchema = ZObject [(''requestId'', zstring), (''customerId'', zstring), (''stage'',
     OnboardingStage), (''createdAt'', zstring), (''updatedAt'', zstring)]"

definition CreateOnboardingResultSchema :: zod where
  "CreateOnboardingResultSchema = ZObject [(''requestId'', zstring), (''stage'', ZEnum [''submitted'',
     ''site_survey'']), (''createdAt'', zstring)]"

definition SubmitDocumentsResultSchema :: zod where
  "SubmitDocumentsResultSchema = ZObject [(''requestId'', zstring), (''stage'', ZEnum [''site_survey'',
     ''contract'']), (''uploadedDocumentKeys'', zarray zstring), (''updatedAt'', zstring)]"

definition CreateOnboardingRequestSchema :: zod where
  "CreateOnboardingRequestSchema = ZObject [(''address'', ZString [SMin 1]), (''customerType'',
     ZEnum [''sinh_hoat'', ''san_xuat'', ''kcn'']), (''documents'', zarray zstring)]"

definition SubmitDocumentsRequestSchema :: zod where
  "SubmitDocumentsRequestSchema = ZObject [(''documents'', zarray zstring)]"

definition UpdateProfileSchema :: zod where
  "UpdateProfileSchema = ZRefine (ZObject [(''phone'', ZOptional (ZString [SMin 1])), (''email'',
     ZOptional (ZString [SEmail])), (''contactAddress'', ZOptional (ZString [SMin 1]))]) some_field"

section \<open>Billing\<close>

definition PaymentStatusSchema :: zod where
  "PaymentStatusSchema = ZEnum [''paid'', ''unpaid'', ''overdue'', ''cancelled'']"

definition InvoiceListItemSchema :: zod where
  "InvoiceListItemSchema = ZObject [(''invoiceId'', zstring), (''contractId'', zstring), (''period'',
     ZString [SRegex month_shape]), (''totalAmount'', ZNumber [NNonneg]), (''paymentStatus'',
     PaymentStatusSchema), (''issueDate'', zstring), (''dueDate'', ZOptional zstring)]"

definition InvoiceListResponseSchema :: zod where
  "InvoiceListResponseSchema = ZObject [(''invoices'', zarray InvoiceListItemSchema), (''totalCount'',
     znumber), (''page'', ZNumber [NInt, NPositive]), (''limit'', ZNumber [NInt, NPositive]), (''totalPages'',
     znumber)]"

definition InvoiceLineItemSchema :: zod where
  "InvoiceLineItemSchema = ZObject [(''description'', zstring), (''volume'', ZNumber [NNonneg]),
     (''unitPrice'', ZNumber [NNonneg]), (''amount'', ZNumber [NNonneg])]"

definition InvoiceDetailSchema :: zod where
  "InvoiceDetailSchema = ZObject [(''invoiceId'', zstring), (''contractId'', zstring), (''period'',
     ZString [SRegex month_shape]), (''lineItems'', zarray InvoiceLineItemSchema), (''subtotal'',
     ZNumber [NNonneg]), (''fees'', zarray (ZObject [(''feeName'', zstring), (''amount'',
     ZNumber [NNonneg])])), (''totalAmount'', ZNumber [NNonneg]), (''paymentStatus'', PaymentStatusSchema),
     (''cqtCode'', ZNullable zstring), (''lookupCode'', ZNullable zstring), (''issueDate'', zstring),
     (''dueDate'', ZOptional zstring)]"

definition InvoicePdfSchema :: zod where
  "InvoicePdfSchema = ZObject [(''invoiceId'', zstring), (''pdfUrl'', ZString [SUrl]), (''cqtCode'', zstring),
     (''lookupCode'', zstring), (''digitalSignature'', ZString [SMin 10])]"

definition InvoiceIdParamSchema :: zod where
  "InvoiceIdParamSchema = ZString [SMin 1, SMax 100, SRegex id_shape]"

definition InvoiceStatusFilterSchema :: zod where
  "InvoiceStatusFilterSchema = ZOptional (ZEnum [''paid'', ''unpaid'', ''overdue''])"

definition InvoiceListQuerySchema :: zod where
  "InvoiceListQuerySchema = ZObject [(''month'', ZOptional (ZString [SRegex month_shape])), (''status'',
     InvoiceStatusFilterSchema), (''page'', ZDefault (ZCoerceNumber [NInt, NPositive]) (JNum 1)), (''limit'',
     ZDefault (ZCoerceNumber [NInt, NPositive, NMax 100]) (JNum 10))]"

definition TariffTierSchema :: zod where
  "TariffTierSchema = ZObject [(''tier'', ZNumber [NInt, NPositive]), (''fromVolume'', ZNumber [NNonneg]),
     (''toVolume'', ZNullable znumber), (''pricePerM3'', ZNumber [NPositive])]"

definition TariffPlanSchema :: zod where
  "TariffPlanSchema = ZObject [(''planId'', zstring), (''planName'', zstring), (''customerType'',
     ZEnum [''residential'', ''industrial'', ''commercial'', ''institutional'']), (''applicableContractId'',
     zstring), (''tiers'', ZArray TariffTierSchema 1 None), (''effectiveFrom'', zstring), (''effectiveTo'',
     ZNullable zstring)]"

definition TariffBreakdownTierSchema :: zod where
  "TariffBreakdownTierSchema = ZObject [(''tier'', ZNumber [NInt, NPositive]), (''fromVolume'',
     ZNumber [NNonneg]), (''toVolume'', ZNullable znumber), (''volume'', ZNumber [NNonneg]), (''pricePerM3'',
     ZNumber [NPositive]), (''subtotal'', ZNumber [NNonneg])]"

definition TariffBreakdownSchema :: zod where
  "TariffBreakdownSchema = ZObject [(''invoiceId'', zstring), (''contractId'', zstring), (''tiers'',
     zarray TariffBreakdownTierSchema), (''totalBeforeFees'', ZNumber [NNonneg])]"

definition ApplicableFeeSchema :: zod where
  "ApplicableFeeSchema = ZObject [(''feeType'', ZEnum [''environmental'', ''drainage'', ''vat'',
     ''surcharge'']), (''feeName'', zstring), (''rate'', ZNumber [NNonneg]), (''isPercentage'', ZBoolean)]"

definition ApplicableFeesResponseSchema :: zod where
  "ApplicableFeesResponseSchema = ZObject [(''contractId'', zstring), (''fees'', zarray ApplicableFeeSchema),
     (''vatPercentage'', ZNumber [NNonneg])]"

definition ContractIdParamSchema :: zod where
  "ContractIdParamSchema = ZString [SMin 1, SMax 100, SRegex id_shape]"

section \<open>Usage\<close>

definition MeterInfoSchema :: zod where
  "MeterInfoSchema = ZObject [(''meterId'', zstring), (''serialNumber'', zstring), (''type'',
     ZEnum [''mechanical'', ''ultrasonic'', ''electromagnetic'']), (''diameter'', zstring), (''accuracyClass'',
     zstring), (''manufactureYear'', ZNumber [NInt, NMin 1990]), (''installationDate'', zstring), (''status'',
     ZEnum [''active'', ''removed'', ''defective''])]"

definition MeterListResponseSchema :: zod where
  "MeterListResponseSchema = ZObject [(''meters'', zarray MeterInfoSchema), (''totalCount'', znumber)]"

definition CalibrationStatusRawSchema :: zod where
  "CalibrationStatusRawSchema = ZObject [(''meterId'', zstring), (''status'', ZEnum [''valid'',
     ''expiring_soon'', ''expired'']), (''lastCalibrationDate'', zstring), (''nextCalibrationDate'', zstring),
     (''certificateNumber'', ZNullable zstring)]"

definition CalibrationStatusResponseSchema :: zod where
  "CalibrationStatusResponseSchema = extend_schema CalibrationStatusRawSchema [(''isWarning'', ZBoolean)]"

definition MeterHistoryEntrySchema :: zod where
  "MeterHistoryEntrySchema = ZObject [(''eventDate'', zstring), (''eventType'', ZEnum [''installation'',
     ''removal'', ''replacement'', ''calibration'']), (''description'', zstring), (''performedBy'', zstring)]"

definition MeterHistoryResponseSchema :: zod where
  "MeterHistoryResponseSchema = ZObject [(''entries'', zarray MeterHistoryEntrySchema), (''totalCount'',
     znumber)]"

definition MeterIdParamSchema :: zod where
  "MeterIdParamSchema = ZString [SMin 1, SMax 100, SRegex id_shape]"

definition ConsumptionReadingSchema :: zod where
  "ConsumptionReadingSchema = ZObject [(''month'', ZString [SRegex month_shape]), (''volume'',
     ZNumber [NNonneg]), (''readingDate'', zstring)]"

definition ReadingsListResponseSchema :: zod where
  "ReadingsListResponseSchema = ZObject [(''readings'', zarray ConsumptionReadingSchema), (''totalCount'',
     znumber)]"

definition ComparisonRawSchema :: zod where
  "ComparisonRawSchema = ZObject [(''currentPeriod'', zstring), (''previousPeriod'', zstring),
     (''currentVolume'', ZNumber [NNonneg]), (''previousVolume'', ZNumber [NNonneg])]"

definition ComparisonResponseSchema :: zod where
  "ComparisonResponseSchema = extend_schema ComparisonRawSchema [(''percentageChange'', ZNullable znumber),
     (''direction'', ZEnum [''up'', ''down'', ''neutral''])]"

definition EvidencePhotoSchema :: zod where
  "EvidencePhotoSchema = ZObject [(''url'', ZString [SUrl]), (''caption'', ZOptional zstring), (''takenAt'',
     ZOptional zstring)]"

definition ReadingDetailSchema :: zod where
  "ReadingDetailSchema = ZObject [(''period'', zstring), (''previousIndex'', ZNumber [NNonneg]),
     (''currentIndex'', ZNumber [NNonneg]), (''volume'', ZNumber [NNonneg]), (''evidencePhotos'',
     zarray EvidencePhotoSchema)]"

definition PeriodParamSchema :: zod where
  "PeriodParamSchema = ZString [SRegex month_shape]"

definition ComparisonQuerySchema :: zod where
  "ComparisonQuerySchema = ZObject [(''current'', ZString [SRegex month_shape]), (''previous'',
     ZString [SRegex month_shape])]"

definition RealtimeConsumptionSchema :: zod where
  "RealtimeConsumptionSchema = ZObject [(''customerId'', zstring), (''meterId'', zstring), (''currentFlowM3h'',
     znumber), (''todayM3'', znumber), (''lastReadingAt'', zstring)]"

definition SmartMeterStatusSchema :: zod where
  "SmartMeterStatusSchema = ZObject [(''meterId'', zstring), (''online'', ZBoolean), (''batteryLevel'',
     znumber), (''lastSeenAt'', zstring)]"

section \<open>Payments\<close>

definition PaymentMethodSchema :: zod where
  "PaymentMethodSchema = ZEnum [''qr_code'', ''payment_link'', ''bank_transfer'']"

definition payment_InvoiceIdParamSchema :: zod where
  "payment_InvoiceIdParamSchema = ZString [SMin 1, SMax 100, SRegex id_shape]"

definition CreatePaymentRequestSchema :: zod where
  "CreatePaymentRequestSchema = ZObject [(''invoiceId'', payment_InvoiceIdParamSchema), (''method'',
     PaymentMethodSchema)]"

definition CreatePaymentResponseSchema :: zod where
  "CreatePaymentResponseSchema = ZObject [(''paymentId'', zstring), (''invoiceId'', zstring), (''amount'',
     ZNumber [NPositive]), (''method'', PaymentMethodSchema), (''qrCodeUrl'', ZNullable (ZString [SUrl])),
     (''paymentLink'', ZNullable (ZString [SUrl])), (''status'', ZEnum [''pending'', ''processing'',
     ''completed'', ''failed'']), (''expiresAt'', zstring), (''createdAt'', zstring)]"

definition PaymentWebhookStatusSchema :: zod where
  "PaymentWebhookStatusSchema = ZEnum [''success'', ''failed'']"

definition PaymentWebhookPayloadSchema :: zod where
  "PaymentWebhookPayloadSchema = ZObject [(''paymentId'', zstring), (''invoiceId'', zstring), (''customerId'',
     zstring), (''amount'', ZNumber [NPositive]), (''status'', PaymentWebhookStatusSchema), (''timestamp'',
     zstring)]"

definition PaymentHistoryItemSchema :: zod where
  "PaymentHistoryItemSchema = ZObject [(''paymentId'', zstring), (''invoiceIds'', zarray zstring), (''amount'',
     ZNumber [NNonneg]), (''method'', PaymentMethodSchema), (''status'', ZEnum [''completed'', ''pending'',
     ''failed'', ''refunded'']), (''createdAt'', zstring)]"

definition PaymentHistoryResponseSchema :: zod where
  "PaymentHistoryResponseSchema = ZObject [(''payments'', zarray PaymentHistoryItemSchema), (''totalCount'',
     znumber), (''page'', ZNumber [NInt, NPositive]), (''limit'', ZNumber [NInt, NPositive]), (''totalPages'',
     znumber)]"

definition CreateBatchPaymentRequestSchema :: zod where
  "CreateBatchPaymentRequestSchema = ZObject [(''invoiceIds'', ZArray (ZString [SMin 1, SMax 100,
     SRegex id_shape]) 1 (Some 20)), (''method'', PaymentMethodSchema)]"

definition CreateBatchPaymentResponseSchema :: zod where
  "CreateBatchPaymentResponseSchema = ZObject [(''paymentId'', zstring), (''invoiceIds'', zarray zstring),
     (''totalAmount'', ZNumber [NPositive]), (''method'', PaymentMethodSchema), (''qrCodeUrl'',
     ZNullable (ZString [SUrl])), (''paymentLink'', ZNullable (ZString [SUrl])), (''status'',
     ZEnum [''pending'', ''processing'', ''completed'', ''failed'']), (''expiresAt'', zstring), (''createdAt'',
     zstring)]"

definition PaymentHistoryQuerySchema :: zod where
  "PaymentHistoryQuerySchema = ZObject [(''page'', ZDefault (ZCoerceNumber [NInt, NPositive]) (JNum 1)),
     (''limit'', ZDefault (ZCoerceNumber [NInt, NPositive, NMax 100]) (JNum 10)), (''status'',
     ZOptional (ZEnum [''completed'', ''pending'', ''failed'']))]"

definition BankAccountSchema :: zod where
  "BankAccountSchema = ZObject [(''bankName'', ZString [SMin 1, SMax 200]), (''accountNumber'',
     ZString [SRegex account_shape]), (''accountHolder'', ZString [SMin 1, SMax 200]), (''branchCode'',
     ZOptional zstring)]"

definition SetupAutoDebitRequestSchema :: zod where
  "SetupAutoDebitRequestSchema = ZObject [(''bankAccount'', BankAccountSchema)]"

definition AutoDebitStatusSchema :: zod where
  "AutoDebitStatusSchema = ZEnum [''pending_verification'', ''active'', ''rejected'', ''cancelled'']"

definition SetupAutoDebitResponseSchema :: zod where
  "SetupAutoDebitResponseSchema = ZObject [(''registrationId'', zstring), (''status'', AutoDebitStatusSchema),
     (''registeredAt'', zstring)]"

definition AgingBucketSchema :: zod where
  "AgingBucketSchema = ZEnum [''current'', ''31-60'', ''61-90'', ''>90'']"

definition DebtEntrySchema :: zod where
  "DebtEntrySchema = ZObject [(''invoiceRef'', ZString [SMin 1]), (''amount'', ZNumber [NPositive]),
     (''dueDate'', ZString [SRegex day_prefix]), (''daysOverdue'', ZNumber [NInt, NNonneg]), (''agingBucket'',
     AgingBucketSchema)]"

definition AgingBreakdownSchema :: zod where
  "AgingBreakdownSchema = ZObject [(''current'', ZNumber [NNonneg]), (''31-60'', ZNumber [NNonneg]),
     (''61-90'', ZNumber [NNonneg]), (''>90'', ZNumber [NNonneg])]"

definition OutstandingDebtResponseSchema :: zod where
  "OutstandingDebtResponseSchema = ZObject [(''totalAmount'', ZNumber [NNonneg]), (''agingBreakdown'',
     AgingBreakdownSchema), (''debts'', zarray DebtEntrySchema), (''totalCount'', znumber)]"

definition DebtHistoryEntrySchema :: zod where
  "DebtHistoryEntrySchema = ZObject [(''invoiceRef'', ZString [SMin 1]), (''amount'', ZNumber [NNonneg]),
     (''dueDate'', ZString [SRegex day_prefix]), (''paidDate'', ZNullable (ZString [SRegex day_prefix])),
     (''status'', ZEnum [''outstanding'', ''paid'', ''written_off'']), (''agingAtPayment'',
     ZNullable zstring)]"

definition DebtHistoryResponseSchema :: zod where
  "DebtHistoryResponseSchema = ZObject [(''entries'', zarray DebtHistoryEntrySchema), (''totalCount'',
     znumber)]"

section \<open>Notifications\<close>

definition NotificationChannelSchema :: zod where
  "NotificationChannelSchema = ZEnum [''zns'', ''push'', ''sms'', ''email'', ''in_app'']"

definition NotificationTypeSchema :: zod where
  "NotificationTypeSchema = ZEnum [''payment_completed'', ''payment_failed'', ''ticket_status_changed'',
     ''alert_outage'', ''alert_maintenance'', ''alert_quality'', ''debt_reminder'']"

definition DispatchNotificationPayloadSchema :: zod where
  "DispatchNotificationPayloadSchema = ZObject [(''customerId'', ZString [SMin 1]), (''type'',
     NotificationTypeSchema), (''channel'', ZOptional NotificationChannelSchema), (''isCritical'',
     ZDefault ZBoolean (JBool False)), (''ticketId'', ZOptional zstring), (''invoiceId'', ZOptional zstring),
     (''amount'', ZOptional (ZNumber [NPositive])), (''trackingId'', ZOptional zstring), (''oldStatus'',
     ZOptional zstring), (''newStatus'', ZOptional zstring), (''metadata'', ZOptional (ZRecord ZUnknown))]"

definition DispatchNotificationResultSchema :: zod where
  "DispatchNotificationResultSchema = ZObject [(''dispatched'', ZBoolean), (''channel'',
     NotificationChannelSchema), (''rateLimited'', ZBoolean), (''fallbackChain'',
     ZOptional (zarray NotificationChannelSchema))]"

definition SendOtpResultSchema :: zod where
  "SendOtpResultSchema = ZObject [(''sent'', ZBoolean)]"

definition NotificationChannelPreferenceSchema :: zod where
  "NotificationChannelPreferenceSchema = ZObject [(''channel'', NotificationChannelSchema), (''enabled'',
     ZBoolean), (''isCritical'', ZBoolean)]"

definition NotificationPreferencesResponseSchema :: zod where
  "NotificationPreferencesResponseSchema = ZObject [(''customerId'', ZString [SMin 1]), (''channels'',
     zarray NotificationChannelPreferenceSchema), (''updatedAt'', zstring)]"

definition UpdateNotificationPreferencesPayloadSchema :: zod where
  "UpdateNotificationPreferencesPayloadSchema = ZObject [(''channels'', ZArray (ZObject [(''channel'',
     NotificationChannelSchema), (''enabled'', ZBoolean)]) 1 None)]"

definition UpdateNotificationPreferencesResponseSchema :: zod where
  "UpdateNotificationPreferencesResponseSchema = NotificationPreferencesResponseSchema"

definition NotificationDeliveryStatusSchema :: zod where
  "NotificationDeliveryStatusSchema = ZEnum [''sent'', ''delivered'', ''failed'']"

definition NotificationHistoryQuerySchema :: zod where
  "NotificationHistoryQuerySchema = ZRefine (ZObject [(''page'', ZDefault (ZCoerceNumber [NInt,
     NPositive]) (JNum 1)), (''pageSize'', ZDefault (ZCoerceNumber [NInt, NPositive, NMax 50]) (JNum 20)),
     (''startDate'', ZOptional (ZString [SRegex day_shape])), (''endDate'',
     ZOptional (ZString [SRegex day_shape])), (''channel'', ZOptional NotificationChannelSchema), (''type'',
     ZOptional NotificationTypeSchema)]) dates_in_order"

definition NotificationHistoryItemSchema :: zod where
  "NotificationHistoryItemSchema = ZObject [(''id'', ZString [SMin 1]), (''type'', NotificationTypeSchema),
     (''channel'', NotificationChannelSchema), (''contentSummary'', ZString [SMin 1]), (''timestamp'',
     zstring), (''deliveryStatus'', NotificationDeliveryStatusSchema)]"

definition NotificationHistoryResponseSchema :: zod where
  "NotificationHistoryResponseSchema = ZObject [(''notifications'', zarray NotificationHistoryItemSchema),
     (''totalCount'', znumber), (''page'', znumber), (''pageSize'', znumber)]"

definition UpdatePreferencesBodySchema :: zod where
  "UpdatePreferencesBodySchema = UpdateNotificationPreferencesPayloadSchema"

definition AlertTypeSchema :: zod where
  "AlertTypeSchema = ZEnum [''outage'', ''maintenance'', ''quality'']"

definition AlertStatusSchema :: zod where
  "AlertStatusSchema = ZEnum [''active'', ''resolved'', ''scheduled'']"

definition ActiveAlertSchema :: zod where
  "ActiveAlertSchema = ZObject [(''id'', ZString [SMin 1]), (''type'', AlertTypeSchema), (''description'',
     ZString [SMin 1]), (''affectedArea'', ZString [SMin 1]), (''expectedStartTime'',
     ZString [SRegex day_prefix]), (''expectedEndTime'', ZString [SRegex day_prefix]), (''status'',
     AlertStatusSchema), (''severity'', ZOptional (ZEnum [''low'', ''medium'', ''high'']))]"

definition GetActiveAlertsResponseSchema :: zod where
  "GetActiveAlertsResponseSchema = ZObject [(''alerts'', zarray ActiveAlertSchema), (''totalCount'', znumber)]"

definition AlertHistoryItemSchema :: zod where
  "AlertHistoryItemSchema = ZObject [(''id'', ZString [SMin 1]), (''type'', AlertTypeSchema), (''description'',
     ZString [SMin 1]), (''affectedArea'', ZString [SMin 1]), (''startTime'', ZString [SRegex day_prefix]),
     (''endTime'', ZString [SRegex day_prefix]), (''status'', AlertStatusSchema), (''resolvedAt'',
     ZNullable (ZString [SRegex day_prefix]))]"

definition AlertHistoryQuerySchema :: zod where
  "AlertHistoryQuerySchema = ZObject [(''startDate'', ZOptional (ZString [SRegex day_shape])), (''endDate'',
     ZOptional (ZString [SRegex day_shape])), (''page'', ZDefault (ZCoerceNumber [NInt, NPositive]) (JNum 1)),
     (''pageSize'', ZDefault (ZCoerceNumber [NInt, NPositive, NMax 50]) (JNum 20))]"

definition AlertHistoryResponseSchema :: zod where
  "AlertHistoryResponseSchema = ZObject [(''alerts'', zarray AlertHistoryItemSchema), (''totalCount'',
     znumber), (''page'', znumber), (''pageSize'', znumber)]"

definition AcknowledgeAlertResponseSchema :: zod where
  "AcknowledgeAlertResponseSchema = ZObject [(''alertId'', ZString [SMin 1]), (''customerId'',
     ZString [SMin 1]), (''acknowledgedAt'', zstring)]"

definition AlertIdParamSchema :: zod where
  "AlertIdParamSchema = ZObject [(''alertId'', ZString [SMin 1, SRegex id_shape])]"

definition CutoffStatusSchema :: zod where
  "CutoffStatusSchema = ZObject [(''customerId'', zstring), (''hasActiveCutoff'', ZBoolean), (''reason'',
     ZNullable zstring), (''scheduledAt'', ZNullable zstring), (''resolvedAt'', ZNullable zstring)]"

definition CutoffScheduleSchema :: zod where
  "CutoffScheduleSchema = ZObject [(''areaId'', zstring), (''schedules'', zarray (ZObject [(''from'', zstring),
     (''to'', zstring), (''reason'', zstring)]))]"

section \<open>Incidents and reports\<close>

definition IncidentTypeSchema :: zod where
  "IncidentTypeSchema = ZEnum [''pipe_burst'', ''water_outage'', ''water_quality'', ''leak'', ''maintenance'',
     ''other'']"

definition IncidentStatusSchema :: zod where
  "IncidentStatusSchema = ZEnum [''reported'', ''triaged'', ''assigned'', ''in_progress'', ''resolved'',
     ''closed'']"

definition IncidentSeveritySchema :: zod where
  "IncidentSeveritySchema = ZEnum [''low'', ''medium'', ''high'', ''critical'']"

definition IncidentSourceSchema :: zod where
  "IncidentSourceSchema = ZEnum [''customer_report'', ''sensor'', ''staff_report'', ''gis_triage'']"

definition IncidentLocationSchema :: zod where
  "IncidentLocationSchema = ZObject [(''lat'', znumber), (''lng'', znumber), (''address'', zstring), (''area'',
     ZNullable zstring)]"

definition IncidentTimelineEntrySchema :: zod where
  "IncidentTimelineEntrySchema = ZObject [(''status'', IncidentStatusSchema), (''timestamp'', zstring),
     (''actor'', zstring), (''description'', zstring)]"

definition IncidentSchema :: zod where
  "IncidentSchema = ZObject [(''incidentId'', zstring), (''type'', IncidentTypeSchema), (''status'',
     IncidentStatusSchema), (''severity'', IncidentSeveritySchema), (''location'', IncidentLocationSchema),
     (''description'', zstring), (''affectedCustomers'', ZNumber [NInt]), (''linkedTicketIds'',
     zarray zstring), (''assignedTeam'', ZNullable zstring), (''source'', IncidentSourceSchema),
     (''createdAt'', zstring), (''updatedAt'', zstring), (''resolvedAt'', ZNullable zstring)]"

definition IncidentDetailSchema :: zod where
  "IncidentDetailSchema = extend_schema IncidentSchema [(''timeline'', zarray IncidentTimelineEntrySchema)]"

definition IncidentListResponseSchema :: zod where
  "IncidentListResponseSchema = ZObject [(''incidents'', zarray IncidentSchema), (''totalCount'',
     ZNumber [NInt])]"

definition CreateIncidentRequestSchema :: zod where
  "CreateIncidentRequestSchema = ZObject [(''type'', IncidentTypeSchema), (''severity'',
     IncidentSeveritySchema), (''location'', IncidentLocationSchema), (''description'', zstring), (''source'',
     IncidentSourceSchema), (''linkedTicketIds'', ZOptional (zarray zstring))]"

definition CreateIncidentResultSchema :: zod where
  "CreateIncidentResultSchema = ZObject [(''incidentId'', zstring), (''status'', IncidentStatusSchema),
     (''createdAt'', zstring)]"

definition UpdateIncidentStatusRequestSchema :: zod where
  "UpdateIncidentStatusRequestSchema = ZObject [(''status'', IncidentStatusSchema), (''actor'',
     ZOptional zstring), (''description'', ZOptional zstring)]"

definition UpdateIncidentStatusResultSchema :: zod where
  "UpdateIncidentStatusResultSchema = ZObject [(''incidentId'', zstring), (''status'', IncidentStatusSchema),
     (''updatedAt'', zstring)]"

definition GisTriageRequestSchema :: zod where
  "GisTriageRequestSchema = ZObject [(''ticketIds'', zarray zstring), (''area'', ZOptional zstring)]"

definition GisTriageResultSchema :: zod where
  "GisTriageResultSchema = ZObject [(''incidentId'', zstring), (''incidentType'', IncidentTypeSchema),
     (''severity'', IncidentSeveritySchema), (''groupedTicketIds'', zarray zstring), (''location'',
     IncidentLocationSchema), (''message'', zstring)]"

definition IncidentReportSchema :: zod where
  "IncidentReportSchema = ZObject [(''reportId'', zstring), (''customerId'', zstring), (''type'',
     IncidentTypeSchema), (''description'', zstring), (''photoUrls'', zarray zstring), (''location'',
     IncidentLocationSchema), (''status'', IncidentStatusSchema), (''incidentId'', ZNullable zstring),
     (''createdAt'', zstring), (''updatedAt'', zstring)]"

definition IncidentReportListResponseSchema :: zod where
  "IncidentReportListResponseSchema = ZObject [(''reports'', zarray IncidentReportSchema), (''totalCount'',
     ZNumber [NInt])]"

definition CreateReportRequestSchema :: zod where
  "CreateReportRequestSchema = ZObject [(''type'', ZString [SMin 1]), (''description'', zstring),
     (''photoUrls'', ZOptional (zarray zstring)), (''location'', IncidentLocationSchema)]"

definition CreateReportResultSchema :: zod where
  "CreateReportResultSchema = ZObject [(''reportId'', zstring), (''status'', IncidentStatusSchema),
     (''incidentId'', ZNullable zstring), (''message'', zstring)]"

definition ReportDetailSchema :: zod where
  "ReportDetailSchema = extend_schema IncidentReportSchema [(''incidentSummary'',
     ZNullable (ZObject [(''incidentId'', zstring), (''type'', IncidentTypeSchema), (''status'',
     IncidentStatusSchema), (''severity'', IncidentSeveritySchema), (''affectedCustomers'', ZNumber [NInt]),
     (''assignedTeam'', ZNullable zstring)]))]"

section \<open>Contracts\<close>

definition ContractListItemSchema :: zod where
  "ContractListItemSchema = ZObject [(''contractId'', zstring), (''address'', zstring), (''meterId'',
     ZNullable zstring), (''waterQuota'', ZNullable znumber), (''subscriptionType'', ZEnum [''residential'',
     ''commercial'', ''industrial'', ''administrative'']), (''status'', ZEnum [''active'', ''expired'',
     ''terminated'']), (''startDate'', zstring), (''endDate'', ZNullable zstring), (''pricingTerms'',
     ZNullable (ZObject [(''basePrice'', znumber), (''currency'', zstring), (''billingCycle'', zstring)]))]"

definition ContractListResponseSchema :: zod where
  "ContractListResponseSchema = ZObject [(''contracts'', zarray ContractListItemSchema), (''totalCount'',
     znumber)]"

definition ContractDetailResponseSchema :: zod where
  "ContractDetailResponseSchema = ZObject [(''contractId'', zstring), (''address'', zstring), (''meterId'',
     ZNullable zstring), (''waterQuota'', ZNullable znumber), (''subscriptionType'', ZEnum [''residential'',
     ''commercial'', ''industrial'', ''administrative'']), (''status'', ZEnum [''active'', ''expired'',
     ''terminated'']), (''startDate'', zstring), (''endDate'', ZNullable zstring), (''pricingTerms'',
     ZObject [(''basePrice'', znumber), (''currency'', zstring), (''billingCycle'', zstring)]),
     (''specialConditions'', ZNullable (zarray zstring))]"

definition ContractVersionSchema :: zod where
  "ContractVersionSchema = ZObject [(''versionId'', zstring), (''versionNumber'', znumber),
     (''changeDescription'', zstring), (''effectiveDate'', zstring), (''changedBy'', zstring)]"

definition ContractVersionsResponseSchema :: zod where
  "ContractVersionsResponseSchema = ZObject [(''versions'', zarray ContractVersionSchema), (''totalCount'',
     znumber)]"

definition ContractPDFResponseSchema :: zod where
  "ContractPDFResponseSchema = ZObject [(''contractId'', zstring), (''downloadUrl'', zstring), (''fileName'',
     zstring), (''expiresAt'', ZNullable zstring)]"

definition ContractQuerySchema :: zod where
  "ContractQuerySchema = ZOptional (ZObject [(''status'', ZOptional (ZEnum [''active'', ''expired'',
     ''terminated'']))])"

definition contract_ContractIdParamSchema :: zod where
  "contract_ContractIdParamSchema = ZString [SMin 1, SMax 100, SRegex id_shape]"

definition EcontractResponseSchema :: zod where
  "EcontractResponseSchema = ZObject [(''dossierId'', zstring), (''customerId'', zstring), (''status'',
     ZEnum [''draft'', ''pending_signature'', ''signed'', ''expired'']), (''downloadUrl'', ZNullable zstring),
     (''signedAt'', ZNullable zstring)]"

definition SignContractResultSchema :: zod where
  "SignContractResultSchema = ZObject [(''dossierId'', zstring), (''status'', ZEnum [''signed'', ''failed'']),
     (''signedAt'', zstring)]"

definition SignContractBodySchema :: zod where
  "SignContractBodySchema = ZObject [(''signatureRef'', ZString [SMin 1])]"

section \<open>Support\<close>

definition ClickToCallResultSchema :: zod where
  "ClickToCallResultSchema = ZObject [(''callId'', zstring), (''status'', ZEnum [''initiated'', ''connecting'',
     ''failed'']), (''phoneNumber'', zstring)]"

definition CallHistorySchema :: zod where
  "CallHistorySchema = ZObject [(''customerId'', zstring), (''calls'', zarray (ZObject [(''callId'', zstring),
     (''startedAt'', zstring), (''durationSec'', ZNumber [NInt, NNonneg]), (''outcome'', ZEnum [''completed'',
     ''missed'', ''voicemail''])]))]"

definition ClickToCallRequestSchema :: zod where
  "ClickToCallRequestSchema = ZObject [(''phoneNumber'', ZString [SMin 1])]"

definition SendMessageSchema :: zod where
  "SendMessageSchema = ZObject [(''userId'', ZString [SMin 1]), (''text'', ZString [SMin 1, SMax 2000]),
     (''messageId'', ZOptional (ZString [SUuid]))]"

section \<open>Sessions\<close>

definition SessionEventTypeSchema :: zod where
  "SessionEventTypeSchema = ZEnum [''zalo_message_received'', ''call_started'', ''call_completed'',
     ''ticket_created'', ''ticket_status_changed'', ''payment_completed'', ''payment_failed'',
     ''notification_sent'', ''invoice_viewed'', ''alert_acknowledged'', ''session_started'',
     ''session_continued'']"

definition ChannelTypeSchema :: zod where
  "ChannelTypeSchema = ZEnum [''app'', ''zalo'', ''web'', ''hotline'', ''counter'']"

definition SessionEventSchema :: zod where
  "SessionEventSchema = ZObject [(''id'', ZString [SUuid]), (''type'', SessionEventTypeSchema), (''channel'',
     ChannelTypeSchema), (''timestamp'', zstring), (''content'', ZRecord ZUnknown)]"

definition SessionMetadataSchema :: zod where
  "SessionMetadataSchema = ZObject [(''sessionId'', ZString [SUuid]), (''userId'', ZString [SMin 1]),
     (''channel'', ChannelTypeSchema), (''createdAt'', zstring), (''updatedAt'', zstring), (''eventCount'',
     ZNumber [NInt, NNonneg])]"

definition RecordSessionEventPayloadSchema :: zod where
  "RecordSessionEventPayloadSchema = ZObject [(''userId'', ZString [SMin 1]), (''eventType'',
     SessionEventTypeSchema), (''channel'', ChannelTypeSchema), (''content'', ZRecord ZUnknown)]"

definition SessionEventsQuerySchema :: zod where
  "SessionEventsQuerySchema = ZObject [(''from'', ZOptional (ZCoerceNumber [NInt])), (''to'',
     ZOptional (ZCoerceNumber [NInt])), (''channel'', ZOptional ChannelTypeSchema), (''page'',
     ZDefault (ZCoerceNumber [NInt, NPositive]) (JNum 1)), (''pageSize'', ZDefault (ZCoerceNumber [NInt,
     NPositive, NMax 50]) (JNum 20))]"

definition SessionEventsResponseSchema :: zod where
  "SessionEventsResponseSchema = ZObject [(''sessionId'', ZNullable zstring), (''events'',
     zarray SessionEventSchema), (''totalCount'', znumber), (''page'', znumber), (''pageSize'', znumber)]"

definition SessionDetailResponseSchema :: zod where
  "SessionDetailResponseSchema = ZObject [(''session'', ZNullable (ZObject [(''sessionId'', ZString [SUuid]),
     (''userId'', ZString [SMin 1]), (''channel'', ChannelTypeSchema), (''createdAt'', zstring),
     (''updatedAt'', zstring), (''eventCount'', ZNumber [NInt, NNonneg])])), (''recentEvents'',
     zarray SessionEventSchema)]"

section \<open>Login, registration and binding\<close>

definition RegisterPhoneSchema :: zod where
  "RegisterPhoneSchema = ZObject [(''phoneNumber'', ZString [SRegex phone_shape]), (''name'',
     ZOptional (ZString [SMin 1, SMax 255]))]"

definition RegisterProviderSchema :: zod where
  "RegisterProviderSchema = ZObject [(''providerType'', ZEnum [''phone'', ''zalo'', ''google'', ''facebook'',
     ''apple'']), (''providerId'', ZString [SMin 1, SMax 255]), (''email'', ZOptional (ZString [SEmail])),
     (''name'', ZOptional (ZString [SMin 1, SMax 255])), (''phoneNumber'', ZOptional zstring), (''state'',
     ZOptional (ZString [SMin 1, SMax 512]))]"

definition LinkProviderSchema :: zod where
  "LinkProviderSchema = ZObject [(''providerType'', ZEnum [''phone'', ''zalo'', ''google'', ''facebook'',
     ''apple'']), (''providerId'', ZString [SMin 1, SMax 255]), (''providerEmail'',
     ZOptional (ZString [SEmail]))]"

definition VerifyOtpSchema :: zod where
  "VerifyOtpSchema = ZObject [(''phoneNumber'', ZString [SMin 1]), (''code'', ZString [SRegex otp_shape])]"

definition RegisterSchema :: zod where
  "RegisterSchema = ZObject [(''fullName'', ZString [STrim, SMin 2, SMax 255]), (''classification'',
     ZEnum [''sinh_hoat'', ''san_xuat'', ''hanh_chinh'']), (''address'', ZObject [(''street'', ZString [STrim,
     SMin 1, SMax 256]), (''ward'', ZString [STrim, SMin 1, SMax 128]), (''district'', ZString [STrim, SMin 1,
     SMax 128]), (''city'', ZString [STrim, SMin 1, SMax 128])]), (''email'', ZOptional (ZString [STrim,
     SEmail]))]"

definition SecretTypeSchema :: zod where
  "SecretTypeSchema = ZEnum [''last_invoice_amount'', ''ma_kh'']"

definition BindSchema :: zod where
  "BindSchema = ZObject [(''customerRef'', ZString [SMin 1, SMax 128]), (''secretType'', SecretTypeSchema),
     (''secretValue'', ZString [SMin 1, SMax 256])]"

definition ZaloUserInfoSchema :: zod where
  "ZaloUserInfoSchema = ZObject [(''id'', zstring), (''name'', ZOptional zstring), (''picture'',
     ZOptional (ZObject [(''data'', ZOptional (ZObject [(''url'', zstring)]))])), (''phone_number'',
     ZOptional zstring)]"

definition ZaloTokenResponseSchema :: zod where
  "ZaloTokenResponseSchema = ZObject [(''access_token'', zstring), (''expires_in'', znumber),
     (''refresh_token'', ZOptional zstring), (''token_type'', ZOptional zstring)]"

section \<open>Configuration files\<close>

definition CacheTierSchema :: zod where
  "CacheTierSchema = ZEnum [''static'', ''dynamic'', ''transaction'']"

definition QueuePolicySchema :: zod where
  "QueuePolicySchema = ZEnum [''never'', ''on-cache-miss'', ''always'']"

definition PortCircuitBreakerConfigSchema :: zod where
  "PortCircuitBreakerConfigSchema = ZObject [(''errorThreshold'', ZDefault (ZNumber [NInt, NMin 1,
     NMax 100]) (JNum 50)), (''resetTimeout'', ZDefault (ZNumber [NInt, NPositive]) (JNum 10000)),
     (''minRequests'', ZDefault (ZNumber [NInt, NNonneg]) (JNum 5))]"

definition PortEndpointConfigSchema :: zod where
  "PortEndpointConfigSchema = ZObject [(''adapter'', ZEnum [''mock'', ''live'']), (''baseUrl'',
     ZOptional zstring), (''timeout'', ZDefault (ZNumber [NInt, NPositive]) (JNum 3000)), (''cacheTier'',
     CacheTierSchema), (''cacheTtl'', ZOptional (ZNumber [NInt, NNonneg])), (''queuePolicy'',
     ZOptional QueuePolicySchema), (''circuitBreaker'', ZOptional PortCircuitBreakerConfigSchema),
     (''description'', ZOptional zstring), (''methods'', ZOptional (zarray zstring))]"

definition ApiEndpointsSchema :: zod where
  "ApiEndpointsSchema = ZObject [(''services'', ZRecord PortEndpointConfigSchema)]"

definition config_InvoiceListItemSchema :: zod where
  "config_InvoiceListItemSchema = ZObject [(''invoiceId'', zstring), (''contractId'', zstring), (''period'',
     zstring), (''totalAmount'', ZNumber [NNonneg]), (''paymentStatus'', ZEnum [''paid'', ''unpaid'',
     ''overdue'', ''cancelled'']), (''issueDate'', zstring), (''dueDate'', ZOptional zstring)]"

definition InvoiceGetListSchema :: zod where
  "InvoiceGetListSchema = ZObject [(''invoices'', zarray config_InvoiceListItemSchema), (''totalCount'',
     znumber), (''page'', ZNumber [NInt, NPositive]), (''limit'', ZNumber [NInt, NPositive]), (''totalPages'',
     znumber)]"

definition InvoiceGetByIdSchema :: zod where
  "InvoiceGetByIdSchema = ZObject [(''invoiceId'', zstring), (''contractId'', zstring), (''period'', zstring),
     (''lineItems'', zarray (ZObject [(''description'', zstring), (''volume'', ZNumber [NNonneg]),
     (''unitPrice'', ZNumber [NNonneg]), (''amount'', ZNumber [NNonneg])])), (''subtotal'', ZNumber [NNonneg]),
     (''fees'', zarray (ZObject [(''feeName'', zstring), (''amount'', ZNumber [NNonneg])])), (''totalAmount'',
     ZNumber [NNonneg]), (''paymentStatus'', ZEnum [''paid'', ''unpaid'', ''overdue'', ''cancelled'']),
     (''cqtCode'', ZNullable zstring), (''lookupCode'', ZNullable zstring), (''issueDate'', zstring),
     (''dueDate'', ZOptional zstring)]"

definition InvoiceGetPdfSchema :: zod where
  "InvoiceGetPdfSchema = ZObject [(''invoiceId'', zstring), (''pdfUrl'', ZString [SUrl]), (''cqtCode'',
     zstring), (''lookupCode'', zstring), (''digitalSignature'', zstring)]"

end
