(* ===== verification/Port_Contracts.thy ===== *)
theory Port_Contracts
  imports Dto_Schemas Mock_Adapters
begin

text \<open>
  Which schema the answers of a port must satisfy: the tables that the mock adapters of src/modules/*/clients pass to
  their base class (src/libs/shared/port/mock-adapter.base.ts), by port and method, and what follows for the answers.
\<close>

section \<open>The tables\<close>

definition customer_profile_contract :: "(string \<times> zod) list" where
  "customer_profile_contract =
     [(''get-profile'', CustomerProfileSchema),
      (''get-timeline'', TimelineResponseSchema),
      (''get-related-accounts'', RelatedAccountsResponseSchema),
      (''update-profile'', UpdateProfileResponseSchema),
      (''find-by-phone'', CustomerProfileSchema),
      (''create-customer'', CreateCustomerRequestSchema)]"

definition onboarding_contract :: "(string \<times> zod) list" where
  "onboarding_contract =
     [(''create-onboarding-request'', CreateOnboardingResultSchema),
      (''get-onboarding-status'', OnboardingStatusSchema),
      (''submit-documents'', SubmitDocumentsResultSchema)]"

definition invoice_contract :: "(string \<times> zod) list" where
  "invoice_contract =
     [(''get-list'', InvoiceListResponseSchema),
      (''get-by-id'', InvoiceDetailSchema),
      (''get-pdf'', InvoicePdfSchema)]"

definition tariff_contract :: "(string \<times> zod) list" where
  "tariff_contract =
     [(''get-tariff-plan'', TariffPlanSchema),
      (''get-tariff-breakdown'', TariffBreakdownSchema),
      (''get-applicable-fees'', ApplicableFeesResponseSchema)]"

definition notification_contract :: "(string \<times> zod) list" where
  "notification_contract =
     [(''dispatch-notification'', DispatchNotificationResultSchema),
      (''send-otp'', SendOtpResultSchema),
      (''get-notification-preferences'', NotificationPreferencesResponseSchema),
      (''update-notification-preferences'', UpdateNotificationPreferencesResponseSchema),
      (''get-notification-history'', NotificationHistoryResponseSchema)]"

definition proactive_notification_contract :: "(string \<times> zod) list" where
  "proactive_notification_contract =
     [(''get-active-alerts'', GetActiveAlertsResponseSchema),
      (''get-alert-history'', AlertHistoryResponseSchema),
      (''acknowledge-alert'', AcknowledgeAlertResponseSchema)]"

definition water_cutoff_contract :: "(string \<times> zod) list" where
  "water_cutoff_contract =
     [(''get-cutoff-status'', CutoffStatusSchema),
      (''get-cutoff-schedule'', CutoffScheduleSchema)]"

definition debt_contract :: "(string \<times> zod) list" where
  "debt_contract =
     [(''get-outstanding-debt'', OutstandingDebtResponseSchema),
      (''get-debt-history'', DebtHistoryResponseSchema)]"

definition payment_contract :: "(string \<times> zod) list" where
  "payment_contract =
     [(''create-payment'', CreatePaymentResponseSchema),
      (''get-payment-history'', PaymentHistoryResponseSchema),
      (''create-batch-payment'', CreateBatchPaymentResponseSchema),
      (''setup-auto-debit'', SetupAutoDebitResponseSchema)]"

definition incident_contract :: "(string \<times> zod) list" where
  "incident_contract =
     [(''get-incidents'', IncidentListResponseSchema),
      (''get-incident-detail'', IncidentDetailSchema),
      (''create-incident'', CreateIncidentResultSchema),
      (''update-incident-status'', UpdateIncidentStatusResultSchema),
      (''gis-triage'', GisTriageResultSchema),
      (''create-report'', CreateReportResultSchema),
      (''get-my-reports'', IncidentReportListResponseSchema),
      (''get-report-detail'', ReportDetailSchema)]"

definition contract_contract :: "(string \<times> zod) list" where
  "contract_contract =
     [(''get-contracts'', ContractListResponseSchema),
      (''get-contract-detail'', ContractDetailResponseSchema),
      (''get-contract-versions'', ContractVersionsResponseSchema),
      (''get-contract-pdf'', ContractPDFResponseSchema)]"

definition econtract_contract :: "(string \<times> zod) list" where
  "econtract_contract =
     [(''get-contract'', EcontractResponseSchema),
      (''sign-contract'', SignContractResultSchema)]"

definition call_center_contract :: "(string \<times> zod) list" where
  "call_center_contract =
     [(''create-click-to-call'', ClickToCallResultSchema),
      (''get-call-history'', CallHistorySchema)]"

definition meter_reading_contract :: "(string \<times> zod) list" where
  "meter_reading_contract =
     [(''get-readings'', ReadingsListResponseSchema),
      (''get-comparison'', ComparisonRawSchema),
      (''get-reading-detail'', ReadingDetailSchema)]"

definition meter_contract :: "(string \<times> zod) list" where
  "meter_contract =
     [(''get-meter-by-customer'', MeterListResponseSchema),
      (''get-calibration-status'', CalibrationStatusRawSchema),
      (''get-meter-history'', MeterHistoryResponseSchema)]"

definition smart_meter_contract :: "(string \<times> zod) list" where
  "smart_meter_contract =
     [(''get-realtime-consumption'', RealtimeConsumptionSchema),
      (''get-meter-status'', SmartMeterStatusSchema)]"

definition contracts :: "(string \<times> (string \<times> zod) list) list" where
  "contracts =
     [(''customer-profile'', customer_profile_contract),
      (''onboarding'', onboarding_contract),
      (''invoice'', invoice_contract),
      (''tariff'', tariff_contract),
      (''notification'', notification_contract),
      (''proactive-notification'', proactive_notification_contract),
      (''water-cutoff'', water_cutoff_contract),
      (''debt'', debt_contract),
      (''payment'', payment_contract),
      (''incident'', incident_contract),
      (''contract'', contract_contract),
      (''econtract'', econtract_contract),
      (''call-center'', call_center_contract),
      (''meter-reading'', meter_reading_contract),
      (''meter'', meter_contract),
      (''smart-meter'', smart_meter_contract)]"
definition contract_of :: "string \<Rightarrow> string \<Rightarrow> zod option" where
  "contract_of portName method = Option.bind (map_of contracts portName) (\<lambda>table. map_of table method)"

text \<open>The checks of the mock adapters: the library applied to the schema of the method.\<close>

definition contract_checks ::
  "(zod \<Rightarrow> json option \<Rightarrow> string + json option) \<Rightarrow> string \<Rightarrow> string \<rightharpoonup> json \<Rightarrow> string + json" where
  "contract_checks zparse portName method =
     map_option (\<lambda>z. schema_of zparse z (\<lambda>w. json_nullish w JNull)) (contract_of portName method)"

section \<open>Answers from fixtures\<close>

text \<open>Outside of production a fixture that is served has passed the schema of its method.\<close>

lemma fixture_conforms:
  assumes "zod_documented L zparse" "mf_schemas F = contract_checks zparse" "\<not> mf_production F"
    and "contract_of portName method = Some z" "fixture F portName method ps s = (Inr j, s')"
  shows "\<exists>raw w. zod_out L z (Some raw) = Some w \<and> j = json_nullish w JNull" "s' = s"
  using assms(5) unfolding fixture_def mock_execute_def assms(2)
  by (auto simp: contract_checks_def assms(3,4) schema_of_Inr [OF assms(1)] ret_def throw_def split: sum.splits)

text \<open>In production a fixture that breaks its contract is served all the same.\<close>

lemma production_serves_anything:
  assumes "mf_readJson F [''mocks'', portName, method @ ''.json''] = Inr raw" "mf_production F"
  shows "\<exists>j. fst (fixture F portName method ps s) = Inr j"
  using assms by (auto simp: fixture_def mock_execute_def ret_def split: option.splits sum.splits)

text \<open>What a port's entry in the endpoint file must say, and what it gets when it says no more.\<close>

lemma endpoint_defaults:
  "zod_out L PortEndpointConfigSchema (Some (JObj [(''adapter'', JStr ''mock''), (''cacheTier'', JStr ''dynamic'')])) =
     Some (Some (JObj [(''adapter'', JStr ''mock''), (''timeout'', JNum 3000), (''cacheTier'', JStr ''dynamic'')]))"
  by (simp add: PortEndpointConfigSchema_def CacheTierSchema_def jopt_def)

lemma breaker_defaults:
  "zod_out L PortCircuitBreakerConfigSchema (Some (JObj [])) =
     Some (Some (JObj [(''errorThreshold'', JNum 50), (''resetTimeout'', JNum 10000), (''minRequests'', JNum 5)]))"
  by (simp add: PortCircuitBreakerConfigSchema_def jopt_def)

section \<open>Customer profiles\<close>

lemma string_or_null_out: "zod_out L (ZNullable zstring) (Some (str_or_null v)) = Some (Some (str_or_null v))"
  by (cases v) (simp_all add: str_or_null_def)

lemma classification_out:
  "zod_out L (ZEnum [''sinh_hoat'', ''san_xuat'', ''hanh_chinh'']) (Some (JStr (classification_str c))) = Some (Some (JStr (classification_str c)))"
  by (cases c) simp_all

lemma profile_status_out:
  "zod_out L (ZEnum [''active'', ''inactive'', ''suspended'']) (Some (JStr (profile_status_str c))) = Some (Some (JStr (profile_status_str c)))"
  by (cases c) simp_all

text \<open>
  A customer who registers in the app is stored without contact information, and the profile that the port then gives
  does not satisfy the contract of its own method.
\<close>

lemma registered_row_without_contact: "cp_contactInfo (rowToRecord (customer_row (new_customer n ph p))) = None"
  by (simp add: rowToRecord_def customer_row_def)

lemma created_profile_has_contact:
  "createCustomer p rows = (Inr c, rows') \<Longrightarrow> cp_contactInfo c = Some (cq_contactInfo p)"
  by (auto simp: createCustomer_def Let_def split: prod.splits sum.splits)

section \<open>Properties\<close>

text \<open>
  C37. A profile satisfies the schema of the customer-profile port, and is given back by it unchanged, exactly when it
  has contact information.
\<close>

theorem profile_contract:
  "zod_out L CustomerProfileSchema (Some (profile_json p)) =
     (if cp_contactInfo p = None then None else Some (Some (profile_json p)))"
  by (cases "cp_contactInfo p")
    (simp_all add: CustomerProfileSchema_def profile_json_def jopt_def string_or_null_out classification_out profile_status_out
      del: zod_out.simps(5,10))

end
