(* ===== verification/Request_Checks.thy ===== *)
theory Request_Checks
  imports Dto_Schemas Bff_Services Payment Sessions
begin

text \<open>
  What the services of src/modules let through once their schema arguments are the schemas of the DTO files: identifiers
  that end up in the paths of downstream services, pages, date ranges, payments. The library's parser is the argument
  \<open>zparse\<close>, assumed to do what it documents.
\<close>

section \<open>The schemas of the services\<close>

type_synonym zod_parser = "zod \<Rightarrow> json option \<Rightarrow> string + json option"

definition text_of_out :: "json option \<Rightarrow> string" where
  "text_of_out w = (case w of Some (JStr s) \<Rightarrow> s | _ \<Rightarrow> [])"

definition field_of_out :: "string \<Rightarrow> json option \<Rightarrow> json option" where
  "field_of_out k w = map_of (object_of w) k"

definition billing_checks :: "zod_parser \<Rightarrow> billing_schemas" where
  "billing_checks zparse = \<lparr>bs_invoiceList = schema_of zparse InvoiceListQuerySchema object_of,
     bs_invoiceId = schema_of zparse InvoiceIdParamSchema text_of_out,
     bs_contractId = schema_of zparse ContractIdParamSchema text_of_out\<rparr>"

definition usage_checks :: "zod_parser \<Rightarrow> usage_schemas" where
  "usage_checks zparse = \<lparr>us_meterId = schema_of zparse MeterIdParamSchema text_of_out,
     us_period = schema_of zparse PeriodParamSchema text_of_out,
     us_comparison = schema_of zparse ComparisonQuerySchema (\<lambda>_. ())\<rparr>"

definition notification_checks :: "zod_parser \<Rightarrow> notification_schemas" where
  "notification_checks zparse = \<lparr>ns_alertHistory = schema_of zparse AlertHistoryQuerySchema object_of,
     ns_alertId = schema_of zparse AlertIdParamSchema (\<lambda>w. text_of_out (field_of_out ''alertId'' w)),
     ns_history = schema_of zparse NotificationHistoryQuerySchema object_of,
     ns_preferences = schema_of zparse UpdatePreferencesBodySchema (\<lambda>w. json_nullish (field_of_out ''channels'' w) JNull),
     ns_dispatch = schema_of zparse DispatchNotificationPayloadSchema object_of\<rparr>"

definition contract_checks_of :: "zod_parser \<Rightarrow> contract_schemas" where
  "contract_checks_of zparse = \<lparr>cs_query = schema_of zparse ContractQuerySchema object_of,
     cs_contractId = schema_of zparse contract_ContractIdParamSchema text_of_out,
     cs_sign = schema_of zparse SignContractBodySchema (\<lambda>w. json_nullish (field_of_out ''signatureRef'' w) JNull)\<rparr>"

definition texts_of :: "json option \<Rightarrow> string list" where
  "texts_of v = (case v of Some (JArr xs) \<Rightarrow> map (\<lambda>x. text_of_out (Some x)) xs | _ \<Rightarrow> [])"

definition num_of_out :: "json option \<Rightarrow> int" where
  "num_of_out w = (case w of Some (JNum n) \<Rightarrow> n | _ \<Rightarrow> 0)"

definition read_webhook :: "json option \<Rightarrow> webhook_payload" where
  "read_webhook w =
     (let str = (\<lambda>k. text_of_out (field_of_out k w)) in
      \<lparr>wp_paymentId = str ''paymentId'', wp_invoiceId = str ''invoiceId'', wp_customerId = str ''customerId'',
       wp_amount = num_of_out (field_of_out ''amount'' w),
       wp_status = (if str ''status'' = ''success'' then PaymentSuccess else PaymentFailed)\<rparr>)"

definition payment_checks :: "zod_parser \<Rightarrow> payment_schemas" where
  "payment_checks zparse = \<lparr>
     ps_createPayment = schema_of zparse CreatePaymentRequestSchema
       (\<lambda>w. (text_of_out (field_of_out ''invoiceId'' w), text_of_out (field_of_out ''method'' w))),
     ps_createBatch = schema_of zparse CreateBatchPaymentRequestSchema
       (\<lambda>w. (texts_of (field_of_out ''invoiceIds'' w), text_of_out (field_of_out ''method'' w))),
     ps_history = schema_of zparse PaymentHistoryQuerySchema object_of,
     ps_autoDebit = schema_of zparse SetupAutoDebitRequestSchema (\<lambda>w. json_nullish (field_of_out ''bankAccount'' w) JNull),
     ps_webhook = schema_of zparse PaymentWebhookPayloadSchema read_webhook\<rparr>"

definition session_checks :: "zod_parser \<Rightarrow> session_query schema" where
  "session_checks zparse = schema_of zparse SessionEventsQuerySchema (\<lambda>w.
     \<lparr>sq_from = map_option (\<lambda>j. num_of_out (Some j)) (field_of_out ''from'' w),
      sq_to = map_option (\<lambda>j. num_of_out (Some j)) (field_of_out ''to'' w),
      sq_channel = map_option (\<lambda>j. text_of_out (Some j)) (field_of_out ''channel'' w),
      sq_page = num_of_out (field_of_out ''page'' w), sq_pageSize = num_of_out (field_of_out ''pageSize'' w)\<rparr>)"

text \<open>A library that behaves as documented: it computes what the documentation says.\<close>

definition reference_parser :: "zod_formats \<Rightarrow> zod_parser" where
  "reference_parser L z v = (case zod_out L z v of None \<Rightarrow> Inl ''invalid'' | Some w \<Rightarrow> Inr w)"

lemma reference_parser_documented: "zod_documented L (reference_parser L)"
  by (simp add: zod_documented_def reference_parser_def split: option.splits)

section \<open>Identifiers\<close>

definition wf_id :: "string \<Rightarrow> bool" where
  "wf_id s \<longleftrightarrow> id_shape s \<and> length s \<le> 100"

lemma id_char_ascii: "id_char c \<Longrightarrow> (of_char c :: nat) < 128"
  by (auto simp: id_char_def is_letter_def is_digit_def Let_def)

lemma js_length_ascii: "\<forall>c \<in> set s. (of_char c :: nat) < 128 \<Longrightarrow> js_length s = length s"
  by (induction s) (auto simp: js_length_def Let_def)

lemma id_shape_length: "id_shape s \<Longrightarrow> js_length s = length s \<and> 1 \<le> length s"
  by (auto simp: id_shape_def list_all_iff intro!: js_length_ascii id_char_ascii) (simp add: Suc_le_eq)

lemma id_out:
  "string_out L [SMin 1, SMax 100, SRegex id_shape] s = (if wf_id s then Some s else None)"
  using id_shape_length [of s] by (auto simp: wf_id_def)

text \<open>An accepted identifier cannot change the path, the query or the host of the URL it is put into.\<close>

lemma wf_id_url_safe:
  assumes "wf_id s"
  shows "\<forall>c \<in> set s. c \<notin> set ''/.?#%&=:@ ''"
  using assms by (auto simp: wf_id_def id_shape_def list_all_iff id_char_def is_letter_def is_digit_def Let_def)

definition id_check :: "zod_parser \<Rightarrow> string schema" where
  "id_check zparse = schema_of zparse (ZString [SMin 1, SMax 100, SRegex id_shape]) text_of_out"

lemma id_check_eval:
  assumes "zod_documented L zparse"
  shows "\<exists>m. id_check zparse (JStr s) = (if wf_id s then Inr s else Inl m)"
proof -
  have out: "zod_out L (ZString [SMin 1, SMax 100, SRegex id_shape]) (Some (JStr s)) = (if wf_id s then Some (Some (JStr s)) else None)"
    unfolding zod_out.simps(1) id_out by simp
  show ?thesis
  proof (cases "id_check zparse (JStr s)")
    case (Inl m)
    have "\<not> wf_id s"
    proof
      assume "wf_id s"
      with out have "id_check zparse (JStr s) = Inr s"
        unfolding id_check_def schema_of_Inr [OF assms] by (simp add: text_of_out_def)
      with Inl show False by simp
    qed
    with Inl show ?thesis by auto
  next
    case (Inr x)
    then have "wf_id s \<and> x = s"
      unfolding id_check_def schema_of_Inr [OF assms] out by (auto simp: text_of_out_def split: if_splits)
    with Inr show ?thesis by simp
  qed
qed

text \<open>An operation on an identifier refuses every malformed one before anything is called.\<close>

definition refuses_bad_ids :: "(string \<Rightarrow> ('c, 's, 'a) bff) \<Rightarrow> bool" where
  "refuses_bad_ids f \<longleftrightarrow> (\<forall>s w. \<not> wf_id s \<longrightarrow> (\<exists>m. f s w = (Inl (ValidationException m), w)))"

lemma id_checks [simp]:
  "bs_invoiceId (billing_checks zparse) = id_check zparse" "bs_contractId (billing_checks zparse) = id_check zparse"
  "us_meterId (usage_checks zparse) = id_check zparse" "cs_contractId (contract_checks_of zparse) = id_check zparse"
  by (simp_all add: billing_checks_def usage_checks_def contract_checks_of_def id_check_def InvoiceIdParamSchema_def
      ContractIdParamSchema_def MeterIdParamSchema_def contract_ContractIdParamSchema_def)

lemma id_validators:
  assumes "zod_documented L zparse"
  shows "validateInvoiceId (billing_checks zparse) s w = (if wf_id s then Inr () else Inl (ValidationException ''Invalid Invoice ID format''), w)"
    "validateContractId (billing_checks zparse) s w = (if wf_id s then Inr () else Inl (ValidationException ''Invalid Contract ID format''), w)"
    "validateMeterId (usage_checks zparse) s w = (if wf_id s then Inr () else Inl (ValidationException ''Invalid meter ID format''), w)"
    "validateContract (contract_checks_of zparse) s w = (if wf_id s then Inr () else Inl (ValidationException ''Invalid contract ID format''), w)"
  using id_check_eval [OF assms, of s]
  by (auto simp: validateInvoiceId_def validateContractId_def validateMeterId_def validateContract_def safeParse_def async_simps)

lemma invoice_ops_refuse:
  assumes "zod_documented L zparse"
  shows "refuses_bad_ids (getInvoiceDetail (billing_checks zparse) b cid)" "refuses_bad_ids (getInvoicePdf (billing_checks zparse) b cid)"
    "refuses_bad_ids (getTariffPlan (billing_checks zparse) b cid)" "refuses_bad_ids (getApplicableFees (billing_checks zparse) b cid)"
    "refuses_bad_ids (\<lambda>i. getTariffBreakdown (billing_checks zparse) b cid i j)" "refuses_bad_ids (getTariffBreakdown (billing_checks zparse) b cid i)"
  by (simp_all add: refuses_bad_ids_def getInvoiceDetail_def getInvoicePdf_def getTariffPlan_def getApplicableFees_def
      getTariffBreakdown_def async_simps id_validators [OF assms])

lemma usage_ops_refuse:
  assumes "zod_documented L zparse"
  shows "refuses_bad_ids (getCalibrationStatus (usage_checks zparse) b cid)" "refuses_bad_ids (getMeterHistory (usage_checks zparse) b cid)"
  by (simp_all add: refuses_bad_ids_def getCalibrationStatus_def getMeterHistory_def async_simps id_validators [OF assms])

lemma contract_ops_refuse:
  assumes "zod_documented L zparse"
  shows "refuses_bad_ids (getContractDetail (contract_checks_of zparse) b cid)" "refuses_bad_ids (getContractVersions (contract_checks_of zparse) b cid)"
    "refuses_bad_ids (getContractPDF (contract_checks_of zparse) b cid)"
  by (simp_all add: refuses_bad_ids_def getContractDetail_def getContractVersions_def getContractPDF_def async_simps id_validators [OF assms])

text \<open>The other values of a path that are checked: the month of a reading, and the id of an alert.\<close>

definition refuses_unless :: "(string \<Rightarrow> bool) \<Rightarrow> (string \<Rightarrow> ('c, 's, 'a) bff) \<Rightarrow> bool" where
  "refuses_unless P f \<longleftrightarrow> (\<forall>s w. \<not> P s \<longrightarrow> (\<exists>m. f s w = (Inl (ValidationException m), w)))"

lemma schema_refuses:
  assumes "zod_documented L zparse" "zod_out L z (Some v) = None"
  shows "\<exists>m. schema_of zparse z f v = Inl m"
  using schema_of_Inr [OF assms(1), of z f v] assms(2) by (cases "schema_of zparse z f v") auto

lemma other_ops_refuse:
  assumes "zod_documented L zparse"
  shows "refuses_unless month_shape (getReadingDetail (usage_checks zparse) b cid)"
    and "refuses_unless id_shape (\<lambda>i. acknowledgeAlert (notification_checks zparse) b i cid)"
proof -
  have "\<exists>m. us_period (usage_checks zparse) (JStr s) = Inl m" if "\<not> month_shape s" for s
    using schema_refuses [OF assms, of PeriodParamSchema "JStr s"] that by (simp add: usage_checks_def PeriodParamSchema_def)
  then show "refuses_unless month_shape (getReadingDetail (usage_checks zparse) b cid)"
    by (fastforce simp: refuses_unless_def getReadingDetail_def validatePeriod_def safeParse_def async_simps)
  have "\<exists>m. ns_alertId (notification_checks zparse) (JObj [(''alertId'', JStr s)]) = Inl m" if "\<not> id_shape s" for s
  proof -
    have "zod_out L AlertIdParamSchema (Some (JObj [(''alertId'', JStr s)])) = None"
      using that by (simp add: AlertIdParamSchema_def)
    from schema_refuses [OF assms this] show ?thesis by (simp add: notification_checks_def)
  qed
  then show "refuses_unless id_shape (\<lambda>i. acknowledgeAlert (notification_checks zparse) b i cid)"
    by (fastforce simp: refuses_unless_def acknowledgeAlert_def safeParse_def async_simps)
qed

text \<open>
  An operation does not check its identifier when, whatever text that is, it begins with the call of its port and gives the
  text to it as it came.
\<close>

definition sends_any_id :: "('c, 's) bff_request \<Rightarrow> (string \<Rightarrow> ('c, 's, 'a) bff) \<Rightarrow> bool" where
  "sends_any_id b f \<longleftrightarrow>
     (\<exists>p m k g. \<forall>i. \<exists>ps. map_of ps k = Some (JStr i) \<and> f i = bnd (callPort b 0 p m ps) g)"

lemma sends_fetch: "(\<And>i. map_of (ps i) k = Some (JStr i)) \<Longrightarrow> sends_any_id b (\<lambda>i. fetch b p m (ps i))"
  unfolding sends_any_id_def fetch_def by blast

lemma sends_fetch_or: "(\<And>i. map_of (ps i) k = Some (JStr i)) \<Longrightarrow> sends_any_id b (\<lambda>i. fetch_or b p m (ps i) e)"
proof -
  have "fetch_or b p m q e = bnd (callPort b 0 p m q) (\<lambda>r. bnd (ret (pr_data r)) (data_or e))" for q
    by (rule ext) (auto simp: fetch_or_def fetch_def async_simps split: prod.split sum.split)
  then show "(\<And>i. map_of (ps i) k = Some (JStr i)) \<Longrightarrow> ?thesis" unfolding sends_any_id_def by blast
qed

lemma safeParse_accepts: "schema v = Inr x \<Longrightarrow> bnd (safeParse schema v msg) f = f x"
  by (rule ext) (simp add: safeParse_def async_simps split: prod.split)

lemma unchecked_reads:
  "sends_any_id b (getMeterStatus b cid)" "sends_any_id b (getEcontract b cid)" "sends_any_id b (getReportDetail b cid)"
  "sends_any_id b (getIncidentDetail b)" "sends_any_id b (getOnboardingStatus b)" "sends_any_id b (getCutoffSchedule b)"
  unfolding getMeterStatus_def getEcontract_def getReportDetail_def getIncidentDetail_def getOnboardingStatus_def getCutoffSchedule_def
  by (rule sends_fetch_or [where k = "''meterId''"] sends_fetch [where k = "''dossierId''"] sends_fetch [where k = "''reportId''"]
      sends_fetch [where k = "''incidentId''"] sends_fetch [where k = "''requestId''"] sends_fetch [where k = "''areaId''"],
      simp add: customer_def)+

lemma unchecked_writes:
  "cs_sign C body = Inr sig \<Longrightarrow> sends_any_id b (\<lambda>i. signEcontract C b cid i body)"
  "rs_updateStatus R body = Inr st \<Longrightarrow> sends_any_id b (\<lambda>i. updateIncidentStatus R b i body)"
  "as_documents A body = Inr docs \<Longrightarrow> sends_any_id b (\<lambda>i. submitDocuments A b i cid body)"
  by (simp_all add: signEcontract_def updateIncidentStatus_def submitDocuments_def safeParse_accepts)
    (rule sends_fetch [where k = "''dossierId''"] sends_fetch [where k = "''incidentId''"] sends_fetch [where k = "''requestId''"],
      simp add: customer_def)+

section \<open>Pages\<close>

text \<open>A coerced number with a default is there after parsing, and passes its checks.\<close>

lemma map_of_map_fields: "map_of (map (\<lambda>f. (fst f, g (snd f) (fst f))) fs) k = map_option (\<lambda>z. g z k) (map_of fs k)"
  by (induction fs) auto

lemma defaulted_number:
  assumes "list_all (number_ok d) cs" "zod_out L (ZDefault (ZCoerceNumber cs) (JNum d)) v \<noteq> None"
  shows "\<exists>n. zod_out L (ZDefault (ZCoerceNumber cs) (JNum d)) v = Some (Some (JNum n)) \<and> list_all (number_ok n) cs"
proof (cases v)
  case (Some j)
  with assms(2) show ?thesis by (cases "zf_number L j") (simp_all add: number_out_def split: if_splits)
qed (use assms(1) in simp)

text \<open>A field of a parsed object holds what its schema makes of the property.\<close>

lemma object_field:
  assumes "zod_out L (ZObject fs) (Some v) = Some w" "distinct (map fst fs)" "map_of fs k = Some z"
  shows "\<exists>u. zod_out L z u = Some (field_of_out k w)"
proof -
  let ?out = "\<lambda>ps f. (fst f, zod_out L (snd f) (map_of ps (fst f)))"
  obtain ps qs where v: "v = JObj ps" and qs: "collect_fields (map (?out ps) fs) = Some qs" and w: "w = Some (JObj qs)"
    using assms(1) unfolding zod_object_Some by blast
  have "distinct (map fst (map (?out ps) fs))" using assms(2) by (simp add: comp_def)
  note get = collect_fields_get [OF qs this, of k]
  have field: "map_of (map (?out ps) fs) k = Some (zod_out L z (map_of ps k))"
    using assms(3) map_of_map_fields [of "\<lambda>z q. zod_out L z (map_of ps q)" fs k] by simp
  have "zod_out L z (map_of ps k) \<noteq> None"
    by (rule collect_fields_all [OF qs map_of_SomeD [OF field]])
  then obtain r where r: "zod_out L z (map_of ps k) = Some r" by blast
  have "map_of qs k = r" unfolding get field r by simp
  with r w show ?thesis by (auto simp: field_of_out_def object_of_def)
qed

lemma coerced_field:
  assumes "zod_out L (ZObject fs) (Some v) = Some w" "distinct (map fst fs)"
    and "map_of fs k = Some (ZDefault (ZCoerceNumber cs) (JNum d))" "list_all (number_ok d) cs"
  shows "\<exists>n. field_of_out k w = Some (JNum n) \<and> list_all (number_ok n) cs"
  using object_field [OF assms(1-3)] defaulted_number [OF assms(4), of L] by force

text \<open>A query that parses names a page, and a size between one and a maximum.\<close>

definition paged :: "zod_formats \<Rightarrow> zod \<Rightarrow> string \<Rightarrow> int \<Rightarrow> bool" where
  "paged L z key most \<longleftrightarrow> (\<forall>q w. zod_out L z (Some q) = Some w \<longrightarrow>
     (\<exists>page n. field_of_out ''page'' w = Some (JNum page) \<and> 1 \<le> page \<and> field_of_out key w = Some (JNum n) \<and> 1 \<le> n \<and> n \<le> most))"

lemma paged_object:
  assumes "distinct (map fst fs)" "map_of fs ''page'' = Some (ZDefault (ZCoerceNumber [NInt, NPositive]) (JNum 1))"
    and "map_of fs key = Some (ZDefault (ZCoerceNumber [NInt, NPositive, NMax most]) (JNum d))" "1 \<le> d" "d \<le> most"
  shows "paged L (ZObject fs) key most"
  unfolding paged_def
proof (intro allI impI)
  fix q w assume out: "zod_out L (ZObject fs) (Some q) = Some w"
  have "\<exists>n. field_of_out ''page'' w = Some (JNum n) \<and> list_all (number_ok n) [NInt, NPositive]"
    by (rule coerced_field [OF out assms(1,2)]) simp
  moreover have "\<exists>n. field_of_out key w = Some (JNum n) \<and> list_all (number_ok n) [NInt, NPositive, NMax most]"
    by (rule coerced_field [OF out assms(1,3)]) (use assms(4,5) in simp)
  ultimately show "\<exists>page n. field_of_out ''page'' w = Some (JNum page) \<and> 1 \<le> page \<and> field_of_out key w = Some (JNum n) \<and> 1 \<le> n \<and> n \<le> most"
    by fastforce
qed

lemma paged_refine: "paged L z key most \<Longrightarrow> paged L (ZRefine z p) key most"
  by (auto simp: paged_def split: option.splits if_splits)

lemma queries_paged:
  "paged L PaymentHistoryQuerySchema ''limit'' 100" "paged L InvoiceListQuerySchema ''limit'' 100"
  "paged L AlertHistoryQuerySchema ''pageSize'' 50" "paged L SessionEventsQuerySchema ''pageSize'' 50"
  "paged L NotificationHistoryQuerySchema ''pageSize'' 50"
  unfolding PaymentHistoryQuerySchema_def InvoiceListQuerySchema_def AlertHistoryQuerySchema_def SessionEventsQuerySchema_def
    NotificationHistoryQuerySchema_def
  by ((rule paged_refine)?, rule paged_object [where d = 10] paged_object [where d = 20], simp_all)+

section \<open>Payments\<close>

lemma collect_items_all: "collect_items os = Some ys \<Longrightarrow> length ys = length os \<and> (\<forall>r \<in> set os. r \<noteq> None)"
  by (induction os arbitrary: ys rule: collect_items.induct) auto

text \<open>A batch is one to twenty well-formed invoice ids, of which some may be the same.\<close>

lemma duplicate_invoices_accepted:
  assumes "zod_documented L zparse"
  shows "ps_createBatch (payment_checks zparse) (JObj [(''invoiceIds'', JArr [JStr ''I1'', JStr ''I1'']), (''method'', JStr ''qr_code'')])
    = Inr ([''I1'', ''I1''], ''qr_code'')"
  by (simp add: payment_checks_def schema_of_Inr [OF assms] CreateBatchPaymentRequestSchema_def PaymentMethodSchema_def
      field_of_out_def object_of_def text_of_out_def texts_of_def jopt_def js_length_def json_nullish_def id_shape_def id_char_def
      is_letter_def is_digit_def)

lemma parsed_number: "zod_out L (ZNumber cs) u = Some w \<Longrightarrow> \<exists>n. w = Some (JNum n) \<and> list_all (number_ok n) cs"
  by (auto simp: number_out_def split: option.splits json.splits if_splits)

lemma collect_items_in: "collect_items os = Some ys \<Longrightarrow> y \<in> set ys \<Longrightarrow> \<exists>v. Some v \<in> set os \<and> json_nullish v JNull = y"
  by (induction os arbitrary: ys rule: collect_items.induct) (auto, blast+)

lemma webhook_amount_positive:
  assumes "zod_documented L zparse" "ps_webhook (payment_checks zparse) body = Inr p"
  shows "0 < wp_amount p"
proof -
  obtain w where w: "zod_out L PaymentWebhookPayloadSchema (Some body) = Some w" "p = read_webhook w"
    using assms(2) by (auto simp: payment_checks_def schema_of_Inr [OF assms(1)])
  have "\<exists>u. zod_out L (ZNumber [NPositive]) u = Some (field_of_out ''amount'' w)"
    using object_field [OF w(1) [unfolded PaymentWebhookPayloadSchema_def], of "''amount''" "ZNumber [NPositive]"] by simp
  then have "\<exists>n. field_of_out ''amount'' w = Some (JNum n) \<and> 0 < n"
    using parsed_number by fastforce
  then show ?thesis using w(2) by (auto simp: read_webhook_def num_of_out_def Let_def)
qed

lemma text_items:
  assumes "collect_items (map (\<lambda>x. zod_out L (ZString cs) (Some x)) xs) = Some ys" "y \<in> set ys"
  shows "\<exists>s t. string_out L cs s = Some t \<and> y = JStr t"
proof -
  obtain v x where "Some v = zod_out L (ZString cs) (Some x)" "json_nullish v JNull = y"
    using collect_items_in [OF assms] unfolding set_map by blast
  then show ?thesis by (cases x; cases "string_out L cs (text_of_out (Some x))") (auto simp: json_nullish_def text_of_out_def)
qed

lemma batch_ids:
  assumes "zod_documented L zparse" "ps_createBatch (payment_checks zparse) body = Inr (ids, m)"
  shows "1 \<le> length ids \<and> length ids \<le> 20 \<and> (\<forall>i \<in> set ids. wf_id i)"
proof -
  let ?id = "ZString [SMin 1, SMax 100, SRegex id_shape]"
  obtain w where w: "zod_out L CreateBatchPaymentRequestSchema (Some body) = Some w" "ids = texts_of (field_of_out ''invoiceIds'' w)"
    using assms(2) by (auto simp: payment_checks_def schema_of_Inr [OF assms(1)])
  obtain u where u: "zod_out L (ZArray ?id 1 (Some 20)) u = Some (field_of_out ''invoiceIds'' w)"
    using object_field [OF w(1) [unfolded CreateBatchPaymentRequestSchema_def], of "''invoiceIds''" "ZArray ?id 1 (Some 20)"] by auto
  obtain xs where xs: "u = Some (JArr xs)" using u by (cases u) (auto split: json.splits)
  have n: "1 \<le> length xs" "length xs \<le> 20" using u unfolding xs by (auto split: if_splits simp: Suc_le_eq)
  obtain ys where ys: "collect_items (map (\<lambda>x. zod_out L ?id (Some x)) xs) = Some ys" "field_of_out ''invoiceIds'' w = Some (JArr ys)"
    using u n unfolding xs zod_out.simps(8) by (cases "collect_items (map (\<lambda>x. zod_out L ?id (Some x)) xs)")
      (simp_all del: zod_out.simps One_nat_def split: if_splits)
  have ids: "ids = map (\<lambda>x. text_of_out (Some x)) ys" using w(2) ys(2) by (simp add: texts_of_def)
  have "wf_id (text_of_out (Some y))" if "y \<in> set ys" for y
    using text_items [OF ys(1) that] unfolding id_out by (auto simp: text_of_out_def split: if_splits)
  then show ?thesis using ids n collect_items_all [OF ys(1)] by auto
qed

section \<open>Sessions\<close>

lemma js_slice_length: "0 \<le> n \<Longrightarrow> 0 \<le> i \<Longrightarrow> length (js_slice xs i (i + n)) \<le> nat n"
  by (simp add: js_slice_def Let_def)

text \<open>
  C39. A page of a user's event history that is answered names a page from one on and holds at most its size, which is at
  most fifty.
\<close>

theorem event_page_bounded:
  assumes "zod_documented L zparse" "getMyEvents (session_checks zparse) getTime userId query store = Inr r"
  shows "1 \<le> sr_page r \<and> int (length (sr_events r)) \<le> sr_pageSize r \<and> 1 \<le> sr_pageSize r \<and> sr_pageSize r \<le> 50"
proof -
  obtain q where q: "session_checks zparse query = Inr q"
    using assms(2) by (cases "session_checks zparse query") (simp_all add: getMyEvents_def)
  then obtain w where w: "zod_out L SessionEventsQuerySchema (Some query) = Some w"
    "sq_page q = num_of_out (field_of_out ''page'' w)" "sq_pageSize q = num_of_out (field_of_out ''pageSize'' w)"
    by (auto simp: session_checks_def schema_of_Inr [OF assms(1)])
  then have b: "1 \<le> sq_page q" "1 \<le> sq_pageSize q" "sq_pageSize q \<le> 50"
    using queries_paged(4) [of L, unfolded paged_def, rule_format, OF w(1)] by (auto simp: num_of_out_def)
  have r: "sr_page r = sq_page q" "sr_pageSize r = sq_pageSize q"
    "sr_events r = js_slice (matching_events getTime userId q store) ((sq_page q - 1) * sq_pageSize q) ((sq_page q - 1) * sq_pageSize q + sq_pageSize q)"
    using assms(2) q by (auto simp: getMyEvents_def Let_def)
  have "length (sr_events r) \<le> nat (sq_pageSize q)"
    unfolding r using b by (intro js_slice_length) simp_all
  then show ?thesis using b r by simp
qed

definition plain_formats :: zod_formats where
  "plain_formats = \<lparr>zf_url = (\<lambda>_. False), zf_email = (\<lambda>_. False), zf_uuid = (\<lambda>_. False), zf_trim = id,
     zf_number = (\<lambda>j. case j of JNum n \<Rightarrow> Some n | _ \<Rightarrow> None)\<rparr>"

text \<open>The second page of size fifty of a user without events.\<close>

theorem event_page_bounded_witness:
  "\<exists>r. getMyEvents (session_checks (reference_parser plain_formats)) (\<lambda>_. None) ''u'' (JObj [(''page'', JNum 2), (''pageSize'', JNum 50)]) [] = Inr r
     \<and> sr_page r = 2 \<and> int (length (sr_events r)) \<le> 50"
proof -
  let ?S = "session_checks (reference_parser plain_formats)"
  let ?q = "JObj [(''page'', JNum 2), (''pageSize'', JNum 50)]"
  obtain r where r: "getMyEvents ?S (\<lambda>_. None) ''u'' ?q [] = Inr r" "sr_page r = 2" "sr_pageSize r = 50"
    by (simp add: getMyEvents_def session_checks_def schema_of_def reference_parser_def SessionEventsQuerySchema_def ChannelTypeSchema_def
        plain_formats_def number_out_def jopt_def field_of_out_def object_of_def num_of_out_def Let_def)
  from event_page_bounded [OF reference_parser_documented r(1)] r show ?thesis by auto
qed

section \<open>Identifiers in paths\<close>

text \<open>
  C38. Which values from the path are checked. Invoice, contract and meter ids are refused before anything is called unless
  they are one to a hundred letters, digits, dashes and underscores, in the eleven operations that check them; so are a
  month and an alert id that do not have their form. The other operations of the services on a value from the path check
  nothing: the status of a meter, the two operations on a dossier, and those on reports, incidents, onboarding requests and areas give
  their port whatever text came, once the body, where there is one, is accepted.
\<close>

theorem path_ids_checked:
  assumes "zod_documented L zparse"
  shows "refuses_bad_ids (getInvoiceDetail (billing_checks zparse) b cid) \<and> refuses_bad_ids (getInvoicePdf (billing_checks zparse) b cid) \<and>
    refuses_bad_ids (getTariffPlan (billing_checks zparse) b cid) \<and> refuses_bad_ids (getApplicableFees (billing_checks zparse) b cid) \<and>
    refuses_bad_ids (\<lambda>i. getTariffBreakdown (billing_checks zparse) b cid i j) \<and> refuses_bad_ids (getTariffBreakdown (billing_checks zparse) b cid i) \<and>
    refuses_bad_ids (getCalibrationStatus (usage_checks zparse) b cid) \<and> refuses_bad_ids (getMeterHistory (usage_checks zparse) b cid) \<and>
    refuses_bad_ids (getContractDetail (contract_checks_of zparse) b cid) \<and> refuses_bad_ids (getContractVersions (contract_checks_of zparse) b cid) \<and>
    refuses_bad_ids (getContractPDF (contract_checks_of zparse) b cid) \<and>
    refuses_unless month_shape (getReadingDetail (usage_checks zparse) b cid) \<and>
    refuses_unless id_shape (\<lambda>i. acknowledgeAlert (notification_checks zparse) b i cid) \<and>
    sends_any_id b (getMeterStatus b cid) \<and> sends_any_id b (getEcontract b cid) \<and> sends_any_id b (getReportDetail b cid) \<and>
    sends_any_id b (getIncidentDetail b) \<and> sends_any_id b (getOnboardingStatus b) \<and> sends_any_id b (getCutoffSchedule b) \<and>
    (\<forall>C body sig. cs_sign C body = Inr sig \<longrightarrow> sends_any_id b (\<lambda>i. signEcontract C b cid i body)) \<and>
    (\<forall>R body st. rs_updateStatus R body = Inr st \<longrightarrow> sends_any_id b (\<lambda>i. updateIncidentStatus R b i body)) \<and>
    (\<forall>A body docs. as_documents A body = Inr docs \<longrightarrow> sends_any_id b (\<lambda>i. submitDocuments A b i cid body))"
  by (intro conjI invoice_ops_refuse [OF assms] usage_ops_refuse [OF assms] contract_ops_refuse [OF assms]
      other_ops_refuse [OF assms] unchecked_reads allI impI) (erule unchecked_writes)+

text \<open>An id that climbs the path is refused as an invoice, and goes to the port as the id of a meter.\<close>

theorem path_ids_checked_witness:
  "(\<exists>m. getInvoiceDetail (billing_checks (reference_parser plain_formats)) (shop_request 0) ''bob'' ''../admin'' shop = (Inl (ValidationException m), shop)) \<and>
   sends_any_id (shop_request 0) (getMeterStatus (shop_request 0) ''bob'')"
proof
  have "\<not> wf_id ''../admin''" by (simp add: wf_id_def id_shape_def id_char_def is_letter_def is_digit_def)
  moreover have "refuses_bad_ids (getInvoiceDetail (billing_checks (reference_parser plain_formats)) (shop_request 0) ''bob'')"
    using path_ids_checked [OF reference_parser_documented, of plain_formats "shop_request 0" "''bob''"] by blast
  ultimately show "\<exists>m. getInvoiceDetail (billing_checks (reference_parser plain_formats)) (shop_request 0) ''bob'' ''../admin'' shop = (Inl (ValidationException m), shop)"
    by (simp add: refuses_bad_ids_def)
  show "sends_any_id (shop_request 0) (getMeterStatus (shop_request 0) ''bob'')"
    using path_ids_checked [OF reference_parser_documented, of plain_formats "shop_request 0" "''bob''"] by blast
qed

section \<open>Date ranges\<close>

text \<open>The digits of a date read as one number: year, month and day in that order.\<close>

definition date_number :: "string \<Rightarrow> nat" where
  "date_number s = parse_dec (filter is_digit s)"

lemma parse_dec_acc:
  "foldl (\<lambda>acc c. acc * 10 + (of_char c - 48)) a s = a * 10 ^ length s + (parse_dec s :: nat)"
proof (induction s arbitrary: a)
  case (Cons c s)
  have "parse_dec (c # s) = foldl (\<lambda>acc c. acc * 10 + (of_char c - 48)) (of_char c - 48) s" by (simp add: parse_dec_def)
  then show ?case using Cons [of "a * 10 + (of_char c - 48)"] Cons [of "of_char c - 48"] by (simp add: algebra_simps)
qed (simp add: parse_dec_def)

lemma parse_dec_Cons: "parse_dec (c # s) = (of_char c - 48) * 10 ^ length s + parse_dec s"
  using parse_dec_acc [of "of_char c - 48" s] by (simp add: parse_dec_def)

lemma parse_dec_bound: "list_all is_digit s \<Longrightarrow> parse_dec s < 10 ^ length s"
proof (induction s)
  case (Cons c s)
  then have "of_char c - 48 \<le> (9 :: nat)" by (auto simp: is_digit_def)
  then have "(of_char c - 48) * 10 ^ length s \<le> 9 * (10 :: nat) ^ length s" by (rule mult_le_mono1)
  moreover have "parse_dec s < 10 ^ length s" using Cons by simp
  ultimately show ?case by (simp only: parse_dec_Cons length_Cons power_Suc)
qed (simp add: parse_dec_def)

lemma parse_dec_less:
  assumes "is_digit c" "is_digit d" "(of_char c :: nat) < of_char d" "length s = length t" "list_all is_digit s"
  shows "parse_dec (c # s) < parse_dec (d # t)"
proof -
  have "of_char c - 48 + 1 \<le> (of_char d - 48 :: nat)" using assms(1-3) by (simp add: is_digit_def)
  then have "(of_char c - 48 + 1) * 10 ^ length s \<le> (of_char d - 48) * (10 :: nat) ^ length s" by (rule mult_le_mono1)
  moreover have "parse_dec s < 10 ^ length s" using parse_dec_bound assms(5) .
  ultimately show ?thesis using assms(4) by (simp add: parse_dec_Cons)
qed

lemma same_shape_digits:
  assumes "list_all2 (\<lambda>p c. p c) ps s" "list_all2 (\<lambda>p c. p c) ps t" "set ps \<subseteq> {is_digit, is_dash}"
  shows "length (filter is_digit s) = length (filter is_digit t)"
  using assms
proof (induction ps arbitrary: s t)
  case (Cons p ps)
  obtain c s' where s: "s = c # s'" "p c" "list_all2 (\<lambda>p c. p c) ps s'" using Cons.prems(1) by (auto simp: list_all2_Cons1)
  obtain d t' where t: "t = d # t'" "p d" "list_all2 (\<lambda>p c. p c) ps t'" using Cons.prems(2) by (auto simp: list_all2_Cons1)
  have "p = is_digit \<or> p = is_dash" using Cons.prems(3) by simp
  then have "is_digit c = is_digit d" using s(2) t(2) by (elim disjE) (simp_all add: is_dash_def)
  moreover have "length (filter is_digit s') = length (filter is_digit t')"
    using Cons.IH [OF s(3) t(3)] Cons.prems(3) by simp
  ultimately show ?case using s(1) t(1) by simp
qed simp

text \<open>Texts of one shape of digits and dashes compare as their numbers do.\<close>

lemma shaped_order:
  assumes "list_all2 (\<lambda>p c. p c) ps s" "list_all2 (\<lambda>p c. p c) ps t" "set ps \<subseteq> {is_digit, is_dash}"
  shows "str_le s t \<longleftrightarrow> date_number s \<le> date_number t"
  using assms
proof (induction ps arbitrary: s t)
  case (Cons p ps)
  obtain c s' where s: "s = c # s'" "p c" "list_all2 (\<lambda>p c. p c) ps s'" using Cons.prems(1) by (auto simp: list_all2_Cons1)
  obtain d t' where t: "t = d # t'" "p d" "list_all2 (\<lambda>p c. p c) ps t'" using Cons.prems(2) by (auto simp: list_all2_Cons1)
  have IH: "str_le s' t' \<longleftrightarrow> date_number s' \<le> date_number t'" by (rule Cons.IH) (use s t Cons.prems(3) in auto)
  have len: "length (filter is_digit s') = length (filter is_digit t')"
    using same_shape_digits [OF s(3) t(3)] Cons.prems(3) by simp
  show ?case
  proof (cases "p = is_digit")
    case True
    then have dig: "is_digit c" "is_digit d" using s t by simp_all
    consider "(of_char c :: nat) < of_char d" | "c = d" | "(of_char d :: nat) < of_char c" by (metis linorder_neqE_nat of_char_eq_iff)
    then show ?thesis
    proof cases
      case 1
      then have "date_number s < date_number t" unfolding date_number_def s t using dig len
        by (simp add: parse_dec_less list_all_iff)
      then show ?thesis using 1 s t by simp
    next
      case 2
      then show ?thesis using IH s t dig len by (simp add: date_number_def parse_dec_Cons)
    next
      case 3
      then have "date_number t < date_number s" unfolding date_number_def s t using dig len
        by (simp add: parse_dec_less list_all_iff)
      then show ?thesis using 3 s t by auto
    qed
  next
    case False
    then have "p = is_dash" using Cons.prems(3) by simp
    then have "c = CHR ''-''" "d = CHR ''-''" using s t by (simp_all add: is_dash_def)
    then show ?thesis using IH s t by (simp add: date_number_def is_digit_def)
  qed
qed simp

lemma day_order: "day_shape s \<Longrightarrow> day_shape t \<Longrightarrow> str_le s t \<longleftrightarrow> date_number s \<le> date_number t"
  unfolding day_shape_def has_shape_def by (rule shaped_order) (auto simp: month_pattern_def)

fun unrefined :: "zod \<Rightarrow> zod" where
  "unrefined (ZRefine z p) = z"
| "unrefined z = z"

lemma day_field:
  assumes "zod_out L (ZObject fs) (Some q) = Some w" "distinct (map fst fs)"
    and "map_of fs k = Some (ZOptional (ZString [SRegex day_shape]))" "field_of_out k w = Some (JStr s)"
  shows "day_shape s"
proof -
  obtain u where "zod_out L (ZOptional (ZString [SRegex day_shape])) u = Some (Some (JStr s))"
    using object_field [OF assms(1-3)] assms(4) by auto
  then show ?thesis by (cases u) (auto split: json.splits if_splits)
qed

text \<open>
  C40. A history query whose parts are valid is accepted exactly when the start of its range, read as year, month and day,
  is not after its end.
\<close>

theorem history_range_chronological:
  assumes "zod_documented L zparse"
    and "zod_out L (unrefined NotificationHistoryQuerySchema) (Some (JObj filters)) = Some w"
    and "field_of_out ''startDate'' w = Some (JStr s)" "field_of_out ''endDate'' w = Some (JStr t)"
  shows "(\<exists>x. ns_history (notification_checks zparse) (JObj filters) = Inr x) \<longleftrightarrow> date_number s \<le> date_number t"
proof -
  let ?N = NotificationHistoryQuerySchema
  have refine: "zod_out L ?N (Some (JObj filters)) = (if dates_in_order (object_of w) then Some w else None)"
    using assms(2) unfolding NotificationHistoryQuerySchema_def by (simp del: zod_out.simps add: zod_out.simps(13))
  have s: "day_shape s" by (rule day_field [OF assms(2) [unfolded NotificationHistoryQuerySchema_def unrefined.simps] _ _ assms(3)]) simp_all
  have t: "day_shape t" by (rule day_field [OF assms(2) [unfolded NotificationHistoryQuerySchema_def unrefined.simps] _ _ assms(4)]) simp_all
  have "s \<noteq> []" "t \<noteq> []" using s t by (auto simp: day_shape_def has_shape_def month_pattern_def)
  then have "dates_in_order (object_of w) \<longleftrightarrow> date_number s \<le> date_number t"
    using assms(3,4) day_order [OF s t] by (simp add: dates_in_order_def field_of_out_def)
  then show ?thesis
    using refine by (auto simp: notification_checks_def schema_of_Inr [OF assms(1)])
qed

text \<open>The range of alerts, which the same service serves, is not checked: one that ends before it starts is accepted.\<close>

lemma alert_range_unchecked:
  assumes "zod_documented L zparse"
  shows "\<exists>x. ns_alertHistory (notification_checks zparse)
    (JObj [(''startDate'', JStr ''2026-02-01''), (''endDate'', JStr ''2026-01-01'')]) = Inr x"
  by (simp add: notification_checks_def schema_of_Inr [OF assms] AlertHistoryQuerySchema_def day_shape_def has_shape_def month_pattern_def
      is_digit_def is_dash_def number_out_def numeral_eq_Suc)

text \<open>From the last day of January to the first of February.\<close>

theorem history_range_chronological_witness:
  "\<exists>x. ns_history (notification_checks (reference_parser plain_formats))
    (JObj [(''startDate'', JStr ''2026-01-31''), (''endDate'', JStr ''2026-02-01'')]) = Inr x"
proof -
  let ?q = "[(''startDate'', JStr ''2026-01-31''), (''endDate'', JStr ''2026-02-01'')]"
  have shapes: "day_shape ''2026-01-31''" "day_shape ''2026-02-01''"
    by (simp_all add: day_shape_def has_shape_def month_pattern_def is_digit_def is_dash_def numeral_eq_Suc)
  have out: "zod_out plain_formats (unrefined NotificationHistoryQuerySchema) (Some (JObj ?q)) =
    Some (Some (JObj ([(''page'', JNum 1), (''pageSize'', JNum 20)] @ ?q)))"
    by (simp add: NotificationHistoryQuerySchema_def shapes NotificationChannelSchema_def NotificationTypeSchema_def jopt_def)
  have "date_number ''2026-01-31'' \<le> date_number ''2026-02-01''"
    by (simp add: date_number_def is_digit_def parse_dec_def)
  with history_range_chronological [OF reference_parser_documented out] show ?thesis
    by (simp add: field_of_out_def object_of_def)
qed

section \<open>Phone numbers\<close>

text \<open>The registration form takes texts that are no phone numbers, and refuses none that is one.\<close>

lemma phone_numbers_accepted:
  assumes "b \<in> set ''35789''" "length s = 8" "list_all is_digit s"
  shows "phone_shape (CHR ''0'' # b # s)"
  using assms by (auto simp: has_shape_def list_all2_conv_all_nth list_all_length)

lemma phone_shape_too_wide: "phone_shape ''0|12345678''" "phone_shape ''03050312345678''"
  by (simp_all add: has_shape_def is_digit_def numeral_eq_Suc)

end
