(* ===== verification/Spec2Isabelle.thy ===== *)
theory Spec2Isabelle
  imports Memory_Cache Circuit_Breaker Binding_Rates Binding_Scope Binding_Guard Binding_Audit
    Port_Http Port_Safety Port_Caching Port_Clients Retry Outbox Server Mock_Scope Rate_Limit Access
    Redis_Cache Accounts Request_Logging Unit_Of_Work Health Platform Circuit_Policies Database_Pools Tracing Port_Contracts Request_Checks
begin

text \<open>
  Verification library of the customer self-service backend of a water company: a NestJS server that authenticates
  customers, ties a login to a customer record by a secret from a bill, and passes requests on to the services that own
  the data. The server keeps sessions, bindings, messages and caches of its own; everything else is reached through
  named ports, each with an adapter to a real service or to a fixture. All paths below are under src/src of the repository.

  \<^bold>\<open>How a request travels.\<close> The correlation middleware and the middleware of the signed-in user make the request context;
  the session guard and the binding guard, which are global, admit or refuse (\<open>Auth\<close>, \<open>Binding_Guard\<close>); the controller's
  handler (\<open>Controllers\<close>) reads the customer that the guard found and calls a service (\<open>Bff_Services\<close>, \<open>Payment\<close>, \<open>Chat\<close>,
  \<open>Sessions\<close>); the service validates its input with a schema (\<open>Dto_Schemas\<close>, \<open>Request_Checks\<close>) and calls the port registry
  (\<open>Port_Registry\<close>), which decides between cache, breaker, adapter, queue and fallback; the interceptor or the exception
  filter makes the reply (\<open>Http_Filter\<close>). \<open>Server\<close> composes all of it into one function from a request to a reply.

  \<^bold>\<open>Theories and the code they model.\<close>

  \<^item> \<open>Prelude\<close>, \<open>Json\<close>, \<open>Json_Parse\<close>: what the code uses of JavaScript: defaults with \<^verbatim>\<open>||\<close> and \<^verbatim>\<open>??\<close>, insertion-ordered
    maps, decimal text, JSON values with their text and back, and the sequencing of asynchronous code that may throw:
    a computation takes a state and gives an error or a value, and a state. The locale \<open>evolution\<close> carries a relation
    that every step preserves along histories.
  \<^item> \<open>Memory_Cache\<close>, \<open>Redis_Cache\<close> (libs/shared/caching): the cache port and its two implementations. The locales
    \<open>ttl_cache\<close>, \<open>reliable_cache\<close> and \<open>claim_cache\<close> state the contract on which the limiter, the idempotency service and the
    read cache are proved; they are interpreted on the in-process cache, and \<open>redis_cache_contract\<close> proves the same laws
    for Redis over a server that answers.
  \<^item> \<open>Binding_Types\<close>, \<open>Customer_Service\<close>, \<open>Pii_Encryption\<close>, \<open>Binding_Limiter\<close>, \<open>Binding\<close>, \<open>Binding_Histories\<close>,
    \<open>Binding_Rates\<close>, \<open>Binding_Scope\<close>, \<open>Binding_Guard\<close>, \<open>Binding_Audit\<close> (modules/binding, modules/account/clients,
    modules/auth persistence): the binding flow with its limiter, tables, audit trail and guard, over the customer
    service and its mock. Whole histories of requests are lists of timed requests.
  \<^item> \<open>Circuit_Breaker\<close>, \<open>Breaker_Protocol\<close>, \<open>Circuit_Policies\<close>, \<open>Retry\<close>, \<open>Fallback\<close> (libs/shared/resilience): the breaker's
    state machine, an abstract breaker that it refines, the decorator service, its interceptor and presets, the retry
    loop, the fallback provider with its timed cache.
  \<^item> \<open>Request_Context\<close>, \<open>Port_Http\<close>, \<open>Port_Services\<close>, \<open>Port_Registry\<close>, \<open>Port_Safety\<close>, \<open>Port_Caching\<close>, \<open>Port_Clients\<close>
    (libs/shared/context, auth-propagation, port, endpoint-config, queue): the identity of a request and its token, the
    HTTP client, the adapters' base classes, endpoint files, the replay queue, inbound deduplication, and the registry.
  \<^item> \<open>Outbox\<close>, \<open>Unit_Of_Work\<close>, \<open>Aggregates\<close>, \<open>Database_Pools\<close> (libs/shared/database, libs/core, modules/auth/domain): the
    outbox table with several processors, transactions, projections, the user aggregate and its repository, and the
    connection pools.
  \<^item> \<open>Idempotency\<close>, \<open>Bff\<close>, \<open>Bff_Services\<close>, \<open>Payment\<close>, \<open>Chat\<close>, \<open>Sessions\<close> (libs/shared/idempotency, modules/*): the services.
  \<^item> \<open>Auth\<close>, \<open>Accounts\<close>, \<open>Access\<close>, \<open>Rate_Limit\<close> (modules/auth, libs/shared/security): guards, login hooks and providers,
    one-time passwords, roles and permissions, request limits.
  \<^item> \<open>Zod\<close>, \<open>Dto_Schemas\<close>, \<open>Port_Contracts\<close>, \<open>Request_Checks\<close>, \<open>Validation\<close> (modules/*/dto, config, modules/*/clients,
    libs/shared/validation): every schema as a value, the tables of the ports' contracts, and what the services let
    through when they use these schemas.
  \<^item> \<open>Http_Filter\<close>, \<open>Structured_Errors\<close>, \<open>Controllers\<close>, \<open>Server\<close> (libs/shared/http, libs/shared/errors, modules, main.ts):
    exceptions, replies, routes, and the whole request.
  \<^item> \<open>Mock_Adapters\<close>, \<open>Mock_Scope\<close> (modules/*/clients): the adapters over fixtures and rows with owners; the locale
    \<open>owner_scoped\<close> is interpreted on the rows of the fixtures and on the incident reports.
  \<^item> \<open>Redaction\<close>, \<open>Request_Logging\<close>, \<open>Structured_Logger\<close>, \<open>Tracing\<close>, \<open>Health\<close>, \<open>Platform\<close> (libs/shared/security,
    observability, health, cqrs, logging): audit log, request log and metrics, log entries, spans, health checks, the
    event bus.

  A class is a record of its fields, a method a function from its arguments and the record (or a larger state that holds
  it) to the result and the new record; an exception is the left side of a sum; an enumeration is a datatype whose text
  is a function \<open>..._str\<close>. Definitions keep the names of the source, with a prefix where two classes share a name.

  \<^bold>\<open>What the lemmas show.\<close> In each theory the first lemmas give the effect of single operations on every branch; then
  come the invariant and its preservation, and the properties. The main ones: a bind examines only references offered for
  the user's own phone, secrets can be guessed at a bounded rate, and a guarded request carries the customer of a verified
  row (\<open>Binding_*\<close>); a call of a port fails only with the typed exceptions, the breaker of a port is in the phase that an
  abstract breaker with rules of its own computes from the port's calls, and a cached answer was given to a call with the same parameters (\<open>Port_*\<close>); no outbox event is lost or held
  twice (\<open>Outbox\<close>); a batch is paid only after its invoices were verified (\<open>Payment\<close>); replies have the documented form and
  routes over customer data the right customer (\<open>Server\<close>); owner-scoped answers do not depend on the rows of others
  (\<open>Mock_Scope\<close>); invoice, contract and meter ids, pages and date ranges are checked before anything is called, and which
  values of a path are not (\<open>Request_Checks\<close>); a user's links, events and version are those of its history (\<open>Aggregates\<close>); a
  conversation is exactly the customer's and the agents' messages, in order (\<open>Chat\<close>). Where the
  code does not do what it means to, the theorem states what it does: breakers of the decorator service that never close
  (\<open>Circuit_Breaker\<close>), a refused customer who is shown another's invoice (\<open>Mock_Scope\<close>), a payment with the amount of
  another invoice (\<open>Payment\<close>), a user with two events who cannot be saved (\<open>Aggregates\<close>), a failure reported for a
  transaction that commits (\<open>Unit_Of_Work\<close>), declared rate limits that are never found and would refuse nothing
  (\<open>Rate_Limit\<close>), conditions on ownership that everybody meets (\<open>Access\<close>).

  \<^bold>\<open>Assumptions and bounds.\<close>

  \<^item> Libraries are arguments. What the proofs rely on is a named predicate that states documented behaviour: authenticated
    encryption, token signing, the Redis commands, the session library, the table's version check, the database's transactions, the collation of texts, \<open>zod_documented\<close> for
    schemas. Each property with such a hypothesis has a witness with a concrete library.
  \<^item> Time is in whole milliseconds and is read once per operation, or once per step where the code awaits in between.
    Operations of one component take effect one after the other; where the order of awaits matters (breakers, outbox
    processors, claims) the halves are separate steps of a relation or a history. A transaction that runs into its time limit
    is placed before or after the caller's clean-up by the time at which it begins.
  \<^item> Numbers of JSON are integers, percentages exact rationals, counters naturals. Texts are lists of UTF-8 bytes; lengths
    that a schema checks are counted in UTF-16 units (\<open>js_length\<close>).
  \<^item> The parser of JSON has the length of its text as fuel, which is enough (\<open>Json_Parse\<close>). Loops over attempts, pages and
    entries recurse on what is left; no other fuel is used.
  \<^item> Database statements succeed unless a failure is modelled by an argument (the mock store, the outbox, transactions).
    The cache of the bindings and that of the ports are separate states, since their keys have different prefixes.

  \<^bold>\<open>Not modelled.\<close> Table declarations, migrations and the query builder (rows are records); the modules that only list
  providers; the start-up of the server, Swagger, CORS and body parsing (main.ts), whose guards, filter and interceptor
  are in \<open>Server\<close>; the set-up of OpenTelemetry and the pino library behind the loggers; the command and query buses, which
  forward to the library of the same interface; interfaces and tokens, which have no code; the text of log lines, except
  where the log is the subject; the storage and delivery of the replay queue, which are BullMQ's; tests, fixtures, scripts
  and documentation. Routing by path is left to the framework: a request names its handler.
\<close>

end
